(* ===== verification/Prelude.thy ===== *)
theory Prelude
  imports Main "HOL-Library.List_Lexorder" "HOL-Library.Product_Lexorder"
    "HOL-Library.Char_ord" "HOL-Library.Multiset"
begin

text \<open>
  Shared vocabulary of the development: Python exceptions as values, the result type of
  code that may raise, insertion-ordered dictionaries, stable sorting, and the generic
  lemmas about them that the component theories use.
\<close>

named_theorems result_simps \<open>evaluation of code that may raise\<close>

section \<open>Exceptions as values\<close>

text \<open>
  One constructor per exception class that the modelled code raises or lets escape.
  Message texts are not modelled: callers branch on the class (and on the typed reason
  codes), and the package documents the text as diagnostics.
\<close>

datatype py_error =
    ValueError
  | TypeError
  | OverflowError
  | ZeroDivisionError
  | KeyError
  | InvalidOperation \<comment> \<open>decimal.InvalidOperation\<close>
  | AssertionError
  | AttributeError
  | MixedBidDenominations
  | UnsupportedSnapshotVersion
  | TransitionError
  | ReservationTransitionError
  | PersistenceConfirmationError
  | PermitRedemptionError
  | FinancialTransitionError

type_synonym 'a result = "py_error + 'a"

definition bindR :: "'e + 'a \<Rightarrow> ('a \<Rightarrow> 'e + 'b) \<Rightarrow> 'e + 'b" where
  "bindR r f = (case r of Inl e \<Rightarrow> Inl e | Inr x \<Rightarrow> f x)"

text \<open>\<open>raise_if c e\<close> is the statement \<^verbatim>\<open>if c: raise e\<close>.\<close>

definition raise_if :: "bool \<Rightarrow> 'e \<Rightarrow> 'e + unit" where
  "raise_if c e = (if c then Inl e else Inr ())"

primrec mapR :: "('a \<Rightarrow> 'e + 'b) \<Rightarrow> 'a list \<Rightarrow> 'e + 'b list" where
  "mapR f [] = Inr []"
| "mapR f (x # xs) = bindR (f x) (\<lambda>y. bindR (mapR f xs) (\<lambda>ys. Inr (y # ys)))"

primrec foldR :: "('a \<Rightarrow> 's \<Rightarrow> 'e + 's) \<Rightarrow> 'a list \<Rightarrow> 's \<Rightarrow> 'e + 's" where
  "foldR f [] s = Inr s"
| "foldR f (x # xs) s = bindR (f x s) (foldR f xs)"

text \<open>A dataclass constructor: the record, if its checks \<open>ok\<close> pass.\<close>

definition construct :: "('a \<Rightarrow> bool) \<Rightarrow> 'a \<Rightarrow> 'a result" where
  "construct ok x = (if ok x then Inr x else Inl ValueError)"

definition is_ok :: "'e + 'a \<Rightarrow> bool" where
  "is_ok r = (case r of Inl _ \<Rightarrow> False | Inr _ \<Rightarrow> True)"

lemma bindR_simps [simp, result_simps]:
  "bindR (Inl e) f = Inl e"
  "bindR (Inr x) f = f x"
  by (simp_all add: bindR_def)

lemma raise_if_simps [simp, result_simps]:
  "raise_if True e = Inl e"
  "raise_if False e = Inr ()"
  by (simp_all add: raise_if_def)

lemma bindR_eq_Inr [simp]:
  "bindR r f = Inr y \<longleftrightarrow> (\<exists>x. r = Inr x \<and> f x = Inr y)"
  by (cases r) auto

lemma bindR_eq_Inl:
  "bindR r f = Inl e \<longleftrightarrow> r = Inl e \<or> (\<exists>x. r = Inr x \<and> f x = Inl e)"
  by (cases r) auto

lemma raise_if_eq_Inr [simp]: "raise_if c e = Inr u \<longleftrightarrow> \<not> c"
  by (simp add: raise_if_def)

lemma raise_if_eq_Inl [simp]: "raise_if c e = Inl e' \<longleftrightarrow> c \<and> e' = e"
  by (auto simp: raise_if_def)

lemma is_ok_simps [simp]: "is_ok (Inr x)" "\<not> is_ok (Inl e)"
  by (simp_all add: is_ok_def)

lemma is_okE: "is_ok r \<Longrightarrow> (\<And>x. r = Inr x \<Longrightarrow> P) \<Longrightarrow> P"
  by (cases r) simp_all

lemma bindR_assoc: "bindR (bindR r f) g = bindR r (\<lambda>x. bindR (f x) g)"
  by (cases r) simp_all

lemma mapR_length: "mapR f xs = Inr ys \<Longrightarrow> length ys = length xs"
  by (induction xs arbitrary: ys) auto

lemma mapR_Inr_all:
  "mapR f xs = Inr ys \<longleftrightarrow> list_all2 (\<lambda>x y. f x = Inr y) xs ys"
  by (induction xs arbitrary: ys) (auto simp: list_all2_Cons1)

lemma mapR_all_Inr:
  "(\<And>x. x \<in> set xs \<Longrightarrow> f x = Inr (g x)) \<Longrightarrow> mapR f xs = Inr (map g xs)"
  by (induction xs) simp_all

lemma foldR_append: "foldR f (xs @ ys) s = bindR (foldR f xs s) (foldR f ys)"
proof (induction xs arbitrary: s)
  case (Cons x xs)
  then show ?case by (cases "f x s") simp_all
qed simp

lemma foldR_invariant:
  assumes "\<And>x s s'. x \<in> set xs \<Longrightarrow> I s \<Longrightarrow> f x s = Inr s' \<Longrightarrow> I s'"
    and "I s" and "foldR f xs s = Inr s'"
  shows "I s'"
  using assms by (induction xs arbitrary: s) auto

text \<open>
  Which exceptions a computation can raise, by its structure; \<open>raises_intro\<close> collects the
  rules, to which each component adds the rules of its own operations.
\<close>

named_theorems raises_intro \<open>which exceptions can be raised\<close>

definition raises_only :: "'e set \<Rightarrow> 'e + 'a \<Rightarrow> bool" where
  "raises_only E r \<longleftrightarrow> (case r of Inl e \<Rightarrow> e \<in> E | Inr _ \<Rightarrow> True)"

lemma raises_onlyD: "raises_only E r \<Longrightarrow> r = Inl e \<Longrightarrow> e \<in> E"
  by (simp add: raises_only_def)

lemma raises_only_basic [raises_intro]:
  "raises_only E (Inr x)"
  "e \<in> E \<Longrightarrow> raises_only E (Inl e)"
  "e \<in> E \<Longrightarrow> raises_only E (raise_if c e)"
  by (auto simp: raises_only_def raise_if_def)

lemma raises_only_bindR [raises_intro]:
  "raises_only E r \<Longrightarrow> (\<And>x. r = Inr x \<Longrightarrow> raises_only E (f x)) \<Longrightarrow> raises_only E (bindR r f)"
  by (cases r) (auto simp: raises_only_def)

lemma raises_only_if [raises_intro]:
  "(c \<Longrightarrow> raises_only E r) \<Longrightarrow> (\<not> c \<Longrightarrow> raises_only E s) \<Longrightarrow> raises_only E (if c then r else s)"
  by simp

lemma raises_only_option [raises_intro]:
  "raises_only E r \<Longrightarrow> (\<And>x. v = Some x \<Longrightarrow> raises_only E (f x)) \<Longrightarrow>
   raises_only E (case v of None \<Rightarrow> r | Some x \<Rightarrow> f x)"
  by (cases v) simp_all

lemma raises_only_let [raises_intro]: "raises_only E (f x) \<Longrightarrow> raises_only E (let y = x in f y)"
  by simp

section \<open>Insertion-ordered dictionaries\<close>

text \<open>
  A Python \<open>dict\<close> keeps its keys in insertion order, and an assignment to a key that is
  already there replaces the value without moving it. The association list below has the
  entries in that order; \<open>dict_ok\<close> (no key twice) is its representation invariant.
\<close>

type_synonym ('k, 'v) dict = "('k \<times> 'v) list"

abbreviation dict_get :: "('k, 'v) dict \<Rightarrow> 'k \<Rightarrow> 'v option" where
  "dict_get \<equiv> map_of"

primrec dict_set :: "'k \<Rightarrow> 'v \<Rightarrow> ('k, 'v) dict \<Rightarrow> ('k, 'v) dict" where
  "dict_set k v [] = [(k, v)]"
| "dict_set k v (e # d) = (if fst e = k then (k, v) # d else e # dict_set k v d)"

definition dict_values :: "('k, 'v) dict \<Rightarrow> 'v list" where
  "dict_values d = map snd d"

definition dict_keys :: "('k, 'v) dict \<Rightarrow> 'k list" where
  "dict_keys d = map fst d"

definition dict_ok :: "('k, 'v) dict \<Rightarrow> bool" where
  "dict_ok d = distinct (map fst d)"

lemma dict_get_set [simp]: "dict_get (dict_set k v d) = (dict_get d)(k \<mapsto> v)"
  by (induction d) (auto simp: fun_eq_iff)

lemma dict_set_keys: "fst ` set (dict_set k v d) = insert k (fst ` set d)"
  by (induction d) auto

lemma dict_ok_Nil [simp]: "dict_ok []"
  by (simp add: dict_ok_def)

lemma dict_ok_set [intro]: "dict_ok d \<Longrightarrow> dict_ok (dict_set k v d)"
  unfolding dict_ok_def by (induction d) (auto simp: dict_set_keys[simplified])

lemma dict_set_fresh: "k \<notin> fst ` set d \<Longrightarrow> dict_set k v d = d @ [(k, v)]"
  by (induction d) auto

lemma dict_set_keys_same: "k \<in> fst ` set d \<Longrightarrow> map fst (dict_set k v d) = map fst d"
  by (induction d) auto

lemma dict_get_in: "dict_ok d \<Longrightarrow> dict_get d k = Some v \<longleftrightarrow> (k, v) \<in> set d"
  by (simp add: dict_ok_def)

lemma dict_values_set:
  "set (dict_values (dict_set k v d)) \<subseteq> insert v (set (dict_values d))"
  unfolding dict_values_def by (induction d) auto

section \<open>Stable sorting and minima by key\<close>

text \<open>
  \<open>sorted(xs, key=f)\<close> is the stable \<open>sort_key f xs\<close>; with \<open>reverse=True\<close> Python keeps
  the order of equal elements too, hence the two reversals. \<open>min(xs, key=f)\<close> is the first
  element with the least key.
\<close>

definition sorted_desc :: "('a \<Rightarrow> 'k::linorder) \<Rightarrow> 'a list \<Rightarrow> 'a list" where
  "sorted_desc f xs = rev (sort_key f (rev xs))"

lemma insort_key_map: "insort_key f (g x) (map g xs) = map g (insort_key (\<lambda>x. f (g x)) x xs)"
  by (induction xs) auto

lemma sort_key_map: "sort_key f (map g xs) = map g (sort_key (\<lambda>x. f (g x)) xs)"
  by (induction xs) (simp_all add: insort_key_map)

lemma mset_sorted_desc [simp]: "mset (sorted_desc f xs) = mset xs"
  by (simp add: sorted_desc_def)

lemma set_sorted_desc [simp]: "set (sorted_desc f xs) = set xs"
  by (simp add: sorted_desc_def)

lemma length_sorted_desc [simp]: "length (sorted_desc f xs) = length xs"
  by (simp add: sorted_desc_def)

fun min_by :: "('a \<Rightarrow> 'k::linorder) \<Rightarrow> 'a \<Rightarrow> 'a list \<Rightarrow> 'a" where
  "min_by f m [] = m"
| "min_by f m (x # xs) = (if f x < f m then min_by f x xs else min_by f m xs)"

definition py_min :: "('a \<Rightarrow> 'k::linorder) \<Rightarrow> 'a list \<Rightarrow> 'a option" where
  "py_min f xs = (case xs of [] \<Rightarrow> None | x # xs' \<Rightarrow> Some (min_by f x xs'))"

lemma min_by_in: "min_by f m xs \<in> insert m (set xs)"
  by (induction f m xs rule: min_by.induct) auto

lemma min_by_le: "x \<in> insert m (set xs) \<Longrightarrow> f (min_by f m xs) \<le> f x"
proof (induction f m xs arbitrary: x rule: min_by.induct)
  case (2 f m y ys)
  show ?case
  proof (cases "f y < f m")
    case True
    then have "f (min_by f y ys) \<le> f z" if "z \<in> insert y (set ys)" for z
      using "2.IH"(1) that by blast
    with True "2.prems" show ?thesis by force
  next
    case False
    then have "f (min_by f m ys) \<le> f z" if "z \<in> insert m (set ys)" for z
      using "2.IH"(2) that by blast
    with False "2.prems" show ?thesis by force
  qed
qed simp

lemma py_min_None [simp]: "py_min f xs = None \<longleftrightarrow> xs = []"
  by (simp add: py_min_def split: list.splits)

lemma py_min_in: "py_min f xs = Some m \<Longrightarrow> m \<in> set xs"
  using min_by_in by (fastforce simp: py_min_def split: list.splits)

lemma py_min_le:
  assumes "py_min f xs = Some m" and "x \<in> set xs"
  shows "f m \<le> f x"
proof (cases xs)
  case (Cons y ys)
  with assms have "m = min_by f y ys" "x \<in> insert y (set ys)"
    by (auto simp: py_min_def)
  then show ?thesis by (simp only: min_by_le)
qed (use assms in simp)

section \<open>Rankings with unique keys\<close>

text \<open>
  Several components promise that the order in which an adapter delivered its
  observations cannot change the outcome. The contract they share: elements with equal
  keys have equal identities, and the population holds each identity once.
\<close>

locale keyed_ranking =
  fixes rank_key :: "'a \<Rightarrow> 'k::linorder"
    and ident :: "'a \<Rightarrow> 'i"
  assumes key_ident: "rank_key x = rank_key y \<Longrightarrow> ident x = ident y"
begin

lemma inj_on_key:
  "inj_on ident A \<Longrightarrow> inj_on rank_key A"
  unfolding inj_on_def by (blast dest: key_ident)

lemma filter_key_replicate:
  assumes "inj_on rank_key (set zs)" and "k \<in> set zs"
  shows "filter (\<lambda>x. rank_key k = rank_key x) zs = replicate (count (mset zs) k) k"
proof -
  have "filter (\<lambda>x. rank_key k = rank_key x) zs = filter (\<lambda>x. x = k) zs"
    using assms by (intro filter_cong) (auto dest: inj_onD)
  also have "\<dots> = replicate (count (mset zs) k) k"
    by (induction zs) auto
  finally show ?thesis .
qed

lemma ranking_order_independent:
  assumes perm: "mset xs = mset ys" and "inj_on ident (set xs)"
  shows "sort_key rank_key xs = sort_key rank_key ys"
proof (rule properties_for_sort_key)
  have eq: "set xs = set ys" using perm by (metis set_mset_mset)
  have inj: "inj_on rank_key (set xs)" using assms(2) by (rule inj_on_key)
  show "mset (sort_key rank_key ys) = mset xs" using perm by simp
  show "filter (\<lambda>x. rank_key k = rank_key x) (sort_key rank_key ys)
      = filter (\<lambda>x. rank_key k = rank_key x) xs" if "k \<in> set (sort_key rank_key ys)" for k
    using filter_key_replicate[of xs k] filter_key_replicate[of "sort_key rank_key ys" k]
      inj eq perm that by simp
  show "sorted (map rank_key (sort_key rank_key ys))" by simp
qed

lemma minimum_order_independent:
  assumes "mset xs = mset ys" and "inj_on ident (set xs)"
  shows "py_min rank_key xs = py_min rank_key ys"
proof -
  have eq: "set xs = set ys" using assms(1) by (metis set_mset_mset)
  show ?thesis
  proof (cases "py_min rank_key xs")
    case None
    then show ?thesis using eq by (metis py_min_None set_empty)
  next
    case (Some m)
    then have "ys \<noteq> []" using eq py_min_in by fastforce
    then obtain n where n: "py_min rank_key ys = Some n"
      by (metis not_None_eq py_min_None)
    have "rank_key m \<le> rank_key n" "rank_key n \<le> rank_key m"
      using Some n eq py_min_in py_min_le by metis+
    then have "m = n"
      using inj_on_key[OF assms(2)] Some n eq py_min_in
      by (metis inj_onD order_antisym)
    then show ?thesis using Some n by simp
  qed
qed

end

end
