(* ===== verification/PyNum.thy ===== *)
theory PyNum
  imports Complex_Main Prelude
begin

text \<open>
  The numbers of the modelled code. Python \<open>int\<close> is \<open>int\<close> and \<open>fractions.Fraction\<close> is
  \<open>rat\<close>. A \<open>float\<close> is an IEEE-754 binary64 value: a finite one is the rational it denotes
  (the two zeros are one), and every float operation is the exact rational operation
  followed by \<open>double_round\<close>, which rounds to nearest, ties to even, with the subnormal
  range and the overflow to infinity. A \<open>decimal.Decimal\<close> is sign, coefficient and
  exponent; the default context rounds the results of arithmetic to 28 significant digits.
\<close>

named_theorems num_simps \<open>numeric facts shared by the component proofs\<close>

section \<open>Integer logarithms and rounding to an integer\<close>

function int_log :: "int \<Rightarrow> int \<Rightarrow> int" where
  "int_log b n = (if b \<le> 1 \<or> n < b then 0 else 1 + int_log b (n div b))"
  by pat_completeness auto
termination
proof (relation "measure (\<lambda>(b, n). nat n)", goal_cases)
  case (2 b n)
  then have "n div b < n" by (intro int_div_less_self) auto
  with 2 show ?case by auto
qed simp

declare int_log.simps [simp del]

definition ilog :: "int \<Rightarrow> rat \<Rightarrow> int" where
  "ilog b x =
     (if 1 \<le> x then int_log b \<lfloor>x\<rfloor> else - 1 - int_log b (\<lceil>1 / x\<rceil> - 1))"

definition round_half_even :: "rat \<Rightarrow> int" where
  "round_half_even x =
     (let f = \<lfloor>x\<rfloor>; d = x - of_int f
      in if d < 1 / 2 then f else if 1 / 2 < d then f + 1
         else if even f then f else f + 1)"

lemma int_log_nonneg: "0 \<le> int_log b n"
proof (induction b n rule: int_log.induct)
  case (1 b n)
  then show ?case by (cases "b \<le> 1 \<or> n < b") (simp_all add: int_log.simps[of b n])
qed

lemma int_log_bounds:
  assumes "1 < b" and "1 \<le> n"
  shows "b ^ nat (int_log b n) \<le> n \<and> n < b ^ (nat (int_log b n) + 1)"
  using assms
proof (induction b n rule: int_log.induct)
  case (1 b n)
  show ?case
  proof (cases "n < b")
    case True
    then show ?thesis using "1.prems" by (simp add: int_log.simps[of b n])
  next
    case False
    define k where "k = nat (int_log b (n div b))"
    have "1 \<le> n div b" using False "1.prems" by (simp add: pos_imp_zdiv_pos_iff int_one_le_iff_zero_less)
    then have ih: "b ^ k \<le> n div b" "n div b < b ^ (k + 1)"
      using "1.IH" False "1.prems" by (auto simp: k_def)
    have e: "nat (int_log b n) = k + 1"
      using False "1.prems" int_log_nonneg[of b "n div b"]
      by (simp add: int_log.simps[of b n] k_def nat_add_distrib)
    have "b ^ k * b \<le> (n div b) * b" using ih(1) "1.prems" by (intro mult_right_mono) auto
    also have "\<dots> \<le> n" using "1.prems" by (metis div_mult_mod_eq le_add_same_cancel1 order_less_imp_le order_less_trans pos_mod_sign zero_less_one)
    finally have lo: "b ^ (k + 1) \<le> n" by (simp add: mult.commute)
    have "n mod b < b" using "1.prems" by simp
    then have "n < (n div b) * b + b" using div_mult_mod_eq[of n b] by linarith
    also have "\<dots> = (n div b + 1) * b" by (simp add: algebra_simps)
    also have "\<dots> \<le> b ^ (k + 1) * b" using ih(2) "1.prems" by (intro mult_right_mono) auto
    finally have "n < b ^ (k + 1 + 1)" by (simp add: mult.commute)
    with lo show ?thesis unfolding e by blast
  qed
qed

lemma ilog_bounds:
  assumes b: "1 < b" and x: "0 < x"
  shows "of_int b powi ilog b x \<le> x" and "x < of_int b powi (ilog b x + 1)"
proof -
  have "of_int b powi ilog b x \<le> x \<and> x < of_int b powi (ilog b x + 1)"
  proof (cases "1 \<le> x")
    case True
    define m where "m = nat (int_log b \<lfloor>x\<rfloor>)"
    have lo: "b ^ m \<le> \<lfloor>x\<rfloor>" and hi: "\<lfloor>x\<rfloor> < b ^ (m + 1)"
      using int_log_bounds[OF b, of "\<lfloor>x\<rfloor>"] True by (auto simp: m_def)
    have "of_int (b ^ m) \<le> x" and "x < of_int (b ^ (m + 1))"
      using lo hi by (auto simp only: le_floor_iff floor_less_iff)
    moreover have e: "ilog b x = int m" and e1: "ilog b x + 1 = int (m + 1)"
      using True int_log_nonneg by (auto simp: ilog_def m_def)
    ultimately show ?thesis unfolding e1 unfolding e by (simp only: power_int_of_nat of_int_power)
  next
    case False
    define c where "c = \<lceil>1 / x\<rceil> - 1"
    have inv: "1 < 1 / x" using x False by simp
    then have c1: "1 \<le> c" by (simp add: c_def)
    define m where "m = nat (int_log b c)"
    have lo: "b ^ m \<le> c" and hi: "c < b ^ (m + 1)"
      using int_log_bounds[OF b c1] by (auto simp: m_def)
    have "1 / x \<le> of_int (c + 1)" by (simp add: c_def)
    also have "of_int (c + 1) \<le> (of_int (b ^ (m + 1)) :: rat)"
      using hi by (simp only: of_int_le_iff)
    finally have up: "1 / x \<le> of_int (b ^ (m + 1))" .
    have "of_int (b ^ m) \<le> (of_int c :: rat)" using lo by (simp only: of_int_le_iff)
    also have "of_int c < 1 / x" by (simp add: c_def) linarith
    finally have dn: "of_int (b ^ m) < 1 / x" .
    have e: "ilog b x = - int (m + 1)" and e1: "ilog b x + 1 = - int m"
      using False int_log_nonneg by (auto simp: ilog_def m_def c_def)
    have bp: "(0::rat) < of_int (b ^ k)" for k using b by simp
    have "1 / of_int (b ^ (m + 1)) \<le> x"
      using up x bp by (metis divide_inverse divide_le_eq mult.commute mult_1 pos_divide_le_eq)
    moreover have "x < 1 / of_int (b ^ m)"
      using dn x bp by (metis less_divide_eq mult.commute)
    ultimately show ?thesis unfolding e1 unfolding e
      by (simp only: power_int_minus power_int_of_nat divide_inverse mult_1 of_int_power)
  qed
  then show "of_int b powi ilog b x \<le> x" and "x < of_int b powi (ilog b x + 1)" by auto
qed

lemma round_half_even_of_int [simp]: "round_half_even (of_int n) = n"
  by (simp add: round_half_even_def)

lemma round_half_even_ge: "of_int n \<le> x \<Longrightarrow> n \<le> round_half_even x"
proof -
  assume "of_int n \<le> x"
  then have "n \<le> \<lfloor>x\<rfloor>" by (simp add: le_floor_iff)
  then show ?thesis by (auto simp: round_half_even_def Let_def)
qed

lemma round_half_even_le: "x \<le> of_int n \<Longrightarrow> round_half_even x \<le> n"
proof -
  assume le: "x \<le> of_int n"
  show ?thesis
  proof (cases "x = of_int n")
    case False
    then have "\<lfloor>x\<rfloor> < n" using le by (simp add: floor_less_iff)
    then show ?thesis by (auto simp: round_half_even_def Let_def)
  qed simp
qed

lemma round_half_even_error: "\<bar>of_int (round_half_even x) - x\<bar> \<le> 1 / 2"
proof -
  have "of_int \<lfloor>x\<rfloor> \<le> x" and "x < of_int \<lfloor>x\<rfloor> + 1" by linarith+
  then show ?thesis unfolding round_half_even_def Let_def abs_le_iff
    by (simp split: if_split; linarith)
qed

lemma floor_divide_numeral_rat:
  "\<lfloor>numeral a / numeral b :: rat\<rfloor> = numeral a div numeral b"
  using floor_divide_of_int_eq[of "numeral a" "numeral b", where 'a = rat] by simp

section \<open>Floats\<close>

datatype pyfloat = Fin rat | Inf bool \<comment> \<open>true: negative\<close> | NaN

definition double_exp :: "rat \<Rightarrow> int" where
  "double_exp x = max (ilog 2 \<bar>x\<bar> - 52) (-1074)"

definition double_limit :: rat where
  "double_limit = 2 ^ 1024"

definition double_round :: "rat \<Rightarrow> pyfloat" where
  "double_round x =
     (if x = 0 then Fin 0
      else let e = double_exp x;
               r = of_int (round_half_even (x / 2 powi e)) * 2 powi e
           in if double_limit \<le> \<bar>r\<bar> then Inf (x < 0) else Fin r)"

text \<open>\<open>is_double q\<close>: \<open>q\<close> is the value of some finite float.\<close>

definition is_double :: "rat \<Rightarrow> bool" where
  "is_double q \<longleftrightarrow> double_round q = Fin q"

definition isfinite :: "pyfloat \<Rightarrow> bool" where
  "isfinite x = (case x of Fin _ \<Rightarrow> True | _ \<Rightarrow> False)"

text \<open>Comparisons: anything with a NaN is false.\<close>

fun py_lt :: "pyfloat \<Rightarrow> pyfloat \<Rightarrow> bool" where
  "py_lt (Fin x) (Fin y) = (x < y)"
| "py_lt (Fin x) (Inf neg) = (\<not> neg)"
| "py_lt (Inf neg) (Fin x) = neg"
| "py_lt (Inf n1) (Inf n2) = (n1 \<and> \<not> n2)"
| "py_lt _ _ = False"

fun py_le :: "pyfloat \<Rightarrow> pyfloat \<Rightarrow> bool" where
  "py_le (Fin x) (Fin y) = (x \<le> y)"
| "py_le (Fin x) (Inf neg) = (\<not> neg)"
| "py_le (Inf neg) (Fin x) = neg"
| "py_le (Inf n1) (Inf n2) = (n1 \<or> \<not> n2)"
| "py_le _ _ = False"

fun fadd :: "pyfloat \<Rightarrow> pyfloat \<Rightarrow> pyfloat" where
  "fadd (Fin x) (Fin y) = double_round (x + y)"
| "fadd (Fin x) (Inf neg) = Inf neg"
| "fadd (Inf neg) (Fin x) = Inf neg"
| "fadd (Inf n1) (Inf n2) = (if n1 = n2 then Inf n1 else NaN)"
| "fadd _ _ = NaN"

fun fneg :: "pyfloat \<Rightarrow> pyfloat" where
  "fneg (Fin x) = Fin (- x)"
| "fneg (Inf neg) = Inf (\<not> neg)"
| "fneg NaN = NaN"

definition fsub :: "pyfloat \<Rightarrow> pyfloat \<Rightarrow> pyfloat" where
  "fsub x y = fadd x (fneg y)"

text \<open>\<open>min(x, y)\<close> returns its first argument unless the second is smaller.\<close>

definition py_fmin :: "pyfloat \<Rightarrow> pyfloat \<Rightarrow> pyfloat" where
  "py_fmin x y = (if py_lt y x then y else x)"

lemma isfinite_simps [simp]:
  "isfinite (Fin x)" "\<not> isfinite (Inf b)" "\<not> isfinite NaN"
  by (simp_all add: isfinite_def)

lemma isfiniteE: "isfinite x \<Longrightarrow> (\<And>q. x = Fin q \<Longrightarrow> P) \<Longrightarrow> P"
  by (cases x) simp_all

lemma is_double_0 [simp, num_simps]: "is_double 0"
  by (simp add: is_double_def double_round_def)

lemma grid_round_ge:
  fixes x s :: rat
  assumes "s = of_int k * 2 powi e" and "s \<le> x"
  shows "s \<le> of_int (round_half_even (x / 2 powi e)) * 2 powi e"
proof -
  have p: "(0::rat) < 2 powi e" by simp
  have "of_int k \<le> x / 2 powi e"
    using assms p by (simp add: pos_le_divide_eq)
  then have "k \<le> round_half_even (x / 2 powi e)" by (rule round_half_even_ge)
  then have "of_int k * (2::rat) powi e \<le> of_int (round_half_even (x / 2 powi e)) * 2 powi e"
    using p by (simp only: mult_le_cancel_right_pos of_int_le_iff)
  then show ?thesis using assms(1) by simp
qed

lemma is_double_grid:
  assumes "is_double s" and "s \<noteq> 0"
  shows "\<exists>k. s = of_int k * 2 powi double_exp s" and "\<bar>s\<bar> < double_limit"
proof -
  have "Fin s = (let r = of_int (round_half_even (s / 2 powi double_exp s)) * 2 powi double_exp s
      in if double_limit \<le> \<bar>r\<bar> then Inf (s < 0) else Fin r)"
    using assms unfolding is_double_def double_round_def Let_def by simp
  then have "s = of_int (round_half_even (s / 2 powi double_exp s)) * 2 powi double_exp s
      \<and> \<bar>s\<bar> < double_limit"
    unfolding Let_def by (metis not_le pyfloat.distinct(1) pyfloat.inject(1))
  then show "\<exists>k. s = of_int k * 2 powi double_exp s" and "\<bar>s\<bar> < double_limit" by blast+
qed

text \<open>Rounding never moves a value below a float that was below it.\<close>

lemma double_round_ge:
  assumes d: "is_double s" and le: "s \<le> x"
  shows "py_le (Fin s) (double_round x)"
proof (cases "x = 0")
  case True
  then show ?thesis using le by (simp add: double_round_def)
next
  case x: False
  define e where "e = double_exp x"
  define r where "r = of_int (round_half_even (x / 2 powi e)) * (2::rat) powi e"
  have r: "double_round x = (if double_limit \<le> \<bar>r\<bar> then Inf (x < 0) else Fin r)"
    using x by (simp add: double_round_def e_def r_def Let_def)
  have sr: "s \<le> r"
  proof (cases "s = 0 \<or> e \<le> double_exp s")
    case True
    then obtain k where "s = of_int k * 2 powi e"
    proof (elim disjE)
      assume "s = 0" then show ?thesis using that[of 0] by simp
    next
      assume e: "e \<le> double_exp s"
      show ?thesis
      proof (cases "s = 0")
        case False
        then obtain k where k: "s = of_int k * 2 powi double_exp s"
          using is_double_grid(1)[OF d] by blast
        have "(2::rat) powi double_exp s = 2 powi e * 2 ^ nat (double_exp s - e)"
          using e by (simp flip: power_int_of_nat power_int_add)
        then have "s = of_int (k * 2 ^ nat (double_exp s - e)) * 2 powi e"
          using k by (simp only: of_int_mult of_int_power of_int_numeral mult_ac)
        then show ?thesis by (rule that)
      qed (use that[of 0] in simp)
    qed
    then show ?thesis unfolding r_def using le by (rule grid_round_ge)
  next
    case False
    define t where "t = (2::rat) powi ilog 2 \<bar>x\<bar>"
    have ex: "e = ilog 2 \<bar>x\<bar> - 52" and "ilog 2 \<bar>s\<bar> + 1 \<le> ilog 2 \<bar>x\<bar>"
      using False by (auto simp: e_def double_exp_def max_def split: if_splits)
    then have "(2::rat) powi (ilog 2 \<bar>s\<bar> + 1) \<le> t"
      unfolding t_def by (intro power_int_increasing) auto
    then have st: "\<bar>s\<bar> < t"
      using ilog_bounds(2)[of 2 "\<bar>s\<bar>"] False by simp
    moreover have tx: "t \<le> \<bar>x\<bar>"
      using ilog_bounds(1)[of 2 "\<bar>x\<bar>"] x by (simp add: t_def)
    ultimately have "t \<le> x" using le by (simp add: abs_if split: if_splits)
    moreover have "t = of_int (2 ^ 52) * 2 powi e"
      unfolding t_def ex by (simp add: power_int_diff)
    ultimately have "t \<le> r" unfolding r_def by (intro grid_round_ge)
    then show ?thesis using st by simp
  qed
  have "\<not> (double_limit \<le> \<bar>r\<bar> \<and> x < 0)"
  proof
    assume a: "double_limit \<le> \<bar>r\<bar> \<and> x < 0"
    then have "round_half_even (x / 2 powi e) \<le> 0"
      by (intro round_half_even_le) (simp add: divide_le_0_iff)
    then have "r \<le> 0" unfolding r_def by (simp add: mult_le_0_iff)
    moreover have "s \<noteq> 0" using a le by auto
    ultimately show False
      using a sr is_double_grid(2)[OF d] by (simp add: abs_if split: if_splits)
  qed
  then show ?thesis using r sr by auto
qed

lemma double_round_pos_ge_binade:
  assumes x: "0 < x" and big: "- 1022 \<le> ilog 2 x"
  shows "2 powi ilog 2 x \<le> of_int (round_half_even (x / 2 powi double_exp x)) * (2::rat) powi double_exp x"
proof (rule grid_round_ge)
  have "double_exp x = ilog 2 x - 52" using x big by (simp add: double_exp_def)
  then show "2 powi ilog 2 x = of_int (2 ^ 52) * (2::rat) powi double_exp x"
    by (simp add: power_int_diff)
  show "2 powi ilog 2 x \<le> x" using ilog_bounds(1)[of 2 x] x by simp
qed

lemma double_round_overflow:
  assumes "double_limit \<le> x"
  shows "double_round x = Inf False"
proof -
  have x: "0 < x" using assms by (rule less_le_trans[rotated]) (simp add: double_limit_def)
  have "(2::rat) powi 1024 \<le> x" using assms by (simp add: double_limit_def)
  also have "x < 2 powi (ilog 2 x + 1)" using ilog_bounds(2)[of 2 x] x by simp
  finally have lt: "(2::rat) powi 1024 < 2 powi (ilog 2 x + 1)" .
  have il: "1024 \<le> ilog 2 x"
  proof (rule ccontr)
    assume "\<not> 1024 \<le> ilog 2 x"
    then have "(2::rat) powi (ilog 2 x + 1) \<le> 2 powi 1024"
      by (intro power_int_increasing) auto
    from order_less_le_trans[OF lt this] show False by (simp only: less_irrefl)
  qed
  then have "double_limit \<le> 2 powi ilog 2 x"
    unfolding double_limit_def using power_int_increasing[of 1024 "ilog 2 x" "2::rat"] by simp
  also have "\<dots> \<le> of_int (round_half_even (x / 2 powi double_exp x)) * 2 powi double_exp x"
    using double_round_pos_ge_binade[OF x] il by simp
  finally show ?thesis using x
    by (auto simp: double_round_def Let_def abs_if split: if_splits)
qed

text \<open>Evaluation inside a known binade.\<close>

lemma ilog_eqI:
  assumes "1 < b" and "of_int b powi k \<le> x" and "x < of_int b powi (k + 1)"
  shows "ilog b x = k"
proof -
  have b: "(1::rat) < of_int b" using assms(1) by simp
  then have x: "0 < x" using assms(2) by (meson less_le_trans order_less_trans zero_less_one zero_less_power_int)
  note l = ilog_bounds[OF assms(1) x]
  have "(of_int b :: rat) powi ilog b x < of_int b powi (k + 1)" using l(1) assms(3) by linarith
  then have 1: "ilog b x < k + 1" using b by (metis not_less power_int_increasing order_less_imp_le)
  have "(of_int b :: rat) powi k < of_int b powi (ilog b x + 1)" using l(2) assms(2) by linarith
  then have "k < ilog b x + 1" using b by (metis not_less power_int_increasing order_less_imp_le)
  with 1 show ?thesis by simp
qed

lemma double_round_binade:
  assumes lo: "2 powi k \<le> x" and hi: "x < 2 powi (k + 1)" and "- 1022 \<le> k" and "k \<le> 1022"
  shows "double_round x = Fin (of_int (round_half_even (x / 2 powi (k - 52))) * 2 powi (k - 52))"
proof -
  have "(0::rat) < 2 powi k" by simp
  then have x: "0 < x" using lo by linarith
  have e: "double_exp x = k - 52"
    using ilog_eqI[of 2 k x] lo hi x assms(3) by (simp add: double_exp_def)
  let ?r = "of_int (round_half_even (x / 2 powi (k - 52))) * (2::rat) powi (k - 52)"
  have p: "(0::rat) < 2 powi (k - 52)" by simp
  have "2 powi (k + 1) = of_int (2 ^ 53) * (2::rat) powi (k - 52)"
    by (simp add: power_int_diff power_int_add)
  then have "x / 2 powi (k - 52) \<le> of_int (2 ^ 53)"
    using hi p by (simp add: pos_divide_le_eq)
  then have "round_half_even (x / 2 powi (k - 52)) \<le> 2 ^ 53" by (rule round_half_even_le)
  then have "?r \<le> of_int (2 ^ 53) * 2 powi (k - 52)"
    using p by (simp only: mult_le_cancel_right_pos of_int_le_iff)
  also have "\<dots> = 2 powi (k + 1)" by (simp add: power_int_diff power_int_add)
  also have "\<dots> \<le> 2 powi 1023" using assms(4) by (intro power_int_increasing) auto
  finally have "?r \<le> 2 powi 1023" .
  moreover have "(2::rat) powi 1023 < double_limit" by (simp add: double_limit_def)
  moreover have "0 \<le> ?r"
    using x p by (intro mult_nonneg_nonneg) (auto intro: round_half_even_ge[of 0, simplified])
  ultimately have "\<not> double_limit \<le> \<bar>?r\<bar>" by linarith
  then show ?thesis using x by (simp add: double_round_def e Let_def)
qed

lemma fadd_nonneg_ge:
  "is_double s \<Longrightarrow> 0 \<le> w \<Longrightarrow> py_le (Fin s) (fadd (Fin s) (Fin w))"
  by (simp add: double_round_ge)

lemma py_le_trans: "py_le x y \<Longrightarrow> py_le y z \<Longrightarrow> py_le x z"
  by (cases x; cases y; cases z) auto

lemma py_lt_le_trans: "py_lt x y \<Longrightarrow> py_le y z \<Longrightarrow> py_lt x z"
  by (cases x; cases y; cases z) auto

lemma py_not_lt: "x \<noteq> NaN \<Longrightarrow> y \<noteq> NaN \<Longrightarrow> \<not> py_lt x y \<longleftrightarrow> py_le y x"
  by (cases x; cases y) auto

section \<open>Decimals\<close>

datatype fdec = FDec bool nat int \<comment> \<open>negative?, coefficient, exponent\<close>

text \<open>A NaN is quiet or signaling; its sign and payload are not kept.\<close>

datatype pydec = DFin fdec | DInf bool | DNaN | DSNaN

fun dec_val :: "fdec \<Rightarrow> rat" where
  "dec_val (FDec neg c e) = (if neg then - 1 else 1) * of_nat c * 10 powi e"

definition DECIMAL_PREC :: nat where
  "DECIMAL_PREC = 28"

text \<open>Rounding to \<open>n\<close> significant digits, ties to even: what the context does to a result.\<close>

definition round_sig :: "nat \<Rightarrow> rat \<Rightarrow> rat" where
  "round_sig n x =
     (if x = 0 then 0
      else let e = ilog 10 \<bar>x\<bar> - int n + 1
           in of_int (round_half_even (x / 10 powi e)) * 10 powi e)"

text \<open>
  \<open>repr\<close> of a float prints the shortest decimal that reads back as the same float, the
  nearest one where several are as short; \<open>Decimal(str(x))\<close> is that decimal. A whole
  number below 1e16 is printed with a trailing \<^verbatim>\<open>.0\<close>, hence the exponent -1.
\<close>

definition repr_candidates :: "rat \<Rightarrow> nat \<Rightarrow> (int \<times> int) list" where
  "repr_candidates x n =
     (let e = ilog 10 \<bar>x\<bar> - int n + 1;
          q = x / 10 powi e;
          m = round_half_even q;
          m' = (if of_int m \<le> q then m + 1 else m - 1)
      in filter (\<lambda>(k, e). double_round (of_int k * 10 powi e) = Fin x) [(m, e), (m', e)])"

definition shortest_digits :: "rat \<Rightarrow> int \<times> int" where
  "shortest_digits x =
     (case concat (map (repr_candidates x) [1..<18]) of
        [] \<Rightarrow> (0, 0) \<comment> \<open>17 digits always suffice\<close>
      | c # _ \<Rightarrow> c)"

definition dec_of_float :: "rat \<Rightarrow> fdec" where
  "dec_of_float x =
     (if x = 0 then FDec False 0 (- 1)
      else let (m, e) = shortest_digits x; c = nat \<bar>m\<bar>
           in if 0 \<le> e \<and> int_log 10 \<bar>m\<bar> + 1 + e \<le> 16
              then FDec (x < 0) (c * 10 ^ nat (e + 1)) (- 1)
              else FDec (x < 0) c e)"

lemma round_sig_le:
  assumes "x \<le> y" and "0 < x" and "y = of_int k * 10 powi (ilog 10 x - int n + 1)"
  shows "round_sig n x \<le> y"
proof -
  let ?e = "ilog 10 x - int n + 1"
  have p: "(0::rat) < 10 powi ?e" by simp
  have "x / 10 powi ?e \<le> of_int k"
    using assms p by (simp add: pos_divide_le_eq)
  then have "round_half_even (x / 10 powi ?e) \<le> k" by (rule round_half_even_le)
  then show ?thesis using assms p
    by (simp add: round_sig_def Let_def)
qed

end
