(* ===== verification/PyValue.thy ===== *)
theory PyValue
  imports PyNum
begin

text \<open>
  Dynamically typed Python values, for the places where the code inspects the type of what
  it was given (constructors, snapshot decoding, the provider-status adapter). Dictionaries
  and other mappings have string keys, as every document the code reads does; a value of
  any other class is \<open>PObject\<close>. \<open>bool\<close> is a class of its own here: the code excludes it
  explicitly wherever Python's \<open>isinstance(x, int)\<close> would let it through.
\<close>

datatype pyval =
    PNone
  | PBool bool
  | PInt int
  | PFloat pyfloat
  | PDec pydec
  | PStr string
  | PList "pyval list"
  | PTuple "pyval list"
  | PDict "(string \<times> pyval) list"
  | PObject

text \<open>
  A validated quantity (the \<open>_Quantity\<close> alias \<^verbatim>\<open>int | float | Decimal\<close> after the
  finiteness checks): floats and decimals are finite.
\<close>

datatype quantity = QInt int | QFloat rat | QDec fdec

fun q_val :: "quantity \<Rightarrow> rat" where
  "q_val (QInt i) = of_int i"
| "q_val (QFloat x) = x"
| "q_val (QDec d) = dec_val d"

text \<open>
  \<open>math.isfinite\<close>: it converts its argument to \<open>float\<close> first, so an \<open>int\<close> outside the
  float range raises \<open>OverflowError\<close>, while a \<open>Decimal\<close> outside it reads as infinite. A quiet
  NaN is not finite; a signaling NaN cannot be converted and raises \<open>ValueError\<close>.
\<close>

definition float_of_rat :: "rat \<Rightarrow> pyfloat" where
  "float_of_rat = double_round"

definition int_to_float :: "int \<Rightarrow> pyfloat result" where
  "int_to_float i =
     (let f = double_round (of_int i) in if isfinite f then Inr f else Inl OverflowError)"

fun math_isfinite :: "pyval \<Rightarrow> bool result" where
  "math_isfinite (PInt i) = bindR (int_to_float i) (\<lambda>_. Inr True)"
| "math_isfinite (PFloat f) = Inr (isfinite f)"
| "math_isfinite (PDec (DFin d)) = Inr (isfinite (float_of_rat (dec_val d)))"
| "math_isfinite (PDec (DInf _)) = Inr False"
| "math_isfinite (PDec DNaN) = Inr False"
| "math_isfinite (PDec DSNaN) = Inl ValueError"
| "math_isfinite (PBool _) = Inr True"
| "math_isfinite _ = Inl TypeError"

text \<open>The numeric value of a finite number, once its class has been checked.\<close>

fun as_quantity :: "pyval \<Rightarrow> quantity option" where
  "as_quantity (PInt i) = Some (QInt i)"
| "as_quantity (PFloat (Fin x)) = Some (QFloat x)"
| "as_quantity (PDec (DFin d)) = Some (QDec d)"
| "as_quantity _ = None"

text \<open>
  The check that the capacity constructors share (\<^verbatim>\<open>__post_init__\<close>): a quantity is a real
  number (never a \<open>bool\<close>), finite and non-negative.
\<close>

definition real_number :: "pyval \<Rightarrow> bool" where
  "real_number v = (case v of PInt _ \<Rightarrow> True | PFloat _ \<Rightarrow> True | PDec _ \<Rightarrow> True | _ \<Rightarrow> False)"

definition check_available :: "pyval \<Rightarrow> quantity option result" where
  "check_available v =
     (if v = PNone then Inr None
      else bindR (raise_if (\<not> real_number v) ValueError) (\<lambda>_.
           bindR (math_isfinite v) (\<lambda>fin.
           (case (fin, as_quantity v) of
              (True, Some q) \<Rightarrow> if q_val q < 0 then Inl ValueError else Inr (Some q)
            | _ \<Rightarrow> Inl ValueError))))"

lemma isfinite_double_round_0 [simp]: "isfinite (double_round 0)"
  by (simp add: double_round_def)

lemma check_available_ok:
  "check_available v = Inr (Some q) \<Longrightarrow> as_quantity v = Some q \<and> 0 \<le> q_val q"
  by (auto simp: check_available_def split: if_splits option.splits bool.splits)

lemma check_available_None [simp]: "check_available v = Inr None \<longleftrightarrow> v = PNone"
  by (auto simp: check_available_def split: if_splits option.splits bool.splits)

end
