(* ===== verification/Capacity.thy ===== *)
theory Capacity
  imports PyValue
begin

text \<open>
  \<^verbatim>\<open>capacity.py\<close>: replica and group requests, node and provider capacity, and the exact
  arithmetic of one comparison. The placement search is in \<open>Placement\<close>, the provider
  status adapter in \<open>ProviderStatus\<close>.
\<close>

section \<open>Dimensions and verdicts\<close>

datatype dimension = Cpu | Memory | Storage | Gpu

definition DIMENSIONS :: "dimension list" where
  "DIMENSIONS = [Cpu, Memory, Storage, Gpu]"

datatype capacity_fit =
    FIT
  | REQUIRED_DIMENSION_UNREADABLE
  | INSUFFICIENT_CAPACITY
  | PLACEMENT_SEARCH_UNSUPPORTED

definition PLACEMENT_SEARCH_STATE_LIMIT :: nat where
  "PLACEMENT_SEARCH_STATE_LIMIT = 100000"

definition MAX_EXACT_FLOAT_INTEGER :: rat where
  "MAX_EXACT_FLOAT_INTEGER = 2 ^ 53"

section \<open>Replica requests\<close>

record replica_profile =
  rp_cpu_millicores :: int
  rp_memory_bytes :: int
  rp_storage_bytes :: int
  rp_gpu_count :: int

fun replica_request :: "dimension \<Rightarrow> replica_profile \<Rightarrow> int" where
  "replica_request Cpu r = rp_cpu_millicores r"
| "replica_request Memory r = rp_memory_bytes r"
| "replica_request Storage r = rp_storage_bytes r"
| "replica_request Gpu r = rp_gpu_count r"

definition replica_requested_dimensions :: "replica_profile \<Rightarrow> dimension list" where
  "replica_requested_dimensions r = filter (\<lambda>d. 0 < replica_request d r) DIMENSIONS"

text \<open>The integer check of \<^verbatim>\<open>__post_init__\<close>: an \<open>int\<close> that is no \<open>bool\<close> and not negative.\<close>

definition check_request :: "pyval \<Rightarrow> int result" where
  "check_request v =
     (case v of PInt i \<Rightarrow> (if i < 0 then Inl ValueError else Inr i) | _ \<Rightarrow> Inl ValueError)"

definition mk_replica_profile ::
    "pyval \<Rightarrow> pyval \<Rightarrow> pyval \<Rightarrow> pyval \<Rightarrow> replica_profile result" where
  "mk_replica_profile cpu memory storage gpu =
     bindR (check_request cpu) (\<lambda>c.
     bindR (check_request memory) (\<lambda>m.
     bindR (check_request storage) (\<lambda>s.
     bindR (check_request gpu) (\<lambda>g.
     let r = \<lparr>rp_cpu_millicores = c, rp_memory_bytes = m, rp_storage_bytes = s,
              rp_gpu_count = g\<rparr>
     in if replica_requested_dimensions r = [] then Inl ValueError else Inr r))))"

definition replica_ok :: "replica_profile \<Rightarrow> bool" where
  "replica_ok r \<longleftrightarrow>
     (\<forall>d. 0 \<le> replica_request d r) \<and> replica_requested_dimensions r \<noteq> []"

section \<open>Group requests\<close>

record resource_profile =
  cpu_millicores :: int
  memory_bytes :: int
  storage_bytes :: int
  gpu_count :: int
  replicas :: "replica_profile list"

fun group_request :: "dimension \<Rightarrow> resource_profile \<Rightarrow> int" where
  "group_request Cpu p = cpu_millicores p"
| "group_request Memory p = memory_bytes p"
| "group_request Storage p = storage_bytes p"
| "group_request Gpu p = gpu_count p"

definition requested_dimensions :: "resource_profile \<Rightarrow> dimension list" where
  "requested_dimensions p = filter (\<lambda>d. 0 < group_request d p) DIMENSIONS"

text \<open>
  An omitted replica list means one replica with the aggregate shape; otherwise the
  replicas must add up to the aggregate in every dimension.
\<close>

definition mk_resource_profile ::
    "pyval \<Rightarrow> pyval \<Rightarrow> pyval \<Rightarrow> pyval \<Rightarrow> replica_profile list \<Rightarrow> resource_profile result" where
  "mk_resource_profile cpu memory storage gpu reps =
     bindR (check_request cpu) (\<lambda>c.
     bindR (check_request memory) (\<lambda>m.
     bindR (check_request storage) (\<lambda>s.
     bindR (check_request gpu) (\<lambda>g.
     let p = \<lparr>cpu_millicores = c, memory_bytes = m, storage_bytes = s, gpu_count = g,
              replicas = reps\<rparr>
     in if requested_dimensions p = [] then Inl ValueError
        else bindR (if reps = [] then bindR (mk_replica_profile cpu memory storage gpu)
                                       (\<lambda>r. Inr (p\<lparr>replicas := [r]\<rparr>))
                    else Inr p)
               (\<lambda>p. if list_all (\<lambda>d. sum_list (map (replica_request d) (replicas p))
                                      = group_request d p) DIMENSIONS
                     then Inr p else Inl ValueError)))))"

definition profile_ok :: "resource_profile \<Rightarrow> bool" where
  "profile_ok p \<longleftrightarrow>
     replicas p \<noteq> [] \<and> (\<forall>r \<in> set (replicas p). replica_ok r) \<and>
     (\<forall>d. sum_list (map (replica_request d) (replicas p)) = group_request d p)"

section \<open>Node capacity\<close>

record node_capacity =
  node_cpu_available :: "quantity option"
  node_memory_available :: "quantity option"
  node_storage_available :: "quantity option"
  node_gpu_available :: "quantity option"

fun node_available :: "dimension \<Rightarrow> node_capacity \<Rightarrow> quantity option" where
  "node_available Cpu n = node_cpu_available n"
| "node_available Memory n = node_memory_available n"
| "node_available Storage n = node_storage_available n"
| "node_available Gpu n = node_gpu_available n"

definition mk_node_capacity ::
    "pyval \<Rightarrow> pyval \<Rightarrow> pyval \<Rightarrow> pyval \<Rightarrow> node_capacity result" where
  "mk_node_capacity cpu memory storage gpu =
     bindR (check_available cpu) (\<lambda>c.
     bindR (check_available memory) (\<lambda>m.
     bindR (check_available storage) (\<lambda>s.
     bindR (check_available gpu) (\<lambda>g.
     Inr \<lparr>node_cpu_available = c, node_memory_available = m, node_storage_available = s,
          node_gpu_available = g\<rparr>))))"

definition node_ok :: "node_capacity \<Rightarrow> bool" where
  "node_ok n \<longleftrightarrow> (\<forall>d q. node_available d n = Some q \<longrightarrow> 0 \<le> q_val q)"

text \<open>
  Exact arithmetic input, or \<open>None\<close> outside the supported float domain: a float of
  magnitude 2^53 or more cannot tell adjacent integral units apart.
\<close>

fun exact_quantity :: "quantity \<Rightarrow> rat option" where
  "exact_quantity (QInt i) = Some (of_int i)"
| "exact_quantity (QDec d) = Some (dec_val d)"
| "exact_quantity (QFloat x) = (if MAX_EXACT_FLOAT_INTEGER \<le> \<bar>x\<bar> then None else Some x)"

fun node_fit_loop :: "node_capacity \<Rightarrow> replica_profile \<Rightarrow> dimension list \<Rightarrow> capacity_fit" where
  "node_fit_loop n r [] = FIT"
| "node_fit_loop n r (d # ds) =
     (case node_available d n of
        None \<Rightarrow> REQUIRED_DIMENSION_UNREADABLE
      | Some available \<Rightarrow>
          (case exact_quantity available of
             None \<Rightarrow> PLACEMENT_SEARCH_UNSUPPORTED
           | Some x \<Rightarrow> if x < of_int (replica_request d r) then INSUFFICIENT_CAPACITY
                       else node_fit_loop n r ds))"

definition node_fit :: "node_capacity \<Rightarrow> replica_profile \<Rightarrow> capacity_fit" where
  "node_fit n r =
     (if list_ex (\<lambda>d. node_available d n = None) (replica_requested_dimensions r)
      then REQUIRED_DIMENSION_UNREADABLE
      else node_fit_loop n r (replica_requested_dimensions r))"

section \<open>Lemmas\<close>

lemma DIMENSIONS_all [simp]: "set DIMENSIONS = UNIV"
  by (auto simp: DIMENSIONS_def intro: dimension.exhaust)

lemma dimension_all: "(\<forall>d. P d) \<longleftrightarrow> P Cpu \<and> P Memory \<and> P Storage \<and> P Gpu"
  by (metis dimension.exhaust)

lemma exact_quantity_val: "exact_quantity q = Some x \<Longrightarrow> x = q_val q"
  by (cases q) (auto split: if_splits)

lemma check_request_ok [simp]: "check_request v = Inr i \<longleftrightarrow> v = PInt i \<and> 0 \<le> i"
  by (auto simp: check_request_def split: pyval.splits)

lemma mk_replica_profile_ok: "mk_replica_profile c m s g = Inr r \<Longrightarrow> replica_ok r"
  by (auto simp: mk_replica_profile_def replica_ok_def dimension_all Let_def split: if_splits)

lemma mk_resource_profile_ok:
  assumes "mk_resource_profile c m s g reps = Inr p"
    and "\<And>r. r \<in> set reps \<Longrightarrow> replica_ok r"
  shows "profile_ok p"
  using assms mk_replica_profile_ok
  by (auto simp: mk_resource_profile_def profile_ok_def Let_def list_all_iff split: if_splits)

lemma mk_node_capacity_ok: "mk_node_capacity c m s g = Inr n \<Longrightarrow> node_ok n"
  by (auto simp: mk_node_capacity_def node_ok_def dimension_all dest: check_available_ok)

lemma replica_requested_iff:
  "d \<in> set (replica_requested_dimensions r) \<longleftrightarrow> 0 < replica_request d r"
  by (simp add: replica_requested_dimensions_def)

lemma requested_iff: "d \<in> set (requested_dimensions p) \<longleftrightarrow> 0 < group_request d p"
  by (simp add: requested_dimensions_def)

lemma profile_ok_nonneg: "profile_ok p \<Longrightarrow> 0 \<le> group_request d p"
  unfolding profile_ok_def
  by (metis (mono_tags, lifting) imageE list.set_map replica_ok_def sum_list_nonneg)

text \<open>A replica asks only for dimensions that its group asks for.\<close>

lemma replica_request_le_group:
  assumes "profile_ok p" and "r \<in> set (replicas p)"
  shows "replica_request d r \<le> group_request d p"
proof -
  have nonneg: "\<And>r. r \<in> set (replicas p) \<Longrightarrow> 0 \<le> replica_request d r"
    using assms(1) by (auto simp: profile_ok_def replica_ok_def)
  have "replica_request d r \<le> sum_list (map (replica_request d) (replicas p))"
    using assms(2) nonneg by (intro member_le_sum_list) auto
  then show ?thesis using assms(1) by (simp add: profile_ok_def)
qed

lemma profile_requested_nonempty: "profile_ok p \<Longrightarrow> requested_dimensions p \<noteq> []"
proof -
  assume ok: "profile_ok p"
  then obtain r where r: "r \<in> set (replicas p)" "replica_ok r"
    by (metis list.set_sel(1) profile_ok_def)
  then obtain d where "0 < replica_request d r"
    by (metis list.set_sel(1) replica_ok_def replica_requested_iff)
  with replica_request_le_group[OF ok r(1), of d] have "d \<in> set (requested_dimensions p)"
    by (simp add: requested_iff)
  then show ?thesis by auto
qed

end
