(* ===== verification/Placement.thy ===== *)
theory Placement
  imports Capacity
begin

text \<open>
  \<^verbatim>\<open>_replicas_fit_nodes\<close> of \<^verbatim>\<open>capacity.py\<close>: the exact multidimensional bin-packing search
  that decides whether every replica of a group can be placed while the nodes' headroom is
  consumed. The search is depth first over states \<open>(index, remaining)\<close> with a set of seen
  states bounded by the state limit. \<open>placeable\<close> is what the search has to decide; the
  theorems say that it decides exactly that, and that it always returns.
\<close>

section \<open>The input of the search\<close>

definition placement_dimensions :: "replica_profile list \<Rightarrow> dimension list" where
  "placement_dimensions rs =
     filter (\<lambda>d. list_ex (\<lambda>r. d \<in> set (replica_requested_dimensions r)) rs) DIMENSIONS"

definition exact_entry :: "node_capacity \<Rightarrow> dimension \<Rightarrow> capacity_fit + rat" where
  "exact_entry n d =
     (case node_available d n of
        None \<Rightarrow> Inl REQUIRED_DIMENSION_UNREADABLE
      | Some q \<Rightarrow> (case exact_quantity q of
                     None \<Rightarrow> Inl PLACEMENT_SEARCH_UNSUPPORTED
                   | Some x \<Rightarrow> Inr x))"

definition exact_nodes ::
    "dimension list \<Rightarrow> node_capacity list \<Rightarrow> capacity_fit + rat list list" where
  "exact_nodes dims ns = mapR (\<lambda>n. mapR (exact_entry n) dims) ns"

definition request_vector :: "dimension list \<Rightarrow> replica_profile \<Rightarrow> rat list" where
  "request_vector dims r = map (\<lambda>d. of_int (replica_request d r)) dims"

text \<open>
  The order in which the replicas are tried: largest share of the largest node first. A
  share is a \<open>Fraction\<close> unless no node has any of the dimension, where it is the float
  \<^verbatim>\<open>0.0\<close>; Python's \<open>sum\<close> then goes on in floats, converting the fractions, and a
  fraction outside the float range raises.
\<close>

definition fraction_to_float :: "rat \<Rightarrow> pyfloat result" where
  "fraction_to_float q =
     (let f = double_round q in if isfinite f then Inr f else Inl OverflowError)"

definition share :: "rat \<Rightarrow> rat \<Rightarrow> rat \<times> bool" where
  "share request maximum = (if maximum \<noteq> 0 then (request / maximum, False) else (0, True))"

fun add_share :: "rat \<times> bool \<Rightarrow> pyfloat \<times> bool \<Rightarrow> (pyfloat \<times> bool) result" where
  "add_share (r, r_float) (acc, acc_float) =
     (if \<not> r_float \<and> \<not> acc_float
      then Inr (case acc of Fin a \<Rightarrow> (Fin (a + r), False) | _ \<Rightarrow> (acc, False))
      else bindR (if acc_float then Inr acc
                  else case acc of Fin a \<Rightarrow> fraction_to_float a | _ \<Rightarrow> Inr acc) (\<lambda>a.
           bindR (if r_float then Inr (Fin r) else fraction_to_float r) (\<lambda>x.
           Inr (fadd a x, True))))"

text \<open>Position of a number in Python's order of the non-negative numbers, infinity last.\<close>

fun number_key :: "pyfloat \<Rightarrow> bool \<times> rat" where
  "number_key (Fin x) = (False, x)"
| "number_key _ = (True, 0)"

definition difficulty :: "rat list \<Rightarrow> rat list \<Rightarrow> (bool \<times> rat) list result" where
  "difficulty maximum request =
     (let shares = map2 share request maximum
      in if shares = [] then Inl ValueError \<comment> \<open>max of an empty tuple\<close>
         else bindR (foldR add_share shares (Fin 0, False)) (\<lambda>(total, _).
              Inr ((False, Max (fst ` set shares)) # number_key total
                   # map (\<lambda>s. (False, fst s)) shares)))"

definition order_replicas ::
    "dimension list \<Rightarrow> rat list list \<Rightarrow> replica_profile list \<Rightarrow> replica_profile list result" where
  "order_replicas dims nodes rs =
     (let maximum = map (\<lambda>k. Max ((\<lambda>n. n ! k) ` set nodes)) [0..<length dims]
      in bindR (mapR (\<lambda>r. bindR (difficulty maximum (request_vector dims r))
                            (\<lambda>key. Inr (key, r))) rs)
           (\<lambda>keyed. Inr (map snd (sorted_desc fst keyed))))"

section \<open>The search\<close>

type_synonym search_state = "nat \<times> rat list list"

definition lacks :: "rat list \<Rightarrow> rat list \<Rightarrow> bool" where
  "lacks available request = list_ex (\<lambda>(have, need). have < need) (zip available request)"

definition consume :: "rat list \<Rightarrow> rat list \<Rightarrow> rat list" where
  "consume available request = map2 (-) available request"

text \<open>The inner loop over the nodes of one state; \<open>None\<close> is the state limit.\<close>

fun expand ::
    "nat \<Rightarrow> nat \<Rightarrow> rat list \<Rightarrow> rat list list \<Rightarrow> rat list list \<Rightarrow> rat list list
     \<Rightarrow> search_state list \<Rightarrow> search_state list \<Rightarrow> (search_state list \<times> search_state list) option"
where
  "expand limit index request before [] tried seen pending = Some (seen, pending)"
| "expand limit index request before (available # rest) tried seen pending =
     (if available \<in> set tried \<or> lacks available request
      then expand limit index request (before @ [available]) rest tried seen pending
      else
        let after = consume available request;
            next_remaining = sorted_desc id (before @ after # rest);
            state = (index + 1, next_remaining)
        in if state \<in> set seen
           then expand limit index request (before @ [available]) rest (available # tried)
                  seen pending
           else if limit \<le> length seen then None
           else expand limit index request (before @ [available]) rest (available # tried)
                  (state # seen) (state # pending))"

lemma expand_measure:
  "expand limit index request before rest tried seen pending = Some (seen', pending') \<Longrightarrow>
   2 * (limit - length seen') + length pending' \<le> 2 * (limit - length seen) + length pending"
proof (induction limit index request before rest tried seen pending rule: expand.induct)
  case (2 limit index request before available rest tried seen pending)
  then show ?case by (fastforce simp: Let_def split: if_splits)
qed simp

text \<open>The \<^verbatim>\<open>while pending\<close> loop. \<open>pending\<close> has the top of the stack first.\<close>

function search ::
    "nat \<Rightarrow> rat list list \<Rightarrow> search_state list \<Rightarrow> search_state list \<Rightarrow> capacity_fit" where
  "search limit requests seen [] = INSUFFICIENT_CAPACITY"
| "search limit requests seen ((index, remaining) # pending) =
     (if index = length requests then FIT
      else case expand limit index (requests ! index) [] remaining [] seen pending of
             None \<Rightarrow> PLACEMENT_SEARCH_UNSUPPORTED
           | Some (seen', pending') \<Rightarrow> search limit requests seen' pending')"
  by pat_completeness auto
termination
proof (relation "measure (\<lambda>(limit, requests, seen, pending).
                            2 * (limit - length seen) + length pending)", goal_cases)
  case (2 limit requests seen index remaining pending p seen' pending')
  then have "expand limit index (requests ! index) [] remaining [] seen pending
      = Some (seen', pending')" by simp
  from expand_measure[OF this] show ?case by simp
qed simp

definition replicas_fit_nodes_within ::
    "nat \<Rightarrow> replica_profile list \<Rightarrow> node_capacity list \<Rightarrow> capacity_fit result" where
  "replicas_fit_nodes_within limit rs ns =
     (if ns = [] then Inr INSUFFICIENT_CAPACITY
      else let dims = placement_dimensions rs
           in case exact_nodes dims ns of
                Inl verdict \<Rightarrow> Inr verdict
              | Inr nodes \<Rightarrow>
                  bindR (order_replicas dims nodes rs) (\<lambda>ordered.
                    let initial = (0, sorted_desc id nodes)
                    in Inr (search limit (map (request_vector dims) ordered)
                              [initial] [initial])))"

definition replicas_fit_nodes ::
    "replica_profile list \<Rightarrow> node_capacity list \<Rightarrow> capacity_fit result" where
  "replicas_fit_nodes = replicas_fit_nodes_within PLACEMENT_SEARCH_STATE_LIMIT"

section \<open>What the search decides\<close>

text \<open>
  \<open>placeable rs ns\<close>: the replicas can be distributed over the nodes (one part per node) so
  that on every node and in every dimension that some replica requests, the node reports
  its headroom and the sum of its part fits into it.
\<close>

definition placeable :: "replica_profile list \<Rightarrow> node_capacity list \<Rightarrow> bool" where
  "placeable rs ns \<longleftrightarrow>
     (\<exists>parts. length parts = length ns \<and> mset (concat parts) = mset rs \<and>
        (\<forall>(n, part) \<in> set (zip ns parts). \<forall>d \<in> set (placement_dimensions rs).
           \<exists>q. node_available d n = Some q \<and>
               of_int (sum_list (map (replica_request d) part)) \<le> q_val q))"

text \<open>The same on vectors, and its step-by-step form.\<close>

definition distributes :: "nat \<Rightarrow> ('r \<Rightarrow> rat list) \<Rightarrow> 'r list \<Rightarrow> rat list list \<Rightarrow> bool" where
  "distributes k req rs nodes \<longleftrightarrow>
     (\<exists>parts. length parts = length nodes \<and> mset (concat parts) = mset rs \<and>
        (\<forall>j < length nodes. \<forall>i < k.
           sum_list (map (\<lambda>r. req r ! i) (parts ! j)) \<le> nodes ! j ! i))"

fun packs :: "rat list list \<Rightarrow> rat list multiset \<Rightarrow> bool" where
  "packs [] N = True"
| "packs (r # rs) N =
     (\<exists>a. a \<in># N \<and> \<not> lacks a r \<and> packs rs (add_mset (consume a r) (N - {#a#})))"

section \<open>The search decides \<open>packs\<close>\<close>

definition child :: "rat list list \<Rightarrow> rat list \<Rightarrow> rat list \<Rightarrow> rat list list" where
  "child nodes a request =
     rev (sorted_list_of_multiset (add_mset (consume a request) (mset nodes - {#a#})))"

lemma sorted_desc_id: "sorted_desc id xs = rev (sorted_list_of_multiset (mset xs))"
proof -
  have "sort_key id (rev xs) = sorted_list_of_multiset (mset (rev xs))"
    by (simp only: sorted_list_of_multiset_mset id_def)
  then show ?thesis by (simp add: sorted_desc_def)
qed

lemma mset_child [simp]:
  "mset (child nodes a request) = add_mset (consume a request) (mset nodes - {#a#})"
  by (simp add: child_def)

lemma expand_child:
  "sorted_desc id (before @ consume a request # rest) = child (before @ a # rest) a request"
  by (simp add: sorted_desc_id child_def)

lemma expand_spec:
  assumes "expand limit index request before rest tried seen pending = Some (seen', pending')"
    and "\<forall>a \<in> set tried. (index + 1, child (before @ rest) a request) \<in> set seen"
  shows "\<exists>new. seen' = new @ seen \<and> pending' = new @ pending
      \<and> (\<forall>s \<in> set new. \<exists>a \<in> set rest. \<not> lacks a request
            \<and> s = (index + 1, child (before @ rest) a request))
      \<and> (\<forall>a \<in> set rest. \<not> lacks a request \<longrightarrow>
            (index + 1, child (before @ rest) a request) \<in> set seen')"
  using assms
proof (induction limit index request before rest tried seen pending rule: expand.induct)
  case (2 limit index request before a rest tried seen pending)
  let ?s = "(index + 1, child (before @ a # rest) a request)"
  have full: "(before @ [a]) @ rest = before @ a # rest" by simp
  show ?case
  proof (cases "a \<in> set tried \<or> lacks a request")
    case True
    with "2.IH"(1)[OF True] "2.prems" obtain new where
      "seen' = new @ seen" "pending' = new @ pending"
      "\<forall>s \<in> set new. \<exists>b \<in> set rest. \<not> lacks b request
            \<and> s = (index + 1, child (before @ a # rest) b request)"
      "\<forall>b \<in> set rest. \<not> lacks b request \<longrightarrow>
            (index + 1, child (before @ a # rest) b request) \<in> set seen'"
      by (auto simp: full)
    with True "2.prems"(2) show ?thesis by auto
  next
    case fits: False
    note IH2 = "2.IH"(2)[OF fits refl refl refl, unfolded expand_child]
    note IH3 = "2.IH"(3)[OF fits refl refl refl, unfolded expand_child]
    show ?thesis
    proof (cases "?s \<in> set seen")
      case True
      with fits "2.prems" have run: "expand limit index request (before @ [a]) rest (a # tried)
          seen pending = Some (seen', pending')" by (simp add: Let_def expand_child)
      have "\<forall>b \<in> set (a # tried). (index + 1, child ((before @ [a]) @ rest) b request) \<in> set seen"
        using True "2.prems"(2) by simp
      from IH2[OF True run this] obtain new where
        "seen' = new @ seen" "pending' = new @ pending"
        "\<forall>s \<in> set new. \<exists>b \<in> set rest. \<not> lacks b request
            \<and> s = (index + 1, child (before @ a # rest) b request)"
        "\<forall>b \<in> set rest. \<not> lacks b request \<longrightarrow>
            (index + 1, child (before @ a # rest) b request) \<in> set seen'"
        by (auto simp: full)
      with True show ?thesis by auto
    next
      case False
      with fits "2.prems" have lim: "\<not> limit \<le> length seen"
        and run: "expand limit index request (before @ [a]) rest (a # tried)
          (?s # seen) (?s # pending) = Some (seen', pending')"
        by (auto simp: Let_def expand_child split: if_splits)
      have "\<forall>b \<in> set (a # tried).
          (index + 1, child ((before @ [a]) @ rest) b request) \<in> set (?s # seen)"
        using "2.prems"(2) by simp
      from IH3[OF False lim run this] obtain new where
        "seen' = new @ ?s # seen" "pending' = new @ ?s # pending"
        "\<forall>s \<in> set new. \<exists>b \<in> set rest. \<not> lacks b request
            \<and> s = (index + 1, child (before @ a # rest) b request)"
        "\<forall>b \<in> set rest. \<not> lacks b request \<longrightarrow>
            (index + 1, child (before @ a # rest) b request) \<in> set seen'"
        by (auto simp: full)
      with fits show ?thesis by (intro exI[of _ "new @ [?s]"]) auto
    qed
  qed
qed simp

definition state_packs :: "rat list list \<Rightarrow> search_state \<Rightarrow> bool" where
  "state_packs requests s = packs (drop (fst s) requests) (mset (snd s))"

lemma state_packs_step:
  assumes "index < length requests"
  shows "state_packs requests (index, remaining) \<longleftrightarrow>
    (\<exists>a \<in> set remaining. \<not> lacks a (requests ! index)
       \<and> state_packs requests (index + 1, child remaining a (requests ! index)))"
  using assms by (auto simp: state_packs_def Cons_nth_drop_Suc[symmetric])

lemma search_FIT:
  assumes "search limit requests seen pending = FIT"
    and "\<forall>s \<in> set pending. fst s \<le> length requests"
  shows "\<exists>s \<in> set pending. state_packs requests s"
  using assms
proof (induction limit requests seen pending rule: search.induct)
  case (2 limit requests seen index remaining pending)
  show ?case
  proof (cases "index = length requests")
    case False
    then have idx: "index < length requests" using "2.prems"(2) by simp
    obtain seen' pending' where ex: "expand limit index (requests ! index) [] remaining []
        seen pending = Some (seen', pending')"
      and run: "search limit requests seen' pending' = FIT"
      using "2.prems"(1) False by (auto split: option.splits)
    obtain new where new: "pending' = new @ pending"
      "\<forall>s \<in> set new. \<exists>a \<in> set remaining. \<not> lacks a (requests ! index)
          \<and> s = (index + 1, child remaining a (requests ! index))"
      using expand_spec[OF ex] by auto
    have "\<forall>s \<in> set pending'. fst s \<le> length requests"
      using new idx "2.prems"(2) by auto
    then obtain s where "s \<in> set pending'" "state_packs requests s"
      using "2.IH"[OF False ex refl run] by blast
    then show ?thesis using new state_packs_step[OF idx, of remaining] by auto
  qed (simp add: state_packs_def)
qed simp

definition explored :: "rat list list \<Rightarrow> search_state list \<Rightarrow> search_state list \<Rightarrow> bool" where
  "explored requests seen pending \<longleftrightarrow>
     (\<forall>s \<in> set seen - set pending. fst s \<noteq> length requests \<and>
        (state_packs requests s \<longrightarrow>
           (\<exists>s' \<in> set seen. fst s' = fst s + 1 \<and> state_packs requests s')))"

lemma explored_none:
  assumes "explored requests seen []" and "\<forall>s \<in> set seen. fst s \<le> length requests"
    and "s \<in> set seen"
  shows "\<not> state_packs requests s"
  using assms(3)
proof (induction "length requests - fst s" arbitrary: s rule: less_induct)
  case less
  show ?case
  proof
    assume "state_packs requests s"
    with assms(1) less.prems obtain s' where s': "s' \<in> set seen" "fst s' = fst s + 1"
      "state_packs requests s'" by (auto simp: explored_def)
    then have "length requests - fst s' < length requests - fst s"
      using assms(2) by fastforce
    with less.hyps s' show False by blast
  qed
qed

lemma search_INSUFFICIENT:
  assumes "search limit requests seen pending = INSUFFICIENT_CAPACITY"
    and "explored requests seen pending"
    and "\<forall>s \<in> set seen. fst s \<le> length requests" and "set pending \<subseteq> set seen"
  shows "\<forall>s \<in> set seen. \<not> state_packs requests s"
  using assms
proof (induction limit requests seen pending rule: search.induct)
  case (1 limit requests seen)
  then show ?case using explored_none by blast
next
  case (2 limit requests seen index remaining pending)
  have ne: "index \<noteq> length requests" using "2.prems"(1) by (auto split: if_splits)
  then have idx: "index < length requests" using "2.prems"(3,4) by force
  obtain seen' pending' where ex: "expand limit index (requests ! index) [] remaining []
      seen pending = Some (seen', pending')"
    and run: "search limit requests seen' pending' = INSUFFICIENT_CAPACITY"
    using "2.prems"(1) ne by (auto split: option.splits)
  obtain new where new: "seen' = new @ seen" "pending' = new @ pending"
    "\<forall>s \<in> set new. \<exists>a \<in> set remaining. \<not> lacks a (requests ! index)
        \<and> s = (index + 1, child remaining a (requests ! index))"
    "\<forall>a \<in> set remaining. \<not> lacks a (requests ! index) \<longrightarrow>
        (index + 1, child remaining a (requests ! index)) \<in> set seen'"
    using expand_spec[OF ex] by auto
  have "explored requests seen' pending'"
    unfolding explored_def
  proof (intro ballI)
    fix s assume "s \<in> set seen' - set pending'"
    then have s: "s \<in> set seen" "s \<notin> set pending" using new by auto
    show "fst s \<noteq> length requests \<and> (state_packs requests s \<longrightarrow>
        (\<exists>s' \<in> set seen'. fst s' = fst s + 1 \<and> state_packs requests s'))"
    proof (cases "s = (index, remaining)")
      case True
      show ?thesis
      proof (intro conjI impI)
        assume "state_packs requests s"
        then obtain a where "a \<in> set remaining" "\<not> lacks a (requests ! index)"
          "state_packs requests (index + 1, child remaining a (requests ! index))"
          using True state_packs_step[OF idx, of remaining] by blast
        then show "\<exists>s' \<in> set seen'. fst s' = fst s + 1 \<and> state_packs requests s'"
          using new(4) True by (metis fst_conv)
      qed (use ne True in simp)
    next
      case False
      with s "2.prems"(2) show ?thesis unfolding explored_def new(1) by fastforce
    qed
  qed
  moreover have "\<forall>s \<in> set seen'. fst s \<le> length requests"
    using new idx "2.prems"(3) by auto
  moreover have "set pending' \<subseteq> set seen'" using new "2.prems"(4) by auto
  ultimately show ?case using "2.IH"[OF ne ex refl run] new(1) by auto
qed

lemma search_decides:
  "search limit requests [(0, nodes)] [(0, nodes)] = FIT \<Longrightarrow> packs requests (mset nodes)"
  "search limit requests [(0, nodes)] [(0, nodes)] = INSUFFICIENT_CAPACITY \<Longrightarrow>
     \<not> packs requests (mset nodes)"
  using search_FIT[of limit requests "[(0, nodes)]" "[(0, nodes)]"]
    search_INSUFFICIENT[of limit requests "[(0, nodes)]" "[(0, nodes)]"]
  by (auto simp: state_packs_def explored_def)

lemma search_verdicts:
  "search limit requests seen pending \<noteq> REQUIRED_DIMENSION_UNREADABLE"
proof (induction limit requests seen pending rule: search.induct)
  case (2 limit requests seen index remaining pending)
  then show ?case by (cases "index = length requests") (auto split: option.splits)
qed simp


section \<open>Packing step by step is distributing over the nodes\<close>

lemma lacks_iff:
  "length available = length request \<Longrightarrow>
   lacks available request \<longleftrightarrow> (\<exists>i < length request. available ! i < request ! i)"
  by (auto simp: lacks_def list_ex_iff set_zip)

lemma length_consume [simp]:
  "length available = length request \<Longrightarrow> length (consume available request) = length request"
  by (simp add: consume_def)

lemma consume_nth:
  "length available = length request \<Longrightarrow> i < length request \<Longrightarrow>
   consume available request ! i = available ! i - request ! i"
  by (simp add: consume_def)

lemma mset_concat_update:
  assumes "j < length parts"
  shows "mset (concat (parts[j := part])) + mset (parts ! j) = mset (concat parts) + mset part"
proof -
  have a: "mset (concat (parts[j := part]))
      = mset (concat (take j parts)) + mset part + mset (concat (drop (Suc j) parts))"
    using assms by (simp add: upd_conv_take_nth_drop)
  have b: "mset (concat parts)
      = mset (concat (take j parts)) + mset (parts ! j) + mset (concat (drop (Suc j) parts))"
    using id_take_nth_drop[OF assms] by (metis concat.simps(2) concat_append mset_append union_assoc)
  show ?thesis unfolding a b by (simp add: ac_simps)
qed

text \<open>Node vectors of the right shape: as long as the requests, and non-negative.\<close>

definition vectors_ok :: "nat \<Rightarrow> rat list list \<Rightarrow> bool" where
  "vectors_ok k vs \<longleftrightarrow> (\<forall>v \<in> set vs. length v = k \<and> (\<forall>i < k. 0 \<le> v ! i))"

lemma vectors_ok_consume:
  assumes "vectors_ok k nodes" and "length r = k" and "j < length nodes"
    and "\<not> lacks (nodes ! j) r"
  shows "vectors_ok k (nodes[j := consume (nodes ! j) r])"
proof -
  have len: "length (nodes ! j) = length r" using assms by (auto simp: vectors_ok_def)
  have "\<forall>i < k. 0 \<le> consume (nodes ! j) r ! i"
    using assms(2,4) len by (metis consume_nth diff_ge_0_iff_ge lacks_iff not_less)
  moreover have "set (nodes[j := v]) \<subseteq> insert v (set nodes)" for v
    by (rule set_update_subset_insert)
  ultimately show ?thesis using assms(1,2) len unfolding vectors_ok_def
    by (metis insertE length_consume subsetD)
qed

lemma packs_imp_distributes:
  assumes "packs (map req rs) (mset nodes)" and "vectors_ok k nodes"
    and "\<forall>r \<in> set rs. length (req r) = k"
  shows "distributes k req rs nodes"
  using assms
proof (induction rs arbitrary: nodes)
  case Nil
  then show ?case unfolding distributes_def
    by (intro exI[of _ "replicate (length nodes) []"]) (auto simp: vectors_ok_def)
next
  case (Cons r rs)
  from Cons.prems(1) obtain a where a: "a \<in># mset nodes" "\<not> lacks a (req r)"
    and packs: "packs (map req rs) (add_mset (consume a (req r)) (mset nodes - {#a#}))" by auto
  from a(1) obtain j where j: "j < length nodes" "nodes ! j = a"
    by (metis in_set_conv_nth set_mset_mset)
  define nodes' where "nodes' = nodes[j := consume a (req r)]"
  have len: "length a = k" "length (req r) = k" using Cons.prems j by (auto simp: vectors_ok_def)
  have ok: "vectors_ok k nodes'"
    using vectors_ok_consume[OF Cons.prems(2) len(2) j(1)] a(2) j(2) by (simp add: nodes'_def)
  have "mset nodes' = add_mset (consume a (req r)) (mset nodes - {#a#})"
    using j by (simp add: nodes'_def mset_update)
  with packs have "packs (map req rs) (mset nodes')" by simp
  from Cons.IH[OF this ok] Cons.prems(3) obtain parts where
    parts: "length parts = length nodes" "mset (concat parts) = mset rs"
    "\<forall>l < length nodes. \<forall>i < k. sum_list (map (\<lambda>r. req r ! i) (parts ! l)) \<le> nodes' ! l ! i"
    by (auto simp: distributes_def nodes'_def)
  define parts' where "parts' = parts[j := r # parts ! j]"
  have "mset (concat parts') = mset (r # rs)"
    using mset_concat_update[of j parts "r # parts ! j"] parts(1,2) j(1) by (simp add: parts'_def)
  moreover have "\<forall>l < length nodes. \<forall>i < k.
      sum_list (map (\<lambda>r. req r ! i) (parts' ! l)) \<le> nodes ! l ! i"
  proof (intro allI impI)
    fix l i assume "l < length nodes" "i < k"
    with parts(3) have "sum_list (map (\<lambda>r. req r ! i) (parts ! l)) \<le> nodes' ! l ! i" by blast
    then show "sum_list (map (\<lambda>r. req r ! i) (parts' ! l)) \<le> nodes ! l ! i"
      using j len \<open>i < k\<close> \<open>l < length nodes\<close> parts(1)
      by (cases "l = j") (auto simp: parts'_def nodes'_def consume_nth)
  qed
  ultimately show ?case unfolding distributes_def
    using parts(1) by (intro exI[of _ parts']) (simp add: parts'_def)
qed

lemma distributes_imp_packs:
  assumes "distributes k req rs nodes" and "vectors_ok k nodes"
    and "vectors_ok k (map req rs)"
  shows "packs (map req rs) (mset nodes)"
  using assms
proof (induction rs arbitrary: nodes)
  case (Cons r rs)
  from Cons.prems(1) obtain parts where
    parts: "length parts = length nodes" "mset (concat parts) = mset (r # rs)"
    "\<forall>l < length nodes. \<forall>i < k. sum_list (map (\<lambda>r. req r ! i) (parts ! l)) \<le> nodes ! l ! i"
    by (auto simp: distributes_def)
  have all: "set (concat parts) = set (r # rs)" using parts(2) by (metis set_mset_mset)
  then obtain part where "part \<in> set parts" "r \<in> set part"
    by (metis UN_E list.set_intros(1) set_concat)
  then obtain j where j: "j < length nodes" "r \<in> set (parts ! j)"
    using parts(1) by (metis in_set_conv_nth)
  define a where "a = nodes ! j"
  have len: "length a = k" "length (req r) = k"
    using Cons.prems j by (auto simp: vectors_ok_def a_def)
  have sub: "set (parts ! j) \<subseteq> set (r # rs)" using all j(1) parts(1) by (auto simp del: set_simps)
  have nonneg: "0 \<le> req x ! i" if "x \<in> set (parts ! j)" "i < k" for x i
    using sub that Cons.prems(3) by (auto simp: vectors_ok_def)
  have one: "req r ! i \<le> sum_list (map (\<lambda>r. req r ! i) (parts ! j))" if "i < k" for i
    using j(2) nonneg that by (intro member_le_sum_list) auto
  have fit: "\<not> lacks a (req r)"
  proof
    assume "lacks a (req r)"
    then obtain i where "i < k" "a ! i < req r ! i" using lacks_iff[of a "req r"] len by auto
    moreover have "sum_list (map (\<lambda>r. req r ! i) (parts ! j)) \<le> a ! i"
      using parts(3) j(1) \<open>i < k\<close> by (simp add: a_def)
    ultimately show False using one[of i] by linarith
  qed
  define nodes' where "nodes' = nodes[j := consume a (req r)]"
  define parts' where "parts' = parts[j := remove1 r (parts ! j)]"
  have "mset (concat parts') = mset rs"
    using mset_concat_update[of j parts "remove1 r (parts ! j)"] parts(1,2) j
    by (simp add: parts'_def)
  moreover have "\<forall>l < length nodes'. \<forall>i < k.
      sum_list (map (\<lambda>r. req r ! i) (parts' ! l)) \<le> nodes' ! l ! i"
  proof (intro allI impI)
    fix l i assume "l < length nodes'" "i < k"
    then have "sum_list (map (\<lambda>r. req r ! i) (parts ! l)) \<le> nodes ! l ! i"
      using parts(3) by (simp add: nodes'_def)
    then show "sum_list (map (\<lambda>r. req r ! i) (parts' ! l)) \<le> nodes' ! l ! i"
      using parts(1) j len \<open>i < k\<close> sum_list_map_remove1[OF j(2), of "\<lambda>r. req r ! i"]
      by (cases "l = j") (simp_all add: parts'_def nodes'_def consume_nth a_def)
  qed
  ultimately have "distributes k req rs nodes'" unfolding distributes_def
    using parts(1) by (intro exI[of _ parts']) (simp add: parts'_def nodes'_def)
  moreover have "vectors_ok k nodes'"
    using vectors_ok_consume[OF Cons.prems(2) len(2) j(1)] fit by (simp add: nodes'_def a_def)
  ultimately have "packs (map req rs) (mset nodes')"
    using Cons.IH Cons.prems(3) by (auto simp: vectors_ok_def)
  moreover have "mset nodes' = add_mset (consume a (req r)) (mset nodes - {#a#})"
    using j by (simp add: nodes'_def mset_update a_def)
  moreover have "a \<in># mset nodes" using j(1) by (simp add: a_def)
  ultimately show ?case using fit by (metis list.simps(9) packs.simps(2))
qed simp

lemma packs_iff_distributes:
  assumes "vectors_ok k nodes" and "vectors_ok k (map req rs)"
  shows "packs (map req rs) (mset nodes) \<longleftrightarrow> distributes k req rs nodes"
  using assms packs_imp_distributes distributes_imp_packs by (fastforce simp: vectors_ok_def)

lemma distributes_mset:
  "mset rs = mset rs' \<Longrightarrow> distributes k req rs nodes \<longleftrightarrow> distributes k req rs' nodes"
  by (simp add: distributes_def)

section \<open>The search decides \<open>placeable\<close>\<close>

lemma placement_dimensions_iff:
  "d \<in> set (placement_dimensions rs) \<longleftrightarrow> (\<exists>r \<in> set rs. 0 < replica_request d r)"
  by (simp add: placement_dimensions_def list_ex_iff replica_requested_iff)

lemma exact_entry_Inl:
  "exact_entry n d = Inl v \<Longrightarrow> v = REQUIRED_DIMENSION_UNREADABLE \<or> v = PLACEMENT_SEARCH_UNSUPPORTED"
  by (auto simp: exact_entry_def split: option.splits)

lemma mapR_Inl: "mapR f xs = Inl e \<Longrightarrow> \<exists>x \<in> set xs. f x = Inl e"
  by (induction xs) (auto simp: bindR_eq_Inl)

lemma exact_nodes_Inl:
  "exact_nodes dims ns = Inl v \<Longrightarrow>
   v = REQUIRED_DIMENSION_UNREADABLE \<or> v = PLACEMENT_SEARCH_UNSUPPORTED"
  unfolding exact_nodes_def by (blast dest: mapR_Inl exact_entry_Inl)

lemma exact_nodes_Inr:
  assumes "exact_nodes dims ns = Inr nodes"
  shows "length nodes = length ns"
    and "\<And>j. j < length ns \<Longrightarrow> length (nodes ! j) = length dims"
    and "\<And>j i. j < length ns \<Longrightarrow> i < length dims \<Longrightarrow>
           \<exists>q. node_available (dims ! i) (ns ! j) = Some q \<and> nodes ! j ! i = q_val q"
proof -
  have "list_all2 (\<lambda>n v. list_all2 (\<lambda>d x. exact_entry n d = Inr x) dims v) ns nodes"
    using assms by (simp add: exact_nodes_def mapR_Inr_all)
  then have len: "length nodes = length ns"
    and v: "\<And>j. j < length ns \<Longrightarrow>
      list_all2 (\<lambda>d x. exact_entry (ns ! j) d = Inr x) dims (nodes ! j)"
    by (auto simp: list_all2_conv_all_nth)
  from len show "length nodes = length ns" .
  show "\<And>j. j < length ns \<Longrightarrow> length (nodes ! j) = length dims"
    using v list_all2_lengthD by fastforce
  fix j i assume "j < length ns" "i < length dims"
  then have "exact_entry (ns ! j) (dims ! i) = Inr (nodes ! j ! i)"
    using v by (auto simp: list_all2_conv_all_nth)
  then show "\<exists>q. node_available (dims ! i) (ns ! j) = Some q \<and> nodes ! j ! i = q_val q"
    by (auto simp: exact_entry_def exact_quantity_val split: option.splits)
qed

lemma exact_nodes_ok:
  assumes "exact_nodes dims ns = Inr nodes" and "\<forall>n \<in> set ns. node_ok n"
  shows "vectors_ok (length dims) nodes"
  unfolding vectors_ok_def
proof (intro ballI conjI allI impI)
  fix v assume "v \<in> set nodes"
  then obtain j where j: "j < length ns" "v = nodes ! j"
    using exact_nodes_Inr(1)[OF assms(1)] by (metis in_set_conv_nth)
  then show "length v = length dims" using exact_nodes_Inr(2)[OF assms(1)] by simp
  fix i assume "i < length dims"
  with exact_nodes_Inr(3)[OF assms(1) j(1)] j assms(2) show "0 \<le> v ! i"
    by (metis node_ok_def nth_mem)
qed


lemma placeable_iff_distributes:
  assumes "exact_nodes (placement_dimensions rs) ns = Inr nodes"
  shows "placeable rs ns \<longleftrightarrow>
    distributes (length (placement_dimensions rs)) (request_vector (placement_dimensions rs)) rs nodes"
proof -
  define dims where "dims = placement_dimensions rs"
  note ex = exact_nodes_Inr[OF assms, folded dims_def]
  have load: "sum_list (map (\<lambda>r. request_vector dims r ! i) part)
      = of_int (sum_list (map (replica_request (dims ! i)) part))" if "i < length dims" for i part
    using that by (induction part) (simp_all add: request_vector_def)
  have each: "(\<forall>i < length dims. sum_list (map (\<lambda>r. request_vector dims r ! i) part) \<le> nodes ! j ! i)
      \<longleftrightarrow> (\<forall>d \<in> set dims. \<exists>q. node_available d (ns ! j) = Some q \<and>
             of_int (sum_list (map (replica_request d) part)) \<le> q_val q)"
    if j: "j < length ns" for j part
    unfolding all_set_conv_all_nth using ex(3)[OF j] load by fastforce
  have eq: "(\<forall>(n, part) \<in> set (zip ns parts). \<forall>d \<in> set dims. \<exists>q. node_available d n = Some q \<and>
        of_int (sum_list (map (replica_request d) part)) \<le> q_val q)
      \<longleftrightarrow> (\<forall>j < length nodes. \<forall>i < length dims.
             sum_list (map (\<lambda>r. request_vector dims r ! i) (parts ! j)) \<le> nodes ! j ! i)"
    if "length parts = length nodes" for parts
  proof -
    have "(\<forall>(n, part) \<in> set (zip ns parts). Q n part)
        \<longleftrightarrow> (\<forall>j < length nodes. Q (ns ! j) (parts ! j))" for Q
      using that ex(1) by (auto simp: set_zip)
    then show ?thesis using each ex(1) by simp
  qed
  show ?thesis
    unfolding placeable_def distributes_def dims_def[symmetric] ex(1)[symmetric]
    using eq by (intro ex_cong1 conj_cong refl) auto
qed

lemma order_replicas_mset:
  assumes "order_replicas dims nodes rs = Inr ordered"
  shows "mset ordered = mset rs"
proof -
  obtain keyed where m: "mapR (\<lambda>r. bindR (difficulty (map (\<lambda>k. Max ((\<lambda>n. n ! k) ` set nodes))
      [0..<length dims]) (request_vector dims r)) (\<lambda>key. Inr (key, r))) rs = Inr keyed"
    and o: "ordered = map snd (sorted_desc fst keyed)"
    using assms by (auto simp: order_replicas_def Let_def)
  have "map snd keyed = rs"
    using m unfolding mapR_Inr_all by (induction rs keyed rule: list_all2_induct) auto
  then show ?thesis unfolding o by (metis mset_map mset_sorted_desc)
qed

lemma request_vectors_ok:
  "(\<forall>r \<in> set rs. replica_ok r) \<Longrightarrow>
   vectors_ok (length dims) (map (request_vector dims) rs)"
  by (auto simp: vectors_ok_def request_vector_def replica_ok_def)

lemma replicas_fit_nodes_verdict:
  assumes run: "replicas_fit_nodes_within limit rs ns = Inr verdict"
    and rs: "\<forall>r \<in> set rs. replica_ok r" and ns: "\<forall>n \<in> set ns. node_ok n"
    and dec: "verdict = FIT \<or> verdict = INSUFFICIENT_CAPACITY" and "ns \<noteq> []"
  shows "verdict = FIT \<longleftrightarrow> placeable rs ns"
proof -
  define dims where "dims = placement_dimensions rs"
  show ?thesis
  proof (cases "exact_nodes dims ns")
    case (Inl v)
    have "v = REQUIRED_DIMENSION_UNREADABLE \<or> v = PLACEMENT_SEARCH_UNSUPPORTED"
      using Inl by (rule exact_nodes_Inl)
    moreover have "verdict = v"
      using run Inl \<open>ns \<noteq> []\<close> by (simp add: replicas_fit_nodes_within_def dims_def)
    ultimately show ?thesis using dec by auto
  next
    case (Inr nodes)
    then obtain ordered where ord: "order_replicas dims nodes rs = Inr ordered"
      and verdict: "verdict = search limit (map (request_vector dims) ordered)
          [(0, sorted_desc id nodes)] [(0, sorted_desc id nodes)]"
      using run \<open>ns \<noteq> []\<close> by (auto simp: replicas_fit_nodes_within_def dims_def Let_def)
    have perm: "mset ordered = mset rs" using ord by (rule order_replicas_mset)
    then have "set ordered = set rs" by (metis set_mset_mset)
    then have ok: "vectors_ok (length dims) (map (request_vector dims) ordered)"
      using rs request_vectors_ok by simp
    have nok: "vectors_ok (length dims) nodes" using Inr ns exact_nodes_ok by blast
    have "verdict = FIT \<longleftrightarrow> packs (map (request_vector dims) ordered) (mset nodes)"
      using search_decides[of limit "map (request_vector dims) ordered" "sorted_desc id nodes"]
        verdict dec by auto
    also have "\<dots> \<longleftrightarrow> distributes (length dims) (request_vector dims) rs nodes"
      using packs_iff_distributes[OF nok ok] distributes_mset[OF perm] by simp
    also have "\<dots> \<longleftrightarrow> placeable rs ns"
      using placeable_iff_distributes[of rs ns nodes] Inr by (simp add: dims_def)
    finally show ?thesis .
  qed
qed

end
