(* ===== verification/ProviderFit.thy ===== *)
theory ProviderFit
  imports Placement
begin

text \<open>
  \<^verbatim>\<open>ProviderCapacity\<close> of \<^verbatim>\<open>capacity.py\<close>: free fractions, absolute free units and the node
  list of one provider, the proof of fit, the contradiction check between the aggregate
  and the nodes, and the fraction that may rank the provider.
\<close>

section \<open>The provider snapshot\<close>

record provider_capacity =
  cap_cpu :: "rat option"
  cap_memory :: "rat option"
  cap_storage :: "rat option"
  cap_gpu :: "rat option"
  cpu_millicores_available :: "quantity option"
  memory_bytes_available :: "quantity option"
  storage_bytes_available :: "quantity option"
  gpu_count_available :: "quantity option"
  node_capacities :: "node_capacity list option"

fun free_fraction :: "dimension \<Rightarrow> provider_capacity \<Rightarrow> rat option" where
  "free_fraction Cpu c = cap_cpu c"
| "free_fraction Memory c = cap_memory c"
| "free_fraction Storage c = cap_storage c"
| "free_fraction Gpu c = cap_gpu c"

fun aggregate_available :: "dimension \<Rightarrow> provider_capacity \<Rightarrow> quantity option" where
  "aggregate_available Cpu c = cpu_millicores_available c"
| "aggregate_available Memory c = memory_bytes_available c"
| "aggregate_available Storage c = storage_bytes_available c"
| "aggregate_available Gpu c = gpu_count_available c"

text \<open>
  A fraction is an \<open>int\<close> or \<open>float\<close> (no \<open>bool\<close>, no \<open>Decimal\<close>), finite and within
  \<open>[0, 1]\<close>, and is stored as \<^verbatim>\<open>float(value)\<close>, which is exact there.
\<close>

definition check_fraction :: "pyval \<Rightarrow> rat option result" where
  "check_fraction v =
     (if v = PNone then Inr None
      else bindR (raise_if (case v of PInt _ \<Rightarrow> False | PFloat _ \<Rightarrow> False | _ \<Rightarrow> True) ValueError)
             (\<lambda>_. bindR (math_isfinite v) (\<lambda>fin.
           (case (fin, as_quantity v) of
              (True, Some q) \<Rightarrow> if 0 \<le> q_val q \<and> q_val q \<le> 1 then Inr (Some (q_val q))
                                else Inl ValueError
            | _ \<Rightarrow> Inl ValueError))))"

definition mk_provider_capacity ::
    "pyval \<Rightarrow> pyval \<Rightarrow> pyval \<Rightarrow> pyval \<Rightarrow> pyval \<Rightarrow> pyval \<Rightarrow> pyval \<Rightarrow> pyval
     \<Rightarrow> node_capacity list option \<Rightarrow> provider_capacity result" where
  "mk_provider_capacity cpu memory storage gpu cpu_av memory_av storage_av gpu_av nodes =
     bindR (check_fraction cpu) (\<lambda>fc.
     bindR (check_fraction memory) (\<lambda>fm.
     bindR (check_fraction storage) (\<lambda>fs.
     bindR (check_fraction gpu) (\<lambda>fg.
     bindR (check_available cpu_av) (\<lambda>ac.
     bindR (check_available memory_av) (\<lambda>am.
     bindR (check_available storage_av) (\<lambda>as.
     bindR (check_available gpu_av) (\<lambda>ag.
     if nodes = Some [] then Inl ValueError
     else Inr \<lparr>cap_cpu = fc, cap_memory = fm, cap_storage = fs, cap_gpu = fg,
               cpu_millicores_available = ac, memory_bytes_available = am,
               storage_bytes_available = as, gpu_count_available = ag,
               node_capacities = nodes\<rparr>))))))))"

definition capacity_ok :: "provider_capacity \<Rightarrow> bool" where
  "capacity_ok c \<longleftrightarrow>
     (\<forall>d f. free_fraction d c = Some f \<longrightarrow> 0 \<le> f \<and> f \<le> 1) \<and>
     (\<forall>d q. aggregate_available d c = Some q \<longrightarrow> 0 \<le> q_val q) \<and>
     (\<forall>ns. node_capacities c = Some ns \<longrightarrow> ns \<noteq> [] \<and> (\<forall>n \<in> set ns. node_ok n))"

text \<open>The capacity of a provider nobody could read: \<^verbatim>\<open>ProviderCapacity()\<close>.\<close>

definition unreadable_capacity :: provider_capacity where
  "unreadable_capacity =
     \<lparr>cap_cpu = None, cap_memory = None, cap_storage = None, cap_gpu = None,
      cpu_millicores_available = None, memory_bytes_available = None,
      storage_bytes_available = None, gpu_count_available = None, node_capacities = None\<rparr>"

section \<open>Building a snapshot from totals\<close>

definition dimension_of_name :: "string \<Rightarrow> dimension option" where
  "dimension_of_name s =
     (if s = ''cpu'' then Some Cpu else if s = ''memory'' then Some Memory
      else if s = ''storage'' then Some Storage else if s = ''gpu'' then Some Gpu else None)"

text \<open>\<^verbatim>\<open>Decimal(str(q))\<close> keeps the value of an integer and of a decimal, and is the shortest
  decimal that reads back as the float for a float.\<close>

fun decimal_of_str :: "quantity \<Rightarrow> rat" where
  "decimal_of_str (QInt i) = of_int i"
| "decimal_of_str (QFloat x) = dec_val (dec_of_float x)"
| "decimal_of_str (QDec d) = dec_val d"

text \<open>\<^verbatim>\<open>min(1.0, float(Decimal(str(available)) / Decimal(str(total))))\<close>.\<close>

definition fraction_of :: "quantity \<Rightarrow> quantity \<Rightarrow> pyfloat" where
  "fraction_of available tot =
     py_fmin (Fin 1)
       (float_of_rat (round_sig DECIMAL_PREC (decimal_of_str available / decimal_of_str tot)))"

fun pyval_of_quantity :: "quantity \<Rightarrow> pyval" where
  "pyval_of_quantity (QInt i) = PInt i"
| "pyval_of_quantity (QFloat x) = PFloat (Fin x)"
| "pyval_of_quantity (QDec d) = PDec (DFin d)"

definition pyval_of_option :: "quantity option \<Rightarrow> pyval" where
  "pyval_of_option q = (case q of None \<Rightarrow> PNone | Some x \<Rightarrow> pyval_of_quantity x)"

text \<open>One \<^verbatim>\<open>dimension=(available, total)\<close> pair: the fraction and the absolute value kept.\<close>

definition from_pair :: "(pyval \<times> pyval) option \<Rightarrow> (pyval \<times> pyval) result" where
  "from_pair pair =
     (case pair of
        None \<Rightarrow> Inr (PNone, PNone)
      | Some (available, tot) \<Rightarrow>
          bindR (raise_if (\<not> real_number available \<or> \<not> real_number tot) ValueError) (\<lambda>_.
          bindR (math_isfinite available) (\<lambda>fin_a.
          bindR (if fin_a then math_isfinite tot else Inr False) (\<lambda>fin.
          (case (fin, as_quantity available, as_quantity tot) of
             (True, Some a, Some t) \<Rightarrow>
               if q_val t < 0 \<or> q_val a < 0 then Inl ValueError
               else if q_val t < q_val a then Inl ValueError
               else if q_val t = 0 then Inr (PNone, PNone)
               else Inr (PFloat (fraction_of a t), available)
           | _ \<Rightarrow> Inl ValueError)))))"

fun from_dims ::
    "(string \<times> (pyval \<times> pyval) option) list \<Rightarrow> (string \<times> pyval \<times> pyval) list result" where
  "from_dims [] = Inr []"
| "from_dims ((name, pair) # rest) =
     bindR (from_pair pair) (\<lambda>out. bindR (from_dims rest) (\<lambda>outs. Inr ((name, out) # outs)))"

text \<open>\<^verbatim>\<open>from_totals(node_capacities=..., **dims)\<close>; a keyword not given keeps its default.\<close>

definition from_totals ::
    "node_capacity list option \<Rightarrow> (string \<times> (pyval \<times> pyval) option) list
     \<Rightarrow> provider_capacity result" where
  "from_totals nodes dims =
     bindR (raise_if (list_ex (\<lambda>(name, _). dimension_of_name name = None) dims) ValueError) (\<lambda>_.
     bindR (from_dims dims) (\<lambda>out.
       let fraction = (\<lambda>name. case map_of out name of None \<Rightarrow> PNone | Some (f, _) \<Rightarrow> f);
           absolute = (\<lambda>name. case map_of out name of None \<Rightarrow> PNone | Some (_, a) \<Rightarrow> a)
       in mk_provider_capacity (fraction ''cpu'') (fraction ''memory'') (fraction ''storage'')
            (fraction ''gpu'') (absolute ''cpu'') (absolute ''memory'') (absolute ''storage'')
            (absolute ''gpu'') nodes))"

section \<open>Proving fit\<close>

definition available_fraction :: "provider_capacity \<Rightarrow> rat option" where
  "available_fraction c = py_min id (List.map_filter (\<lambda>d. free_fraction d c) DIMENSIONS)"

definition is_readable :: "provider_capacity \<Rightarrow> bool" where
  "is_readable c \<longleftrightarrow> available_fraction c \<noteq> None"

text \<open>The aggregate comparison: a verdict that ends it, or whether the aggregate suffices.\<close>

fun aggregate_fits_loop ::
    "provider_capacity \<Rightarrow> resource_profile \<Rightarrow> dimension list \<Rightarrow> bool \<Rightarrow> capacity_fit + bool" where
  "aggregate_fits_loop c p [] acc = Inr acc"
| "aggregate_fits_loop c p (d # ds) acc =
     (case aggregate_available d c of
        None \<Rightarrow> Inl REQUIRED_DIMENSION_UNREADABLE
      | Some q \<Rightarrow>
          (case exact_quantity q of
             None \<Rightarrow> Inl PLACEMENT_SEARCH_UNSUPPORTED
           | Some x \<Rightarrow> aggregate_fits_loop c p ds
                         (if x < of_int (group_request d p) then False else acc)))"

definition node_values :: "dimension \<Rightarrow> provider_capacity \<Rightarrow> quantity option list" where
  "node_values d c =
     map (node_available d) (case node_capacities c of None \<Rightarrow> [] | Some ns \<Rightarrow> ns)"

text \<open>One dimension of \<^verbatim>\<open>_contradicts_nodes\<close>.\<close>

definition contradicts_in :: "provider_capacity \<Rightarrow> dimension \<Rightarrow> bool" where
  "contradicts_in c d =
     (let exact_aggregate = Option.bind (aggregate_available d c) exact_quantity;
          values = node_values d c;
          readable = map exact_quantity (List.map_filter id values)
      in case exact_aggregate of
           None \<Rightarrow> False
         | Some aggregate \<Rightarrow>
             if None \<in> set readable then False
             else let node_sum = sum_list (List.map_filter id readable)
                  in if aggregate < node_sum then True
                     else length readable = length values \<and> node_sum \<noteq> aggregate)"

definition contradicts_nodes :: "provider_capacity \<Rightarrow> resource_profile \<Rightarrow> bool" where
  "contradicts_nodes c p = list_ex (contradicts_in c) (requested_dimensions p)"

definition readable_nodes :: "resource_profile \<Rightarrow> node_capacity list \<Rightarrow> node_capacity list" where
  "readable_nodes p ns =
     filter (\<lambda>n. list_all (\<lambda>d. node_available d n \<noteq> None) (requested_dimensions p)) ns"

definition fit_within :: "nat \<Rightarrow> provider_capacity \<Rightarrow> resource_profile \<Rightarrow> capacity_fit result" where
  "fit_within limit c p =
     (if list_ex (\<lambda>d. free_fraction d c = None \<or> aggregate_available d c = None)
           (requested_dimensions p)
      then Inr REQUIRED_DIMENSION_UNREADABLE
      else case aggregate_fits_loop c p (requested_dimensions p) True of
             Inl verdict \<Rightarrow> Inr verdict
           | Inr aggregate_fits \<Rightarrow>
               (case node_capacities c of
                  None \<Rightarrow> Inr (if aggregate_fits then REQUIRED_DIMENSION_UNREADABLE
                               else INSUFFICIENT_CAPACITY)
                | Some ns \<Rightarrow>
                    if contradicts_nodes c p then Inr REQUIRED_DIMENSION_UNREADABLE
                    else let readable = readable_nodes p ns
                         in bindR (replicas_fit_nodes_within limit (replicas p) readable)
                              (\<lambda>placement_fit. Inr (
                                if aggregate_fits \<and> placement_fit = FIT then FIT
                                else if length readable \<noteq> length ns
                                     then REQUIRED_DIMENSION_UNREADABLE
                                else if placement_fit = PLACEMENT_SEARCH_UNSUPPORTED
                                     then placement_fit
                                else INSUFFICIENT_CAPACITY))))"

definition fit :: "provider_capacity \<Rightarrow> resource_profile \<Rightarrow> capacity_fit result" where
  "fit = fit_within PLACEMENT_SEARCH_STATE_LIMIT"

definition ranking_complete_for :: "provider_capacity \<Rightarrow> resource_profile \<Rightarrow> bool" where
  "ranking_complete_for c p =
     (case node_capacities c of
        None \<Rightarrow> False
      | Some ns \<Rightarrow> list_all (\<lambda>n. list_all (\<lambda>d. node_available d n \<noteq> None)
                                   (requested_dimensions p)) ns)"

text \<open>
  \<^verbatim>\<open>min\<close> over the requested dimensions: a dimension with no fraction would make Python
  compare \<open>None\<close> and raise \<open>TypeError\<close>; an empty list raises \<open>ValueError\<close>.
\<close>

definition available_fraction_for ::
    "provider_capacity \<Rightarrow> resource_profile \<Rightarrow> rat option result" where
  "available_fraction_for c p =
     bindR (fit c p) (\<lambda>verdict.
       if verdict \<noteq> FIT \<or> \<not> ranking_complete_for c p then Inr None
       else let fractions = map (\<lambda>d. free_fraction d c) (requested_dimensions p)
            in if None \<in> set fractions
               then (if length fractions = 1 then Inr None else Inl TypeError)
               else case py_min id (map the fractions) of
                      None \<Rightarrow> Inl ValueError
                    | Some f \<Rightarrow> Inr (Some f))"


section \<open>Lemmas\<close>

lemma check_fraction_ok:
  "check_fraction v = Inr (Some f) \<Longrightarrow> 0 \<le> f \<and> f \<le> 1"
  by (auto simp: check_fraction_def split: if_splits option.splits bool.splits)

lemma mk_provider_capacity_ok:
  assumes "mk_provider_capacity a b c d e f g h nodes = Inr cap"
    and "\<And>ns n. nodes = Some ns \<Longrightarrow> n \<in> set ns \<Longrightarrow> node_ok n"
  shows "capacity_ok cap"
  using assms unfolding capacity_ok_def dimension_all
  by (auto simp: mk_provider_capacity_def split: if_splits
      dest: check_fraction_ok check_available_ok)

lemma from_totals_ok:
  assumes "from_totals nodes dims = Inr cap"
    and "\<And>ns n. nodes = Some ns \<Longrightarrow> n \<in> set ns \<Longrightarrow> node_ok n"
  shows "capacity_ok cap"
  using assms by (auto simp: from_totals_def Let_def intro: mk_provider_capacity_ok)

lemma aggregate_fits_loop_Inr:
  "aggregate_fits_loop c p ds acc = Inr b \<Longrightarrow>
   (\<forall>d \<in> set ds. \<exists>q. aggregate_available d c = Some q \<and> exact_quantity q \<noteq> None) \<and>
   (b \<longleftrightarrow> acc \<and> (\<forall>d \<in> set ds. \<forall>q. aggregate_available d c = Some q \<longrightarrow>
                  of_int (group_request d p) \<le> q_val q))"
proof (induction ds arbitrary: acc)
  case (Cons d ds)
  then obtain q x where q: "aggregate_available d c = Some q" "exact_quantity q = Some x"
    and run: "aggregate_fits_loop c p ds (if x < of_int (group_request d p) then False else acc) = Inr b"
    by (auto split: option.splits)
  have "x = q_val q" using q(2) by (rule exact_quantity_val)
  with Cons.IH[OF run] q show ?case by (auto simp: not_less split: if_splits)
qed simp

lemma aggregate_fits_loop_Inl:
  "aggregate_fits_loop c p ds acc = Inl v \<Longrightarrow>
   v = REQUIRED_DIMENSION_UNREADABLE \<or> v = PLACEMENT_SEARCH_UNSUPPORTED"
  by (induction ds arbitrary: acc) (auto split: option.splits if_splits)

lemma readable_nodes_subset: "set (readable_nodes p ns) \<subseteq> set ns"
  by (auto simp: readable_nodes_def)

lemma readable_nodes_all:
  "length (readable_nodes p ns) = length ns \<longleftrightarrow> readable_nodes p ns = ns"
  by (metis length_filter_less filter_True order_less_irrefl readable_nodes_def)

lemma ranking_complete_readable:
  "node_capacities c = Some ns \<Longrightarrow>
   ranking_complete_for c p \<longleftrightarrow> readable_nodes p ns = ns"
  by (auto simp: ranking_complete_for_def readable_nodes_def list_all_iff filter_id_conv)

lemma profile_ok_replicas: "profile_ok p \<Longrightarrow> \<forall>r \<in> set (replicas p). replica_ok r"
  by (simp add: profile_ok_def)

lemma fit_cases:
  assumes "fit_within limit c p = Inr v" and "v = FIT \<or> v = INSUFFICIENT_CAPACITY"
  obtains (no_nodes) b where "node_capacities c = None"
      "aggregate_fits_loop c p (requested_dimensions p) True = Inr b" "\<not> b"
      "v = INSUFFICIENT_CAPACITY"
  | (nodes) b ns placement where "node_capacities c = Some ns"
      "aggregate_fits_loop c p (requested_dimensions p) True = Inr b"
      "\<not> contradicts_nodes c p"
      "replicas_fit_nodes_within limit (replicas p) (readable_nodes p ns) = Inr placement"
      "v = FIT \<longleftrightarrow> b \<and> placement = FIT"
      "v \<noteq> FIT \<longrightarrow> readable_nodes p ns = ns \<and> placement \<noteq> PLACEMENT_SEARCH_UNSUPPORTED"
proof -
  from assms obtain b where agg: "aggregate_fits_loop c p (requested_dimensions p) True = Inr b"
    by (auto simp: fit_within_def split: if_splits sum.splits dest: aggregate_fits_loop_Inl)
  show ?thesis
  proof (cases "node_capacities c")
    case None
    then have "\<not> b \<and> v = INSUFFICIENT_CAPACITY"
      using assms agg by (auto simp: fit_within_def split: if_splits)
    with None agg show ?thesis by (intro no_nodes) auto
  next
    case (Some ns)
    then have nc: "\<not> contradicts_nodes c p"
      using assms agg by (auto simp: fit_within_def split: if_splits)
    then obtain placement where
      pl: "replicas_fit_nodes_within limit (replicas p) (readable_nodes p ns) = Inr placement"
      and v: "v = (if b \<and> placement = FIT then FIT
                   else if length (readable_nodes p ns) \<noteq> length ns
                        then REQUIRED_DIMENSION_UNREADABLE
                   else if placement = PLACEMENT_SEARCH_UNSUPPORTED then placement
                   else INSUFFICIENT_CAPACITY)"
      using assms agg Some by (auto simp: fit_within_def Let_def split: if_split_asm)
    have "v = FIT \<longleftrightarrow> b \<and> placement = FIT" using v by (auto split: if_splits)
    moreover have "v \<noteq> FIT \<longrightarrow> readable_nodes p ns = ns \<and> placement \<noteq> PLACEMENT_SEARCH_UNSUPPORTED"
      using v assms(2) readable_nodes_all[of p ns] by (auto split: if_splits)
    ultimately show ?thesis using nodes[OF Some agg nc pl] by blast
  qed
qed

lemma exact_nodes_empty_dims: "exact_nodes [] ns = Inr (map (\<lambda>_. []) ns)"
  by (simp add: exact_nodes_def mapR_all_Inr)


text \<open>What is placed on the nodes cannot exceed what the nodes have together.\<close>

lemma parts_le_nodes:
  assumes "length parts = length ns"
    and "\<forall>(n, part) \<in> set (zip ns parts). \<exists>q. f n = Some q \<and> (of_int (sum_list (map g part)) :: rat) \<le> q_val q"
  shows "of_int (sum_list (map g (concat parts))) \<le> sum_list (map (\<lambda>n. q_val (the (f n))) ns)"
  using assms
proof (induction parts ns rule: list_induct2)
  case (Cons part parts n ns)
  then have "of_int (sum_list (map g part)) \<le> q_val (the (f n))"
    and "of_int (sum_list (map g (concat parts))) \<le> sum_list (map (\<lambda>n. q_val (the (f n))) ns)"
    by auto
  then show ?case by simp
qed simp

lemma placeable_le_nodes:
  assumes "placeable rs ns" and "d \<in> set (placement_dimensions rs)"
  shows "of_int (sum_list (map (replica_request d) rs))
         \<le> sum_list (map (\<lambda>n. q_val (the (node_available d n))) ns)"
proof -
  obtain parts where parts: "length parts = length ns" "mset (concat parts) = mset rs"
    "\<forall>(n, part) \<in> set (zip ns parts). \<forall>d \<in> set (placement_dimensions rs).
       \<exists>q. node_available d n = Some q \<and> of_int (sum_list (map (replica_request d) part)) \<le> q_val q"
    using assms(1) by (auto simp: placeable_def)
  have "of_int (sum_list (map (replica_request d) (concat parts)))
      \<le> sum_list (map (\<lambda>n. q_val (the (node_available d n))) ns)"
    using parts(1,3) assms(2) by (intro parts_le_nodes) auto
  moreover have "sum_list (map (replica_request d) (concat parts)) = sum_list (map (replica_request d) rs)"
    using parts(2) by (metis mset_map sum_mset_sum_list)
  ultimately show ?thesis by simp
qed

lemma requested_placement_dimension:
  assumes "profile_ok p" and "d \<in> set (requested_dimensions p)"
  shows "d \<in> set (placement_dimensions (replicas p))"
proof (rule ccontr)
  assume "d \<notin> set (placement_dimensions (replicas p))"
  then have "\<forall>r \<in> set (replicas p). replica_request d r = 0"
    using assms(1) by (auto simp: placement_dimensions_iff profile_ok_def replica_ok_def not_less
        intro: antisym)
  then have "sum_list (map (replica_request d) (replicas p)) = sum_list (map (\<lambda>_. 0) (replicas p))"
    by (intro arg_cong[where f = sum_list] map_cong) auto
  then have "sum_list (map (replica_request d) (replicas p)) = 0" by (simp only: sum_list_0)
  then show False using assms by (simp add: profile_ok_def requested_iff)
qed

lemma map_filter_all_Some:
  "\<forall>x \<in> set xs. f x \<noteq> None \<Longrightarrow> List.map_filter f xs = map (\<lambda>x. the (f x)) xs"
  by (induction xs) (auto simp: List.map_filter_simps)

lemma contradicts_in_if_above:
  assumes "node_capacities c = Some ns"
    and "aggregate_available d c = Some q" and "exact_quantity q \<noteq> None"
    and nodes: "\<forall>n \<in> set ns. \<exists>x. node_available d n = Some x \<and> exact_quantity x \<noteq> None"
    and "q_val q < sum_list (map (\<lambda>n. q_val (the (node_available d n))) ns)"
  shows "contradicts_in c d"
proof -
  obtain y where y: "exact_quantity q = Some y" "y = q_val q"
    using assms(3) exact_quantity_val by fastforce
  have v: "List.map_filter id (map (node_available d) ns) = map (\<lambda>n. the (node_available d n)) ns"
    using nodes by (induction ns) (auto simp: List.map_filter_simps)
  have r: "None \<notin> set (map exact_quantity (map (\<lambda>n. the (node_available d n)) ns))"
    using nodes by fastforce
  have "List.map_filter id (map exact_quantity (map (\<lambda>n. the (node_available d n)) ns))
      = map (\<lambda>n. q_val (the (node_available d n))) ns"
    using nodes by (induction ns) (auto simp: List.map_filter_simps dest: exact_quantity_val)
  with r v y assms(1,2,5) show ?thesis
    by (simp add: contradicts_in_def node_values_def Let_def)
qed

lemma placement_readable:
  assumes "replicas_fit_nodes_within limit rs ns = Inr v" and "ns \<noteq> []"
    and "v = FIT \<or> v = INSUFFICIENT_CAPACITY"
  obtains nodes where "exact_nodes (placement_dimensions rs) ns = Inr nodes"
  using assms exact_nodes_Inl
  by (fastforce simp: replicas_fit_nodes_within_def Let_def split: sum.splits)

lemma exact_nodes_entries:
  assumes "exact_nodes dims ns = Inr nodes" and "n \<in> set ns" and "d \<in> set dims"
  shows "\<exists>x. node_available d n = Some x \<and> exact_quantity x \<noteq> None"
proof -
  have "list_all2 (\<lambda>n v. mapR (exact_entry n) dims = Inr v) ns nodes"
    using assms(1) by (simp only: exact_nodes_def mapR_Inr_all)
  then obtain v where "mapR (exact_entry n) dims = Inr v"
    using assms(2) by (auto simp: list_all2_conv_all_nth in_set_conv_nth)
  then have "list_all2 (\<lambda>d x. exact_entry n d = Inr x) dims v" by (simp only: mapR_Inr_all)
  then obtain y where "exact_entry n d = Inr y"
    using assms(3) by (auto simp: list_all2_conv_all_nth in_set_conv_nth)
  then show ?thesis by (auto simp: exact_entry_def split: option.splits)
qed

lemma placement_not_unreadable:
  assumes "replicas_fit_nodes_within limit (replicas p) (readable_nodes p ns) = Inr v"
    and "profile_ok p"
  shows "v \<noteq> REQUIRED_DIMENSION_UNREADABLE"
proof
  assume v: "v = REQUIRED_DIMENSION_UNREADABLE"
  then have "exact_nodes (placement_dimensions (replicas p)) (readable_nodes p ns) = Inl v"
    using assms(1)
    by (auto simp: replicas_fit_nodes_within_def Let_def search_verdicts simp del: search.simps
        split: if_splits sum.splits)
  then obtain n d where nd: "n \<in> set (readable_nodes p ns)"
    "d \<in> set (placement_dimensions (replicas p))" "exact_entry n d = Inl v"
    unfolding exact_nodes_def by (blast dest: mapR_Inl)
  have "d \<in> set (requested_dimensions p)"
    using nd(2) replica_request_le_group[OF assms(2)]
    by (metis order_less_le_trans placement_dimensions_iff requested_iff)
  with nd(1) have "node_available d n \<noteq> None"
    by (auto simp: readable_nodes_def list_all_iff)
  with nd(3) v show False by (auto simp: exact_entry_def split: option.splits)
qed


section \<open>What the verdicts prove\<close>

lemma fit_within_FIT:
  assumes "fit_within limit c p = Inr FIT" and "capacity_ok c" and "profile_ok p"
  shows "\<exists>ns. node_capacities c = Some ns
           \<and> (\<forall>d \<in> set (requested_dimensions p). \<exists>q f. aggregate_available d c = Some q
                \<and> of_int (group_request d p) \<le> q_val q \<and> free_fraction d c = Some f)
           \<and> placeable (replicas p) (readable_nodes p ns)"
proof -
  have guard: "\<forall>d \<in> set (requested_dimensions p).
      free_fraction d c \<noteq> None \<and> aggregate_available d c \<noteq> None"
    using assms(1) by (auto simp: fit_within_def list_ex_iff split: if_splits)
  obtain b ns placement where nodes: "node_capacities c = Some ns"
    "aggregate_fits_loop c p (requested_dimensions p) True = Inr b"
    "replicas_fit_nodes_within limit (replicas p) (readable_nodes p ns) = Inr placement"
    and "b" and pl: "placement = FIT"
    by (rule fit_cases[OF assms(1)]) auto
  have agg: "\<forall>d \<in> set (requested_dimensions p). \<exists>q. aggregate_available d c = Some q
      \<and> of_int (group_request d p) \<le> q_val q"
    using aggregate_fits_loop_Inr[OF nodes(2)] \<open>b\<close> by blast
  have "readable_nodes p ns \<noteq> []"
    using nodes(3) pl by (auto simp: replicas_fit_nodes_within_def)
  moreover have "\<forall>n \<in> set (readable_nodes p ns). node_ok n"
    using assms(2) nodes(1) readable_nodes_subset by (fastforce simp: capacity_ok_def)
  ultimately have "placeable (replicas p) (readable_nodes p ns)"
    using replicas_fit_nodes_verdict[OF nodes(3)] profile_ok_replicas[OF assms(3)] pl by simp
  with nodes(1) agg guard show ?thesis by blast
qed

definition breakdown_of :: "provider_capacity \<Rightarrow> resource_profile \<Rightarrow> node_capacity list \<Rightarrow> bool" where
  "breakdown_of c p ns \<longleftrightarrow>
     node_capacities c = Some ns \<or>
     node_capacities c = None \<and>
     (\<forall>d \<in> set (requested_dimensions p). \<forall>q. aggregate_available d c = Some q \<longrightarrow>
        sum_list (map (\<lambda>n. q_val (the (node_available d n))) ns) \<le> q_val q)"

lemma fit_within_INSUFFICIENT:
  assumes "fit_within limit c p = Inr INSUFFICIENT_CAPACITY"
    and "capacity_ok c" and ok: "profile_ok p" and "breakdown_of c p ns"
  shows "\<not> placeable (replicas p) ns"
proof
  assume placed: "placeable (replicas p) ns"
  have sum_ge: "of_int (group_request d p) \<le> sum_list (map (\<lambda>n. q_val (the (node_available d n))) ns)"
    if "d \<in> set (requested_dimensions p)" for d
    using placeable_le_nodes[OF placed requested_placement_dimension[OF ok that]] ok
    by (simp add: profile_ok_def)
  have short: "\<exists>d \<in> set (requested_dimensions p). \<exists>q. aggregate_available d c = Some q
      \<and> exact_quantity q \<noteq> None \<and> q_val q < of_int (group_request d p)"
    if "aggregate_fits_loop c p (requested_dimensions p) True = Inr False"
    using aggregate_fits_loop_Inr[OF that] by (fastforce simp: not_le)
  consider (no_nodes) "node_capacities c = None"
      "aggregate_fits_loop c p (requested_dimensions p) True = Inr False"
    | (nodes) b ns' placement where "node_capacities c = Some ns'"
      "aggregate_fits_loop c p (requested_dimensions p) True = Inr b"
      "\<not> contradicts_nodes c p"
      "replicas_fit_nodes_within limit (replicas p) (readable_nodes p ns') = Inr placement"
      "\<not> (b \<and> placement = FIT)"
      "readable_nodes p ns' = ns' \<and> placement \<noteq> PLACEMENT_SEARCH_UNSUPPORTED"
    by (rule fit_cases[OF assms(1)]) auto
  then show False
  proof cases
    case no_nodes
    then obtain d q where "d \<in> set (requested_dimensions p)" "aggregate_available d c = Some q"
      "q_val q < of_int (group_request d p)" using short by auto
    with sum_ge[of d] no_nodes(1) assms(4) show False by (fastforce simp: breakdown_of_def)
  next
    case (nodes b ns' placement)
    have [simp]: "ns' = ns" using nodes(1) assms(4) by (simp add: breakdown_of_def)
    have rd: "readable_nodes p ns = ns" and ne: "placement \<noteq> PLACEMENT_SEARCH_UNSUPPORTED"
      using nodes(6) by auto
    have run: "replicas_fit_nodes_within limit (replicas p) ns = Inr placement"
      using nodes(4) rd by simp
    have nn: "ns \<noteq> []" and nok: "\<forall>n \<in> set ns. node_ok n"
      using assms(2) nodes(1) by (auto simp: capacity_ok_def)
    have dec: "placement = FIT \<or> placement = INSUFFICIENT_CAPACITY"
      using placement_not_unreadable[OF nodes(4) ok] ne by (cases placement) auto
    have fit: "placement = FIT"
      using replicas_fit_nodes_verdict[OF run profile_ok_replicas[OF ok] nok dec nn] placed by simp
    then have "\<not> b" using nodes(5) by auto
    then obtain d q where d: "d \<in> set (requested_dimensions p)" "aggregate_available d c = Some q"
      "exact_quantity q \<noteq> None" "q_val q < of_int (group_request d p)"
      using short nodes(2) by auto
    obtain vs where vs: "exact_nodes (placement_dimensions (replicas p)) ns = Inr vs"
      using placement_readable[OF run nn dec] by blast
    have "contradicts_in c d"
      using contradicts_in_if_above[OF nodes(1) d(2,3)]
        exact_nodes_entries[OF vs _ requested_placement_dimension[OF ok d(1)]]
        sum_ge[OF d(1)] d(4) by fastforce
    with d(1) nodes(3) show False by (auto simp: contradicts_nodes_def list_ex_iff)
  qed
qed

lemma available_fraction_for_spec:
  assumes "capacity_ok c" and "profile_ok p" and v: "fit c p = Inr v"
  shows "available_fraction_for c p =
    (if v = FIT \<and> ranking_complete_for c p
     then Inr (Some (Min ((\<lambda>d. the (free_fraction d c)) ` set (requested_dimensions p))))
     else Inr None)"
proof (cases "v = FIT \<and> ranking_complete_for c p")
  case True
  then have all: "\<forall>d \<in> set (requested_dimensions p). \<exists>f. free_fraction d c = Some f"
    using fit_within_FIT[of PLACEMENT_SEARCH_STATE_LIMIT c p] assms by (auto simp: fit_def)
  have ne: "requested_dimensions p \<noteq> []" using assms(2) by (rule profile_requested_nonempty)
  let ?fs = "map (\<lambda>d. the (free_fraction d c)) (requested_dimensions p)"
  have "map the (map (\<lambda>d. free_fraction d c) (requested_dimensions p)) = ?fs" by simp
  moreover have "None \<notin> set (map (\<lambda>d. free_fraction d c) (requested_dimensions p))"
    using all by force
  moreover obtain m where m: "py_min id ?fs = Some m"
    using ne by (metis Nil_is_map_conv not_None_eq py_min_None)
  moreover have "m = Min (set ?fs)"
    using py_min_in[OF m] py_min_le[OF m] by (intro Min_eqI[symmetric]) auto
  ultimately show ?thesis using True v
    by (simp add: available_fraction_for_def Let_def del: map_map)
qed (use v in \<open>auto simp: available_fraction_for_def\<close>)


text \<open>The only exception that \<open>fit\<close> lets escape is the float conversion's.\<close>

lemma add_share_Inl: "add_share s acc = Inl e \<Longrightarrow> e = OverflowError"
  by (cases s; cases acc)
    (auto simp: bindR_eq_Inl fraction_to_float_def Let_def split: if_splits pyfloat.splits)

lemma foldR_add_share_Inl: "foldR add_share ss acc = Inl e \<Longrightarrow> e = OverflowError"
  by (induction ss arbitrary: acc) (auto simp: bindR_eq_Inl dest: add_share_Inl)

lemma difficulty_Inl:
  assumes "difficulty maximum request = Inl e" and "maximum \<noteq> []" and "request \<noteq> []"
  shows "e = OverflowError"
  using assms
  by (cases maximum; cases request)
    (auto simp: difficulty_def Let_def bindR_eq_Inl dest: foldR_add_share_Inl add_share_Inl)

lemma replicas_fit_nodes_within_Inl:
  assumes "replicas_fit_nodes_within limit rs ns = Inl e" and "placement_dimensions rs \<noteq> []"
  shows "e = OverflowError"
proof -
  obtain nodes where "order_replicas (placement_dimensions rs) nodes rs = Inl e"
    using assms(1)
    by (auto simp: replicas_fit_nodes_within_def Let_def bindR_eq_Inl split: if_splits sum.splits)
  then obtain r where "difficulty (map (\<lambda>k. Max ((\<lambda>n. n ! k) ` set nodes))
      [0..<length (placement_dimensions rs)]) (request_vector (placement_dimensions rs) r) = Inl e"
    by (auto simp: order_replicas_def Let_def bindR_eq_Inl dest!: mapR_Inl)
  then show ?thesis
    by (rule difficulty_Inl) (use assms(2) in \<open>simp_all add: request_vector_def\<close>)
qed

lemma fit_Inl:
  assumes "fit c p = Inl e" and "profile_ok p"
  shows "e = OverflowError"
proof -
  obtain d where "d \<in> set (requested_dimensions p)"
    using profile_requested_nonempty[OF assms(2)] by (cases "requested_dimensions p") auto
  then have "placement_dimensions (replicas p) \<noteq> []"
    using requested_placement_dimension[OF assms(2)] by fastforce
  then show ?thesis
    using assms(1) replicas_fit_nodes_within_Inl
    by (auto simp: fit_def fit_within_def Let_def bindR_eq_Inl split: if_splits sum.splits option.splits)
qed

section \<open>Concrete inputs\<close>

definition sample_node :: "int \<Rightarrow> int \<Rightarrow> node_capacity" where
  "sample_node cpu memory =
     \<lparr>node_cpu_available = Some (QInt cpu), node_memory_available = Some (QInt memory),
      node_storage_available = None, node_gpu_available = None\<rparr>"

definition sample_replica :: "int \<Rightarrow> int \<Rightarrow> replica_profile" where
  "sample_replica cpu memory =
     \<lparr>rp_cpu_millicores = cpu, rp_memory_bytes = memory, rp_storage_bytes = 0, rp_gpu_count = 0\<rparr>"

definition sample_capacity :: provider_capacity where
  "sample_capacity =
     unreadable_capacity\<lparr>cap_cpu := Some (4 / 5), cap_memory := Some (3 / 4),
       cpu_millicores_available := Some (QInt 8000), memory_bytes_available := Some (QInt 24),
       node_capacities := Some [sample_node 5000 16, sample_node 3000 8]\<rparr>"

definition sample_profile :: "int \<Rightarrow> int \<Rightarrow> resource_profile" where
  "sample_profile cpu memory =
     \<lparr>cpu_millicores = 2 * cpu, memory_bytes = 2 * memory, storage_bytes = 0, gpu_count = 0,
      replicas = [sample_replica cpu memory, sample_replica cpu memory]\<rparr>"

lemmas sample_defs = sample_node_def sample_replica_def sample_capacity_def sample_profile_def
  unreadable_capacity_def

lemmas fit_eval = fit_def fit_within_def replicas_fit_nodes_within_def requested_dimensions_def
  DIMENSIONS_def contradicts_nodes_def contradicts_in_def node_values_def readable_nodes_def
  placement_dimensions_def replica_requested_dimensions_def exact_nodes_def exact_entry_def
  order_replicas_def difficulty_def share_def request_vector_def sorted_desc_def
  lacks_def consume_def PLACEMENT_SEARCH_STATE_LIMIT_def List.map_filter_simps Let_def

lemma sample_capacity_ok: "capacity_ok sample_capacity"
  by (auto simp: capacity_ok_def node_ok_def dimension_all sample_defs)

lemma sample_profile_ok: "0 < cpu \<Longrightarrow> 0 \<le> memory \<Longrightarrow> profile_ok (sample_profile cpu memory)"
  by (auto simp: profile_ok_def replica_ok_def dimension_all sample_defs
      replica_requested_dimensions_def DIMENSIONS_def)

lemma sample_fit: "fit sample_capacity (sample_profile 3000 8) = Inr FIT"
  by (simp add: fit_eval sample_defs)

lemma sample_insufficient: "fit sample_capacity (sample_profile 4000 8) = Inr INSUFFICIENT_CAPACITY"
  by (simp add: fit_eval sample_defs)

section \<open>Properties\<close>

text \<open>
  C14: the placement search is exact. Whenever it answers FIT or INSUFFICIENT_CAPACITY for
  well-formed replicas and nodes (at least one node), it answers FIT if and only if the
  replicas really can be distributed over the nodes, in every requested dimension at once.
\<close>

theorem replicas_fit_nodes_exact:
  assumes "replicas_fit_nodes rs ns = Inr verdict"
    and "\<forall>r \<in> set rs. replica_ok r" and "\<forall>n \<in> set ns. node_ok n" and "ns \<noteq> []"
    and "verdict = FIT \<or> verdict = INSUFFICIENT_CAPACITY"
  shows "verdict = FIT \<longleftrightarrow> placeable rs ns"
  using assms replicas_fit_nodes_verdict unfolding replicas_fit_nodes_def by blast

theorem replicas_fit_nodes_exact_witness:
  "placeable [sample_replica 3000 8, sample_replica 2000 8] [sample_node 5000 16]
   \<and> \<not> placeable [sample_replica 3000 8, sample_replica 2001 8] [sample_node 5000 16]"
proof -
  have rs: "replica_ok (sample_replica c m)" if "0 < c" "0 \<le> m" for c m
    using that by (auto simp: replica_ok_def dimension_all sample_defs
        replica_requested_dimensions_def DIMENSIONS_def)
  have ns: "node_ok (sample_node 5000 16)"
    by (auto simp: node_ok_def dimension_all sample_defs)
  have yes: "replicas_fit_nodes [sample_replica 3000 8, sample_replica 2000 8] [sample_node 5000 16]
      = Inr FIT" by (simp add: replicas_fit_nodes_def fit_eval sample_defs)
  have no: "replicas_fit_nodes [sample_replica 3000 8, sample_replica 2001 8] [sample_node 5000 16]
      = Inr INSUFFICIENT_CAPACITY" by (simp add: replicas_fit_nodes_def fit_eval sample_defs)
  show ?thesis
    using replicas_fit_nodes_exact[OF yes] replicas_fit_nodes_exact[OF no] rs ns by simp
qed

text \<open>
  C24: FIT is a proof. When \<open>fit\<close> answers FIT for a well-formed snapshot and group, the
  aggregate free units cover the group in every requested dimension (each with a readable
  free fraction), and all replicas can be placed on the nodes that are readable in them.
\<close>

theorem fit_FIT_proves_placement:
  assumes "fit c p = Inr FIT" and "capacity_ok c" and "profile_ok p"
  shows "\<exists>ns. node_capacities c = Some ns
           \<and> (\<forall>d \<in> set (requested_dimensions p). \<exists>q f. aggregate_available d c = Some q
                \<and> of_int (group_request d p) \<le> q_val q \<and> free_fraction d c = Some f)
           \<and> placeable (replicas p) (readable_nodes p ns)"
  using fit_within_FIT assms unfolding fit_def by blast

theorem fit_FIT_proves_placement_witness:
  "placeable (replicas (sample_profile 3000 8)) [sample_node 5000 16, sample_node 3000 8]"
  using fit_FIT_proves_placement[OF sample_fit sample_capacity_ok sample_profile_ok]
  by (auto simp: sample_capacity_def readable_nodes_def requested_dimensions_def DIMENSIONS_def
      sample_profile_def sample_node_def)

text \<open>
  C30: INSUFFICIENT_CAPACITY is a proof too. For a well-formed snapshot and group it means
  that no distribution of the replicas exists: over the reported nodes, and, when the
  snapshot has no node list, over any node list that the aggregate could summarise.
\<close>

theorem fit_INSUFFICIENT_proves_no_placement:
  assumes "fit c p = Inr INSUFFICIENT_CAPACITY" and "capacity_ok c" and "profile_ok p"
    and "breakdown_of c p ns"
  shows "\<not> placeable (replicas p) ns"
  using fit_within_INSUFFICIENT assms unfolding fit_def by blast

theorem fit_INSUFFICIENT_proves_no_placement_witness:
  "\<not> placeable (replicas (sample_profile 4000 8)) [sample_node 5000 16, sample_node 3000 8]"
  using fit_INSUFFICIENT_proves_no_placement[OF sample_insufficient sample_capacity_ok
      sample_profile_ok, of "[sample_node 5000 16, sample_node 3000 8]"]
  by (simp add: breakdown_of_def sample_capacity_def)

text \<open>
  The ranking score. For a well-formed snapshot and group whose fit verdict is known,
  \<open>available_fraction_for\<close> never raises; it is the least free fraction over exactly the
  requested dimensions when fit is proven and every node reports them, and \<open>None\<close> otherwise.
\<close>

theorem available_fraction_for_binding:
  assumes "capacity_ok c" and "profile_ok p" and "fit c p = Inr v"
  shows "available_fraction_for c p =
    (if v = FIT \<and> ranking_complete_for c p
     then Inr (Some (Min ((\<lambda>d. the (free_fraction d c)) ` set (requested_dimensions p))))
     else Inr None)"
  using available_fraction_for_spec assms by blast

theorem available_fraction_for_binding_witness:
  "available_fraction_for sample_capacity (sample_profile 3000 8) = Inr (Some (3 / 4))"
proof -
  have "ranking_complete_for sample_capacity (sample_profile 3000 8)"
    by (simp add: ranking_complete_for_def sample_defs requested_dimensions_def DIMENSIONS_def)
  moreover have "set (requested_dimensions (sample_profile 3000 8)) = {Cpu, Memory}"
    by (simp add: requested_dimensions_def DIMENSIONS_def sample_defs)
  ultimately show ?thesis
    using available_fraction_for_binding[OF sample_capacity_ok sample_profile_ok sample_fit]
    by (simp add: sample_capacity_def)
qed


definition gpu_starved_capacity :: provider_capacity where
  "gpu_starved_capacity =
     unreadable_capacity\<lparr>cap_cpu := Some (1 / 2), cap_gpu := Some 0,
       cpu_millicores_available := Some (QInt 1), gpu_count_available := Some (QInt 0),
       node_capacities := Some [\<lparr>node_cpu_available = Some (QInt 1), node_memory_available = None,
          node_storage_available = None, node_gpu_available = Some (QInt 0)\<rparr>]\<rparr>"

definition huge_gpu_profile :: resource_profile where
  "huge_gpu_profile =
     \<lparr>cpu_millicores = 2 ^ 1024, memory_bytes = 0, storage_bytes = 0, gpu_count = 1,
      replicas = [\<lparr>rp_cpu_millicores = 2 ^ 1024, rp_memory_bytes = 0, rp_storage_bytes = 0,
                   rp_gpu_count = 1\<rparr>]\<rparr>"

text \<open>
  \<open>fit\<close> is not total. A group may request more of one dimension than a float can hold
  while no node has any headroom in another requested dimension; the replica ordering then
  mixes fractions with the float \<^verbatim>\<open>0.0\<close>, and the conversion raises \<open>OverflowError\<close> instead
  of returning a verdict. Both inputs below are well formed.
\<close>

theorem fit_overflow_escapes:
  "capacity_ok gpu_starved_capacity \<and> profile_ok huge_gpu_profile \<and>
   fit gpu_starved_capacity huge_gpu_profile = Inl OverflowError"
proof (intro conjI)
  show "capacity_ok gpu_starved_capacity"
    by (auto simp: capacity_ok_def node_ok_def dimension_all gpu_starved_capacity_def
        unreadable_capacity_def)
  show "profile_ok huge_gpu_profile"
    by (auto simp: profile_ok_def replica_ok_def dimension_all huge_gpu_profile_def
        replica_requested_dimensions_def DIMENSIONS_def)
  show "fit gpu_starved_capacity huge_gpu_profile = Inl OverflowError"
    by (simp add: fit_eval gpu_starved_capacity_def huge_gpu_profile_def unreadable_capacity_def
        fraction_to_float_def double_round_overflow double_limit_def)
qed

end
