(* ===== verification/DecimalContext.thy ===== *)
theory DecimalContext
  imports PyNum
begin

text \<open>
  Addition in a context of the \<^verbatim>\<open>decimal\<close> module: the exact sum, then the rounding to the
  precision and the exponent range of the context, half even, with the signals it raises. The
  context is the default one of a 64-bit interpreter apart from its precision and its traps. The
  memory that long coefficients take is not modelled.
\<close>

section \<open>The limits of a context\<close>

definition EMAX :: int where
  "EMAX = 999999"

definition EMIN :: int where
  "EMIN = - 999999"

definition MAX_PREC :: nat where
  "MAX_PREC = 999999999999999999"

text \<open>The smallest exponent of a result: that of a subnormal number in precision \<open>p\<close>.\<close>

definition etiny :: "nat \<Rightarrow> int" where
  "etiny p = EMIN - (int p - 1)"

datatype decimal_signal = Clamped | Inexact | Overflow | Rounded | Subnormal | Underflow

section \<open>Rounding and adding\<close>

definition coefficient_digits :: "nat \<Rightarrow> nat" where
  "coefficient_digits c = (if c = 0 then 1 else nat (int_log 10 (int c)) + 1)"

fun fdec_exponent :: "fdec \<Rightarrow> int" where
  "fdec_exponent (FDec _ _ e) = e"

text \<open>A coefficient without its last \<open>n\<close> digits.\<close>

definition round_coefficient :: "nat \<Rightarrow> nat \<Rightarrow> nat" where
  "round_coefficient c n = nat (round_half_even (of_nat c / 10 ^ n))"

fun context_round :: "nat \<Rightarrow> fdec \<Rightarrow> pydec \<times> decimal_signal list" where
  "context_round p (FDec neg c e) =
     (let digits = coefficient_digits c; adjusted = e + int digits - 1
      in if c = 0
         then if EMAX < e then (DFin (FDec neg 0 EMAX), [Clamped])
              else if e < etiny p then (DFin (FDec neg 0 (etiny p)), [Clamped])
              else (DFin (FDec neg 0 e), [])
         else if EMAX < adjusted then (DInf neg, [Overflow, Inexact, Rounded])
         else if adjusted < EMIN
         then if e < etiny p
              then let n = nat (etiny p - e); c' = round_coefficient c n
                   in (DFin (FDec neg c' (etiny p)),
                       [Subnormal, Rounded] @ (if c mod 10 ^ n = 0 then [] else [Inexact, Underflow])
                       @ (if c' = 0 then [Clamped] else []))
              else (DFin (FDec neg c e), [Subnormal])
         else if p < digits
         then let n = digits - p; c' = round_coefficient c n;
                  (c2, e2) = (if c' = 10 ^ p then (10 ^ (p - 1), e + int n + 1) else (c', e + int n));
                  flags = Rounded # (if c mod 10 ^ n = 0 then [] else [Inexact])
              in if EMAX < e2 + int p - 1 then (DInf neg, Overflow # Inexact # flags)
                 else (DFin (FDec neg c2 e2), flags)
         else (DFin (FDec neg c e), []))"

text \<open>The exact sum has the smaller exponent of the two.\<close>

fun fdec_add :: "fdec \<Rightarrow> fdec \<Rightarrow> fdec" where
  "fdec_add (FDec n1 c1 e1) (FDec n2 c2 e2) =
     (let e = min e1 e2;
          c = (if n1 then - 1 else 1) * int c1 * 10 ^ nat (e1 - e)
            + (if n2 then - 1 else 1) * int c2 * 10 ^ nat (e2 - e)
      in FDec (c < 0) (nat \<bar>c\<bar>) e)"

definition context_add :: "nat \<Rightarrow> fdec \<Rightarrow> fdec \<Rightarrow> pydec \<times> decimal_signal list" where
  "context_add p a b = context_round p (fdec_add a b)"

section \<open>Lemmas: exact sums\<close>

lemma dec_val_of_int: "dec_val (FDec (c < 0) (nat \<bar>c\<bar>) e) = of_int c * 10 powi e"
  by (cases "c < 0") (simp_all add: of_nat_nat)

lemma dec_val_scaled:
  assumes "e \<le> e1"
  shows "of_nat c * (10::rat) powi e1 = of_nat (c * 10 ^ nat (e1 - e)) * 10 powi e"
proof -
  have "(10::rat) powi e1 = 10 ^ nat (e1 - e) * 10 powi e"
    using assms by (simp flip: power_int_of_nat power_int_add)
  then show ?thesis by simp
qed

lemma dec_val_fdec_add: "dec_val (fdec_add a b) = dec_val a + dec_val b"
proof -
  obtain n1 c1 e1 where a: "a = FDec n1 c1 e1" by (cases a)
  obtain n2 c2 e2 where b: "b = FDec n2 c2 e2" by (cases b)
  define e where "e = min e1 e2"
  have "of_nat c1 * (10::rat) powi e1 = of_nat (c1 * 10 ^ nat (e1 - e)) * 10 powi e"
    and "of_nat c2 * (10::rat) powi e2 = of_nat (c2 * 10 ^ nat (e2 - e)) * 10 powi e"
    by (rule dec_val_scaled, simp add: e_def)+
  then show ?thesis
    unfolding a b fdec_add.simps Let_def e_def[symmetric] dec_val_of_int
    by (cases n1; cases n2; auto simp: algebra_simps)
qed

lemma fdec_exponent_add [simp]:
  "fdec_exponent (fdec_add a b) = min (fdec_exponent a) (fdec_exponent b)"
  by (cases a; cases b) (simp add: Let_def)

lemma dec_val_0_iff: "dec_val (FDec neg c e) = 0 \<longleftrightarrow> c = 0"
  by simp

section \<open>Lemmas: when rounding leaves a number alone\<close>

lemma coefficient_digits_bounds:
  assumes "c \<noteq> 0"
  shows "10 ^ (coefficient_digits c - 1) \<le> c" and "c < 10 ^ coefficient_digits c"
proof -
  define k where "k = nat (int_log 10 (int c))"
  have "(10::int) ^ k \<le> int c \<and> int c < 10 ^ (k + 1)"
    using int_log_bounds[of 10 "int c"] assms by (simp add: k_def)
  then have "int (10 ^ k) \<le> int c" "int c < int (10 ^ (k + 1))" by simp_all
  then have "10 ^ k \<le> c" "c < 10 ^ (k + 1)" by (simp_all only: of_nat_le_iff of_nat_less_iff)
  then show "10 ^ (coefficient_digits c - 1) \<le> c" and "c < 10 ^ coefficient_digits c"
    using assms by (simp_all add: coefficient_digits_def k_def)
qed

lemma abs_dec_val: "\<bar>dec_val (FDec neg c e)\<bar> = of_nat c * 10 powi e"
  by (simp add: abs_mult)

text \<open>The adjusted exponent, that of the first digit, says how large a number is.\<close>

lemma adjusted_exponent_iff:
  assumes "c \<noteq> 0"
  shows "e + int (coefficient_digits c) - 1 \<le> m \<longleftrightarrow> \<bar>dec_val (FDec neg c e)\<bar> < 10 powi (m + 1)"
proof -
  define d where "d = coefficient_digits c"
  have d: "1 \<le> d" by (simp add: d_def coefficient_digits_def)
  have "of_nat c < (of_nat (10 ^ d) :: rat)" "(of_nat (10 ^ (d - 1)) :: rat) \<le> of_nat c"
    using coefficient_digits_bounds[OF assms] unfolding d_def[symmetric] by (simp_all only: of_nat_le_iff of_nat_less_iff)
  then have "of_nat c * (10::rat) powi e < 10 ^ d * 10 powi e"
    "(10::rat) ^ (d - 1) * 10 powi e \<le> of_nat c * 10 powi e"
    by (simp_all only: of_nat_power of_nat_numeral mult_strict_right_mono mult_right_mono
        zero_less_power_int zero_le_power_int zero_less_numeral zero_le_numeral)
  moreover have pow: "(10::rat) ^ k * 10 powi e = 10 powi (e + int k)" for k
    by (simp add: power_int_add mult.commute)
  have "e + int (d - 1) = e + int d - 1" using d by simp
  then have "(10::rat) ^ (d - 1) * 10 powi e = 10 powi (e + int d - 1)" using pow[of "d - 1"] by (simp only:)
  moreover note pow[of d]
  ultimately have up: "\<bar>dec_val (FDec neg c e)\<bar> < 10 powi (e + int d)"
    and lo: "10 powi (e + int d - 1) \<le> \<bar>dec_val (FDec neg c e)\<bar>"
    unfolding abs_dec_val by linarith+
  show ?thesis
  proof
    assume "e + int (coefficient_digits c) - 1 \<le> m"
    then have "(10::rat) powi (e + int d) \<le> 10 powi (m + 1)"
      by (intro power_int_increasing) (auto simp: d_def)
    with up show "\<bar>dec_val (FDec neg c e)\<bar> < 10 powi (m + 1)" by linarith
  next
    assume small: "\<bar>dec_val (FDec neg c e)\<bar> < 10 powi (m + 1)"
    show "e + int (coefficient_digits c) - 1 \<le> m"
    proof (rule ccontr)
      assume "\<not> ?thesis"
      then have "(10::rat) powi (m + 1) \<le> 10 powi (e + int d - 1)"
        by (intro power_int_increasing) (auto simp: d_def)
      with lo small show False by linarith
    qed
  qed
qed

text \<open>A result is exact unless it is signalled as rounded.\<close>

lemma context_round_exact:
  assumes "context_round p d = (r, flags)" and "Rounded \<notin> set flags"
  shows "\<exists>s. r = DFin s \<and> dec_val s = dec_val d"
  using assms by (cases d) (auto simp: Let_def split: if_splits prod.splits)

lemma context_round_overflow:
  assumes "context_round p d = (r, flags)" and "10 powi (EMAX + 1) \<le> \<bar>dec_val d\<bar>"
  shows "Overflow \<in> set flags"
proof -
  obtain neg c e where d: "d = FDec neg c e" by (cases d)
  have "(0::rat) < 10 powi (EMAX + 1)" by simp
  then have "dec_val d \<noteq> 0" using assms(2) by linarith
  then have c: "c \<noteq> 0" by (simp add: d)
  have "\<not> \<bar>dec_val (FDec neg c e)\<bar> < 10 powi (EMAX + 1)" using assms(2) by (simp add: d del: dec_val.simps)
  then have "EMAX < e + int (coefficient_digits c) - 1"
    using adjusted_exponent_iff[OF c, of e EMAX neg] by linarith
  then show ?thesis using assms(1) c by (auto simp: d Let_def)
qed

lemma context_round_tiny:
  assumes "context_round p d = (r, flags)" and "dec_val d \<noteq> 0" and "fdec_exponent d < etiny p"
  shows "Rounded \<in> set flags"
proof -
  obtain neg c e where d: "d = FDec neg c e" by (cases d)
  have "coefficient_digits c \<le> p \<Longrightarrow> e + int (coefficient_digits c) - 1 < EMIN"
    using assms(3) by (simp add: d etiny_def)
  then show ?thesis using assms by (auto simp: d Let_def split: if_splits prod.splits)
qed

lemma context_round_fits:
  assumes "etiny p \<le> fdec_exponent d" and "fdec_exponent d \<le> EMAX"
    and "\<bar>dec_val d\<bar> < 10 powi (EMAX + 1)" and "EMAX - fdec_exponent d < int p"
  shows "context_round p d = (DFin d, []) \<or> context_round p d = (DFin d, [Subnormal])"
proof -
  obtain neg c e where d: "d = FDec neg c e" by (cases d)
  show ?thesis
  proof (cases "c = 0")
    case False
    have "e + int (coefficient_digits c) - 1 \<le> EMAX"
      using adjusted_exponent_iff[OF False, of e EMAX neg] assms(3) by (simp only: d)
    then show ?thesis using assms False by (auto simp: d Let_def)
  qed (use assms in \<open>auto simp: d Let_def\<close>)
qed

end
