(* ===== verification/ProviderStatus.thy ===== *)
theory ProviderStatus
  imports ProviderFit DecimalContext
begin

text \<open>
  The provider \<^verbatim>\<open>/status\<close> adapter of \<^verbatim>\<open>capacity.py\<close>: \<open>_usable\<close>, \<open>_exact_decimal_sum\<close>,
  \<open>_summarize_nodes\<close> and \<open>from_provider_status\<close>, over dynamically typed payloads.
\<close>

section \<open>Usable quantities\<close>

text \<open>
  Only \<open>OverflowError\<close> is caught: the \<open>ValueError\<close> that a signaling NaN raises escapes.
\<close>

definition usable :: "pyval \<Rightarrow> bool result" where
  "usable v =
     (if \<not> real_number v then Inr False
      else case math_isfinite v of
             Inl e \<Rightarrow> if e = OverflowError then Inr False else Inl e
           | Inr fin \<Rightarrow> Inr (fin \<and> (case as_quantity v of None \<Rightarrow> False | Some q \<Rightarrow> 0 \<le> q_val q)))"

text \<open>\<^verbatim>\<open>Decimal(x) if isinstance(x, int) else Decimal(str(x))\<close>.\<close>

fun exact_decimal :: "quantity \<Rightarrow> fdec" where
  "exact_decimal (QInt i) = FDec (i < 0) (nat \<bar>i\<bar>) 0"
| "exact_decimal (QFloat x) = dec_of_float x"
| "exact_decimal (QDec d) = d"

text \<open>\<^verbatim>\<open>int(d) if d == d.to_integral_value() else d\<close>.\<close>

definition integral_or_decimal :: "fdec \<Rightarrow> pyval" where
  "integral_or_decimal d =
     (if dec_val d = of_int \<lfloor>dec_val d\<rfloor> then PInt \<lfloor>dec_val d\<rfloor> else PDec (DFin d))"

section \<open>Summing without rounding\<close>

text \<open>The signals that raise: the one the default context traps and the two that the code adds.\<close>

definition decimal_traps :: "decimal_signal list" where
  "decimal_traps = [Overflow, Inexact, Rounded]"

text \<open>
  \<^verbatim>\<open>sum(values, Decimal(0))\<close> at precision \<open>p\<close>; None when an addition raises. Every one of the three
  exceptions is an instance of the two that the code catches.
\<close>

fun sum_at :: "nat \<Rightarrow> fdec \<Rightarrow> fdec list \<Rightarrow> fdec option" where
  "sum_at p acc [] = Some acc"
| "sum_at p acc (v # vs) =
     (case context_add p acc v of (r, flags) \<Rightarrow>
        if list_ex (\<lambda>f. f \<in> set decimal_traps) flags then None
        else (case r of DFin s \<Rightarrow> sum_at p s vs
              | _ \<Rightarrow> None \<comment> \<open>an infinite sum is always signalled\<close>))"

definition DECIMAL_ZERO :: fdec where
  "DECIMAL_ZERO = FDec False 0 0"

text \<open>
  The \<^verbatim>\<open>while True\<close> loop: the precision starts at 28 and doubles; \<open>k\<close> counts the doublings. A
  precision that no context can have raises \<open>ValueError\<close>, which ends the loop.
\<close>

function exact_decimal_sum_from :: "nat \<Rightarrow> fdec list \<Rightarrow> fdec result" where
  "exact_decimal_sum_from k vs =
     (if MAX_PREC < 28 * 2 ^ k then Inl ValueError
      else case sum_at (28 * 2 ^ k) DECIMAL_ZERO vs of
             Some s \<Rightarrow> Inr s
           | None \<Rightarrow> exact_decimal_sum_from (k + 1) vs)"
  by pat_completeness auto
termination
proof (relation "measure (\<lambda>(k, vs). MAX_PREC - k)", goal_cases)
  case (2 k vs)
  have "k < 2 ^ k" by (rule less_exp)
  also have "(2::nat) ^ k \<le> 28 * 2 ^ k" by simp
  finally show ?case using 2 by simp
qed simp

declare exact_decimal_sum_from.simps [simp del]

definition exact_decimal_sum :: "fdec list \<Rightarrow> fdec result" where
  "exact_decimal_sum vs = exact_decimal_sum_from 0 vs"

section \<open>Summarising the node list\<close>

definition STATUS_DIMENSIONS :: "(dimension \<times> string) list" where
  "STATUS_DIMENSIONS =
     [(Cpu, ''cpu''), (Memory, ''memory''), (Storage, ''storage_ephemeral''), (Gpu, ''gpu'')]"

definition our_name :: "dimension \<Rightarrow> string" where
  "our_name d = (case d of Cpu \<Rightarrow> ''cpu'' | Memory \<Rightarrow> ''memory'' | Storage \<Rightarrow> ''storage'' | Gpu \<Rightarrow> ''gpu'')"

definition mapping_get :: "(string \<times> pyval) list \<Rightarrow> string \<Rightarrow> pyval" where
  "mapping_get m k = (case map_of m k of None \<Rightarrow> PNone | Some v \<Rightarrow> v)"

record node_summary =
  total_parts :: "dimension \<Rightarrow> fdec list"
  free_parts :: "dimension \<Rightarrow> fdec list"
  overreported :: "dimension list"
  summarized_nodes :: "node_capacity list"
  seen_node :: bool

definition empty_node :: node_capacity where
  "empty_node = \<lparr>node_cpu_available = None, node_memory_available = None,
                 node_storage_available = None, node_gpu_available = None\<rparr>"

text \<open>
  One dimension of one node. The pair is atomic: it contributes only when both halves are
  usable, and a free value above the total marks the dimension as over-reported.
\<close>

definition summarize_dimension ::
    "(string \<times> pyval) list \<Rightarrow> (string \<times> pyval) list \<Rightarrow> dimension \<times> string
     \<Rightarrow> node_summary \<times> (dimension \<Rightarrow> pyval) \<Rightarrow> (node_summary \<times> (dimension \<Rightarrow> pyval)) result" where
  "summarize_dimension allocatable available entry acc =
     (case entry of (ours, theirs) \<Rightarrow>
      case acc of (st, node_free) \<Rightarrow>
        let tot = mapping_get allocatable theirs; free = mapping_get available theirs
        in bindR (usable tot) (\<lambda>tot_ok.
           bindR (if tot_ok then usable free else Inr False) (\<lambda>both.
           if \<not> both then Inr acc
           else case (as_quantity tot, as_quantity free) of
                  (Some qt, Some qf) \<Rightarrow>
                    if q_val qt < q_val qf
                    then Inr (st\<lparr>overreported := ours # overreported st\<rparr>, node_free)
                    else Inr (st\<lparr>total_parts := (total_parts st)
                                   (ours := total_parts st ours @ [exact_decimal qt]),
                                free_parts := (free_parts st)
                                   (ours := free_parts st ours @ [exact_decimal qf])\<rparr>,
                              node_free(ours := integral_or_decimal (exact_decimal qf)))
                | _ \<Rightarrow> Inr acc)))"

definition summarize_node :: "pyval \<Rightarrow> node_summary \<Rightarrow> node_summary result" where
  "summarize_node node st =
     (case node of
        PDict entries \<Rightarrow>
          (case (mapping_get entries ''allocatable'', mapping_get entries ''available'') of
             (PDict allocatable, PDict available) \<Rightarrow>
               bindR (foldR (summarize_dimension allocatable available)
                        STATUS_DIMENSIONS (st\<lparr>seen_node := True\<rparr>, \<lambda>_. PNone)) (\<lambda>(st', free).
               bindR (mk_node_capacity (free Cpu) (free Memory) (free Storage) (free Gpu)) (\<lambda>n.
               Inr (st'\<lparr>summarized_nodes := summarized_nodes st' @ [n]\<rparr>)))
           | _ \<Rightarrow> Inr (st\<lparr>summarized_nodes := summarized_nodes st @ [empty_node]\<rparr>))
      | _ \<Rightarrow> Inr (st\<lparr>summarized_nodes := summarized_nodes st @ [empty_node]\<rparr>))"

definition initial_summary :: node_summary where
  "initial_summary =
     \<lparr>total_parts = \<lambda>_. [], free_parts = \<lambda>_. [], overreported = [], summarized_nodes = [],
      seen_node = False\<rparr>"

text \<open>\<^verbatim>\<open>{ours: _exact_decimal_sum(parts) for ours, parts in ...}\<close>.\<close>

definition part_sums :: "(dimension \<Rightarrow> fdec list) \<Rightarrow> (dimension, fdec) dict result" where
  "part_sums parts =
     mapR (\<lambda>(ours, _). bindR (exact_decimal_sum (parts ours)) (\<lambda>s. Inr (ours, s))) STATUS_DIMENSIONS"

definition summary_pairs ::
    "node_summary \<Rightarrow> (dimension, fdec) dict \<Rightarrow> (dimension, fdec) dict
     \<Rightarrow> (string \<times> (pyval \<times> pyval) option) list" where
  "summary_pairs st totals frees =
     map (\<lambda>(ours, _). (our_name ours,
            if ours \<in> set (overreported st) then None
            else Some (integral_or_decimal (the (dict_get frees ours)),
                       integral_or_decimal (the (dict_get totals ours)))))
       STATUS_DIMENSIONS"

definition overflowed :: "(dimension, fdec) dict \<Rightarrow> (dimension, fdec) dict \<Rightarrow> bool" where
  "overflowed totals frees =
     list_ex (\<lambda>(ours, _).
        \<not> isfinite (float_of_rat (dec_val (the (dict_get totals ours)))) \<or>
        \<not> isfinite (float_of_rat (dec_val (the (dict_get frees ours)))))
       STATUS_DIMENSIONS"

definition summarize_nodes ::
    "pyval \<Rightarrow> ((string \<times> (pyval \<times> pyval) option) list \<times> node_capacity list) option result" where
  "summarize_nodes nodes =
     (case (case nodes of PList xs \<Rightarrow> xs | PTuple xs \<Rightarrow> xs | _ \<Rightarrow> []) of
        [] \<Rightarrow> Inr None
      | x # xs \<Rightarrow>
          bindR (foldR summarize_node (x # xs) initial_summary) (\<lambda>st.
            if \<not> seen_node st then Inr None
            else bindR (part_sums (total_parts st)) (\<lambda>totals.
                 bindR (part_sums (free_parts st)) (\<lambda>frees.
                 if overflowed totals frees then Inr None
                 else Inr (Some (summary_pairs st totals frees, summarized_nodes st))))))"

definition from_provider_status :: "pyval \<Rightarrow> provider_capacity result" where
  "from_provider_status status =
     (case status of PDict document \<Rightarrow>
      (case mapping_get document ''cluster'' of PDict cluster \<Rightarrow>
       (case mapping_get cluster ''inventory'' of PDict inventory \<Rightarrow>
        (case mapping_get inventory ''available'' of PDict available \<Rightarrow>
           bindR (summarize_nodes (mapping_get available ''nodes'')) (\<lambda>summary.
             case summary of
               None \<Rightarrow> Inr unreadable_capacity
             | Some (pairs, nodes) \<Rightarrow> from_totals (Some nodes) pairs)
         | _ \<Rightarrow> Inr unreadable_capacity)
        | _ \<Rightarrow> Inr unreadable_capacity)
       | _ \<Rightarrow> Inr unreadable_capacity)
      | _ \<Rightarrow> Inr unreadable_capacity)"



section \<open>Lemmas: exact sums\<close>

lemma traps_iff:
  "list_ex (\<lambda>f. f \<in> set decimal_traps) flags
     \<longleftrightarrow> Overflow \<in> set flags \<or> Inexact \<in> set flags \<or> Rounded \<in> set flags"
  by (auto simp: decimal_traps_def list_ex_iff)

lemma sum_at_Cons:
  assumes "sum_at p acc (v # vs) = Some s"
  obtains t flags where "context_round p (fdec_add acc v) = (DFin t, flags)"
    "Overflow \<notin> set flags" "Rounded \<notin> set flags" "dec_val t = dec_val acc + dec_val v"
    "sum_at p t vs = Some s"
proof -
  obtain r flags where r: "context_round p (fdec_add acc v) = (r, flags)"
    by (cases "context_round p (fdec_add acc v)")
  then have flags: "Overflow \<notin> set flags" "Rounded \<notin> set flags"
    using assms by (auto simp: context_add_def traps_iff split: if_splits)
  obtain t where "r = DFin t" "dec_val t = dec_val acc + dec_val v"
    using context_round_exact[OF r flags(2)] by (auto simp: dec_val_fdec_add)
  then show ?thesis using assms r flags that by (auto simp: context_add_def split: if_splits)
qed

lemma sum_at_val: "sum_at p acc vs = Some s \<Longrightarrow> dec_val s = dec_val acc + sum_list (map dec_val vs)"
proof (induction vs arbitrary: acc)
  case (Cons v vs)
  from sum_at_Cons[OF Cons.prems] show ?case using Cons.IH by (metis add.assoc list.simps(9) sum_list.Cons)
qed simp

text \<open>Every partial sum, that before the first value included, is below the limit of the context.\<close>

definition partial_sums_below :: "rat \<Rightarrow> rat \<Rightarrow> fdec list \<Rightarrow> bool" where
  "partial_sums_below limit x vs \<longleftrightarrow>
     (\<forall>n \<le> length vs. \<bar>x + sum_list (map dec_val (take n vs))\<bar> < limit)"

lemma partial_sums_Cons:
  "partial_sums_below limit x (v # vs) \<longleftrightarrow> \<bar>x\<bar> < limit \<and> partial_sums_below limit (x + dec_val v) vs"
  unfolding partial_sums_below_def
proof (intro iffI conjI allI impI)
  assume all: "\<forall>n \<le> length (v # vs). \<bar>x + sum_list (map dec_val (take n (v # vs)))\<bar> < limit"
  show "\<bar>x\<bar> < limit" using all[rule_format, of 0] by simp
  show "\<bar>x + dec_val v + sum_list (map dec_val (take n vs))\<bar> < limit" if "n \<le> length vs" for n
    using all[rule_format, of "Suc n"] that by (simp add: add.assoc)
next
  fix n
  assume "\<bar>x\<bar> < limit \<and> (\<forall>n \<le> length vs. \<bar>x + dec_val v + sum_list (map dec_val (take n vs))\<bar> < limit)"
    and "n \<le> length (v # vs)"
  then show "\<bar>x + sum_list (map dec_val (take n (v # vs)))\<bar> < limit"
    by (cases n) (auto simp: add.assoc)
qed

lemma sum_at_below:
  assumes "sum_at p acc vs = Some s" and "\<bar>dec_val acc\<bar> < 10 powi (EMAX + 1)"
  shows "partial_sums_below (10 powi (EMAX + 1)) (dec_val acc) vs"
  using assms
proof (induction vs arbitrary: acc)
  case (Cons v vs)
  from Cons.prems(1) show ?case
  proof (cases rule: sum_at_Cons)
    case (1 t flags)
    have "\<bar>dec_val acc + dec_val v\<bar> < 10 powi (EMAX + 1)"
      using context_round_overflow[OF 1(1)] 1(2) unfolding dec_val_fdec_add by (meson not_le)
    then have "partial_sums_below (10 powi (EMAX + 1)) (dec_val t) vs"
      using Cons.IH[OF 1(5)] 1(4) by simp
    then show ?thesis using Cons.prems(2) 1(4) by (simp add: partial_sums_Cons)
  qed
qed (simp add: partial_sums_below_def)

lemma sum_at_fits:
  assumes "partial_sums_below (10 powi (EMAX + 1)) (dec_val acc) vs"
    and "\<forall>v \<in> set vs. EMIN \<le> fdec_exponent v" and "EMIN \<le> fdec_exponent acc" "fdec_exponent acc \<le> 0"
    and "EMAX - EMIN < int p"
  shows "sum_at p acc vs \<noteq> None"
  using assms
proof (induction vs arbitrary: acc)
  case (Cons v vs)
  let ?t = "fdec_add acc v"
  have e: "EMIN \<le> fdec_exponent ?t" "fdec_exponent ?t \<le> 0" using Cons.prems(2-4) by auto
  have below: "partial_sums_below (10 powi (EMAX + 1)) (dec_val ?t) vs"
    using Cons.prems(1) by (simp add: partial_sums_Cons dec_val_fdec_add)
  then have "\<bar>dec_val ?t\<bar> < 10 powi (EMAX + 1)"
    by (auto simp: partial_sums_below_def dest: spec[of _ 0])
  moreover have "etiny p \<le> fdec_exponent ?t" "fdec_exponent ?t \<le> EMAX" "EMAX - fdec_exponent ?t < int p"
    using e Cons.prems(5) by (auto simp: etiny_def EMAX_def EMIN_def)
  ultimately have "context_round p ?t = (DFin ?t, []) \<or> context_round p ?t = (DFin ?t, [Subnormal])"
    by (intro context_round_fits)
  moreover have "sum_at p ?t vs \<noteq> None" using Cons.IH[OF below _ e Cons.prems(5)] Cons.prems(2) by simp
  ultimately show ?case by (auto simp: context_add_def traps_iff)
qed simp

lemma exact_decimal_sum_from_cases:
  "case exact_decimal_sum_from k vs of
     Inl e \<Rightarrow> e = ValueError \<and> (\<forall>n \<ge> k. 28 * 2 ^ n \<le> MAX_PREC \<longrightarrow> sum_at (28 * 2 ^ n) DECIMAL_ZERO vs = None)
   | Inr s \<Rightarrow> \<exists>n. 28 * 2 ^ n \<le> MAX_PREC \<and> sum_at (28 * 2 ^ n) DECIMAL_ZERO vs = Some s"
proof (induction k vs rule: exact_decimal_sum_from.induct)
  case (1 k vs)
  show ?case
  proof (cases "MAX_PREC < 28 * 2 ^ k")
    case True
    have "\<not> 28 * 2 ^ n \<le> MAX_PREC" if "k \<le> n" for n
    proof -
      have "(2::nat) ^ k \<le> 2 ^ n" using that by simp
      then show ?thesis using True by linarith
    qed
    then show ?thesis using True by (simp add: exact_decimal_sum_from.simps[of k vs])
  next
    case False
    show ?thesis
    proof (cases "sum_at (28 * 2 ^ k) DECIMAL_ZERO vs")
      case None
      have "n = k \<or> k + 1 \<le> n" if "k \<le> n" for n using that by linarith
      then show ?thesis
        using "1.IH"[OF False None] None False
        by (auto simp: exact_decimal_sum_from.simps[of k vs] split: sum.splits)
    next
      case (Some s)
      then show ?thesis using False by (auto simp: exact_decimal_sum_from.simps[of k vs] intro!: exI[of _ k])
    qed
  qed
qed

lemmas exact_decimal_sum_cases =
  exact_decimal_sum_from_cases[of 0, folded exact_decimal_sum_def]

lemma DECIMAL_ZERO_simps [simp]: "dec_val DECIMAL_ZERO = 0" "fdec_exponent DECIMAL_ZERO = 0"
  by (simp_all add: DECIMAL_ZERO_def)

lemma exact_decimal_sum_val: "exact_decimal_sum vs = Inr s \<Longrightarrow> dec_val s = sum_list (map dec_val vs)"
  using exact_decimal_sum_cases[of vs] sum_at_val by fastforce

lemma exact_decimal_sum_ok_iff:
  assumes "\<forall>v \<in> set vs. EMIN \<le> fdec_exponent v"
  shows "is_ok (exact_decimal_sum vs) \<longleftrightarrow> partial_sums_below (10 powi (EMAX + 1)) 0 vs"
proof
  assume "is_ok (exact_decimal_sum vs)"
  then obtain p s where "sum_at p DECIMAL_ZERO vs = Some s"
    using exact_decimal_sum_cases[of vs] by (fastforce elim: is_okE)
  moreover have "(0::rat) < 10 powi (EMAX + 1)" by simp
  ultimately show "partial_sums_below (10 powi (EMAX + 1)) 0 vs"
    using sum_at_below[of p DECIMAL_ZERO vs s] by simp
next
  assume below: "partial_sums_below (10 powi (EMAX + 1)) 0 vs"
  define p where "p = (28 * 2 ^ 17 :: nat)"
  have "EMAX - EMIN < int p" "p \<le> MAX_PREC" by (simp_all add: p_def EMAX_def EMIN_def MAX_PREC_def)
  then have "sum_at p DECIMAL_ZERO vs \<noteq> None"
    using sum_at_fits[of DECIMAL_ZERO vs p] assms below by (simp add: EMIN_def)
  with \<open>p \<le> MAX_PREC\<close> show "is_ok (exact_decimal_sum vs)"
    using exact_decimal_sum_cases[of vs] unfolding p_def is_ok_def
    by (auto simp del: power_numeral split: sum.splits dest!: spec[of _ 17])
qed

text \<open>
  No context is precise enough for a number with a smaller exponent than a subnormal number of the
  largest precision: the loop then ends with \<open>ValueError\<close>.
\<close>

lemma exact_decimal_sum_too_fine:
  assumes "dec_val v \<noteq> 0" and "fdec_exponent v < etiny MAX_PREC"
  shows "exact_decimal_sum [v] = Inl ValueError"
proof (cases "exact_decimal_sum [v]")
  case (Inl e)
  then show ?thesis using exact_decimal_sum_cases[of "[v]"] by simp
next
  case (Inr s)
  then obtain n t flags where n: "28 * 2 ^ n \<le> MAX_PREC"
    and t: "context_round (28 * 2 ^ n) (fdec_add DECIMAL_ZERO v) = (DFin t, flags)" "Rounded \<notin> set flags"
    using exact_decimal_sum_cases[of "[v]"] by (auto elim!: sum_at_Cons simp del: sum_at.simps)
  define p where "p = (28 * 2 ^ n :: nat)"
  have "fdec_exponent (fdec_add DECIMAL_ZERO v) < etiny p"
    using assms(2) n unfolding p_def[symmetric] by (simp add: etiny_def EMIN_def MAX_PREC_def)
  then show ?thesis
    using context_round_tiny[OF t(1)[folded p_def]] t(2) assms(1) by (simp add: dec_val_fdec_add)
qed

section \<open>Lemmas: the node loop\<close>

text \<open>The decimal text of a float reads back as that float (or, were no text found, as 0).\<close>

lemma shortest_digits_reads_back:
  "shortest_digits x = (m, e) \<Longrightarrow>
   double_round (of_int m * 10 powi e) = Fin x \<or> (m = 0 \<and> e = 0)"
proof -
  assume s: "shortest_digits x = (m, e)"
  have all: "double_round (of_int k * 10 powi f) = Fin x"
    if "(k, f) \<in> set (concat (map (repr_candidates x) [1..<18]))" for k f
    using that unfolding repr_candidates_def Let_def by (auto simp del: filter.simps)
  show ?thesis
  proof (cases "concat (map (repr_candidates x) [1..<18])")
    case Nil
    then have "(m, e) = (0, 0)" using s by (simp only: shortest_digits_def list.case)
    then show ?thesis by simp
  next
    case (Cons c cs)
    then have "c = (m, e)" using s by (simp only: shortest_digits_def list.case)
    with Cons have "(m, e) \<in> set (concat (map (repr_candidates x) [1..<18]))"
      by (metis list.set_intros(1))
    then show ?thesis using all by blast
  qed
qed

lemma double_round_finite_sign:
  "double_round y = Fin x \<Longrightarrow> 0 < x \<Longrightarrow> 0 < y"
proof (rule ccontr)
  assume f: "double_round y = Fin x" and x: "0 < x" and "\<not> 0 < y"
  then have y: "y < 0" by (auto simp: double_round_def not_less le_less)
  have "round_half_even (y / 2 powi double_exp y) \<le> 0"
    using y by (intro round_half_even_le) (simp add: divide_le_0_iff)
  then have "of_int (round_half_even (y / 2 powi double_exp y)) * (2::rat) powi double_exp y \<le> 0"
    by (simp add: mult_le_0_iff)
  with f x y show False by (simp add: double_round_def Let_def split: if_splits)
qed

lemma dec_of_float_finite:
  assumes "0 \<le> x"
  shows "isfinite (double_round (dec_val (dec_of_float x)))" and "0 \<le> dec_val (dec_of_float x)"
proof -
  have "isfinite (double_round (dec_val (dec_of_float x))) \<and> 0 \<le> dec_val (dec_of_float x)"
  proof (cases "x = 0")
    case False
    obtain m e where s: "shortest_digits x = (m, e)" by (cases "shortest_digits x")
    have "0 < x" using assms False by simp
    then have m: "0 \<le> m"
      using shortest_digits_reads_back[OF s] double_round_finite_sign[of "of_int m * 10 powi e" x]
        zero_less_mult_pos2[of "of_int m" "(10::rat) powi e"] by auto
    have "of_nat (nat m * 10 ^ nat (e + 1)) * (10::rat) powi - 1 = of_int m * 10 powi e"
      if "0 \<le> e"
    proof -
      have "(10::rat) ^ nat (e + 1) * 10 powi - 1 = 10 powi e"
        using that by (simp add: power_int_of_nat[symmetric] power_int_add)
      then show ?thesis using m by (simp add: of_nat_nat mult.assoc)
    qed
    then have v: "dec_val (dec_of_float x) = of_int m * 10 powi e"
      using assms False m s by (auto simp: dec_of_float_def of_nat_nat Let_def)
    then show ?thesis
      using shortest_digits_reads_back[OF s] m by auto
  qed (simp add: dec_of_float_def)
  then show "isfinite (double_round (dec_val (dec_of_float x)))"
    and "0 \<le> dec_val (dec_of_float x)" by auto
qed

lemma usable_quantity:
  assumes "usable v = Inr True"
  obtains q where "as_quantity v = Some q" "0 \<le> q_val q" "0 \<le> dec_val (exact_decimal q)"
    "isfinite (double_round (dec_val (exact_decimal q)))"
proof -
  obtain q where q: "as_quantity v = Some q" "0 \<le> q_val q"
    using assms by (auto simp: usable_def split: sum.splits option.splits if_splits)
  have "isfinite (double_round (dec_val (exact_decimal q))) \<and> 0 \<le> dec_val (exact_decimal q)"
  proof (cases v)
    case (PInt i)
    then show ?thesis using assms q
      by (auto simp: usable_def int_to_float_def Let_def split: if_splits)
  next
    case (PFloat f)
    then obtain x where "q = QFloat x" "0 \<le> x" using q by (cases f) auto
    then show ?thesis using dec_of_float_finite[of x] by (simp only: exact_decimal.simps)
  next
    case (PDec d)
    then show ?thesis using assms q
      by (cases d) (auto simp: usable_def float_of_rat_def real_number_def split: if_splits)
  qed (use q in auto)
  then show ?thesis using q that by blast
qed

text \<open>The rational a \<open>NodeCapacity\<close> field was built from, and whether it is acceptable.\<close>

fun field_val :: "pyval \<Rightarrow> rat" where
  "field_val (PInt i) = of_int i"
| "field_val (PDec (DFin d)) = dec_val d"
| "field_val _ = 0"

definition good_field :: "pyval \<Rightarrow> bool" where
  "good_field v \<longleftrightarrow> v = PNone \<or>
     (\<exists>q. check_available v = Inr (Some q) \<and> exact_quantity q = Some (field_val v))"

lemma integral_or_decimal_good:
  assumes "0 \<le> dec_val d" and "isfinite (double_round (dec_val d))"
  shows "good_field (integral_or_decimal d)" and "field_val (integral_or_decimal d) = dec_val d"
    and "integral_or_decimal d \<noteq> PNone" and "real_number (integral_or_decimal d)"
    and "math_isfinite (integral_or_decimal d) = Inr True"
    and "\<exists>q. as_quantity (integral_or_decimal d) = Some q \<and> q_val q = dec_val d
         \<and> exact_quantity q = Some (dec_val d)"
  using assms
  by (auto simp: integral_or_decimal_def good_field_def check_available_def real_number_def
      int_to_float_def float_of_rat_def)

text \<open>What one dimension of one node adds: nothing, an over-report, or both parts.\<close>

lemma summarize_dimension_cases:
  assumes "summarize_dimension al av (ours, theirs) (st, nf) = Inr (st', nf')"
  obtains (skip) "st' = st" "nf' = nf"
  | (over) "st' = st\<lparr>overreported := ours # overreported st\<rparr>" "nf' = nf"
  | (add) qt qf where
      "as_quantity (mapping_get al theirs) = Some qt" "as_quantity (mapping_get av theirs) = Some qf"
      "usable (mapping_get al theirs) = Inr True" "usable (mapping_get av theirs) = Inr True" "q_val qf \<le> q_val qt"
      "st' = st\<lparr>total_parts := (total_parts st)(ours := total_parts st ours @ [exact_decimal qt]),
                free_parts := (free_parts st)(ours := free_parts st ours @ [exact_decimal qf])\<rparr>"
      "nf' = nf(ours := integral_or_decimal (exact_decimal qf))"
  using assms
  by (auto simp: summarize_dimension_def Let_def not_less split: if_splits option.splits)

text \<open>The exponent of the decimal text of a float is far above the smallest one of a context.\<close>

lemma shortest_digits_exponent:
  assumes "shortest_digits x = (m, e)"
  shows "ilog 10 \<bar>x\<bar> - 16 \<le> e \<or> (m, e) = (0, 0)"
proof (cases "concat (map (repr_candidates x) [1..<18])")
  case Nil
  then have "(m, e) = (0, 0)" using assms by (simp only: shortest_digits_def list.case)
  then show ?thesis ..
next
  case (Cons c cs)
  then have "(m, e) \<in> set (concat (map (repr_candidates x) [1..<18]))"
    using assms by (simp only: shortest_digits_def list.case) simp
  then obtain n where "n \<in> {1..<18}" "(m, e) \<in> set (repr_candidates x n)" by auto
  then show ?thesis by (auto simp: repr_candidates_def Let_def simp del: filter.simps)
qed

lemma double_round_least:
  assumes "double_round y = Fin x" and "0 < x"
  shows "2 powi - 1074 \<le> x"
proof -
  define e where "e = double_exp y"
  define k where "k = round_half_even (y / 2 powi e)"
  have x: "x = of_int k * 2 powi e"
    using assms by (auto simp: double_round_def Let_def e_def k_def split: if_splits)
  have "0 < (of_int k :: rat)"
    using assms(2) zero_less_mult_pos2[of "of_int k" "2 powi e :: rat"] by (simp add: x)
  then have "(1::rat) \<le> of_int k" by simp
  then have "2 powi e \<le> x" using mult_right_mono[of 1 "of_int k" "2 powi e :: rat"] by (simp add: x)
  moreover have "(2::rat) powi - 1074 \<le> 2 powi e"
    by (intro power_int_increasing) (simp_all add: e_def double_exp_def)
  ultimately show ?thesis by linarith
qed

lemma dec_of_float_exponent:
  assumes "0 \<le> x"
  shows "- 1090 \<le> fdec_exponent (dec_of_float x)"
proof (cases "x = 0")
  case False
  then have x: "0 < x" using assms by simp
  obtain m e where s: "shortest_digits x = (m, e)" by (cases "shortest_digits x")
  have "- 1090 \<le> e"
  proof (cases "m = 0 \<and> e = 0")
    case False
    then have "double_round (of_int m * 10 powi e) = Fin x" using shortest_digits_reads_back[OF s] by blast
    then have "2 powi - 1074 \<le> x" using x by (rule double_round_least)
    moreover have "(10::rat) powi - int n \<le> 2 powi - int n" for n
      by (simp add: power_int_minus le_imp_inverse_le power_mono)
    then have "(10::rat) powi - 1074 \<le> 2 powi - 1074" by (metis of_nat_numeral)
    ultimately have least: "10 powi - 1074 \<le> x" by linarith
    have "- 1074 < ilog 10 x + 1"
    proof (rule ccontr)
      assume "\<not> ?thesis"
      then have "(10::rat) powi (ilog 10 x + 1) \<le> 10 powi - 1074" by (intro power_int_increasing) auto
      moreover have "x < 10 powi (ilog 10 x + 1)" using ilog_bounds(2)[of 10 x] x by simp
      ultimately show False using least by linarith
    qed
    then show ?thesis using shortest_digits_exponent[OF s] x by auto
  qed simp
  then show ?thesis using s False by (simp add: dec_of_float_def Let_def)
qed (simp add: dec_of_float_def)

text \<open>
  What a total relies on: a reported value is no signaling NaN, and a decimal among them has an
  exponent that the default context can hold without loss.
\<close>

definition plain_value :: "pyval \<Rightarrow> bool" where
  "plain_value v \<longleftrightarrow>
     (case v of PDec DSNaN \<Rightarrow> False | PDec (DFin d) \<Rightarrow> EMIN \<le> fdec_exponent d | _ \<Rightarrow> True)"

definition small_part :: "fdec \<Rightarrow> bool" where
  "small_part v \<longleftrightarrow> 0 \<le> dec_val v \<and> dec_val v < 10 ^ 309 \<and> EMIN \<le> fdec_exponent v"

lemma usable_plain: "plain_value v \<Longrightarrow> \<exists>b. usable v = Inr b"
  by (cases v rule: math_isfinite.cases)
    (auto simp: plain_value_def usable_def real_number_def int_to_float_def Let_def)

lemma usable_small:
  assumes "usable v = Inr True" and "plain_value v" and "as_quantity v = Some q"
  shows "small_part (exact_decimal q)"
proof -
  have fin: "0 \<le> q_val q" "0 \<le> dec_val (exact_decimal q)" "isfinite (double_round (dec_val (exact_decimal q)))"
    using usable_quantity[OF assms(1)] assms(3) by auto
  have "\<not> double_limit \<le> dec_val (exact_decimal q)" using double_round_overflow fin(3) by fastforce
  then have "dec_val (exact_decimal q) < 10 ^ 309" by (simp add: double_limit_def)
  moreover have "EMIN \<le> fdec_exponent (exact_decimal q)"
    using assms(2,3) fin(1) dec_of_float_exponent
    by (cases v rule: as_quantity.cases)
      (auto simp: plain_value_def EMIN_def intro: order_trans[of _ "- 1090"])
  ultimately show ?thesis using fin(2) by (simp add: small_part_def)
qed

lemma small_parts_total: "\<forall>v \<in> set vs. small_part v \<Longrightarrow>
    0 \<le> sum_list (map dec_val vs) \<and> sum_list (map dec_val vs) \<le> of_nat (length vs) * 10 ^ 309"
  by (induction vs) (auto simp: small_part_def algebra_simps)

lemma small_parts_sum:
  assumes "\<forall>v \<in> set vs. small_part v" and "length vs < 10 ^ 20"
  shows "\<exists>s. exact_decimal_sum vs = Inr s \<and> dec_val s = sum_list (map dec_val vs)"
proof -
  have "\<bar>sum_list (map dec_val (take n vs))\<bar> < 10 powi (EMAX + 1)" for n
  proof -
    have "\<forall>v \<in> set (take n vs). small_part v" using assms(1) by (meson in_set_takeD)
    note b = small_parts_total[OF this]
    have "length (take n vs) < 10 ^ 20" using assms(2) by simp
    then have "(of_nat (length (take n vs)) :: rat) < of_nat (10 ^ 20)" by (simp only: of_nat_less_iff)
    then have "(of_nat (length (take n vs)) :: rat) * 10 ^ 309 \<le> 10 ^ 20 * 10 ^ 309" by simp
    moreover have "(10::rat) ^ 20 * 10 ^ 309 = 10 powi 329" by simp
    moreover have "(10::rat) powi 329 < 10 powi (EMAX + 1)"
      by (intro power_int_strict_increasing) (simp_all add: EMAX_def)
    ultimately show ?thesis using b by linarith
  qed
  then have "is_ok (exact_decimal_sum vs)"
    using exact_decimal_sum_ok_iff[of vs] assms(1) by (simp add: partial_sums_below_def small_part_def)
  then show ?thesis using exact_decimal_sum_val by (auto elim: is_okE)
qed

definition node_free_val :: "dimension \<Rightarrow> node_capacity \<Rightarrow> rat" where
  "node_free_val d n = (case node_available d n of None \<Rightarrow> 0 | Some q \<Rightarrow> q_val q)"

definition exact_node :: "node_capacity \<Rightarrow> bool" where
  "exact_node n \<longleftrightarrow> node_ok n \<and> (\<forall>d q. node_available d n = Some q \<longrightarrow> exact_quantity q \<noteq> None)"

text \<open>
  The summary invariant: every field is exact, and in each dimension the free parts add up
  to what the nodes recorded so far, plus the node being read, report.
\<close>

definition summary_inv :: "node_summary \<Rightarrow> (dimension \<Rightarrow> pyval) \<Rightarrow> bool" where
  "summary_inv st nf \<longleftrightarrow>
     (\<forall>n \<in> set (summarized_nodes st). exact_node n) \<and>
     (\<forall>d. good_field (nf d) \<and> (\<forall>v \<in> set (free_parts st d). 0 \<le> dec_val v) \<and>
        sum_list (map dec_val (free_parts st d))
          = sum_list (map (node_free_val d) (summarized_nodes st)) + field_val (nf d))"

definition parts_ordered :: "node_summary \<Rightarrow> bool" where
  "parts_ordered st \<longleftrightarrow>
     (\<forall>d. sum_list (map dec_val (free_parts st d)) \<le> sum_list (map dec_val (total_parts st d)))"

definition pair_ordered :: "pyval \<Rightarrow> pyval \<Rightarrow> bool" where
  "pair_ordered tot free \<longleftrightarrow>
     (case (as_quantity tot, as_quantity free) of
        (Some qt, Some qf) \<Rightarrow>
          q_val qf \<le> q_val qt \<longrightarrow> dec_val (exact_decimal qf) \<le> dec_val (exact_decimal qt)
      | _ \<Rightarrow> True)"

lemma good_field_PNone [simp]: "good_field PNone"
  by (simp add: good_field_def)

lemma mk_node_capacity_good:
  assumes "\<And>d. good_field (f d)"
  obtains n where "mk_node_capacity (f Cpu) (f Memory) (f Storage) (f Gpu) = Inr n"
    "exact_node n" "\<And>d. node_free_val d n = field_val (f d)"
proof -
  have "\<exists>r. check_available (f d) = Inr r \<and>
      (case r of None \<Rightarrow> field_val (f d) = 0
       | Some q \<Rightarrow> q_val q = field_val (f d) \<and> exact_quantity q \<noteq> None)" for d
  proof (cases "f d = PNone")
    case True
    then show ?thesis by (intro exI[of _ None]) simp
  next
    case False
    then obtain q where "check_available (f d) = Inr (Some q)"
      "exact_quantity q = Some (field_val (f d))"
      using assms[of d] by (auto simp: good_field_def)
    then show ?thesis using exact_quantity_val[of q] by (intro exI[of _ "Some q"]) simp
  qed
  then obtain r where r: "\<And>d. check_available (f d) = Inr (r d)"
    and v: "\<And>d. case r d of None \<Rightarrow> field_val (f d) = 0
       | Some q \<Rightarrow> q_val q = field_val (f d) \<and> exact_quantity q \<noteq> None" by metis
  define n where "n = \<lparr>node_cpu_available = r Cpu, node_memory_available = r Memory,
      node_storage_available = r Storage, node_gpu_available = r Gpu\<rparr>"
  have run: "mk_node_capacity (f Cpu) (f Memory) (f Storage) (f Gpu) = Inr n"
    by (simp add: mk_node_capacity_def r n_def)
  have av: "node_available d n = r d" for d by (cases d) (simp_all add: n_def)
  have "exact_node n"
    unfolding exact_node_def
  proof (intro conjI allI impI)
    show "node_ok n" using run by (rule mk_node_capacity_ok)
    show "exact_quantity q \<noteq> None" if "node_available d n = Some q" for d q
      using v[of d] that by (simp add: av)
  qed
  moreover have "node_free_val d n = field_val (f d)" for d
    using v[of d] by (simp add: node_free_val_def av split: option.splits)
  ultimately show ?thesis using run that by blast
qed

lemma summarize_dimension_inv:
  assumes "summarize_dimension al av (ours, theirs) (st, nf) = Inr (st', nf')"
    and "summary_inv st nf" and "nf ours = PNone"
  shows "summary_inv st' nf'" and "d \<noteq> ours \<Longrightarrow> nf' d = nf d"
    and "summarized_nodes st' = summarized_nodes st" and "seen_node st' = seen_node st"
proof -
  have "summary_inv st' nf' \<and> (d \<noteq> ours \<longrightarrow> nf' d = nf d)
      \<and> summarized_nodes st' = summarized_nodes st \<and> seen_node st' = seen_node st"
    using assms(1)
  proof (cases rule: summarize_dimension_cases)
    case (add qt qf)
    obtain q where "as_quantity (mapping_get av theirs) = Some q"
      "0 \<le> dec_val (exact_decimal q)" "isfinite (double_round (dec_val (exact_decimal q)))"
      using usable_quantity[OF add(4)] by blast
    then have q: "0 \<le> dec_val (exact_decimal qf)"
      "isfinite (double_round (dec_val (exact_decimal qf)))" using add(2) by auto
    show ?thesis
      using assms(2,3) add(6,7) q integral_or_decimal_good[OF q]
      by (auto simp: summary_inv_def)
  qed (use assms(2) in \<open>auto simp: summary_inv_def\<close>)
  then show "summary_inv st' nf'" and "d \<noteq> ours \<Longrightarrow> nf' d = nf d"
    and "summarized_nodes st' = summarized_nodes st" and "seen_node st' = seen_node st" by auto
qed

lemma summarize_dimensions_inv:
  assumes "foldR (summarize_dimension al av) es (st, nf) = Inr (st', nf')"
    and "summary_inv st nf" and "distinct (map fst es)" and "\<forall>d \<in> fst ` set es. nf d = PNone"
  shows "summary_inv st' nf' \<and> summarized_nodes st' = summarized_nodes st
    \<and> seen_node st' = seen_node st"
  using assms
proof (induction es arbitrary: st nf)
  case (Cons e es)
  obtain ours theirs where e: "e = (ours, theirs)" by (cases e)
  obtain st1 nf1 where s: "summarize_dimension al av e (st, nf) = Inr (st1, nf1)"
    and rest: "foldR (summarize_dimension al av) es (st1, nf1) = Inr (st', nf')"
    using Cons.prems(1) by auto
  note step = summarize_dimension_inv[OF s[unfolded e] Cons.prems(2)]
  have "nf ours = PNone" using Cons.prems(4) e by simp
  note step = step[OF this]
  have "\<forall>d \<in> fst ` set es. nf1 d = PNone"
    using step(2) Cons.prems(3,4) e by (auto simp: image_iff) (metis fst_conv)+
  then show ?case
    using Cons.IH[OF rest step(1)] Cons.prems(3) step(3,4) by simp
qed simp

text \<open>The parts collected so far: small ones, at most \<open>n\<close> in each dimension, and in order.\<close>

definition parts_sound :: "nat \<Rightarrow> node_summary \<Rightarrow> bool" where
  "parts_sound n st \<longleftrightarrow> parts_ordered st \<and>
     (\<forall>d. length (free_parts st d) \<le> n \<and> length (total_parts st d) \<le> n
        \<and> (\<forall>v \<in> set (free_parts st d) \<union> set (total_parts st d). small_part v))"

lemma parts_sound_mono: "parts_sound n st \<Longrightarrow> n \<le> m \<Longrightarrow> parts_sound m st"
  by (auto simp: parts_sound_def intro: le_trans)

definition pair_sound :: "pyval \<Rightarrow> pyval \<Rightarrow> bool" where
  "pair_sound tot free \<longleftrightarrow> plain_value tot \<and> plain_value free \<and> pair_ordered tot free"

lemma summarize_dimension_sound:
  assumes "parts_sound n st" and "pair_sound (mapping_get al theirs) (mapping_get av theirs)"
  obtains st' nf' where "summarize_dimension al av (ours, theirs) (st, nf) = Inr (st', nf')"
    "parts_sound (Suc n) st'"
proof -
  let ?tot = "mapping_get al theirs" and ?free = "mapping_get av theirs"
  obtain a b where u: "usable ?tot = Inr a" "usable ?free = Inr b"
    using assms(2) usable_plain by (meson pair_sound_def)
  then have "is_ok (summarize_dimension al av (ours, theirs) (st, nf))"
    by (cases a; cases b) (auto simp: summarize_dimension_def Let_def split: option.splits)
  then obtain st' nf' where run: "summarize_dimension al av (ours, theirs) (st, nf) = Inr (st', nf')"
    by (auto elim!: is_okE)
  from run have "parts_sound (Suc n) st'"
  proof (cases rule: summarize_dimension_cases)
    case (add qt qf)
    have "small_part (exact_decimal qt)" "small_part (exact_decimal qf)"
      using add assms(2) usable_small by (auto simp: pair_sound_def)
    moreover have "dec_val (exact_decimal qf) \<le> dec_val (exact_decimal qt)"
      using add assms(2) by (simp add: pair_sound_def pair_ordered_def)
    ultimately show ?thesis
      using assms(1) add(6) by (auto simp: parts_sound_def parts_ordered_def intro: add_mono le_SucI)
  qed (use assms(1) in \<open>auto simp: parts_sound_def parts_ordered_def intro: le_SucI\<close>)
  with run show ?thesis by (rule that)
qed

lemma summarize_dimensions_sound:
  assumes "parts_sound n st"
    and "\<forall>theirs \<in> snd ` set es. pair_sound (mapping_get al theirs) (mapping_get av theirs)"
  shows "\<exists>st' nf'. foldR (summarize_dimension al av) es (st, nf) = Inr (st', nf')
    \<and> parts_sound (n + length es) st'"
  using assms
proof (induction es arbitrary: n st nf)
  case (Cons e es)
  obtain ours theirs where e: "e = (ours, theirs)" by (cases e)
  then obtain st1 nf1 where s: "summarize_dimension al av e (st, nf) = Inr (st1, nf1)" "parts_sound (Suc n) st1"
    using summarize_dimension_sound[OF Cons.prems(1), of al theirs av ours nf] Cons.prems(2) by auto
  then show ?case using Cons.IH[OF s(2), of nf1] Cons.prems(2) by simp
qed simp

definition node_sound :: "pyval \<Rightarrow> bool" where
  "node_sound node \<longleftrightarrow>
     (case node of PDict entries \<Rightarrow>
        (case (mapping_get entries ''allocatable'', mapping_get entries ''available'') of
           (PDict al, PDict av) \<Rightarrow>
             list_all (\<lambda>(_, theirs). pair_sound (mapping_get al theirs) (mapping_get av theirs))
               STATUS_DIMENSIONS
         | _ \<Rightarrow> True)
      | _ \<Rightarrow> True)"

lemma exact_node_empty [simp]: "exact_node empty_node" "node_free_val d empty_node = 0"
  by (cases d; auto simp: exact_node_def node_ok_def empty_node_def node_free_val_def dimension_all)+

lemma field_val_PNone_inv:
  "summary_inv st (\<lambda>_. PNone) \<Longrightarrow>
   summary_inv (st\<lparr>summarized_nodes := summarized_nodes st @ [empty_node]\<rparr>) (\<lambda>_. PNone)"
  by (auto simp: summary_inv_def)

lemma summarize_node_inv:
  assumes "summary_inv st (\<lambda>_. PNone)" and "parts_sound n st" and "node_sound node"
  obtains st' where "summarize_node node st = Inr st'" "summary_inv st' (\<lambda>_. PNone)"
    "summarized_nodes st' \<noteq> []" "parts_sound (n + 4) st'"
proof (cases "\<exists>entries al av. node = PDict entries \<and> mapping_get entries ''allocatable'' = PDict al
    \<and> mapping_get entries ''available'' = PDict av")
  case True
  then obtain entries al av where n: "node = PDict entries"
    "mapping_get entries ''allocatable'' = PDict al"
    "mapping_get entries ''available'' = PDict av" by blast
  have "parts_sound n (st\<lparr>seen_node := True\<rparr>)" using assms(2) by (simp add: parts_sound_def parts_ordered_def)
  moreover have "\<forall>theirs \<in> snd ` set STATUS_DIMENSIONS.
      pair_sound (mapping_get al theirs) (mapping_get av theirs)"
    using assms(3) n by (auto simp: node_sound_def list_all_iff)
  ultimately obtain st1 nf where f: "foldR (summarize_dimension al av) STATUS_DIMENSIONS
      (st\<lparr>seen_node := True\<rparr>, \<lambda>_. PNone) = Inr (st1, nf)" "parts_sound (n + length STATUS_DIMENSIONS) st1"
    using summarize_dimensions_sound by meson
  have inv0: "summary_inv (st\<lparr>seen_node := True\<rparr>) (\<lambda>_. PNone)"
    using assms(1) by (simp add: summary_inv_def)
  have "distinct (map fst STATUS_DIMENSIONS)" by (simp add: STATUS_DIMENSIONS_def)
  from summarize_dimensions_inv[OF f(1) inv0 this] have inv: "summary_inv st1 nf" by simp
  then have good: "good_field (nf d)" for d by (simp add: summary_inv_def)
  obtain m where m: "mk_node_capacity (nf Cpu) (nf Memory) (nf Storage) (nf Gpu) = Inr m"
    "exact_node m" "\<And>d. node_free_val d m = field_val (nf d)"
    using mk_node_capacity_good[of nf] good by blast
  let ?st = "st1\<lparr>summarized_nodes := summarized_nodes st1 @ [m]\<rparr>"
  have "length STATUS_DIMENSIONS = 4" by (simp add: STATUS_DIMENSIONS_def)
  then have "parts_sound (n + 4) ?st" using f(2) by (simp add: parts_sound_def parts_ordered_def)
  moreover have "summary_inv ?st (\<lambda>_. PNone)"
    using inv m(2,3) by (auto simp: summary_inv_def)
  moreover have "summarize_node node st = Inr ?st"
    using n f(1) m(1) by (simp add: summarize_node_def)
  ultimately show ?thesis using that by simp
next
  case False
  then have "summarize_node node st
      = Inr (st\<lparr>summarized_nodes := summarized_nodes st @ [empty_node]\<rparr>)"
    by (auto simp: summarize_node_def split: pyval.splits)
  moreover have "parts_sound (n + 4) (st\<lparr>summarized_nodes := summarized_nodes st @ [empty_node]\<rparr>)"
    using parts_sound_mono[OF assms(2), of "n + 4"] by (simp add: parts_sound_def parts_ordered_def)
  ultimately show ?thesis using that field_val_PNone_inv[OF assms(1)] by simp
qed

lemma summarize_loop_inv:
  assumes "summary_inv st (\<lambda>_. PNone)" and "parts_sound n st" and "\<forall>node \<in> set nodes. node_sound node"
  shows "\<exists>st'. foldR summarize_node nodes st = Inr st' \<and> summary_inv st' (\<lambda>_. PNone)
    \<and> (nodes \<noteq> [] \<longrightarrow> summarized_nodes st' \<noteq> []) \<and> parts_sound (n + 4 * length nodes) st'"
  using assms
proof (induction nodes arbitrary: n st)
  case (Cons node nodes)
  have "node_sound node" using Cons.prems(3) by simp
  then obtain st1 where st1: "summarize_node node st = Inr st1" "summary_inv st1 (\<lambda>_. PNone)"
    "summarized_nodes st1 \<noteq> []" "parts_sound (n + 4) st1"
    using summarize_node_inv[OF Cons.prems(1,2)] by blast
  have "\<forall>node \<in> set nodes. node_sound node" using Cons.prems(3) by simp
  from Cons.IH[OF st1(2,4) this] st1 show ?case by (cases nodes) (auto simp: algebra_simps)
qed simp

lemma initial_summary_inv: "summary_inv initial_summary (\<lambda>_. PNone)" "parts_sound 0 initial_summary"
  by (simp_all add: initial_summary_def summary_inv_def parts_sound_def parts_ordered_def)

lemma round_sig_nonneg: "0 \<le> x \<Longrightarrow> 0 \<le> round_sig n x"
proof -
  assume x: "0 \<le> x"
  have "0 \<le> round_half_even (x / 10 powi e)" for e
    using x by (intro round_half_even_ge) simp
  then show ?thesis by (simp add: round_sig_def Let_def)
qed

lemma fraction_of_bounds:
  assumes "0 \<le> decimal_of_str a" and "0 \<le> decimal_of_str t"
  shows "\<exists>f. fraction_of a t = Fin f \<and> 0 \<le> f \<and> f \<le> 1"
proof -
  let ?x = "round_sig DECIMAL_PREC (decimal_of_str a / decimal_of_str t)"
  have "0 \<le> ?x" using assms by (intro round_sig_nonneg) simp
  then have "py_le (Fin 0) (double_round ?x)" using double_round_ge by simp
  then show ?thesis
    by (cases "double_round ?x") (auto simp: fraction_of_def float_of_rat_def py_fmin_def)
qed

lemma from_pair_good:
  assumes "0 \<le> dec_val a" "dec_val a \<le> dec_val t"
    "isfinite (double_round (dec_val a))" "isfinite (double_round (dec_val t))"
  obtains fr ab where
    "from_pair (Some (integral_or_decimal a, integral_or_decimal t)) = Inr (fr, ab)"
    "\<exists>x. check_fraction fr = Inr x" "good_field ab" "ab = PNone \<or> field_val ab = dec_val a"
proof -
  have t: "0 \<le> dec_val t" using assms by linarith
  note ga = integral_or_decimal_good[OF assms(1,3)] and gt = integral_or_decimal_good[OF t assms(4)]
  obtain qa qt where q: "as_quantity (integral_or_decimal a) = Some qa" "q_val qa = dec_val a"
      "exact_quantity qa = Some (dec_val a)"
    "as_quantity (integral_or_decimal t) = Some qt" "q_val qt = dec_val t"
      "exact_quantity qt = Some (dec_val t)"
    using ga(6) gt(6) by blast
  show ?thesis
  proof (cases "dec_val t = 0")
    case True
    then have "from_pair (Some (integral_or_decimal a, integral_or_decimal t)) = Inr (PNone, PNone)"
      using ga gt q assms by (simp add: from_pair_def)
    then show ?thesis by (rule that) (simp_all add: check_fraction_def)
  next
    case False
    have "decimal_of_str q' = dec_val d" if "exact_quantity q' = Some (dec_val d)"
      "as_quantity (integral_or_decimal d) = Some q'" for q' d
      using that by (cases q') (auto simp: integral_or_decimal_def split: if_splits)
    then have "decimal_of_str qa = dec_val a" "decimal_of_str qt = dec_val t" using q by auto
    then obtain f where f: "fraction_of qa qt = Fin f" "0 \<le> f" "f \<le> 1"
      using fraction_of_bounds[of qa qt] assms(1) t by auto
    have "from_pair (Some (integral_or_decimal a, integral_or_decimal t))
        = Inr (PFloat (Fin f), integral_or_decimal a)"
      using False ga gt q assms f by (simp add: from_pair_def)
    then show ?thesis
      by (rule that) (use f ga in \<open>simp_all add: check_fraction_def\<close>)
  qed
qed

lemma check_available_good:
  "good_field v \<Longrightarrow> \<exists>r. check_available v = Inr r \<and>
     (\<forall>q. r = Some q \<longrightarrow> exact_quantity q = Some (field_val v))"
  by (cases "v = PNone") (auto simp: good_field_def intro: exI[of _ None])

lemma contradicts_in_exact_sum:
  assumes "node_capacities c = Some ns" and "\<forall>n \<in> set ns. exact_node n"
    and "\<And>q. aggregate_available d c = Some q \<Longrightarrow>
           exact_quantity q = Some (sum_list (map (node_free_val d) ns))"
  shows "\<not> contradicts_in c d"
proof -
  have "sum_list (List.map_filter id (map exact_quantity
          (List.map_filter id (map (node_available d) ns)))) = sum_list (map (node_free_val d) ns)"
    using assms(2)
  proof (induction ns)
    case (Cons n ns)
    have "\<forall>n \<in> set ns. exact_node n" using Cons.prems by simp
    note ih = Cons.IH[OF this]
    show ?case
    proof (cases "node_available d n")
      case None
      then show ?thesis using ih by (simp add: List.map_filter_simps node_free_val_def)
    next
      case (Some q)
      then obtain x where "exact_quantity q = Some x"
        using Cons.prems unfolding exact_node_def by (metis list.set_intros(1) not_None_eq)
      then show ?thesis
        using ih Some exact_quantity_val[of q x] by (simp add: List.map_filter_simps node_free_val_def)
    qed
  qed (simp add: List.map_filter_simps)
  moreover have "None \<notin> set (map exact_quantity (List.map_filter id (map (node_available d) ns)))"
    using assms(2) unfolding exact_node_def
    by (induction ns) (auto simp: List.map_filter_simps split: option.splits, metis not_None_eq)
  ultimately show ?thesis
    using assms(1,3)
    by (cases "aggregate_available d c") (simp_all add: contradicts_in_def Let_def node_values_def)
qed

lemma part_sums_small:
  assumes "\<forall>d. length (parts d) < 10 ^ 20 \<and> (\<forall>v \<in> set (parts d). small_part v)"
  obtains l where "part_sums parts = Inr l"
    "\<And>d. dec_val (the (dict_get l d)) = sum_list (map dec_val (parts d))"
proof -
  obtain s where s: "\<And>d. exact_decimal_sum (parts d) = Inr (s d)"
    "\<And>d. dec_val (s d) = sum_list (map dec_val (parts d))"
    using small_parts_sum[of "parts _"] assms by (metis (lifting))
  have "dec_val (the (dict_get [(Cpu, s Cpu), (Memory, s Memory), (Storage, s Storage), (Gpu, s Gpu)] d))
      = sum_list (map dec_val (parts d))" for d
    by (cases d) (simp_all add: s(2))
  then show ?thesis by (rule that[rotated]) (simp add: part_sums_def STATUS_DIMENSIONS_def s(1))
qed

lemma from_totals_summary:
  assumes inv: "summary_inv st (\<lambda>_. PNone)" and ord: "parts_ordered st"
    and sums: "\<And>d. dec_val (the (dict_get totals d)) = sum_list (map dec_val (total_parts st d))"
      "\<And>d. dec_val (the (dict_get frees d)) = sum_list (map dec_val (free_parts st d))"
    and fin: "\<not> overflowed totals frees" and ne: "summarized_nodes st \<noteq> []"
  obtains c where "from_totals (Some (summarized_nodes st)) (summary_pairs st totals frees) = Inr c"
    "capacity_ok c" "\<And>d. \<not> contradicts_in c d"
proof -
  let ?fs = "\<lambda>d. the (dict_get frees d)"
  let ?ts = "\<lambda>d. the (dict_get totals d)"
  have "\<forall>v \<in> set (free_parts st d). 0 \<le> dec_val v" for d
    using inv by (simp add: summary_inv_def)
  then have free: "0 \<le> dec_val (?fs d)" for d
    unfolding sums by (auto intro!: sum_list_nonneg)
  have le: "dec_val (?fs d) \<le> dec_val (?ts d)" for d
    using ord by (simp add: parts_ordered_def sums)
  have fin_f: "isfinite (double_round (dec_val (?fs d)))"
    and fin_t: "isfinite (double_round (dec_val (?ts d)))" for d
    using fin
    by (cases d; simp add: overflowed_def list_ex_iff STATUS_DIMENSIONS_def float_of_rat_def)+
  have "\<exists>fr ab. from_pair (if d \<in> set (overreported st) then None
        else Some (integral_or_decimal (?fs d), integral_or_decimal (?ts d))) = Inr (fr, ab)
      \<and> (\<exists>x. check_fraction fr = Inr x) \<and> good_field ab
      \<and> (ab = PNone \<or> field_val ab = dec_val (?fs d))" for d
  proof (cases "d \<in> set (overreported st)")
    case True
    then show ?thesis
      by (intro exI[of _ PNone]) (simp add: from_pair_def check_fraction_def)
  next
    case False
    obtain fr ab where "from_pair (Some (integral_or_decimal (?fs d), integral_or_decimal (?ts d)))
        = Inr (fr, ab)" "\<exists>x. check_fraction fr = Inr x" "good_field ab"
      "ab = PNone \<or> field_val ab = dec_val (?fs d)"
      by (rule from_pair_good[OF free[of d] le[of d] fin_f[of d] fin_t[of d]])
    then show ?thesis using False by (intro exI[of _ fr] exI[of _ ab]) simp
  qed
  then obtain fr ab where out: "\<And>d. from_pair (if d \<in> set (overreported st) then None
        else Some (integral_or_decimal (?fs d), integral_or_decimal (?ts d))) = Inr (fr d, ab d)"
    and frac: "\<And>d. \<exists>x. check_fraction (fr d) = Inr x" and good: "\<And>d. good_field (ab d)"
    and val: "\<And>d. ab d = PNone \<or> field_val (ab d) = dec_val (?fs d)" by metis
  obtain x where x: "\<And>d. check_fraction (fr d) = Inr (x d)" using frac by metis
  obtain r where r: "\<And>d. check_available (ab d) = Inr (r d)"
    and rv: "\<And>d q. r d = Some q \<Longrightarrow> exact_quantity q = Some (field_val (ab d))"
    using check_available_good[OF good] by metis
  define c where "c = \<lparr>cap_cpu = x Cpu, cap_memory = x Memory, cap_storage = x Storage,
      cap_gpu = x Gpu, cpu_millicores_available = r Cpu, memory_bytes_available = r Memory,
      storage_bytes_available = r Storage, gpu_count_available = r Gpu,
      node_capacities = Some (summarized_nodes st)\<rparr>"
  have run: "from_totals (Some (summarized_nodes st)) (summary_pairs st totals frees) = Inr c"
    using ne
    by (simp add: from_totals_def summary_pairs_def STATUS_DIMENSIONS_def our_name_def
        dimension_of_name_def out mk_provider_capacity_def x r c_def Let_def)
  moreover have "capacity_ok c"
    using run inv by (intro from_totals_ok[OF run]) (auto simp: summary_inv_def exact_node_def)
  moreover have "\<not> contradicts_in c d" for d
  proof (rule contradicts_in_exact_sum)
    show "node_capacities c = Some (summarized_nodes st)" by (simp add: c_def)
    show "\<forall>n \<in> set (summarized_nodes st). exact_node n" using inv by (simp add: summary_inv_def)
    fix q assume "aggregate_available d c = Some q"
    then have q: "r d = Some q" by (cases d) (simp_all add: c_def)
    then have "ab d \<noteq> PNone" using r[of d] by (auto simp: check_available_def)
    then show "exact_quantity q = Some (sum_list (map (node_free_val d) (summarized_nodes st)))"
      using rv[OF q] val[of d] inv by (auto simp: summary_inv_def sums)
  qed
  ultimately show ?thesis using that by blast
qed

section \<open>Properties\<close>

text \<open>The node list a payload reports, or nothing where the adapter finds none.\<close>

definition reported_nodes :: "pyval \<Rightarrow> pyval list" where
  "reported_nodes status =
     (case status of PDict document \<Rightarrow>
      (case mapping_get document ''cluster'' of PDict cluster \<Rightarrow>
       (case mapping_get cluster ''inventory'' of PDict inventory \<Rightarrow>
        (case mapping_get inventory ''available'' of PDict available \<Rightarrow>
          (case mapping_get available ''nodes'' of PList xs \<Rightarrow> xs | PTuple xs \<Rightarrow> xs | _ \<Rightarrow> [])
         | _ \<Rightarrow> []) | _ \<Rightarrow> []) | _ \<Rightarrow> []) | _ \<Rightarrow> [])"

lemma unreadable_capacity_ok: "capacity_ok unreadable_capacity"
  by (simp add: capacity_ok_def unreadable_capacity_def dimension_all)

lemma unreadable_consistent: "\<not> contradicts_in unreadable_capacity d"
  by (cases d) (simp_all add: contradicts_in_def unreadable_capacity_def)

lemma from_provider_status_cases:
  "from_provider_status status =
     (case reported_nodes status of
        [] \<Rightarrow> Inr unreadable_capacity
      | _ \<Rightarrow> bindR (foldR summarize_node (reported_nodes status) initial_summary) (\<lambda>st.
              if \<not> seen_node st then Inr unreadable_capacity
              else bindR (part_sums (total_parts st)) (\<lambda>totals.
                   bindR (part_sums (free_parts st)) (\<lambda>frees.
                   if overflowed totals frees then Inr unreadable_capacity
                   else from_totals (Some (summarized_nodes st)) (summary_pairs st totals frees)))))"
  by (auto simp: from_provider_status_def reported_nodes_def summarize_nodes_def bindR_def
      split: pyval.splits list.splits sum.splits)

lemma from_provider_status_result:
  assumes "\<forall>node \<in> set (reported_nodes status). node_sound node"
    and "length (reported_nodes status) < 2 ^ 63"
  shows "\<exists>c. from_provider_status status = Inr c \<and> capacity_ok c \<and> (\<forall>d. \<not> contradicts_in c d)"
proof (cases "reported_nodes status")
  case Nil
  then show ?thesis
    by (simp add: from_provider_status_cases unreadable_capacity_ok unreadable_consistent)
next
  case (Cons node nodes)
  obtain st where st: "foldR summarize_node (node # nodes) initial_summary = Inr st"
    "summary_inv st (\<lambda>_. PNone)" "summarized_nodes st \<noteq> []" "parts_sound (4 * length (node # nodes)) st"
    using summarize_loop_inv[OF initial_summary_inv, of "node # nodes"] assms(1) Cons by auto
  have "4 * length (node # nodes) < 10 ^ 20" using assms(2) Cons by simp
  then have small: "length (parts d) < 10 ^ 20 \<and> (\<forall>v \<in> set (parts d). small_part v)"
    if "parts = total_parts st \<or> parts = free_parts st" for parts d
    using st(4) that by (auto simp: parts_sound_def intro: le_less_trans)
  obtain totals where t: "part_sums (total_parts st) = Inr totals"
    "\<And>d. dec_val (the (dict_get totals d)) = sum_list (map dec_val (total_parts st d))"
    using part_sums_small[of "total_parts st"] small by blast
  obtain frees where f: "part_sums (free_parts st) = Inr frees"
    "\<And>d. dec_val (the (dict_get frees d)) = sum_list (map dec_val (free_parts st d))"
    using part_sums_small[of "free_parts st"] small by blast
  show ?thesis
  proof (cases "\<not> seen_node st \<or> overflowed totals frees")
    case True
    then have "from_provider_status status = Inr unreadable_capacity"
      using Cons st(1) t(1) f(1) by (auto simp: from_provider_status_cases simp del: foldR.simps)
    then show ?thesis using unreadable_capacity_ok unreadable_consistent by blast
  next
    case False
    have "parts_ordered st" using st(4) by (simp add: parts_sound_def)
    then obtain c where "from_totals (Some (summarized_nodes st)) (summary_pairs st totals frees) = Inr c"
      "capacity_ok c" "\<And>d. \<not> contradicts_in c d"
      using from_totals_summary[OF st(2) _ t(2) f(2) _ st(3)] False by blast
    moreover from this have "from_provider_status status = Inr c"
      using Cons st(1) t(1) f(1) False by (simp add: from_provider_status_cases del: foldR.simps)
    ultimately show ?thesis by blast
  qed
qed

text \<open>
  C39: \<open>_exact_decimal_sum\<close> never rounds. It terminates on every list; what it returns is the exact
  sum, however many digits it needs, and what it raises is \<open>ValueError\<close>. When no value has an exponent
  below the smallest one of the default context, it returns exactly when every partial sum stays
  below 10 to the power of 1000000, the limit of the context's exponents.
\<close>

theorem exact_decimal_sum_exact:
  "(case exact_decimal_sum vs of
      Inl e \<Rightarrow> e = ValueError
    | Inr s \<Rightarrow> dec_val s = sum_list (map dec_val vs))
   \<and> ((\<forall>v \<in> set vs. EMIN \<le> fdec_exponent v) \<longrightarrow>
        (is_ok (exact_decimal_sum vs)
         \<longleftrightarrow> (\<forall>n \<le> length vs. \<bar>sum_list (map dec_val (take n vs))\<bar> < 10 powi (EMAX + 1))))"
  using exact_decimal_sum_cases[of vs] exact_decimal_sum_val[of vs] exact_decimal_sum_ok_iff[of vs]
  by (cases "exact_decimal_sum vs") (simp_all add: partial_sums_below_def)

lemma small_below_limit: "n \<le> EMAX + 1 \<Longrightarrow> x < 10 powi n \<Longrightarrow> x < (10::rat) powi (EMAX + 1)"
  by (erule less_le_trans) (rule power_int_increasing, auto)

theorem exact_decimal_sum_exact_witness:
  "(\<exists>s. exact_decimal_sum [FDec False (10 ^ 28) 0, FDec False 1 0] = Inr s \<and> dec_val s = 10 ^ 28 + 1)
   \<and> exact_decimal_sum [FDec False 1 (EMAX + 1)] = Inl ValueError"
proof
  let ?vs = "[FDec False (10 ^ 28) 0, FDec False 1 0]"
  have "\<bar>sum_list (map dec_val (take n ?vs))\<bar> < 10 powi (EMAX + 1)" for n
    by (rule small_below_limit[of 29]) (auto simp: EMAX_def take_Cons' )
  then have "is_ok (exact_decimal_sum ?vs)"
    using exact_decimal_sum_exact[of ?vs] by (simp add: EMIN_def)
  then show "\<exists>s. exact_decimal_sum ?vs = Inr s \<and> dec_val s = 10 ^ 28 + 1"
    using exact_decimal_sum_exact[of ?vs] by (auto elim!: is_okE)
  let ?v = "FDec False 1 (EMAX + 1)"
  have "\<not> (\<forall>n \<le> length [?v]. \<bar>sum_list (map dec_val (take n [?v]))\<bar> < 10 powi (EMAX + 1))"
    by (intro notI) (drule spec[of _ 1], simp)
  moreover have "EMIN \<le> EMAX + 1" by (simp add: EMIN_def EMAX_def)
  ultimately show "exact_decimal_sum [?v] = Inl ValueError"
    using exact_decimal_sum_exact[of "[?v]"] by (cases "exact_decimal_sum [?v]") (simp, force)
qed

definition status_of_nodes :: "pyval list \<Rightarrow> pyval" where
  "status_of_nodes nodes =
     PDict [(''cluster'', PDict [(''inventory'', PDict [(''available'',
       PDict [(''nodes'', PList nodes)])])])]"

definition cpu_node :: "pyval \<Rightarrow> pyval \<Rightarrow> pyval" where
  "cpu_node allocatable available =
     PDict [(''allocatable'', PDict [(''cpu'', allocatable)]),
            (''available'', PDict [(''cpu'', available)])]"

lemma reported_nodes_status [simp]: "reported_nodes (status_of_nodes nodes) = nodes"
  by (simp add: reported_nodes_def status_of_nodes_def mapping_get_def)

text \<open>
  C40: The provider-status adapter. For any payload of fewer than 2 to the power of 63 nodes whose
  reported values are no signaling NaN and no decimal with an exponent below the smallest one of the
  default context, and whose pairs keep their order as decimals (in particular any payload of
  integers), \<open>from_provider_status\<close> never raises; the capacity is well formed and its aggregate never
  contradicts its node list. Without the conditions it can raise \<open>ValueError\<close>, against its
  documentation (\<open>from_provider_status_mixed_raises\<close>, \<open>from_provider_status_signaling_raises\<close>,
  \<open>exact_decimal_sum_too_fine\<close>).
\<close>

theorem from_provider_status_total:
  assumes "\<forall>node \<in> set (reported_nodes status). node_sound node"
    and "length (reported_nodes status) < 2 ^ 63"
  shows "\<exists>c. from_provider_status status = Inr c \<and> capacity_ok c
    \<and> (\<forall>p. \<not> contradicts_nodes c p)"
  using from_provider_status_result[OF assms] by (auto simp: contradicts_nodes_def list_ex_iff)

theorem from_provider_status_total_witness:
  "\<exists>c. from_provider_status (status_of_nodes [cpu_node (PInt (10 ^ 28)) (PInt (10 ^ 28)),
        cpu_node (PInt 1) (PInt 1), cpu_node (PStr ''8'') (PInt 8), PNone]) = Inr c
     \<and> capacity_ok c \<and> (\<forall>p. \<not> contradicts_nodes c p)"
  by (rule from_provider_status_total)
    (auto simp: node_sound_def cpu_node_def mapping_get_def STATUS_DIMENSIONS_def
      pair_sound_def plain_value_def pair_ordered_def)

text \<open>
  The adapter does raise, against its documentation. One node that reports as many free
  CPU units, as an integer, as its total, a float whose shortest decimal text 7e+22 is below
  it, passes the free-within-total check; \<open>from_totals\<close> then sees more free units than total
  ones, and its \<open>ValueError\<close> escapes.
\<close>

theorem from_provider_status_mixed_raises:
  "from_provider_status (status_of_nodes
     [cpu_node (PFloat (Fin 70000000000000004194304)) (PInt 70000000000000004194304)])
   = Inl ValueError"
proof -
  have r: "double_round 70000000000000004194304 = Fin 70000000000000004194304"
    and r7: "double_round 70000000000000000000000 = Fin 70000000000000004194304"
    by (simp_all add: double_round_binade[of 75] round_half_even_def Let_def floor_divide_numeral_rat)
  have l: "ilog 10 70000000000000004194304 = 22" by (rule ilog_eqI) simp_all
  have "(7, 22) \<in> set (take 1 (repr_candidates 70000000000000004194304 1))"
    by (simp add: repr_candidates_def l r7 round_half_even_def Let_def floor_divide_numeral_rat)
  then have c: "\<exists>cs. repr_candidates 70000000000000004194304 1 = (7, 22) # cs"
    by (cases "repr_candidates 70000000000000004194304 1") auto
  have "[1..<18] = 1 # [2..<18::nat]" by (simp add: upt_conv_Cons)
  then have "shortest_digits 70000000000000004194304 = (7, 22)"
    using c by (auto simp: shortest_digits_def simp del: upt.simps)
  then have t: "dec_of_float 70000000000000004194304 = FDec False 7 22"
    by (simp add: dec_of_float_def int_log.simps)
  let ?node = "cpu_node (PFloat (Fin 70000000000000004194304)) (PInt 70000000000000004194304)"
  let ?st = "initial_summary\<lparr>
      total_parts := (\<lambda>_. [])(Cpu := [FDec False 7 22]),
      free_parts := (\<lambda>_. [])(Cpu := [FDec False 70000000000000004194304 0]),
      summarized_nodes := [\<lparr>node_cpu_available = Some (QInt 70000000000000004194304),
        node_memory_available = None, node_storage_available = None,
        node_gpu_available = None\<rparr>], seen_node := True\<rparr>"
  have st: "foldR summarize_node [?node] initial_summary = Inr ?st"
    using r by (simp add: cpu_node_def summarize_node_def mapping_get_def STATUS_DIMENSIONS_def
        summarize_dimension_def usable_def real_number_def int_to_float_def t initial_summary_def
        integral_or_decimal_def mk_node_capacity_def check_available_def)
  have small: "\<forall>d. length (parts d) < 10 ^ 20 \<and> (\<forall>v \<in> set (parts d). small_part v)"
    if "parts = total_parts ?st \<or> parts = free_parts ?st" for parts
    using that by (auto simp: small_part_def initial_summary_def EMIN_def)
  obtain totals where t: "part_sums (total_parts ?st) = Inr totals"
    "\<And>d. dec_val (the (dict_get totals d)) = sum_list (map dec_val (total_parts ?st d))"
    using part_sums_small[OF small] by blast
  obtain frees where f: "part_sums (free_parts ?st) = Inr frees"
    "\<And>d. dec_val (the (dict_get frees d)) = sum_list (map dec_val (free_parts ?st d))"
    using part_sums_small[OF small] by blast
  have "\<not> overflowed totals frees" and "from_totals (Some (summarized_nodes ?st)) (summary_pairs ?st totals frees)
      = Inl ValueError"
    using r r7
    by (auto simp: overflowed_def STATUS_DIMENSIONS_def t(2) f(2) float_of_rat_def
        initial_summary_def from_totals_def summary_pairs_def our_name_def dimension_of_name_def
        integral_or_decimal_def from_pair_def real_number_def int_to_float_def)
  moreover have "seen_node ?st" by simp
  ultimately show ?thesis
    using st t(1) f(1) by (simp add: from_provider_status_cases del: foldR.simps)
qed

text \<open>
  So does a signaling NaN, as a decimal reader can produce it: \<^verbatim>\<open>_usable\<close> catches only
  \<open>OverflowError\<close>.
\<close>

theorem from_provider_status_signaling_raises:
  "from_provider_status (status_of_nodes [cpu_node (PDec DSNaN) free]) = Inl ValueError"
  by (simp add: from_provider_status_cases cpu_node_def summarize_node_def mapping_get_def
      STATUS_DIMENSIONS_def summarize_dimension_def usable_def real_number_def)

end
