(* ===== verification/DecimalText.thy ===== *)
theory DecimalText
  imports PyValue
begin

text \<open>
  Text of integers and decimals: \<^verbatim>\<open>str(int)\<close>, \<^verbatim>\<open>str(Decimal)\<close> and the parser
  \<^verbatim>\<open>Decimal(text)\<close> of the standard library, restricted to ASCII. The snapshot schema, the
  price normalisation and the codecs rest on them. \<open>parse_decimal_str\<close> is the round trip.
  The exponent limits of \<open>decimal\<close> (beyond 10^17) are not modelled.
\<close>

section \<open>Characters\<close>

definition code :: "char \<Rightarrow> nat" where
  "code c = of_char c"

definition is_digit :: "char \<Rightarrow> bool" where
  "is_digit c \<longleftrightarrow> 48 \<le> code c \<and> code c \<le> 57"

definition digit_char :: "nat \<Rightarrow> char" where
  "digit_char d = char_of (48 + d)"

definition digit_value :: "char \<Rightarrow> nat" where
  "digit_value c = code c - 48"

definition lower_char :: "char \<Rightarrow> char" where
  "lower_char c =
     (if 65 \<le> code c \<and> code c \<le> 90 \<or> 192 \<le> code c \<and> code c \<le> 222 \<and> code c \<noteq> 215
      then char_of (code c + 32) else c)"

definition lower :: "string \<Rightarrow> string" where
  "lower s = map lower_char s"

definition is_space :: "char \<Rightarrow> bool" where
  "is_space c \<longleftrightarrow> code c = 32 \<or> 9 \<le> code c \<and> code c \<le> 13 \<or> 28 \<le> code c \<and> code c \<le> 31
     \<or> code c = 133 \<or> code c = 160"

definition strip :: "string \<Rightarrow> string" where
  "strip s = rev (dropWhile is_space (rev (dropWhile is_space s)))"

section \<open>Natural numbers\<close>

fun nat_str :: "nat \<Rightarrow> string" where
  "nat_str n = (if n < 10 then [digit_char n] else nat_str (n div 10) @ [digit_char (n mod 10)])"

declare nat_str.simps [simp del]

definition nat_of_digits :: "string \<Rightarrow> nat" where
  "nat_of_digits s = fold (\<lambda>c n. 10 * n + digit_value c) s 0"

definition int_str :: "int \<Rightarrow> string" where
  "int_str i = (if i < 0 then CHR ''-'' # nat_str (nat (- i)) else nat_str (nat i))"

section \<open>Printing and parsing decimals\<close>

definition decimal_str :: "fdec \<Rightarrow> string" where
  "decimal_str d =
     (case d of FDec neg c e \<Rightarrow>
       let digits = nat_str c;
           leftdigits = e + int (length digits);
           dotplace = (if e \<le> 0 \<and> - 6 < leftdigits then leftdigits else 1);
           (intpart, fracpart) =
             (if dotplace \<le> 0
              then (''0'', ''.'' @ replicate (nat (- dotplace)) (CHR ''0'') @ digits)
              else if int (length digits) \<le> dotplace
              then (digits @ replicate (nat (dotplace - int (length digits))) (CHR ''0''), '''')
              else (take (nat dotplace) digits, ''.'' @ drop (nat dotplace) digits));
           exponent =
             (if leftdigits = dotplace then ''''
              else ''E'' @ (if 0 \<le> leftdigits - dotplace then ''+'' else '''')
                   @ int_str (leftdigits - dotplace))
       in (if neg then ''-'' else '''') @ intpart @ fracpart @ exponent)"

definition split_sign :: "string \<Rightarrow> bool \<times> string" where
  "split_sign s =
     (case s of
        c # cs \<Rightarrow> if c = CHR ''-'' then (True, cs) else if c = CHR ''+'' then (False, cs) else (False, s)
      | [] \<Rightarrow> (False, s))"

definition parse_exponent :: "string \<Rightarrow> int option" where
  "parse_exponent s =
     (case s of
        [] \<Rightarrow> Some 0
      | c # cs \<Rightarrow>
          if lower_char c = CHR ''e''
          then let (neg, ds) = split_sign cs
               in if ds \<noteq> [] \<and> list_all is_digit ds
                  then Some ((if neg then - 1 else 1) * int (nat_of_digits ds)) else None
          else None)"

definition parse_number :: "bool \<Rightarrow> string \<Rightarrow> pydec option" where
  "parse_number neg s =
     (let ip = takeWhile is_digit s; rest = dropWhile is_digit s;
          (fp, tail) = (case rest of
             c # cs \<Rightarrow> if c = CHR ''.'' then (takeWhile is_digit cs, dropWhile is_digit cs)
                        else ('''', rest)
           | [] \<Rightarrow> ('''', rest))
      in if ip @ fp = [] then None
         else map_option (\<lambda>e. DFin (FDec neg (nat_of_digits (ip @ fp)) (e - int (length fp))))
                (parse_exponent tail))"

definition parse_decimal :: "string \<Rightarrow> pydec option" where
  "parse_decimal text =
     (let (neg, s) = split_sign (filter (\<lambda>c. c \<noteq> CHR ''_'') (strip text)); low = lower s
      in if low = ''inf'' \<or> low = ''infinity'' then Some (DInf neg)
         else if take 3 low = ''nan'' \<and> list_all is_digit (drop 3 low) then Some DNaN
         else if take 4 low = ''snan'' \<and> list_all is_digit (drop 4 low) then Some DSNaN
         else parse_number neg s)"

section \<open>Lemmas\<close>

lemma code_digit_char [simp]: "d < 10 \<Longrightarrow> code (digit_char d) = 48 + d"
  by (simp add: code_def digit_char_def)

lemma is_digit_digit_char [simp]: "d < 10 \<Longrightarrow> is_digit (digit_char d)"
  by (simp add: is_digit_def)

lemma digit_value_digit_char [simp]: "d < 10 \<Longrightarrow> digit_value (digit_char d) = d"
  by (simp add: digit_value_def)

lemma nat_str_not_Nil [simp]: "nat_str n \<noteq> []"
  by (subst nat_str.simps) simp

lemma nat_str_digits: "c \<in> set (nat_str n) \<Longrightarrow> is_digit c"
proof (induction n rule: nat_str.induct)
  case (1 n)
  then show ?case by (subst (asm) (2) nat_str.simps) (auto split: if_splits)
qed

lemma all_digits_nat_str [simp]: "list_all is_digit (nat_str n)"
  by (simp add: list_all_iff nat_str_digits)

lemma fold_digits_append:
  "nat_of_digits (s @ [c]) = 10 * nat_of_digits s + digit_value c"
  by (simp add: nat_of_digits_def)

lemma nat_of_digits_nat_str [simp]: "nat_of_digits (nat_str n) = n"
proof (induction n rule: nat_str.induct)
  case (1 n)
  show ?case
  proof (cases "n < 10")
    case True
    then show ?thesis by (subst nat_str.simps) (simp add: nat_of_digits_def)
  next
    case False
    then show ?thesis using 1 by (subst nat_str.simps) (simp add: fold_digits_append)
  qed
qed

lemma nat_of_digits_zeros:
  "nat_of_digits (replicate k (CHR ''0'') @ s) = nat_of_digits s"
  by (induction k) (simp_all add: nat_of_digits_def digit_value_def code_def)

lemma nat_of_digits_zero_Cons: "nat_of_digits (CHR ''0'' # s) = nat_of_digits s"
  using nat_of_digits_zeros[of 1 s] by simp

lemma nat_str_inject [simp]: "nat_str a = nat_str b \<longleftrightarrow> a = b"
  by (metis nat_of_digits_nat_str)

lemma not_digit [simp]:
  "\<not> is_digit (CHR ''-'')" "\<not> is_digit (CHR ''+'')" "\<not> is_digit (CHR ''.'')"
  "\<not> is_digit (CHR ''E'')" "\<not> is_digit (CHR ''_'')" "is_digit (CHR ''0'')"
  "\<not> is_digit (CHR ''/'')"
  by (simp_all add: is_digit_def code_def)

lemma nat_str_hd: "\<exists>c cs. nat_str n = c # cs \<and> is_digit c"
  by (metis list.exhaust list.set_intros(1) nat_str_digits nat_str_not_Nil)

lemma split_sign_nat_str [simp]: "split_sign (nat_str n) = (False, nat_str n)"
  using nat_str_hd[of n] by (auto simp: split_sign_def)

lemma int_str_inject [simp]: "int_str a = int_str b \<longleftrightarrow> a = b"
proof
  assume eq: "int_str a = int_str b"
  have *: "CHR ''-'' # s \<noteq> nat_str n" for s n using nat_str_hd[of n] by auto
  show "a = b"
    using eq *[of _ "nat b"] *[of _ "nat a"]
    by (auto simp: int_str_def split: if_splits)
qed simp

text \<open>The sign of the exponent is printed explicitly.\<close>

lemma char_of_101: "char_of (101::nat) = CHR ''e''"
  using char_of_char[of "CHR ''e''", where 'a = nat] by simp

lemma parse_exponent_printed:
  "parse_exponent (CHR ''E'' # (if 0 \<le> k then ''+'' else '''') @ int_str k) = Some k"
  by (simp add: parse_exponent_def lower_char_def code_def split_sign_def int_str_def char_of_101)

lemma takeWhile_digits: "list_all is_digit ds \<Longrightarrow> takeWhile is_digit (ds @ s) = ds @ takeWhile is_digit s"
  by (induction ds) auto

lemma dropWhile_digits: "list_all is_digit ds \<Longrightarrow> dropWhile is_digit (ds @ s) = dropWhile is_digit s"
  by (induction ds) auto

definition exponent_text :: "int \<Rightarrow> string" where
  "exponent_text k =
     (if k = 0 then '''' else CHR ''E'' # (if 0 \<le> k then ''+'' else '''') @ int_str k)"

lemma parse_exponent_text [simp]: "parse_exponent (exponent_text k) = Some k"
  using parse_exponent_printed[of k] unfolding exponent_text_def
  by (cases "k = 0") (simp_all add: parse_exponent_def)

lemma exponent_text_stops:
  "takeWhile is_digit (exponent_text k) = []" "dropWhile is_digit (exponent_text k) = exponent_text k"
  "exponent_text k = c # cs \<Longrightarrow> c \<noteq> CHR ''.''"
  by (auto simp: exponent_text_def split: if_splits)

lemma parse_number_int:
  assumes "list_all is_digit ds" and "ds \<noteq> []"
  shows "parse_number neg (ds @ exponent_text k) = Some (DFin (FDec neg (nat_of_digits ds) k))"
proof -
  have "(case exponent_text k of
      c # cs \<Rightarrow> if c = CHR ''.'' then (takeWhile is_digit cs, dropWhile is_digit cs)
                else ('''', exponent_text k)
    | [] \<Rightarrow> ('''', exponent_text k)) = ('''', exponent_text k)"
    using exponent_text_stops(3)[of k] by (cases "exponent_text k") auto
  then show ?thesis
    using assms exponent_text_stops(1,2)[of k]
    by (simp add: parse_number_def takeWhile_digits dropWhile_digits Let_def)
qed

lemma parse_number_frac:
  assumes "list_all is_digit ds" and "list_all is_digit fs" and "ds \<noteq> []"
  shows "parse_number neg (ds @ CHR ''.'' # fs @ exponent_text k)
    = Some (DFin (FDec neg (nat_of_digits (ds @ fs)) (k - int (length fs))))"
  using assms exponent_text_stops[of k]
  by (simp add: parse_number_def takeWhile_digits dropWhile_digits Let_def)

text \<open>The printed form of a decimal without its sign.\<close>

definition decimal_body :: "nat \<Rightarrow> int \<Rightarrow> string" where
  "decimal_body c e = decimal_str (FDec False c e)"

lemma decimal_str_body: "decimal_str (FDec neg c e) = (if neg then ''-'' else '''') @ decimal_body c e"
  by (simp add: decimal_body_def decimal_str_def Let_def)

lemma decimal_body_cases:
  obtains (int) ds k where "decimal_body c e = ds @ exponent_text k" "list_all is_digit ds"
      "ds \<noteq> []" "nat_of_digits ds = c" "k = e"
  | (frac) ds fs k where "decimal_body c e = ds @ CHR ''.'' # fs @ exponent_text k"
      "list_all is_digit ds" "list_all is_digit fs" "ds \<noteq> []" "nat_of_digits (ds @ fs) = c"
      "k - int (length fs) = e" "fs \<noteq> []"
proof -
  define n where "n = int (length (nat_str c))"
  have n: "1 \<le> n" using nat_str_not_Nil[of c] by (simp add: n_def Suc_le_eq)
  show ?thesis
  proof (cases "e \<le> 0 \<and> - 6 < e + n")
    case True
    show ?thesis
    proof (cases "e + n \<le> 0")
      case neg: True
      show ?thesis
      proof (rule frac)
        show "decimal_body c e = ''0'' @ CHR ''.''
            # (replicate (nat (- (e + n))) (CHR ''0'') @ nat_str c) @ exponent_text 0"
          using True neg by (simp add: decimal_body_def decimal_str_def Let_def exponent_text_def n_def)
        show "nat_of_digits (''0'' @ replicate (nat (- (e + n))) (CHR ''0'') @ nat_str c) = c"
          by (simp add: nat_of_digits_zero_Cons nat_of_digits_zeros)
        show "0 - int (length (replicate (nat (- (e + n))) (CHR ''0'') @ nat_str c)) = e"
          using neg by (simp add: n_def)
      qed (auto simp: list_all_iff nat_str_digits)
    next
      case pos: False
      show ?thesis
      proof (cases "e = 0")
        case True
        show ?thesis
        proof (rule int)
          show "decimal_body c e = nat_str c @ exponent_text 0"
            using True n by (simp add: decimal_body_def decimal_str_def Let_def exponent_text_def n_def)
        qed (use True in simp_all)
      next
        case False
        with True pos have lt: "nat (e + n) < length (nat_str c)" "0 < nat (e + n)"
          by (simp_all add: n_def)
        show ?thesis
        proof (rule frac)
          show "decimal_body c e = take (nat (e + n)) (nat_str c) @ CHR ''.''
              # drop (nat (e + n)) (nat_str c) @ exponent_text 0"
            using True pos False
            by (simp add: decimal_body_def decimal_str_def Let_def exponent_text_def n_def)
          show "0 - int (length (drop (nat (e + n)) (nat_str c))) = e"
            using lt pos by (simp add: n_def)
        qed (use lt in \<open>auto simp: list_all_iff nat_str_digits dest: in_set_takeD in_set_dropD\<close>)
      qed
    qed
  next
    case False
    show ?thesis
    proof (cases "length (nat_str c) = 1")
      case True
      then have "nat_str c @ exponent_text e = decimal_body c e"
        using False n
        by (auto simp: decimal_body_def decimal_str_def Let_def exponent_text_def n_def)
      then show ?thesis by (intro int[of "nat_str c" e]) simp_all
    next
      case big: False
      then have lt: "1 < length (nat_str c)" using n by (simp add: n_def)
      show ?thesis
      proof (rule frac)
        show "decimal_body c e = take 1 (nat_str c) @ CHR ''.''
            # drop 1 (nat_str c) @ exponent_text (e + n - 1)"
          using False lt
          by (auto simp: decimal_body_def decimal_str_def Let_def exponent_text_def n_def)
        show "e + n - 1 - int (length (drop 1 (nat_str c))) = e"
          using lt by (simp add: n_def)
      qed (use lt in \<open>auto simp: list_all_iff nat_str_digits dest: in_set_takeD in_set_dropD\<close>)
    qed
  qed
qed

definition is_decimal_char :: "char \<Rightarrow> bool" where
  "is_decimal_char c \<longleftrightarrow> \<not> is_space c \<and> c \<noteq> CHR ''_''"

lemma digit_decimal_char: "is_digit c \<Longrightarrow> is_decimal_char c"
  by (auto simp: is_digit_def is_decimal_char_def is_space_def code_def)

lemma exponent_text_chars: "c \<in> set (exponent_text k) \<Longrightarrow> is_decimal_char c"
  using nat_str_digits digit_decimal_char
  by (auto simp: exponent_text_def int_str_def is_decimal_char_def is_space_def code_def split: if_splits)

lemma decimal_body_chars: "x \<in> set (decimal_body c e) \<Longrightarrow> is_decimal_char x"
proof (cases rule: decimal_body_cases[of c e])
  case (int ds k)
  then show "x \<in> set (decimal_body c e) \<Longrightarrow> ?thesis"
    using digit_decimal_char exponent_text_chars by (auto simp: list_all_iff)
next
  case (frac ds fs k)
  have "is_decimal_char (CHR ''.'')" by (simp add: is_decimal_char_def is_space_def code_def)
  then show "x \<in> set (decimal_body c e) \<Longrightarrow> ?thesis"
    using frac digit_decimal_char exponent_text_chars by (auto simp: list_all_iff)
qed

lemma decimal_body_hd: "\<exists>d ds. decimal_body c e = d # ds \<and> is_digit d"
proof (cases rule: decimal_body_cases[of c e])
  case (int ds k)
  then show ?thesis by (cases ds) auto
next
  case (frac ds fs k)
  then show ?thesis by (cases ds) auto
qed

lemma parse_number_body: "parse_number neg (decimal_body c e) = Some (DFin (FDec neg c e))"
proof (cases rule: decimal_body_cases[of c e])
  case (int ds k)
  then show ?thesis using parse_number_int[of ds neg k] by simp
next
  case (frac ds fs k)
  then show ?thesis using parse_number_frac[of ds fs neg k] by simp
qed

lemma strip_clean: "(\<And>c. c \<in> set s \<Longrightarrow> is_decimal_char c) \<Longrightarrow> strip s = s"
proof -
  have *: "dropWhile P t = t" if "\<forall>c \<in> set t. \<not> P c" for P and t :: string
    using that by (cases t) auto
  assume "\<And>c. c \<in> set s \<Longrightarrow> is_decimal_char c"
  then have "\<forall>c \<in> set s. \<not> is_space c" by (simp add: is_decimal_char_def)
  then show ?thesis using *[of s is_space] *[of "rev s" is_space] by (simp add: strip_def)
qed

lemma lower_digit: "is_digit d \<Longrightarrow> lower_char d = d"
  by (simp add: is_digit_def lower_char_def)

theorem parse_decimal_str: "parse_decimal (decimal_str d) = Some (DFin d)"
proof (cases d)
  case (FDec neg c e)
  let ?text = "(if neg then ''-'' else '''') @ decimal_body c e"
  obtain x xs where body: "decimal_body c e = x # xs" and x: "is_digit x"
    using decimal_body_hd by blast
  have chars: "is_decimal_char y" if "y \<in> set ?text" for y
    using that decimal_body_chars[of y c e]
    by (auto simp: is_decimal_char_def is_space_def code_def split: if_splits)
  then have "strip ?text = ?text" by (rule strip_clean)
  moreover have "filter (\<lambda>c. c \<noteq> CHR ''_'') ?text = ?text"
    using chars by (intro filter_True) (metis is_decimal_char_def)
  moreover have "split_sign ?text = (neg, decimal_body c e)"
    using body x by (auto simp: split_sign_def)
  moreover have "hd (lower (decimal_body c e)) = x" "lower (decimal_body c e) \<noteq> []"
    using body lower_digit[OF x] by (simp_all add: lower_def)
  then have "lower (decimal_body c e) \<noteq> w" "take 3 (lower (decimal_body c e)) \<noteq> w"
    "take 4 (lower (decimal_body c e)) \<noteq> w" if "w \<noteq> []" "\<not> is_digit (hd w)" for w
    using x that by (auto simp: take_Cons' neq_Nil_conv)
  from this[of "''inf''"] this[of "''infinity''"] this[of "''nan''"] this[of "''snan''"]
  have "lower (decimal_body c e) \<noteq> ''inf''" "lower (decimal_body c e) \<noteq> ''infinity''"
    "take 3 (lower (decimal_body c e)) \<noteq> ''nan''" "take 4 (lower (decimal_body c e)) \<noteq> ''snan''"
    by (simp_all add: is_digit_def code_def)
  ultimately show ?thesis
    unfolding FDec decimal_str_body parse_decimal_def
    by (simp add: parse_number_body Let_def del: filter.simps)
qed

end
