(* ===== verification/Auction.thy ===== *)
theory Auction
  imports DecimalText ProviderStatus "HOL-Library.Product_Lexorder"
begin

text \<open>
  \<^verbatim>\<open>auction.py\<close>: bid observations, the auction policy, \<open>Auction.observe\<close> with the binding of
  group profiles, and \<open>Auction.evaluate\<close>. A method that mutates the auction returns its
  result together with the state it leaves, so that what an exception leaves behind is part
  of the model. The snapshot schema is in \<open>AuctionSnapshot\<close>.
\<close>

section \<open>Reasons and states\<close>

datatype preferred_selection = CHEAPEST | EMPTIEST

datatype auction_status = COLLECTING | DECIDED | EXPIRED

datatype bid_rejection_reason =
    BID_NOT_OPEN
  | PROVIDER_EXCLUDED
  | PROVIDER_NOT_ELIGIBLE
  | BID_OBSERVED_AFTER_FALLBACK_DEADLINE
  | REQUIRED_CAPACITY_UNREADABLE
  | REJECT_INSUFFICIENT_CAPACITY
  | REJECT_PLACEMENT_SEARCH_UNSUPPORTED
  | RESOURCE_PROFILE_GROUP_UNBOUND

datatype selection_reason =
    COLLECTION_WINDOW_OPEN
  | WAITING_FOR_FIRST_ELIGIBLE_FALLBACK
  | NO_ELIGIBLE_OPEN_BIDS
  | EMPTIEST_PREFERRED
  | EMPTIEST_REQUEST_PROFILE_UNAVAILABLE_FELL_BACK_TO_CHEAPEST
  | EMPTIEST_CAPACITY_INCOMPLETE_FELL_BACK_TO_CHEAPEST
  | CHEAPEST_PREFERRED
  | FIRST_ELIGIBLE_FALLBACK

section \<open>Bid observations\<close>

record bid_observation =
  bid_key :: string
  provider :: string
  price :: fdec
  denom :: string
  observed_at :: rat
  bid_state :: string
  proofs :: "string list"
  bid_capacity :: "provider_capacity option"
  bid_profile :: "resource_profile option"
  gseq :: "int option"

text \<open>
  \<^verbatim>\<open>Decimal(str(price))\<close> for a price that is not already a decimal; text that is no decimal
  number raises \<open>InvalidOperation\<close>.
\<close>

definition price_decimal :: "pyval \<Rightarrow> pydec result" where
  "price_decimal v =
     (case v of
        PDec d \<Rightarrow> Inr d
      | PInt i \<Rightarrow> Inr (DFin (FDec (i < 0) (nat \<bar>i\<bar>) 0))
      | PFloat (Fin x) \<Rightarrow> Inr (DFin (dec_of_float x))
      | PFloat (Inf neg) \<Rightarrow> Inr (DInf neg)
      | PFloat NaN \<Rightarrow> Inr DNaN
      | PStr s \<Rightarrow> (case parse_decimal s of None \<Rightarrow> Inl InvalidOperation | Some d \<Rightarrow> Inr d)
      | _ \<Rightarrow> Inl InvalidOperation)"

definition check_gseq :: "pyval \<Rightarrow> int option result" where
  "check_gseq v =
     (case v of
        PNone \<Rightarrow> Inr None
      | PInt i \<Rightarrow> (if i < 1 then Inl ValueError else Inr (Some i))
      | _ \<Rightarrow> Inl ValueError)"

definition mk_bid ::
    "string \<Rightarrow> string \<Rightarrow> pyval \<Rightarrow> string \<Rightarrow> pyfloat \<Rightarrow> string \<Rightarrow> string list
     \<Rightarrow> provider_capacity option \<Rightarrow> resource_profile option \<Rightarrow> pyval \<Rightarrow> bid_observation result" where
  "mk_bid key prov amount den seen state prfs cap prof grp =
     bindR (raise_if (key = []) ValueError) (\<lambda>_.
     bindR (raise_if (prov = []) ValueError) (\<lambda>_.
     bindR (raise_if (den = []) ValueError) (\<lambda>_.
     bindR (price_decimal amount) (\<lambda>d.
     (case d of
        DFin p \<Rightarrow>
          if dec_val p < 0 then Inl ValueError
          else (case seen of
                  Fin t \<Rightarrow> bindR (check_gseq grp) (\<lambda>g.
                    Inr \<lparr>bid_key = key, provider = prov, price = p, denom = den,
                         observed_at = t, bid_state = state, proofs = prfs,
                         bid_capacity = cap, bid_profile = prof, gseq = g\<rparr>)
                | _ \<Rightarrow> Inl ValueError)
      | _ \<Rightarrow> Inl ValueError)))))"

definition bid_ok :: "bid_observation \<Rightarrow> bool" where
  "bid_ok b \<longleftrightarrow>
     bid_key b \<noteq> [] \<and> provider b \<noteq> [] \<and> denom b \<noteq> [] \<and> 0 \<le> dec_val (price b) \<and>
     (\<forall>g. gseq b = Some g \<longrightarrow> 1 \<le> g) \<and>
     (\<forall>c. bid_capacity b = Some c \<longrightarrow> capacity_ok c) \<and>
     (\<forall>p. bid_profile b = Some p \<longrightarrow> profile_ok p)"

section \<open>The policy\<close>

record auction_policy =
  collection_window_seconds :: rat
  fallback_window_seconds :: rat
  preferred_providers :: "string set"
  eligible_providers :: "string set option"
  excluded_providers :: "string set"
  required_proofs :: "string set"
  policy_selection :: preferred_selection
  policy_version :: string

definition check_window :: "pyfloat \<Rightarrow> rat \<Rightarrow> rat result" where
  "check_window w limit =
     (case w of Fin x \<Rightarrow> if 0 \<le> x \<and> x \<le> limit then Inr x else Inl ValueError
      | _ \<Rightarrow> Inl ValueError)"

definition mk_policy ::
    "pyfloat \<Rightarrow> pyfloat \<Rightarrow> string list \<Rightarrow> string list option \<Rightarrow> string list \<Rightarrow> string list
     \<Rightarrow> preferred_selection \<Rightarrow> string \<Rightarrow> auction_policy result" where
  "mk_policy collection fallback preferred eligible excluded required selection version =
     bindR (check_window collection 60) (\<lambda>c.
     bindR (check_window fallback 120) (\<lambda>f.
     bindR (raise_if (version = []) ValueError) (\<lambda>_.
     Inr \<lparr>collection_window_seconds = c, fallback_window_seconds = f,
          preferred_providers = set preferred, eligible_providers = map_option set eligible,
          excluded_providers = set excluded, required_proofs = set required,
          policy_selection = selection, policy_version = version\<rparr>)))"

definition policy_ok :: "auction_policy \<Rightarrow> bool" where
  "policy_ok p \<longleftrightarrow>
     0 \<le> collection_window_seconds p \<and> collection_window_seconds p \<le> 60 \<and>
     0 \<le> fallback_window_seconds p \<and> fallback_window_seconds p \<le> 120 \<and>
     finite (preferred_providers p) \<and> finite (excluded_providers p) \<and>
     finite (required_proofs p) \<and> (\<forall>s. eligible_providers p = Some s \<longrightarrow> finite s) \<and>
     policy_version p \<noteq> []"

section \<open>Collecting observations\<close>

record auction =
  policy :: auction_policy
  started_at :: rat
  deadline :: pyfloat
  fallback_deadline :: pyfloat
  latest_by_key :: "(string, bid_observation) dict"
  resource_profile_by_gseq :: "(int, resource_profile) dict"

definition mk_auction :: "auction_policy \<Rightarrow> pyfloat \<Rightarrow> auction result" where
  "mk_auction p start =
     (case start of
        Fin t \<Rightarrow>
          let dl = fadd (Fin t) (Fin (collection_window_seconds p))
          in Inr \<lparr>policy = p, started_at = t, deadline = dl,
                  fallback_deadline = fadd dl (Fin (fallback_window_seconds p)),
                  latest_by_key = [], resource_profile_by_gseq = []\<rparr>
      | _ \<Rightarrow> Inl ValueError)"

text \<open>The loop that applies newly arrived group evidence to the bids already observed.\<close>

definition spread_profile ::
    "int \<Rightarrow> resource_profile \<Rightarrow> (string, bid_observation) dict \<Rightarrow> (string, bid_observation) dict" where
  "spread_profile g p d =
     map (\<lambda>(k, current). (k, if gseq current = Some g \<and> bid_profile current = None
                              then current\<lparr>bid_profile := Some p\<rparr> else current)) d"

definition bind_resource_profile ::
    "bid_observation \<Rightarrow> auction \<Rightarrow> bid_observation result \<times> auction" where
  "bind_resource_profile b a =
     (case gseq b of
        None \<Rightarrow> (Inr b, a)
      | Some g \<Rightarrow>
          let known = dict_get (resource_profile_by_gseq a) g
          in case bid_profile b of
               None \<Rightarrow> (Inr (case known of None \<Rightarrow> b | Some k \<Rightarrow> b\<lparr>bid_profile := Some k\<rparr>), a)
             | Some p \<Rightarrow>
                 if known \<noteq> None \<and> known \<noteq> Some p then (Inl ValueError, a)
                 else if known = None
                 then (Inr b,
                       a\<lparr>resource_profile_by_gseq := dict_set g p (resource_profile_by_gseq a),
                         latest_by_key := spread_profile g p (latest_by_key a)\<rparr>)
                 else (Inr b, a))"

text \<open>The checks of \<open>observe\<close> against the stored bid, and what it carries over from it.\<close>

definition carry_identity ::
    "bid_observation option \<Rightarrow> bid_observation \<Rightarrow> bid_observation result" where
  "carry_identity current b =
     (case current of
        None \<Rightarrow> Inr b
      | Some c \<Rightarrow>
          if provider c \<noteq> provider b then Inl ValueError
          else bindR (case gseq c of
                        None \<Rightarrow> Inr b
                      | Some g \<Rightarrow> (case gseq b of
                                    None \<Rightarrow> Inr (b\<lparr>gseq := Some g\<rparr>)
                                  | Some g' \<Rightarrow> if g' \<noteq> g then Inl ValueError else Inr b))
            (\<lambda>b. if bid_profile c \<noteq> None \<and> bid_profile b = None
                 then Inr (b\<lparr>bid_profile := bid_profile c\<rparr>) else Inr b))"

definition observe :: "bid_observation \<Rightarrow> auction \<Rightarrow> unit result \<times> auction" where
  "observe b a =
     (let current = dict_get (latest_by_key a) (bid_key b)
      in case carry_identity current b of
           Inl e \<Rightarrow> (Inl e, a)
         | Inr b1 \<Rightarrow>
             (case bind_resource_profile b1 a of
                (Inl e, a') \<Rightarrow> (Inl e, a')
              | (Inr b2, a') \<Rightarrow>
                  (Inr (), a'\<lparr>latest_by_key :=
                     dict_set (bid_key b2)
                       (case current of None \<Rightarrow> b2
                        | Some c \<Rightarrow> b2\<lparr>observed_at := observed_at c\<rparr>)
                       (latest_by_key a')\<rparr>)))"

fun observe_many :: "bid_observation list \<Rightarrow> auction \<Rightarrow> unit result \<times> auction" where
  "observe_many [] a = (Inr (), a)"
| "observe_many (b # bs) a =
     (case observe b a of
        (Inl e, a') \<Rightarrow> (Inl e, a')
      | (Inr _, a') \<Rightarrow> observe_many bs a')"

section \<open>Evaluating\<close>

record rejected_bid =
  rejected_key :: string
  rejected_provider :: string
  rejection :: bid_rejection_reason

record auction_result =
  result_status :: auction_status
  result_policy_version :: string
  result_started_at :: rat
  result_deadline :: pyfloat
  result_fallback_deadline :: pyfloat
  evaluated_at :: pyfloat
  selected :: "bid_observation option"
  selection_reason :: selection_reason
  considered :: "bid_observation list"
  rejected :: "rejected_bid list"
  missing_required_proofs :: "string list"

definition reject :: "bid_observation \<Rightarrow> bid_rejection_reason \<Rightarrow> rejected_bid" where
  "reject b r = \<lparr>rejected_key = bid_key b, rejected_provider = provider b, rejection = r\<rparr>"

definition mk_result ::
    "auction \<Rightarrow> auction_status \<Rightarrow> pyfloat \<Rightarrow> bid_observation option \<Rightarrow> selection_reason
     \<Rightarrow> bid_observation list \<Rightarrow> rejected_bid list \<Rightarrow> string list \<Rightarrow> auction_result" where
  "mk_result a st now sel reason cons rej miss =
     \<lparr>result_status = st, result_policy_version = policy_version (policy a),
      result_started_at = started_at a, result_deadline = deadline a,
      result_fallback_deadline = fallback_deadline a, evaluated_at = now, selected = sel,
      selection_reason = reason, considered = cons, rejected = rej,
      missing_required_proofs = miss\<rparr>"

text \<open>The \<^verbatim>\<open>if/elif\<close> chain of the first loop: why a bid is rejected, or \<open>None\<close>.\<close>

definition classify ::
    "auction \<Rightarrow> pyfloat \<Rightarrow> bid_observation \<Rightarrow> bid_rejection_reason option result" where
  "classify a now b =
     (if lower (bid_state b) \<noteq> ''open'' then Inr (Some BID_NOT_OPEN)
      else if provider b \<in> excluded_providers (policy a) then Inr (Some PROVIDER_EXCLUDED)
      else if (case eligible_providers (policy a) of None \<Rightarrow> False | Some s \<Rightarrow> provider b \<notin> s)
      then Inr (Some PROVIDER_NOT_ELIGIBLE)
      else if py_lt (py_fmin now (fallback_deadline a)) (Fin (observed_at b))
      then Inr (Some BID_OBSERVED_AFTER_FALLBACK_DEADLINE)
      else if bid_profile b \<noteq> None \<and> gseq b = None
      then Inr (Some RESOURCE_PROFILE_GROUP_UNBOUND)
      else case (policy_selection (policy a), bid_profile b) of
             (EMPTIEST, Some p) \<Rightarrow>
               bindR (case bid_capacity b of
                        None \<Rightarrow> Inr REQUIRED_DIMENSION_UNREADABLE
                      | Some c \<Rightarrow> fit c p)
                 (\<lambda>v. Inr (case v of
                    REQUIRED_DIMENSION_UNREADABLE \<Rightarrow> Some REQUIRED_CAPACITY_UNREADABLE
                  | INSUFFICIENT_CAPACITY \<Rightarrow> Some REJECT_INSUFFICIENT_CAPACITY
                  | PLACEMENT_SEARCH_UNSUPPORTED \<Rightarrow> Some REJECT_PLACEMENT_SEARCH_UNSUPPORTED
                  | FIT \<Rightarrow> None))
           | _ \<Rightarrow> Inr None)"

fun partition_bids ::
    "auction \<Rightarrow> pyfloat \<Rightarrow> bid_observation list \<Rightarrow> (bid_observation list \<times> rejected_bid list) result" where
  "partition_bids a now [] = Inr ([], [])"
| "partition_bids a now (b # bs) =
     bindR (classify a now b) (\<lambda>r.
     bindR (partition_bids a now bs) (\<lambda>(cs, rs).
       Inr (case r of None \<Rightarrow> (b # cs, rs) | Some reason \<Rightarrow> (cs, reject b reason # rs))))"

type_synonym cheapest_key = "bool \<times> rat \<times> string \<times> string"
type_synonym emptiest_key = "bool \<times> bool \<times> rat \<times> rat \<times> string \<times> string"

definition cheapest :: "string set \<Rightarrow> bid_observation \<Rightarrow> cheapest_key" where
  "cheapest taken b = (provider b \<in> taken, dec_val (price b), provider b, bid_key b)"

definition price_key :: "bid_observation \<Rightarrow> rat \<times> string \<times> string" where
  "price_key b = (dec_val (price b), provider b, bid_key b)"

definition arrival_key :: "bid_observation \<Rightarrow> rat \<times> string \<times> string" where
  "arrival_key b = (observed_at b, provider b, bid_key b)"

definition delivery_key :: "bid_observation \<Rightarrow> string \<times> string" where
  "delivery_key b = (provider b, bid_key b)"

definition ranked :: "bid_observation \<Rightarrow> bool" where
  "ranked b =
     (case (bid_capacity b, bid_profile b) of
        (Some c, Some p) \<Rightarrow> ranking_complete_for c p | _ \<Rightarrow> False)"

definition rank :: "string set \<Rightarrow> bid_observation \<Rightarrow> emptiest_key result" where
  "rank taken b =
     (if \<not> ranked b
      then Inr (provider b \<in> taken, True, 0, dec_val (price b), provider b, bid_key b)
      else case (bid_capacity b, bid_profile b) of
             (Some c, Some p) \<Rightarrow>
               bindR (available_fraction_for c p) (\<lambda>frac.
                 (case frac of
                    None \<Rightarrow> Inl AssertionError
                  | Some f \<Rightarrow> Inr (provider b \<in> taken, False, - f, dec_val (price b),
                                   provider b, bid_key b)))
           | _ \<Rightarrow> Inl AssertionError)"

text \<open>
  The choice among a pool: the winner, the reason and the pool in rank order. A key that
  raises is evaluated, in pool order, before any comparison matters.
\<close>

definition choose_by ::
    "(bid_observation \<Rightarrow> 'k::linorder) \<Rightarrow> bid_observation list
     \<Rightarrow> bid_observation option \<times> bid_observation list" where
  "choose_by key pool = (py_min key pool, sort_key key pool)"

definition choose_emptiest ::
    "string set \<Rightarrow> bid_observation list
     \<Rightarrow> (bid_observation option \<times> bid_observation list) result" where
  "choose_emptiest taken pool =
     bindR (mapR (\<lambda>b. bindR (rank taken b) (\<lambda>k. Inr (k, b))) pool) (\<lambda>keyed.
       Inr (map_option snd (py_min fst keyed), map snd (sort_key fst keyed)))"

definition choose_winner ::
    "auction \<Rightarrow> string set \<Rightarrow> bid_observation list \<Rightarrow> bid_observation list
     \<Rightarrow> (bid_observation option \<times> selection_reason \<times> bid_observation list) result" where
  "choose_winner a taken preferred pool =
     (if preferred \<noteq> [] \<and> policy_selection (policy a) = EMPTIEST
      then if \<not> list_all (\<lambda>b. bid_profile b \<noteq> None) pool
           then let (sel, cons) = choose_by (cheapest taken) pool
                in Inr (sel, EMPTIEST_REQUEST_PROFILE_UNAVAILABLE_FELL_BACK_TO_CHEAPEST, cons)
           else bindR (choose_emptiest taken pool) (\<lambda>(sel, cons).
                  Inr (sel, if (case sel of None \<Rightarrow> False | Some b \<Rightarrow> ranked b)
                            then EMPTIEST_PREFERRED
                            else EMPTIEST_CAPACITY_INCOMPLETE_FELL_BACK_TO_CHEAPEST, cons))
      else if preferred \<noteq> []
      then let (sel, cons) = choose_by price_key pool in Inr (sel, CHEAPEST_PREFERRED, cons)
      else let (sel, cons) = choose_by arrival_key pool in Inr (sel, FIRST_ELIGIBLE_FALLBACK, cons))"

definition preferred_of :: "auction \<Rightarrow> bid_observation list \<Rightarrow> bid_observation list" where
  "preferred_of a candidates =
     filter (\<lambda>b. provider b \<in> preferred_providers (policy a)
               \<and> py_le (Fin (observed_at b)) (deadline a)) candidates"

definition sorted_strings :: "string set \<Rightarrow> string list" where
  "sorted_strings s = sorted_list_of_set s"

definition evaluate :: "pyfloat \<Rightarrow> string set option \<Rightarrow> auction \<Rightarrow> auction_result result" where
  "evaluate now already a =
     (if \<not> isfinite now then Inl ValueError
      else if py_lt now (deadline a)
      then Inr (mk_result a COLLECTING now None COLLECTION_WINDOW_OPEN [] [] [])
      else
        bindR (partition_bids a now (sort_key delivery_key (dict_values (latest_by_key a))))
          (\<lambda>(candidates, rej).
          if candidates = [] \<and> py_lt now (fallback_deadline a)
          then Inr (mk_result a COLLECTING now None WAITING_FOR_FIRST_ELIGIBLE_FALLBACK [] rej [])
          else if candidates = []
          then Inr (mk_result a EXPIRED now None NO_ELIGIBLE_OPEN_BIDS [] rej [])
          else
            let preferred = preferred_of a candidates;
                pool = (if preferred \<noteq> [] then preferred else candidates)
            in if 1 < card (denom ` set pool) then Inl MixedBidDenominations
               else bindR (choose_winner a (case already of None \<Rightarrow> {} | Some s \<Rightarrow> s) preferred pool)
                 (\<lambda>(sel, reason, cons).
                   (case sel of
                      None \<Rightarrow> Inl ValueError \<comment> \<open>min of an empty pool\<close>
                    | Some winner \<Rightarrow>
                        Inr (mk_result a DECIDED now (Some winner) reason cons rej
                          (sorted_strings (required_proofs (policy a) - set (proofs winner))))))))"

end
