(* ===== verification/AuctionObserve.thy ===== *)
theory AuctionObserve
  imports Auction
begin

text \<open>
  What \<open>observe\<close> keeps: the representation invariant of an auction, the immutability of
  arrival, provider, group and exact demand, and the atomicity of a refusal. The step
  relation \<open>observes\<close> and its reflexive transitive closure describe every history of an
  auction object.
\<close>

section \<open>The invariant\<close>

definition profile_agrees :: "(int, resource_profile) dict \<Rightarrow> bid_observation \<Rightarrow> bool" where
  "profile_agrees profiles b \<longleftrightarrow>
     (\<forall>g. gseq b = Some g \<longrightarrow> bid_profile b = dict_get profiles g)"

definition auction_ok :: "auction \<Rightarrow> bool" where
  "auction_ok a \<longleftrightarrow>
     policy_ok (policy a) \<and>
     deadline a = fadd (Fin (started_at a)) (Fin (collection_window_seconds (policy a))) \<and>
     fallback_deadline a = fadd (deadline a) (Fin (fallback_window_seconds (policy a))) \<and>
     dict_ok (latest_by_key a) \<and>
     (\<forall>k b. dict_get (latest_by_key a) k = Some b \<longrightarrow>
        k = bid_key b \<and> bid_ok b \<and> profile_agrees (resource_profile_by_gseq a) b) \<and>
     (\<forall>g p. dict_get (resource_profile_by_gseq a) g = Some p \<longrightarrow> profile_ok p)"

text \<open>What a later state must keep of an earlier one.\<close>

definition keeps_bid :: "bid_observation \<Rightarrow> bid_observation \<Rightarrow> bool" where
  "keeps_bid b b' \<longleftrightarrow>
     bid_key b' = bid_key b \<and> provider b' = provider b \<and> observed_at b' = observed_at b \<and>
     (\<forall>g. gseq b = Some g \<longrightarrow> gseq b' = Some g) \<and>
     (\<forall>g p. gseq b = Some g \<longrightarrow> bid_profile b = Some p \<longrightarrow> bid_profile b' = Some p)"

definition evolves :: "auction \<Rightarrow> auction \<Rightarrow> bool" where
  "evolves a a' \<longleftrightarrow>
     policy a' = policy a \<and> started_at a' = started_at a \<and> deadline a' = deadline a \<and>
     fallback_deadline a' = fallback_deadline a \<and>
     (\<forall>g p. dict_get (resource_profile_by_gseq a) g = Some p \<longrightarrow>
        dict_get (resource_profile_by_gseq a') g = Some p) \<and>
     (\<forall>k b. dict_get (latest_by_key a) k = Some b \<longrightarrow>
        (\<exists>b'. dict_get (latest_by_key a') k = Some b' \<and> keeps_bid b b'))"

inductive observes :: "auction \<Rightarrow> auction \<Rightarrow> bool" where
  step: "observe b a = (r, a') \<Longrightarrow> bid_ok b \<Longrightarrow> observes a a'"

inductive_cases observesE: "observes a a'"

section \<open>Lemmas\<close>

lemma keeps_bid_refl [simp]: "keeps_bid b b"
  by (simp add: keeps_bid_def)

lemma keeps_bid_trans: "keeps_bid a b \<Longrightarrow> keeps_bid b c \<Longrightarrow> keeps_bid a c"
  by (simp add: keeps_bid_def)

lemma evolves_refl [simp]: "evolves a a"
  by (auto simp: evolves_def)

lemma evolves_trans: "evolves a b \<Longrightarrow> evolves b c \<Longrightarrow> evolves a c"
  unfolding evolves_def by (simp, blast intro: keeps_bid_trans)

lemma spread_profile_get:
  "dict_get (spread_profile g p d) k =
     map_option (\<lambda>b. if gseq b = Some g \<and> bid_profile b = None
                     then b\<lparr>bid_profile := Some p\<rparr> else b) (dict_get d k)"
  by (induction d) (auto simp: spread_profile_def)

lemma spread_profile_keys: "map fst (spread_profile g p d) = map fst d"
  by (induction d) (auto simp: spread_profile_def)

lemma spread_profile_dict_ok [simp]: "dict_ok (spread_profile g p d) = dict_ok d"
  by (simp add: dict_ok_def spread_profile_keys)

text \<open>The bid that passes the identity checks differs from the observed one only in what
  the stored bid already established.\<close>

lemma carry_identity_ok:
  assumes "carry_identity current b = Inr b1"
  shows "bid_key b1 = bid_key b \<and> provider b1 = provider b \<and> observed_at b1 = observed_at b
    \<and> denom b1 = denom b \<and> price b1 = price b \<and> bid_state b1 = bid_state b
    \<and> proofs b1 = proofs b \<and> bid_capacity b1 = bid_capacity b"
    and "current = Some c \<Longrightarrow> provider b = provider c"
    and "current = Some c \<Longrightarrow> gseq c = Some g \<Longrightarrow> gseq b1 = Some g"
    and "current = Some c \<Longrightarrow> gseq b1 = Some g \<Longrightarrow> gseq b = Some g \<or> gseq c = Some g"
    and "bid_profile b1 = None \<or> bid_profile b1 = bid_profile b
      \<or> (\<exists>c. current = Some c \<and> bid_profile b1 = bid_profile c)"
    and "gseq b1 = gseq b \<or> (\<exists>c. current = Some c \<and> gseq b1 = gseq c)"
    and "current = Some c \<Longrightarrow> bid_profile c = Some p \<Longrightarrow> bid_profile b1 \<noteq> None"
  using assms
  by (auto simp: carry_identity_def split: option.splits if_splits)

lemma same_profile: "bid_profile b = x \<Longrightarrow> b\<lparr>bid_profile := x\<rparr> = b"
  by (cases b) simp

lemma bind_resource_profile_cases:
  assumes "bind_resource_profile b a = (r, a')"
  obtains (refused) "r = Inl ValueError" "a' = a"
  | (unbound) "gseq b = None" "r = Inr b" "a' = a"
  | (known) g where "gseq b = Some g"
      "r = Inr (b\<lparr>bid_profile := dict_get (resource_profile_by_gseq a) g\<rparr>)" "a' = a"
      "bid_profile b = None \<or> bid_profile b = dict_get (resource_profile_by_gseq a) g"
  | (learned) g p where "gseq b = Some g" "bid_profile b = Some p" "r = Inr b"
      "dict_get (resource_profile_by_gseq a) g = None"
      "a' = a\<lparr>resource_profile_by_gseq := dict_set g p (resource_profile_by_gseq a),
             latest_by_key := spread_profile g p (latest_by_key a)\<rparr>"
proof -
  consider "gseq b = None" | g where "gseq b = Some g" by (cases "gseq b") auto
  then show ?thesis
  proof cases
    case 1
    then show ?thesis using assms unbound by (simp add: bind_resource_profile_def)
  next
    case (2 g)
    let ?known = "dict_get (resource_profile_by_gseq a) g"
    show ?thesis
    proof (cases "bid_profile b = None \<or> bid_profile b = ?known")
      case True
      have "bind_resource_profile b a = (Inr (b\<lparr>bid_profile := ?known\<rparr>), a)"
        using True 2 same_profile[of b ?known]
        by (cases ?known; cases "bid_profile b") (auto simp: bind_resource_profile_def)
      with assms have "r = Inr (b\<lparr>bid_profile := ?known\<rparr>)" "a' = a" by auto
      from known[OF 2 this True] show ?thesis .
    next
      case False
      then obtain p where p: "bid_profile b = Some p" by auto
      show ?thesis
      proof (cases ?known)
        case None
        then show ?thesis using assms p 2
          by (intro learned[OF 2 p]) (simp_all add: bind_resource_profile_def)
      next
        case (Some q)
        then show ?thesis using assms p 2 False
          by (intro refused) (simp_all add: bind_resource_profile_def)
      qed
    qed
  qed
qed

lemma observe_cases:
  assumes "observe b a = (r, a')"
  obtains (refused) "r = Inl ValueError" "a' = a"
  | (recorded) b1 b2 a1 where "r = Inr ()"
      "carry_identity (dict_get (latest_by_key a) (bid_key b)) b = Inr b1"
      "bind_resource_profile b1 a = (Inr b2, a1)"
      "a' = a1\<lparr>latest_by_key := dict_set (bid_key b2)
               (case dict_get (latest_by_key a) (bid_key b) of None \<Rightarrow> b2
                | Some c \<Rightarrow> b2\<lparr>observed_at := observed_at c\<rparr>) (latest_by_key a1)\<rparr>"
proof (cases "carry_identity (dict_get (latest_by_key a) (bid_key b)) b")
  case (Inl e)
  then have "e = ValueError"
    by (auto simp: carry_identity_def bindR_eq_Inl split: option.splits if_splits)
  then show ?thesis using assms Inl refused by (simp add: observe_def)
next
  case (Inr b1)
  obtain r1 a1 where bnd: "bind_resource_profile b1 a = (r1, a1)"
    by (cases "bind_resource_profile b1 a")
  show ?thesis
  proof (cases r1)
    case (Inl e)
    with bnd have "e = ValueError \<and> a1 = a" by (cases rule: bind_resource_profile_cases) auto
    then show ?thesis using assms Inr bnd Inl refused by (simp add: observe_def)
  next
    case ok: (Inr b2)
    then show ?thesis
      using assms Inr bnd recorded[of b1 b2 a1] by (auto simp: observe_def Let_def)
  qed
qed

lemma bid_ok_carry:
  assumes "carry_identity current b = Inr b1" and "bid_ok b"
    and "\<And>c. current = Some c \<Longrightarrow> bid_ok c"
  shows "bid_ok b1"
  using carry_identity_ok(1,5,6)[OF assms(1)] assms(2,3)
  unfolding bid_ok_def by (auto split: option.splits)

lemma bid_ok_profile:
  "bid_ok b \<Longrightarrow> (\<And>p. x = Some p \<Longrightarrow> profile_ok p) \<Longrightarrow> bid_ok (b\<lparr>bid_profile := x\<rparr>)"
  by (simp add: bid_ok_def)

lemma bid_ok_observed_at [simp]: "bid_ok (b\<lparr>observed_at := t\<rparr>) = bid_ok b"
  by (simp add: bid_ok_def)

lemma profile_agrees_observed_at [simp]:
  "profile_agrees ps (b\<lparr>observed_at := t\<rparr>) = profile_agrees ps b"
  by (simp add: profile_agrees_def)

text \<open>Storing one bid on top of a state that satisfies the invariant.\<close>

lemma store_bid:
  assumes a: "auction_ok a" and b: "bid_ok b" "profile_agrees (resource_profile_by_gseq a) b"
    and cur: "\<And>c. dict_get (latest_by_key a) (bid_key b) = Some c \<Longrightarrow> keeps_bid c b"
  shows "auction_ok (a\<lparr>latest_by_key := dict_set (bid_key b) b (latest_by_key a)\<rparr>)"
    and "evolves a (a\<lparr>latest_by_key := dict_set (bid_key b) b (latest_by_key a)\<rparr>)"
  using a b cur by (auto simp: auction_ok_def evolves_def intro: dict_ok_set)

lemma learn_profile:
  assumes a: "auction_ok a" and "dict_get (resource_profile_by_gseq a) g = None" and "profile_ok p"
  defines "a' \<equiv> a\<lparr>resource_profile_by_gseq := dict_set g p (resource_profile_by_gseq a),
                  latest_by_key := spread_profile g p (latest_by_key a)\<rparr>"
  shows "auction_ok a'" and "evolves a a'"
proof -
  have "k = bid_key b \<and> bid_ok b \<and> profile_agrees (dict_set g p (resource_profile_by_gseq a)) b"
    if get: "dict_get (spread_profile g p (latest_by_key a)) k = Some b" for k b
  proof -
    obtain c where c: "dict_get (latest_by_key a) k = Some c"
      "b = (if gseq c = Some g \<and> bid_profile c = None then c\<lparr>bid_profile := Some p\<rparr> else c)"
      using get by (auto simp: spread_profile_get)
    then have inv: "k = bid_key c" "bid_ok c" "profile_agrees (resource_profile_by_gseq a) c"
      using a by (auto simp: auction_ok_def)
    then have "bid_ok b" using c(2) assms(3) bid_ok_profile[of c "Some p"] by auto
    moreover have "profile_agrees (dict_set g p (resource_profile_by_gseq a)) b"
      using inv(3) assms(2) c(2) by (auto simp: profile_agrees_def)
    ultimately show ?thesis using inv(1) c(2) by auto
  qed
  then show "auction_ok a'"
    using a assms(3) by (simp add: auction_ok_def a'_def)
  show "evolves a a'"
    using assms(2) by (auto simp: evolves_def a'_def spread_profile_get keeps_bid_def)
qed

lemma evolves_keeps_get:
  "evolves a a' \<Longrightarrow> dict_get (latest_by_key a) k = Some b \<Longrightarrow>
   \<exists>b'. dict_get (latest_by_key a') k = Some b' \<and> keeps_bid b b'"
  by (simp add: evolves_def)

lemma bind_keeps:
  assumes "bind_resource_profile b a = (Inr b2, a1)" and a: "auction_ok a" and b: "bid_ok b"
  shows "auction_ok a1" "evolves a a1" "bid_ok b2" "profile_agrees (resource_profile_by_gseq a1) b2"
    "bid_key b2 = bid_key b" "provider b2 = provider b" "gseq b2 = gseq b"
    "dom (dict_get (latest_by_key a1)) = dom (dict_get (latest_by_key a))"
proof -
  have "auction_ok a1 \<and> evolves a a1 \<and> bid_ok b2 \<and> profile_agrees (resource_profile_by_gseq a1) b2
    \<and> bid_key b2 = bid_key b \<and> provider b2 = provider b \<and> gseq b2 = gseq b
    \<and> dom (dict_get (latest_by_key a1)) = dom (dict_get (latest_by_key a))"
    using assms(1)
  proof (cases rule: bind_resource_profile_cases)
    case (known g)
    have "profile_ok p" if "dict_get (resource_profile_by_gseq a) g = Some p" for p
      using that a by (auto simp: auction_ok_def)
    then show ?thesis
      using known a b bid_ok_profile[OF b, of "dict_get (resource_profile_by_gseq a) g"]
      by (auto simp: profile_agrees_def)
  next
    case (learned g p)
    have "profile_ok p" using b learned(2) by (simp add: bid_ok_def)
    from learn_profile[OF a learned(4) this] show ?thesis
      using learned b by (auto simp: profile_agrees_def spread_profile_get split: if_splits)
  qed (use a b in \<open>auto simp: profile_agrees_def\<close>)
  then show "auction_ok a1" "evolves a a1" "bid_ok b2"
    "profile_agrees (resource_profile_by_gseq a1) b2"
    "bid_key b2 = bid_key b" "provider b2 = provider b" "gseq b2 = gseq b"
    "dom (dict_get (latest_by_key a1)) = dom (dict_get (latest_by_key a))" by auto
qed

lemma observe_keeps:
  assumes obs: "observe b a = (r, a')" and a: "auction_ok a" and b: "bid_ok b"
  shows "auction_ok a' \<and> evolves a a'"
  using obs
proof (cases rule: observe_cases)
  case (recorded b1 b2 a1)
  let ?cur = "dict_get (latest_by_key a) (bid_key b)"
  have cur_ok: "bid_ok c" if "?cur = Some c" for c using that a by (auto simp: auction_ok_def)
  note carry = carry_identity_ok[OF recorded(2)]
  have b1: "bid_ok b1" using bid_ok_carry[OF recorded(2) b] cur_ok by blast
  note bind = bind_keeps[OF recorded(3) a b1]
  define b3 where "b3 = (case ?cur of None \<Rightarrow> b2 | Some c \<Rightarrow> b2\<lparr>observed_at := observed_at c\<rparr>)"
  have b3: "bid_ok b3" "profile_agrees (resource_profile_by_gseq a1) b3" "bid_key b3 = bid_key b"
    using bind carry(1) by (auto simp: b3_def split: option.splits)
  have keep: "keeps_bid c b3" if c: "dict_get (latest_by_key a1) (bid_key b3) = Some c" for c
  proof -
    obtain c0 where c0: "?cur = Some c0" using c bind(8) b3(3) by (metis domD domI)
    obtain c' where "dict_get (latest_by_key a1) (bid_key b) = Some c'" "keeps_bid c0 c'"
      using evolves_keeps_get[OF bind(2) c0] by blast
    then have kc: "keeps_bid c0 c" using c b3(3) by simp
    have "bid_key c0 = bid_key b" using a c0 by (auto simp: auction_ok_def)
    moreover have agree: "profile_agrees (resource_profile_by_gseq a1) c"
      using bind(1) c by (auto simp: auction_ok_def)
    moreover have cg: "gseq c = gseq c0"
    proof (cases "gseq c0")
      case None
      show ?thesis using c0 c recorded(3) b3(3) None
        by (cases rule: bind_resource_profile_cases[OF recorded(3)])
          (auto simp: spread_profile_get split: if_splits)
    next
      case (Some g)
      then show ?thesis using kc by (simp add: keeps_bid_def)
    qed
    moreover have "gseq b3 = gseq b1" "provider b3 = provider b" "observed_at b3 = observed_at c0"
      using bind(6,7) carry(1) c0 by (auto simp: b3_def)
    moreover have "provider b = provider c0" "\<And>g. gseq c0 = Some g \<Longrightarrow> gseq b1 = Some g"
      using carry(2,3)[OF c0] by auto
    ultimately show ?thesis
      using kc b3(2,3) c0 by (auto simp: keeps_bid_def profile_agrees_def)
  qed
  have "a' = a1\<lparr>latest_by_key := dict_set (bid_key b3) b3 (latest_by_key a1)\<rparr>"
    using recorded(4) by (cases ?cur) (simp_all add: b3_def)
  then show ?thesis
    using store_bid[OF bind(1) b3(1,2) keep] bind(2) evolves_trans by blast
qed (use a in simp)

end
