(* ===== verification/AuctionDecision.thy ===== *)
theory AuctionDecision
  imports AuctionObserve
begin

text \<open>
  What \<open>evaluate\<close> decides: the classification of every bid, the pools, the rank keys as
  instances of \<open>keyed_ranking\<close>, and the anatomy of a terminal decision.
\<close>

section \<open>Rankings\<close>

text \<open>The emptiest key of a bid whose evidence was already checked.\<close>

definition free_score :: "bid_observation \<Rightarrow> rat" where
  "free_score b =
     (case (bid_capacity b, bid_profile b) of
        (Some c, Some p) \<Rightarrow> Min ((\<lambda>d. the (free_fraction d c)) ` set (requested_dimensions p))
      | _ \<Rightarrow> 0)"

definition rank_value :: "string set \<Rightarrow> bid_observation \<Rightarrow> emptiest_key" where
  "rank_value taken b =
     (if ranked b
      then (provider b \<in> taken, False, - free_score b, dec_val (price b), provider b, bid_key b)
      else (provider b \<in> taken, True, 0, dec_val (price b), provider b, bid_key b))"

interpretation delivery: keyed_ranking delivery_key bid_key
  by unfold_locales (simp add: delivery_key_def)

interpretation by_price: keyed_ranking price_key bid_key
  by unfold_locales (simp add: price_key_def)

interpretation by_arrival: keyed_ranking arrival_key bid_key
  by unfold_locales (simp add: arrival_key_def)

interpretation by_cheapest: keyed_ranking "cheapest taken" bid_key for taken
  by unfold_locales (simp add: cheapest_def)

interpretation by_rank: keyed_ranking "rank_value taken" bid_key for taken
  by unfold_locales (auto simp: rank_value_def split: if_splits)

section \<open>Classification and partition\<close>

lemma partition_bids_Inr:
  "partition_bids a now bs = Inr (cs, rs) \<Longrightarrow>
   cs = filter (\<lambda>b. classify a now b = Inr None) bs \<and>
   rs = List.map_filter (\<lambda>b. case classify a now b of Inr (Some r) \<Rightarrow> Some (reject b r) | _ \<Rightarrow> None) bs \<and>
   (\<forall>b \<in> set bs. is_ok (classify a now b))"
proof (induction bs arbitrary: cs rs)
  case (Cons b bs)
  then obtain r cs' rs' where "classify a now b = Inr r" "partition_bids a now bs = Inr (cs', rs')"
    "(cs, rs) = (case r of None \<Rightarrow> (b # cs', rs') | Some reason \<Rightarrow> (cs', reject b reason # rs'))"
    by auto
  with Cons.IH[of cs' rs'] show ?case
    by (cases r) (auto simp: List.map_filter_simps)
qed (simp add: List.map_filter_simps)

lemma partition_bids_Inl:
  "partition_bids a now bs = Inl e \<Longrightarrow> \<exists>b \<in> set bs. classify a now b = Inl e"
  by (induction bs) (auto simp: bindR_eq_Inl split: option.splits)

lemma partition_bids_length:
  "partition_bids a now bs = Inr (cs, rs) \<Longrightarrow> length cs + length rs = length bs"
proof (induction bs arbitrary: cs rs)
  case (Cons b bs)
  then obtain r cs' rs' where "classify a now b = Inr r" "partition_bids a now bs = Inr (cs', rs')"
    "(cs, rs) = (case r of None \<Rightarrow> (b # cs', rs') | Some reason \<Rightarrow> (cs', reject b reason # rs'))"
    by auto
  with Cons.IH[of cs' rs'] show ?case by (cases r) auto
qed simp

lemma classify_Inl:
  assumes "classify a now b = Inl e" and "bid_ok b"
  shows "e = OverflowError"
  using assms fit_Inl
  by (fastforce simp: classify_def bid_ok_def bindR_eq_Inl
      split: if_splits option.splits preferred_selection.splits)

definition eligible :: "auction \<Rightarrow> pyfloat \<Rightarrow> bid_observation \<Rightarrow> bool" where
  "eligible a now b \<longleftrightarrow>
     lower (bid_state b) = ''open'' \<and> provider b \<notin> excluded_providers (policy a) \<and>
     (\<forall>s. eligible_providers (policy a) = Some s \<longrightarrow> provider b \<in> s) \<and>
     \<not> py_lt (py_fmin now (fallback_deadline a)) (Fin (observed_at b)) \<and>
     (bid_profile b \<noteq> None \<longrightarrow> gseq b \<noteq> None) \<and>
     (policy_selection (policy a) = EMPTIEST \<longrightarrow> (\<forall>p. bid_profile b = Some p \<longrightarrow>
        (\<exists>c. bid_capacity b = Some c \<and> fit c p = Inr FIT)))"

lemma verdict_None:
  "(case v of
      REQUIRED_DIMENSION_UNREADABLE \<Rightarrow> Some REQUIRED_CAPACITY_UNREADABLE
    | INSUFFICIENT_CAPACITY \<Rightarrow> Some REJECT_INSUFFICIENT_CAPACITY
    | PLACEMENT_SEARCH_UNSUPPORTED \<Rightarrow> Some REJECT_PLACEMENT_SEARCH_UNSUPPORTED
    | FIT \<Rightarrow> None) = None \<longleftrightarrow> v = FIT"
  by (cases v) simp_all

lemma classify_None:
  "classify a now b = Inr None \<longleftrightarrow> eligible a now b"
proof (cases "policy_selection (policy a) = EMPTIEST")
  case True
  then show ?thesis
    unfolding classify_def eligible_def
    by (cases "bid_profile b"; cases "bid_capacity b")
      (auto simp: verdict_None split: option.splits)
next
  case False
  then have "policy_selection (policy a) = CHEAPEST" by (cases "policy_selection (policy a)") auto
  then show ?thesis unfolding classify_def eligible_def
    by (auto split: option.splits)
qed

section \<open>The choice\<close>

lemma min_by_map: "min_by fst (f x, x) (map (\<lambda>b. (f b, b)) xs) = (f (min_by f x xs), min_by f x xs)"
  by (induction f x xs rule: min_by.induct) auto

lemma py_min_map: "py_min fst (map (\<lambda>b. (f b, b)) xs) = map_option (\<lambda>b. (f b, b)) (py_min f xs)"
  by (cases xs) (simp_all add: py_min_def min_by_map)

lemma rank_eq:
  assumes "bid_ok b" and "\<And>p. bid_profile b = Some p \<Longrightarrow>
    (\<exists>c. bid_capacity b = Some c \<and> fit c p = Inr FIT)"
  shows "rank taken b = Inr (rank_value taken b)"
proof (cases "ranked b")
  case True
  then obtain c p where cp: "bid_capacity b = Some c" "bid_profile b = Some p"
    "ranking_complete_for c p"
    by (auto simp: ranked_def split: option.splits)
  then have "fit c p = Inr FIT" using assms(2) by auto
  moreover have "capacity_ok c" "profile_ok p" using assms(1) cp by (auto simp: bid_ok_def)
  ultimately have "available_fraction_for c p
      = Inr (Some (Min ((\<lambda>d. the (free_fraction d c)) ` set (requested_dimensions p))))"
    using cp(3) available_fraction_for_spec[of c p FIT] by simp
  then show ?thesis using True cp by (simp add: rank_def rank_value_def free_score_def)
qed (simp add: rank_def rank_value_def)

lemma choose_emptiest_eq:
  assumes "\<And>b. b \<in> set pool \<Longrightarrow> rank taken b = Inr (rank_value taken b)"
  shows "choose_emptiest taken pool = Inr (choose_by (rank_value taken) pool)"
proof -
  have "mapR (\<lambda>b. bindR (rank taken b) (\<lambda>k. Inr (k, b))) pool
      = Inr (map (\<lambda>b. (rank_value taken b, b)) pool)"
    using assms by (intro mapR_all_Inr) simp
  moreover have "map_option snd (map_option (\<lambda>b. (rank_value taken b, b)) m) = m" for m
    by (cases m) simp_all
  ultimately show ?thesis
    by (simp add: choose_emptiest_def choose_by_def py_min_map sort_key_map o_def)
qed

lemma choose_by_spec:
  assumes "choose_by key pool = (sel, cons)" and "pool \<noteq> []"
  shows "\<exists>w. sel = Some w \<and> w \<in> set pool \<and> (\<forall>b \<in> set pool. key w \<le> key b) \<and> mset cons = mset pool
    \<and> sorted (map key cons)"
  using assms py_min_in py_min_le unfolding choose_by_def
  by (metis mset_sort not_None_eq prod.inject py_min_None sorted_sort_key)

text \<open>The key by which a decision with a given reason was made.\<close>

definition decides_by :: "string set \<Rightarrow> selection_reason \<Rightarrow> bid_observation \<Rightarrow> bid_observation list \<Rightarrow> bool" where
  "decides_by taken reason w pool \<longleftrightarrow>
     (case reason of
        EMPTIEST_REQUEST_PROFILE_UNAVAILABLE_FELL_BACK_TO_CHEAPEST \<Rightarrow>
          (\<forall>b \<in> set pool. cheapest taken w \<le> cheapest taken b) \<and> (\<exists>b \<in> set pool. bid_profile b = None)
      | EMPTIEST_PREFERRED \<Rightarrow>
          ranked w \<and> (\<forall>b \<in> set pool. rank_value taken w \<le> rank_value taken b)
      | EMPTIEST_CAPACITY_INCOMPLETE_FELL_BACK_TO_CHEAPEST \<Rightarrow>
          \<not> ranked w \<and> (\<forall>b \<in> set pool. rank_value taken w \<le> rank_value taken b)
      | CHEAPEST_PREFERRED \<Rightarrow> (\<forall>b \<in> set pool. price_key w \<le> price_key b)
      | FIRST_ELIGIBLE_FALLBACK \<Rightarrow> (\<forall>b \<in> set pool. arrival_key w \<le> arrival_key b)
      | _ \<Rightarrow> False)"

lemma choose_winner_spec:
  assumes "choose_winner a taken preferred pool = Inr (sel, reason, cons)" and ne: "pool \<noteq> []"
    and ranks: "policy_selection (policy a) = EMPTIEST \<Longrightarrow> \<forall>b \<in> set pool. bid_profile b \<noteq> None \<Longrightarrow>
      \<forall>b \<in> set pool. rank taken b = Inr (rank_value taken b)"
  shows "\<exists>w. sel = Some w \<and> w \<in> set pool \<and> decides_by taken reason w pool \<and> mset cons = mset pool
    \<and> (preferred = [] \<longleftrightarrow> reason = FIRST_ELIGIBLE_FALLBACK)
    \<and> (reason = CHEAPEST_PREFERRED \<longrightarrow> policy_selection (policy a) = CHEAPEST)"
proof -
  consider (no_profile) "preferred \<noteq> []" "policy_selection (policy a) = EMPTIEST"
      "\<not> list_all (\<lambda>b. bid_profile b \<noteq> None) pool"
    | (emptiest) "preferred \<noteq> []" "policy_selection (policy a) = EMPTIEST"
      "list_all (\<lambda>b. bid_profile b \<noteq> None) pool"
    | (price) "preferred \<noteq> []" "policy_selection (policy a) \<noteq> EMPTIEST"
    | (arrival) "preferred = []" by auto
  then show ?thesis
  proof cases
    case no_profile
    then have "choose_by (cheapest taken) pool = (sel, cons)"
      and r: "reason = EMPTIEST_REQUEST_PROFILE_UNAVAILABLE_FELL_BACK_TO_CHEAPEST"
      using assms(1) by (auto simp: choose_winner_def split: prod.splits)
    from choose_by_spec[OF this(1) ne] no_profile r show ?thesis
      by (auto simp: decides_by_def list_all_iff)
  next
    case emptiest
    then have "choose_emptiest taken pool = Inr (choose_by (rank_value taken) pool)"
      using ranks by (intro choose_emptiest_eq) (auto simp: list_all_iff)
    with emptiest assms(1) have c: "choose_by (rank_value taken) pool = (sel, cons)"
      and r: "reason = (if (case sel of None \<Rightarrow> False | Some b \<Rightarrow> ranked b) then EMPTIEST_PREFERRED
                        else EMPTIEST_CAPACITY_INCOMPLETE_FELL_BACK_TO_CHEAPEST)"
      by (auto simp: choose_winner_def split: prod.splits)
    from choose_by_spec[OF c ne] emptiest(1) r show ?thesis by (auto simp: decides_by_def)
  next
    case price
    then have "choose_by price_key pool = (sel, cons)" and r: "reason = CHEAPEST_PREFERRED"
      using assms(1) by (auto simp: choose_winner_def split: prod.splits)
    moreover have "policy_selection (policy a) = CHEAPEST"
      using price(2) by (cases "policy_selection (policy a)") auto
    ultimately show ?thesis using choose_by_spec[of price_key pool sel cons] ne price r
      by (auto simp: decides_by_def)
  next
    case arrival
    then have "choose_by arrival_key pool = (sel, cons)" and r: "reason = FIRST_ELIGIBLE_FALLBACK"
      using assms(1) by (auto simp: choose_winner_def split: prod.splits)
    from choose_by_spec[OF this(1) ne] arrival r show ?thesis by (auto simp: decides_by_def)
  qed
qed

lemma choose_winner_Inl:
  assumes "choose_winner a taken preferred pool = Inl e"
    and ranks: "policy_selection (policy a) = EMPTIEST \<Longrightarrow> \<forall>b \<in> set pool. bid_profile b \<noteq> None \<Longrightarrow>
      \<forall>b \<in> set pool. rank taken b = Inr (rank_value taken b)"
  shows False
proof -
  have "policy_selection (policy a) = EMPTIEST" "list_all (\<lambda>b. bid_profile b \<noteq> None) pool"
    "\<exists>e. choose_emptiest taken pool = Inl e"
    using assms(1) by (auto simp: choose_winner_def bindR_eq_Inl split: if_splits prod.splits)
  then show False using ranks choose_emptiest_eq[of pool taken] by (auto simp: list_all_iff)
qed

section \<open>The anatomy of an evaluation\<close>

definition observed_bids :: "auction \<Rightarrow> bid_observation list" where
  "observed_bids a = dict_values (latest_by_key a)"

definition candidates_of :: "auction \<Rightarrow> pyfloat \<Rightarrow> bid_observation list" where
  "candidates_of a now = filter (eligible a now) (sort_key delivery_key (observed_bids a))"

definition pool_of :: "auction \<Rightarrow> pyfloat \<Rightarrow> bid_observation list" where
  "pool_of a now =
     (let cs = candidates_of a now
      in if preferred_of a cs \<noteq> [] then preferred_of a cs else cs)"

lemma observed_bids_get:
  "auction_ok a \<Longrightarrow> b \<in> set (observed_bids a) \<longleftrightarrow> dict_get (latest_by_key a) (bid_key b) = Some b"
proof -
  assume a: "auction_ok a"
  then have ok: "dict_ok (latest_by_key a)" by (simp add: auction_ok_def)
  have key: "(k, c) \<in> set (latest_by_key a) \<Longrightarrow> k = bid_key c" for k c
    using a dict_get_in[OF ok] by (auto simp: auction_ok_def)
  have "b \<in> set (observed_bids a) \<longleftrightarrow> (\<exists>k. (k, b) \<in> set (latest_by_key a))"
    by (force simp: observed_bids_def dict_values_def)
  also have "\<dots> \<longleftrightarrow> (bid_key b, b) \<in> set (latest_by_key a)" using key by blast
  finally show ?thesis using dict_get_in[OF ok] by simp
qed

lemma observed_bid_ok: "auction_ok a \<Longrightarrow> b \<in> set (observed_bids a) \<Longrightarrow> bid_ok b"
  using observed_bids_get unfolding auction_ok_def by blast

lemma observed_keys_inj: "auction_ok a \<Longrightarrow> inj_on bid_key (set (observed_bids a))"
  by (rule inj_onI) (metis observed_bids_get option.inject)

lemma candidates_sub: "b \<in> set (candidates_of a now) \<longleftrightarrow> b \<in> set (observed_bids a) \<and> eligible a now b"
  by (auto simp: candidates_of_def)

lemma pool_sub: "set (pool_of a now) \<subseteq> set (candidates_of a now)"
  by (auto simp: pool_of_def preferred_of_def Let_def)

lemma pool_ranks:
  assumes "auction_ok a" and "policy_selection (policy a) = EMPTIEST"
    and "\<forall>b \<in> set (pool_of a now). bid_profile b \<noteq> None"
  shows "\<forall>b \<in> set (pool_of a now). rank taken b = Inr (rank_value taken b)"
proof
  fix b assume "b \<in> set (pool_of a now)"
  then have "eligible a now b" "b \<in> set (observed_bids a)"
    using pool_sub candidates_sub by blast+
  then show "rank taken b = Inr (rank_value taken b)"
    using assms(1,2) by (intro rank_eq) (auto simp: eligible_def observed_bid_ok)
qed

definition rejections_of :: "auction \<Rightarrow> pyfloat \<Rightarrow> rejected_bid list" where
  "rejections_of a now =
     List.map_filter (\<lambda>b. case classify a now b of Inr (Some r) \<Rightarrow> Some (reject b r) | _ \<Rightarrow> None)
       (sort_key delivery_key (observed_bids a))"

definition taken_of :: "string set option \<Rightarrow> string set" where
  "taken_of already = (case already of None \<Rightarrow> {} | Some s \<Rightarrow> s)"

lemma partition_observed:
  assumes "partition_bids a now (sort_key delivery_key (observed_bids a)) = Inr (cs, rs)"
  shows "cs = candidates_of a now" and "rs = rejections_of a now"
    and "length (candidates_of a now) + length (rejections_of a now) = length (observed_bids a)"
proof -
  show c: "cs = candidates_of a now" and r: "rs = rejections_of a now"
    using partition_bids_Inr[OF assms]
    by (simp_all add: candidates_of_def rejections_of_def classify_None)
  show "length (candidates_of a now) + length (rejections_of a now) = length (observed_bids a)"
    using partition_bids_length[OF assms] c r by simp
qed

lemma evaluate_cases:
  assumes "evaluate now already a = Inr res" and "auction_ok a"
  obtains (window) "py_lt now (deadline a)"
      "res = mk_result a COLLECTING now None COLLECTION_WINDOW_OPEN [] [] []"
  | (waiting) "\<not> py_lt now (deadline a)" "candidates_of a now = []" "py_lt now (fallback_deadline a)"
      "res = mk_result a COLLECTING now None WAITING_FOR_FIRST_ELIGIBLE_FALLBACK [] (rejections_of a now) []"
      "length (candidates_of a now) + length (rejections_of a now) = length (observed_bids a)"
  | (expired) "\<not> py_lt now (deadline a)" "candidates_of a now = []"
      "\<not> py_lt now (fallback_deadline a)"
      "res = mk_result a EXPIRED now None NO_ELIGIBLE_OPEN_BIDS [] (rejections_of a now) []"
      "length (candidates_of a now) + length (rejections_of a now) = length (observed_bids a)"
  | (decided) w reason cons where "\<not> py_lt now (deadline a)" "w \<in> set (pool_of a now)"
      "card (denom ` set (pool_of a now)) \<le> 1"
      "decides_by (taken_of already) reason w (pool_of a now)" "mset cons = mset (pool_of a now)"
      "preferred_of a (candidates_of a now) = [] \<longleftrightarrow> reason = FIRST_ELIGIBLE_FALLBACK"
      "reason = CHEAPEST_PREFERRED \<longrightarrow> policy_selection (policy a) = CHEAPEST"
      "res = mk_result a DECIDED now (Some w) reason cons (rejections_of a now)
               (sorted_strings (required_proofs (policy a) - set (proofs w)))"
      "length (candidates_of a now) + length (rejections_of a now) = length (observed_bids a)"
proof (cases "py_lt now (deadline a)")
  case True
  then show ?thesis using assms window by (auto simp: evaluate_def split: if_splits)
next
  case False
  then obtain cs rs where part: "partition_bids a now (sort_key delivery_key (observed_bids a)) = Inr (cs, rs)"
    using assms by (auto simp: evaluate_def observed_bids_def split: if_splits)
  note po = partition_observed[OF part]
  show ?thesis
  proof (cases "candidates_of a now = []")
    case True
    then show ?thesis
      using assms(1) False part po waiting expired
      by (auto simp: evaluate_def observed_bids_def split: if_splits)
  next
    case ne: False
    let ?pref = "preferred_of a (candidates_of a now)"
    have pool: "(if ?pref \<noteq> [] then ?pref else candidates_of a now) = pool_of a now"
      by (simp add: pool_of_def Let_def)
    have pne: "pool_of a now \<noteq> []" using ne by (simp add: pool_of_def Let_def)
    have "card (denom ` set (pool_of a now)) \<le> 1"
      and "\<exists>sel reason cons. choose_winner a (taken_of already) ?pref (pool_of a now)
            = Inr (sel, reason, cons)
          \<and> (case sel of None \<Rightarrow> Inl ValueError
             | Some winner \<Rightarrow> Inr (mk_result a DECIDED now (Some winner) reason cons rs
                 (sorted_strings (required_proofs (policy a) - set (proofs winner))))) = Inr res"
      using assms(1) False part ne unfolding evaluate_def observed_bids_def[symmetric]
      by (auto simp: Let_def pool po(1) taken_of_def split: if_splits)
    then obtain sel reason cons where ch: "choose_winner a (taken_of already) ?pref (pool_of a now)
        = Inr (sel, reason, cons)"
      and r: "(case sel of None \<Rightarrow> Inl ValueError
             | Some winner \<Rightarrow> Inr (mk_result a DECIDED now (Some winner) reason cons rs
                 (sorted_strings (required_proofs (policy a) - set (proofs winner))))) = Inr res"
      by blast
    obtain w where "sel = Some w" "w \<in> set (pool_of a now)"
      "decides_by (taken_of already) reason w (pool_of a now)" "mset cons = mset (pool_of a now)"
      "(?pref = []) = (reason = FIRST_ELIGIBLE_FALLBACK)"
      "reason = CHEAPEST_PREFERRED \<longrightarrow> policy_selection (policy a) = CHEAPEST"
      using choose_winner_spec[OF ch pne pool_ranks[OF assms(2)]] by blast
    then show ?thesis
      using decided[of w reason cons] False r po \<open>card _ \<le> 1\<close> by auto
  qed
qed

lemma evaluate_Inl:
  assumes "evaluate now already a = Inl e" and a: "auction_ok a"
  shows "e = ValueError \<and> \<not> isfinite now
    \<or> e = MixedBidDenominations \<and> 1 < card (denom ` set (pool_of a now))
    \<or> e = OverflowError \<and> (\<exists>b \<in> set (observed_bids a). classify a now b = Inl OverflowError)"
proof (cases "isfinite now")
  case fin: True
  then have nl: "\<not> py_lt now (deadline a)" using assms(1) by (auto simp: evaluate_def)
  show ?thesis
  proof (cases "partition_bids a now (sort_key delivery_key (observed_bids a))")
    case (Inl e')
    then have "e' = e" using assms(1) fin nl by (simp add: evaluate_def observed_bids_def)
    moreover obtain b where "b \<in> set (observed_bids a)" "classify a now b = Inl e'"
      using partition_bids_Inl[OF Inl] by auto
    moreover have "e' = OverflowError" using calculation classify_Inl observed_bid_ok[OF a] by blast
    ultimately show ?thesis by blast
  next
    case (Inr p)
    obtain cs rs where p: "p = (cs, rs)" by (cases p)
    note po = partition_observed[OF Inr[unfolded p]]
    let ?pref = "preferred_of a (candidates_of a now)"
    have pool: "(if ?pref \<noteq> [] then ?pref else candidates_of a now) = pool_of a now"
      by (simp add: pool_of_def Let_def)
    have ne: "candidates_of a now \<noteq> []"
      using assms(1) fin nl Inr p po by (auto simp: evaluate_def observed_bids_def split: if_splits)
    then have pne: "pool_of a now \<noteq> []" by (simp add: pool_of_def Let_def)
    show ?thesis
    proof (rule ccontr)
      assume not: "\<not> ?thesis"
      have "e = MixedBidDenominations \<and> 1 < card (denom ` set (pool_of a now))
        \<or> choose_winner a (taken_of already) ?pref (pool_of a now) = Inl e
        \<or> (\<exists>reason cons. choose_winner a (taken_of already) ?pref (pool_of a now)
             = Inr (None, reason, cons))"
        using assms(1) fin nl Inr ne unfolding evaluate_def observed_bids_def[symmetric]
        by (auto simp: p Let_def pool po(1) taken_of_def bindR_eq_Inl split: if_splits option.splits)
      then show False
      proof (elim disjE exE)
        assume ch: "choose_winner a (taken_of already) ?pref (pool_of a now) = Inl e"
        show False by (rule choose_winner_Inl[OF ch pool_ranks[OF a]])
      next
        fix reason cons
        assume ch: "choose_winner a (taken_of already) ?pref (pool_of a now) = Inr (None, reason, cons)"
        from choose_winner_spec[OF ch pne pool_ranks[OF a]] show False by simp
      qed (use not in blast)
    qed
  qed
qed (use assms in \<open>simp add: evaluate_def\<close>)

end
