(* ===== verification/AuctionSnapshot.thy ===== *)
theory AuctionSnapshot
  imports AuctionDecision
begin

text \<open>
  The snapshot schema of \<^verbatim>\<open>auction.py\<close>: the codecs of every field type, one encoder and
  decoder per dataclass (the code drives both from \<open>dataclasses.fields\<close>; the field lists
  below are those), \<open>Auction.snapshot\<close> and \<open>Auction.restore\<close>. A snapshot is a plain value of
  \<open>pyval\<close>; a decimal travels as text.
\<close>

section \<open>Encoding\<close>

definition AUCTION_SNAPSHOT_VERSION :: string where
  "AUCTION_SNAPSHOT_VERSION = ''auction-snapshot/v3''"

definition SNAPSHOT_KEYS :: "string list" where
  "SNAPSHOT_KEYS = [''version'', ''scope'', ''started_at'', ''policy'', ''bids'']"

definition encode_float :: "rat \<Rightarrow> pyval" where
  "encode_float x = PFloat (Fin x)"

definition encode_float_or_none :: "rat option \<Rightarrow> pyval" where
  "encode_float_or_none x = (case x of None \<Rightarrow> PNone | Some f \<Rightarrow> encode_float f)"

definition encode_decimal :: "fdec \<Rightarrow> pyval" where
  "encode_decimal d = PStr (decimal_str d)"

definition encode_quantity_or_none :: "quantity option \<Rightarrow> pyval" where
  "encode_quantity_or_none q =
     (case q of None \<Rightarrow> PNone | Some (QInt i) \<Rightarrow> PInt i | Some (QFloat x) \<Rightarrow> PFloat (Fin x)
      | Some (QDec d) \<Rightarrow> encode_decimal d)"

definition encode_list :: "string list \<Rightarrow> pyval" where
  "encode_list xs = PList (map PStr xs)"

definition encode_sorted :: "string set \<Rightarrow> pyval" where
  "encode_sorted s = encode_list (sorted_strings s)"

definition encode_sorted_or_none :: "string set option \<Rightarrow> pyval" where
  "encode_sorted_or_none s = (case s of None \<Rightarrow> PNone | Some x \<Rightarrow> encode_sorted x)"

definition encode_int_or_none :: "int option \<Rightarrow> pyval" where
  "encode_int_or_none i = (case i of None \<Rightarrow> PNone | Some x \<Rightarrow> PInt x)"

definition encode_selection :: "preferred_selection \<Rightarrow> pyval" where
  "encode_selection s = PStr (case s of CHEAPEST \<Rightarrow> ''cheapest'' | EMPTIEST \<Rightarrow> ''emptiest'')"

definition encode_node :: "node_capacity \<Rightarrow> pyval" where
  "encode_node n = PDict
     [(''cpu_millicores_available'', encode_quantity_or_none (node_cpu_available n)),
      (''memory_bytes_available'', encode_quantity_or_none (node_memory_available n)),
      (''storage_bytes_available'', encode_quantity_or_none (node_storage_available n)),
      (''gpu_count_available'', encode_quantity_or_none (node_gpu_available n))]"

definition encode_capacity :: "provider_capacity option \<Rightarrow> pyval" where
  "encode_capacity c =
     (case c of None \<Rightarrow> PNone
      | Some x \<Rightarrow> PDict
          [(''cpu'', encode_float_or_none (cap_cpu x)),
           (''memory'', encode_float_or_none (cap_memory x)),
           (''storage'', encode_float_or_none (cap_storage x)),
           (''gpu'', encode_float_or_none (cap_gpu x)),
           (''cpu_millicores_available'', encode_quantity_or_none (cpu_millicores_available x)),
           (''memory_bytes_available'', encode_quantity_or_none (memory_bytes_available x)),
           (''storage_bytes_available'', encode_quantity_or_none (storage_bytes_available x)),
           (''gpu_count_available'', encode_quantity_or_none (gpu_count_available x)),
           (''node_capacities'',
              case node_capacities x of None \<Rightarrow> PNone | Some ns \<Rightarrow> PList (map encode_node ns))])"

definition encode_replica :: "replica_profile \<Rightarrow> pyval" where
  "encode_replica r = PDict
     [(''cpu_millicores'', PInt (rp_cpu_millicores r)), (''memory_bytes'', PInt (rp_memory_bytes r)),
      (''storage_bytes'', PInt (rp_storage_bytes r)), (''gpu_count'', PInt (rp_gpu_count r))]"

definition encode_resource_profile :: "resource_profile option \<Rightarrow> pyval" where
  "encode_resource_profile p =
     (case p of None \<Rightarrow> PNone
      | Some x \<Rightarrow> PDict
          [(''cpu_millicores'', PInt (cpu_millicores x)), (''memory_bytes'', PInt (memory_bytes x)),
           (''storage_bytes'', PInt (storage_bytes x)), (''gpu_count'', PInt (gpu_count x)),
           (''replicas'', PList (map encode_replica (replicas x)))])"

definition encode_bid :: "bid_observation \<Rightarrow> pyval" where
  "encode_bid b = PDict
     [(''bid_key'', PStr (bid_key b)), (''provider'', PStr (provider b)),
      (''price'', encode_decimal (price b)), (''denom'', PStr (denom b)),
      (''observed_at'', encode_float (observed_at b)), (''state'', PStr (bid_state b)),
      (''proofs'', encode_list (proofs b)), (''capacity'', encode_capacity (bid_capacity b)),
      (''resource_profile'', encode_resource_profile (bid_profile b)),
      (''gseq'', encode_int_or_none (gseq b))]"

definition encode_policy :: "auction_policy \<Rightarrow> pyval" where
  "encode_policy p = PDict
     [(''collection_window_seconds'', encode_float (collection_window_seconds p)),
      (''fallback_window_seconds'', encode_float (fallback_window_seconds p)),
      (''preferred_providers'', encode_sorted (preferred_providers p)),
      (''eligible_providers'', encode_sorted_or_none (eligible_providers p)),
      (''excluded_providers'', encode_sorted (excluded_providers p)),
      (''required_proofs'', encode_sorted (required_proofs p)),
      (''preferred_selection'', encode_selection (policy_selection p)),
      (''version'', PStr (policy_version p))]"

text \<open>\<^verbatim>\<open>_validate_scope\<close>: \<open>None\<close> or a non-empty string.\<close>

definition validate_scope :: "pyval \<Rightarrow> string option result" where
  "validate_scope v =
     (case v of PNone \<Rightarrow> Inr None
      | PStr s \<Rightarrow> if s = [] then Inl ValueError else Inr (Some s)
      | _ \<Rightarrow> Inl ValueError)"

definition scope_value :: "string option \<Rightarrow> pyval" where
  "scope_value s = (case s of None \<Rightarrow> PNone | Some x \<Rightarrow> PStr x)"

definition snapshot :: "pyval \<Rightarrow> auction \<Rightarrow> pyval result" where
  "snapshot scope a =
     bindR (validate_scope scope) (\<lambda>s.
       Inr (PDict
         [(''version'', PStr AUCTION_SNAPSHOT_VERSION), (''scope'', scope_value s),
          (''started_at'', encode_float (started_at a)), (''policy'', encode_policy (policy a)),
          (''bids'', PList (map encode_bid (dict_values (latest_by_key a))))]))"

section \<open>Decoding\<close>

definition decode_str :: "pyval \<Rightarrow> string result" where
  "decode_str v = (case v of PStr s \<Rightarrow> Inr s | _ \<Rightarrow> Inl ValueError)"

text \<open>\<^verbatim>\<open>math.isfinite\<close> of an \<open>int\<close> beyond the float range raises \<open>OverflowError\<close> here.\<close>

definition decode_float :: "pyval \<Rightarrow> rat result" where
  "decode_float v =
     (case v of
        PInt i \<Rightarrow> bindR (int_to_float i) (\<lambda>f. case f of Fin x \<Rightarrow> Inr x | _ \<Rightarrow> Inl ValueError)
      | PFloat (Fin x) \<Rightarrow> Inr x
      | _ \<Rightarrow> Inl ValueError)"

definition decode_float_or_none :: "pyval \<Rightarrow> rat option result" where
  "decode_float_or_none v =
     (if v = PNone then Inr None else bindR (decode_float v) (\<lambda>x. Inr (Some x)))"

definition decode_int :: "pyval \<Rightarrow> int result" where
  "decode_int v = (case v of PInt i \<Rightarrow> Inr i | _ \<Rightarrow> Inl ValueError)"

definition decode_int_or_none :: "pyval \<Rightarrow> int option result" where
  "decode_int_or_none v = (if v = PNone then Inr None else bindR (decode_int v) (\<lambda>x. Inr (Some x)))"

definition decode_decimal :: "pyval \<Rightarrow> pydec result" where
  "decode_decimal v =
     (case v of
        PStr s \<Rightarrow> (case parse_decimal s of None \<Rightarrow> Inl ValueError | Some d \<Rightarrow> Inr d)
      | _ \<Rightarrow> Inl ValueError)"

definition decode_quantity_or_none :: "pyval \<Rightarrow> pyval result" where
  "decode_quantity_or_none v =
     (if v = PNone then Inr PNone
      else bindR (case v of
                    PInt i \<Rightarrow> Inr v
                  | PFloat f \<Rightarrow> Inr v
                  | PStr s \<Rightarrow> (case parse_decimal s of None \<Rightarrow> Inl ValueError
                                | Some d \<Rightarrow> Inr (PDec d))
                  | _ \<Rightarrow> Inl ValueError) (\<lambda>w.
           bindR (math_isfinite w) (\<lambda>fin. if fin then Inr w else Inl ValueError)))"

definition decode_str_list :: "pyval \<Rightarrow> string list result" where
  "decode_str_list v = (case v of PList xs \<Rightarrow> mapR decode_str xs | _ \<Rightarrow> Inl ValueError)"

definition decode_str_list_or_none :: "pyval \<Rightarrow> string list option result" where
  "decode_str_list_or_none v =
     (if v = PNone then Inr None else bindR (decode_str_list v) (\<lambda>x. Inr (Some x)))"

definition decode_preferred_selection :: "pyval \<Rightarrow> preferred_selection result" where
  "decode_preferred_selection v =
     bindR (decode_str v) (\<lambda>s.
       if s = ''cheapest'' then Inr CHEAPEST else if s = ''emptiest'' then Inr EMPTIEST
       else Inl ValueError)"

text \<open>The field set of a decoded mapping must be the dataclass's own, exactly.\<close>

definition decode_fields :: "string list \<Rightarrow> pyval \<Rightarrow> (string \<Rightarrow> pyval) result" where
  "decode_fields expected v =
     (case v of
        PDict m \<Rightarrow> if set (map fst m) = set expected then Inr (mapping_get m) else Inl ValueError
      | _ \<Rightarrow> Inl ValueError)"

definition decode_node :: "pyval \<Rightarrow> node_capacity result" where
  "decode_node v =
     bindR (decode_fields [''cpu_millicores_available'', ''memory_bytes_available'',
              ''storage_bytes_available'', ''gpu_count_available''] v) (\<lambda>f.
     bindR (decode_quantity_or_none (f ''cpu_millicores_available'')) (\<lambda>c.
     bindR (decode_quantity_or_none (f ''memory_bytes_available'')) (\<lambda>m.
     bindR (decode_quantity_or_none (f ''storage_bytes_available'')) (\<lambda>s.
     bindR (decode_quantity_or_none (f ''gpu_count_available'')) (\<lambda>g.
     mk_node_capacity c m s g)))))"

definition decode_node_capacities :: "pyval \<Rightarrow> node_capacity list option result" where
  "decode_node_capacities v =
     (case v of PNone \<Rightarrow> Inr None
      | PList xs \<Rightarrow> bindR (mapR decode_node xs) (\<lambda>ns. Inr (Some ns))
      | _ \<Rightarrow> Inl ValueError)"

definition decode_capacity :: "pyval \<Rightarrow> provider_capacity option result" where
  "decode_capacity v =
     (if v = PNone then Inr None
      else
     bindR (decode_fields [''cpu'', ''memory'', ''storage'', ''gpu'',
              ''cpu_millicores_available'', ''memory_bytes_available'',
              ''storage_bytes_available'', ''gpu_count_available'', ''node_capacities''] v) (\<lambda>f.
     bindR (decode_float_or_none (f ''cpu'')) (\<lambda>fc.
     bindR (decode_float_or_none (f ''memory'')) (\<lambda>fm.
     bindR (decode_float_or_none (f ''storage'')) (\<lambda>fs.
     bindR (decode_float_or_none (f ''gpu'')) (\<lambda>fg.
     bindR (decode_quantity_or_none (f ''cpu_millicores_available'')) (\<lambda>c.
     bindR (decode_quantity_or_none (f ''memory_bytes_available'')) (\<lambda>m.
     bindR (decode_quantity_or_none (f ''storage_bytes_available'')) (\<lambda>s.
     bindR (decode_quantity_or_none (f ''gpu_count_available'')) (\<lambda>g.
     bindR (decode_node_capacities (f ''node_capacities'')) (\<lambda>ns.
     bindR (mk_provider_capacity (encode_float_or_none fc) (encode_float_or_none fm)
              (encode_float_or_none fs) (encode_float_or_none fg) c m s g ns) (\<lambda>cap.
     Inr (Some cap)))))))))))))"

definition decode_replica :: "pyval \<Rightarrow> replica_profile result" where
  "decode_replica v =
     bindR (decode_fields [''cpu_millicores'', ''memory_bytes'', ''storage_bytes'', ''gpu_count''] v)
       (\<lambda>f.
     bindR (decode_int (f ''cpu_millicores'')) (\<lambda>c.
     bindR (decode_int (f ''memory_bytes'')) (\<lambda>m.
     bindR (decode_int (f ''storage_bytes'')) (\<lambda>s.
     bindR (decode_int (f ''gpu_count'')) (\<lambda>g.
     mk_replica_profile (PInt c) (PInt m) (PInt s) (PInt g))))))"

definition decode_replica_profiles :: "pyval \<Rightarrow> replica_profile list result" where
  "decode_replica_profiles v = (case v of PList xs \<Rightarrow> mapR decode_replica xs | _ \<Rightarrow> Inl ValueError)"

definition decode_resource_profile :: "pyval \<Rightarrow> resource_profile option result" where
  "decode_resource_profile v =
     (if v = PNone then Inr None
      else
     bindR (decode_fields [''cpu_millicores'', ''memory_bytes'', ''storage_bytes'', ''gpu_count'',
              ''replicas''] v) (\<lambda>f.
     bindR (decode_int (f ''cpu_millicores'')) (\<lambda>c.
     bindR (decode_int (f ''memory_bytes'')) (\<lambda>m.
     bindR (decode_int (f ''storage_bytes'')) (\<lambda>s.
     bindR (decode_int (f ''gpu_count'')) (\<lambda>g.
     bindR (decode_replica_profiles (f ''replicas'')) (\<lambda>rs.
     bindR (mk_resource_profile (PInt c) (PInt m) (PInt s) (PInt g) rs) (\<lambda>p.
     Inr (Some p)))))))))"

definition decode_policy :: "pyval \<Rightarrow> auction_policy result" where
  "decode_policy v =
     bindR (decode_fields [''collection_window_seconds'', ''fallback_window_seconds'',
              ''preferred_providers'', ''eligible_providers'', ''excluded_providers'',
              ''required_proofs'', ''preferred_selection'', ''version''] v) (\<lambda>f.
     bindR (decode_float (f ''collection_window_seconds'')) (\<lambda>c.
     bindR (decode_float (f ''fallback_window_seconds'')) (\<lambda>w.
     bindR (decode_str_list (f ''preferred_providers'')) (\<lambda>pref.
     bindR (decode_str_list_or_none (f ''eligible_providers'')) (\<lambda>elig.
     bindR (decode_str_list (f ''excluded_providers'')) (\<lambda>excl.
     bindR (decode_str_list (f ''required_proofs'')) (\<lambda>req.
     bindR (decode_preferred_selection (f ''preferred_selection'')) (\<lambda>sel.
     bindR (decode_str (f ''version'')) (\<lambda>ver.
     mk_policy (Fin c) (Fin w) pref elig excl req sel ver)))))))))"

text \<open>One bid; \<open>delta\<close> shifts its arrival when the timeline is re-anchored.\<close>

definition decode_bid :: "pyfloat \<Rightarrow> pyval \<Rightarrow> bid_observation result" where
  "decode_bid delta v =
     bindR (decode_fields [''bid_key'', ''provider'', ''price'', ''denom'', ''observed_at'',
              ''state'', ''proofs'', ''capacity'', ''resource_profile'', ''gseq''] v) (\<lambda>f.
     bindR (decode_str (f ''bid_key'')) (\<lambda>key.
     bindR (decode_str (f ''provider'')) (\<lambda>prov.
     bindR (decode_decimal (f ''price'')) (\<lambda>amount.
     bindR (decode_str (f ''denom'')) (\<lambda>den.
     bindR (decode_float (f ''observed_at'')) (\<lambda>seen.
     bindR (decode_str (f ''state'')) (\<lambda>st.
     bindR (decode_str_list (f ''proofs'')) (\<lambda>prfs.
     bindR (decode_capacity (f ''capacity'')) (\<lambda>cap.
     bindR (decode_resource_profile (f ''resource_profile'')) (\<lambda>prof.
     bindR (decode_int_or_none (f ''gseq'')) (\<lambda>grp.
     mk_bid key prov (PDec amount) den
       (if delta = Fin 0 then Fin seen else fadd (Fin seen) delta)
       st prfs cap prof (encode_int_or_none grp))))))))))))"

fun decode_bids ::
    "pyfloat \<Rightarrow> pyval list \<Rightarrow> (string, bid_observation) dict \<Rightarrow> (string, bid_observation) dict result"
where
  "decode_bids delta [] d = Inr d"
| "decode_bids delta (v # vs) d =
     bindR (decode_bid delta v) (\<lambda>b.
       if dict_get d (bid_key b) \<noteq> None then Inl ValueError
       else decode_bids delta vs (dict_set (bid_key b) b d))"

text \<open>
  The anchor: the shift of every arrival and the new start. Without an explicit re-anchoring
  the snapshot's clock must be relative.
\<close>

definition restore_anchor :: "pyval \<Rightarrow> rat \<Rightarrow> (pyfloat \<times> rat) result" where
  "restore_anchor rebase start =
     (if rebase = PNone
      then (if start \<noteq> 0 then Inl ValueError else Inr (Fin 0, 0))
      else bindR (decode_float rebase) (\<lambda>new. Inr (fsub (Fin new) (Fin start), new)))"

definition restore_bids :: "pyval \<Rightarrow> auction_policy \<Rightarrow> pyfloat \<times> rat \<Rightarrow> auction result" where
  "restore_bids raw_bids pol anchor =
     (case raw_bids of
        PList raw \<Rightarrow>
          bindR (decode_bids (fst anchor) raw []) (\<lambda>d.
          bindR (mk_auction pol (Fin (snd anchor))) (\<lambda>a.
            (case observe_many (dict_values d) a of
               (Inl e, _) \<Rightarrow> Inl e
             | (Inr _, a') \<Rightarrow> Inr a')))
      | _ \<Rightarrow> Inl ValueError)"

definition restore :: "pyval \<Rightarrow> pyval \<Rightarrow> pyval \<Rightarrow> auction result" where
  "restore snap expect_scope rebase =
     (case snap of
        PDict m \<Rightarrow>
          if mapping_get m ''version'' \<noteq> PStr AUCTION_SNAPSHOT_VERSION
          then Inl UnsupportedSnapshotVersion
          else if set (map fst m) \<noteq> set SNAPSHOT_KEYS then Inl ValueError
          else
            bindR (validate_scope (mapping_get m ''scope'')) (\<lambda>scope.
            bindR (validate_scope expect_scope) (\<lambda>expect.
            bindR (raise_if (scope \<noteq> expect) ValueError) (\<lambda>_.
            bindR (decode_float (mapping_get m ''started_at'')) (\<lambda>start.
            bindR (restore_anchor rebase start) (\<lambda>anchor.
            bindR (decode_policy (mapping_get m ''policy'')) (\<lambda>pol.
            restore_bids (mapping_get m ''bids'') pol anchor))))))
      | _ \<Rightarrow> Inl ValueError)"

end
