(* ===== verification/AuctionProperties.thy ===== *)
theory AuctionProperties
  imports AuctionDecision
begin

text \<open>
  The promises of the auction, each with a concrete instance: arrival and identity are
  immutable, a refused observation changes nothing, the collection window is complete, the
  decision is eligible, optimal and independent of delivery order.
\<close>

section \<open>Reachable auctions\<close>

definition reachable :: "auction_policy \<Rightarrow> rat \<Rightarrow> auction \<Rightarrow> bool" where
  "reachable p t a \<longleftrightarrow> (\<exists>a0. mk_auction p (Fin t) = Inr a0 \<and> observes\<^sup>*\<^sup>* a0 a)"

lemma mk_auction_ok: "mk_auction p (Fin t) = Inr a \<Longrightarrow> policy_ok p \<Longrightarrow> auction_ok a"
  by (auto simp: mk_auction_def auction_ok_def Let_def)

lemma observes_star_keeps:
  assumes "observes\<^sup>*\<^sup>* a a'" and "auction_ok a"
  shows "auction_ok a' \<and> evolves a a'"
  using assms
proof (induction rule: rtranclp_induct)
  case (step b c)
  then obtain x r where "observe x b = (r, c)" "bid_ok x" by (auto elim: observesE)
  then have "auction_ok c \<and> evolves b c" using observe_keeps step by blast
  then show ?case using step evolves_trans by blast
qed simp

lemma reachable_ok:
  assumes "reachable p t a" and "policy_ok p"
  shows "auction_ok a" and "policy a = p" and "started_at a = t"
proof -
  obtain a0 where a0: "mk_auction p (Fin t) = Inr a0" "observes\<^sup>*\<^sup>* a0 a"
    using assms(1) by (auto simp: reachable_def)
  have "auction_ok a \<and> evolves a0 a"
    using observes_star_keeps[OF a0(2)] mk_auction_ok[OF a0(1) assms(2)] by blast
  moreover have "policy a0 = p" "started_at a0 = t"
    using a0(1) by (auto simp: mk_auction_def Let_def)
  ultimately show "auction_ok a" and "policy a = p" and "started_at a = t"
    by (auto simp: evolves_def)
qed

lemma observe_many_observes:
  assumes "observe_many bs a = (r, a')" and "\<forall>b \<in> set bs. bid_ok b"
  shows "observes\<^sup>*\<^sup>* a a'"
  using assms
proof (induction bs arbitrary: a)
  case (Cons b bs)
  obtain r1 a1 where o: "observe b a = (r1, a1)" by (cases "observe b a")
  have s: "observes a a1" using o Cons.prems(2) by (auto intro: observes.intros)
  show ?case
  proof (cases r1)
    case (Inl e)
    then show ?thesis using Cons.prems(1) o s by auto
  next
    case (Inr u)
    then have "observe_many bs a1 = (r, a')" using Cons.prems(1) o by simp
    then show ?thesis using Cons.IH Cons.prems(2) s by (metis converse_rtranclp_into_rtranclp list.set_intros(2))
  qed
qed simp

section \<open>Concrete auctions\<close>

definition sample_bid :: "string \<Rightarrow> nat \<Rightarrow> rat \<Rightarrow> int option \<Rightarrow> bid_observation" where
  "sample_bid name amount seen g =
     \<lparr>bid_key = name @ ''/1'', provider = name, price = FDec False amount 0, denom = ''uakt'',
      observed_at = seen, bid_state = ''Open'', proofs = [''audit''], bid_capacity = None,
      bid_profile = None, gseq = g\<rparr>"

definition sample_policy :: auction_policy where
  "sample_policy =
     \<lparr>collection_window_seconds = 30, fallback_window_seconds = 60,
      preferred_providers = {''a'', ''b''}, eligible_providers = None,
      excluded_providers = {''x''}, required_proofs = {''audit'', ''tee''},
      policy_selection = CHEAPEST, policy_version = ''v3''\<rparr>"

definition sample_auction :: auction where
  "sample_auction =
     \<lparr>policy = sample_policy, started_at = 0, deadline = Fin 30, fallback_deadline = Fin 90,
      latest_by_key = [(''a/1'', sample_bid ''a'' 12 3 (Some 1)), (''b/1'', sample_bid ''b'' 10 5 None),
                       (''c/1'', sample_bid ''c'' 7 1 None)],
      resource_profile_by_gseq = []\<rparr>"

lemma sample_policy_ok: "policy_ok sample_policy"
  by (simp add: policy_ok_def sample_policy_def)

lemma sample_bid_ok: "name \<noteq> [] \<Longrightarrow> (\<forall>i. g = Some i \<longrightarrow> 1 \<le> i) \<Longrightarrow> bid_ok (sample_bid name amount seen g)"
  by (simp add: bid_ok_def sample_bid_def)

lemma sample_mk_auction:
  "mk_auction sample_policy (Fin 0) = Inr (sample_auction\<lparr>latest_by_key := []\<rparr>)"
  by (simp add: mk_auction_def sample_policy_def sample_auction_def Let_def
      double_round_binade[of 4] double_round_binade[of 6] round_half_even_def)

lemma sample_observe_many:
  "observe_many [sample_bid ''a'' 12 3 (Some 1), sample_bid ''b'' 10 5 None, sample_bid ''c'' 7 1 None]
     (sample_auction\<lparr>latest_by_key := []\<rparr>) = (Inr (), sample_auction)"
  by (simp add: sample_auction_def sample_bid_def observe_def carry_identity_def
      bind_resource_profile_def Let_def)

lemma sample_reachable: "reachable sample_policy 0 sample_auction"
  unfolding reachable_def
  using sample_mk_auction observe_many_observes[OF sample_observe_many] sample_bid_ok by auto

lemmas sample_auction_ok = reachable_ok(1)[OF sample_reachable sample_policy_ok]

lemma lower_Open: "lower ''Open'' = ''open''"
proof -
  have "char_of (111::nat) = CHR ''o''"
    using char_of_char[of "CHR ''o''", where 'a = nat] by simp
  then show ?thesis by (simp add: lower_def lower_char_def code_def)
qed

lemma sample_decision:
  "evaluate (Fin 40) None sample_auction
   = Inr (mk_result sample_auction DECIDED (Fin 40) (Some (sample_bid ''b'' 10 5 None))
       CHEAPEST_PREFERRED [sample_bid ''b'' 10 5 None, sample_bid ''a'' 12 3 (Some 1)] [] [''tee''])"
proof -
  let ?a = "sample_bid ''a'' 12 3 (Some 1)" and ?b = "sample_bid ''b'' 10 5 None"
    and ?c = "sample_bid ''c'' 7 1 None"
  have cl: "classify sample_auction (Fin 40) (sample_bid n x t g) = Inr None"
    if "n \<noteq> ''x''" "t \<le> 40" for n x t g
    using that by (simp add: classify_def sample_auction_def sample_policy_def sample_bid_def
        py_fmin_def lower_Open)
  have vals: "sort_key delivery_key (dict_values (latest_by_key sample_auction)) = [?a, ?b, ?c]"
    by (simp add: sample_auction_def dict_values_def delivery_key_def sample_bid_def)
  have part: "partition_bids sample_auction (Fin 40) [?a, ?b, ?c] = Inr ([?a, ?b, ?c], [])"
    by (simp add: cl)
  have pref: "preferred_of sample_auction [?a, ?b, ?c] = [?a, ?b]"
    by (simp add: preferred_of_def sample_auction_def sample_policy_def sample_bid_def)
  have den: "denom ?a = ''uakt''" "denom ?b = ''uakt''"
    by (simp_all add: sample_bid_def)
  have ch: "choose_winner sample_auction {} [?a, ?b] [?a, ?b]
      = Inr (Some ?b, CHEAPEST_PREFERRED, [?b, ?a])"
    by (simp add: choose_winner_def choose_by_def py_min_def price_key_def sample_bid_def
        sample_auction_def sample_policy_def)
  have miss: "sorted_strings (required_proofs (policy sample_auction) - set (proofs ?b)) = [''tee'']"
    by (simp add: sorted_strings_def sample_auction_def sample_policy_def sample_bid_def)
  have dl: "deadline sample_auction = Fin 30" by (simp add: sample_auction_def)
  show ?thesis
    unfolding evaluate_def Let_def vals
    by (simp add: part pref den ch miss dl del: partition_bids.simps)
qed

section \<open>Properties of collection\<close>

text \<open>
  C15: first arrival is immutable. Along every history of observations of one auction,
  whatever order the adapters deliver in, a bid once recorded keeps its arrival time and its
  provider, keeps its order group once known, and keeps the exact demand bound to that group.
\<close>

theorem first_arrival_immutable:
  assumes "reachable p t a" and "policy_ok p" and "observes\<^sup>*\<^sup>* a a'"
    and "dict_get (latest_by_key a) k = Some b"
  shows "\<exists>b'. dict_get (latest_by_key a') k = Some b' \<and> observed_at b' = observed_at b
    \<and> provider b' = provider b \<and> (\<forall>g. gseq b = Some g \<longrightarrow> gseq b' = Some g)
    \<and> (\<forall>g q. gseq b = Some g \<longrightarrow> bid_profile b = Some q \<longrightarrow> bid_profile b' = Some q)"
  using observes_star_keeps[OF assms(3) reachable_ok(1)[OF assms(1,2)]] evolves_keeps_get assms(4)
  unfolding keeps_bid_def by blast

theorem first_arrival_immutable_witness:
  "\<exists>b'. dict_get (latest_by_key (snd (observe (sample_bid ''a'' 9 20 None) sample_auction))) ''a/1''
      = Some b' \<and> observed_at b' = 3 \<and> gseq b' = Some 1"
proof -
  obtain r a' where o: "observe (sample_bid ''a'' 9 20 None) sample_auction = (r, a')"
    by (cases "observe (sample_bid ''a'' 9 20 None) sample_auction")
  then have "observes\<^sup>*\<^sup>* sample_auction a'"
    using sample_bid_ok[of "''a''" None 9 20] by (auto intro: observes.intros)
  moreover have "dict_get (latest_by_key sample_auction) ''a/1'' = Some (sample_bid ''a'' 12 3 (Some 1))"
    by (simp add: sample_auction_def)
  ultimately show ?thesis
    using first_arrival_immutable[OF sample_reachable sample_policy_ok] o
    by (fastforce simp: sample_bid_def)
qed

text \<open>The group and the demand an observation would be recorded with.\<close>

definition effective_gseq :: "auction \<Rightarrow> bid_observation \<Rightarrow> int option" where
  "effective_gseq a b =
     (case dict_get (latest_by_key a) (bid_key b) of
        Some c \<Rightarrow> (if gseq c = None then gseq b else gseq c) | None \<Rightarrow> gseq b)"

definition effective_profile :: "auction \<Rightarrow> bid_observation \<Rightarrow> resource_profile option" where
  "effective_profile a b =
     (case dict_get (latest_by_key a) (bid_key b) of
        Some c \<Rightarrow> (if bid_profile b = None then bid_profile c else bid_profile b)
      | None \<Rightarrow> bid_profile b)"

definition conflicts :: "auction \<Rightarrow> bid_observation \<Rightarrow> bool" where
  "conflicts a b \<longleftrightarrow>
     (\<exists>c. dict_get (latest_by_key a) (bid_key b) = Some c \<and>
        (provider c \<noteq> provider b \<or> (\<exists>g g'. gseq c = Some g \<and> gseq b = Some g' \<and> g \<noteq> g'))) \<or>
     (\<exists>g p q. effective_gseq a b = Some g \<and> effective_profile a b = Some p \<and>
        dict_get (resource_profile_by_gseq a) g = Some q \<and> p \<noteq> q)"

lemma carry_identity_conflict:
  assumes "dict_get (latest_by_key a) (bid_key b) = cur"
  shows "(case carry_identity cur b of
      Inl e \<Rightarrow> e = ValueError \<and> (\<exists>c. cur = Some c \<and>
        (provider c \<noteq> provider b \<or> (\<exists>g g'. gseq c = Some g \<and> gseq b = Some g' \<and> g \<noteq> g')))
    | Inr b1 \<Rightarrow> (\<forall>c. cur = Some c \<longrightarrow> provider c = provider b \<and>
          (\<forall>g g'. gseq c = Some g \<longrightarrow> gseq b = Some g' \<longrightarrow> g = g')) \<and>
        gseq b1 = effective_gseq a b \<and> bid_profile b1 = effective_profile a b)"
  unfolding carry_identity_def effective_gseq_def effective_profile_def assms
  by (cases cur) (auto split: option.splits)

lemma bind_conflict:
  "fst (bind_resource_profile b a) = Inl e \<longleftrightarrow> e = ValueError \<and>
     (\<exists>g p q. gseq b = Some g \<and> bid_profile b = Some p \<and>
        dict_get (resource_profile_by_gseq a) g = Some q \<and> p \<noteq> q)"
  by (auto simp: bind_resource_profile_def Let_def split: option.splits)

lemma observe_conflict:
  "conflicts a b \<longleftrightarrow> (\<exists>e. fst (observe b a) = Inl e)"
proof (cases "carry_identity (dict_get (latest_by_key a) (bid_key b)) b")
  case (Inl e)
  then show ?thesis
    using carry_identity_conflict[OF refl, of a b] by (auto simp: observe_def conflicts_def)
next
  case (Inr b1)
  have "fst (observe b a) = (case fst (bind_resource_profile b1 a) of Inl e \<Rightarrow> Inl e | Inr _ \<Rightarrow> Inr ())"
    using Inr by (auto simp: observe_def Let_def split: prod.splits sum.splits)
  then have "(\<exists>e. fst (observe b a) = Inl e) \<longleftrightarrow> (\<exists>e. fst (bind_resource_profile b1 a) = Inl e)"
    by (auto split: sum.splits)
  then show ?thesis
    using carry_identity_conflict[OF refl, of a b] Inr unfolding bind_conflict conflicts_def by auto
qed

lemma observe_atomic:
  "observe b a =
     (if conflicts a b then (Inl ValueError, a) else (Inr (), snd (observe b a)))"
proof -
  obtain r a' where o: "observe b a = (r, a')" by (cases "observe b a")
  have "conflicts a b \<longleftrightarrow> (\<exists>e. r = Inl e)" using observe_conflict[of a b] o by simp
  then show ?thesis using o by (cases rule: observe_cases[OF o]) auto
qed

lemma observe_refreshes:
  assumes "observe b a = (Inr (), a')"
  shows "\<exists>b'. dict_get (latest_by_key a') (bid_key b) = Some b' \<and> price b' = price b
    \<and> denom b' = denom b \<and> bid_state b' = bid_state b \<and> proofs b' = proofs b
    \<and> bid_capacity b' = bid_capacity b
    \<and> observed_at b' = (case dict_get (latest_by_key a) (bid_key b) of
                           None \<Rightarrow> observed_at b | Some c \<Rightarrow> observed_at c)"
  using assms
proof (cases rule: observe_cases)
  case (recorded b1 b2 a1)
  have "b2 = b1\<lparr>bid_profile := bid_profile b2\<rparr>"
    using recorded(3) by (cases rule: bind_resource_profile_cases) auto
  then obtain x where "b2 = b1\<lparr>bid_profile := x\<rparr>" by blast
  then show ?thesis
    using recorded(4) carry_identity_ok(1)[OF recorded(2)] by (auto split: option.splits)
qed simp

text \<open>
  \<open>observe\<close> is atomic and refreshes. It raises exactly when the observation contradicts
  the stored provider, group or exact group demand, and then leaves the auction unchanged;
  otherwise the stored bid takes the new price, state, proofs and capacity.
\<close>

theorem observe_outcome:
  "observe b a = (if conflicts a b then (Inl ValueError, a) else (Inr (), snd (observe b a)))
   \<and> (\<not> conflicts a b \<longrightarrow>
        (\<exists>b'. dict_get (latest_by_key (snd (observe b a))) (bid_key b) = Some b'
           \<and> price b' = price b \<and> denom b' = denom b \<and> bid_state b' = bid_state b
           \<and> proofs b' = proofs b \<and> bid_capacity b' = bid_capacity b))"
proof (intro conjI impI)
  show at: "observe b a = (if conflicts a b then (Inl ValueError, a) else (Inr (), snd (observe b a)))"
    by (rule observe_atomic)
  assume "\<not> conflicts a b"
  then have "observe b a = (Inr (), snd (observe b a))" using at by simp
  from observe_refreshes[OF this] show "\<exists>b'. dict_get (latest_by_key (snd (observe b a))) (bid_key b)
      = Some b' \<and> price b' = price b \<and> denom b' = denom b \<and> bid_state b' = bid_state b
      \<and> proofs b' = proofs b \<and> bid_capacity b' = bid_capacity b" by blast
qed

theorem observe_outcome_witness:
  "observe (sample_bid ''a'' 9 20 (Some 2)) sample_auction = (Inl ValueError, sample_auction)
   \<and> (\<exists>b'. dict_get (latest_by_key (snd (observe (sample_bid ''b'' 4 20 None) sample_auction)))
        ''b/1'' = Some b' \<and> price b' = FDec False 4 0)"
proof
  have "conflicts sample_auction (sample_bid ''a'' 9 20 (Some 2))"
    by (auto simp: conflicts_def sample_auction_def sample_bid_def)
  then show "observe (sample_bid ''a'' 9 20 (Some 2)) sample_auction = (Inl ValueError, sample_auction)"
    using observe_outcome[of "sample_bid ''a'' 9 20 (Some 2)" sample_auction] by simp
  have "\<not> conflicts sample_auction (sample_bid ''b'' 4 20 None)"
    by (auto simp: conflicts_def sample_auction_def sample_bid_def effective_gseq_def)
  then show "\<exists>b'. dict_get (latest_by_key (snd (observe (sample_bid ''b'' 4 20 None) sample_auction)))
        ''b/1'' = Some b' \<and> price b' = FDec False 4 0"
    using observe_outcome[of "sample_bid ''b'' 4 20 None" sample_auction]
    by (auto simp: sample_bid_def)
qed

text \<open>
  Exact demand belongs to the group, not to the delivery order. In every reachable
  auction all recorded bids of one order group carry the same demand: the one bound to the
  group, or none while no observation supplied it.
\<close>

theorem group_demand_shared:
  assumes "reachable p t a" and "policy_ok p"
    and "dict_get (latest_by_key a) k = Some b" and "gseq b = Some g"
  shows "bid_profile b = dict_get (resource_profile_by_gseq a) g"
  using reachable_ok(1)[OF assms(1,2)] assms(3,4)
  by (auto simp: auction_ok_def profile_agrees_def)

definition profiled_bid :: bid_observation where
  "profiled_bid = (sample_bid ''c'' 7 8 (Some 1))\<lparr>bid_profile := Some (sample_profile 3000 8)\<rparr>"

theorem group_demand_shared_witness:
  "\<exists>a b. snd (observe profiled_bid sample_auction) = a \<and> dict_get (latest_by_key a) ''a/1'' = Some b
     \<and> bid_profile b = Some (sample_profile 3000 8)"
proof -
  obtain r a where o: "observe profiled_bid sample_auction = (r, a)"
    by (cases "observe profiled_bid sample_auction")
  have "bid_ok profiled_bid"
    using sample_bid_ok[of "''c''" "Some 1" 7 8] sample_profile_ok[of 3000 8]
    by (simp add: bid_ok_def profiled_bid_def)
  then have r: "reachable sample_policy 0 a"
    using sample_reachable o unfolding reachable_def
    by (metis observes.intros rtranclp.rtrancl_into_rtrancl)
  have a: "dict_get (latest_by_key a) ''a/1''
      = Some ((sample_bid ''a'' 12 3 (Some 1))\<lparr>bid_profile := Some (sample_profile 3000 8)\<rparr>)"
    "dict_get (resource_profile_by_gseq a) 1 = Some (sample_profile 3000 8)"
    using o by (auto simp: observe_def carry_identity_def bind_resource_profile_def profiled_bid_def
        sample_auction_def sample_bid_def spread_profile_def Let_def)
  have "bid_profile ((sample_bid ''a'' 12 3 (Some 1))\<lparr>bid_profile := Some (sample_profile 3000 8)\<rparr>)
      = Some (sample_profile 3000 8)"
    using group_demand_shared[OF r sample_policy_ok a(1), of 1] a(2) by (simp add: sample_bid_def)
  then show ?thesis using a(1) o by auto
qed

section \<open>Properties of the decision\<close>

lemma fadd_window:
  assumes "is_double t" and "0 \<le> w"
  shows "py_le (Fin t) (fadd (Fin t) (Fin w))" and "fadd (Fin t) (Fin w) \<noteq> NaN"
  using fadd_nonneg_ge[OF assms] by (cases "fadd (Fin t) (Fin w)"; simp)+

text \<open>
  The collection window is complete. The deadline is never before the start; while
  \<open>now\<close> is before it, \<open>evaluate\<close> reports COLLECTING and selects nothing; a decision or an
  expiry is only reported at or after the deadline, and an expiry only when the fallback
  window is over too.
\<close>

theorem evaluate_waits_for_window:
  assumes "reachable p t a" and "policy_ok p" and "is_double t"
    and "evaluate now already a = Inr res"
  shows "py_le (Fin t) (deadline a)
    \<and> (py_lt now (deadline a) \<longrightarrow> result_status res = COLLECTING \<and> selected res = None)
    \<and> (result_status res \<noteq> COLLECTING \<longrightarrow> py_le (deadline a) now)
    \<and> (result_status res = EXPIRED \<longrightarrow> \<not> py_lt now (fallback_deadline a))
    \<and> (result_status res = DECIDED \<longleftrightarrow> selected res \<noteq> None)"
proof -
  note ok = reachable_ok[OF assms(1,2)]
  have dl: "deadline a = fadd (Fin t) (Fin (collection_window_seconds p))" "policy_ok p"
    using ok by (auto simp: auction_ok_def)
  have w: "0 \<le> collection_window_seconds p" using dl(2) by (simp add: policy_ok_def)
  have fin: "now \<noteq> NaN" using assms(4) by (auto simp: evaluate_def isfinite_def split: if_splits)
  note fw = fadd_window[OF assms(3) w, folded dl(1)]
  have le: "\<not> py_lt now (deadline a) \<Longrightarrow> py_le (deadline a) now"
    using py_not_lt fin fw(2) by blast
  show ?thesis
    using fw(1) le by (cases rule: evaluate_cases[OF assms(4) ok(1)]) (auto simp: mk_result_def)
qed

theorem evaluate_waits_for_window_witness:
  "py_le (Fin 0) (deadline sample_auction)"
  using evaluate_waits_for_window[OF sample_reachable sample_policy_ok is_double_0 sample_decision]
  by simp

text \<open>
  C2: every decision is sound. The selected bid was observed, is open, not excluded and
  eligible, arrived by both the evaluation and the fallback deadline, is bound to a group
  when its demand is known, and under the emptiest policy its capacity proves the fit. All
  considered bids are in its denomination. A preferred selection arrived inside the
  collection window from a preferred provider; a fallback means that no eligible preferred
  bid did.
\<close>

theorem decided_bid_sound:
  assumes "auction_ok a" and "evaluate now already a = Inr res" and "selected res = Some w"
  shows "w \<in> set (observed_bids a) \<and> eligible a now w \<and> w \<in> set (considered res)
    \<and> (\<forall>b \<in> set (considered res). denom b = denom w \<and> eligible a now b)
    \<and> (if selection_reason res = FIRST_ELIGIBLE_FALLBACK
       then \<forall>b \<in> set (observed_bids a). eligible a now b \<longrightarrow>
              \<not> (provider b \<in> preferred_providers (policy a) \<and> py_le (Fin (observed_at b)) (deadline a))
       else provider w \<in> preferred_providers (policy a) \<and> py_le (Fin (observed_at w)) (deadline a))"
proof (cases rule: evaluate_cases[OF assms(2,1)])
  case (4 w' reason cons)
  have [simp]: "w' = w" using 4(8) assms(3) by (simp add: mk_result_def)
  have cons: "set cons = set (pool_of a now)" using 4(5) by (metis set_mset_mset)
  have fin: "finite (denom ` set (pool_of a now))" by simp
  have "\<forall>x \<in> denom ` set (pool_of a now). \<forall>y \<in> denom ` set (pool_of a now). x = y"
    using 4(3) card_le_Suc0_iff_eq[OF fin] by (simp only: One_nat_def)
  then have den: "denom b = denom w" if "b \<in> set (pool_of a now)" for b
    using 4(2) that \<open>w' = w\<close> by blast
  have el: "b \<in> set (observed_bids a) \<and> eligible a now b" if "b \<in> set (pool_of a now)" for b
    using that pool_sub candidates_sub by blast
  have side: "if reason = FIRST_ELIGIBLE_FALLBACK
       then \<forall>b \<in> set (observed_bids a). eligible a now b \<longrightarrow>
              \<not> (provider b \<in> preferred_providers (policy a) \<and> py_le (Fin (observed_at b)) (deadline a))
       else provider w \<in> preferred_providers (policy a) \<and> py_le (Fin (observed_at w)) (deadline a)"
  proof (cases "reason = FIRST_ELIGIBLE_FALLBACK")
    case True
    then have "preferred_of a (candidates_of a now) = []" using 4(6) by simp
    then show ?thesis using True
      by (auto simp: preferred_of_def filter_empty_conv candidates_sub)
  next
    case False
    then have "preferred_of a (candidates_of a now) \<noteq> []" using 4(6) by simp
    then have "w \<in> set (preferred_of a (candidates_of a now))"
      using 4(2) by (simp add: pool_of_def Let_def)
    then show ?thesis using False by (simp add: preferred_of_def)
  qed
  have r: "considered res = cons" "selection_reason res = reason"
    using 4(8) by (simp_all add: mk_result_def)
  have w: "w \<in> set (pool_of a now)" using 4(2) by simp
  show ?thesis unfolding r cons using el[OF w] w side by (intro conjI ballI den) (auto dest: el)
qed (use assms(3) in \<open>simp_all add: mk_result_def\<close>)

theorem decided_bid_sound_witness:
  "eligible sample_auction (Fin 40) (sample_bid ''b'' 10 5 None)"
  using decided_bid_sound[OF sample_auction_ok sample_decision, of "sample_bid ''b'' 10 5 None"]
  by (simp add: mk_result_def)

text \<open>
  C31: price and arrival decide. A cheapest selection has the least price among all eligible
  preferred bids of the window; a fallback selection is the first arrival among all eligible
  bids. Ties go to the provider name and then the bid key.
\<close>

theorem selection_is_optimal:
  assumes "auction_ok a" and "evaluate now already a = Inr res" and "selected res = Some w"
  shows "(selection_reason res = CHEAPEST_PREFERRED \<longrightarrow>
      (\<forall>b \<in> set (observed_bids a). eligible a now b \<longrightarrow> provider b \<in> preferred_providers (policy a) \<longrightarrow>
         py_le (Fin (observed_at b)) (deadline a) \<longrightarrow> price_key w \<le> price_key b))
    \<and> (selection_reason res = FIRST_ELIGIBLE_FALLBACK \<longrightarrow>
      (\<forall>b \<in> set (observed_bids a). eligible a now b \<longrightarrow> arrival_key w \<le> arrival_key b))"
proof (cases rule: evaluate_cases[OF assms(2,1)])
  case (4 w' reason cons)
  have [simp]: "w' = w" "selection_reason res = reason" using 4(8) assms(3) by (auto simp: mk_result_def)
  have "b \<in> set (pool_of a now)" if "b \<in> set (observed_bids a)" "eligible a now b"
    "provider b \<in> preferred_providers (policy a)" "py_le (Fin (observed_at b)) (deadline a)" for b
  proof -
    have "b \<in> set (preferred_of a (candidates_of a now))"
      using that by (simp add: preferred_of_def candidates_sub)
    then show ?thesis by (auto simp: pool_of_def Let_def)
  qed
  moreover have "b \<in> set (pool_of a now)" if "reason = FIRST_ELIGIBLE_FALLBACK"
    "b \<in> set (observed_bids a)" "eligible a now b" for b
    using that 4(6) candidates_sub by (auto simp: pool_of_def Let_def)
  ultimately show ?thesis using 4(4) by (auto simp: decides_by_def)
qed (use assms(3) in \<open>simp_all add: mk_result_def\<close>)

theorem selection_is_optimal_witness:
  "price_key (sample_bid ''b'' 10 5 None) \<le> price_key (sample_bid ''a'' 12 3 (Some 1))"
proof -
  have "eligible sample_auction (Fin 40) (sample_bid ''a'' 12 3 (Some 1))"
    by (simp add: eligible_def sample_auction_def sample_policy_def sample_bid_def py_fmin_def lower_Open)
  then show ?thesis
    using selection_is_optimal[OF sample_auction_ok sample_decision, of "sample_bid ''b'' 10 5 None"]
    by (auto simp: mk_result_def sample_auction_def observed_bids_def dict_values_def sample_policy_def
        sample_bid_def)
qed

text \<open>
  C32: Delivery order cannot change a decision. Two auctions whose stored bids are
  permutations of each other evaluate to the same result, rejections and ranking included.
\<close>

lemma partition_bids_congr:
  "(\<And>b. classify a now b = classify a' now b) \<Longrightarrow> partition_bids a now bs = partition_bids a' now bs"
  by (induction bs) simp_all

theorem evaluate_order_independent:
  assumes "auction_ok a" and "mset bids = mset (latest_by_key a)"
  shows "evaluate now already (a\<lparr>latest_by_key := bids\<rparr>) = evaluate now already a"
proof -
  have perm: "mset (dict_values bids) = mset (dict_values (latest_by_key a))"
    using assms(2) unfolding dict_values_def by (metis mset_map)
  then have "inj_on bid_key (set (dict_values bids))"
    using observed_keys_inj[OF assms(1)] unfolding observed_bids_def by (metis set_mset_mset)
  with perm have s: "sort_key delivery_key (dict_values bids)
      = sort_key delivery_key (dict_values (latest_by_key a))"
    by (rule delivery.ranking_order_independent)
  have same: "policy (a\<lparr>latest_by_key := bids\<rparr>) = policy a"
    "fallback_deadline (a\<lparr>latest_by_key := bids\<rparr>) = fallback_deadline a"
    "deadline (a\<lparr>latest_by_key := bids\<rparr>) = deadline a"
    "latest_by_key (a\<lparr>latest_by_key := bids\<rparr>) = bids" by simp_all
  have parts: "mk_result (a\<lparr>latest_by_key := bids\<rparr>) = mk_result a"
    "preferred_of (a\<lparr>latest_by_key := bids\<rparr>) = preferred_of a"
    "choose_winner (a\<lparr>latest_by_key := bids\<rparr>) = choose_winner a"
    by (simp_all add: fun_eq_iff mk_result_def preferred_of_def choose_winner_def)
  have "partition_bids (a\<lparr>latest_by_key := bids\<rparr>) now xs = partition_bids a now xs" for xs
    by (rule partition_bids_congr) (simp only: classify_def same)
  then show ?thesis by (simp only: evaluate_def same parts s)
qed

theorem evaluate_order_independent_witness:
  "evaluate (Fin 40) None (sample_auction\<lparr>latest_by_key := rev (latest_by_key sample_auction)\<rparr>)
   = evaluate (Fin 40) None sample_auction"
  by (rule evaluate_order_independent[OF sample_auction_ok]) simp

text \<open>
  What \<open>evaluate\<close> may raise. In a well-formed auction it is \<open>ValueError\<close> for a time that
  is not finite, \<open>MixedBidDenominations\<close> when the pool that decides holds more than one
  denomination, or the \<open>OverflowError\<close> of a capacity proof; the \<open>AssertionError\<close> branches
  for lost capacity evidence are never reached.
\<close>

theorem evaluate_errors:
  assumes "evaluate now already a = Inl e" and "auction_ok a"
  shows "e = ValueError \<and> \<not> isfinite now
    \<or> e = MixedBidDenominations \<and> 1 < card (denom ` set (pool_of a now))
    \<or> e = OverflowError \<and> (\<exists>b \<in> set (observed_bids a). classify a now b = Inl OverflowError)"
  using assms by (rule evaluate_Inl)

theorem evaluate_errors_witness:
  "\<not> isfinite (Inf False)"
proof -
  have "evaluate (Inf False) None sample_auction = Inl ValueError" by (simp add: evaluate_def)
  from evaluate_errors[OF this sample_auction_ok] show ?thesis by auto
qed

text \<open>
  every observed bid is accounted for. Past the window, each is either eligible or is
  in the rejection list with the reason of the first check it failed, and the two groups
  together are as many as the observed bids.
\<close>

theorem evaluate_accounts_for_bids:
  assumes "auction_ok a" and "evaluate now already a = Inr res" and "\<not> py_lt now (deadline a)"
  shows "length (candidates_of a now) + length (rejected res) = length (observed_bids a)
    \<and> (\<forall>b \<in> set (observed_bids a). \<not> eligible a now b \<longrightarrow>
         (\<exists>r. classify a now b = Inr (Some r) \<and> reject b r \<in> set (rejected res)))"
proof -
  have "rejected res = rejections_of a now
      \<and> length (candidates_of a now) + length (rejections_of a now) = length (observed_bids a)"
    by (cases rule: evaluate_cases[OF assms(2,1)]) (use assms(3) in \<open>auto simp: mk_result_def\<close>)
  moreover have "\<exists>r. classify a now b = Inr (Some r) \<and> reject b r \<in> set (rejections_of a now)"
    if b: "b \<in> set (observed_bids a)" "\<not> eligible a now b" for b
  proof -
    have fin: "isfinite now" using assms(2) by (auto simp: evaluate_def split: if_splits)
    obtain cs rs where "partition_bids a now (sort_key delivery_key (observed_bids a)) = Inr (cs, rs)"
      using assms(2,3) fin by (auto simp: evaluate_def observed_bids_def split: if_splits)
    then have "is_ok (classify a now b)" using partition_bids_Inr b(1) by fastforce
    then obtain x where "classify a now b = Inr x" by (rule is_okE)
    then obtain r where r: "classify a now b = Inr (Some r)" using b(2) classify_None by (cases x) auto
    have "reject b r \<in> set (List.map_filter
        (\<lambda>b. case classify a now b of Inr (Some r) \<Rightarrow> Some (reject b r) | _ \<Rightarrow> None) xs)"
      if "b \<in> set xs" for xs
      using that r by (induction xs) (auto simp: List.map_filter_simps split: option.splits)
    then show ?thesis using r b(1) by (simp add: rejections_of_def)
  qed
  ultimately show ?thesis by simp
qed

theorem evaluate_accounts_for_bids_witness:
  "length (candidates_of sample_auction (Fin 40)) = 3"
  using evaluate_accounts_for_bids[OF sample_auction_ok sample_decision]
  by (simp add: mk_result_def sample_auction_def observed_bids_def dict_values_def)

definition emptiest_bid :: "string \<Rightarrow> nat \<Rightarrow> provider_capacity \<Rightarrow> bid_observation" where
  "emptiest_bid name amount c =
     (sample_bid name amount 3 (Some 1))\<lparr>bid_capacity := Some c,
        bid_profile := Some (sample_profile 3000 8)\<rparr>"

definition emptiest_auction :: auction where
  "emptiest_auction =
     sample_auction\<lparr>policy := sample_policy\<lparr>policy_selection := EMPTIEST\<rparr>,
       latest_by_key := [(''a/1'', emptiest_bid ''a'' 5 sample_capacity),
                         (''b/1'', emptiest_bid ''b'' 9 sample_capacity)],
       resource_profile_by_gseq := [(1, sample_profile 3000 8)]\<rparr>"

lemma emptiest_bid_ok: "name \<noteq> [] \<Longrightarrow> bid_ok (emptiest_bid name amount sample_capacity)"
  using sample_capacity_ok sample_profile_ok[of 3000 8]
  by (simp add: bid_ok_def emptiest_bid_def sample_bid_def)

lemma emptiest_auction_ok: "auction_ok emptiest_auction"
proof -
  have "k = bid_key b \<and> bid_ok b \<and> profile_agrees (resource_profile_by_gseq emptiest_auction) b"
    if "dict_get (latest_by_key emptiest_auction) k = Some b" for k b
  proof -
    from that have "b = emptiest_bid ''a'' 5 sample_capacity \<and> k = ''a/1''
        \<or> b = emptiest_bid ''b'' 9 sample_capacity \<and> k = ''b/1''"
      by (auto simp: emptiest_auction_def split: if_splits)
    moreover have "gseq (emptiest_bid n x c) = Some 1" "bid_key (emptiest_bid n x c) = n @ ''/1''"
      "bid_profile (emptiest_bid n x c) = Some (sample_profile 3000 8)" for n x c
      by (simp_all add: emptiest_bid_def sample_bid_def)
    moreover have "dict_get (resource_profile_by_gseq emptiest_auction) 1 = Some (sample_profile 3000 8)"
      by (simp add: emptiest_auction_def)
    ultimately show ?thesis using emptiest_bid_ok[of "''a''" 5] emptiest_bid_ok[of "''b''" 9]
      by (auto simp: profile_agrees_def)
  qed
  moreover have "policy_ok (policy emptiest_auction)"
    by (simp add: emptiest_auction_def policy_ok_def sample_policy_def)
  moreover have "deadline emptiest_auction = fadd (Fin (started_at emptiest_auction))
        (Fin (collection_window_seconds (policy emptiest_auction)))"
    "fallback_deadline emptiest_auction = fadd (deadline emptiest_auction)
        (Fin (fallback_window_seconds (policy emptiest_auction)))"
    by (simp_all add: emptiest_auction_def sample_auction_def sample_policy_def
        double_round_binade[of 4] double_round_binade[of 6] round_half_even_def)
  moreover have "dict_ok (latest_by_key emptiest_auction)"
    by (simp add: emptiest_auction_def dict_ok_def)
  moreover have "\<forall>g p. dict_get (resource_profile_by_gseq emptiest_auction) g = Some p \<longrightarrow> profile_ok p"
    using sample_profile_ok[of 3000 8] by (auto simp: emptiest_auction_def split: if_splits)
  ultimately show ?thesis unfolding auction_ok_def by blast
qed

lemma emptiest_decision:
  "evaluate (Fin 40) (Some {''a''}) emptiest_auction
   = Inr (mk_result emptiest_auction DECIDED (Fin 40) (Some (emptiest_bid ''b'' 9 sample_capacity))
       EMPTIEST_PREFERRED [emptiest_bid ''b'' 9 sample_capacity, emptiest_bid ''a'' 5 sample_capacity]
       [] [''tee''])"
proof -
  let ?a = "emptiest_bid ''a'' 5 sample_capacity" and ?b = "emptiest_bid ''b'' 9 sample_capacity"
  have cl: "classify emptiest_auction (Fin 40) ?a = Inr None"
      "classify emptiest_auction (Fin 40) ?b = Inr None"
    using sample_fit
    by (simp_all add: classify_def emptiest_auction_def sample_auction_def sample_policy_def
        emptiest_bid_def sample_bid_def py_fmin_def lower_Open)
  have vals: "sort_key delivery_key (dict_values (latest_by_key emptiest_auction)) = [?a, ?b]"
    by (simp add: emptiest_auction_def dict_values_def delivery_key_def emptiest_bid_def sample_bid_def)
  have part: "partition_bids emptiest_auction (Fin 40) [?a, ?b] = Inr ([?a, ?b], [])"
    by (simp add: cl)
  have pref: "preferred_of emptiest_auction [?a, ?b] = [?a, ?b]"
    by (simp add: preferred_of_def emptiest_auction_def sample_auction_def sample_policy_def
        emptiest_bid_def sample_bid_def)
  have rk: "ranked (emptiest_bid n x sample_capacity)" for n x
    by (simp add: ranked_def emptiest_bid_def ranking_complete_for_def sample_defs
        requested_dimensions_def DIMENSIONS_def)
  have sc: "free_score (emptiest_bid n x sample_capacity) = free_score ?a" for n x
    by (simp add: free_score_def emptiest_bid_def)
  have rv: "rank {''a''} (emptiest_bid n x sample_capacity)
      = Inr (rank_value {''a''} (emptiest_bid n x sample_capacity))" if "n \<noteq> []" for n x
    using emptiest_bid_ok[OF that] sample_fit by (intro rank_eq) (auto simp: emptiest_bid_def)
  have ne: "?a \<noteq> ?b" by (simp add: emptiest_bid_def sample_bid_def)
  have lt: "rank_value {''a''} ?b < rank_value {''a''} ?a"
  proof -
    have "provider ?a = ''a''" "provider ?b = ''b''" by (simp_all add: emptiest_bid_def sample_bid_def)
    then show ?thesis by (simp add: rank_value_def rk)
  qed
  have "choose_emptiest {''a''} [?a, ?b] = Inr (choose_by (rank_value {''a''}) [?a, ?b])"
    using rv by (intro choose_emptiest_eq) auto
  also have "choose_by (rank_value {''a''}) [?a, ?b] = (Some ?b, [?b, ?a])"
    using lt by (simp add: choose_by_def py_min_def)
  finally have ch: "choose_winner emptiest_auction {''a''} [?a, ?b] [?a, ?b]
      = Inr (Some ?b, EMPTIEST_PREFERRED, [?b, ?a])"
    by (simp add: choose_winner_def rk)
      (simp add: emptiest_auction_def sample_policy_def emptiest_bid_def)
  have miss: "sorted_strings (required_proofs (policy emptiest_auction) - set (proofs ?b)) = [''tee'']"
    by (simp add: sorted_strings_def emptiest_auction_def sample_policy_def emptiest_bid_def sample_bid_def)
  have dl: "deadline emptiest_auction = Fin 30" and den: "denom ?a = ''uakt''" "denom ?b = ''uakt''"
    by (simp_all add: emptiest_auction_def sample_auction_def emptiest_bid_def sample_bid_def)
  show ?thesis
    unfolding evaluate_def Let_def vals
    by (simp add: part pref den ch miss dl del: partition_bids.simps)
qed

lemma cheapest_taken:
  "cheapest T w \<le> cheapest T b \<Longrightarrow> provider w \<in> T \<Longrightarrow> provider b \<in> T"
  by (auto simp: cheapest_def less_eq_prod_def)

lemma rank_value_taken:
  "rank_value T w \<le> rank_value T b \<Longrightarrow> provider w \<in> T \<Longrightarrow> provider b \<in> T"
  by (auto simp: rank_value_def less_eq_prod_def split: if_splits)

lemma rank_value_full:
  "rank_value T w \<le> rank_value T b \<Longrightarrow> ranked w \<Longrightarrow> ranked b \<Longrightarrow>
   (provider b \<in> T) = (provider w \<in> T) \<Longrightarrow> free_score b \<le> free_score w"
  by (auto simp: rank_value_def less_eq_prod_def)

lemma rank_value_incomplete:
  "rank_value T w \<le> rank_value T b \<Longrightarrow> \<not> ranked w \<Longrightarrow>
   (provider b \<in> T) = (provider w \<in> T) \<Longrightarrow>
   \<not> ranked b \<and> dec_val (price w) \<le> dec_val (price b)"
  by (auto simp: rank_value_def less_eq_prod_def split: if_splits)

text \<open>
  Emptiest-first with anti-affinity. Under the emptiest policy, in every preferred
  branch, degraded ones included, a provider already taken this round wins only when every
  considered bid is from a taken provider. An emptiest winner is fully ranked and has the
  largest binding free fraction among the ranked bids of its class; an incomplete winner is
  reported as such, and then no bid of its class could be ranked.
\<close>

theorem emptiest_selection:
  assumes "auction_ok a" and "evaluate now already a = Inr res" and "selected res = Some w"
    and "policy_selection (policy a) = EMPTIEST" and "selection_reason res \<noteq> FIRST_ELIGIBLE_FALLBACK"
  shows "(provider w \<in> taken_of already \<longrightarrow> (\<forall>b \<in> set (considered res). provider b \<in> taken_of already))
    \<and> (selection_reason res = EMPTIEST_PREFERRED \<longrightarrow> ranked w \<and>
        (\<forall>b \<in> set (considered res). (provider b \<in> taken_of already \<longleftrightarrow> provider w \<in> taken_of already) \<longrightarrow>
           ranked b \<longrightarrow> free_score b \<le> free_score w))
    \<and> (selection_reason res = EMPTIEST_CAPACITY_INCOMPLETE_FELL_BACK_TO_CHEAPEST \<longrightarrow>
        (\<forall>b \<in> set (considered res). (provider b \<in> taken_of already \<longleftrightarrow> provider w \<in> taken_of already) \<longrightarrow>
           \<not> ranked b \<and> dec_val (price w) \<le> dec_val (price b)))"
proof (cases rule: evaluate_cases[OF assms(2,1)])
  case (4 w' reason cons)
  have [simp]: "w' = w" using 4(8) assms(3) by (simp add: mk_result_def)
  have r: "considered res = cons" "selection_reason res = reason"
    using 4(8) by (simp_all add: mk_result_def)
  have cons: "set cons = set (pool_of a now)" using 4(5) by (metis set_mset_mset)
  have "reason \<noteq> CHEAPEST_PREFERRED" "reason \<noteq> FIRST_ELIGIBLE_FALLBACK"
    using 4(7) assms(4,5) r by auto
  then consider
      (unprofiled) "reason = EMPTIEST_REQUEST_PROFILE_UNAVAILABLE_FELL_BACK_TO_CHEAPEST"
        "\<forall>b \<in> set cons. cheapest (taken_of already) w \<le> cheapest (taken_of already) b"
    | (full) "reason = EMPTIEST_PREFERRED" "ranked w"
        "\<forall>b \<in> set cons. rank_value (taken_of already) w \<le> rank_value (taken_of already) b"
    | (incomplete) "reason = EMPTIEST_CAPACITY_INCOMPLETE_FELL_BACK_TO_CHEAPEST" "\<not> ranked w"
        "\<forall>b \<in> set cons. rank_value (taken_of already) w \<le> rank_value (taken_of already) b"
    using 4(4) unfolding cons by (cases reason) (simp_all add: decides_by_def)
  then show ?thesis
  proof cases
    case unprofiled
    then show ?thesis unfolding r using cheapest_taken by auto
  next
    case full
    then show ?thesis unfolding r using rank_value_taken rank_value_full by auto
  next
    case incomplete
    then show ?thesis unfolding r using rank_value_taken rank_value_incomplete by auto
  qed
qed (use assms(3) in \<open>simp_all add: mk_result_def\<close>)

theorem emptiest_selection_witness:
  "ranked (emptiest_bid ''b'' 9 sample_capacity)"
  using emptiest_selection[OF emptiest_auction_ok emptiest_decision,
      of "emptiest_bid ''b'' 9 sample_capacity"]
  by (simp add: mk_result_def emptiest_auction_def)

end
