(* ===== verification/AuctionResume.thy ===== *)
theory AuctionResume
  imports AuctionSnapshot AuctionProperties
begin

text \<open>
  Crash resume: a snapshot read back gives the same auction, and whatever was handed to
  \<open>restore\<close>, what it accepts is a well-formed auction of the expected order.
\<close>

section \<open>Values that their constructors accepted\<close>

definition quantity_valid :: "quantity option \<Rightarrow> bool" where
  "quantity_valid q \<longleftrightarrow> check_available (pyval_of_option q) = Inr q"

definition node_valid :: "node_capacity \<Rightarrow> bool" where
  "node_valid n \<longleftrightarrow> (\<forall>d. quantity_valid (node_available d n))"

definition capacity_valid :: "provider_capacity \<Rightarrow> bool" where
  "capacity_valid c \<longleftrightarrow> capacity_ok c \<and> (\<forall>d. quantity_valid (aggregate_available d c)) \<and>
     (\<forall>ns. node_capacities c = Some ns \<longrightarrow> (\<forall>n \<in> set ns. node_valid n))"

definition bid_valid :: "bid_observation \<Rightarrow> bool" where
  "bid_valid b \<longleftrightarrow> bid_ok b \<and> (\<forall>c. bid_capacity b = Some c \<longrightarrow> capacity_valid c)"

lemma as_quantity_pyval: "as_quantity v = Some q \<longleftrightarrow> v = pyval_of_quantity q"
  by (cases v rule: as_quantity.cases; cases q) auto

lemma check_available_valid: "check_available v = Inr q \<Longrightarrow> quantity_valid q"
proof (cases q)
  case (Some x)
  assume c: "check_available v = Inr q"
  then have "as_quantity v = Some x" using Some check_available_ok by blast
  then show ?thesis using c Some
    by (simp add: as_quantity_pyval quantity_valid_def pyval_of_option_def)
qed (simp add: quantity_valid_def pyval_of_option_def check_available_def)

lemma mk_node_capacity_valid: "mk_node_capacity c m s g = Inr n \<Longrightarrow> node_valid n"
  by (auto simp: mk_node_capacity_def node_valid_def dimension_all dest: check_available_valid)

lemma mk_provider_capacity_valid:
  assumes "mk_provider_capacity a b c d e f g h nodes = Inr cap"
    and "\<And>ns n. nodes = Some ns \<Longrightarrow> n \<in> set ns \<Longrightarrow> node_valid n \<and> node_ok n"
  shows "capacity_valid cap"
proof -
  have "capacity_ok cap" using assms by (intro mk_provider_capacity_ok[OF assms(1)]) auto
  then show ?thesis using assms unfolding capacity_valid_def dimension_all
    by (auto simp: mk_provider_capacity_def split: if_splits dest: check_available_valid)
qed

section \<open>Round trips of the codecs\<close>

named_theorems codec_simps \<open>decoding what the encoder wrote\<close>

lemma decode_fields_PDict:
  "map fst m = ks \<Longrightarrow> decode_fields ks (PDict m) = Inr (mapping_get m)"
  by (auto simp: decode_fields_def)

lemma decode_str_PStr [codec_simps]: "decode_str (PStr s) = Inr s"
  by (simp add: decode_str_def)

lemma decode_encode_float [codec_simps]: "decode_float (encode_float x) = Inr x"
  by (simp add: decode_float_def encode_float_def)

lemma decode_encode_float_or_none [codec_simps]:
  "decode_float_or_none (encode_float_or_none x) = Inr x"
  by (cases x) (simp_all add: decode_float_or_none_def encode_float_or_none_def encode_float_def
      decode_float_def)

lemma decode_encode_decimal [codec_simps]: "decode_decimal (encode_decimal d) = Inr (DFin d)"
  by (simp add: decode_decimal_def encode_decimal_def parse_decimal_str)

lemma decode_int_PInt [codec_simps]: "decode_int (PInt i) = Inr i"
  by (simp add: decode_int_def)

lemma decode_encode_int_or_none [codec_simps]: "decode_int_or_none (encode_int_or_none x) = Inr x"
  by (cases x) (simp_all add: decode_int_or_none_def encode_int_or_none_def decode_int_def)

lemma decode_encode_list [codec_simps]: "decode_str_list (encode_list xs) = Inr xs"
proof -
  have "mapR decode_str (map PStr xs) = Inr (map (\<lambda>v. case v of PStr s \<Rightarrow> s) (map PStr xs))"
    by (rule mapR_all_Inr) (auto simp: decode_str_def)
  then show ?thesis by (simp add: decode_str_list_def encode_list_def o_def)
qed

lemma decode_encode_sorted [codec_simps]:
  "decode_str_list (encode_sorted s) = Inr (sorted_strings s)"
  by (simp add: encode_sorted_def codec_simps)

lemma decode_encode_sorted_or_none [codec_simps]:
  "decode_str_list_or_none (encode_sorted_or_none s) = Inr (map_option sorted_strings s)"
  by (cases s) (simp_all add: decode_str_list_or_none_def encode_sorted_or_none_def
      codec_simps, simp_all add: encode_sorted_def encode_list_def)

lemma decode_encode_selection [codec_simps]:
  "decode_preferred_selection (encode_selection s) = Inr s"
  by (cases s) (simp_all add: decode_preferred_selection_def encode_selection_def decode_str_def)

lemma decode_encode_quantity [codec_simps]:
  assumes "quantity_valid q"
  shows "decode_quantity_or_none (encode_quantity_or_none q) = Inr (pyval_of_option q)"
proof (cases q)
  case (Some x)
  have "math_isfinite (pyval_of_quantity x) = Inr True"
  proof (cases "math_isfinite (pyval_of_quantity x)")
    case (Inl e)
    then show ?thesis using assms Some
      by (simp add: quantity_valid_def pyval_of_option_def check_available_def real_number_def
          split: if_splits)
  next
    case (Inr r)
    then show ?thesis using assms Some
      by (cases r) (simp_all add: quantity_valid_def pyval_of_option_def check_available_def
          split: if_splits)
  qed
  then show ?thesis using Some
    by (cases x) (simp_all add: decode_quantity_or_none_def encode_quantity_or_none_def
        pyval_of_option_def encode_decimal_def parse_decimal_str del: math_isfinite.simps)
qed (simp add: decode_quantity_or_none_def encode_quantity_or_none_def pyval_of_option_def)

lemma decode_encode_node:
  assumes "node_valid n"
  shows "decode_node (encode_node n) = Inr n"
proof -
  have v: "quantity_valid (node_cpu_available n)" "quantity_valid (node_memory_available n)"
    "quantity_valid (node_storage_available n)" "quantity_valid (node_gpu_available n)"
    using assms by (auto simp: node_valid_def dimension_all)
  then show ?thesis
    unfolding decode_node_def encode_node_def
    by (simp add: decode_fields_PDict mapping_get_def codec_simps mk_node_capacity_def
        quantity_valid_def)
qed

lemma decode_encode_nodes:
  assumes "\<forall>n \<in> set ns. node_valid n"
  shows "mapR decode_node (map encode_node ns) = Inr ns"
  using assms by (induction ns) (simp_all add: decode_encode_node)

lemma check_fraction_encode:
  "(\<And>x. f = Some x \<Longrightarrow> 0 \<le> x \<and> x \<le> 1) \<Longrightarrow> check_fraction (encode_float_or_none f) = Inr f"
  by (cases f) (simp_all add: check_fraction_def encode_float_or_none_def encode_float_def)

lemma decode_encode_capacity:
  assumes "\<And>x. c = Some x \<Longrightarrow> capacity_valid x"
  shows "decode_capacity (encode_capacity c) = Inr c"
proof (cases c)
  case (Some x)
  then have x: "capacity_valid x" by (rule assms)
  have q: "quantity_valid (cpu_millicores_available x)" "quantity_valid (memory_bytes_available x)"
    "quantity_valid (storage_bytes_available x)" "quantity_valid (gpu_count_available x)"
    using x by (auto simp: capacity_valid_def dimension_all)
  have fr: "check_fraction (encode_float_or_none (cap_cpu x)) = Inr (cap_cpu x)"
    "check_fraction (encode_float_or_none (cap_memory x)) = Inr (cap_memory x)"
    "check_fraction (encode_float_or_none (cap_storage x)) = Inr (cap_storage x)"
    "check_fraction (encode_float_or_none (cap_gpu x)) = Inr (cap_gpu x)"
    using x by (auto intro!: check_fraction_encode simp: capacity_valid_def capacity_ok_def dimension_all)
  have ns: "decode_node_capacities (case node_capacities x of None \<Rightarrow> PNone
      | Some ns \<Rightarrow> PList (map encode_node ns)) = Inr (node_capacities x)"
    using x decode_encode_nodes
    by (cases "node_capacities x") (simp_all add: decode_node_capacities_def capacity_valid_def)
  have "node_capacities x \<noteq> Some []" using x by (auto simp: capacity_valid_def capacity_ok_def)
  then have mk: "mk_provider_capacity (encode_float_or_none (cap_cpu x))
      (encode_float_or_none (cap_memory x)) (encode_float_or_none (cap_storage x))
      (encode_float_or_none (cap_gpu x)) (pyval_of_option (cpu_millicores_available x))
      (pyval_of_option (memory_bytes_available x)) (pyval_of_option (storage_bytes_available x))
      (pyval_of_option (gpu_count_available x)) (node_capacities x) = Inr x"
    using fr q by (simp add: mk_provider_capacity_def quantity_valid_def)
  show ?thesis
    unfolding Some decode_capacity_def encode_capacity_def option.case
    by (simp add: decode_fields_PDict mapping_get_def codec_simps q ns mk)
qed (simp add: decode_capacity_def encode_capacity_def)

lemma replica_record:
  "\<lparr>rp_cpu_millicores = rp_cpu_millicores r, rp_memory_bytes = rp_memory_bytes r,
    rp_storage_bytes = rp_storage_bytes r, rp_gpu_count = rp_gpu_count r\<rparr> = r"
  by (cases r) simp

lemma profile_record:
  "\<lparr>cpu_millicores = cpu_millicores p, memory_bytes = memory_bytes p,
    storage_bytes = storage_bytes p, gpu_count = gpu_count p, replicas = replicas p\<rparr> = p"
  by (cases p) simp

lemma decode_encode_replica:
  assumes "replica_ok r"
  shows "decode_replica (encode_replica r) = Inr r"
proof -
  have "mk_replica_profile (PInt (rp_cpu_millicores r)) (PInt (rp_memory_bytes r))
      (PInt (rp_storage_bytes r)) (PInt (rp_gpu_count r)) = Inr r"
    using assms by (simp add: mk_replica_profile_def check_request_def replica_ok_def dimension_all
        Let_def not_less replica_record)
  then show ?thesis
    unfolding decode_replica_def encode_replica_def
    by (simp add: decode_fields_PDict mapping_get_def codec_simps)
qed

lemma decode_encode_profile:
  assumes "\<And>x. p = Some x \<Longrightarrow> profile_ok x"
  shows "decode_resource_profile (encode_resource_profile p) = Inr p"
proof (cases p)
  case (Some x)
  then have x: "profile_ok x" by (rule assms)
  have nonneg: "0 \<le> group_request d x" for d using x by (rule profile_ok_nonneg)
  have rs: "mapR decode_replica (map encode_replica (replicas x)) = Inr (replicas x)"
    using x unfolding profile_ok_def
    by (induction "replicas x") (simp_all add: mapR_Inr_all decode_encode_replica list_all2_map1 list.rel_refl_strong)
  have "mk_resource_profile (PInt (cpu_millicores x)) (PInt (memory_bytes x)) (PInt (storage_bytes x))
      (PInt (gpu_count x)) (replicas x) = Inr x"
    using x profile_requested_nonempty[OF x] nonneg[of Cpu] nonneg[of Memory] nonneg[of Storage] nonneg[of Gpu]
    by (simp add: mk_resource_profile_def check_request_def Let_def not_less profile_ok_def
        list_all_iff profile_record)
  then show ?thesis
    unfolding Some decode_resource_profile_def encode_resource_profile_def option.case
    by (simp add: decode_fields_PDict mapping_get_def codec_simps decode_replica_profiles_def rs)
qed (simp add: decode_resource_profile_def encode_resource_profile_def)

lemma decode_encode_policy:
  assumes "policy_ok p"
  shows "decode_policy (encode_policy p) = Inr p"
proof -
  have "map_option set (map_option sorted_strings (eligible_providers p)) = eligible_providers p"
    using assms by (cases "eligible_providers p") (simp_all add: policy_ok_def sorted_strings_def)
  then have "mk_policy (Fin (collection_window_seconds p)) (Fin (fallback_window_seconds p))
      (sorted_strings (preferred_providers p)) (map_option sorted_strings (eligible_providers p))
      (sorted_strings (excluded_providers p)) (sorted_strings (required_proofs p))
      (policy_selection p) (policy_version p) = Inr p"
    using assms by (simp add: mk_policy_def check_window_def policy_ok_def sorted_strings_def)
  then show ?thesis
    unfolding decode_policy_def encode_policy_def
    by (simp add: decode_fields_PDict mapping_get_def codec_simps)
qed

lemma decode_encode_bid:
  assumes "bid_valid b"
  shows "decode_bid (Fin 0) (encode_bid b) = Inr b"
proof -
  have b: "bid_ok b" and cap: "\<And>c. bid_capacity b = Some c \<Longrightarrow> capacity_valid c"
    and prof: "\<And>p. bid_profile b = Some p \<Longrightarrow> profile_ok p"
    using assms by (auto simp: bid_valid_def bid_ok_def)
  have "check_gseq (encode_int_or_none (gseq b)) = Inr (gseq b)"
    using b by (cases "gseq b") (auto simp: check_gseq_def encode_int_or_none_def bid_ok_def)
  then have "mk_bid (bid_key b) (provider b) (PDec (DFin (price b))) (denom b) (Fin (observed_at b))
      (bid_state b) (proofs b) (bid_capacity b) (bid_profile b) (encode_int_or_none (gseq b)) = Inr b"
    using b by (simp add: mk_bid_def price_decimal_def bid_ok_def)
  then show ?thesis
    unfolding decode_bid_def encode_bid_def
    by (simp add: decode_fields_PDict mapping_get_def codec_simps decode_encode_capacity[OF cap]
        decode_encode_profile[OF prof])
qed

section \<open>Rebuilding the state by observing the stored bids\<close>

definition keyed_bids :: "bid_observation list \<Rightarrow> (string, bid_observation) dict" where
  "keyed_bids bs = map (\<lambda>b. (bid_key b, b)) bs"

lemma keyed_bids_get_None: "bid_key b \<notin> bid_key ` set bs \<Longrightarrow> dict_get (keyed_bids bs) (bid_key b) = None"
  by (auto simp: keyed_bids_def map_of_eq_None_iff)

lemma keyed_bids_set: "bid_key b \<notin> bid_key ` set bs \<Longrightarrow>
  dict_set (bid_key b) b (keyed_bids bs) = keyed_bids (bs @ [b])"
  by (auto simp: keyed_bids_def intro!: dict_set_fresh[THEN trans])

lemma dict_values_keyed [simp]: "dict_values (keyed_bids bs) = bs"
  by (simp add: dict_values_def keyed_bids_def o_def)

lemma auction_ok_keyed: "auction_ok a \<Longrightarrow> latest_by_key a = keyed_bids (observed_bids a)"
proof -
  assume a: "auction_ok a"
  then have "k = bid_key b" if "(k, b) \<in> set (latest_by_key a)" for k b
    using that by (auto simp: auction_ok_def dict_get_in)
  then show ?thesis
    unfolding keyed_bids_def observed_bids_def dict_values_def
    by (induction "latest_by_key a") (auto intro!: map_idI[symmetric])
qed

lemma auction_ok_distinct: "auction_ok a \<Longrightarrow> distinct (map bid_key (observed_bids a))"
proof -
  assume a: "auction_ok a"
  then have "dict_ok (keyed_bids (observed_bids a))"
    using auction_ok_keyed[OF a] by (metis auction_ok_def)
  then show ?thesis by (simp add: dict_ok_def keyed_bids_def o_def)
qed

text \<open>The state after the first bids: the demand of every group seen so far is \<open>F\<close>.\<close>

definition rebuilt :: "auction \<Rightarrow> (int \<Rightarrow> resource_profile option) \<Rightarrow> bid_observation list \<Rightarrow> auction \<Rightarrow> bool" where
  "rebuilt a0 F bs a \<longleftrightarrow>
     policy a = policy a0 \<and> started_at a = started_at a0 \<and> deadline a = deadline a0 \<and>
     fallback_deadline a = fallback_deadline a0 \<and> latest_by_key a = keyed_bids bs \<and>
     (\<forall>g. dict_get (resource_profile_by_gseq a) g
        = (if Some g \<in> gseq ` set bs then F g else None))"

lemma spread_profile_id:
  assumes "\<And>c. c \<in> set bs \<Longrightarrow> gseq c = Some g \<Longrightarrow> bid_profile c \<noteq> None"
  shows "spread_profile g p (keyed_bids bs) = keyed_bids bs"
  using assms by (auto simp: spread_profile_def keyed_bids_def)

lemma observe_rebuilt:
  assumes a: "rebuilt a0 F bs a" and fresh: "bid_key b \<notin> bid_key ` set bs"
    and F: "\<And>c g. c \<in> insert b (set bs) \<Longrightarrow> gseq c = Some g \<Longrightarrow> bid_profile c = F g"
  shows "\<exists>a'. observe b a = (Inr (), a') \<and> rebuilt a0 F (bs @ [b]) a'"
proof -
  have lk: "latest_by_key a = keyed_bids bs" using a by (simp add: rebuilt_def)
  have cur: "dict_get (latest_by_key a) (bid_key b) = None"
    using fresh keyed_bids_get_None by (simp add: lk)
  then have obs: "observe b a = (case bind_resource_profile b a of (Inl e, a') \<Rightarrow> (Inl e, a')
      | (Inr b2, a') \<Rightarrow> (Inr (), a'\<lparr>latest_by_key := dict_set (bid_key b2) b2 (latest_by_key a')\<rparr>))"
    by (auto simp: observe_def carry_identity_def split: prod.splits sum.splits)
  have pg: "dict_get (resource_profile_by_gseq a) g = (if Some g \<in> gseq ` set bs then F g else None)" for g
    using a by (simp add: rebuilt_def)
  have keep: "\<exists>a'. observe b a = (Inr (), a') \<and> rebuilt a0 F (bs @ [b]) a'"
    if "bind_resource_profile b a = (Inr b, a)"
      and "\<And>g. gseq b = Some g \<Longrightarrow> Some g \<notin> gseq ` set bs \<Longrightarrow> F g = None"
  proof -
    have "observe b a = (Inr (), a\<lparr>latest_by_key := keyed_bids (bs @ [b])\<rparr>)"
      using obs that(1) keyed_bids_set[OF fresh] lk by simp
    moreover have "rebuilt a0 F (bs @ [b]) (a\<lparr>latest_by_key := keyed_bids (bs @ [b])\<rparr>)"
      using a that(2) by (auto simp: rebuilt_def)
    ultimately show ?thesis by blast
  qed
  show ?thesis
  proof (cases "gseq b")
    case None
    then show ?thesis by (intro keep) (simp_all add: bind_resource_profile_def)
  next
    case g: (Some g)
    then have Fb: "bid_profile b = F g" using F[of b g] by simp
    show ?thesis
    proof (cases "F g")
      case None
      then show ?thesis using g Fb pg[of g]
        by (intro keep) (simp_all add: bind_resource_profile_def Let_def)
    next
      case (Some p)
      show ?thesis
      proof (cases "Some g \<in> gseq ` set bs")
        case True
        then show ?thesis using g Fb Some pg[of g]
          by (intro keep) (simp_all add: bind_resource_profile_def Let_def)
      next
        case False
        let ?a = "a\<lparr>resource_profile_by_gseq := dict_set g p (resource_profile_by_gseq a),
                    latest_by_key := keyed_bids bs\<rparr>"
        have "gseq c \<noteq> Some g" if "c \<in> set bs" for c using that False by force
        then have "spread_profile g p (keyed_bids bs) = keyed_bids bs"
          by (intro spread_profile_id) blast
        then have "bind_resource_profile b a = (Inr b, ?a)"
          using g Fb Some pg[of g] False lk by (simp add: bind_resource_profile_def Let_def)
        then have "observe b a = (Inr (), ?a\<lparr>latest_by_key := keyed_bids (bs @ [b])\<rparr>)"
          using obs keyed_bids_set[OF fresh] by simp
        moreover have "rebuilt a0 F (bs @ [b]) (?a\<lparr>latest_by_key := keyed_bids (bs @ [b])\<rparr>)"
          using a g Some by (auto simp: rebuilt_def)
        ultimately show ?thesis by blast
      qed
    qed
  qed
qed

lemma observe_many_rebuilt:
  assumes "rebuilt a0 F bs a" and "distinct (map bid_key (bs @ cs))"
    and "\<And>c g. c \<in> set (bs @ cs) \<Longrightarrow> gseq c = Some g \<Longrightarrow> bid_profile c = F g"
  shows "\<exists>a'. observe_many cs a = (Inr (), a') \<and> rebuilt a0 F (bs @ cs) a'"
  using assms
proof (induction cs arbitrary: bs a)
  case (Cons c cs)
  have fresh: "bid_key c \<notin> bid_key ` set bs" using Cons.prems(2) by auto
  have Fc: "\<And>x g. x \<in> insert c (set bs) \<Longrightarrow> gseq x = Some g \<Longrightarrow> bid_profile x = F g"
    using Cons.prems(3) by auto
  obtain a1 where a1: "observe c a = (Inr (), a1)" "rebuilt a0 F (bs @ [c]) a1"
    using observe_rebuilt[OF Cons.prems(1) fresh Fc] by blast
  have "\<exists>a'. observe_many cs a1 = (Inr (), a') \<and> rebuilt a0 F ((bs @ [c]) @ cs) a'"
    using Cons.prems(2,3) by (intro Cons.IH[OF a1(2)]) auto
  then show ?case using a1(1) by simp
qed simp

lemma decode_bids_encoded:
  assumes "\<forall>b \<in> set bs. bid_valid b" and "distinct (map bid_key (cs @ bs))"
  shows "decode_bids (Fin 0) (map encode_bid bs) (keyed_bids cs) = Inr (keyed_bids (cs @ bs))"
  using assms
proof (induction bs arbitrary: cs)
  case (Cons b bs)
  then have fresh: "bid_key b \<notin> bid_key ` set cs" by auto
  have "decode_bids (Fin 0) (map encode_bid bs) (keyed_bids (cs @ [b])) = Inr (keyed_bids ((cs @ [b]) @ bs))"
    using Cons.prems by (intro Cons.IH) auto
  then show ?case
    using Cons.prems(1) decode_encode_bid[of b] keyed_bids_get_None[OF fresh] keyed_bids_set[OF fresh]
    by simp
qed simp

section \<open>Every bound group has a bid\<close>

definition profiles_used :: "auction \<Rightarrow> bool" where
  "profiles_used a \<longleftrightarrow>
     (\<forall>g p. dict_get (resource_profile_by_gseq a) g = Some p \<longrightarrow>
        (\<exists>k b. dict_get (latest_by_key a) k = Some b \<and> gseq b = Some g))"

lemma observe_profiles_used:
  assumes obs: "observe b a = (r, a')" and a: "auction_ok a" and b: "bid_ok b" and used: "profiles_used a"
  shows "profiles_used a'"
  using obs
proof (cases rule: observe_cases)
  case (recorded b1 b2 a1)
  have ev: "evolves a a'" using observe_keeps[OF obs a b] by simp
  have "bid_ok b1"
    using bid_ok_carry[OF recorded(2) b] a by (auto simp: auction_ok_def)
  note bind = bind_keeps[OF recorded(3) a this]
  show ?thesis
    unfolding profiles_used_def
  proof (intro allI impI)
    fix g p assume p: "dict_get (resource_profile_by_gseq a') g = Some p"
    show "\<exists>k b. dict_get (latest_by_key a') k = Some b \<and> gseq b = Some g"
    proof (cases "dict_get (resource_profile_by_gseq a) g")
      case (Some q)
      then obtain k c where "dict_get (latest_by_key a) k = Some c" "gseq c = Some g"
        using used by (auto simp: profiles_used_def)
      then show ?thesis using evolves_keeps_get[OF ev] unfolding keeps_bid_def by blast
    next
      case None
      have "resource_profile_by_gseq a' = resource_profile_by_gseq a1" using recorded(4) by simp
      with p None have "gseq b1 = Some g"
        by (cases rule: bind_resource_profile_cases[OF recorded(3)]) (auto split: if_splits)
      then have g: "gseq b2 = Some g" using bind(7) by simp
      have "dict_get (latest_by_key a') (bid_key b2) = Some (case dict_get (latest_by_key a) (bid_key b) of
          None \<Rightarrow> b2 | Some c \<Rightarrow> b2\<lparr>observed_at := observed_at c\<rparr>)"
        using recorded(4) by simp
      moreover have "gseq (case dict_get (latest_by_key a) (bid_key b) of
          None \<Rightarrow> b2 | Some c \<Rightarrow> b2\<lparr>observed_at := observed_at c\<rparr>) = Some g"
        using g by (simp split: option.splits)
      ultimately show ?thesis by blast
    qed
  qed
qed (use used in simp)

lemma reachable_profiles_used:
  assumes "reachable p t a" and "policy_ok p"
  shows "profiles_used a"
proof -
  obtain a0 where a0: "mk_auction p (Fin t) = Inr a0" "observes\<^sup>*\<^sup>* a0 a"
    using assms(1) by (auto simp: reachable_def)
  have ok: "auction_ok a0" using a0(1) assms(2) by (rule mk_auction_ok)
  have "profiles_used a0" using a0(1) by (auto simp: mk_auction_def Let_def profiles_used_def)
  with a0(2) show ?thesis
  proof (induction rule: rtranclp_induct)
    case (step b c)
    then obtain x r where "observe x b = (r, c)" "bid_ok x" by (auto elim: observesE)
    moreover have "auction_ok b" using observes_star_keeps[OF step(1) ok] by simp
    ultimately show ?case using observe_profiles_used step by blast
  qed
qed

section \<open>Round trip\<close>

lemma restore_snapshot:
  assumes a: "auction_ok a" and used: "profiles_used a" and z: "started_at a = 0"
    and valid: "\<forall>b \<in> set (observed_bids a). bid_valid b"
    and s: "validate_scope scope = Inr s"
  obtains snap a' where "snapshot scope a = Inr snap" "restore snap scope PNone = Inr a'"
    "policy a' = policy a" "started_at a' = started_at a" "deadline a' = deadline a"
    "fallback_deadline a' = fallback_deadline a" "latest_by_key a' = latest_by_key a"
    "dict_get (resource_profile_by_gseq a') = dict_get (resource_profile_by_gseq a)"
proof -
  let ?bs = "observed_bids a"
  define snap where "snap = PDict
      [(''version'', PStr AUCTION_SNAPSHOT_VERSION), (''scope'', scope_value s),
       (''started_at'', encode_float 0), (''policy'', encode_policy (policy a)),
       (''bids'', PList (map encode_bid ?bs))]"
  have snap: "snapshot scope a = Inr snap"
    using s z by (simp add: snapshot_def snap_def observed_bids_def)
  have s': "validate_scope (scope_value s) = Inr s"
    using s by (auto simp: validate_scope_def scope_value_def split: pyval.splits if_splits)
  have pol: "policy_ok (policy a)" using a by (simp add: auction_ok_def)
  define a0 where "a0 = \<lparr>policy = policy a, started_at = 0, deadline = deadline a,
      fallback_deadline = fallback_deadline a, latest_by_key = [], resource_profile_by_gseq = []\<rparr>"
  have mk: "mk_auction (policy a) (Fin 0) = Inr a0"
    using a z by (simp add: mk_auction_def a0_def auction_ok_def Let_def)
  have dec: "decode_bids (Fin 0) (map encode_bid ?bs) [] = Inr (keyed_bids ?bs)"
    using decode_bids_encoded[of ?bs "[]"] valid auction_ok_distinct[OF a]
    by (simp add: keyed_bids_def)
  have F: "bid_profile c = dict_get (resource_profile_by_gseq a) g"
    if c: "c \<in> set ([] @ ?bs)" "gseq c = Some g" for c g
  proof -
    have "dict_get (latest_by_key a) (bid_key c) = Some c"
      using c(1) observed_bids_get[OF a, of c] by simp
    then have "profile_agrees (resource_profile_by_gseq a) c"
      using a unfolding auction_ok_def by blast
    then show ?thesis using c(2) by (simp add: profile_agrees_def)
  qed
  have "rebuilt a0 (dict_get (resource_profile_by_gseq a)) [] a0"
    by (simp add: rebuilt_def a0_def keyed_bids_def)
  from observe_many_rebuilt[OF this _ F] obtain a' where
    a': "observe_many ?bs a0 = (Inr (), a')" "rebuilt a0 (dict_get (resource_profile_by_gseq a)) ?bs a'"
    using auction_ok_distinct[OF a] by auto
  have r: "restore snap scope PNone = Inr a'"
    unfolding snap_def restore_def restore_anchor_def restore_bids_def
    by (simp add: mapping_get_def SNAPSHOT_KEYS_def s s' codec_simps decode_encode_policy[OF pol]
        dec mk a'(1))
  have profs: "dict_get (resource_profile_by_gseq a') g = dict_get (resource_profile_by_gseq a) g" for g
  proof (cases "dict_get (resource_profile_by_gseq a) g")
    case (Some p)
    then obtain k b where "dict_get (latest_by_key a) k = Some b" "gseq b = Some g"
      using used by (auto simp: profiles_used_def)
    then have "Some g \<in> gseq ` set ?bs"
      using a observed_bids_get[OF a, of b] by (force simp: auction_ok_def)
    then show ?thesis using a'(2) by (simp add: rebuilt_def)
  qed (use a'(2) in \<open>simp add: rebuilt_def\<close>)
  have fields: "policy a' = policy a" "started_at a' = started_at a" "deadline a' = deadline a"
    "fallback_deadline a' = fallback_deadline a" "latest_by_key a' = keyed_bids ?bs"
    using a'(2) z by (simp_all add: rebuilt_def a0_def)
  have latest: "latest_by_key a' = latest_by_key a"
    using fields(5) auction_ok_keyed[OF a] by simp
  have "dict_get (resource_profile_by_gseq a') = dict_get (resource_profile_by_gseq a)"
    using profs by (rule ext)
  from that[OF snap r fields(1-4) latest this] show ?thesis .
qed

section \<open>What \<open>restore\<close> accepts\<close>

lemma decode_node_ok: "decode_node v = Inr n \<Longrightarrow> node_valid n \<and> node_ok n"
  using mk_node_capacity_valid mk_node_capacity_ok by (fastforce simp: decode_node_def)

lemma decode_capacity_valid: "decode_capacity v = Inr (Some c) \<Longrightarrow> capacity_valid c"
proof -
  assume d: "decode_capacity v = Inr (Some c)"
  then obtain e1 e2 e3 e4 e5 e6 e7 e8 w ns where
    mk: "mk_provider_capacity e1 e2 e3 e4 e5 e6 e7 e8 ns = Inr c"
    and ns: "decode_node_capacities w = Inr ns"
    by (auto simp: decode_capacity_def split: if_splits)
  have "node_valid n \<and> node_ok n" if "ns = Some xs" "n \<in> set xs" for xs n
    using ns that decode_node_ok
    by (auto simp: decode_node_capacities_def mapR_Inr_all list_all2_conv_all_nth in_set_conv_nth
        split: pyval.splits)
  then show ?thesis using mk_provider_capacity_valid[OF mk] by blast
qed

lemma decode_profile_ok: "decode_resource_profile v = Inr (Some p) \<Longrightarrow> profile_ok p"
proof -
  assume d: "decode_resource_profile v = Inr (Some p)"
  then obtain c m s g rs w where mk: "mk_resource_profile (PInt c) (PInt m) (PInt s) (PInt g) rs = Inr p"
    and rs: "decode_replica_profiles w = Inr rs"
    by (auto simp: decode_resource_profile_def split: if_splits)
  have "replica_ok r" if "decode_replica x = Inr r" for x r
    using that mk_replica_profile_ok by (auto simp: decode_replica_def)
  then have "replica_ok r" if "r \<in> set rs" for r
    using rs that by (auto simp: decode_replica_profiles_def mapR_Inr_all list_all2_conv_all_nth
        in_set_conv_nth split: pyval.splits)
  then show ?thesis using mk_resource_profile_ok[OF mk] by blast
qed

lemma mk_bid_ok:
  assumes "mk_bid key prov amount den seen st prfs cap prof grp = Inr b"
    and "\<And>c. cap = Some c \<Longrightarrow> capacity_valid c" and "\<And>p. prof = Some p \<Longrightarrow> profile_ok p"
  shows "bid_valid b"
proof -
  obtain p t g where b: "price_decimal amount = Inr (DFin p)" "0 \<le> dec_val p" "check_gseq grp = Inr g"
    "b = \<lparr>bid_key = key, provider = prov, price = p, denom = den, observed_at = t, bid_state = st,
          proofs = prfs, bid_capacity = cap, bid_profile = prof, gseq = g\<rparr>"
    "key \<noteq> []" "prov \<noteq> []" "den \<noteq> []"
  proof -
    obtain d where d: "price_decimal amount = Inr d" "key \<noteq> []" "prov \<noteq> []" "den \<noteq> []"
      and r: "(case d of DFin p \<Rightarrow> if dec_val p < 0 then Inl ValueError
          else (case seen of Fin t \<Rightarrow> bindR (check_gseq grp) (\<lambda>g.
                    Inr \<lparr>bid_key = key, provider = prov, price = p, denom = den,
                         observed_at = t, bid_state = st, proofs = prfs,
                         bid_capacity = cap, bid_profile = prof, gseq = g\<rparr>)
                | _ \<Rightarrow> Inl ValueError) | _ \<Rightarrow> Inl ValueError) = Inr b"
      using assms(1) unfolding mk_bid_def by auto
    obtain p where p: "d = DFin p" "0 \<le> dec_val p" using r by (cases d) (auto split: if_splits)
    obtain t where t: "seen = Fin t" using r p by (cases seen) auto
    show ?thesis using that d r p t by auto
  qed
  have "1 \<le> i" if "g = Some i" for i
    using b(3) that by (auto simp: check_gseq_def split: pyval.split_asm if_split_asm)
  moreover have "capacity_ok c" if "cap = Some c" for c
    using assms(2)[OF that] by (simp add: capacity_valid_def)
  ultimately show ?thesis using b assms(2,3) by (simp add: bid_valid_def bid_ok_def)
qed

lemma decode_bid_valid: "decode_bid delta v = Inr b \<Longrightarrow> bid_valid b"
proof -
  assume d: "decode_bid delta v = Inr b"
  then obtain key prov amount den seen st prfs cap prof grp w x where
    "mk_bid key prov amount den seen st prfs cap prof grp = Inr b"
    "decode_capacity w = Inr cap" "decode_resource_profile x = Inr prof"
    by (auto simp: decode_bid_def)
  then show ?thesis using mk_bid_ok decode_capacity_valid decode_profile_ok by blast
qed

lemma decode_policy_ok: "decode_policy v = Inr p \<Longrightarrow> policy_ok p"
  by (auto simp: decode_policy_def mk_policy_def check_window_def policy_ok_def
      split: pyfloat.splits if_splits option.splits)

lemma decode_bids_valid:
  "decode_bids delta vs d = Inr d' \<Longrightarrow> \<forall>b \<in> set (dict_values d). bid_valid b \<Longrightarrow>
   \<forall>b \<in> set (dict_values d'). bid_valid b"
proof (induction delta vs d rule: decode_bids.induct)
  case (2 delta v vs d)
  then obtain b where b: "decode_bid delta v = Inr b" "dict_get d (bid_key b) = None"
    "decode_bids delta vs (dict_set (bid_key b) b d) = Inr d'"
    by (auto split: if_splits)
  have "\<forall>c \<in> set (dict_values (dict_set (bid_key b) b d)). bid_valid c"
    using dict_values_set[of "bid_key b" b d] "2.prems"(2) decode_bid_valid[OF b(1)] by blast
  then show ?case using "2.IH"[of b] b by simp
qed simp

lemma restore_accepts:
  assumes "restore snap expect rebase = Inr a"
  obtains m s where "snap = PDict m" "mapping_get m ''version'' = PStr AUCTION_SNAPSHOT_VERSION"
    "set (map fst m) = set SNAPSHOT_KEYS" "validate_scope expect = Inr s"
    "validate_scope (mapping_get m ''scope'') = Inr s" "auction_ok a"
    "rebase = PNone \<longrightarrow> started_at a = 0"
proof -
  obtain m where m: "snap = PDict m" using assms by (cases snap) (auto simp: restore_def)
  have ver: "mapping_get m ''version'' = PStr AUCTION_SNAPSHOT_VERSION"
    and keys: "set (map fst m) = set SNAPSHOT_KEYS"
    using assms m by (auto simp: restore_def split: if_split_asm)
  obtain s start anchor pol where
    s: "validate_scope expect = Inr s" "validate_scope (mapping_get m ''scope'') = Inr s"
    and start: "restore_anchor rebase start = Inr anchor"
    and pol: "decode_policy (mapping_get m ''policy'') = Inr pol"
    and rest: "restore_bids (mapping_get m ''bids'') pol anchor = Inr a"
    using assms ver keys unfolding m restore_def by auto
  obtain raw d a0 where d: "decode_bids (fst anchor) raw [] = Inr d"
    and a0: "mk_auction pol (Fin (snd anchor)) = Inr a0"
    and run: "(case observe_many (dict_values d) a0 of (Inl e, _) \<Rightarrow> Inl e | (Inr _, a') \<Rightarrow> Inr a') = Inr a"
    using rest by (auto simp: restore_bids_def split: pyval.split_asm)
  obtain r a' where om: "observe_many (dict_values d) a0 = (r, a')"
    by (cases "observe_many (dict_values d) a0")
  then have "a' = a" using run by (cases r) auto
  moreover have "\<forall>b \<in> set (dict_values d). bid_ok b"
    using decode_bids_valid[OF d] by (auto simp: bid_valid_def dict_values_def)
  ultimately have "observes\<^sup>*\<^sup>* a0 a" using observe_many_observes[OF om] by simp
  then have k: "auction_ok a \<and> evolves a0 a"
    using observes_star_keeps mk_auction_ok[OF a0 decode_policy_ok[OF pol]] by blast
  then have "started_at a = snd anchor" using a0 by (auto simp: evolves_def mk_auction_def Let_def)
  then have "rebase = PNone \<longrightarrow> started_at a = 0"
    using start by (auto simp: restore_anchor_def split: if_splits)
  then show ?thesis using that m ver keys s k by blast
qed

section \<open>Properties\<close>

text \<open>
  A decimal survives its text. \<^verbatim>\<open>Decimal(str(d))\<close> is \<open>d\<close> again, sign, digits and
  exponent included, so a price read back from a snapshot is the price that was written.
\<close>

theorem price_text_roundtrip:
  "decode_decimal (encode_decimal d) = Inr (DFin d)"
  by (simp add: decode_encode_decimal)

text \<open>
  C4: Crash resume. For every reachable auction on a relative clock whose capacities passed
  their constructor, \<open>snapshot\<close> succeeds with any valid scope and \<open>restore\<close> under the same
  scope gives an auction with the same bids in the same order, the same bound demand, and
  the same decision at every later time.
\<close>

theorem restore_resumes:
  assumes "reachable p 0 a" and "policy_ok p" and "\<forall>b \<in> set (observed_bids a). bid_valid b"
    and "validate_scope scope = Inr s"
  shows "\<exists>snap a'. snapshot scope a = Inr snap \<and> restore snap scope PNone = Inr a'
    \<and> latest_by_key a' = latest_by_key a
    \<and> dict_get (resource_profile_by_gseq a') = dict_get (resource_profile_by_gseq a)
    \<and> (\<forall>now already. evaluate now already a' = evaluate now already a)"
proof -
  note ok = reachable_ok[OF assms(1,2)]
  obtain snap a' where r: "snapshot scope a = Inr snap" "restore snap scope PNone = Inr a'"
    and eq: "policy a' = policy a" "started_at a' = started_at a" "deadline a' = deadline a"
    "fallback_deadline a' = fallback_deadline a" "latest_by_key a' = latest_by_key a"
    "dict_get (resource_profile_by_gseq a') = dict_get (resource_profile_by_gseq a)"
    using restore_snapshot[OF ok(1) reachable_profiles_used[OF assms(1,2)] ok(3) assms(3,4)] by blast
  have "partition_bids a' now bs = partition_bids a now bs" for now bs
    by (rule partition_bids_congr) (simp only: classify_def eq)
  moreover have "mk_result a' = mk_result a" "preferred_of a' = preferred_of a"
    "choose_winner a' = choose_winner a"
    by (simp_all add: fun_eq_iff mk_result_def preferred_of_def choose_winner_def eq)
  ultimately have "evaluate now already a' = evaluate now already a" for now already
    by (simp only: evaluate_def eq)
  then show ?thesis using r eq by blast
qed

theorem restore_resumes_witness:
  "\<exists>snap a'. snapshot (PStr ''dseq-7'') sample_auction = Inr snap
     \<and> restore snap (PStr ''dseq-7'') PNone = Inr a' \<and> latest_by_key a' = latest_by_key sample_auction"
proof -
  have "\<forall>b \<in> set (observed_bids sample_auction). bid_valid b"
    using sample_bid_ok
    by (auto simp: observed_bids_def dict_values_def sample_auction_def bid_valid_def)
      (simp_all add: sample_bid_def)
  moreover have "validate_scope (PStr ''dseq-7'') = Inr (Some ''dseq-7'')"
    by (simp add: validate_scope_def)
  ultimately show ?thesis
    using restore_resumes[OF sample_reachable sample_policy_ok] by blast
qed

text \<open>
  What \<open>restore\<close> accepts. Whatever value it is given, an accepted snapshot is a mapping
  of the current schema version with exactly the schema's keys, carries exactly the scope the
  caller expects (and never the empty string), starts at 0 unless it is re-anchored, and
  yields a well-formed auction.
\<close>

theorem restore_refuses_foreign:
  assumes "restore snap expect rebase = Inr a"
  shows "\<exists>m. snap = PDict m \<and> mapping_get m ''version'' = PStr AUCTION_SNAPSHOT_VERSION
    \<and> set (map fst m) = set SNAPSHOT_KEYS \<and> mapping_get m ''scope'' = expect \<and> expect \<noteq> PStr ''''
    \<and> auction_ok a \<and> (rebase = PNone \<longrightarrow> started_at a = 0)"
proof -
  have same: "v = w" if "validate_scope v = Inr s" "validate_scope w = Inr s" for v w s
    using that by (auto simp: validate_scope_def split: pyval.splits if_splits)
  have "expect \<noteq> PStr ''''" if "validate_scope expect = Inr s" for s
    using that by (auto simp: validate_scope_def)
  note nonempty = this
  obtain m s where m: "snap = PDict m" "mapping_get m ''version'' = PStr AUCTION_SNAPSHOT_VERSION"
    "set (map fst m) = set SNAPSHOT_KEYS" "validate_scope expect = Inr s"
    "validate_scope (mapping_get m ''scope'') = Inr s" "auction_ok a"
    "rebase = PNone \<longrightarrow> started_at a = 0"
    by (rule restore_accepts[OF assms])
  then show ?thesis using same[OF m(5,4)] nonempty[OF m(4)] by blast
qed

theorem restore_refuses_foreign_witness:
  "\<exists>snap a'. snapshot (PStr ''dseq-7'') (sample_auction\<lparr>latest_by_key := []\<rparr>) = Inr snap
     \<and> restore snap (PStr ''dseq-7'') PNone = Inr a' \<and> auction_ok a'"
proof -
  let ?a = "sample_auction\<lparr>latest_by_key := []\<rparr>"
  have ok: "auction_ok ?a" using mk_auction_ok[OF sample_mk_auction sample_policy_ok] .
  have used: "profiles_used ?a" and start: "started_at ?a = 0"
    and valid: "\<forall>b \<in> set (observed_bids ?a). bid_valid b"
    by (simp_all add: profiles_used_def observed_bids_def dict_values_def sample_auction_def)
  have scope: "validate_scope (PStr ''dseq-7'') = Inr (Some ''dseq-7'')"
    by (simp add: validate_scope_def)
  obtain snap a' where "snapshot (PStr ''dseq-7'') ?a = Inr snap"
    "restore snap (PStr ''dseq-7'') PNone = Inr a'"
    by (rule restore_snapshot[OF ok used start valid scope])
  then show ?thesis using restore_refuses_foreign by blast
qed

end
