(* ===== verification/LeaseRecovery.thy ===== *)
theory LeaseRecovery
  imports PyValue
begin

text \<open>
  \<^verbatim>\<open>lease_recovery.py\<close>: the decision table for a lease whose runner is or is not ready. An
  enum argument may be given as the member or as its text; both are \<open>PStr\<close> here, because
  the enums are string enums. The reason texts are not modelled.
\<close>

datatype lease_state = NOT_STRUCK | STRUCK | LEASE_CLOSED

datatype readiness_evidence = READY | NOT_READY | READINESS_UNREADABLE

datatype quota_state = QUOTA_AVAILABLE | QUOTA_EXHAUSTED | QUOTA_UNREADABLE

datatype lease_recovery_action = COMPLETE | WAIT | FAIL_LOUDLY | REROLL | ALREADY_CLOSED

record lease_recovery_decision =
  lrd_lease_state :: lease_state
  lrd_readiness :: readiness_evidence
  lrd_quota :: quota_state
  lrd_action :: lease_recovery_action
  permitted_actions :: "lease_recovery_action set"

definition may_abandon :: "lease_recovery_decision \<Rightarrow> bool" where
  "may_abandon d \<longleftrightarrow> REROLL \<in> permitted_actions d"

definition may_reroll :: "lease_recovery_decision \<Rightarrow> bool" where
  "may_reroll d \<longleftrightarrow> may_abandon d"

definition as_enum :: "(string \<times> 'a) list \<Rightarrow> pyval \<Rightarrow> 'a result" where
  "as_enum members v =
     (case v of
        PStr s \<Rightarrow> (case map_of members s of Some m \<Rightarrow> Inr m | None \<Rightarrow> Inl ValueError)
      | _ \<Rightarrow> Inl ValueError)"

definition lease_states :: "(string \<times> lease_state) list" where
  "lease_states = [(''not_struck'', NOT_STRUCK), (''struck'', STRUCK), (''closed'', LEASE_CLOSED)]"

definition readiness_values :: "(string \<times> readiness_evidence) list" where
  "readiness_values =
     [(''ready'', READY), (''not_ready'', NOT_READY), (''unreadable'', READINESS_UNREADABLE)]"

definition quota_states :: "(string \<times> quota_state) list" where
  "quota_states = [(''available'', QUOTA_AVAILABLE), (''exhausted'', QUOTA_EXHAUSTED),
     (''unreadable'', QUOTA_UNREADABLE)]"

definition lease_decision ::
    "lease_state \<Rightarrow> readiness_evidence \<Rightarrow> quota_state \<Rightarrow> lease_recovery_decision" where
  "lease_decision lease ready quota =
     (let decide = (\<lambda>action permitted. \<lparr>lrd_lease_state = lease, lrd_readiness = ready,
                      lrd_quota = quota, lrd_action = action, permitted_actions = permitted\<rparr>)
      in if lease = LEASE_CLOSED then decide ALREADY_CLOSED {ALREADY_CLOSED}
         else if lease = STRUCK
         then (if ready = READY then decide COMPLETE {COMPLETE}
               else if ready = READINESS_UNREADABLE then decide WAIT {WAIT, FAIL_LOUDLY}
               else decide WAIT {WAIT, FAIL_LOUDLY})
         else if ready = READY then decide COMPLETE {COMPLETE}
         else if ready = READINESS_UNREADABLE \<and> quota = QUOTA_AVAILABLE
         then decide REROLL {WAIT, REROLL}
         else if quota = QUOTA_AVAILABLE then decide REROLL {WAIT, REROLL}
         else decide FAIL_LOUDLY {FAIL_LOUDLY})"

definition evaluate_lease_recovery ::
    "pyval \<Rightarrow> pyval \<Rightarrow> pyval \<Rightarrow> lease_recovery_decision result" where
  "evaluate_lease_recovery lease ready quota =
     bindR (as_enum lease_states lease) (\<lambda>l.
     bindR (as_enum readiness_values ready) (\<lambda>r.
     bindR (as_enum quota_states quota) (\<lambda>q. Inr (lease_decision l r q))))"

section \<open>Lemmas\<close>

lemma as_enum_Inl: "as_enum members v = Inl e \<Longrightarrow> e = ValueError"
  by (auto simp: as_enum_def split: pyval.splits option.splits)

lemma lease_decision_spec:
  "lrd_action (lease_decision l r q) \<in> permitted_actions (lease_decision l r q)
   \<and> (may_reroll (lease_decision l r q) \<longleftrightarrow> l = NOT_STRUCK \<and> r \<noteq> READY \<and> q = QUOTA_AVAILABLE)"
  by (cases l; cases r; cases q)
    (simp_all add: lease_decision_def Let_def may_reroll_def may_abandon_def)

text \<open>The text of a member, which names it.\<close>

definition lease_text :: "lease_state \<Rightarrow> string" where
  "lease_text l = (case l of NOT_STRUCK \<Rightarrow> ''not_struck'' | STRUCK \<Rightarrow> ''struck'' | LEASE_CLOSED \<Rightarrow> ''closed'')"

definition readiness_text :: "readiness_evidence \<Rightarrow> string" where
  "readiness_text r =
     (case r of READY \<Rightarrow> ''ready'' | NOT_READY \<Rightarrow> ''not_ready'' | READINESS_UNREADABLE \<Rightarrow> ''unreadable'')"

definition quota_text :: "quota_state \<Rightarrow> string" where
  "quota_text q =
     (case q of QUOTA_AVAILABLE \<Rightarrow> ''available'' | QUOTA_EXHAUSTED \<Rightarrow> ''exhausted''
      | QUOTA_UNREADABLE \<Rightarrow> ''unreadable'')"

lemma as_enum_lease: "as_enum lease_states v = Inr l \<longleftrightarrow> v = PStr (lease_text l)"
  by (cases l; cases v) (auto simp: as_enum_def lease_states_def lease_text_def)

lemma as_enum_readiness: "as_enum readiness_values v = Inr r \<longleftrightarrow> v = PStr (readiness_text r)"
  by (cases r; cases v) (auto simp: as_enum_def readiness_values_def readiness_text_def)

lemma as_enum_quota: "as_enum quota_states v = Inr q \<longleftrightarrow> v = PStr (quota_text q)"
  by (cases q; cases v) (auto simp: as_enum_def quota_states_def quota_text_def)

lemmas as_enum_text = as_enum_lease as_enum_readiness as_enum_quota

lemma evaluate_lease_recovery_iff:
  "evaluate_lease_recovery lease ready quota = Inr d \<longleftrightarrow>
     (\<exists>l r q. lease = PStr (lease_text l) \<and> ready = PStr (readiness_text r) \<and> quota = PStr (quota_text q)
        \<and> d = lease_decision l r q)"
  by (auto simp: evaluate_lease_recovery_def as_enum_text)

lemma lease_decision_fields [simp]:
  "lrd_lease_state (lease_decision l r q) = l" "lrd_readiness (lease_decision l r q) = r"
  "lrd_quota (lease_decision l r q) = q"
  by (simp_all add: lease_decision_def Let_def)

text \<open>
  C26: A paid lease is never abandoned. The arguments are read as the members whose texts they are,
  and \<open>ValueError\<close> is raised exactly when one of them is no text of a member of its enum; nothing
  else is raised. Every decision is about the members read, recommends a permitted action, and
  permits a reroll exactly when no lease was struck, readiness is not established and the quota is
  readable and available: for a struck or closed lease never, whatever the readiness instrument says.
  An unreadable readiness does permit a reroll before a lease is struck, as the docstring of the
  function and the reason text say; the docstring of \<^verbatim>\<open>ReadinessEvidence\<close> says that it never does
  (\<open>unreadable_readiness_rerolls\<close>).
\<close>

theorem struck_lease_never_rerolled:
  "case evaluate_lease_recovery lease ready quota of
     Inl e \<Rightarrow> e = ValueError
       \<and> \<not> (lease \<in> {PStr ''not_struck'', PStr ''struck'', PStr ''closed''}
            \<and> ready \<in> {PStr ''ready'', PStr ''not_ready'', PStr ''unreadable''}
            \<and> quota \<in> {PStr ''available'', PStr ''exhausted'', PStr ''unreadable''})
   | Inr d \<Rightarrow> lease = PStr (lease_text (lrd_lease_state d)) \<and> ready = PStr (readiness_text (lrd_readiness d))
       \<and> quota = PStr (quota_text (lrd_quota d))
       \<and> lrd_action d \<in> permitted_actions d
       \<and> (may_reroll d \<longleftrightarrow> lrd_lease_state d = NOT_STRUCK \<and> lrd_readiness d \<noteq> READY
            \<and> lrd_quota d = QUOTA_AVAILABLE)"
proof (cases "evaluate_lease_recovery lease ready quota")
  case (Inl e)
  then have "e = ValueError"
    by (auto simp: evaluate_lease_recovery_def bindR_eq_Inl dest: as_enum_Inl)
  with Inl show ?thesis
    by (auto simp: evaluate_lease_recovery_def as_enum_def lease_states_def readiness_values_def quota_states_def)
next
  case (Inr d)
  then obtain l r q where "lease = PStr (lease_text l)" "ready = PStr (readiness_text r)"
    "quota = PStr (quota_text q)" "d = lease_decision l r q"
    unfolding evaluate_lease_recovery_iff by blast
  then show ?thesis using lease_decision_spec[of l r q] Inr by simp
qed

lemma unreadable_readiness_rerolls:
  "\<exists>d. evaluate_lease_recovery (PStr ''not_struck'') (PStr ''unreadable'') (PStr ''available'') = Inr d
     \<and> lrd_action d = REROLL \<and> may_reroll d"
  by (simp add: evaluate_lease_recovery_def as_enum_def lease_states_def readiness_values_def
      quota_states_def lease_decision_def may_reroll_def may_abandon_def)

end
