(* ===== verification/Wallets.thy ===== *)
theory Wallets
  imports DecimalText
begin

text \<open>
  \<^verbatim>\<open>wallets.py\<close>: the ranking of funded Console wallets. Balances are compared exactly, except
  that the sort key negates the decimal, and a decimal operation rounds to 28 digits.
  A balance of 10 to the power of 1000000 or more, whose negation overflows, is not modelled.
\<close>

section \<open>Candidates and policy\<close>

record wallet_candidate =
  candidate_id :: string
  account :: string
  available_credit :: fdec
  wallet_denom :: string

record wallet_policy =
  required_credit :: fdec
  required_denom :: string
  wallet_version :: string

text \<open>\<^verbatim>\<open>x if isinstance(x, Decimal) else Decimal(str(x))\<close>, then finite and non-negative.\<close>

definition credit_decimal :: "pyval \<Rightarrow> fdec result" where
  "credit_decimal v =
     bindR (case v of
              PDec d \<Rightarrow> Inr d
            | PInt i \<Rightarrow> Inr (DFin (FDec (i < 0) (nat \<bar>i\<bar>) 0))
            | PFloat (Fin x) \<Rightarrow> Inr (DFin (dec_of_float x))
            | PFloat (Inf neg) \<Rightarrow> Inr (DInf neg)
            | PFloat NaN \<Rightarrow> Inr DNaN
            | PStr s \<Rightarrow> (case parse_decimal s of None \<Rightarrow> Inl InvalidOperation | Some d \<Rightarrow> Inr d)
            | _ \<Rightarrow> Inl InvalidOperation)
       (\<lambda>d. case d of DFin x \<Rightarrow> if dec_val x < 0 then Inl ValueError else Inr x
            | _ \<Rightarrow> Inl ValueError)"

definition mk_wallet_candidate ::
    "string \<Rightarrow> string \<Rightarrow> pyval \<Rightarrow> string \<Rightarrow> wallet_candidate result" where
  "mk_wallet_candidate cid acct credit den =
     bindR (raise_if (cid = []) ValueError) (\<lambda>_.
     bindR (raise_if (acct = []) ValueError) (\<lambda>_.
     bindR (raise_if (den = []) ValueError) (\<lambda>_.
     bindR (credit_decimal credit) (\<lambda>c.
     Inr \<lparr>candidate_id = cid, account = acct, available_credit = c, wallet_denom = den\<rparr>))))"

definition mk_wallet_policy :: "pyval \<Rightarrow> string \<Rightarrow> string \<Rightarrow> wallet_policy result" where
  "mk_wallet_policy required den ver =
     bindR (credit_decimal required) (\<lambda>r.
     bindR (raise_if (den = []) ValueError) (\<lambda>_.
     bindR (raise_if (ver = []) ValueError) (\<lambda>_.
     Inr \<lparr>required_credit = r, required_denom = den, wallet_version = ver\<rparr>)))"

section \<open>Ranking\<close>

datatype wallet_selection_status = SELECTED | NO_FUNDED_WALLET

datatype wallet_rejection = DUPLICATE_ACCOUNT | WRONG_DENOMINATION | INSUFFICIENT_CREDIT

record rejected_wallet =
  rw_candidate_id :: string
  rw_account :: string
  rw_reason :: wallet_rejection

record wallet_selection_result =
  wallet_status :: wallet_selection_status
  wallet_policy_version :: string
  selected_wallet :: "wallet_candidate option"
  ranked_wallets :: "wallet_candidate list"
  rejected_wallets :: "rejected_wallet list"

definition reject_wallet :: "wallet_candidate \<Rightarrow> wallet_rejection \<Rightarrow> rejected_wallet" where
  "reject_wallet c r = \<lparr>rw_candidate_id = candidate_id c, rw_account = account c, rw_reason = r\<rparr>"

text \<open>The first loop: one candidate per account, the others rejected.\<close>

fun unique_by_account ::
    "wallet_candidate list \<Rightarrow> (string, wallet_candidate) dict \<times> rejected_wallet list
     \<Rightarrow> (string, wallet_candidate) dict \<times> rejected_wallet list" where
  "unique_by_account [] acc = acc"
| "unique_by_account (c # cs) (d, rej) =
     (if dict_get d (account c) \<noteq> None
      then unique_by_account cs (d, rej @ [reject_wallet c DUPLICATE_ACCOUNT])
      else unique_by_account cs (dict_set (account c) c d, rej))"

fun fund_wallets ::
    "wallet_policy \<Rightarrow> wallet_candidate list \<Rightarrow> wallet_candidate list \<times> rejected_wallet list" where
  "fund_wallets p [] = ([], [])"
| "fund_wallets p (c # cs) =
     (let (funded, rej) = fund_wallets p cs
      in if wallet_denom c \<noteq> required_denom p
         then (funded, reject_wallet c WRONG_DENOMINATION # rej)
         else if dec_val (available_credit c) < dec_val (required_credit p)
         then (funded, reject_wallet c INSUFFICIENT_CREDIT # rej)
         else (c # funded, rej))"

definition wallet_key :: "wallet_candidate \<Rightarrow> rat \<times> string \<times> string" where
  "wallet_key c =
     (round_sig DECIMAL_PREC (- dec_val (available_credit c)), account c, candidate_id c)"

definition account_key :: "wallet_candidate \<Rightarrow> string \<times> string" where
  "account_key c = (account c, candidate_id c)"

definition rank_wallets :: "wallet_candidate list \<Rightarrow> wallet_policy \<Rightarrow> wallet_selection_result" where
  "rank_wallets candidates p =
     (let (unique, dup) = unique_by_account (sort_key account_key candidates) ([], []);
          (funded, rej) = fund_wallets p (dict_values unique);
          ranked = sort_key wallet_key funded
      in \<lparr>wallet_status = (if ranked = [] then NO_FUNDED_WALLET else SELECTED),
          wallet_policy_version = wallet_version p,
          selected_wallet = (case ranked of [] \<Rightarrow> None | w # _ \<Rightarrow> Some w),
          ranked_wallets = ranked, rejected_wallets = dup @ rej\<rparr>)"

section \<open>Lemmas\<close>

interpretation by_account: keyed_ranking account_key account_key
  by unfold_locales simp

interpretation by_credit: keyed_ranking wallet_key account_key
  by unfold_locales (simp add: wallet_key_def account_key_def)

definition funded_by :: "wallet_policy \<Rightarrow> wallet_candidate \<Rightarrow> bool" where
  "funded_by p c \<longleftrightarrow> wallet_denom c = required_denom p
     \<and> dec_val (required_credit p) \<le> dec_val (available_credit c)"

lemma fund_wallets_spec:
  "fst (fund_wallets p cs) = filter (funded_by p) cs
   \<and> length (fst (fund_wallets p cs)) + length (snd (fund_wallets p cs)) = length cs"
  by (induction cs) (auto simp: Let_def funded_by_def not_less split: prod.splits)

text \<open>The dictionary after the first loop: the first candidate of every account.\<close>

lemma unique_by_account_spec:
  assumes "unique_by_account cs (d, rej) = (d', rej')"
    and "dict_ok d" and "\<forall>(k, c) \<in> set d. k = account c"
  shows "dict_ok d' \<and> (\<forall>(k, c) \<in> set d'. k = account c)
    \<and> set (dict_values d') \<subseteq> set (dict_values d) \<union> set cs
    \<and> account ` set (dict_values d') = account ` (set (dict_values d) \<union> set cs)
    \<and> length d' + length rej' = length d + length rej + length cs"
  using assms
proof (induction cs arbitrary: d rej)
  case (Cons c cs)
  show ?case
  proof (cases "dict_get d (account c)")
    case None
    let ?d = "dict_set (account c) c d"
    have fresh: "account c \<notin> fst ` set d" using None by (simp add: map_of_eq_None_iff)
    have d: "?d = d @ [(account c, c)]" using fresh by (rule dict_set_fresh)
    have "unique_by_account cs (?d, rej) = (d', rej')" using Cons.prems(1) None by simp
    moreover have "dict_ok ?d" using Cons.prems(2) by (rule dict_ok_set)
    moreover have "\<forall>(k, c) \<in> set ?d. k = account c" using Cons.prems(3) d by auto
    ultimately have ih: "dict_ok d' \<and> (\<forall>(k, c) \<in> set d'. k = account c)
      \<and> set (dict_values d') \<subseteq> set (dict_values ?d) \<union> set cs
      \<and> account ` set (dict_values d') = account ` (set (dict_values ?d) \<union> set cs)
      \<and> length d' + length rej' = length ?d + length rej + length cs" by (rule Cons.IH)
    then show ?thesis unfolding d by (auto simp: dict_values_def)
  next
    case (Some x)
    then have run: "unique_by_account cs (d, rej @ [reject_wallet c DUPLICATE_ACCOUNT]) = (d', rej')"
      using Cons.prems(1) by simp
    have "(account c, x) \<in> set d" using Some by (rule map_of_SomeD)
    then have "account c \<in> account ` set (dict_values d)"
      using Cons.prems(3) by (force simp: dict_values_def)
    then show ?thesis using Cons.IH[OF run Cons.prems(2,3)] by auto
  qed
qed simp

lemma unique_values_inj:
  "dict_ok d \<Longrightarrow> \<forall>(k, c) \<in> set d. k = account c \<Longrightarrow> distinct (map account (dict_values d))"
proof -
  assume "dict_ok d" and keys: "\<forall>(k, c) \<in> set d. k = account c"
  moreover have "map account (dict_values d) = map fst d"
    using keys by (induction d) (auto simp: dict_values_def)
  ultimately show ?thesis by (simp add: dict_ok_def)
qed

lemma rank_wallets_parts:
  assumes "rank_wallets cs p = res"
  obtains d dup where "unique_by_account (sort_key account_key cs) ([], []) = (d, dup)"
    "ranked_wallets res = sort_key wallet_key (filter (funded_by p) (dict_values d))"
    "selected_wallet res = (case ranked_wallets res of [] \<Rightarrow> None | w # _ \<Rightarrow> Some w)"
    "wallet_status res = (if ranked_wallets res = [] then NO_FUNDED_WALLET else SELECTED)"
    "length (ranked_wallets res) + length (rejected_wallets res) = length cs"
    "distinct (map account (dict_values d))" "set (dict_values d) \<subseteq> set cs"
    "account ` set (dict_values d) = account ` set cs"
proof -
  obtain d dup where u: "unique_by_account (sort_key account_key cs) ([], []) = (d, dup)"
    by (cases "unique_by_account (sort_key account_key cs) ([], [])")
  note spec = unique_by_account_spec[OF u]
  have ok: "dict_ok d \<and> (\<forall>(k, c) \<in> set d. k = account c)
    \<and> set (dict_values d) \<subseteq> set cs \<and> account ` set (dict_values d) = account ` set cs
    \<and> length d + length dup = length cs"
    using spec by (simp add: dict_values_def)
  obtain f r where f: "fund_wallets p (dict_values d) = (f, r)"
    by (cases "fund_wallets p (dict_values d)")
  have "f = filter (funded_by p) (dict_values d)" "length f + length r = length d"
    using fund_wallets_spec[of p "dict_values d"] f by (auto simp: dict_values_def)
  moreover have res: "ranked_wallets res = sort_key wallet_key f" "rejected_wallets res = dup @ r"
    "selected_wallet res = (case sort_key wallet_key f of [] \<Rightarrow> None | w # _ \<Rightarrow> Some w)"
    "wallet_status res = (if sort_key wallet_key f = [] then NO_FUNDED_WALLET else SELECTED)"
    using assms u f by (auto simp: rank_wallets_def Let_def)
  ultimately show ?thesis
    using that[OF u] ok unique_values_inj[of d] by auto
qed

section \<open>Properties\<close>

text \<open>A balance the default decimal context represents exactly.\<close>

definition context_exact :: "fdec \<Rightarrow> bool" where
  "context_exact d \<longleftrightarrow> round_sig DECIMAL_PREC (- dec_val d) = - dec_val d"

definition sample_wallet :: "string \<Rightarrow> string \<Rightarrow> nat \<Rightarrow> wallet_candidate" where
  "sample_wallet cid acct credit =
     \<lparr>candidate_id = cid, account = acct, available_credit = FDec False credit 0,
      wallet_denom = ''uact''\<rparr>"

definition sample_wallet_policy :: wallet_policy where
  "sample_wallet_policy =
     \<lparr>required_credit = FDec False 5 0, required_denom = ''uact'', wallet_version = ''v1''\<rparr>"

text \<open>
  The wallet ranking is sound and complete. Every ranked wallet is one of the candidates,
  meets the denomination and the required credit, and no account occurs twice; every account
  of an unranked candidate is represented by a rejection, so that ranked and rejected wallets
  together are as many as the candidates; a wallet is selected exactly when one is ranked.
\<close>

theorem wallet_ranking_sound:
  "set (ranked_wallets (rank_wallets cs p)) \<subseteq> {c. c \<in> set cs \<and> funded_by p c}
   \<and> distinct (map account (ranked_wallets (rank_wallets cs p)))
   \<and> length (ranked_wallets (rank_wallets cs p)) + length (rejected_wallets (rank_wallets cs p)) = length cs
   \<and> (selected_wallet (rank_wallets cs p) = None) = (ranked_wallets (rank_wallets cs p) = [])"
proof -
  obtain d dup where u: "unique_by_account (sort_key account_key cs) ([], []) = (d, dup)"
    and r: "ranked_wallets (rank_wallets cs p)
      = sort_key wallet_key (filter (funded_by p) (dict_values d))"
    "selected_wallet (rank_wallets cs p)
      = (case ranked_wallets (rank_wallets cs p) of [] \<Rightarrow> None | w # _ \<Rightarrow> Some w)"
    "wallet_status (rank_wallets cs p)
      = (if ranked_wallets (rank_wallets cs p) = [] then NO_FUNDED_WALLET else SELECTED)"
    "length (ranked_wallets (rank_wallets cs p)) + length (rejected_wallets (rank_wallets cs p)) = length cs"
    "distinct (map account (dict_values d))" "set (dict_values d) \<subseteq> set cs"
    "account ` set (dict_values d) = account ` set cs"
    by (rule rank_wallets_parts[OF refl[of "rank_wallets cs p"]])
  have "mset (map account (sort_key wallet_key (filter (funded_by p) (dict_values d))))
      = mset (map account (filter (funded_by p) (dict_values d)))" by simp
  moreover have "distinct (map account (filter (funded_by p) (dict_values d)))"
    using r(5) by (rule distinct_map_filter)
  ultimately have "distinct (map account (ranked_wallets (rank_wallets cs p)))"
    unfolding r(1) by (metis mset_eq_imp_distinct_iff)
  then show ?thesis using r by (auto split: list.splits)
qed

text \<open>
  Richest first, for balances of at most 28 digits: no ranked wallet whose balance is
  represented exactly has more credit than the selected one, and the order in which the
  adapter delivered distinct candidates does not change the result.
\<close>

theorem richest_wallet_selected:
  assumes "selected_wallet (rank_wallets cs p) = Some w"
    and "\<forall>c \<in> set cs. context_exact (available_credit c)"
    and "inj_on account_key (set cs)" and "mset cs' = mset cs"
  shows "(\<forall>c \<in> set (ranked_wallets (rank_wallets cs p)).
            dec_val (available_credit c) \<le> dec_val (available_credit w))
    \<and> rank_wallets cs' p = rank_wallets cs p"
proof -
  obtain d dup where u: "unique_by_account (sort_key account_key cs) ([], []) = (d, dup)"
    and r: "ranked_wallets (rank_wallets cs p)
      = sort_key wallet_key (filter (funded_by p) (dict_values d))"
    "selected_wallet (rank_wallets cs p)
      = (case ranked_wallets (rank_wallets cs p) of [] \<Rightarrow> None | w # _ \<Rightarrow> Some w)"
    "wallet_status (rank_wallets cs p)
      = (if ranked_wallets (rank_wallets cs p) = [] then NO_FUNDED_WALLET else SELECTED)"
    "length (ranked_wallets (rank_wallets cs p)) + length (rejected_wallets (rank_wallets cs p)) = length cs"
    "distinct (map account (dict_values d))" "set (dict_values d) \<subseteq> set cs"
    "account ` set (dict_values d) = account ` set cs"
    by (rule rank_wallets_parts[OF refl[of "rank_wallets cs p"]])
  obtain ws where ws: "ranked_wallets (rank_wallets cs p) = w # ws"
    using assms(1) r(2) by (auto split: list.splits)
  have "sorted (map wallet_key (ranked_wallets (rank_wallets cs p)))"
    unfolding r(1) by (rule sorted_sort_key)
  then have le: "wallet_key w \<le> wallet_key c" if "c \<in> set (w # ws)" for c
    using ws that by auto
  have mem: "c \<in> set cs" if "c \<in> set (w # ws)" for c
    using that r(1,6) unfolding ws[symmetric] r(1) by auto
  have "dec_val (available_credit c) \<le> dec_val (available_credit w)" if c: "c \<in> set (w # ws)" for c
  proof -
    have "fst (wallet_key w) \<le> fst (wallet_key c)"
      using le[OF c] by (auto simp: less_eq_prod_def)
    moreover have "context_exact (available_credit w)" "context_exact (available_credit c)"
      using assms(2) mem c by auto
    ultimately show ?thesis by (simp add: wallet_key_def context_exact_def)
  qed
  moreover have "sort_key account_key cs' = sort_key account_key cs"
    using by_account.ranking_order_independent[of cs' cs] assms(3,4) by (metis set_mset_mset)
  ultimately show ?thesis unfolding ws by (simp add: rank_wallets_def)
qed

lemma context_exact_sample: "context_exact (FDec False 7 0)" "context_exact (FDec False 12 0)"
proof -
  have "ilog 10 7 = 0" "ilog 10 12 = 1" by (rule ilog_eqI; simp)+
  then show "context_exact (FDec False 7 0)" "context_exact (FDec False 12 0)"
    by (simp_all add: context_exact_def round_sig_def DECIMAL_PREC_def power_int_minus round_half_even_def)
qed

theorem richest_wallet_selected_witness:
  "rank_wallets [sample_wallet ''k2'' ''b'' 12, sample_wallet ''k1'' ''a'' 7] sample_wallet_policy
   = rank_wallets [sample_wallet ''k1'' ''a'' 7, sample_wallet ''k2'' ''b'' 12] sample_wallet_policy"
proof -
  let ?cs = "[sample_wallet ''k1'' ''a'' 7, sample_wallet ''k2'' ''b'' 12]"
  have k: "ilog 10 7 = 0" "ilog 10 12 = 1" by (rule ilog_eqI; simp)+
  have "selected_wallet (rank_wallets ?cs sample_wallet_policy) = Some (sample_wallet ''k2'' ''b'' 12)"
    by (simp add: rank_wallets_def sample_wallet_def sample_wallet_policy_def account_key_def
        wallet_key_def round_sig_def DECIMAL_PREC_def k dict_values_def Let_def round_half_even_def)
  moreover have "\<forall>c \<in> set ?cs. context_exact (available_credit c)"
    using context_exact_sample by (simp add: sample_wallet_def)
  moreover have "inj_on account_key (set ?cs)"
    by (simp add: account_key_def sample_wallet_def)
  ultimately show ?thesis
    using richest_wallet_selected[of ?cs sample_wallet_policy "sample_wallet ''k2'' ''b'' 12"
        "[sample_wallet ''k2'' ''b'' 12, sample_wallet ''k1'' ''a'' 7]"] by simp
qed

lemma floor_minus_divide_numeral_rat:
  "\<lfloor>- (numeral a / numeral b) :: rat\<rfloor> = - numeral a div numeral b"
  using floor_divide_of_int_eq[of "- numeral a" "numeral b", where 'a = rat] by simp

text \<open>
  Beyond 28 digits the richest wallet can lose. The sort key negates the balance in the
  default decimal context, which rounds it, so balances of 10^28 and 10^28 + 1 tie and the
  account name decides against the richer wallet.
\<close>

theorem richest_wallet_loses_beyond_28_digits:
  "selected_wallet (rank_wallets [sample_wallet ''k1'' ''a'' (10 ^ 28),
     sample_wallet ''k2'' ''b'' (10 ^ 28 + 1)] sample_wallet_policy)
   = Some (sample_wallet ''k1'' ''a'' (10 ^ 28))"
proof -
  have k: "ilog 10 10000000000000000000000000000 = 28" "ilog 10 10000000000000000000000000001 = 28"
    by (rule ilog_eqI; simp)+
  show ?thesis
    by (simp add: rank_wallets_def sample_wallet_def sample_wallet_policy_def account_key_def
        wallet_key_def round_sig_def DECIMAL_PREC_def k dict_values_def Let_def round_half_even_def
        floor_minus_divide_numeral_rat)
qed

end
