(* ===== verification/Identity.thy ===== *)
theory Identity
  imports DecimalText "HOL-Library.Word"
begin

text \<open>
  \<^verbatim>\<open>chain_identity.py\<close>: the canonical owner (a Bech32 account of 20 bytes under the prefix
  \<^verbatim>\<open>akash\<close>) and the canonical deployment sequence number, the two halves of the deployment
  key that every later component binds its evidence to. Python's integers are unbounded,
  so the checksum and the bit accumulator are \<^typ>\<open>int\<close>.
\<close>

unbundle bit_operations_syntax

section \<open>Bech32\<close>

definition BECH32_ALPHABET :: string where
  "BECH32_ALPHABET = ''qpzry9x8gf2tvdw0s3jn54khce6mua7l''"

definition bech32_value :: "char \<Rightarrow> int option" where
  "bech32_value = map_of (zip BECH32_ALPHABET [0..31])"

definition GENERATORS :: "int list" where
  "GENERATORS = [0x3B6A57B2, 0x26508E6D, 0x1EA119FA, 0x3D4233DD, 0x2A1462B3]"

definition generator_mix :: "int \<Rightarrow> int \<Rightarrow> int" where
  "generator_mix high checksum =
     fold (\<lambda>(index, generator) c. if drop_bit index high AND 1 \<noteq> 0 then c XOR generator else c)
       (zip [0..<5] GENERATORS) checksum"

definition polymod_step :: "int \<Rightarrow> int \<Rightarrow> int" where
  "polymod_step value checksum =
     generator_mix (drop_bit 25 checksum) (push_bit 5 (checksum AND 0x1FFFFFF) XOR value)"

definition polymod :: "int list \<Rightarrow> int" where
  "polymod values = fold polymod_step values 1"

definition hrp_expand :: "string \<Rightarrow> int list" where
  "hrp_expand hrp =
     map (\<lambda>c. drop_bit 5 (int (code c))) hrp @ [0] @ map (\<lambda>c. int (code c) AND 31) hrp"

fun drain :: "int \<Rightarrow> nat \<Rightarrow> int list \<Rightarrow> nat \<times> int list" where
  "drain accumulator bits output =
     (if 8 \<le> bits
      then drain accumulator (bits - 8) (output @ [drop_bit (bits - 8) accumulator AND 0xFF])
      else (bits, output))"

declare drain.simps [simp del]

fun convert_loop :: "int list \<Rightarrow> int \<Rightarrow> nat \<Rightarrow> int list \<Rightarrow> int list option" where
  "convert_loop [] accumulator bits output =
     (if 5 \<le> bits \<or> push_bit (8 - bits) accumulator AND 0xFF \<noteq> 0 then None else Some output)"
| "convert_loop (value # values) accumulator bits output =
     (if value < 0 \<or> 31 < value then None
      else let accumulator = push_bit 5 accumulator OR value;
               (bits, output) = drain accumulator (bits + 5) output
           in convert_loop values accumulator bits output)"

definition convert_five_to_eight :: "int list \<Rightarrow> int list option" where
  "convert_five_to_eight values = convert_loop values 0 0 []"

fun rfind_from :: "char \<Rightarrow> nat \<Rightarrow> string \<Rightarrow> int" where
  "rfind_from c i [] = - 1"
| "rfind_from c i (x # xs) =
     (let later = rfind_from c (Suc i) xs in
      if 0 \<le> later then later else if x = c then int i else - 1)"

definition rfind :: "char \<Rightarrow> string \<Rightarrow> int" where
  "rfind c s = rfind_from c 0 s"

fun bech32_values :: "string \<Rightarrow> int list option" where
  "bech32_values [] = Some []"
| "bech32_values (c # cs) =
     (case bech32_value c of None \<Rightarrow> None
      | Some v \<Rightarrow> (case bech32_values cs of None \<Rightarrow> None | Some vs \<Rightarrow> Some (v # vs)))"

definition is_canonical_akash_owner :: "string \<Rightarrow> bool" where
  "is_canonical_akash_owner value =
     (if value \<noteq> lower value \<or> 90 < length value then False
      else let separator = rfind (CHR ''1'') value in
        if separator \<le> 0 \<or> int (length value) < separator + 7 then False
        else let hrp = take (nat separator) value in
          if hrp \<noteq> ''akash'' then False
          else (case bech32_values (drop (nat separator + 1) value) of
                  None \<Rightarrow> False
                | Some data \<Rightarrow>
                    if polymod (hrp_expand hrp @ data) \<noteq> 1 then False
                    else (case convert_five_to_eight (take (length data - 6) data) of
                            None \<Rightarrow> False
                          | Some payload \<Rightarrow> length payload = 20)))"

section \<open>Sequence numbers and keys\<close>

definition DSEQ_MAX :: nat where
  "DSEQ_MAX = 2 ^ 64 - 1"

definition dseq_shape :: "string \<Rightarrow> bool" where
  "dseq_shape s =
     (case s of [] \<Rightarrow> False
      | c # cs \<Rightarrow> is_digit c \<and> c \<noteq> CHR ''0'' \<and> list_all is_digit cs \<and> length cs \<le> 19)"

definition is_canonical_akash_dseq :: "string \<Rightarrow> bool" where
  "is_canonical_akash_dseq value \<longleftrightarrow> dseq_shape value \<and> nat_of_digits value \<le> DSEQ_MAX"

record deployment_key =
  dk_owner :: string
  dk_dseq :: string

definition is_deployment_key :: "deployment_key \<Rightarrow> bool" where
  "is_deployment_key k \<longleftrightarrow>
     is_canonical_akash_owner (dk_owner k) \<and> is_canonical_akash_dseq (dk_dseq k)"

definition mk_deployment_key :: "string \<Rightarrow> string \<Rightarrow> deployment_key result" where
  "mk_deployment_key owner dseq =
     (if \<not> is_canonical_akash_owner owner then Inl ValueError
      else if \<not> is_canonical_akash_dseq dseq then Inl ValueError
      else Inr \<lparr>dk_owner = owner, dk_dseq = dseq\<rparr>)"

section \<open>Numerals\<close>

lemma nat_of_digits_snoc [simp]: "nat_of_digits (xs @ [c]) = 10 * nat_of_digits xs + digit_value c"
  by (simp add: nat_of_digits_def)

lemma digit_char_value: "is_digit c \<Longrightarrow> digit_char (digit_value c) = c"
  by (simp add: digit_char_def digit_value_def is_digit_def code_def)

lemma digit_value_less: "is_digit c \<Longrightarrow> digit_value c < 10"
  by (auto simp: digit_value_def is_digit_def)

lemma char_of_48: "char_of (48 :: nat) = CHR ''0''"
  by code_simp

lemma nat_of_digits_pos:
  assumes "is_digit c" "c \<noteq> CHR ''0''"
  shows "0 < nat_of_digits (c # cs)"
proof (induction cs rule: rev_induct)
  case Nil
  have "digit_value c \<noteq> 0"
    using digit_char_value[OF assms(1)] assms(2) unfolding digit_char_def by (metis add.right_neutral char_of_48)
  then show ?case by (simp add: nat_of_digits_def)
next
  case (snoc x xs)
  then show ?case using nat_of_digits_snoc[of "c # xs" x] by simp
qed

lemma nat_str_of_digits:
  assumes "is_digit c" "c \<noteq> CHR ''0''" "list_all is_digit cs"
  shows "nat_str (nat_of_digits (c # cs)) = c # cs"
  using assms(3)
proof (induction cs rule: rev_induct)
  case Nil
  then show ?case
    using digit_char_value[OF assms(1)] digit_value_less[OF assms(1)]
    by (simp add: nat_of_digits_def nat_str.simps[of "digit_value c"])
next
  case (snoc x xs)
  let ?m = "nat_of_digits (c # xs)"
  have d: "digit_value x < 10" "digit_char (digit_value x) = x"
    using snoc.prems by (simp_all add: digit_value_less digit_char_value)
  have "0 < ?m" by (rule nat_of_digits_pos[OF assms(1,2)])
  then have "nat_str (10 * ?m + digit_value x) = nat_str ?m @ [x]"
    using d by (subst nat_str.simps) simp
  then show ?case using snoc nat_of_digits_snoc[of "c # xs" x] by simp
qed

lemma nat_str_length_le: "n < 10 ^ Suc k \<Longrightarrow> length (nat_str n) \<le> Suc k"
proof (induction k arbitrary: n)
  case 0
  then show ?case by (subst nat_str.simps) simp
next
  case (Suc k)
  have "n div 10 < 10 ^ Suc k" using Suc.prems by (simp add: less_mult_imp_div_less mult.commute)
  then show ?case using Suc.IH by (subst nat_str.simps) auto
qed

lemma nat_str_hd_nonzero: "0 < n \<Longrightarrow> hd (nat_str n) \<noteq> CHR ''0''"
proof (induction n rule: nat_str.induct)
  case (1 n)
  show ?case
  proof (cases "n < 10")
    case True
    then have "digit_char n \<noteq> digit_char 0"
      using 1(2) by (metis digit_value_digit_char less_irrefl zero_less_numeral)
    then have "digit_char n \<noteq> CHR ''0''" by (simp add: digit_char_def[of 0] char_of_48)
    then show ?thesis using True by (subst nat_str.simps) simp
  next
    case False
    then show ?thesis using 1 by (subst nat_str.simps) (simp add: hd_append)
  qed
qed

text \<open>
  A deployment sequence number is canonical exactly when it is the decimal text of a
  positive integer that fits 64 bits: no sign, no leading zero, no surrounding space, no
  second spelling of the same number.
\<close>

theorem canonical_dseq_iff:
  "is_canonical_akash_dseq s \<longleftrightarrow> (\<exists>n. 0 < n \<and> n < 2 ^ 64 \<and> s = nat_str n)"
proof
  assume s: "is_canonical_akash_dseq s"
  then obtain c cs where "s = c # cs" "is_digit c" "c \<noteq> CHR ''0''" "list_all is_digit cs"
    and "nat_of_digits s \<le> DSEQ_MAX"
    by (auto simp: is_canonical_akash_dseq_def dseq_shape_def split: list.splits)
  then show "\<exists>n. 0 < n \<and> n < 2 ^ 64 \<and> s = nat_str n"
    using nat_str_of_digits[of c cs] nat_of_digits_pos[of c cs]
    by (intro exI[of _ "nat_of_digits s"]) (simp add: DSEQ_MAX_def)
next
  assume "\<exists>n. 0 < n \<and> n < 2 ^ 64 \<and> s = nat_str n"
  then obtain n where n: "0 < n" "n < 2 ^ 64" "s = nat_str n" by blast
  obtain c cs where cs: "nat_str n = c # cs" by (cases "nat_str n") simp_all
  have "length (nat_str n) \<le> Suc 19" using n(2) by (intro nat_str_length_le) simp
  then have "dseq_shape s"
    using n all_digits_nat_str[of n] nat_str_hd_nonzero[of n] cs by (simp add: dseq_shape_def)
  then show "is_canonical_akash_dseq s"
    using n by (simp add: is_canonical_akash_dseq_def DSEQ_MAX_def)
qed

section \<open>The checksum detects a substitution\<close>

lemma zip_5 [simp]: "zip [0..<5] GENERATORS =
   [(0, 0x3B6A57B2), (1, 0x26508E6D), (2, 0x1EA119FA), (3, 0x3D4233DD), (4, 0x2A1462B3)]"
  by (simp add: GENERATORS_def upt_conv_Cons)

lemma generator_mix_linear: "generator_mix h c = generator_mix h 0 XOR c"
  unfolding generator_mix_def zip_5 by (simp add: xor.assoc xor.commute xor.left_commute)

definition low_syndromes :: "int list" where
  "low_syndromes = map (\<lambda>h. generator_mix h 0 AND 31) [0..31]"

lemma low_syndromes_distinct: "distinct low_syndromes"
  by code_simp

lemma low_syndrome_inj:
  assumes "0 \<le> h" "h < 32" "0 \<le> h'" "h' < 32"
    and "generator_mix h 0 AND 31 = generator_mix h' 0 AND 31"
  shows "h = h'"
proof -
  have "inj_on (\<lambda>h. generator_mix h 0 AND 31) (set [0..31])"
    using low_syndromes_distinct by (simp add: low_syndromes_def distinct_map)
  then show ?thesis using assms by (auto dest: inj_onD)
qed

lemma xor_cancel_right: "a XOR c = b XOR c \<longleftrightarrow> a = (b :: int)"
  by (metis xor.assoc xor_self_eq xor.right_neutral)

lemma xor_cancel_left: "c XOR a = c XOR b \<longleftrightarrow> a = (b :: int)"
  by (metis xor.commute xor_cancel_right)

lemma and_31: "(x :: int) AND 31 = x mod 32"
  using take_bit_eq_mask[of 5 x] by (simp add: take_bit_eq_mod mask_eq_exp_minus_1)

lemma and_mask_25: "(x :: int) AND 0x1FFFFFF = x mod 2 ^ 25"
  using take_bit_eq_mask[of 25 x] by (simp add: take_bit_eq_mod mask_eq_exp_minus_1)

lemma polymod_step_inj:
  assumes "0 \<le> c" "c < 2 ^ 30" "0 \<le> c'" "c' < 2 ^ 30"
    and eq: "polymod_step v c = polymod_step v c'"
  shows "c = c'"
proof -
  define h where "h = drop_bit 25 c"
  define h' where "h' = drop_bit 25 c'"
  have b: "0 \<le> h" "h < 32" "0 \<le> h'" "h' < 32"
    using assms(1-4) by (auto simp: h_def h'_def drop_bit_eq_div div_less_iff_less_mult zdiv_int)
  have x: "generator_mix h 0 XOR push_bit 5 (c AND 0x1FFFFFF)
      = generator_mix h' 0 XOR push_bit 5 (c' AND 0x1FFFFFF)"
    using eq unfolding polymod_step_def h_def[symmetric] h'_def[symmetric]
      generator_mix_linear[of _ "push_bit 5 _ XOR _"] xor.assoc[symmetric] by (simp only: xor_cancel_right)
  have low: "(a XOR push_bit 5 b) AND 31 = a AND 31" for a b :: int
  proof -
    have "take_bit 5 (a XOR push_bit 5 b) = take_bit 5 a"
      by (simp add: take_bit_push_bit)
    then show ?thesis by (simp add: and_31 take_bit_eq_mod)
  qed
  from x have "generator_mix h 0 AND 31 = generator_mix h' 0 AND 31"
    by (metis low)
  then have hh: "h = h'" by (rule low_syndrome_inj[OF b])
  with x have "push_bit 5 (c AND 0x1FFFFFF) = push_bit 5 (c' AND 0x1FFFFFF)"
    by (metis xor.commute xor_cancel_right)
  then have "c mod 2 ^ 25 = c' mod 2 ^ 25"
    by (simp add: and_mask_25 push_bit_eq_mult)
  moreover have "c div 2 ^ 25 = c' div 2 ^ 25"
    using hh by (simp add: h_def h'_def drop_bit_eq_div)
  ultimately show ?thesis by (metis mult_div_mod_eq)
qed

definition in30 :: "int \<Rightarrow> bool" where
  "in30 x \<longleftrightarrow> 0 \<le> x \<and> x < 2 ^ 30"

lemma in30_xor: "in30 a \<Longrightarrow> in30 b \<Longrightarrow> in30 (a XOR b)"
  unfolding in30_def using XOR_upper[of a 30 b] by simp

lemma in30_fold:
  "\<forall>(i, g) \<in> set igs. in30 g \<Longrightarrow> in30 c \<Longrightarrow>
   in30 (fold (\<lambda>(i, g) c. if P i then c XOR g else c) igs c)"
  by (induction igs arbitrary: c) (auto simp: in30_xor)

lemma polymod_step_range:
  assumes "0 \<le> v" "v < 32"
  shows "in30 (polymod_step v c)"
proof -
  have "in30 (push_bit 5 (c AND 0x1FFFFFF))"
    using pos_mod_bound[of "2 ^ 25" c] by (simp add: in30_def and_mask_25 push_bit_eq_mult)
  moreover have "in30 v" using assms by (simp add: in30_def)
  ultimately have "in30 (push_bit 5 (c AND 0x1FFFFFF) XOR v)" by (rule in30_xor)
  moreover have "\<forall>(i, g) \<in> set (zip [0..<5] GENERATORS). in30 g"
    by (simp add: in30_def)
  ultimately show ?thesis
    unfolding polymod_step_def generator_mix_def by (intro in30_fold)
qed

lemma fold_polymod_inj:
  assumes "\<forall>v \<in> set vs. 0 \<le> v \<and> v < 32"
    and "in30 c" "in30 c'"
    and "fold polymod_step vs c = fold polymod_step vs c'"
  shows "c = c'"
  using assms
proof (induction vs arbitrary: c c')
  case (Cons v vs)
  have r: "0 \<le> v" "v < 32" using Cons.prems(1) by auto
  have "polymod_step v c = polymod_step v c'"
  proof (rule Cons.IH)
    show "\<forall>v \<in> set vs. 0 \<le> v \<and> v < 32" using Cons.prems(1) by simp
    show "fold polymod_step vs (polymod_step v c) = fold polymod_step vs (polymod_step v c')"
      using Cons.prems(4) by (simp only: fold_simps)
  qed (rule polymod_step_range[OF r])+
  then show ?case using Cons.prems polymod_step_inj[of c c' v] by (simp add: in30_def)
qed simp

lemma fold_polymod_range:
  assumes "\<forall>v \<in> set vs. 0 \<le> v \<and> v < 32" and "in30 c"
  shows "in30 (fold polymod_step vs c)"
  using assms
proof (induction vs arbitrary: c)
  case (Cons v vs)
  then show ?case by (simp add: polymod_step_range)
qed simp

lemma polymod_substitution:
  assumes "\<forall>v \<in> set (xs @ [a, b] @ ys). 0 \<le> v \<and> v < 32"
    and "polymod (xs @ [a] @ ys) = polymod (xs @ [b] @ ys)"
  shows "a = b"
proof -
  let ?c = "fold polymod_step xs 1"
  have r: "0 \<le> a" "a < 32" "0 \<le> b" "b < 32" using assms(1) by auto
  have "polymod_step a ?c = polymod_step b ?c"
  proof (rule fold_polymod_inj[of ys])
    show "\<forall>v \<in> set ys. 0 \<le> v \<and> v < 32" using assms(1) by simp
    show "fold polymod_step ys (polymod_step a ?c) = fold polymod_step ys (polymod_step b ?c)"
      using assms(2) by (simp only: polymod_def fold_append fold_simps o_apply id_apply)
  qed (rule polymod_step_range[OF r(1,2)] polymod_step_range[OF r(3,4)])+
  then show ?thesis
    by (simp only: polymod_step_def generator_mix_linear[of _ "push_bit 5 _ XOR _"] xor_cancel_left)
qed

section \<open>Canonical owners\<close>

lemma rfind_from_found:
  "0 \<le> rfind_from c i s \<Longrightarrow>
   int i \<le> rfind_from c i s \<and> nat (rfind_from c i s) - i < length s
   \<and> s ! (nat (rfind_from c i s) - i) = c"
proof (induction s arbitrary: i)
  case (Cons x xs)
  let ?l = "rfind_from c (Suc i) xs"
  show ?case
  proof (cases "0 \<le> ?l")
    case True
    then have "Suc i \<le> nat ?l" "nat ?l - Suc i < length xs" "xs ! (nat ?l - Suc i) = c"
      using Cons.IH[OF True] by auto
    moreover from this have "nat ?l - i = Suc (nat ?l - Suc i)" by simp
    ultimately show ?thesis using True by simp
  next
    case False
    then show ?thesis using Cons.prems by (auto simp: Let_def split: if_splits)
  qed
qed simp

lemma bech32_value_range: "bech32_value c = Some v \<Longrightarrow> 0 \<le> v \<and> v < 32"
  by (auto simp: bech32_value_def dest!: map_of_SomeD set_zip_rightD)

lemma bech32_value_inj:
  assumes "bech32_value c = Some v" "bech32_value d = Some v"
  shows "c = d"
proof -
  have "distinct (map snd (zip BECH32_ALPHABET [0..31]))" by code_simp
  moreover have "(c, v) \<in> set (zip BECH32_ALPHABET [0..31])" "(d, v) \<in> set (zip BECH32_ALPHABET [0..31])"
    using assms by (simp_all add: bech32_value_def map_of_SomeD)
  ultimately show ?thesis by (metis distinct_map inj_onD prod.inject snd_conv)
qed

lemma bech32_values_iff:
  "bech32_values cs = Some vs \<longleftrightarrow> list_all2 (\<lambda>c v. bech32_value c = Some v) cs vs"
proof (induction cs arbitrary: vs)
  case (Cons c cs)
  show ?case
    unfolding list_all2_Cons1 Cons.IH[symmetric] by (auto split: option.splits)
qed auto

lemma drain_spec:
  assumes "drain acc bits out = (bits', out')" "bits < 16"
  shows "bits' < 8 \<and> bits = 8 * (length out' - length out) + bits' \<and> length out \<le> length out'"
proof (cases "8 \<le> bits")
  case True
  then have "\<not> 8 \<le> bits - 8" using assms(2) by simp
  with True have "drain acc bits out = (bits - 8, out @ [drop_bit (bits - 8) acc AND 0xFF])"
    by (simp add: drain.simps[of acc bits] drain.simps[of acc "bits - 8"])
  then show ?thesis using assms True by simp
next
  case False
  then show ?thesis using assms by (simp add: drain.simps[of acc bits])
qed

lemma convert_loop_length:
  assumes "convert_loop values acc bits out = Some res" "bits < 8"
  shows "5 * length values + bits + 8 * length out < 8 * length res + 5
       \<and> 8 * length res \<le> 5 * length values + bits + 8 * length out"
  using assms
proof (induction "values" arbitrary: acc bits out)
  case (Cons v vs)
  obtain bits' out' where d: "drain (push_bit 5 acc OR v) (bits + 5) out = (bits', out')"
    by fastforce
  have "convert_loop vs (push_bit 5 acc OR v) bits' out' = Some res"
    using Cons.prems(1) d by (simp add: Let_def split: if_splits)
  moreover note drain_spec[OF d]
  ultimately show ?case using Cons.IH[of "push_bit 5 acc OR v" bits' out'] Cons.prems(2) by auto
qed (auto split: if_splits)

lemma canonical_owner_parts:
  assumes "is_canonical_akash_owner s"
  obtains d vs where "s = ''akash1'' @ d" "bech32_values d = Some vs"
    "polymod (hrp_expand ''akash'' @ vs) = 1" "length d = 38"
proof -
  let ?n = "nat (rfind (CHR ''1'') s)"
  from assms obtain vs payload where
    sep: "0 < rfind (CHR ''1'') s" "take ?n s = ''akash''"
    and vs: "bech32_values (drop (Suc ?n) s) = Some vs"
    and pm: "polymod (hrp_expand ''akash'' @ vs) = 1"
    and len: "rfind (CHR ''1'') s + 7 \<le> int (length s)"
    and payload: "convert_five_to_eight (take (length vs - 6) vs) = Some payload" "length payload = 20"
    unfolding is_canonical_akash_owner_def
    by (auto simp: Let_def nat_add_distrib split: if_splits option.splits)
  have "?n < length s" "s ! ?n = CHR ''1''"
    using rfind_from_found[of "CHR ''1''" 0 s] sep(1) by (simp_all add: rfind_def)
  moreover from this have "?n = 5"
    using arg_cong[OF sep(2), of length] by simp
  ultimately have s: "s = ''akash1'' @ drop 6 s"
    using id_take_nth_drop[of 5 s] sep(2) by simp
  have n1: "Suc ?n = 6" using \<open>?n = 5\<close> by simp
  have "length vs = length (drop 6 s)"
    using vs n1 by (auto simp: bech32_values_iff dest: list_all2_lengthD)
  moreover have "length vs - 6 = 32"
    using convert_loop_length[of "take (length vs - 6) vs" 0 0 "[]" payload] payload
    by (simp add: convert_five_to_eight_def)
  ultimately show ?thesis using that[of "drop 6 s" vs] s vs n1 pm by simp
qed

lemma canonical_owner_length:
  "is_canonical_akash_owner s \<Longrightarrow> length s = 44"
  by (auto elim: canonical_owner_parts)

lemma hrp_akash_range: "v \<in> set (hrp_expand ''akash'') \<Longrightarrow> 0 \<le> v \<and> v < 32"
proof -
  have "list_all (\<lambda>v. 0 \<le> v \<and> v < 32) (hrp_expand ''akash'')" by code_simp
  then show "v \<in> set (hrp_expand ''akash'') \<Longrightarrow> 0 \<le> v \<and> v < 32" by (simp add: list_all_iff)
qed

text \<open>
  A mistyped owner is never accepted. A canonical owner has 44 characters, starts with
  \<^verbatim>\<open>akash1\<close>, and replacing any one of its characters by another never gives a canonical
  owner: the checksum separates all accounts at distance one.
\<close>

theorem owner_substitution_detected:
  assumes s: "is_canonical_akash_owner s" and i: "i < length s" and c: "c \<noteq> s ! i"
  shows "length s = 44 \<and> take 6 s = ''akash1'' \<and> \<not> is_canonical_akash_owner (s[i := c])"
proof -
  obtain d vs where d: "s = ''akash1'' @ d" "bech32_values d = Some vs"
    "polymod (hrp_expand ''akash'' @ vs) = 1" "length d = 38"
    using s by (rule canonical_owner_parts)
  have "\<not> is_canonical_akash_owner (s[i := c])"
  proof
    assume "is_canonical_akash_owner (s[i := c])"
    then obtain d' vs' where d': "s[i := c] = ''akash1'' @ d'" "bech32_values d' = Some vs'"
      "polymod (hrp_expand ''akash'' @ vs') = 1" "length d' = 38"
      by (rule canonical_owner_parts)
    have "6 \<le> i"
    proof (rule ccontr)
      assume "\<not> 6 \<le> i"
      moreover have "take 6 (s[i := c]) = take 6 s"
        unfolding d'(1) by (simp add: d(1))
      ultimately have "s[i := c] ! i = s ! i" by (metis not_le nth_take)
      then show False using i c by simp
    qed
    define j where "j = i - 6"
    have j: "j < 38" "i = 6 + j" using \<open>6 \<le> i\<close> i d by (auto simp: j_def)
    have dd: "d' = d[j := c]" "c \<noteq> d ! j"
      using d'(1) d(1) j c by (simp_all add: list_update_append nth_append)
    have l: "length vs = 38" "length vs' = 38"
      using d d' by (auto simp: bech32_values_iff dest: list_all2_lengthD)
    have v: "bech32_value (d ! k) = Some (vs ! k)" "bech32_value (d' ! k) = Some (vs' ! k)"
      if "k < 38" for k
      using that d d' by (auto simp: bech32_values_iff list_all2_conv_all_nth)
    have same: "vs' ! k = vs ! k" if "k < 38" "k \<noteq> j" for k
      using v[of k] that dd(1) by simp
    have vs: "vs = take j vs @ [vs ! j] @ drop (Suc j) vs"
      using id_take_nth_drop[of j vs] j l by simp
    have vs': "vs' = take j vs @ [vs' ! j] @ drop (Suc j) vs"
      using j l same by (intro nth_equalityI) (auto simp: nth_append nth_Cons' min_def)
    have "\<forall>v \<in> set ((hrp_expand ''akash'' @ take j vs) @ [vs' ! j, vs ! j] @ drop (Suc j) vs).
        0 \<le> v \<and> v < 32"
    proof -
      have "0 \<le> x \<and> x < 32" if "x \<in> set vs" for x
        using that v(1) l by (metis bech32_value_range in_set_conv_nth)
      moreover have "0 \<le> vs' ! j \<and> vs' ! j < 32" using v(2)[OF j(1)] by (rule bech32_value_range)
      ultimately show ?thesis
        using hrp_akash_range j l by (auto dest: in_set_takeD in_set_dropD)
    qed
    moreover have "polymod ((hrp_expand ''akash'' @ take j vs) @ [vs' ! j] @ drop (Suc j) vs)
        = polymod ((hrp_expand ''akash'' @ take j vs) @ [vs ! j] @ drop (Suc j) vs)"
      using d(3) d'(3) vs vs' by simp
    ultimately have "vs' ! j = vs ! j" by (rule polymod_substitution)
    then have "d' ! j = d ! j" using v[OF j(1)] by (metis bech32_value_inj)
    then show False using dd j d by simp
  qed
  then show ?thesis using d by simp
qed

definition sample_owner :: string where
  "sample_owner = ''akash1cklqag0e0v794msgqkr6uwf7sr6zyy42gm78f0''"

lemma sample_owner_canonical: "is_canonical_akash_owner sample_owner"
  by code_simp

theorem owner_substitution_detected_witness:
  "\<not> is_canonical_akash_owner (sample_owner[10 := CHR ''q''])"
  using owner_substitution_detected[OF sample_owner_canonical, of 10 "CHR ''q''"]
  by (simp add: sample_owner_def)

end
