(* ===== verification/Digest.thy ===== *)
theory Digest
  imports DecimalText "HOL-Library.Word" "HOL-Library.Char_ord"
begin

text \<open>
  The canonical encoding that journals, reservations and financial records are digested
  with: the JSON text that \<^verbatim>\<open>json.dumps(value, sort_keys=True, separators=(",", ":"),
  ensure_ascii=True)\<close> produces, base64 for byte fields, and SHA-256. They are the parts of
  the standard library that \<^verbatim>\<open>canonical_journal_bytes\<close> and its digests rest on. Strings
  are the 8-bit characters of \<^typ>\<open>char\<close>, the Latin-1 range of a Python string.
\<close>

section \<open>SHA-256\<close>

type_synonym word32 = "32 word"

definition sha256_K :: "word32 list" where
  "sha256_K =
     [1116352408, 1899447441, 3049323471, 3921009573, 961987163, 1508970993, 2453635748,
      2870763221, 3624381080, 310598401, 607225278, 1426881987, 1925078388, 2162078206,
      2614888103, 3248222580, 3835390401, 4022224774, 264347078, 604807628, 770255983,
      1249150122, 1555081692, 1996064986, 2554220882, 2821834349, 2952996808, 3210313671,
      3336571891, 3584528711, 113926993, 338241895, 666307205, 773529912, 1294757372,
      1396182291, 1695183700, 1986661051, 2177026350, 2456956037, 2730485921, 2820302411,
      3259730800, 3345764771, 3516065817, 3600352804, 4094571909, 275423344, 430227734,
      506948616, 659060556, 883997877, 958139571, 1322822218, 1537002063, 1747873779,
      1955562222, 2024104815, 2227730452, 2361852424, 2428436474, 2756734187, 3204031479,
      3329325298]"

definition sha256_H :: "word32 list" where
  "sha256_H =
     [1779033703, 3144134277, 1013904242, 2773480762, 1359893119, 2600822924, 528734635,
      1541459225]"

unbundle bit_operations_syntax

definition rotr :: "nat \<Rightarrow> word32 \<Rightarrow> word32" where
  "rotr n x = drop_bit n x OR push_bit (32 - n) x"

definition schedule_word :: "word32 list \<Rightarrow> word32" where
  "schedule_word ws =
     (let a = ws ! (length ws - 15); b = ws ! (length ws - 2) in
      ws ! (length ws - 16) + (rotr 7 a XOR rotr 18 a XOR drop_bit 3 a)
      + ws ! (length ws - 7) + (rotr 17 b XOR rotr 19 b XOR drop_bit 10 b))"

definition message_schedule :: "word32 list \<Rightarrow> word32 list" where
  "message_schedule block = ((\<lambda>ws. ws @ [schedule_word ws]) ^^ 48) block"

fun sha256_round :: "word32 \<times> word32 \<Rightarrow> word32 list \<Rightarrow> word32 list" where
  "sha256_round (k, w) [a, b, c, d, e, f, g, h] =
     (let t1 = h + (rotr 6 e XOR rotr 11 e XOR rotr 25 e)
                 + ((e AND f) XOR (NOT e AND g)) + k + w;
          t2 = (rotr 2 a XOR rotr 13 a XOR rotr 22 a)
                 + ((a AND b) XOR (a AND c) XOR (b AND c))
      in [t1 + t2, a, b, c, d + t1, e, f, g])"
| "sha256_round _ s = s"

definition sha256_block :: "word32 list \<Rightarrow> word32 list \<Rightarrow> word32 list" where
  "sha256_block block h =
     map2 (+) h (fold sha256_round (zip sha256_K (message_schedule block)) h)"

fun big_endian :: "nat \<Rightarrow> nat \<Rightarrow> nat list" where
  "big_endian 0 n = []"
| "big_endian (Suc k) n = big_endian k (n div 256) @ [n mod 256]"

fun chunks :: "nat \<Rightarrow> 'a list \<Rightarrow> 'a list list" where
  "chunks n xs = (if n = 0 \<or> xs = [] then [] else take n xs # chunks n (drop n xs))"

declare chunks.simps [simp del]

definition word_of_bytes :: "nat list \<Rightarrow> word32" where
  "word_of_bytes bs = of_nat (foldl (\<lambda>n b. 256 * n + b) 0 bs)"

definition sha256_pad :: "nat list \<Rightarrow> nat list" where
  "sha256_pad bs =
     bs @ [128] @ replicate ((119 - length bs mod 64) mod 64) 0 @ big_endian 8 (8 * length bs)"

definition sha256 :: "nat list \<Rightarrow> word32 list" where
  "sha256 bs =
     fold (\<lambda>block. sha256_block (map word_of_bytes (chunks 4 block))) (chunks 64 (sha256_pad bs)) sha256_H"

definition hex_char :: "nat \<Rightarrow> char" where
  "hex_char d = (if d < 10 then char_of (48 + d) else char_of (87 + d))"

fun hex_str :: "nat \<Rightarrow> nat \<Rightarrow> string" where
  "hex_str 0 n = []"
| "hex_str (Suc k) n = hex_str k (n div 16) @ [hex_char (n mod 16)]"

definition sha256_hexdigest :: "string \<Rightarrow> string" where
  "sha256_hexdigest s = concat (map (\<lambda>w. hex_str 8 (unat w)) (sha256 (map code s)))"

section \<open>Base64\<close>

definition base64_alphabet :: string where
  "base64_alphabet = ''ABCDEFGHIJKLMNOPQRSTUVWXYZabcdefghijklmnopqrstuvwxyz0123456789+/''"

fun base64 :: "nat list \<Rightarrow> string" where
  "base64 (a # b # c # bs) =
     [base64_alphabet ! (a div 4), base64_alphabet ! (a mod 4 * 16 + b div 16),
      base64_alphabet ! (b mod 16 * 4 + c div 64), base64_alphabet ! (c mod 64)] @ base64 bs"
| "base64 [a, b] =
     [base64_alphabet ! (a div 4), base64_alphabet ! (a mod 4 * 16 + b div 16),
      base64_alphabet ! (b mod 16 * 4), CHR ''='']"
| "base64 [a] = [base64_alphabet ! (a div 4), base64_alphabet ! (a mod 4 * 16), CHR ''='', CHR ''='']"
| "base64 [] = []"

section \<open>Canonical JSON\<close>

datatype json =
    JNull
  | JBool bool
  | JInt int
  | JStr string
  | JArr "json list"
  | JObj "(string \<times> json) list"

definition escape_char :: "char \<Rightarrow> string" where
  "escape_char c =
     (if code c = 34 then [CHR 0x5C, CHR 0x22]
      else if code c = 92 then [CHR 0x5C, CHR 0x5C]
      else if code c = 10 then [CHR 0x5C, CHR ''n'']
      else if code c = 13 then [CHR 0x5C, CHR ''r'']
      else if code c = 9 then [CHR 0x5C, CHR ''t'']
      else if code c = 8 then [CHR 0x5C, CHR ''b'']
      else if code c = 12 then [CHR 0x5C, CHR ''f'']
      else if 32 \<le> code c \<and> code c \<le> 126 then [c]
      else CHR 0x5C # CHR ''u'' # hex_str 4 (code c))"

definition json_quote :: "string \<Rightarrow> string" where
  "json_quote s = CHR 0x22 # concat (map escape_char s) @ [CHR 0x22]"

fun comma_join :: "string list \<Rightarrow> string" where
  "comma_join [] = []"
| "comma_join [s] = s"
| "comma_join (s # ss) = s @ '','' @ comma_join ss"

fun dumps :: "json \<Rightarrow> string" where
  "dumps JNull = ''null''"
| "dumps (JBool b) = (if b then ''true'' else ''false'')"
| "dumps (JInt i) = int_str i"
| "dumps (JStr s) = json_quote s"
| "dumps (JArr xs) = ''['' @ comma_join (map dumps xs) @ '']''"
| "dumps (JObj kvs) =
     ''{'' @ comma_join (map (\<lambda>(k, t). json_quote k @ '':'' @ t)
                (sort_key fst (map (\<lambda>(k, v). (k, dumps v)) kvs))) @ ''}''"

section \<open>Digests are lowercase hexadecimal\<close>

definition is_hex :: "char \<Rightarrow> bool" where
  "is_hex c \<longleftrightarrow> is_digit c \<or> 97 \<le> code c \<and> code c \<le> 102"

lemma hex_char_hex: "d < 16 \<Longrightarrow> is_hex (hex_char d)"
  by (auto simp: is_hex_def hex_char_def is_digit_def code_def)

lemma hex_str_length [simp]: "length (hex_str k n) = k"
  by (induction k arbitrary: n) auto

lemma hex_str_hex: "c \<in> set (hex_str k n) \<Longrightarrow> is_hex c"
  by (induction k arbitrary: n) (auto simp: hex_char_hex)

lemma sha256_round_length: "length s = 8 \<Longrightarrow> length (sha256_round kw s) = 8"
  by (cases "(kw, s)" rule: sha256_round.cases) (auto simp: Let_def)

lemma fold_round_length: "length s = 8 \<Longrightarrow> length (fold sha256_round kws s) = 8"
  by (induction kws arbitrary: s) (simp_all add: sha256_round_length)

lemma sha256_length: "length (sha256 bs) = 8"
proof -
  have "length (fold (\<lambda>b. sha256_block (map word_of_bytes (chunks 4 b))) blocks h) = 8"
    if "length h = 8" for blocks h
    using that by (induction blocks arbitrary: h) (simp_all add: sha256_block_def fold_round_length)
  then show ?thesis by (simp add: sha256_def sha256_H_def)
qed

lemma sha256_hexdigest_length [simp]: "length (sha256_hexdigest s) = 64"
proof -
  have "length (concat (map (\<lambda>w. hex_str 8 (unat w)) ws)) = 8 * length ws" for ws :: "word32 list"
    by (induction ws) auto
  then show ?thesis by (simp add: sha256_hexdigest_def sha256_length)
qed

lemma sha256_hexdigest_hex: "list_all is_hex (sha256_hexdigest s)"
  by (auto simp: sha256_hexdigest_def list_all_iff dest: hex_str_hex)

end
