(* ===== verification/JournalData.thy ===== *)
theory JournalData
  imports Identity Digest
begin

text \<open>
  \<^verbatim>\<open>create_journal.py\<close>, the typed evidence: every frozen dataclass is a record, its
  \<^verbatim>\<open>__post_init__\<close> a predicate \<open>is_...\<close> that says which values its constructor accepts
  (every violation raises \<open>ValueError\<close>), and its canonical form a \<open>canon_...\<close> function into
  JSON. An \<^verbatim>\<open>isinstance\<close> check of a field is the predicate of the field's record: in Python
  only constructed values have the class. Field names carry a prefix per class.
\<close>

section \<open>Enumerations\<close>

datatype backend_kind =
    SELF_MANAGED
  | MEDIATED

fun backend_kind_value :: "backend_kind \<Rightarrow> string" where
  "backend_kind_value SELF_MANAGED = ''self_managed''"
| "backend_kind_value MEDIATED = ''mediated''"

datatype owner_evidence_kind =
    VERIFIED_SIGNER
  | AUTHENTICATED_MEDIATOR

fun owner_evidence_kind_value :: "owner_evidence_kind \<Rightarrow> string" where
  "owner_evidence_kind_value VERIFIED_SIGNER = ''verified_signer''"
| "owner_evidence_kind_value AUTHENTICATED_MEDIATOR = ''authenticated_mediator''"

datatype create_outcome_kind =
    KIND_REJECTED_BEFORE_SEND
  | KIND_FALLBACK_SAFE
  | KIND_COMMITTED
  | KIND_UNKNOWN

fun create_outcome_kind_value :: "create_outcome_kind \<Rightarrow> string" where
  "create_outcome_kind_value KIND_REJECTED_BEFORE_SEND = ''rejected_before_send''"
| "create_outcome_kind_value KIND_FALLBACK_SAFE = ''fallback_safe''"
| "create_outcome_kind_value KIND_COMMITTED = ''committed''"
| "create_outcome_kind_value KIND_UNKNOWN = ''unknown''"

datatype outcome_reason_code =
    INTENT_REJECTED
  | SIGNING_REJECTED
  | MEDIATOR_REJECTED
  | SUBMISSION_PROVEN_ABSENT
  | DEPLOYMENT_PROVEN_ABSENT
  | TRANSACTION_EVENT_BOUND
  | EXACT_CHAIN_READ_BOUND
  | BROAD_EXCEPTION
  | STARTED_PROCESS_TIMEOUT
  | HTTP_READ_TIMEOUT
  | HTTP_WRITE_TIMEOUT
  | TRANSPORT_ERROR
  | RESPONSE_LOST
  | BACKEND_ROTATION
  | PROVIDER_ROTATION
  | RECONCILIATION_INCOMPLETE

fun outcome_reason_code_value :: "outcome_reason_code \<Rightarrow> string" where
  "outcome_reason_code_value INTENT_REJECTED = ''intent_rejected''"
| "outcome_reason_code_value SIGNING_REJECTED = ''signing_rejected''"
| "outcome_reason_code_value MEDIATOR_REJECTED = ''mediator_rejected''"
| "outcome_reason_code_value SUBMISSION_PROVEN_ABSENT = ''submission_proven_absent''"
| "outcome_reason_code_value DEPLOYMENT_PROVEN_ABSENT = ''deployment_proven_absent''"
| "outcome_reason_code_value TRANSACTION_EVENT_BOUND = ''transaction_event_bound''"
| "outcome_reason_code_value EXACT_CHAIN_READ_BOUND = ''exact_chain_read_bound''"
| "outcome_reason_code_value BROAD_EXCEPTION = ''broad_exception''"
| "outcome_reason_code_value STARTED_PROCESS_TIMEOUT = ''started_process_timeout''"
| "outcome_reason_code_value HTTP_READ_TIMEOUT = ''http_read_timeout''"
| "outcome_reason_code_value HTTP_WRITE_TIMEOUT = ''http_write_timeout''"
| "outcome_reason_code_value TRANSPORT_ERROR = ''transport_error''"
| "outcome_reason_code_value RESPONSE_LOST = ''response_lost''"
| "outcome_reason_code_value BACKEND_ROTATION = ''backend_rotation''"
| "outcome_reason_code_value PROVIDER_ROTATION = ''provider_rotation''"
| "outcome_reason_code_value RECONCILIATION_INCOMPLETE = ''reconciliation_incomplete''"

datatype journal_state =
    PREPARED
  | SUBMITTED
  | REJECTED_BEFORE_SEND
  | FALLBACK_SAFE
  | CREATE_OUTCOME_UNKNOWN
  | CREATED
  | HANDOFF_FAILED
  | CREATOR_ROLLBACK_REQUESTED
  | EXECUTION_CLOSED
  | SETTLEMENT

fun journal_state_value :: "journal_state \<Rightarrow> string" where
  "journal_state_value PREPARED = ''prepared''"
| "journal_state_value SUBMITTED = ''submitted''"
| "journal_state_value REJECTED_BEFORE_SEND = ''rejected_before_send''"
| "journal_state_value FALLBACK_SAFE = ''fallback_safe''"
| "journal_state_value CREATE_OUTCOME_UNKNOWN = ''create_outcome_unknown''"
| "journal_state_value CREATED = ''created''"
| "journal_state_value HANDOFF_FAILED = ''handoff_failed''"
| "journal_state_value CREATOR_ROLLBACK_REQUESTED = ''creator_rollback_requested''"
| "journal_state_value EXECUTION_CLOSED = ''execution_closed''"
| "journal_state_value SETTLEMENT = ''settlement''"

datatype settlement_state =
    UNMEASURED
  | UNSETTLED
  | SETTLED

fun settlement_state_value :: "settlement_state \<Rightarrow> string" where
  "settlement_state_value UNMEASURED = ''unmeasured''"
| "settlement_state_value UNSETTLED = ''unsettled''"
| "settlement_state_value SETTLED = ''settled''"

datatype execution_closure_proof_mode =
    EXACT_FINALIZED_HEIGHT

fun execution_closure_proof_mode_value :: "execution_closure_proof_mode \<Rightarrow> string" where
  "execution_closure_proof_mode_value EXACT_FINALIZED_HEIGHT = ''exact_finalized_height''"

section \<open>Shared validators\<close>

definition CLASSES :: "string list" where
  "CLASSES = [''ci-runner'', ''ci-payload'', ''staging-payload'', ''prod-payload'']"

definition MAX_UTC_UNIX_SECONDS :: int where
  "MAX_UTC_UNIX_SECONDS = 253402300799"

definition JOURNAL_SCHEMA_VERSION :: int where
  "JOURNAL_SCHEMA_VERSION = 1"

definition nonempty :: "string \<Rightarrow> bool" where
  "nonempty s \<longleftrightarrow> strip s \<noteq> []"

definition isascii :: "string \<Rightarrow> bool" where
  "isascii s \<longleftrightarrow> list_all (\<lambda>c. code c < 128) s"

definition is_digest :: "string \<Rightarrow> bool" where
  "is_digest s \<longleftrightarrow> length s = 64 \<and> list_all is_hex s"

definition is_revision :: "string \<Rightarrow> bool" where
  "is_revision s \<longleftrightarrow> length s = 40 \<and> list_all is_hex s"

definition is_positive_text :: "string \<Rightarrow> bool" where
  "is_positive_text s \<longleftrightarrow>
     (case s of [] \<Rightarrow> False | c # cs \<Rightarrow> is_digit c \<and> c \<noteq> CHR ''0'' \<and> list_all is_digit cs)"

definition is_time :: "int \<Rightarrow> bool" where
  "is_time t \<longleftrightarrow> 0 < t \<and> t \<le> MAX_UTC_UNIX_SECONDS"

definition is_version :: "int \<Rightarrow> bool" where
  "is_version v \<longleftrightarrow> v = JOURNAL_SCHEMA_VERSION"

definition is_operation :: "string \<Rightarrow> bool" where
  "is_operation s \<longleftrightarrow> nonempty s \<and> isascii s \<and> length s \<le> 128"

definition starts_with :: "string \<Rightarrow> string \<Rightarrow> bool" where
  "starts_with p s \<longleftrightarrow> take (length p) s = p"

definition is_release :: "string \<Rightarrow> bool" where
  "is_release s \<longleftrightarrow>
     (let lower_or_digit = (\<lambda>c. is_digit c \<or> 97 \<le> code c \<and> code c \<le> 122) in
      case s of [] \<Rightarrow> False
      | c # cs \<Rightarrow> lower_or_digit c \<and> length cs \<le> 63
          \<and> list_all (\<lambda>c. lower_or_digit c \<or> c = CHR ''.'' \<or> c = CHR ''_'') cs)"

section \<open>Canonical form\<close>

definition canon_dataclass :: "string \<Rightarrow> (string \<times> json) list \<Rightarrow> json" where
  "canon_dataclass name attributes = JObj ((''$type'', JStr name) # attributes)"

definition canon_enum :: "('a \<Rightarrow> string) \<Rightarrow> 'a \<Rightarrow> json" where
  "canon_enum member_value x = JStr (member_value x)"

definition canon_bytes :: "string \<Rightarrow> json" where
  "canon_bytes b = JObj [(''$bytes'', JStr (base64 (map code b)))]"

definition canon_opt :: "('a \<Rightarrow> json) \<Rightarrow> 'a option \<Rightarrow> json" where
  "canon_opt f v = (case v of None \<Rightarrow> JNull | Some x \<Rightarrow> f x)"

definition canon_tuple :: "('a \<Rightarrow> json) \<Rightarrow> 'a list \<Rightarrow> json" where
  "canon_tuple f xs = JArr (map f xs)"

definition canonical_journal_bytes :: "json \<Rightarrow> string" where
  "canonical_journal_bytes canonical = dumps canonical"

definition canonical_journal_digest :: "json \<Rightarrow> string" where
  "canonical_journal_digest canonical = sha256_hexdigest (canonical_journal_bytes canonical)"

definition canonical_payload_digest :: "string \<Rightarrow> string" where
  "canonical_payload_digest payload = sha256_hexdigest payload"

lemma is_digest_sha256 [simp]: "is_digest (sha256_hexdigest s)"
  by (simp add: is_digest_def sha256_hexdigest_hex)

lemma is_digest_journal [simp]: "is_digest (canonical_journal_digest j)"
  by (simp add: canonical_journal_digest_def)

lemma is_digest_payload [simp]: "is_digest (canonical_payload_digest p)"
  by (simp add: canonical_payload_digest_def)

lemma is_digest_nonempty: "is_digest s \<Longrightarrow> s \<noteq> []"
  by (auto simp: is_digest_def)

section \<open>Prepared creates\<close>

definition canon_deployment_key :: "deployment_key \<Rightarrow> json" where
  "canon_deployment_key x = canon_dataclass ''DeploymentKey''
     [(''owner'', JStr (dk_owner x)),
      (''dseq'', JStr (dk_dseq x))]"

record backend_identity =
  bi_kind :: backend_kind
  bi_identifier :: string
  bi_version :: int

definition is_backend_identity :: "backend_identity \<Rightarrow> bool" where
  "is_backend_identity b \<longleftrightarrow>
     is_version (bi_version b) \<and> nonempty (bi_identifier b) \<and> isascii (bi_identifier b)
     \<and> length (bi_identifier b) \<le> 256"

definition canon_backend_identity :: "backend_identity \<Rightarrow> json" where
  "canon_backend_identity x = canon_dataclass ''BackendIdentity''
     [(''kind'', canon_enum backend_kind_value (bi_kind x)),
      (''identifier'', JStr (bi_identifier x)),
      (''schema_version'', JInt (bi_version x))]"

record producer_provenance =
  pp_repository :: string
  pp_repository_id :: string
  pp_repository_owner_id :: string
  pp_issuer :: string
  pp_audience :: string
  pp_subject :: string
  pp_workflow_ref :: string
  pp_workflow_sha :: string
  pp_ref :: string
  pp_jti :: string
  pp_authentication_evidence_digest :: string
  pp_version :: int

definition is_producer_provenance :: "producer_provenance \<Rightarrow> bool" where
  "is_producer_provenance p \<longleftrightarrow>
     is_version (pp_version p)
     \<and> list_all (\<lambda>f. nonempty (f p)) [pp_repository, pp_issuer, pp_audience, pp_subject,
         pp_workflow_ref, pp_ref, pp_jti]
     \<and> count_list (pp_repository p) (CHR ''/'') = 1
     \<and> is_positive_text (pp_repository_id p) \<and> is_positive_text (pp_repository_owner_id p)
     \<and> is_revision (pp_workflow_sha p) \<and> is_digest (pp_authentication_evidence_digest p)"

definition canon_producer_provenance :: "producer_provenance \<Rightarrow> json" where
  "canon_producer_provenance x = canon_dataclass ''ProducerProvenance''
     [(''repository'', JStr (pp_repository x)),
      (''repository_id'', JStr (pp_repository_id x)),
      (''repository_owner_id'', JStr (pp_repository_owner_id x)),
      (''issuer'', JStr (pp_issuer x)),
      (''audience'', JStr (pp_audience x)),
      (''subject'', JStr (pp_subject x)),
      (''workflow_ref'', JStr (pp_workflow_ref x)),
      (''workflow_sha'', JStr (pp_workflow_sha x)),
      (''ref'', JStr (pp_ref x)),
      (''jti'', JStr (pp_jti x)),
      (''authentication_evidence_digest'', JStr (pp_authentication_evidence_digest x)),
      (''schema_version'', JInt (pp_version x))]"

record lifecycle_identity =
  li_repository :: string
  li_workload_class :: string
  li_run :: "int option"
  li_run_attempt :: "int option"
  li_release :: "string option"
  li_expires :: "int option"
  li_version :: int

definition is_lifecycle_identity :: "lifecycle_identity \<Rightarrow> bool" where
  "is_lifecycle_identity l \<longleftrightarrow>
     is_version (li_version l) \<and> nonempty (li_repository l) \<and> li_workload_class l \<in> set CLASSES
     \<and> (if starts_with ''ci-'' (li_workload_class l)
        then (case li_run l of None \<Rightarrow> False | Some r \<Rightarrow> 0 < r)
           \<and> (case li_run_attempt l of None \<Rightarrow> False | Some a \<Rightarrow> 0 < a)
           \<and> li_release l = None \<and> li_expires l = None
        else li_run l = None \<and> li_run_attempt l = None
           \<and> (case li_release l of None \<Rightarrow> False | Some r \<Rightarrow> is_release r)
           \<and> (li_expires l = None \<or> li_workload_class l = ''staging-payload''))
     \<and> (case li_expires l of None \<Rightarrow> True | Some e \<Rightarrow> is_time e)"

definition canon_lifecycle_identity :: "lifecycle_identity \<Rightarrow> json" where
  "canon_lifecycle_identity x = canon_dataclass ''LifecycleIdentity''
     [(''repository'', JStr (li_repository x)),
      (''workload_class'', JStr (li_workload_class x)),
      (''run'', canon_opt JInt (li_run x)),
      (''run_attempt'', canon_opt JInt (li_run_attempt x)),
      (''release'', canon_opt JStr (li_release x)),
      (''expires'', canon_opt JInt (li_expires x)),
      (''schema_version'', JInt (li_version x))]"

record owner_candidate =
  oc_backend :: backend_identity
  oc_owner :: string
  oc_evidence_kind :: owner_evidence_kind
  oc_evidence_source :: string
  oc_evidence_digest :: string
  oc_version :: int

definition expected_evidence_kind :: "backend_kind \<Rightarrow> owner_evidence_kind" where
  "expected_evidence_kind k =
     (case k of SELF_MANAGED \<Rightarrow> VERIFIED_SIGNER | MEDIATED \<Rightarrow> AUTHENTICATED_MEDIATOR)"

definition is_owner_candidate :: "owner_candidate \<Rightarrow> bool" where
  "is_owner_candidate c \<longleftrightarrow>
     is_version (oc_version c) \<and> is_backend_identity (oc_backend c)
     \<and> is_canonical_akash_owner (oc_owner c)
     \<and> oc_evidence_kind c = expected_evidence_kind (bi_kind (oc_backend c))
     \<and> nonempty (oc_evidence_source c) \<and> is_digest (oc_evidence_digest c)"

definition canon_owner_candidate :: "owner_candidate \<Rightarrow> json" where
  "canon_owner_candidate x = canon_dataclass ''OwnerCandidate''
     [(''backend'', canon_backend_identity (oc_backend x)),
      (''owner'', JStr (oc_owner x)),
      (''evidence_kind'', canon_enum owner_evidence_kind_value (oc_evidence_kind x)),
      (''evidence_source'', JStr (oc_evidence_source x)),
      (''evidence_digest'', JStr (oc_evidence_digest x)),
      (''schema_version'', JInt (oc_version x))]"

record prepared_group =
  pg_gseq :: int
  pg_group_name :: string

definition is_prepared_group :: "prepared_group \<Rightarrow> bool" where
  "is_prepared_group g \<longleftrightarrow>
     0 < pg_gseq g \<and> nonempty (pg_group_name g) \<and> isascii (pg_group_name g)
     \<and> pg_group_name g = strip (pg_group_name g) \<and> \<not> list_ex is_space (pg_group_name g)"

definition canon_prepared_group :: "prepared_group \<Rightarrow> json" where
  "canon_prepared_group x = canon_dataclass ''PreparedGroup''
     [(''gseq'', JInt (pg_gseq x)),
      (''group_name'', JStr (pg_group_name x))]"

definition canonical_group_population_digest :: "prepared_group list \<Rightarrow> string result" where
  "canonical_group_population_digest groups =
     (if groups = [] then Inl ValueError
      else if \<not> list_all is_prepared_group groups then Inl ValueError
      else if map pg_gseq groups \<noteq> map int [1..<length groups + 1] then Inl ValueError
      else Inr (sha256_hexdigest
             (dumps (JArr (map (\<lambda>g. JArr [JInt (pg_gseq g), JStr (pg_group_name g)]) groups)))))"

record prepared_create =
  pc_operation_id :: string
  pc_operation_ordinal :: int
  pc_producer :: producer_provenance
  pc_lifecycle :: lifecycle_identity
  pc_owner_candidate :: owner_candidate
  pc_request_digest :: string
  pc_sdl_digest :: string
  pc_groups :: "prepared_group list"
  pc_group_population_digest :: string
  pc_source_revision :: string
  pc_prepared_at :: int
  pc_version :: int

definition is_prepared_create :: "prepared_create \<Rightarrow> bool" where
  "is_prepared_create p \<longleftrightarrow>
     is_version (pc_version p) \<and> is_operation (pc_operation_id p) \<and> 0 < pc_operation_ordinal p
     \<and> is_producer_provenance (pc_producer p) \<and> is_lifecycle_identity (pc_lifecycle p)
     \<and> li_repository (pc_lifecycle p) = pp_repository (pc_producer p)
     \<and> is_owner_candidate (pc_owner_candidate p)
     \<and> is_digest (pc_request_digest p) \<and> is_digest (pc_sdl_digest p)
     \<and> canonical_group_population_digest (pc_groups p) = Inr (pc_group_population_digest p)
     \<and> is_revision (pc_source_revision p) \<and> is_time (pc_prepared_at p)"

definition canon_prepared_create :: "prepared_create \<Rightarrow> json" where
  "canon_prepared_create x = canon_dataclass ''PreparedCreate''
     [(''operation_id'', JStr (pc_operation_id x)),
      (''operation_ordinal'', JInt (pc_operation_ordinal x)),
      (''producer'', canon_producer_provenance (pc_producer x)),
      (''lifecycle'', canon_lifecycle_identity (pc_lifecycle x)),
      (''owner_candidate'', canon_owner_candidate (pc_owner_candidate x)),
      (''request_digest'', JStr (pc_request_digest x)),
      (''sdl_digest'', JStr (pc_sdl_digest x)),
      (''groups'', canon_tuple canon_prepared_group (pc_groups x)),
      (''group_population_digest'', JStr (pc_group_population_digest x)),
      (''source_revision'', JStr (pc_source_revision x)),
      (''prepared_at'', JInt (pc_prepared_at x)),
      (''schema_version'', JInt (pc_version x))]"

section \<open>Submission and outcome evidence\<close>

record submission_evidence =
  se_operation_id :: string
  se_backend :: backend_identity
  se_submitted_request_digest :: string
  se_submitted_at :: int
  se_evidence_source :: string
  se_evidence_digest :: string
  se_transaction_hash :: "string option"
  se_account_sequence :: "int option"
  se_signed_bytes :: "string option"
  se_submission_token :: "string option"
  se_version :: int

definition is_submission_evidence :: "submission_evidence \<Rightarrow> bool" where
  "is_submission_evidence s \<longleftrightarrow>
     is_version (se_version s) \<and> is_operation (se_operation_id s)
     \<and> is_backend_identity (se_backend s) \<and> is_digest (se_submitted_request_digest s)
     \<and> is_time (se_submitted_at s) \<and> nonempty (se_evidence_source s)
     \<and> is_digest (se_evidence_digest s)
     \<and> (case bi_kind (se_backend s) of
          SELF_MANAGED \<Rightarrow>
            (case (se_signed_bytes s, se_transaction_hash s, se_account_sequence s) of
               (Some payload, Some hash, Some sequence) \<Rightarrow>
                 payload \<noteq> [] \<and> is_digest hash \<and> canonical_payload_digest payload = hash
                 \<and> 0 \<le> sequence \<and> se_submission_token s = None
             | _ \<Rightarrow> False)
        | MEDIATED \<Rightarrow>
            se_transaction_hash s = None \<and> se_account_sequence s = None
            \<and> se_signed_bytes s = None
            \<and> (case se_submission_token s of None \<Rightarrow> False | Some t \<Rightarrow> nonempty t))"

definition canon_submission_evidence :: "submission_evidence \<Rightarrow> json" where
  "canon_submission_evidence x = canon_dataclass ''SubmissionEvidence''
     [(''operation_id'', JStr (se_operation_id x)),
      (''backend'', canon_backend_identity (se_backend x)),
      (''submitted_request_digest'', JStr (se_submitted_request_digest x)),
      (''submitted_at'', JInt (se_submitted_at x)),
      (''evidence_source'', JStr (se_evidence_source x)),
      (''evidence_digest'', JStr (se_evidence_digest x)),
      (''transaction_hash'', canon_opt JStr (se_transaction_hash x)),
      (''account_sequence'', canon_opt JInt (se_account_sequence x)),
      (''signed_bytes'', canon_opt canon_bytes (se_signed_bytes x)),
      (''submission_token'', canon_opt JStr (se_submission_token x)),
      (''schema_version'', JInt (se_version x))]"

record rejection_evidence =
  re_operation_id :: string
  re_backend :: backend_identity
  re_before_send :: bool
  re_source :: string
  re_evidence_digest :: string
  re_observed_at :: int

definition is_rejection_evidence :: "rejection_evidence \<Rightarrow> bool" where
  "is_rejection_evidence r \<longleftrightarrow>
     is_operation (re_operation_id r) \<and> is_backend_identity (re_backend r) \<and> re_before_send r
     \<and> nonempty (re_source r) \<and> is_digest (re_evidence_digest r) \<and> is_time (re_observed_at r)"

definition canon_rejection_evidence :: "rejection_evidence \<Rightarrow> json" where
  "canon_rejection_evidence x = canon_dataclass ''RejectionEvidence''
     [(''operation_id'', JStr (re_operation_id x)),
      (''backend'', canon_backend_identity (re_backend x)),
      (''before_send'', JBool (re_before_send x)),
      (''source'', JStr (re_source x)),
      (''evidence_digest'', JStr (re_evidence_digest x)),
      (''observed_at'', JInt (re_observed_at x))]"

record non_commit_evidence =
  nc_operation_id :: string
  nc_backend :: backend_identity
  nc_submission_token :: "string option"
  nc_transaction_hash :: "string option"
  nc_exact_owner :: string
  nc_group_population_digest :: string
  nc_source_a :: string
  nc_source_b :: string
  nc_evidence_digest :: string
  nc_observed_at :: int

definition is_non_commit_evidence :: "non_commit_evidence \<Rightarrow> bool" where
  "is_non_commit_evidence n \<longleftrightarrow>
     is_operation (nc_operation_id n) \<and> is_backend_identity (nc_backend n)
     \<and> (case bi_kind (nc_backend n) of
          SELF_MANAGED \<Rightarrow> nc_submission_token n = None
            \<and> (case nc_transaction_hash n of None \<Rightarrow> True | Some h \<Rightarrow> is_digest h)
        | MEDIATED \<Rightarrow> nc_transaction_hash n = None
            \<and> (case nc_submission_token n of None \<Rightarrow> True | Some t \<Rightarrow> nonempty t))
     \<and> is_canonical_akash_owner (nc_exact_owner n) \<and> is_digest (nc_group_population_digest n)
     \<and> nonempty (nc_source_a n) \<and> nonempty (nc_source_b n) \<and> nc_source_a n \<noteq> nc_source_b n
     \<and> is_digest (nc_evidence_digest n) \<and> is_time (nc_observed_at n)"

definition canon_non_commit_evidence :: "non_commit_evidence \<Rightarrow> json" where
  "canon_non_commit_evidence x = canon_dataclass ''NonCommitEvidence''
     [(''operation_id'', JStr (nc_operation_id x)),
      (''backend'', canon_backend_identity (nc_backend x)),
      (''submission_token'', canon_opt JStr (nc_submission_token x)),
      (''transaction_hash'', canon_opt JStr (nc_transaction_hash x)),
      (''exact_owner'', JStr (nc_exact_owner x)),
      (''group_population_digest'', JStr (nc_group_population_digest x)),
      (''source_a'', JStr (nc_source_a x)),
      (''source_b'', JStr (nc_source_b x)),
      (''evidence_digest'', JStr (nc_evidence_digest x)),
      (''observed_at'', JInt (nc_observed_at x))]"

record uncertainty_evidence =
  ue_operation_id :: string
  ue_source :: string
  ue_evidence_digest :: string
  ue_observed_at :: int
  ue_response_dseq :: "string option"

definition is_uncertainty_evidence :: "uncertainty_evidence \<Rightarrow> bool" where
  "is_uncertainty_evidence u \<longleftrightarrow>
     is_operation (ue_operation_id u) \<and> nonempty (ue_source u) \<and> is_digest (ue_evidence_digest u)
     \<and> is_time (ue_observed_at u)
     \<and> (case ue_response_dseq u of None \<Rightarrow> True | Some d \<Rightarrow> nonempty d)"

definition canon_uncertainty_evidence :: "uncertainty_evidence \<Rightarrow> json" where
  "canon_uncertainty_evidence x = canon_dataclass ''UncertaintyEvidence''
     [(''operation_id'', JStr (ue_operation_id x)),
      (''source'', JStr (ue_source x)),
      (''evidence_digest'', JStr (ue_evidence_digest x)),
      (''observed_at'', JInt (ue_observed_at x)),
      (''response_dseq'', canon_opt JStr (ue_response_dseq x))]"

record transaction_event_evidence =
  te_operation_id :: string
  te_subject :: deployment_key
  te_transaction_hash :: string
  te_event_index :: int
  te_block_height :: int
  te_chain_id :: string
  te_group_population_digest :: string
  te_source :: string
  te_evidence_digest :: string

definition is_transaction_event_evidence :: "transaction_event_evidence \<Rightarrow> bool" where
  "is_transaction_event_evidence t \<longleftrightarrow>
     is_operation (te_operation_id t) \<and> is_deployment_key (te_subject t)
     \<and> is_digest (te_transaction_hash t) \<and> 0 \<le> te_event_index t \<and> 0 < te_block_height t
     \<and> nonempty (te_chain_id t) \<and> is_digest (te_group_population_digest t)
     \<and> nonempty (te_source t) \<and> is_digest (te_evidence_digest t)"

definition canon_transaction_event_evidence :: "transaction_event_evidence \<Rightarrow> json" where
  "canon_transaction_event_evidence x = canon_dataclass ''TransactionEventEvidence''
     [(''operation_id'', JStr (te_operation_id x)),
      (''subject'', canon_deployment_key (te_subject x)),
      (''transaction_hash'', JStr (te_transaction_hash x)),
      (''event_index'', JInt (te_event_index x)),
      (''block_height'', JInt (te_block_height x)),
      (''chain_id'', JStr (te_chain_id x)),
      (''group_population_digest'', JStr (te_group_population_digest x)),
      (''source'', JStr (te_source x)),
      (''evidence_digest'', JStr (te_evidence_digest x))]"

record exact_chain_read_evidence =
  er_operation_id :: string
  er_subject :: deployment_key
  er_chain_id :: string
  er_block_height :: int
  er_groups :: "prepared_group list"
  er_group_population_digest :: string
  er_source :: string
  er_evidence_digest :: string
  er_observed_at :: int

definition is_exact_chain_read_evidence :: "exact_chain_read_evidence \<Rightarrow> bool" where
  "is_exact_chain_read_evidence r \<longleftrightarrow>
     is_operation (er_operation_id r) \<and> is_deployment_key (er_subject r) \<and> nonempty (er_chain_id r)
     \<and> 0 < er_block_height r
     \<and> canonical_group_population_digest (er_groups r) = Inr (er_group_population_digest r)
     \<and> nonempty (er_source r) \<and> is_digest (er_evidence_digest r) \<and> is_time (er_observed_at r)"

definition canon_exact_chain_read_evidence :: "exact_chain_read_evidence \<Rightarrow> json" where
  "canon_exact_chain_read_evidence x = canon_dataclass ''ExactChainReadEvidence''
     [(''operation_id'', JStr (er_operation_id x)),
      (''subject'', canon_deployment_key (er_subject x)),
      (''chain_id'', JStr (er_chain_id x)),
      (''block_height'', JInt (er_block_height x)),
      (''groups'', canon_tuple canon_prepared_group (er_groups x)),
      (''group_population_digest'', JStr (er_group_population_digest x)),
      (''source'', JStr (er_source x)),
      (''evidence_digest'', JStr (er_evidence_digest x)),
      (''observed_at'', JInt (er_observed_at x))]"

datatype binding_evidence =
    TransactionEvent transaction_event_evidence
  | ExactChainRead exact_chain_read_evidence

fun binding_operation_id :: "binding_evidence \<Rightarrow> string" where
  "binding_operation_id (TransactionEvent t) = te_operation_id t"
| "binding_operation_id (ExactChainRead r) = er_operation_id r"

fun binding_subject :: "binding_evidence \<Rightarrow> deployment_key" where
  "binding_subject (TransactionEvent t) = te_subject t"
| "binding_subject (ExactChainRead r) = er_subject r"

fun binding_group_population_digest :: "binding_evidence \<Rightarrow> string" where
  "binding_group_population_digest (TransactionEvent t) = te_group_population_digest t"
| "binding_group_population_digest (ExactChainRead r) = er_group_population_digest r"

fun binding_chain_id :: "binding_evidence \<Rightarrow> string" where
  "binding_chain_id (TransactionEvent t) = te_chain_id t"
| "binding_chain_id (ExactChainRead r) = er_chain_id r"

fun is_binding_evidence :: "binding_evidence \<Rightarrow> bool" where
  "is_binding_evidence (TransactionEvent t) = is_transaction_event_evidence t"
| "is_binding_evidence (ExactChainRead r) = is_exact_chain_read_evidence r"

fun canon_binding_evidence :: "binding_evidence \<Rightarrow> json" where
  "canon_binding_evidence (TransactionEvent t) = canon_transaction_event_evidence t"
| "canon_binding_evidence (ExactChainRead r) = canon_exact_chain_read_evidence r"

record bound_deployment =
  bd_operation_id :: string
  bd_subject :: deployment_key
  bd_groups :: "prepared_group list"
  bd_group_population_digest :: string
  bd_binding_evidence :: binding_evidence
  bd_version :: int

definition is_bound_deployment :: "bound_deployment \<Rightarrow> bool" where
  "is_bound_deployment b \<longleftrightarrow>
     is_version (bd_version b) \<and> is_operation (bd_operation_id b) \<and> is_deployment_key (bd_subject b)
     \<and> canonical_group_population_digest (bd_groups b) = Inr (bd_group_population_digest b)
     \<and> is_binding_evidence (bd_binding_evidence b)
     \<and> binding_operation_id (bd_binding_evidence b) = bd_operation_id b
     \<and> binding_subject (bd_binding_evidence b) = bd_subject b
     \<and> binding_group_population_digest (bd_binding_evidence b) = bd_group_population_digest b
     \<and> (case bd_binding_evidence b of
          ExactChainRead r \<Rightarrow> er_groups r = bd_groups b | TransactionEvent _ \<Rightarrow> True)"

definition canon_bound_deployment :: "bound_deployment \<Rightarrow> json" where
  "canon_bound_deployment x = canon_dataclass ''BoundDeployment''
     [(''operation_id'', JStr (bd_operation_id x)),
      (''subject'', canon_deployment_key (bd_subject x)),
      (''groups'', canon_tuple canon_prepared_group (bd_groups x)),
      (''group_population_digest'', JStr (bd_group_population_digest x)),
      (''binding_evidence'', canon_binding_evidence (bd_binding_evidence x)),
      (''schema_version'', JInt (bd_version x))]"

definition REJECTED_REASONS :: "outcome_reason_code list" where
  "REJECTED_REASONS = [INTENT_REJECTED, SIGNING_REJECTED, MEDIATOR_REJECTED]"

definition SAFE_REASONS :: "outcome_reason_code list" where
  "SAFE_REASONS = [SUBMISSION_PROVEN_ABSENT, DEPLOYMENT_PROVEN_ABSENT]"

definition COMMITTED_REASONS :: "outcome_reason_code list" where
  "COMMITTED_REASONS = [TRANSACTION_EVENT_BOUND, EXACT_CHAIN_READ_BOUND]"

definition is_unknown_reason :: "outcome_reason_code \<Rightarrow> bool" where
  "is_unknown_reason r \<longleftrightarrow>
     r \<notin> set REJECTED_REASONS \<and> r \<notin> set SAFE_REASONS \<and> r \<notin> set COMMITTED_REASONS"

record create_outcome =
  co_operation_id :: string
  co_kind :: create_outcome_kind
  co_reason_code :: outcome_reason_code
  co_rejection :: "rejection_evidence option"
  co_non_commit :: "non_commit_evidence option"
  co_uncertainty :: "uncertainty_evidence option"
  co_deployment :: "bound_deployment option"
  co_version :: int

definition outcome_evidence_ids :: "create_outcome \<Rightarrow> string list" where
  "outcome_evidence_ids c =
     (case co_rejection c of None \<Rightarrow> [] | Some r \<Rightarrow> [re_operation_id r])
     @ (case co_non_commit c of None \<Rightarrow> [] | Some n \<Rightarrow> [nc_operation_id n])
     @ (case co_uncertainty c of None \<Rightarrow> [] | Some u \<Rightarrow> [ue_operation_id u])
     @ (case co_deployment c of None \<Rightarrow> [] | Some d \<Rightarrow> [bd_operation_id d])"

definition is_create_outcome :: "create_outcome \<Rightarrow> bool" where
  "is_create_outcome c \<longleftrightarrow>
     is_version (co_version c) \<and> is_operation (co_operation_id c)
     \<and> (case co_kind c of
          KIND_REJECTED_BEFORE_SEND \<Rightarrow>
            co_reason_code c \<in> set REJECTED_REASONS \<and> co_rejection c \<noteq> None
        | KIND_FALLBACK_SAFE \<Rightarrow> co_reason_code c \<in> set SAFE_REASONS \<and> co_non_commit c \<noteq> None
        | KIND_COMMITTED \<Rightarrow> co_reason_code c \<in> set COMMITTED_REASONS \<and> co_deployment c \<noteq> None
        | KIND_UNKNOWN \<Rightarrow> is_unknown_reason (co_reason_code c) \<and> co_uncertainty c \<noteq> None)
     \<and> outcome_evidence_ids c = [co_operation_id c]
     \<and> (co_kind c = KIND_COMMITTED \<longrightarrow>
          (case co_deployment c of None \<Rightarrow> False
           | Some d \<Rightarrow> co_reason_code c =
               (case bd_binding_evidence d of
                  TransactionEvent _ \<Rightarrow> TRANSACTION_EVENT_BOUND
                | ExactChainRead _ \<Rightarrow> EXACT_CHAIN_READ_BOUND)))
     \<and> (case co_rejection c of None \<Rightarrow> True | Some r \<Rightarrow> is_rejection_evidence r)
     \<and> (case co_non_commit c of None \<Rightarrow> True | Some n \<Rightarrow> is_non_commit_evidence n)
     \<and> (case co_uncertainty c of None \<Rightarrow> True | Some u \<Rightarrow> is_uncertainty_evidence u)
     \<and> (case co_deployment c of None \<Rightarrow> True | Some d \<Rightarrow> is_bound_deployment d)"

definition canon_create_outcome :: "create_outcome \<Rightarrow> json" where
  "canon_create_outcome x = canon_dataclass ''CreateOutcome''
     [(''operation_id'', JStr (co_operation_id x)),
      (''kind'', canon_enum create_outcome_kind_value (co_kind x)),
      (''reason_code'', canon_enum outcome_reason_code_value (co_reason_code x)),
      (''rejection'', canon_opt canon_rejection_evidence (co_rejection x)),
      (''non_commit'', canon_opt canon_non_commit_evidence (co_non_commit x)),
      (''uncertainty'', canon_opt canon_uncertainty_evidence (co_uncertainty x)),
      (''deployment'', canon_opt canon_bound_deployment (co_deployment x)),
      (''schema_version'', JInt (co_version x))]"

section \<open>Evidence after the commit\<close>

record handoff_failure =
  hf_operation_id :: string
  hf_subject :: deployment_key
  hf_source :: string
  hf_evidence_digest :: string
  hf_observed_at :: int

definition is_handoff_failure :: "handoff_failure \<Rightarrow> bool" where
  "is_handoff_failure h \<longleftrightarrow>
     is_operation (hf_operation_id h) \<and> is_deployment_key (hf_subject h) \<and> nonempty (hf_source h)
     \<and> is_digest (hf_evidence_digest h) \<and> is_time (hf_observed_at h)"

definition canon_handoff_failure :: "handoff_failure \<Rightarrow> json" where
  "canon_handoff_failure x = canon_dataclass ''HandoffFailure''
     [(''operation_id'', JStr (hf_operation_id x)),
      (''subject'', canon_deployment_key (hf_subject x)),
      (''source'', JStr (hf_source x)),
      (''evidence_digest'', JStr (hf_evidence_digest x)),
      (''observed_at'', JInt (hf_observed_at x))]"

record creator_rollback_request =
  rr_operation_id :: string
  rr_subject :: deployment_key
  rr_request_id :: string
  rr_source :: string
  rr_evidence_digest :: string
  rr_requested_at :: int

definition is_creator_rollback_request :: "creator_rollback_request \<Rightarrow> bool" where
  "is_creator_rollback_request r \<longleftrightarrow>
     is_operation (rr_operation_id r) \<and> is_deployment_key (rr_subject r)
     \<and> nonempty (rr_request_id r) \<and> nonempty (rr_source r) \<and> is_digest (rr_evidence_digest r)
     \<and> is_time (rr_requested_at r)"

definition canon_creator_rollback_request :: "creator_rollback_request \<Rightarrow> json" where
  "canon_creator_rollback_request x = canon_dataclass ''CreatorRollbackRequest''
     [(''operation_id'', JStr (rr_operation_id x)),
      (''subject'', canon_deployment_key (rr_subject x)),
      (''request_id'', JStr (rr_request_id x)),
      (''source'', JStr (rr_source x)),
      (''evidence_digest'', JStr (rr_evidence_digest x)),
      (''requested_at'', JInt (rr_requested_at x))]"

record execution_closure =
  ec_operation_id :: string
  ec_subject :: deployment_key
  ec_chain_id :: string
  ec_proof_mode :: execution_closure_proof_mode
  ec_source_a :: string
  ec_source_b :: string
  ec_operator_identity_a :: string
  ec_operator_identity_b :: string
  ec_trust_path_a :: string
  ec_trust_path_b :: string
  ec_operator_independence_verified :: bool
  ec_source_a_height :: int
  ec_source_b_height :: int
  ec_common_finality_height :: int
  ec_close_transaction_height :: int
  ec_group_population_digest :: string
  ec_lease_population_digest :: string
  ec_evidence_digest :: string
  ec_observed_at :: int

definition is_execution_closure :: "execution_closure \<Rightarrow> bool" where
  "is_execution_closure e \<longleftrightarrow>
     is_operation (ec_operation_id e) \<and> is_deployment_key (ec_subject e) \<and> nonempty (ec_chain_id e)
     \<and> list_all (\<lambda>f. nonempty (f e)) [ec_source_a, ec_source_b, ec_operator_identity_a,
         ec_operator_identity_b, ec_trust_path_a, ec_trust_path_b]
     \<and> ec_source_a e \<noteq> ec_source_b e \<and> ec_operator_identity_a e \<noteq> ec_operator_identity_b e
     \<and> ec_trust_path_a e \<noteq> ec_trust_path_b e \<and> ec_operator_independence_verified e
     \<and> list_all (\<lambda>f. 0 < f e) [ec_source_a_height, ec_source_b_height,
         ec_common_finality_height, ec_close_transaction_height]
     \<and> ec_proof_mode e = EXACT_FINALIZED_HEIGHT
     \<and> ec_source_a_height e = ec_source_b_height e
     \<and> ec_source_b_height e = ec_common_finality_height e
     \<and> ec_close_transaction_height e \<le> ec_common_finality_height e
     \<and> is_digest (ec_group_population_digest e) \<and> is_digest (ec_lease_population_digest e)
     \<and> is_digest (ec_evidence_digest e) \<and> is_time (ec_observed_at e)"

definition canon_execution_closure :: "execution_closure \<Rightarrow> json" where
  "canon_execution_closure x = canon_dataclass ''ExecutionClosure''
     [(''operation_id'', JStr (ec_operation_id x)),
      (''subject'', canon_deployment_key (ec_subject x)),
      (''chain_id'', JStr (ec_chain_id x)),
      (''proof_mode'', canon_enum execution_closure_proof_mode_value (ec_proof_mode x)),
      (''source_a'', JStr (ec_source_a x)),
      (''source_b'', JStr (ec_source_b x)),
      (''operator_identity_a'', JStr (ec_operator_identity_a x)),
      (''operator_identity_b'', JStr (ec_operator_identity_b x)),
      (''trust_path_a'', JStr (ec_trust_path_a x)),
      (''trust_path_b'', JStr (ec_trust_path_b x)),
      (''operator_independence_verified'', JBool (ec_operator_independence_verified x)),
      (''source_a_height'', JInt (ec_source_a_height x)),
      (''source_b_height'', JInt (ec_source_b_height x)),
      (''common_finality_height'', JInt (ec_common_finality_height x)),
      (''close_transaction_height'', JInt (ec_close_transaction_height x)),
      (''group_population_digest'', JStr (ec_group_population_digest x)),
      (''lease_population_digest'', JStr (ec_lease_population_digest x)),
      (''evidence_digest'', JStr (ec_evidence_digest x)),
      (''observed_at'', JInt (ec_observed_at x))]"

record settlement_evidence =
  sv_operation_id :: string
  sv_subject :: deployment_key
  sv_state :: settlement_state
  sv_source_a :: string
  sv_source_b :: string
  sv_evidence_digest :: string
  sv_observed_at :: int

definition is_settlement_evidence :: "settlement_evidence \<Rightarrow> bool" where
  "is_settlement_evidence s \<longleftrightarrow>
     is_operation (sv_operation_id s) \<and> is_deployment_key (sv_subject s)
     \<and> nonempty (sv_source_a s) \<and> nonempty (sv_source_b s) \<and> sv_source_a s \<noteq> sv_source_b s
     \<and> is_digest (sv_evidence_digest s) \<and> is_time (sv_observed_at s)"

definition canon_settlement_evidence :: "settlement_evidence \<Rightarrow> json" where
  "canon_settlement_evidence x = canon_dataclass ''SettlementEvidence''
     [(''operation_id'', JStr (sv_operation_id x)),
      (''subject'', canon_deployment_key (sv_subject x)),
      (''state'', canon_enum settlement_state_value (sv_state x)),
      (''source_a'', JStr (sv_source_a x)),
      (''source_b'', JStr (sv_source_b x)),
      (''evidence_digest'', JStr (sv_evidence_digest x)),
      (''observed_at'', JInt (sv_observed_at x))]"

section \<open>Lemmas\<close>

lemma group_digest_groups:
  "canonical_group_population_digest gs = Inr d \<Longrightarrow>
   is_digest d \<and> gs \<noteq> [] \<and> list_all is_prepared_group gs \<and> map pg_gseq gs = map int [1..<length gs + 1]"
  by (auto simp: canonical_group_population_digest_def split: if_splits)

lemma outcome_evidence_unique:
  assumes "is_create_outcome c"
  shows "co_kind c = KIND_REJECTED_BEFORE_SEND \<Longrightarrow>
      \<exists>r. co_rejection c = Some r \<and> co_non_commit c = None \<and> co_uncertainty c = None \<and> co_deployment c = None"
    and "co_kind c = KIND_FALLBACK_SAFE \<Longrightarrow>
      \<exists>n. co_rejection c = None \<and> co_non_commit c = Some n \<and> co_uncertainty c = None \<and> co_deployment c = None"
    and "co_kind c = KIND_UNKNOWN \<Longrightarrow>
      \<exists>u. co_rejection c = None \<and> co_non_commit c = None \<and> co_uncertainty c = Some u \<and> co_deployment c = None"
    and "co_kind c = KIND_COMMITTED \<Longrightarrow>
      \<exists>d. co_rejection c = None \<and> co_non_commit c = None \<and> co_uncertainty c = None \<and> co_deployment c = Some d"
  using assms
  by (auto simp: is_create_outcome_def outcome_evidence_ids_def split: option.splits)

end
