(* ===== verification/Journal.thy ===== *)
theory Journal
  imports JournalData
begin

text \<open>
  \<^verbatim>\<open>create_journal.py\<close>, the journal: hash-chained entries, the validation of an entry against
  the entries before it, the constructor that replays the whole history, and \<^verbatim>\<open>append\<close>. The
  checks of \<^verbatim>\<open>_validate_entry\<close> are grouped as the code groups them: chain, first entry of an
  operation, submission, outcome, and evidence about the bound deployment.
\<close>

section \<open>Entries\<close>

datatype transition_payload =
    PayPrepared prepared_create
  | PaySubmission submission_evidence
  | PayOutcome create_outcome
  | PayHandoff handoff_failure
  | PayRollback creator_rollback_request
  | PayClosure execution_closure
  | PaySettlement settlement_evidence

fun payload_operation_id :: "transition_payload \<Rightarrow> string" where
  "payload_operation_id (PayPrepared p) = pc_operation_id p"
| "payload_operation_id (PaySubmission s) = se_operation_id s"
| "payload_operation_id (PayOutcome c) = co_operation_id c"
| "payload_operation_id (PayHandoff h) = hf_operation_id h"
| "payload_operation_id (PayRollback r) = rr_operation_id r"
| "payload_operation_id (PayClosure e) = ec_operation_id e"
| "payload_operation_id (PaySettlement s) = sv_operation_id s"

fun is_transition_payload :: "transition_payload \<Rightarrow> bool" where
  "is_transition_payload (PayPrepared p) = is_prepared_create p"
| "is_transition_payload (PaySubmission s) = is_submission_evidence s"
| "is_transition_payload (PayOutcome c) = is_create_outcome c"
| "is_transition_payload (PayHandoff h) = is_handoff_failure h"
| "is_transition_payload (PayRollback r) = is_creator_rollback_request r"
| "is_transition_payload (PayClosure e) = is_execution_closure e"
| "is_transition_payload (PaySettlement s) = is_settlement_evidence s"

fun canon_transition_payload :: "transition_payload \<Rightarrow> json" where
  "canon_transition_payload (PayPrepared p) = canon_prepared_create p"
| "canon_transition_payload (PaySubmission s) = canon_submission_evidence s"
| "canon_transition_payload (PayOutcome c) = canon_create_outcome c"
| "canon_transition_payload (PayHandoff h) = canon_handoff_failure h"
| "canon_transition_payload (PayRollback r) = canon_creator_rollback_request r"
| "canon_transition_payload (PayClosure e) = canon_execution_closure e"
| "canon_transition_payload (PaySettlement s) = canon_settlement_evidence s"

record journal_entry =
  je_revision :: int
  je_operation_id :: string
  je_state :: journal_state
  je_payload :: transition_payload
  je_recorded_at :: int
  je_previous_entry_digest :: "string option"
  je_entry_digest :: string
  je_version :: int

definition entry_digest_of :: "journal_entry \<Rightarrow> string" where
  "entry_digest_of e = canonical_journal_digest (canon_dataclass ''_EntryDigestPayload''
     [(''revision'', JInt (je_revision e)),
      (''operation_id'', JStr (je_operation_id e)),
      (''state'', canon_enum journal_state_value (je_state e)),
      (''payload'', canon_transition_payload (je_payload e)),
      (''recorded_at'', JInt (je_recorded_at e)),
      (''previous_entry_digest'', canon_opt JStr (je_previous_entry_digest e)),
      (''schema_version'', JInt (je_version e))])"

definition entry_fields_ok :: "journal_entry \<Rightarrow> bool" where
  "entry_fields_ok e \<longleftrightarrow>
     is_version (je_version e) \<and> 0 < je_revision e \<and> is_operation (je_operation_id e)
     \<and> is_time (je_recorded_at e)
     \<and> (case je_previous_entry_digest e of None \<Rightarrow> True | Some d \<Rightarrow> is_digest d)
     \<and> is_transition_payload (je_payload e)"

definition mk_journal_entry :: "journal_entry \<Rightarrow> journal_entry result" where
  "mk_journal_entry e =
     (if \<not> entry_fields_ok e then Inl ValueError
      else let expected = entry_digest_of e in
        if je_entry_digest e = [] then Inr (e\<lparr>je_entry_digest := expected\<rparr>)
        else if je_entry_digest e \<noteq> expected then Inl TransitionError
        else Inr e)"

definition is_journal_entry :: "journal_entry \<Rightarrow> bool" where
  "is_journal_entry e \<longleftrightarrow> entry_fields_ok e \<and> je_entry_digest e = entry_digest_of e"

definition canon_journal_entry :: "journal_entry \<Rightarrow> json" where
  "canon_journal_entry x = canon_dataclass ''JournalEntry''
     [(''revision'', JInt (je_revision x)),
      (''operation_id'', JStr (je_operation_id x)),
      (''state'', canon_enum journal_state_value (je_state x)),
      (''payload'', canon_transition_payload (je_payload x)),
      (''recorded_at'', JInt (je_recorded_at x)),
      (''previous_entry_digest'', canon_opt JStr (je_previous_entry_digest x)),
      (''entry_digest'', JStr (je_entry_digest x)),
      (''schema_version'', JInt (je_version x))]"

section \<open>Tables\<close>

fun payload_type_matches :: "journal_state \<Rightarrow> transition_payload \<Rightarrow> bool" where
  "payload_type_matches PREPARED (PayPrepared _) = True"
| "payload_type_matches SUBMITTED (PaySubmission _) = True"
| "payload_type_matches REJECTED_BEFORE_SEND (PayOutcome _) = True"
| "payload_type_matches FALLBACK_SAFE (PayOutcome _) = True"
| "payload_type_matches CREATE_OUTCOME_UNKNOWN (PayOutcome _) = True"
| "payload_type_matches CREATED (PayOutcome _) = True"
| "payload_type_matches HANDOFF_FAILED (PayHandoff _) = True"
| "payload_type_matches CREATOR_ROLLBACK_REQUESTED (PayRollback _) = True"
| "payload_type_matches EXECUTION_CLOSED (PayClosure _) = True"
| "payload_type_matches SETTLEMENT (PaySettlement _) = True"
| "payload_type_matches _ _ = False"

fun next_states :: "journal_state \<Rightarrow> journal_state list" where
  "next_states PREPARED = [SUBMITTED, REJECTED_BEFORE_SEND, CREATE_OUTCOME_UNKNOWN]"
| "next_states SUBMITTED = [CREATE_OUTCOME_UNKNOWN, CREATED, FALLBACK_SAFE]"
| "next_states REJECTED_BEFORE_SEND = [FALLBACK_SAFE]"
| "next_states CREATE_OUTCOME_UNKNOWN = [CREATED, FALLBACK_SAFE]"
| "next_states CREATED = [HANDOFF_FAILED, EXECUTION_CLOSED]"
| "next_states HANDOFF_FAILED = [CREATOR_ROLLBACK_REQUESTED]"
| "next_states CREATOR_ROLLBACK_REQUESTED = [EXECUTION_CLOSED]"
| "next_states EXECUTION_CLOSED = [SETTLEMENT]"
| "next_states SETTLEMENT = [SETTLEMENT]"
| "next_states FALLBACK_SAFE = []"

fun outcome_state_kind :: "journal_state \<Rightarrow> create_outcome_kind option" where
  "outcome_state_kind REJECTED_BEFORE_SEND = Some KIND_REJECTED_BEFORE_SEND"
| "outcome_state_kind FALLBACK_SAFE = Some KIND_FALLBACK_SAFE"
| "outcome_state_kind CREATE_OUTCOME_UNKNOWN = Some KIND_UNKNOWN"
| "outcome_state_kind CREATED = Some KIND_COMMITTED"
| "outcome_state_kind _ = None"

fun settlement_order :: "settlement_state \<Rightarrow> nat" where
  "settlement_order UNMEASURED = 0"
| "settlement_order UNSETTLED = 1"
| "settlement_order SETTLED = 2"

section \<open>Reading the history\<close>

definition operation_entries :: "journal_entry list \<Rightarrow> string \<Rightarrow> journal_entry list" where
  "operation_entries entries operation_id =
     filter (\<lambda>e. je_operation_id e = operation_id) entries"

definition allocation_key ::
    "prepared_create \<Rightarrow> string \<times> string \<times> string \<times> string \<times> lifecycle_identity \<times> int" where
  "allocation_key p =
     (oc_owner (pc_owner_candidate p), pp_repository_id (pc_producer p),
      pp_repository_owner_id (pc_producer p), pp_subject (pc_producer p),
      pc_lifecycle p, pc_operation_ordinal p)"

definition bound :: "journal_entry list \<Rightarrow> string \<Rightarrow> bound_deployment option" where
  "bound entries operation_id =
     (case filter (\<lambda>e. je_state e = CREATED) (operation_entries entries operation_id) of
        [] \<Rightarrow> None
      | e # _ \<Rightarrow> (case je_payload e of PayOutcome c \<Rightarrow> co_deployment c | _ \<Rightarrow> None))"

fun payload_observed_at :: "transition_payload \<Rightarrow> int" where
  "payload_observed_at (PayPrepared p) = pc_prepared_at p"
| "payload_observed_at (PaySubmission s) = se_submitted_at s"
| "payload_observed_at (PayOutcome c) =
     (case (co_rejection c, co_non_commit c, co_uncertainty c) of
        (Some r, _, _) \<Rightarrow> re_observed_at r
      | (None, Some n, _) \<Rightarrow> nc_observed_at n
      | (None, None, Some u) \<Rightarrow> ue_observed_at u
      | (None, None, None) \<Rightarrow>
          (case co_deployment c of
             Some d \<Rightarrow> (case bd_binding_evidence d of
                          ExactChainRead r \<Rightarrow> er_observed_at r | TransactionEvent _ \<Rightarrow> 0)
           | None \<Rightarrow> 0))"
| "payload_observed_at (PayHandoff h) = hf_observed_at h"
| "payload_observed_at (PayRollback r) = rr_requested_at r"
| "payload_observed_at (PayClosure e) = ec_observed_at e"
| "payload_observed_at (PaySettlement s) = sv_observed_at s"

definition submissions :: "journal_entry list \<Rightarrow> submission_evidence list" where
  "submissions ops =
     concat (map (\<lambda>e. case je_payload e of
         PaySubmission s \<Rightarrow> if je_state e = SUBMITTED then [s] else [] | _ \<Rightarrow> []) ops)"

definition last_digest :: "journal_entry list \<Rightarrow> string option" where
  "last_digest entries = (if entries = [] then None else Some (je_entry_digest (last entries)))"

fun payload_subject :: "transition_payload \<Rightarrow> deployment_key option" where
  "payload_subject (PayHandoff h) = Some (hf_subject h)"
| "payload_subject (PayRollback r) = Some (rr_subject r)"
| "payload_subject (PayClosure e) = Some (ec_subject e)"
| "payload_subject (PaySettlement s) = Some (sv_subject s)"
| "payload_subject _ = None"

section \<open>Validation of one entry\<close>

abbreviation refuse_if :: "bool \<Rightarrow> unit result" where
  "refuse_if c \<equiv> raise_if c TransitionError"

definition check_chain :: "journal_entry list \<Rightarrow> journal_entry \<Rightarrow> unit result" where
  "check_chain entries e =
     bindR (refuse_if (je_revision e \<noteq> int (length entries) + 1)) (\<lambda>_.
     bindR (refuse_if (je_previous_entry_digest e \<noteq> last_digest entries)) (\<lambda>_.
     bindR (refuse_if (\<not> payload_type_matches (je_state e) (je_payload e))) (\<lambda>_.
     bindR (refuse_if (payload_operation_id (je_payload e) \<noteq> je_operation_id e)) (\<lambda>_.
     bindR (refuse_if (je_recorded_at e < payload_observed_at (je_payload e))) (\<lambda>_.
     refuse_if (entries \<noteq> [] \<and> je_recorded_at e < je_recorded_at (last entries)))))))"

fun same_allocation :: "transition_payload \<Rightarrow> transition_payload \<Rightarrow> bool" where
  "same_allocation (PayPrepared p) (PayPrepared q) =
     (pc_operation_id p = pc_operation_id q \<or> allocation_key p = allocation_key q)"
| "same_allocation _ _ = False"

definition check_first :: "journal_entry list \<Rightarrow> journal_entry \<Rightarrow> unit result" where
  "check_first entries e =
     bindR (refuse_if (je_state e \<noteq> PREPARED)) (\<lambda>_.
     refuse_if (list_ex (\<lambda>prior. je_state prior = PREPARED
       \<and> same_allocation (je_payload prior) (je_payload e)) entries))"

definition check_submission :: "prepared_create \<Rightarrow> journal_entry \<Rightarrow> unit result" where
  "check_submission p e =
     (case je_payload e of
        PaySubmission s \<Rightarrow>
          refuse_if (se_backend s \<noteq> oc_backend (pc_owner_candidate p)
            \<or> se_submitted_request_digest s \<noteq> pc_request_digest p
            \<or> se_submitted_at s < pc_prepared_at p)
      | _ \<Rightarrow> Inr ())"

definition check_non_commit ::
    "journal_entry list \<Rightarrow> prepared_create \<Rightarrow> non_commit_evidence \<Rightarrow> unit result" where
  "check_non_commit ops p evidence =
     bindR (refuse_if (nc_backend evidence \<noteq> oc_backend (pc_owner_candidate p)
         \<or> nc_exact_owner evidence \<noteq> oc_owner (pc_owner_candidate p)
         \<or> nc_group_population_digest evidence \<noteq> pc_group_population_digest p)) (\<lambda>_.
     let subs = submissions ops in
     refuse_if (subs \<noteq> []
       \<and> (nc_transaction_hash evidence \<noteq> se_transaction_hash (last subs)
          \<or> nc_submission_token evidence \<noteq> se_submission_token (last subs))))"

definition check_deployment ::
    "journal_entry list \<Rightarrow> journal_entry list \<Rightarrow> prepared_create \<Rightarrow> bound_deployment \<Rightarrow> unit result" where
  "check_deployment entries ops p d =
     bindR (refuse_if (dk_owner (bd_subject d) \<noteq> oc_owner (pc_owner_candidate p)
         \<or> bd_groups d \<noteq> pc_groups p
         \<or> bd_group_population_digest d \<noteq> pc_group_population_digest p)) (\<lambda>_.
     bindR (case bd_binding_evidence d of
         TransactionEvent t \<Rightarrow>
           (let subs = submissions ops in
            refuse_if (subs = [] \<or> se_transaction_hash (last subs) \<noteq> Some (te_transaction_hash t)))
       | ExactChainRead _ \<Rightarrow> Inr ()) (\<lambda>_.
     refuse_if (list_ex (\<lambda>prior. case bound entries (je_operation_id prior) of
         None \<Rightarrow> False | Some b \<Rightarrow> bd_subject b = bd_subject d) entries)))"

definition check_outcome ::
    "journal_entry list \<Rightarrow> journal_entry list \<Rightarrow> prepared_create \<Rightarrow> journal_entry \<Rightarrow> unit result" where
  "check_outcome entries ops p e =
     (case je_payload e of
        PayOutcome c \<Rightarrow>
          bindR (refuse_if (outcome_state_kind (je_state e) \<noteq> Some (co_kind c))) (\<lambda>_.
          bindR (case co_rejection c of None \<Rightarrow> Inr ()
             | Some r \<Rightarrow> refuse_if (re_backend r \<noteq> oc_backend (pc_owner_candidate p))) (\<lambda>_.
          bindR (case co_non_commit c of None \<Rightarrow> Inr ()
             | Some n \<Rightarrow> check_non_commit ops p n) (\<lambda>_.
          (case co_deployment c of None \<Rightarrow> Inr ()
             | Some d \<Rightarrow> check_deployment entries ops p d))))
      | _ \<Rightarrow> Inr ())"

definition check_bound_evidence ::
    "journal_entry list \<Rightarrow> prepared_create \<Rightarrow> journal_entry \<Rightarrow> journal_entry \<Rightarrow> unit result" where
  "check_bound_evidence entries p previous e =
     bindR (case payload_subject (je_payload e) of None \<Rightarrow> Inr ()
        | Some s \<Rightarrow> refuse_if (case bound entries (je_operation_id e) of
              None \<Rightarrow> True | Some b \<Rightarrow> s \<noteq> bd_subject b)) (\<lambda>_.
     (case je_payload e of
        PayClosure c \<Rightarrow> refuse_if (ec_group_population_digest c \<noteq> pc_group_population_digest p)
      | PaySettlement s \<Rightarrow>
          (case je_payload previous of
             PaySettlement s' \<Rightarrow> refuse_if (je_state previous = SETTLEMENT
               \<and> settlement_order (sv_state s) \<le> settlement_order (sv_state s'))
           | _ \<Rightarrow> Inr ())
      | _ \<Rightarrow> Inr ()))"

definition validate_entry :: "journal_entry list \<Rightarrow> journal_entry \<Rightarrow> unit result" where
  "validate_entry entries e =
     bindR (check_chain entries e) (\<lambda>_.
     let ops = operation_entries entries (je_operation_id e) in
     if ops = [] then check_first entries e
     else
       bindR (refuse_if (je_state e = PREPARED)) (\<lambda>_.
       let previous = last ops in
       bindR (refuse_if (je_state e \<notin> set (next_states (je_state previous)))) (\<lambda>_.
       (case je_payload (hd ops) of
          PayPrepared p \<Rightarrow>
            bindR (refuse_if (je_recorded_at e < je_recorded_at previous
                \<or> je_recorded_at e < pc_prepared_at p)) (\<lambda>_.
            bindR (check_submission p e) (\<lambda>_.
            bindR (check_outcome entries ops p e) (\<lambda>_.
            check_bound_evidence entries p previous e)))
        | _ \<Rightarrow> Inl AttributeError))))"

section \<open>The journal\<close>

record create_journal =
  cj_entries :: "journal_entry list"
  cj_version :: int

fun validate_entries :: "journal_entry list \<Rightarrow> journal_entry list \<Rightarrow> unit result" where
  "validate_entries checked [] = Inr ()"
| "validate_entries checked (e # es) =
     bindR (validate_entry checked e) (\<lambda>_. validate_entries (checked @ [e]) es)"

definition mk_create_journal :: "journal_entry list \<Rightarrow> int \<Rightarrow> create_journal result" where
  "mk_create_journal entries version =
     (if \<not> is_version version then Inl ValueError
      else if \<not> list_all is_journal_entry entries then Inl TransitionError
      else bindR (validate_entries [] entries) (\<lambda>_.
           Inr \<lparr>cj_entries = entries, cj_version = version\<rparr>))"

definition is_create_journal :: "create_journal \<Rightarrow> bool" where
  "is_create_journal j \<longleftrightarrow> mk_create_journal (cj_entries j) (cj_version j) = Inr j"

definition journal_revision :: "create_journal \<Rightarrow> int" where
  "journal_revision j = int (length (cj_entries j))"

definition journal_digest :: "create_journal \<Rightarrow> string option" where
  "journal_digest j = last_digest (cj_entries j)"

definition next_entry :: "create_journal \<Rightarrow> journal_state \<Rightarrow> transition_payload \<Rightarrow> int \<Rightarrow> journal_entry" where
  "next_entry j state payload recorded_at =
     \<lparr>je_revision = journal_revision j + 1, je_operation_id = payload_operation_id payload,
      je_state = state, je_payload = payload, je_recorded_at = recorded_at,
      je_previous_entry_digest = journal_digest j, je_entry_digest = [],
      je_version = JOURNAL_SCHEMA_VERSION\<rparr>"

definition append_transition ::
    "create_journal \<Rightarrow> journal_state \<Rightarrow> transition_payload \<Rightarrow> int \<Rightarrow> create_journal result" where
  "append_transition j state payload recorded_at =
     (if \<not> payload_type_matches state payload then Inl TransitionError
      else bindR (mk_journal_entry (next_entry j state payload recorded_at)) (\<lambda>e.
           mk_create_journal (cj_entries j @ [e]) JOURNAL_SCHEMA_VERSION))"

definition empty_journal :: create_journal where
  "empty_journal = \<lparr>cj_entries = [], cj_version = JOURNAL_SCHEMA_VERSION\<rparr>"

end
