(* ===== verification/JournalSample.thy ===== *)
theory JournalSample
  imports Journal
begin

text \<open>
  One concrete operation, from its preparation to the bound deployment, on which the
  properties of the journal, of admission and of the financial records are instantiated.
\<close>

definition hex64 :: string where
  "hex64 = replicate 64 (CHR ''a'')"

definition hex40 :: string where
  "hex40 = replicate 40 (CHR ''b'')"

definition sample_backend :: backend_identity where
  "sample_backend = \<lparr>bi_kind = MEDIATED, bi_identifier = ''console'', bi_version = 1\<rparr>"

definition sample_producer :: producer_provenance where
  "sample_producer =
     \<lparr>pp_repository = ''org/app'', pp_repository_id = ''7'', pp_repository_owner_id = ''9'',
      pp_issuer = ''issuer'', pp_audience = ''akash'', pp_subject = ''runner'',
      pp_workflow_ref = ''main'', pp_workflow_sha = hex40, pp_ref = ''main'', pp_jti = ''j1'',
      pp_authentication_evidence_digest = hex64, pp_version = 1\<rparr>"

definition sample_lifecycle :: lifecycle_identity where
  "sample_lifecycle =
     \<lparr>li_repository = ''org/app'', li_workload_class = ''ci-runner'', li_run = Some 1,
      li_run_attempt = Some 1, li_release = None, li_expires = None, li_version = 1\<rparr>"

definition sample_candidate :: owner_candidate where
  "sample_candidate =
     \<lparr>oc_backend = sample_backend, oc_owner = sample_owner,
      oc_evidence_kind = AUTHENTICATED_MEDIATOR, oc_evidence_source = ''console'',
      oc_evidence_digest = hex64, oc_version = 1\<rparr>"

definition sample_groups :: "prepared_group list" where
  "sample_groups = [\<lparr>pg_gseq = 1, pg_group_name = ''g1''\<rparr>]"

definition sample_group_digest :: string where
  "sample_group_digest = sha256_hexdigest (dumps (JArr [JArr [JInt 1, JStr ''g1'']]))"

definition sample_prepared :: prepared_create where
  "sample_prepared =
     \<lparr>pc_operation_id = ''op1'', pc_operation_ordinal = 1, pc_producer = sample_producer,
      pc_lifecycle = sample_lifecycle, pc_owner_candidate = sample_candidate,
      pc_request_digest = hex64, pc_sdl_digest = hex64, pc_groups = sample_groups,
      pc_group_population_digest = sample_group_digest, pc_source_revision = hex40,
      pc_prepared_at = 100, pc_version = 1\<rparr>"

definition sample_submission :: submission_evidence where
  "sample_submission =
     \<lparr>se_operation_id = ''op1'', se_backend = sample_backend, se_submitted_request_digest = hex64,
      se_submitted_at = 110, se_evidence_source = ''console'', se_evidence_digest = hex64,
      se_transaction_hash = None, se_account_sequence = None, se_signed_bytes = None,
      se_submission_token = Some ''token'', se_version = 1\<rparr>"

definition sample_key :: deployment_key where
  "sample_key = \<lparr>dk_owner = sample_owner, dk_dseq = ''77''\<rparr>"

definition sample_read :: exact_chain_read_evidence where
  "sample_read =
     \<lparr>er_operation_id = ''op1'', er_subject = sample_key, er_chain_id = ''akashnet-2'',
      er_block_height = 5, er_groups = sample_groups,
      er_group_population_digest = sample_group_digest, er_source = ''node'',
      er_evidence_digest = hex64, er_observed_at = 120\<rparr>"

definition sample_deployment :: bound_deployment where
  "sample_deployment =
     \<lparr>bd_operation_id = ''op1'', bd_subject = sample_key, bd_groups = sample_groups,
      bd_group_population_digest = sample_group_digest,
      bd_binding_evidence = ExactChainRead sample_read, bd_version = 1\<rparr>"

definition sample_committed :: create_outcome where
  "sample_committed =
     \<lparr>co_operation_id = ''op1'', co_kind = KIND_COMMITTED, co_reason_code = EXACT_CHAIN_READ_BOUND,
      co_rejection = None, co_non_commit = None, co_uncertainty = None,
      co_deployment = Some sample_deployment, co_version = 1\<rparr>"

definition sample_entry ::
    "journal_entry list \<Rightarrow> journal_state \<Rightarrow> transition_payload \<Rightarrow> int \<Rightarrow> journal_entry" where
  "sample_entry es st pl t =
     (let e = next_entry \<lparr>cj_entries = es, cj_version = 1\<rparr> st pl t
      in e\<lparr>je_entry_digest := entry_digest_of e\<rparr>)"

definition sample_e1 :: journal_entry where
  "sample_e1 = sample_entry [] PREPARED (PayPrepared sample_prepared) 105"

definition sample_e2 :: journal_entry where
  "sample_e2 = sample_entry [sample_e1] SUBMITTED (PaySubmission sample_submission) 115"

definition sample_e3 :: journal_entry where
  "sample_e3 = sample_entry [sample_e1, sample_e2] CREATED (PayOutcome sample_committed) 125"

definition sample_journal :: create_journal where
  "sample_journal = \<lparr>cj_entries = [sample_e1, sample_e2, sample_e3], cj_version = 1\<rparr>"

section \<open>The sample is well formed\<close>

lemma sample_texts [simp]: "is_digest hex64" "is_revision hex40"
  by code_simp+

lemma sample_backend_ok [simp]: "is_backend_identity sample_backend"
  by code_simp

lemma sample_producer_ok [simp]: "is_producer_provenance sample_producer"
  by code_simp

lemma sample_lifecycle_ok [simp]: "is_lifecycle_identity sample_lifecycle"
  by code_simp

lemma sample_key_ok [simp]: "is_deployment_key sample_key"
proof -
  have "is_canonical_akash_dseq ''77''"
    by (simp add: is_canonical_akash_dseq_def dseq_shape_def DSEQ_MAX_def nat_of_digits_def
        is_digit_def digit_value_def code_def)
  then show ?thesis by (simp add: is_deployment_key_def sample_key_def sample_owner_canonical)
qed

lemma sample_nonempty [simp]: "nonempty ''console''" "nonempty ''token''" "nonempty ''akashnet-2''"
  "nonempty ''node''"
  by code_simp+

lemma sample_operation_ok [simp]: "is_operation ''op1''"
  by code_simp

lemma sample_candidate_ok [simp]: "is_owner_candidate sample_candidate"
  by (simp add: is_owner_candidate_def sample_candidate_def sample_owner_canonical is_version_def
      JOURNAL_SCHEMA_VERSION_def expected_evidence_kind_def)
    (simp add: sample_backend_def)

lemma sample_groups_ok [simp]:
  "canonical_group_population_digest sample_groups = Inr sample_group_digest"
proof -
  have "list_all is_prepared_group sample_groups" by code_simp
  then show ?thesis
    by (simp add: canonical_group_population_digest_def)
      (simp add: sample_groups_def sample_group_digest_def)
qed

lemma sample_prepared_ok [simp]: "is_prepared_create sample_prepared"
  by (simp add: is_prepared_create_def sample_prepared_def is_version_def JOURNAL_SCHEMA_VERSION_def
      is_time_def MAX_UTC_UNIX_SECONDS_def)
    (simp add: sample_lifecycle_def sample_producer_def)

lemma sample_submission_ok [simp]: "is_submission_evidence sample_submission"
  by (simp add: is_submission_evidence_def sample_submission_def is_version_def
      JOURNAL_SCHEMA_VERSION_def is_time_def MAX_UTC_UNIX_SECONDS_def)
    (simp add: sample_backend_def)

lemma sample_deployment_ok [simp]: "is_bound_deployment sample_deployment"
  by (simp add: is_bound_deployment_def sample_deployment_def is_exact_chain_read_evidence_def
      sample_read_def is_version_def JOURNAL_SCHEMA_VERSION_def is_time_def MAX_UTC_UNIX_SECONDS_def)

lemma sample_committed_ok [simp]: "is_create_outcome sample_committed"
  by (simp add: is_create_outcome_def sample_committed_def outcome_evidence_ids_def is_version_def
      JOURNAL_SCHEMA_VERSION_def COMMITTED_REASONS_def)
    (simp add: sample_deployment_def)

lemmas sample_entry_simps = sample_entry_def next_entry_def Let_def journal_revision_def
  journal_digest_def last_digest_def is_version_def JOURNAL_SCHEMA_VERSION_def is_time_def
  MAX_UTC_UNIX_SECONDS_def

lemma sample_prepared_fields [simp]:
  "pc_operation_id sample_prepared = ''op1''" "pc_prepared_at sample_prepared = 100"
  "pc_owner_candidate sample_prepared = sample_candidate" "pc_request_digest sample_prepared = hex64"
  "pc_groups sample_prepared = sample_groups"
  "pc_group_population_digest sample_prepared = sample_group_digest"
  "oc_backend sample_candidate = sample_backend" "oc_owner sample_candidate = sample_owner"
  by (simp_all add: sample_prepared_def sample_candidate_def)

lemma sample_entry_digest [simp]: "is_digest (je_entry_digest (sample_entry es st pl t))"
  by (simp add: sample_entry_def Let_def entry_digest_of_def)

lemma sample_entry_fields [simp]:
  "je_state (sample_entry es st pl t) = st" "je_payload (sample_entry es st pl t) = pl"
  "je_recorded_at (sample_entry es st pl t) = t"
  "je_operation_id (sample_entry es st pl t) = payload_operation_id pl"
  "je_revision (sample_entry es st pl t) = int (length es) + 1"
  "je_previous_entry_digest (sample_entry es st pl t) = last_digest es"
  "je_version (sample_entry es st pl t) = 1"
  "je_entry_digest (sample_entry es st pl t) = entry_digest_of (sample_entry es st pl t)"
  by (simp_all add: sample_entry_simps entry_digest_of_def)

lemma sample_entries_ok:
  "is_journal_entry sample_e1" "is_journal_entry sample_e2" "is_journal_entry sample_e3"
proof -
  have op: "se_operation_id sample_submission = ''op1''" "co_operation_id sample_committed = ''op1''"
    by (simp_all add: sample_submission_def sample_committed_def)
  show "is_journal_entry sample_e1"
    by (simp add: is_journal_entry_def entry_fields_ok_def sample_e1_def sample_entry_simps(5-))
  show "is_journal_entry sample_e2" "is_journal_entry sample_e3"
    by (simp_all add: is_journal_entry_def entry_fields_ok_def sample_e1_def sample_e2_def sample_e3_def
        sample_entry_simps(5-) op entry_digest_of_def)
qed

lemma sample_journal_ok: "is_create_journal sample_journal"
proof -
  have op: "se_operation_id sample_submission = ''op1''" "co_operation_id sample_committed = ''op1''"
    "se_submitted_at sample_submission = 110" "se_backend sample_submission = sample_backend"
    "se_submitted_request_digest sample_submission = hex64"
    "co_kind sample_committed = KIND_COMMITTED" "co_rejection sample_committed = None"
    "co_non_commit sample_committed = None" "co_uncertainty sample_committed = None"
    "co_deployment sample_committed = Some sample_deployment"
    "bd_binding_evidence sample_deployment = ExactChainRead sample_read"
    "bd_groups sample_deployment = sample_groups" "dk_owner (bd_subject sample_deployment) = sample_owner"
    "bd_group_population_digest sample_deployment = sample_group_digest"
    "er_observed_at sample_read = 120"
    by (simp_all add: sample_submission_def sample_committed_def sample_deployment_def sample_read_def
        sample_key_def)
  have "validate_entry [] sample_e1 = Inr ()"
    by (simp add: validate_entry_def check_chain_def check_first_def operation_entries_def sample_e1_def
        last_digest_def)
  moreover have "validate_entry [sample_e1] sample_e2 = Inr ()"
    by (simp add: validate_entry_def check_chain_def check_submission_def check_outcome_def
        check_bound_evidence_def operation_entries_def sample_e1_def sample_e2_def op)
  moreover have "validate_entry [sample_e1, sample_e2] sample_e3 = Inr ()"
    by (simp add: validate_entry_def check_chain_def check_submission_def check_outcome_def
        check_deployment_def bound_def check_bound_evidence_def operation_entries_def sample_e1_def
        sample_e2_def sample_e3_def op)
  ultimately show ?thesis
    using sample_entries_ok
    by (simp add: is_create_journal_def mk_create_journal_def sample_journal_def is_version_def
        JOURNAL_SCHEMA_VERSION_def)
qed

lemma sample_bound: "bound (cj_entries sample_journal) ''op1'' = Some sample_deployment"
  by (simp add: bound_def operation_entries_def sample_journal_def sample_e1_def sample_e2_def
      sample_e3_def sample_submission_def sample_committed_def)

lemma sample_lengths [simp]: "length hex64 = 64" "length hex40 = 40" "length sample_owner = 44"
  "length sample_group_digest = 64"
  by (simp_all add: hex64_def hex40_def sample_group_digest_def) code_simp

end
