(* ===== verification/JournalProperties.thy ===== *)
theory JournalProperties
  imports JournalSample
begin

text \<open>
  The guarantees of the create journal: an append validates one entry and never fails on the
  history before it, the history of every operation is a path of the state machine, a
  deployment is bound to one operation only, and the entries form a hash chain with unique
  operations and allocations.
\<close>

section \<open>Valid histories\<close>

definition history_ok :: "journal_entry list \<Rightarrow> bool" where
  "history_ok es \<longleftrightarrow> list_all is_journal_entry es \<and> validate_entries [] es = Inr ()"

lemma validate_entries_append:
  "validate_entries c (xs @ ys) = bindR (validate_entries c xs) (\<lambda>_. validate_entries (c @ xs) ys)"
proof (induction xs arbitrary: c)
  case (Cons x xs)
  then show ?case by (cases "validate_entry c x") simp_all
qed simp

lemma history_ok_Nil [simp]: "history_ok []"
  by (simp add: history_ok_def)

lemma history_ok_snoc [simp]:
  "history_ok (es @ [e]) \<longleftrightarrow> history_ok es \<and> is_journal_entry e \<and> validate_entry es e = Inr ()"
  by (auto simp: history_ok_def validate_entries_append)

lemma is_create_journal_history:
  "is_create_journal j \<longleftrightarrow> is_version (cj_version j) \<and> history_ok (cj_entries j)"
  by (auto simp: is_create_journal_def mk_create_journal_def history_ok_def split: if_splits)

lemma is_create_journal_history_ok [dest]: "is_create_journal j \<Longrightarrow> history_ok (cj_entries j)"
  by (simp add: is_create_journal_history)

lemma history_induct [consumes 1, case_names Nil snoc]:
  assumes "history_ok es" and "P []"
    and "\<And>es e. history_ok es \<Longrightarrow> P es \<Longrightarrow> is_journal_entry e \<Longrightarrow> validate_entry es e = Inr () \<Longrightarrow> P (es @ [e])"
  shows "P es"
  using assms(1) by (induction es rule: rev_induct) (use assms(2,3) in auto)

lemma validate_entry_chain:
  "validate_entry es e = Inr () \<Longrightarrow> check_chain es e = Inr ()"
  by (auto simp: validate_entry_def)

lemma validate_entry_first:
  "validate_entry es e = Inr () \<Longrightarrow> operation_entries es (je_operation_id e) = [] \<Longrightarrow> check_first es e = Inr ()"
  by (auto simp: validate_entry_def)

lemma validate_entry_next:
  assumes "validate_entry es e = Inr ()" and "operation_entries es (je_operation_id e) = ops" and "ops \<noteq> []"
  obtains p where "je_payload (hd ops) = PayPrepared p"
    "je_state e \<noteq> PREPARED" "je_state e \<in> set (next_states (je_state (last ops)))"
    "check_submission p e = Inr ()" "check_outcome es ops p e = Inr ()"
    "check_bound_evidence es p (last ops) e = Inr ()"
  using assms by (auto simp: validate_entry_def Let_def split: transition_payload.splits)

lemma operation_entries_snoc:
  "operation_entries (es @ [e]) op
   = operation_entries es op @ (if je_operation_id e = op then [e] else [])"
  by (simp add: operation_entries_def)

lemma operation_entries_mem: "e \<in> set (operation_entries es op) \<longleftrightarrow> e \<in> set es \<and> je_operation_id e = op"
  by (auto simp: operation_entries_def)

section \<open>The state machine of one operation\<close>

definition operation_states :: "create_journal \<Rightarrow> string \<Rightarrow> journal_state list" where
  "operation_states j op = map je_state (operation_entries (cj_entries j) op)"

abbreviation follows :: "journal_state \<Rightarrow> journal_state \<Rightarrow> bool" where
  "follows a b \<equiv> b \<in> set (next_states a)"

fun state_rank :: "journal_state \<Rightarrow> nat" where
  "state_rank PREPARED = 0"
| "state_rank SUBMITTED = 1"
| "state_rank REJECTED_BEFORE_SEND = 1"
| "state_rank CREATE_OUTCOME_UNKNOWN = 2"
| "state_rank CREATED = 3"
| "state_rank FALLBACK_SAFE = 3"
| "state_rank HANDOFF_FAILED = 4"
| "state_rank CREATOR_ROLLBACK_REQUESTED = 5"
| "state_rank EXECUTION_CLOSED = 6"
| "state_rank SETTLEMENT = 7"

definition advances :: "journal_state \<Rightarrow> journal_state \<Rightarrow> bool" where
  "advances a b \<longleftrightarrow> state_rank a < state_rank b \<or> a = SETTLEMENT \<and> b = SETTLEMENT"

lemma follows_advances: "follows a b \<Longrightarrow> advances a b"
  by (cases a) (auto simp: advances_def)

lemma transp_advances: "transp advances"
  by (auto simp: transp_def advances_def)

lemma operation_path:
  "history_ok es \<Longrightarrow>
   (operation_entries es op = [] \<or> je_state (hd (operation_entries es op)) = PREPARED)
   \<and> successively follows (map je_state (operation_entries es op))"
proof (induction rule: history_induct)
  case Nil
  then show ?case by (simp add: operation_entries_def)
next
  case (snoc es e)
  show ?case
  proof (cases "je_operation_id e = op")
    case True
    show ?thesis
    proof (cases "operation_entries es op = []")
      case True
      then show ?thesis
        using validate_entry_first[OF snoc.hyps(3)] \<open>je_operation_id e = op\<close>
        by (simp add: operation_entries_snoc check_first_def)
    next
      case False
      obtain p where "follows (je_state (last (operation_entries es op))) (je_state e)"
        using validate_entry_next[OF snoc.hyps(3) _ False] True by metis
      then show ?thesis
        using snoc.IH False True
        by (simp add: operation_entries_snoc successively_append_iff last_map)
    qed
  qed (use snoc.IH in \<open>simp add: operation_entries_snoc\<close>)
qed

lemma path_advances:
  assumes "successively follows ss"
  shows "sorted_wrt advances ss"
proof -
  have "successively advances ss"
    using assms by (rule successively_mono) (rule follows_advances)
  then show ?thesis using successively_conv_sorted_wrt[OF transp_advances] by blast
qed

lemma path_excludes:
  assumes "sorted_wrt advances ss"
  shows "count_list ss CREATED + count_list ss FALLBACK_SAFE \<le> 1"
  using assms
proof (induction ss)
  case (Cons s ss)
  have "count_list ss t = 0" if "s \<in> {CREATED, FALLBACK_SAFE}" "t \<in> {CREATED, FALLBACK_SAFE}" for t
    using that Cons.prems by (auto simp: count_list_0_iff advances_def)
  then show ?case using Cons by auto
qed simp

lemma fallback_last:
  assumes "successively follows ss" and "FALLBACK_SAFE \<in> set ss"
  shows "last ss = FALLBACK_SAFE"
proof -
  obtain xs ys where ss: "ss = xs @ FALLBACK_SAFE # ys"
    using split_list[OF assms(2)] by blast
  then have "ys = []"
    using assms(1) by (cases ys) (auto simp: successively_append_iff)
  then show ?thesis using ss by simp
qed

text \<open>
  C5: the lifecycle of an operation. In every valid journal the entries of one operation
  start with its preparation and follow the transition table; at most one of them commits
  the create; and a create that is proven absent (the state that allows a fallback) is
  final and excludes that the same operation ever committed, before or after.
\<close>

theorem operation_lifecycle:
  assumes "is_create_journal j"
  shows "(operation_states j op = [] \<or> hd (operation_states j op) = PREPARED)
    \<and> successively (\<lambda>a b. b \<in> set (next_states a)) (operation_states j op)
    \<and> count_list (operation_states j op) CREATED \<le> 1
    \<and> (FALLBACK_SAFE \<in> set (operation_states j op) \<longrightarrow>
         CREATED \<notin> set (operation_states j op) \<and> last (operation_states j op) = FALLBACK_SAFE)"
proof -
  note h = operation_path[OF is_create_journal_history_ok[OF assms], of op]
  then have path: "successively follows (operation_states j op)"
    and first: "operation_states j op = [] \<or> hd (operation_states j op) = PREPARED"
    by (cases "operation_entries (cj_entries j) op"; auto simp: operation_states_def)+
  note one = path_excludes[OF path_advances[OF path]]
  have "CREATED \<notin> set (operation_states j op)" if "FALLBACK_SAFE \<in> set (operation_states j op)"
  proof -
    have "count_list (operation_states j op) FALLBACK_SAFE \<noteq> 0" using that by (simp add: count_list_0_iff)
    then have "count_list (operation_states j op) CREATED = 0" using one by linarith
    then show ?thesis by (simp add: count_list_0_iff)
  qed
  then show ?thesis using path first one fallback_last[OF path] by auto
qed

theorem operation_lifecycle_witness:
  "operation_states sample_journal ''op1'' = [PREPARED, SUBMITTED, CREATED]
   \<and> successively (\<lambda>a b. b \<in> set (next_states a)) (operation_states sample_journal ''op1'')"
  using operation_lifecycle[OF sample_journal_ok, of "''op1''"]
  by (simp add: operation_states_def operation_entries_def sample_journal_def sample_e1_def
      sample_e2_def sample_e3_def sample_submission_def sample_committed_def)

section \<open>One deployment, one operation\<close>

lemma created_payload:
  assumes "history_ok es" and "e \<in> set es" and "je_state e = CREATED"
  obtains c d where "je_payload e = PayOutcome c" "co_deployment c = Some d" "is_bound_deployment d"
proof -
  have "\<exists>c d. je_payload e = PayOutcome c \<and> co_deployment c = Some d \<and> is_bound_deployment d"
    using assms
  proof (induction rule: history_induct)
    case (snoc es x)
    show ?case
    proof (cases "e = x")
      case True
      have ops: "operation_entries es (je_operation_id x) \<noteq> []"
        using validate_entry_first[OF snoc.hyps(3)] snoc.prems True by (auto simp: check_first_def)
      obtain p where out: "check_outcome es (operation_entries es (je_operation_id x)) p x = Inr ()"
        using validate_entry_next[OF snoc.hyps(3) refl ops] by blast
      have "payload_type_matches CREATED (je_payload x)"
        using validate_entry_chain[OF snoc.hyps(3)] snoc.prems True by (auto simp: check_chain_def)
      then obtain c where c: "je_payload x = PayOutcome c"
        by (cases "je_payload x") simp_all
      have kind: "co_kind c = KIND_COMMITTED"
        using out c snoc.prems True by (auto simp: check_outcome_def)
      have ok: "is_create_outcome c"
        using snoc.hyps(2) c by (simp add: is_journal_entry_def entry_fields_ok_def)
      then obtain d where "co_deployment c = Some d"
        using outcome_evidence_unique(4)[OF _ kind] by blast
      then show ?thesis using c ok True by (auto simp: is_create_outcome_def)
    qed (use snoc in auto)
  qed simp
  then show ?thesis using that by blast
qed

lemma bound_snoc:
  "bound (es @ [e]) op =
     (if \<exists>x \<in> set (operation_entries es op). je_state x = CREATED then bound es op
      else if je_operation_id e = op \<and> je_state e = CREATED
      then (case je_payload e of PayOutcome c \<Rightarrow> co_deployment c | _ \<Rightarrow> None)
      else None)"
  by (auto simp: bound_def operation_entries_snoc filter_empty_conv split: list.splits)

lemma bound_None_iff:
  assumes "history_ok es"
  shows "bound es op = None \<longleftrightarrow> (\<forall>x \<in> set (operation_entries es op). je_state x \<noteq> CREATED)"
proof (cases "filter (\<lambda>e. je_state e = CREATED) (operation_entries es op)")
  case Nil
  then show ?thesis by (simp add: bound_def filter_empty_conv)
next
  case (Cons x xs)
  then have x: "x \<in> set (operation_entries es op)" "je_state x = CREATED"
    by (auto simp: filter_eq_Cons_iff)
  then obtain c d where "je_payload x = PayOutcome c" "co_deployment c = Some d"
    using created_payload[OF assms] by (metis operation_entries_mem)
  then have "bound es op = Some d" using Cons by (simp add: bound_def)
  then show ?thesis using x by auto
qed

lemma bound_mono:
  assumes "history_ok es" and "bound es op = Some b"
  shows "bound (es @ [e]) op = Some b"
  using assms(2) bound_None_iff[OF assms(1), of op] by (auto simp: bound_snoc)

lemma bound_snoc_cases:
  assumes "history_ok es" and "bound (es @ [e]) op = Some b"
  obtains "bound es op = Some b"
  | c where "je_operation_id e = op" "je_state e = CREATED" "bound es op = None"
      "je_payload e = PayOutcome c" "co_deployment c = Some b"
proof (cases "bound es op")
  case None
  then have "\<not> (\<exists>x \<in> set (operation_entries es op). je_state x = CREATED)"
    using bound_None_iff[OF assms(1)] by blast
  then show ?thesis
    using assms(2) that(2)[OF _ _ None] by (auto simp: bound_snoc split: if_splits transition_payload.splits)
next
  case (Some b')
  then show ?thesis using bound_mono[OF assms(1) Some] assms(2) that(1) by simp
qed

definition prepared_of :: "journal_entry list \<Rightarrow> string \<Rightarrow> prepared_create option" where
  "prepared_of es op = (case operation_entries es op of
     e # _ \<Rightarrow> (case je_payload e of PayPrepared p \<Rightarrow> Some p | _ \<Rightarrow> None) | [] \<Rightarrow> None)"

lemma prepared_of_snoc:
  "prepared_of es op = Some p \<Longrightarrow> prepared_of (es @ [e]) op = Some p"
  by (auto simp: prepared_of_def operation_entries_snoc split: list.splits)

lemma prepared_of_hd:
  "operation_entries es op \<noteq> [] \<Longrightarrow> je_payload (hd (operation_entries es op)) = PayPrepared p \<Longrightarrow>
   prepared_of es op = Some p"
  by (auto simp: prepared_of_def split: list.splits)

definition matches_prepared :: "prepared_create \<Rightarrow> bound_deployment \<Rightarrow> bool" where
  "matches_prepared p b \<longleftrightarrow> dk_owner (bd_subject b) = oc_owner (pc_owner_candidate p)
     \<and> bd_groups b = pc_groups p \<and> bd_group_population_digest b = pc_group_population_digest p"

lemma new_binding:
  assumes h: "history_ok es" and v: "validate_entry es e = Inr ()"
    and c: "je_payload e = PayOutcome c" "co_deployment c = Some b" "je_state e = CREATED"
  obtains p where "prepared_of es (je_operation_id e) = Some p" "matches_prepared p b"
    "\<And>op b'. bound es op = Some b' \<Longrightarrow> bd_subject b' \<noteq> bd_subject b"
proof -
  have ops: "operation_entries es (je_operation_id e) \<noteq> []"
    using validate_entry_first[OF v] c(3) by (auto simp: check_first_def)
  obtain p where p: "je_payload (hd (operation_entries es (je_operation_id e))) = PayPrepared p"
    and out: "check_outcome es (operation_entries es (je_operation_id e)) p e = Inr ()"
    using validate_entry_next[OF v refl ops] by blast
  then have dep: "check_deployment es (operation_entries es (je_operation_id e)) p b = Inr ()"
    using c by (auto simp: check_outcome_def)
  have "bd_subject b' \<noteq> bd_subject b" if b': "bound es op = Some b'" for op b'
  proof -
    obtain x where "x \<in> set es" "je_operation_id x = op"
      using b' bound_None_iff[OF h, of op] by (auto simp: operation_entries_mem)
    then show ?thesis using dep b' by (auto simp: check_deployment_def list_ex_iff split: option.splits)
  qed
  moreover have "matches_prepared p b"
    using dep by (simp add: check_deployment_def matches_prepared_def)
  ultimately show ?thesis using that prepared_of_hd[OF ops p] by blast
qed

lemma bound_distinct:
  "history_ok es \<Longrightarrow> bound es op1 = Some b1 \<Longrightarrow> bound es op2 = Some b2 \<Longrightarrow>
   bd_subject b1 = bd_subject b2 \<Longrightarrow> op1 = op2"
proof (induction arbitrary: op1 op2 b1 b2 rule: history_induct)
  case Nil
  then show ?case by (simp add: bound_def operation_entries_def)
next
  case (snoc es e)
  have new: "False"
    if "je_payload e = PayOutcome c" "co_deployment c = Some b" "je_state e = CREATED"
      "bound es op = Some b'" "bd_subject b' = bd_subject b" for c b op b'
    using new_binding[OF snoc.hyps(1,3) that(1-3)] that(4,5) by metis
  from snoc.prems(1) show ?case
  proof (rule bound_snoc_cases[OF snoc.hyps(1)])
    assume b1: "bound es op1 = Some b1"
    from snoc.prems(2) show ?thesis
      by (rule bound_snoc_cases[OF snoc.hyps(1)]) (use b1 snoc new in \<open>metis+\<close>)
  next
    fix c assume c: "je_operation_id e = op1" "je_state e = CREATED" "je_payload e = PayOutcome c"
      "co_deployment c = Some b1"
    from snoc.prems(2) show ?thesis
      by (rule bound_snoc_cases[OF snoc.hyps(1)]) (use c snoc.prems(3) new in \<open>metis+\<close>)
  qed
qed

lemma bound_matches:
  "history_ok es \<Longrightarrow> bound es op = Some b \<Longrightarrow> \<exists>p. prepared_of es op = Some p \<and> matches_prepared p b"
proof (induction arbitrary: op b rule: history_induct)
  case Nil
  then show ?case by (simp add: bound_def operation_entries_def)
next
  case (snoc es e)
  from snoc.prems show ?case
  proof (rule bound_snoc_cases[OF snoc.hyps(1)])
    assume "bound es op = Some b"
    then show ?thesis using snoc.IH prepared_of_snoc by blast
  next
    fix c assume c: "je_operation_id e = op" "je_state e = CREATED" "je_payload e = PayOutcome c"
      "co_deployment c = Some b"
    then show ?thesis
      using new_binding[OF snoc.hyps(1,3) c(3,4,2)] prepared_of_snoc by metis
  qed
qed

lemma evidence_subject_bound:
  "history_ok es \<Longrightarrow> e \<in> set es \<Longrightarrow> payload_subject (je_payload e) = Some s \<Longrightarrow>
   \<exists>b. bound es (je_operation_id e) = Some b \<and> bd_subject b = s"
proof (induction arbitrary: e s rule: history_induct)
  case (snoc es x)
  show ?case
  proof (cases "e \<in> set es")
    case True
    then show ?thesis using snoc bound_mono by metis
  next
    case False
    then have e: "e = x" using snoc.prems by simp
    have ops: "operation_entries es (je_operation_id x) \<noteq> []"
    proof
      assume "operation_entries es (je_operation_id x) = []"
      then have "je_state x = PREPARED"
        using validate_entry_first[OF snoc.hyps(3)] by (auto simp: check_first_def)
      moreover have "payload_type_matches (je_state x) (je_payload x)"
        using validate_entry_chain[OF snoc.hyps(3)] by (auto simp: check_chain_def)
      ultimately show False using snoc.prems(2) e by (cases "je_payload x") simp_all
    qed
    obtain p where "check_bound_evidence es p (last (operation_entries es (je_operation_id x))) x = Inr ()"
      using validate_entry_next[OF snoc.hyps(3) refl ops] by blast
    then have "\<exists>b. bound es (je_operation_id x) = Some b \<and> bd_subject b = s"
      using snoc.prems(2) e by (auto simp: check_bound_evidence_def split: option.splits)
    then show ?thesis using e bound_mono[OF snoc.hyps(1)] by blast
  qed
qed simp

text \<open>
  C6: one deployment, one operation. In every valid journal two operations are never bound to
  the same deployment; the bound deployment has the owner and the complete group population
  that the operation prepared; and every later piece of evidence about a deployment
  (handoff, rollback, closure, settlement) names the deployment bound to its operation.
\<close>

theorem deployment_binding_unique:
  assumes "is_create_journal j" and "bound (cj_entries j) op = Some b"
  shows "(\<forall>op' b'. bound (cj_entries j) op' = Some b' \<and> bd_subject b' = bd_subject b \<longrightarrow> op' = op)
    \<and> (\<exists>p. prepared_of (cj_entries j) op = Some p \<and> matches_prepared p b)
    \<and> (\<forall>e \<in> set (cj_entries j). je_operation_id e = op \<and> payload_subject (je_payload e) \<noteq> None \<longrightarrow>
         payload_subject (je_payload e) = Some (bd_subject b))"
proof -
  note h = is_create_journal_history_ok[OF assms(1)]
  have "payload_subject (je_payload e) = Some (bd_subject b)"
    if "e \<in> set (cj_entries j)" "je_operation_id e = op" "payload_subject (je_payload e) \<noteq> None" for e
    using evidence_subject_bound[OF h that(1)] that assms(2) by fastforce
  then show ?thesis using bound_distinct[OF h _ assms(2)] bound_matches[OF h assms(2)] by blast
qed

theorem deployment_binding_unique_witness:
  "bound (cj_entries sample_journal) ''op1'' = Some sample_deployment
   \<and> (\<exists>p. prepared_of (cj_entries sample_journal) ''op1'' = Some p \<and> matches_prepared p sample_deployment)"
  using deployment_binding_unique[OF sample_journal_ok sample_bound] sample_bound by blast

section \<open>Appending\<close>

lemma first_prepared:
  assumes "history_ok es" and "operation_entries es op \<noteq> []"
  obtains p where "je_payload (hd (operation_entries es op)) = PayPrepared p"
proof -
  let ?e = "hd (operation_entries es op)"
  have "?e \<in> set es" using assms(2) by (metis hd_in_set operation_entries_mem)
  moreover have "payload_type_matches (je_state e) (je_payload e)" if "e \<in> set es" for e
    using assms(1) that
    by (induction rule: history_induct) (auto dest!: validate_entry_chain simp: check_chain_def)
  moreover have "je_state ?e = PREPARED" using operation_path[OF assms(1), of op] assms(2) by simp
  ultimately have "payload_type_matches PREPARED (je_payload ?e)" by metis
  then show ?thesis using that by (cases "je_payload ?e") simp_all
qed

lemma check_errors [raises_intro]:
  "raises_only {TransitionError} (check_chain es e)"
  "raises_only {TransitionError} (check_first es e)"
  "raises_only {TransitionError} (check_non_commit ops p n)"
  unfolding check_chain_def check_first_def check_non_commit_def by (intro raises_intro insertI1)+

lemma check_typed_errors [raises_intro]:
  "raises_only {TransitionError} (check_submission p e)"
  "raises_only {TransitionError} (check_deployment es ops p d)"
  unfolding check_submission_def check_deployment_def
  by (cases "je_payload e"; cases "bd_binding_evidence d"; simp; intro raises_intro insertI1)+

lemma check_outcome_errors [raises_intro]:
  "raises_only {TransitionError} (check_outcome es ops p e)"
  "raises_only {TransitionError} (check_bound_evidence es p prev e)"
  unfolding check_outcome_def check_bound_evidence_def
  by (cases "je_payload e"; cases "je_payload prev"; simp; intro raises_intro insertI1)+

lemma validate_entry_error:
  assumes "history_ok es"
  shows "raises_only {TransitionError} (validate_entry es e)"
proof (cases "operation_entries es (je_operation_id e) = []")
  case True
  then show ?thesis by (simp add: validate_entry_def) (intro raises_intro)
next
  case False
  obtain p where "je_payload (hd (operation_entries es (je_operation_id e))) = PayPrepared p"
    using first_prepared[OF assms False] by blast
  then show ?thesis using False
    by (simp add: validate_entry_def Let_def) (intro raises_intro insertI1)
qed

lemma mk_next_entry:
  "mk_journal_entry (next_entry j st pl t) = Inr e \<Longrightarrow>
   is_journal_entry e \<and> je_payload e = pl \<and> je_state e = st \<and> je_recorded_at e = t"
  "mk_journal_entry (next_entry j st pl t) = Inl x \<Longrightarrow> x = ValueError"
  by (auto simp: mk_journal_entry_def next_entry_def is_journal_entry_def entry_fields_ok_def
      entry_digest_of_def Let_def split: if_splits)

text \<open>
  Appending validates only the new entry. The code replays the complete history on every
  append; on a valid journal this equals building the next entry and validating it against
  the entries before it. The result is again a valid journal that keeps the history as its
  prefix, and the only errors are \<open>ValueError\<close> (malformed new entry) and
  \<open>TransitionError\<close>.
\<close>

theorem append_validates_last:
  assumes "is_create_journal j"
  shows "append_transition j st pl t =
     (if \<not> payload_type_matches st pl then Inl TransitionError
      else bindR (mk_journal_entry (next_entry j st pl t)) (\<lambda>e.
           bindR (validate_entry (cj_entries j) e) (\<lambda>_.
           Inr (j\<lparr>cj_entries := cj_entries j @ [e]\<rparr>))))
    \<and> (case append_transition j st pl t of
         Inl x \<Rightarrow> x = ValueError \<or> x = TransitionError
       | Inr j' \<Rightarrow> is_create_journal j' \<and> (\<exists>e. cj_entries j' = cj_entries j @ [e]
            \<and> je_payload e = pl \<and> je_state e = st \<and> je_recorded_at e = t))"
proof (cases "payload_type_matches st pl")
  case True
  have j: "history_ok (cj_entries j)" "is_version (cj_version j)"
    using assms by (simp_all add: is_create_journal_history)
  then have v: "validate_entries [] (cj_entries j) = Inr ()" "list_all is_journal_entry (cj_entries j)"
    "cj_version j = JOURNAL_SCHEMA_VERSION"
    by (simp_all add: history_ok_def is_version_def)
  show ?thesis
  proof (cases "mk_journal_entry (next_entry j st pl t)")
    case (Inl x)
    then show ?thesis using True mk_next_entry(2)[OF Inl] by (simp add: append_transition_def)
  next
    case (Inr e)
    note e = mk_next_entry(1)[OF Inr]
    have a: "append_transition j st pl t =
        bindR (validate_entry (cj_entries j) e) (\<lambda>_. Inr (j\<lparr>cj_entries := cj_entries j @ [e]\<rparr>))"
      using True Inr v e
      by (cases "validate_entry (cj_entries j) e")
        (simp_all add: append_transition_def mk_create_journal_def validate_entries_append is_version_def)
    show ?thesis
    proof (cases "validate_entry (cj_entries j) e")
      case (Inl x)
      then show ?thesis using a True Inr raises_onlyD[OF validate_entry_error[OF j(1)] Inl] by simp
    next
      case (Inr u)
      then have "is_create_journal (j\<lparr>cj_entries := cj_entries j @ [e]\<rparr>)"
        using j e by (simp add: is_create_journal_history)
      then show ?thesis using a True \<open>mk_journal_entry _ = Inr e\<close> Inr e by simp
    qed
  qed
qed (simp add: append_transition_def)

theorem append_validates_last_witness:
  "append_transition sample_journal SUBMITTED (PayPrepared sample_prepared) 130 = Inl TransitionError
   \<and> (case append_transition sample_journal PREPARED (PayPrepared sample_prepared) 130 of
        Inl x \<Rightarrow> x = ValueError \<or> x = TransitionError
      | Inr j' \<Rightarrow> is_create_journal j')"
  using append_validates_last[OF sample_journal_ok, of SUBMITTED "PayPrepared sample_prepared" 130]
    append_validates_last[OF sample_journal_ok, of PREPARED "PayPrepared sample_prepared" 130]
  by (auto split: sum.splits)

section \<open>The hash chain\<close>

lemma chain_links:
  "history_ok es \<Longrightarrow> i < length es \<Longrightarrow>
   is_journal_entry (es ! i) \<and> je_revision (es ! i) = int i + 1
   \<and> je_previous_entry_digest (es ! i) = last_digest (take i es)
   \<and> payload_observed_at (je_payload (es ! i)) \<le> je_recorded_at (es ! i)
   \<and> (0 < i \<longrightarrow> je_recorded_at (es ! (i - 1)) \<le> je_recorded_at (es ! i))"
proof (induction arbitrary: i rule: history_induct)
  case (snoc es e)
  show ?case
  proof (cases "i < length es")
    case True
    then show ?thesis using snoc.IH by (auto simp: nth_append)
  next
    case False
    then have "i = length es" using snoc.prems by simp
    then show ?thesis
      using validate_entry_chain[OF snoc.hyps(3)] snoc.hyps(2)
      by (cases "es = []") (auto simp: check_chain_def nth_append last_conv_nth)
  qed
qed simp

lemma prepared_once:
  "history_ok es \<Longrightarrow> i < k \<Longrightarrow> k < length es \<Longrightarrow>
   je_payload (es ! i) = PayPrepared p \<Longrightarrow> je_payload (es ! k) = PayPrepared q \<Longrightarrow>
   pc_operation_id p \<noteq> pc_operation_id q \<and> allocation_key p \<noteq> allocation_key q"
proof (induction rule: history_induct)
  case (snoc es e)
  have typed: "je_state x = PREPARED" if "x \<in> set (es @ [e])" "je_payload x = PayPrepared r" for x r
  proof -
    have "history_ok (es @ [e])" using snoc.hyps by simp
    then have "payload_type_matches (je_state x) (je_payload x)" using that(1)
      by (induction rule: history_induct) (auto dest!: validate_entry_chain simp: check_chain_def)
    then show ?thesis using that(2) by (cases "je_state x") simp_all
  qed
  show ?case
  proof (cases "k < length es")
    case True
    then show ?thesis using snoc by (simp add: nth_append)
  next
    case False
    then have k: "je_payload e = PayPrepared q" and i: "es ! i \<in> set es" "je_payload (es ! i) = PayPrepared p"
      using snoc.prems by (auto simp: nth_append split: if_splits)
    have "operation_entries es (je_operation_id e) = []"
      using validate_entry_next[OF snoc.hyps(3) refl] typed[of e] k by (metis in_set_conv_decomp)
    then have "check_first es e = Inr ()" by (rule validate_entry_first[OF snoc.hyps(3)])
    then have "\<not> same_allocation (PayPrepared p) (PayPrepared q)"
      using typed[of "es ! i"] i k by (auto simp: check_first_def list_ex_iff)
    then show ?thesis by simp
  qed
qed simp

text \<open>
  C37: The journal is an append-only chain. Entry \<open>i\<close> of a valid journal has revision
  \<open>i + 1\<close>, carries the digest of its own fields and the digest of the entry before it, is
  recorded no earlier than the evidence it carries and than the entry before it; and no two
  entries prepare the same operation or allocate the same ordinal of a lifecycle.
\<close>

theorem journal_chain:
  assumes "is_create_journal j" and "i < length (cj_entries j)"
  shows "je_revision (cj_entries j ! i) = int i + 1
    \<and> je_entry_digest (cj_entries j ! i) = entry_digest_of (cj_entries j ! i)
    \<and> je_previous_entry_digest (cj_entries j ! i)
        = (if i = 0 then None else Some (je_entry_digest (cj_entries j ! (i - 1))))
    \<and> payload_observed_at (je_payload (cj_entries j ! i)) \<le> je_recorded_at (cj_entries j ! i)
    \<and> (0 < i \<longrightarrow> je_recorded_at (cj_entries j ! (i - 1)) \<le> je_recorded_at (cj_entries j ! i))
    \<and> (\<forall>k p q. k < i \<and> je_payload (cj_entries j ! k) = PayPrepared p
          \<and> je_payload (cj_entries j ! i) = PayPrepared q \<longrightarrow>
          pc_operation_id p \<noteq> pc_operation_id q \<and> allocation_key p \<noteq> allocation_key q)"
proof -
  note h = is_create_journal_history_ok[OF assms(1)]
  have "last_digest (take i (cj_entries j))
      = (if i = 0 then None else Some (je_entry_digest (cj_entries j ! (i - 1))))"
    using assms(2) by (auto simp: last_digest_def last_conv_nth min_def)
  then show ?thesis
    using chain_links[OF h assms(2)] prepared_once[OF h _ assms(2)]
    by (auto simp: is_journal_entry_def)
qed

theorem journal_chain_witness:
  "je_previous_entry_digest (cj_entries sample_journal ! 2)
   = Some (je_entry_digest (cj_entries sample_journal ! 1))"
  using journal_chain[OF sample_journal_ok, of 2] by (simp add: sample_journal_def)

end
