(* ===== verification/AdmissionData.thy ===== *)
theory AdmissionData
  imports JournalData
begin

text \<open>
  \<^verbatim>\<open>creation_admission.py\<close>, the typed data: budget scopes, limits, censuses, exposure
  evidence, requests, reservations and the admission state, with the validation of every
  constructor and the canonical encodings whose digests bind proposals to states. Same
  conventions as \<open>JournalData\<close>: records per dataclass, \<open>is_...\<close> for the constructor's checks.
\<close>

section \<open>Enumerations\<close>

datatype census_status =
    CENSUS_VERIFIED
  | CENSUS_INCOMPLETE
  | CENSUS_UNAVAILABLE

fun census_status_value :: "census_status \<Rightarrow> string" where
  "census_status_value CENSUS_VERIFIED = ''verified''"
| "census_status_value CENSUS_INCOMPLETE = ''incomplete''"
| "census_status_value CENSUS_UNAVAILABLE = ''unavailable''"

datatype reservation_state =
    RES_RESERVED
  | RES_SUBMITTING
  | RES_CREATE_OUTCOME_UNKNOWN
  | RES_NON_COMMIT_PROVEN
  | RES_COMMITTED
  | RES_EXECUTION_CLOSED
  | RES_SETTLED

fun reservation_state_value :: "reservation_state \<Rightarrow> string" where
  "reservation_state_value RES_RESERVED = ''reserved''"
| "reservation_state_value RES_SUBMITTING = ''submitting''"
| "reservation_state_value RES_CREATE_OUTCOME_UNKNOWN = ''create_outcome_unknown''"
| "reservation_state_value RES_NON_COMMIT_PROVEN = ''non_commit_proven''"
| "reservation_state_value RES_COMMITTED = ''committed''"
| "reservation_state_value RES_EXECUTION_CLOSED = ''execution_closed''"
| "reservation_state_value RES_SETTLED = ''settled''"

datatype admission_disposition =
    ADMISSION_PROPOSED
  | ADMISSION_RECONCILE
  | ADMISSION_HOLD

fun admission_disposition_value :: "admission_disposition \<Rightarrow> string" where
  "admission_disposition_value ADMISSION_PROPOSED = ''proposed''"
| "admission_disposition_value ADMISSION_RECONCILE = ''reconcile''"
| "admission_disposition_value ADMISSION_HOLD = ''hold''"

datatype permit_revocation_status =
    PERMIT_ACTIVE
  | PERMIT_REVOKED

fun permit_revocation_status_value :: "permit_revocation_status \<Rightarrow> string" where
  "permit_revocation_status_value PERMIT_ACTIVE = ''active''"
| "permit_revocation_status_value PERMIT_REVOKED = ''revoked''"

datatype admission_reason =
    REASON_PROPOSED
  | REASON_RECONCILE_EXISTING
  | REASON_MISSING_REQUIRED_BUDGET
  | REASON_STALE_REVISION
  | REASON_OPERATION_CONFLICT
  | REASON_JOURNAL_UNHEALTHY
  | REASON_RECOVERY_READER_UNHEALTHY
  | REASON_CHAIN_CENSUS_UNHEALTHY
  | REASON_ACCOUNTING_CENSUS_UNHEALTHY
  | REASON_CENSUS_NOT_CURRENT
  | REASON_EXPOSURE_EVIDENCE_NOT_CURRENT
  | REASON_ACTIVE_DEPLOYMENT_LIMIT
  | REASON_UNRESOLVED_OUTCOME_LIMIT
  | REASON_FINANCIAL_EXPOSURE_LIMIT
  | REASON_EXPOSURE_POLICY_MISMATCH
  | REASON_RESERVATION_CENSUS_MISMATCH

fun admission_reason_value :: "admission_reason \<Rightarrow> string" where
  "admission_reason_value REASON_PROPOSED = ''proposed''"
| "admission_reason_value REASON_RECONCILE_EXISTING = ''reconcile_existing''"
| "admission_reason_value REASON_MISSING_REQUIRED_BUDGET = ''missing_required_budget''"
| "admission_reason_value REASON_STALE_REVISION = ''stale_revision''"
| "admission_reason_value REASON_OPERATION_CONFLICT = ''operation_conflict''"
| "admission_reason_value REASON_JOURNAL_UNHEALTHY = ''journal_unhealthy''"
| "admission_reason_value REASON_RECOVERY_READER_UNHEALTHY = ''recovery_reader_unhealthy''"
| "admission_reason_value REASON_CHAIN_CENSUS_UNHEALTHY = ''chain_census_unhealthy''"
| "admission_reason_value REASON_ACCOUNTING_CENSUS_UNHEALTHY = ''accounting_census_unhealthy''"
| "admission_reason_value REASON_CENSUS_NOT_CURRENT = ''census_not_current''"
| "admission_reason_value REASON_EXPOSURE_EVIDENCE_NOT_CURRENT = ''exposure_evidence_not_current''"
| "admission_reason_value REASON_ACTIVE_DEPLOYMENT_LIMIT = ''active_deployment_limit''"
| "admission_reason_value REASON_UNRESOLVED_OUTCOME_LIMIT = ''unresolved_outcome_limit''"
| "admission_reason_value REASON_FINANCIAL_EXPOSURE_LIMIT = ''financial_exposure_limit''"
| "admission_reason_value REASON_EXPOSURE_POLICY_MISMATCH = ''exposure_policy_mismatch''"
| "admission_reason_value REASON_RESERVATION_CENSUS_MISMATCH = ''reservation_census_mismatch''"

section \<open>Validators\<close>

definition ADMISSION_SCHEMA_VERSION :: int where
  "ADMISSION_SCHEMA_VERSION = 1"

definition CREATE_PERMIT_AUDIENCE :: string where
  "CREATE_PERMIT_AUDIENCE = ''akash-create-submission''"

definition is_admission_version :: "int \<Rightarrow> bool" where
  "is_admission_version v \<longleftrightarrow> v = ADMISSION_SCHEMA_VERSION"

definition is_nonempty_ascii :: "nat \<Rightarrow> string \<Rightarrow> bool" where
  "is_nonempty_ascii maximum s \<longleftrightarrow> nonempty s \<and> s = strip s \<and> isascii s \<and> length s \<le> maximum"

definition is_count :: "int \<Rightarrow> bool" where
  "is_count n \<longleftrightarrow> 0 \<le> n"

definition canonical_reservation_population_digest :: "string list \<Rightarrow> string result" where
  "canonical_reservation_population_digest operation_ids =
     (if \<not> list_all (is_nonempty_ascii 128) operation_ids then Inl ValueError
      else if operation_ids \<noteq> sort (remdups operation_ids) then Inl ValueError
      else Inr (sha256_hexdigest (dumps (JArr (map JStr operation_ids)))))"

section \<open>Scopes, limits and censuses\<close>

record admission_scope =
  as_chain_id :: string
  as_owner :: string
  as_producer_issuer :: string
  as_repository_owner_id :: string
  as_repository_id :: string
  as_repository :: string
  as_workload_class :: string
  as_version :: int

definition is_admission_scope :: "admission_scope \<Rightarrow> bool" where
  "is_admission_scope s \<longleftrightarrow>
     is_admission_version (as_version s) \<and> is_nonempty_ascii 256 (as_chain_id s)
     \<and> is_canonical_akash_owner (as_owner s) \<and> is_nonempty_ascii 256 (as_producer_issuer s)
     \<and> is_positive_text (as_repository_owner_id s) \<and> is_positive_text (as_repository_id s)
     \<and> is_nonempty_ascii 256 (as_repository s) \<and> count_list (as_repository s) (CHR ''/'') = 1
     \<and> as_workload_class s \<in> set CLASSES"

definition canon_admission_scope :: "admission_scope \<Rightarrow> json" where
  "canon_admission_scope x = canon_dataclass ''AdmissionScope''
     [(''chain_id'', JStr (as_chain_id x)),
      (''owner'', JStr (as_owner x)),
      (''producer_issuer'', JStr (as_producer_issuer x)),
      (''repository_owner_id'', JStr (as_repository_owner_id x)),
      (''repository_id'', JStr (as_repository_id x)),
      (''repository'', JStr (as_repository x)),
      (''workload_class'', JStr (as_workload_class x)),
      (''schema_version'', JInt (as_version x))]"

record owner_budget_scope =
  os_chain_id :: string
  os_owner :: string
  os_version :: int

definition is_owner_budget_scope :: "owner_budget_scope \<Rightarrow> bool" where
  "is_owner_budget_scope s \<longleftrightarrow>
     is_admission_version (os_version s) \<and> is_nonempty_ascii 256 (os_chain_id s)
     \<and> is_canonical_akash_owner (os_owner s)"

definition canon_owner_budget_scope :: "owner_budget_scope \<Rightarrow> json" where
  "canon_owner_budget_scope x = canon_dataclass ''OwnerBudgetScope''
     [(''chain_id'', JStr (os_chain_id x)),
      (''owner'', JStr (os_owner x)),
      (''schema_version'', JInt (os_version x))]"

datatype budget_scope = OwnerScope owner_budget_scope | LeafScope admission_scope

fun is_budget_scope :: "budget_scope \<Rightarrow> bool" where
  "is_budget_scope (OwnerScope s) = is_owner_budget_scope s"
| "is_budget_scope (LeafScope s) = is_admission_scope s"

fun canon_budget_scope :: "budget_scope \<Rightarrow> json" where
  "canon_budget_scope (OwnerScope s) = canon_owner_budget_scope s"
| "canon_budget_scope (LeafScope s) = canon_admission_scope s"

record containment_limits =
  cl_max_active_deployments :: int
  cl_max_unresolved_create_outcomes :: int
  cl_max_financial_exposure_uact :: int
  cl_exposure_policy_revision :: string
  cl_admission_policy_revision :: string
  cl_policy_reference :: string
  cl_valid_until :: int
  cl_version :: int

definition is_containment_limits :: "containment_limits \<Rightarrow> bool" where
  "is_containment_limits l \<longleftrightarrow>
     is_admission_version (cl_version l) \<and> is_count (cl_max_active_deployments l)
     \<and> is_count (cl_max_unresolved_create_outcomes l)
     \<and> is_count (cl_max_financial_exposure_uact l)
     \<and> is_revision (cl_exposure_policy_revision l) \<and> is_revision (cl_admission_policy_revision l)
     \<and> is_nonempty_ascii 256 (cl_policy_reference l) \<and> is_time (cl_valid_until l)"

definition canon_containment_limits :: "containment_limits \<Rightarrow> json" where
  "canon_containment_limits x = canon_dataclass ''ContainmentLimits''
     [(''max_active_deployments'', JInt (cl_max_active_deployments x)),
      (''max_unresolved_create_outcomes'', JInt (cl_max_unresolved_create_outcomes x)),
      (''max_financial_exposure_uact'', JInt (cl_max_financial_exposure_uact x)),
      (''exposure_policy_revision'', JStr (cl_exposure_policy_revision x)),
      (''admission_policy_revision'', JStr (cl_admission_policy_revision x)),
      (''policy_reference'', JStr (cl_policy_reference x)),
      (''valid_until'', JInt (cl_valid_until x)),
      (''schema_version'', JInt (cl_version x))]"

record containment_census =
  cc_active_deployments :: int
  cc_unresolved_create_outcomes :: int
  cc_financial_exposure_uact :: int
  cc_excluded_reservation_count :: int
  cc_excluded_reservation_population_digest :: string
  cc_journal_status :: census_status
  cc_recovery_reader_status :: census_status
  cc_chain_status :: census_status
  cc_accounting_status :: census_status
  cc_observed_at :: int
  cc_valid_until :: int
  cc_evidence_digest :: string
  cc_version :: int

definition is_containment_census :: "containment_census \<Rightarrow> bool" where
  "is_containment_census c \<longleftrightarrow>
     is_admission_version (cc_version c) \<and> is_count (cc_active_deployments c)
     \<and> is_count (cc_unresolved_create_outcomes c) \<and> is_count (cc_financial_exposure_uact c)
     \<and> is_count (cc_excluded_reservation_count c)
     \<and> is_digest (cc_excluded_reservation_population_digest c)
     \<and> is_time (cc_observed_at c) \<and> is_time (cc_valid_until c)
     \<and> cc_observed_at c \<le> cc_valid_until c \<and> is_digest (cc_evidence_digest c)"

definition canon_containment_census :: "containment_census \<Rightarrow> json" where
  "canon_containment_census x = canon_dataclass ''ContainmentCensus''
     [(''active_deployments'', JInt (cc_active_deployments x)),
      (''unresolved_create_outcomes'', JInt (cc_unresolved_create_outcomes x)),
      (''financial_exposure_uact'', JInt (cc_financial_exposure_uact x)),
      (''excluded_reservation_count'', JInt (cc_excluded_reservation_count x)),
      (''excluded_reservation_population_digest'', JStr (cc_excluded_reservation_population_digest x)),
      (''journal_status'', canon_enum census_status_value (cc_journal_status x)),
      (''recovery_reader_status'', canon_enum census_status_value (cc_recovery_reader_status x)),
      (''chain_status'', canon_enum census_status_value (cc_chain_status x)),
      (''accounting_status'', canon_enum census_status_value (cc_accounting_status x)),
      (''observed_at'', JInt (cc_observed_at x)),
      (''valid_until'', JInt (cc_valid_until x)),
      (''evidence_digest'', JStr (cc_evidence_digest x)),
      (''schema_version'', JInt (cc_version x))]"

record scope_budget =
  sb_scope :: budget_scope
  sb_limits :: containment_limits
  sb_census :: containment_census
  sb_version :: int

definition is_scope_budget :: "scope_budget \<Rightarrow> bool" where
  "is_scope_budget b \<longleftrightarrow>
     is_admission_version (sb_version b) \<and> is_budget_scope (sb_scope b)
     \<and> is_containment_limits (sb_limits b) \<and> is_containment_census (sb_census b)"

definition canon_scope_budget :: "scope_budget \<Rightarrow> json" where
  "canon_scope_budget x = canon_dataclass ''ScopeBudget''
     [(''scope'', canon_budget_scope (sb_scope x)),
      (''limits'', canon_containment_limits (sb_limits x)),
      (''census'', canon_containment_census (sb_census x)),
      (''schema_version'', JInt (sb_version x))]"

section \<open>Requests and reservations\<close>

record create_exposure_evidence =
  xe_chain_id :: string
  xe_operation_id :: string
  xe_prepared_operation_digest :: string
  xe_request_digest :: string
  xe_sdl_digest :: string
  xe_backend :: backend_identity
  xe_backend_policy_revision :: string
  xe_amount_uact :: int
  xe_source :: string
  xe_evidence_digest :: string
  xe_observed_at :: int
  xe_valid_until :: int
  xe_version :: int

definition is_create_exposure_evidence :: "create_exposure_evidence \<Rightarrow> bool" where
  "is_create_exposure_evidence x \<longleftrightarrow>
     is_admission_version (xe_version x) \<and> is_nonempty_ascii 256 (xe_chain_id x)
     \<and> is_nonempty_ascii 128 (xe_operation_id x)
     \<and> is_digest (xe_prepared_operation_digest x) \<and> is_digest (xe_request_digest x)
     \<and> is_digest (xe_sdl_digest x) \<and> is_digest (xe_evidence_digest x)
     \<and> is_backend_identity (xe_backend x) \<and> is_revision (xe_backend_policy_revision x)
     \<and> is_count (xe_amount_uact x) \<and> xe_amount_uact x \<noteq> 0 \<and> is_nonempty_ascii 256 (xe_source x)
     \<and> is_time (xe_observed_at x) \<and> is_time (xe_valid_until x)
     \<and> xe_observed_at x \<le> xe_valid_until x"

definition canon_create_exposure_evidence :: "create_exposure_evidence \<Rightarrow> json" where
  "canon_create_exposure_evidence x = canon_dataclass ''CreateExposureEvidence''
     [(''chain_id'', JStr (xe_chain_id x)),
      (''operation_id'', JStr (xe_operation_id x)),
      (''prepared_operation_digest'', JStr (xe_prepared_operation_digest x)),
      (''request_digest'', JStr (xe_request_digest x)),
      (''sdl_digest'', JStr (xe_sdl_digest x)),
      (''backend'', canon_backend_identity (xe_backend x)),
      (''backend_policy_revision'', JStr (xe_backend_policy_revision x)),
      (''amount_uact'', JInt (xe_amount_uact x)),
      (''source'', JStr (xe_source x)),
      (''evidence_digest'', JStr (xe_evidence_digest x)),
      (''observed_at'', JInt (xe_observed_at x)),
      (''valid_until'', JInt (xe_valid_until x)),
      (''schema_version'', JInt (xe_version x))]"

record admission_request =
  ar_prepared :: prepared_create
  ar_scope :: admission_scope
  ar_exposure :: create_exposure_evidence
  ar_requested_at :: int
  ar_version :: int

definition ar_operation_id :: "admission_request \<Rightarrow> string" where
  "ar_operation_id r = pc_operation_id (ar_prepared r)"

definition ar_prepared_operation_digest :: "admission_request \<Rightarrow> string" where
  "ar_prepared_operation_digest r = canonical_journal_digest (canon_prepared_create (ar_prepared r))"

definition expected_scope :: "admission_request \<Rightarrow> admission_scope" where
  "expected_scope r =
     (let p = ar_prepared r in
      \<lparr>as_chain_id = xe_chain_id (ar_exposure r), as_owner = oc_owner (pc_owner_candidate p),
       as_producer_issuer = pp_issuer (pc_producer p),
       as_repository_owner_id = pp_repository_owner_id (pc_producer p),
       as_repository_id = pp_repository_id (pc_producer p),
       as_repository = pp_repository (pc_producer p),
       as_workload_class = li_workload_class (pc_lifecycle p),
       as_version = ADMISSION_SCHEMA_VERSION\<rparr>)"

definition is_admission_request :: "admission_request \<Rightarrow> bool" where
  "is_admission_request r \<longleftrightarrow>
     is_admission_version (ar_version r) \<and> is_prepared_create (ar_prepared r)
     \<and> is_admission_scope (ar_scope r) \<and> is_create_exposure_evidence (ar_exposure r)
     \<and> is_admission_scope (expected_scope r) \<and> ar_scope r = expected_scope r
     \<and> xe_chain_id (ar_exposure r) = as_chain_id (ar_scope r)
     \<and> xe_operation_id (ar_exposure r) = ar_operation_id r
     \<and> xe_prepared_operation_digest (ar_exposure r) = ar_prepared_operation_digest r
     \<and> xe_request_digest (ar_exposure r) = pc_request_digest (ar_prepared r)
     \<and> xe_sdl_digest (ar_exposure r) = pc_sdl_digest (ar_prepared r)
     \<and> xe_backend (ar_exposure r) = oc_backend (pc_owner_candidate (ar_prepared r))
     \<and> is_time (ar_requested_at r)
     \<and> max (pc_prepared_at (ar_prepared r)) (xe_observed_at (ar_exposure r)) \<le> ar_requested_at r"

definition canon_admission_request :: "admission_request \<Rightarrow> json" where
  "canon_admission_request x = canon_dataclass ''AdmissionRequest''
     [(''prepared'', canon_prepared_create (ar_prepared x)),
      (''scope'', canon_admission_scope (ar_scope x)),
      (''exposure'', canon_create_exposure_evidence (ar_exposure x)),
      (''requested_at'', JInt (ar_requested_at x)),
      (''schema_version'', JInt (ar_version x))]"

record capacity_reservation =
  cr_request :: admission_request
  cr_state :: reservation_state
  cr_state_evidence_digest :: string
  cr_bound_deployment :: "bound_deployment option"
  cr_version :: int

definition is_capacity_reservation :: "capacity_reservation \<Rightarrow> bool" where
  "is_capacity_reservation c \<longleftrightarrow>
     is_admission_version (cr_version c) \<and> is_admission_request (cr_request c)
     \<and> is_digest (cr_state_evidence_digest c)
     \<and> (cr_state c \<in> {RES_COMMITTED, RES_EXECUTION_CLOSED, RES_SETTLED}
          \<longrightarrow> cr_bound_deployment c \<noteq> None)
     \<and> (case cr_bound_deployment c of None \<Rightarrow> True
        | Some d \<Rightarrow> is_bound_deployment d
            \<and> bd_operation_id d = ar_operation_id (cr_request c)
            \<and> dk_owner (bd_subject d) = as_owner (ar_scope (cr_request c))
            \<and> bd_groups d = pc_groups (ar_prepared (cr_request c))
            \<and> bd_group_population_digest d = pc_group_population_digest (ar_prepared (cr_request c)))"

definition active_slots :: "capacity_reservation \<Rightarrow> int" where
  "active_slots c = (if cr_state c \<in> {RES_RESERVED, RES_SUBMITTING, RES_CREATE_OUTCOME_UNKNOWN,
     RES_COMMITTED} then 1 else 0)"

definition unresolved_slots :: "capacity_reservation \<Rightarrow> int" where
  "unresolved_slots c =
     (if cr_state c \<in> {RES_RESERVED, RES_SUBMITTING, RES_CREATE_OUTCOME_UNKNOWN} then 1 else 0)"

definition cr_financial_exposure :: "capacity_reservation \<Rightarrow> int" where
  "cr_financial_exposure c =
     (if cr_state c \<in> {RES_NON_COMMIT_PROVEN, RES_SETTLED} then 0
      else xe_amount_uact (ar_exposure (cr_request c)))"

definition canon_capacity_reservation :: "capacity_reservation \<Rightarrow> json" where
  "canon_capacity_reservation x = canon_dataclass ''CapacityReservation''
     [(''request'', canon_admission_request (cr_request x)),
      (''state'', canon_enum reservation_state_value (cr_state x)),
      (''state_evidence_digest'', JStr (cr_state_evidence_digest x)),
      (''bound_deployment'', canon_opt canon_bound_deployment (cr_bound_deployment x)),
      (''schema_version'', JInt (cr_version x))]"

record admission_state =
  st_budgets :: "scope_budget list"
  st_reservations :: "capacity_reservation list"
  st_revision :: int
  st_version :: int

definition is_admission_state :: "admission_state \<Rightarrow> bool" where
  "is_admission_state s \<longleftrightarrow>
     is_admission_version (st_version s) \<and> st_budgets s \<noteq> [] \<and> list_all is_scope_budget (st_budgets s)
     \<and> distinct (map sb_scope (st_budgets s))
     \<and> list_all is_capacity_reservation (st_reservations s)
     \<and> distinct (map (\<lambda>c. ar_operation_id (cr_request c)) (st_reservations s))
     \<and> is_count (st_revision s)"

definition canon_admission_state :: "admission_state \<Rightarrow> json" where
  "canon_admission_state x = canon_dataclass ''AdmissionState''
     [(''budgets'', canon_tuple canon_scope_budget (st_budgets x)),
      (''reservations'', canon_tuple canon_capacity_reservation (st_reservations x)),
      (''revision'', JInt (st_revision x)),
      (''schema_version'', JInt (st_version x))]"

section \<open>Decisions, proposals and permits\<close>

record capacity_usage_ =
  cu_active_deployments :: int
  cu_unresolved_create_outcomes :: int
  cu_financial_exposure_uact :: int

record budget_projection =
  bp_scope :: budget_scope
  bp_usage_after :: capacity_usage_

record admission_decision =
  dc_disposition :: admission_disposition
  dc_reason :: admission_reason
  dc_failed_scope :: "budget_scope option"
  dc_projections :: "budget_projection list"

record reservation_proposal =
  rp_operation_id :: string
  rp_expected_revision :: int
  rp_expected_state_digest :: string
  rp_proposed_revision :: int
  rp_proposed_state_digest :: string
  rp_proposed_state :: admission_state
  rp_version :: int

definition canonical_admission_state_digest :: "admission_state \<Rightarrow> string" where
  "canonical_admission_state_digest s = canonical_journal_digest (canon_admission_state s)"

definition is_reservation_proposal :: "reservation_proposal \<Rightarrow> bool" where
  "is_reservation_proposal p \<longleftrightarrow>
     is_nonempty_ascii 128 (rp_operation_id p) \<and> is_count (rp_expected_revision p)
     \<and> is_count (rp_proposed_revision p) \<and> is_digest (rp_expected_state_digest p)
     \<and> is_digest (rp_proposed_state_digest p)
     \<and> rp_proposed_revision p = rp_expected_revision p + 1
     \<and> st_revision (rp_proposed_state p) = rp_proposed_revision p
     \<and> canonical_admission_state_digest (rp_proposed_state p) = rp_proposed_state_digest p"

record admission_result =
  ad_decision :: admission_decision
  ad_proposal :: "reservation_proposal option"

record authenticated_broker_evidence =
  ab_broker_identity :: string
  ab_issuer :: string
  ab_audience :: string
  ab_subject :: string
  ab_verifier_policy_revision :: string
  ab_authentication_evidence_digest :: string
  ab_verified_at :: int
  ab_valid_until :: int

definition is_authenticated_broker_evidence :: "authenticated_broker_evidence \<Rightarrow> bool" where
  "is_authenticated_broker_evidence b \<longleftrightarrow>
     list_all (\<lambda>f. is_nonempty_ascii 256 (f b)) [ab_broker_identity, ab_issuer, ab_audience, ab_subject]
     \<and> is_revision (ab_verifier_policy_revision b) \<and> is_digest (ab_authentication_evidence_digest b)
     \<and> is_time (ab_verified_at b) \<and> is_time (ab_valid_until b)
     \<and> ab_verified_at b \<le> ab_valid_until b"

record persistence_confirmation =
  cf_operation_id :: string
  cf_persisted_revision :: int
  cf_persisted_state_digest :: string
  cf_authenticated_broker :: authenticated_broker_evidence
  cf_evidence_digest :: string
  cf_persisted_at :: int
  cf_version :: int

definition is_persistence_confirmation :: "persistence_confirmation \<Rightarrow> bool" where
  "is_persistence_confirmation c \<longleftrightarrow>
     is_admission_version (cf_version c) \<and> is_nonempty_ascii 128 (cf_operation_id c)
     \<and> is_count (cf_persisted_revision c) \<and> is_digest (cf_persisted_state_digest c)
     \<and> is_authenticated_broker_evidence (cf_authenticated_broker c)
     \<and> is_digest (cf_evidence_digest c) \<and> is_time (cf_persisted_at c)"

record admission_policy_binding =
  pb_scope :: budget_scope
  pb_policy_revision :: string

definition is_admission_policy_binding :: "admission_policy_binding \<Rightarrow> bool" where
  "is_admission_policy_binding b \<longleftrightarrow> is_budget_scope (pb_scope b) \<and> is_revision (pb_policy_revision b)"

definition canon_admission_policy_binding :: "admission_policy_binding \<Rightarrow> json" where
  "canon_admission_policy_binding x = canon_dataclass ''AdmissionPolicyBinding''
     [(''scope'', canon_budget_scope (pb_scope x)),
      (''policy_revision'', JStr (pb_policy_revision x))]"

record permit_presentation =
  pr_permit_digest :: string
  pr_presenter_identity :: string
  pr_audience :: string
  pr_current_policy_bindings :: "admission_policy_binding list"
  pr_revocation_status :: permit_revocation_status
  pr_revocation_evidence_digest :: string
  pr_presented_at :: int

definition is_permit_presentation :: "permit_presentation \<Rightarrow> bool" where
  "is_permit_presentation p \<longleftrightarrow>
     is_digest (pr_permit_digest p) \<and> is_nonempty_ascii 256 (pr_presenter_identity p)
     \<and> is_nonempty_ascii 256 (pr_audience p) \<and> pr_current_policy_bindings p \<noteq> []
     \<and> list_all is_admission_policy_binding (pr_current_policy_bindings p)
     \<and> distinct (map pb_scope (pr_current_policy_bindings p))
     \<and> is_digest (pr_revocation_evidence_digest p) \<and> is_time (pr_presented_at p)"

definition canon_permit_presentation :: "permit_presentation \<Rightarrow> json" where
  "canon_permit_presentation x = canon_dataclass ''PermitPresentation''
     [(''permit_digest'', JStr (pr_permit_digest x)),
      (''presenter_identity'', JStr (pr_presenter_identity x)),
      (''audience'', JStr (pr_audience x)),
      (''current_policy_bindings'', canon_tuple canon_admission_policy_binding (pr_current_policy_bindings x)),
      (''revocation_status'', canon_enum permit_revocation_status_value (pr_revocation_status x)),
      (''revocation_evidence_digest'', JStr (pr_revocation_evidence_digest x)),
      (''presented_at'', JInt (pr_presented_at x))]"

record create_permit =
  pm_operation_id :: string
  pm_prepared_operation_digest :: string
  pm_state_revision :: int
  pm_state_digest :: string
  pm_broker_identity :: string
  pm_presenter_identity :: string
  pm_audience :: string
  pm_policy_bindings :: "admission_policy_binding list"
  pm_valid_until :: int
  pm_persistence_evidence_digest :: string
  pm_issued_at :: int
  pm_version :: int

definition is_create_permit :: "create_permit \<Rightarrow> bool" where
  "is_create_permit p \<longleftrightarrow>
     is_nonempty_ascii 128 (pm_operation_id p) \<and> is_digest (pm_prepared_operation_digest p)
     \<and> is_count (pm_state_revision p) \<and> is_digest (pm_state_digest p)
     \<and> is_nonempty_ascii 256 (pm_broker_identity p) \<and> is_nonempty_ascii 256 (pm_presenter_identity p)
     \<and> is_nonempty_ascii 256 (pm_audience p) \<and> pm_policy_bindings p \<noteq> []
     \<and> list_all is_admission_policy_binding (pm_policy_bindings p)
     \<and> is_time (pm_valid_until p) \<and> pm_issued_at p \<le> pm_valid_until p
     \<and> is_digest (pm_persistence_evidence_digest p) \<and> is_time (pm_issued_at p)"

definition canon_create_permit :: "create_permit \<Rightarrow> json" where
  "canon_create_permit x = canon_dataclass ''CreatePermit''
     [(''operation_id'', JStr (pm_operation_id x)),
      (''prepared_operation_digest'', JStr (pm_prepared_operation_digest x)),
      (''state_revision'', JInt (pm_state_revision x)),
      (''state_digest'', JStr (pm_state_digest x)),
      (''broker_identity'', JStr (pm_broker_identity x)),
      (''presenter_identity'', JStr (pm_presenter_identity x)),
      (''audience'', JStr (pm_audience x)),
      (''policy_bindings'', canon_tuple canon_admission_policy_binding (pm_policy_bindings x)),
      (''valid_until'', JInt (pm_valid_until x)),
      (''persistence_evidence_digest'', JStr (pm_persistence_evidence_digest x)),
      (''issued_at'', JInt (pm_issued_at x)),
      (''schema_version'', JInt (pm_version x))]"

record permit_redemption_proposal =
  rd_operation_id :: string
  rd_permit_digest :: string
  rd_presentation_digest :: string
  rd_permit_issued_at :: int
  rd_expected_revision :: int
  rd_expected_state_digest :: string
  rd_proposed_revision :: int
  rd_proposed_state_digest :: string
  rd_proposed_state :: admission_state

definition is_permit_redemption_proposal :: "permit_redemption_proposal \<Rightarrow> bool" where
  "is_permit_redemption_proposal p \<longleftrightarrow>
     is_nonempty_ascii 128 (rd_operation_id p) \<and> is_digest (rd_permit_digest p)
     \<and> is_digest (rd_presentation_digest p) \<and> is_time (rd_permit_issued_at p)
     \<and> is_count (rd_expected_revision p) \<and> is_count (rd_proposed_revision p)
     \<and> is_digest (rd_expected_state_digest p) \<and> is_digest (rd_proposed_state_digest p)
     \<and> rd_proposed_revision p = rd_expected_revision p + 1
     \<and> st_revision (rd_proposed_state p) = rd_proposed_revision p
     \<and> canonical_admission_state_digest (rd_proposed_state p) = rd_proposed_state_digest p"

record create_submission_authorization =
  sa_operation_id :: string
  sa_permit_digest :: string
  sa_state_revision :: int
  sa_state_digest :: string
  sa_broker_identity :: string
  sa_presenter_identity :: string
  sa_audience :: string
  sa_policy_bindings :: "admission_policy_binding list"
  sa_valid_until :: int
  sa_redemption_evidence_digest :: string
  sa_issued_at :: int

end
