(* ===== verification/Admission.thy ===== *)
theory Admission
  imports AdmissionData
begin

text \<open>
  \<^verbatim>\<open>creation_admission.py\<close>, the operations: reserving capacity against the owner and the leaf
  budget, confirming a persisted reservation into a permit, redeeming the permit once,
  confirming the redemption into the authorization to submit, and the lifecycle
  transitions that release capacity. A value built by a constructor is \<open>construct is_... x\<close>.
\<close>

section \<open>Budgets that apply\<close>

definition reservation_of :: "admission_state \<Rightarrow> string \<Rightarrow> capacity_reservation option" where
  "reservation_of s operation_id =
     find (\<lambda>c. ar_operation_id (cr_request c) = operation_id) (st_reservations s)"

fun applies :: "budget_scope \<Rightarrow> admission_scope \<Rightarrow> bool" where
  "applies (OwnerScope o1) leaf = (os_chain_id o1 = as_chain_id leaf \<and> os_owner o1 = as_owner leaf)"
| "applies (LeafScope l) leaf = (l = leaf)"

definition applicable_budgets :: "admission_state \<Rightarrow> admission_scope \<Rightarrow> scope_budget list" where
  "applicable_budgets s leaf = filter (\<lambda>b. applies (sb_scope b) leaf) (st_budgets s)"

definition owner_scope_of :: "admission_scope \<Rightarrow> owner_budget_scope" where
  "owner_scope_of leaf = \<lparr>os_chain_id = as_chain_id leaf, os_owner = as_owner leaf,
     os_version = ADMISSION_SCHEMA_VERSION\<rparr>"

definition required_budgets :: "scope_budget list \<Rightarrow> admission_scope \<Rightarrow> bool" where
  "required_budgets budgets leaf \<longleftrightarrow>
     set (map sb_scope budgets) = {OwnerScope (owner_scope_of leaf), LeafScope leaf}"

definition policy_bindings :: "scope_budget list \<Rightarrow> admission_policy_binding list result" where
  "policy_bindings budgets =
     mapR (\<lambda>b. construct is_admission_policy_binding
       \<lparr>pb_scope = sb_scope b, pb_policy_revision = cl_admission_policy_revision (sb_limits b)\<rparr>) budgets"

definition relevant :: "admission_state \<Rightarrow> budget_scope \<Rightarrow> capacity_reservation list" where
  "relevant s scope = filter (\<lambda>c. applies scope (ar_scope (cr_request c))) (st_reservations s)"

definition usage :: "admission_state \<Rightarrow> scope_budget \<Rightarrow> capacity_usage_" where
  "usage s b =
     \<lparr>cu_active_deployments = cc_active_deployments (sb_census b)
        + sum_list (map active_slots (relevant s (sb_scope b))),
      cu_unresolved_create_outcomes = cc_unresolved_create_outcomes (sb_census b)
        + sum_list (map unresolved_slots (relevant s (sb_scope b))),
      cu_financial_exposure_uact = cc_financial_exposure_uact (sb_census b)
        + sum_list (map cr_financial_exposure (relevant s (sb_scope b)))\<rparr>"

definition reservation_operation_ids :: "admission_state \<Rightarrow> budget_scope \<Rightarrow> string list" where
  "reservation_operation_ids s scope =
     sort (map (\<lambda>c. ar_operation_id (cr_request c)) (relevant s scope))"

definition census_binding_matches :: "admission_state \<Rightarrow> scope_budget \<Rightarrow> bool result" where
  "census_binding_matches s b =
     (let ids = reservation_operation_ids s (sb_scope b) in
      if cc_excluded_reservation_count (sb_census b) \<noteq> int (length ids) then Inr False
      else bindR (canonical_reservation_population_digest ids) (\<lambda>d.
           Inr (cc_excluded_reservation_population_digest (sb_census b) = d)))"

definition capacity_usage :: "admission_state \<Rightarrow> budget_scope \<Rightarrow> capacity_usage_ result" where
  "capacity_usage s scope =
     (case find (\<lambda>b. sb_scope b = scope) (st_budgets s) of
        None \<Rightarrow> Inl ValueError
      | Some b \<Rightarrow> bindR (census_binding_matches s b) (\<lambda>ok.
          if \<not> ok then Inl ValueError else Inr (usage s b)))"

section \<open>Reserving\<close>

definition hold :: "admission_reason \<Rightarrow> budget_scope option \<Rightarrow> admission_result" where
  "hold reason scope =
     \<lparr>ad_decision = \<lparr>dc_disposition = ADMISSION_HOLD, dc_reason = reason, dc_failed_scope = scope,
        dc_projections = []\<rparr>, ad_proposal = None\<rparr>"

fun bind_check ::
    "admission_state \<Rightarrow> admission_request \<Rightarrow> scope_budget list \<Rightarrow> admission_result option result" where
  "bind_check s r [] = Inr None"
| "bind_check s r (b # bs) =
     bindR (census_binding_matches s b) (\<lambda>ok.
       if \<not> ok then Inr (Some (hold REASON_RESERVATION_CENSUS_MISMATCH (Some (sb_scope b))))
       else if cl_exposure_policy_revision (sb_limits b) \<noteq> xe_backend_policy_revision (ar_exposure r)
       then Inr (Some (hold REASON_EXPOSURE_POLICY_MISMATCH (Some (sb_scope b))))
       else bind_check s r bs)"

definition unhealthy :: "containment_census \<Rightarrow> admission_reason option" where
  "unhealthy c =
     (if cc_journal_status c \<noteq> CENSUS_VERIFIED then Some REASON_JOURNAL_UNHEALTHY
      else if cc_recovery_reader_status c \<noteq> CENSUS_VERIFIED
      then Some REASON_RECOVERY_READER_UNHEALTHY
      else if cc_chain_status c \<noteq> CENSUS_VERIFIED then Some REASON_CHAIN_CENSUS_UNHEALTHY
      else if cc_accounting_status c \<noteq> CENSUS_VERIFIED then Some REASON_ACCOUNTING_CENSUS_UNHEALTHY
      else None)"

definition projected_usage :: "admission_state \<Rightarrow> admission_request \<Rightarrow> scope_budget \<Rightarrow> capacity_usage_" where
  "projected_usage s r b =
     (let u = usage s b in
      \<lparr>cu_active_deployments = cu_active_deployments u + 1,
       cu_unresolved_create_outcomes = cu_unresolved_create_outcomes u + 1,
       cu_financial_exposure_uact = cu_financial_exposure_uact u + xe_amount_uact (ar_exposure r)\<rparr>)"

definition exceeded :: "containment_limits \<Rightarrow> capacity_usage_ \<Rightarrow> admission_reason option" where
  "exceeded l u =
     (if cl_max_active_deployments l < cu_active_deployments u then Some REASON_ACTIVE_DEPLOYMENT_LIMIT
      else if cl_max_unresolved_create_outcomes l < cu_unresolved_create_outcomes u
      then Some REASON_UNRESOLVED_OUTCOME_LIMIT
      else if cl_max_financial_exposure_uact l < cu_financial_exposure_uact u
      then Some REASON_FINANCIAL_EXPOSURE_LIMIT
      else None)"

definition admit_budget ::
    "admission_state \<Rightarrow> admission_request \<Rightarrow> int \<Rightarrow> scope_budget \<Rightarrow> admission_result + budget_projection" where
  "admit_budget s r now b =
     (case unhealthy (sb_census b) of
        Some reason \<Rightarrow> Inl (hold reason (Some (sb_scope b)))
      | None \<Rightarrow>
          if now < ar_requested_at r
             \<or> \<not> (cc_observed_at (sb_census b) \<le> now \<and> now \<le> cc_valid_until (sb_census b))
             \<or> cl_valid_until (sb_limits b) < now
          then Inl (hold REASON_CENSUS_NOT_CURRENT (Some (sb_scope b)))
          else let projected = projected_usage s r b in
            (case exceeded (sb_limits b) projected of
               Some reason \<Rightarrow> Inl (hold reason (Some (sb_scope b)))
             | None \<Rightarrow> Inr \<lparr>bp_scope = sb_scope b, bp_usage_after = projected\<rparr>))"

definition rebind_census :: "capacity_reservation list \<Rightarrow> scope_budget \<Rightarrow> scope_budget result" where
  "rebind_census reservations b =
     (let ids = sort (map (\<lambda>c. ar_operation_id (cr_request c))
           (filter (\<lambda>c. applies (sb_scope b) (ar_scope (cr_request c))) reservations)) in
      bindR (canonical_reservation_population_digest ids) (\<lambda>digest.
      bindR (construct is_containment_census
          ((sb_census b)\<lparr>cc_excluded_reservation_count := int (length ids),
             cc_excluded_reservation_population_digest := digest\<rparr>)) (\<lambda>census.
      construct is_scope_budget (b\<lparr>sb_census := census\<rparr>))))"

definition propose ::
    "admission_state \<Rightarrow> admission_request \<Rightarrow> scope_budget list \<Rightarrow> budget_projection list
     \<Rightarrow> admission_result result" where
  "propose s r budgets projections =
     bindR (construct is_capacity_reservation
         \<lparr>cr_request = r, cr_state = RES_RESERVED,
          cr_state_evidence_digest = ar_prepared_operation_digest r,
          cr_bound_deployment = None, cr_version = ADMISSION_SCHEMA_VERSION\<rparr>) (\<lambda>c.
     let reservations = st_reservations s @ [c] in
     bindR (mapR (\<lambda>b. if b \<in> set budgets then rebind_census reservations b else Inr b)
         (st_budgets s)) (\<lambda>updated.
     bindR (construct is_admission_state
         (s\<lparr>st_budgets := updated, st_reservations := reservations,
            st_revision := st_revision s + 1\<rparr>)) (\<lambda>s'.
     bindR (construct is_reservation_proposal
         \<lparr>rp_operation_id = ar_operation_id r, rp_expected_revision = st_revision s,
          rp_expected_state_digest = canonical_admission_state_digest s,
          rp_proposed_revision = st_revision s',
          rp_proposed_state_digest = canonical_admission_state_digest s',
          rp_proposed_state = s', rp_version = ADMISSION_SCHEMA_VERSION\<rparr>) (\<lambda>p.
     Inr \<lparr>ad_decision = \<lparr>dc_disposition = ADMISSION_PROPOSED, dc_reason = REASON_PROPOSED,
            dc_failed_scope = None, dc_projections = projections\<rparr>,
          ad_proposal = Some p\<rparr>))))"

definition reserve_capacity ::
    "admission_state \<Rightarrow> admission_request \<Rightarrow> int \<Rightarrow> int \<Rightarrow> admission_result result" where
  "reserve_capacity s r expected_revision now =
     bindR (raise_if (\<not> is_count expected_revision) ValueError) (\<lambda>_.
     bindR (raise_if (\<not> is_time now) ValueError) (\<lambda>_.
     let budgets = applicable_budgets s (ar_scope r) in
     if \<not> required_budgets budgets (ar_scope r)
     then Inr (hold REASON_MISSING_REQUIRED_BUDGET None)
     else bindR (bind_check s r budgets) (\<lambda>held.
       (case held of
          Some h \<Rightarrow> Inr h
        | None \<Rightarrow>
            (case reservation_of s (ar_operation_id r) of
               Some existing \<Rightarrow>
                 if cr_request existing = r
                 then Inr \<lparr>ad_decision = \<lparr>dc_disposition = ADMISSION_RECONCILE,
                        dc_reason = REASON_RECONCILE_EXISTING, dc_failed_scope = None,
                        dc_projections = []\<rparr>, ad_proposal = None\<rparr>
                 else Inr (hold REASON_OPERATION_CONFLICT None)
             | None \<Rightarrow>
                 if expected_revision \<noteq> st_revision s then Inr (hold REASON_STALE_REVISION None)
                 else if \<not> (xe_observed_at (ar_exposure r) \<le> now \<and> now \<le> xe_valid_until (ar_exposure r))
                 then Inr (hold REASON_EXPOSURE_EVIDENCE_NOT_CURRENT None)
                 else (case mapR (admit_budget s r now) budgets of
                         Inl h \<Rightarrow> Inr h
                       | Inr projections \<Rightarrow> propose s r budgets projections))))))"

section \<open>Confirming a reservation\<close>

definition all_bound :: "admission_state \<Rightarrow> scope_budget list \<Rightarrow> bool result" where
  "all_bound s budgets =
     foldr (\<lambda>b rest. bindR (census_binding_matches s b) (\<lambda>ok. if ok then rest else Inr False))
       budgets (Inr True)"

definition min_list1 :: "int \<Rightarrow> int list \<Rightarrow> int" where
  "min_list1 x xs = fold min xs x"

definition confirm_persisted_reservation ::
    "reservation_proposal \<Rightarrow> admission_state \<Rightarrow> admission_request \<Rightarrow> admission_state
     \<Rightarrow> persistence_confirmation \<Rightarrow> create_permit result" where
  "confirm_persisted_reservation p original r persisted cf =
     bindR (reserve_capacity original r (rp_expected_revision p) (cf_persisted_at cf)) (\<lambda>derived.
     bindR (raise_if (ad_proposal derived \<noteq> Some p) PersistenceConfirmationError) (\<lambda>_.
     bindR (raise_if (cf_operation_id cf \<noteq> rp_operation_id p
         \<or> cf_persisted_revision cf \<noteq> rp_proposed_revision p
         \<or> cf_persisted_state_digest cf \<noteq> rp_proposed_state_digest p
         \<or> persisted \<noteq> rp_proposed_state p
         \<or> canonical_admission_state_digest persisted \<noteq> cf_persisted_state_digest cf)
       PersistenceConfirmationError) (\<lambda>_.
     (case reservation_of persisted (rp_operation_id p) of
        None \<Rightarrow> Inl PersistenceConfirmationError
      | Some c \<Rightarrow>
          bindR (raise_if (cr_state c \<noteq> RES_RESERVED) PersistenceConfirmationError) (\<lambda>_.
          let budgets = applicable_budgets persisted (ar_scope (cr_request c)) in
          bindR (if required_budgets budgets (ar_scope (cr_request c))
                 then all_bound persisted budgets else Inr False) (\<lambda>complete.
          bindR (raise_if (\<not> complete) PersistenceConfirmationError) (\<lambda>_.
          bindR (raise_if (cf_persisted_at cf < ar_requested_at (cr_request c))
            PersistenceConfirmationError) (\<lambda>_.
          let broker = cf_authenticated_broker cf in
          bindR (raise_if (\<not> (ab_verified_at broker \<le> cf_persisted_at cf
              \<and> cf_persisted_at cf \<le> ab_valid_until broker)) PersistenceConfirmationError) (\<lambda>_.
          bindR (policy_bindings budgets) (\<lambda>bindings.
          construct is_create_permit
            \<lparr>pm_operation_id = rp_operation_id p,
             pm_prepared_operation_digest = ar_prepared_operation_digest (cr_request c),
             pm_state_revision = rp_proposed_revision p,
             pm_state_digest = rp_proposed_state_digest p,
             pm_broker_identity = ab_broker_identity broker,
             pm_presenter_identity = pp_subject (pc_producer (ar_prepared (cr_request c))),
             pm_audience = CREATE_PERMIT_AUDIENCE,
             pm_policy_bindings = bindings,
             pm_valid_until = min_list1 (ab_valid_until broker)
               (xe_valid_until (ar_exposure (cr_request c))
                # map (\<lambda>b. cl_valid_until (sb_limits b)) budgets
                @ map (\<lambda>b. cc_valid_until (sb_census b)) budgets),
             pm_persistence_evidence_digest = cf_evidence_digest cf,
             pm_issued_at = cf_persisted_at cf,
             pm_version = ADMISSION_SCHEMA_VERSION\<rparr>))))))))))"

section \<open>Redeeming a permit\<close>

definition replace_reservation ::
    "capacity_reservation \<Rightarrow> capacity_reservation \<Rightarrow> capacity_reservation list \<Rightarrow> capacity_reservation list" where
  "replace_reservation old new cs = map (\<lambda>c. if c = old then new else c) cs"

definition refuse_permit :: "bool \<Rightarrow> unit result" where
  "refuse_permit c = raise_if c PermitRedemptionError"

definition redeem_create_permit ::
    "admission_state \<Rightarrow> create_permit \<Rightarrow> permit_presentation \<Rightarrow> int \<Rightarrow> permit_redemption_proposal result" where
  "redeem_create_permit s permit pr expected_revision =
     bindR (raise_if (\<not> is_count expected_revision) ValueError) (\<lambda>_.
     bindR (refuse_permit (expected_revision \<noteq> st_revision s \<or> st_revision s < pm_state_revision permit)) (\<lambda>_.
     (case reservation_of s (pm_operation_id permit) of
        None \<Rightarrow> Inl PermitRedemptionError
      | Some c \<Rightarrow>
          bindR (refuse_permit (ar_prepared_operation_digest (cr_request c)
            \<noteq> pm_prepared_operation_digest permit)) (\<lambda>_.
          bindR (refuse_permit (cr_state c \<noteq> RES_RESERVED)) (\<lambda>_.
          let permit_digest = canonical_journal_digest (canon_create_permit permit) in
          bindR (policy_bindings (applicable_budgets s (ar_scope (cr_request c)))) (\<lambda>current.
          bindR (refuse_permit (pr_permit_digest pr \<noteq> permit_digest
              \<or> pr_presenter_identity pr \<noteq> pm_presenter_identity permit
              \<or> pr_audience pr \<noteq> pm_audience permit)) (\<lambda>_.
          bindR (refuse_permit (pr_revocation_status pr \<noteq> PERMIT_ACTIVE)) (\<lambda>_.
          bindR (refuse_permit (\<not> (pm_issued_at permit \<le> pr_presented_at pr
              \<and> pr_presented_at pr \<le> pm_valid_until permit))) (\<lambda>_.
          bindR (refuse_permit (pr_current_policy_bindings pr \<noteq> pm_policy_bindings permit
              \<or> current \<noteq> pm_policy_bindings permit)) (\<lambda>_.
          let presentation_digest = canonical_journal_digest (canon_permit_presentation pr) in
          bindR (construct is_capacity_reservation
              (c\<lparr>cr_state := RES_SUBMITTING, cr_state_evidence_digest := presentation_digest\<rparr>)) (\<lambda>updated.
          bindR (construct is_admission_state
              (s\<lparr>st_reservations := replace_reservation c updated (st_reservations s),
                 st_revision := st_revision s + 1\<rparr>)) (\<lambda>s'.
          construct is_permit_redemption_proposal
            \<lparr>rd_operation_id = pm_operation_id permit, rd_permit_digest = permit_digest,
             rd_presentation_digest = presentation_digest,
             rd_permit_issued_at = pm_issued_at permit,
             rd_expected_revision = st_revision s,
             rd_expected_state_digest = canonical_admission_state_digest s,
             rd_proposed_revision = st_revision s',
             rd_proposed_state_digest = canonical_admission_state_digest s',
             rd_proposed_state = s'\<rparr>))))))))))))"

definition refuse_confirmation :: "bool \<Rightarrow> unit result" where
  "refuse_confirmation c = raise_if c PersistenceConfirmationError"

definition confirm_redeemed_permit ::
    "permit_redemption_proposal \<Rightarrow> create_permit \<Rightarrow> permit_presentation \<Rightarrow> admission_state
     \<Rightarrow> admission_state \<Rightarrow> persistence_confirmation \<Rightarrow> create_submission_authorization result" where
  "confirm_redeemed_permit p permit pr pre persisted cf =
     bindR (redeem_create_permit pre permit pr (rd_expected_revision p)) (\<lambda>derived.
     bindR (refuse_confirmation (derived \<noteq> p)) (\<lambda>_.
     bindR (refuse_confirmation (cf_operation_id cf \<noteq> rd_operation_id p
         \<or> cf_persisted_revision cf \<noteq> rd_proposed_revision p
         \<or> cf_persisted_state_digest cf \<noteq> rd_proposed_state_digest p
         \<or> persisted \<noteq> rd_proposed_state p
         \<or> canonical_admission_state_digest persisted \<noteq> rd_proposed_state_digest p)) (\<lambda>_.
     (case reservation_of persisted (rd_operation_id p) of
        None \<Rightarrow> Inl PersistenceConfirmationError
      | Some c \<Rightarrow>
          bindR (refuse_confirmation (cr_state c \<noteq> RES_SUBMITTING
              \<or> cr_state_evidence_digest c \<noteq> rd_presentation_digest p)) (\<lambda>_.
          let budgets = applicable_budgets persisted (ar_scope (cr_request c)) in
          bindR (if required_budgets budgets (ar_scope (cr_request c))
                 then all_bound persisted budgets else Inr False) (\<lambda>complete.
          bindR (refuse_confirmation (\<not> complete)) (\<lambda>_.
          let broker = cf_authenticated_broker cf in
          bindR (refuse_confirmation (ab_broker_identity broker \<noteq> pm_broker_identity permit
              \<or> cf_persisted_at cf < pr_presented_at pr
              \<or> \<not> (ab_verified_at broker \<le> cf_persisted_at cf
                   \<and> cf_persisted_at cf \<le> ab_valid_until broker))) (\<lambda>_.
          bindR (refuse_confirmation (pm_valid_until permit < cf_persisted_at cf)) (\<lambda>_.
          Inr \<lparr>sa_operation_id = rd_operation_id p, sa_permit_digest = rd_permit_digest p,
               sa_state_revision = rd_proposed_revision p,
               sa_state_digest = rd_proposed_state_digest p,
               sa_broker_identity = ab_broker_identity broker,
               sa_presenter_identity = pm_presenter_identity permit,
               sa_audience = pm_audience permit, sa_policy_bindings = pm_policy_bindings permit,
               sa_valid_until = pm_valid_until permit,
               sa_redemption_evidence_digest = cf_evidence_digest cf,
               sa_issued_at = cf_persisted_at cf\<rparr>)))))))))"

section \<open>Releasing capacity\<close>

fun allowed_transitions :: "reservation_state \<Rightarrow> reservation_state list" where
  "allowed_transitions RES_RESERVED = []"
| "allowed_transitions RES_SUBMITTING =
     [RES_CREATE_OUTCOME_UNKNOWN, RES_NON_COMMIT_PROVEN, RES_COMMITTED]"
| "allowed_transitions RES_CREATE_OUTCOME_UNKNOWN = [RES_NON_COMMIT_PROVEN, RES_COMMITTED]"
| "allowed_transitions RES_COMMITTED = [RES_EXECUTION_CLOSED]"
| "allowed_transitions RES_EXECUTION_CLOSED = [RES_SETTLED]"
| "allowed_transitions RES_NON_COMMIT_PROVEN = []"
| "allowed_transitions RES_SETTLED = []"

definition refuse_transition :: "bool \<Rightarrow> unit result" where
  "refuse_transition c = raise_if c ReservationTransitionError"

definition outcome_target ::
    "capacity_reservation \<Rightarrow> create_outcome \<Rightarrow> (reservation_state \<times> bound_deployment option) result" where
  "outcome_target c out =
     (let p = ar_prepared (cr_request c) in
      bindR (refuse_transition (co_operation_id out \<noteq> pc_operation_id p)) (\<lambda>_.
      (case co_kind out of
         KIND_REJECTED_BEFORE_SEND \<Rightarrow>
           (case co_rejection out of
              None \<Rightarrow> Inl ReservationTransitionError
            | Some e \<Rightarrow>
                bindR (refuse_transition (re_backend e \<noteq> oc_backend (pc_owner_candidate p))) (\<lambda>_.
                Inr (RES_NON_COMMIT_PROVEN, None)))
       | KIND_FALLBACK_SAFE \<Rightarrow>
           (case co_non_commit out of
              None \<Rightarrow> Inl ReservationTransitionError
            | Some e \<Rightarrow>
                bindR (refuse_transition (nc_backend e \<noteq> oc_backend (pc_owner_candidate p)
                    \<or> nc_exact_owner e \<noteq> oc_owner (pc_owner_candidate p)
                    \<or> nc_group_population_digest e \<noteq> pc_group_population_digest p)) (\<lambda>_.
                Inr (RES_NON_COMMIT_PROVEN, None)))
       | KIND_UNKNOWN \<Rightarrow>
           (case co_uncertainty out of
              None \<Rightarrow> Inl ReservationTransitionError
            | Some _ \<Rightarrow> Inr (RES_CREATE_OUTCOME_UNKNOWN, None))
       | KIND_COMMITTED \<Rightarrow>
           (case co_deployment out of
              None \<Rightarrow> Inl ReservationTransitionError
            | Some d \<Rightarrow>
                bindR (refuse_transition (dk_owner (bd_subject d) \<noteq> oc_owner (pc_owner_candidate p)
                    \<or> bd_groups d \<noteq> pc_groups p
                    \<or> bd_group_population_digest d \<noteq> pc_group_population_digest p)) (\<lambda>_.
                Inr (RES_COMMITTED, Some d))))))"

datatype lifecycle_evidence =
    Outcome create_outcome
  | Closure execution_closure
  | Settlement settlement_evidence

fun evidence_operation_id :: "lifecycle_evidence \<Rightarrow> string" where
  "evidence_operation_id (Outcome out) = co_operation_id out"
| "evidence_operation_id (Closure e) = ec_operation_id e"
| "evidence_operation_id (Settlement s) = sv_operation_id s"

fun canon_lifecycle_evidence :: "lifecycle_evidence \<Rightarrow> json" where
  "canon_lifecycle_evidence (Outcome out) = canon_create_outcome out"
| "canon_lifecycle_evidence (Closure e) = canon_execution_closure e"
| "canon_lifecycle_evidence (Settlement s) = canon_settlement_evidence s"

fun is_lifecycle_evidence :: "lifecycle_evidence \<Rightarrow> bool" where
  "is_lifecycle_evidence (Outcome out) = is_create_outcome out"
| "is_lifecycle_evidence (Closure e) = is_execution_closure e"
| "is_lifecycle_evidence (Settlement s) = is_settlement_evidence s"

fun transition_target ::
    "capacity_reservation \<Rightarrow> lifecycle_evidence \<Rightarrow> (reservation_state \<times> bound_deployment option) result" where
  "transition_target c (Outcome out) = outcome_target c out"
| "transition_target c (Closure e) =
     (case cr_bound_deployment c of
        None \<Rightarrow> Inl ReservationTransitionError
      | Some d \<Rightarrow>
          bindR (refuse_transition (ec_subject e \<noteq> bd_subject d
              \<or> ec_group_population_digest e \<noteq> bd_group_population_digest d
              \<or> ec_chain_id e \<noteq> binding_chain_id (bd_binding_evidence d))) (\<lambda>_.
          Inr (RES_EXECUTION_CLOSED, cr_bound_deployment c)))"
| "transition_target c (Settlement s) =
     bindR (refuse_transition (sv_state s \<noteq> SETTLED)) (\<lambda>_.
     (case cr_bound_deployment c of
        None \<Rightarrow> Inl ReservationTransitionError
      | Some d \<Rightarrow>
          bindR (refuse_transition (sv_subject s \<noteq> bd_subject d)) (\<lambda>_.
          Inr (RES_SETTLED, cr_bound_deployment c))))"

definition transition_reservation ::
    "admission_state \<Rightarrow> lifecycle_evidence \<Rightarrow> int \<Rightarrow> admission_state result" where
  "transition_reservation s evidence expected_revision =
     bindR (raise_if (\<not> is_count expected_revision) ValueError) (\<lambda>_.
     (case reservation_of s (evidence_operation_id evidence) of
        None \<Rightarrow> Inl ReservationTransitionError
      | Some c \<Rightarrow>
          bindR (transition_target c evidence) (\<lambda>(target, deployment).
          let evidence_digest = canonical_journal_digest (canon_lifecycle_evidence evidence) in
          if cr_state c = target
          then (if cr_state_evidence_digest c = evidence_digest then Inr s
                else Inl ReservationTransitionError)
          else
            bindR (refuse_transition (expected_revision \<noteq> st_revision s)) (\<lambda>_.
            bindR (refuse_transition (target \<notin> set (allowed_transitions (cr_state c)))) (\<lambda>_.
            bindR (construct is_capacity_reservation
                (c\<lparr>cr_state := target, cr_state_evidence_digest := evidence_digest,
                   cr_bound_deployment := deployment\<rparr>)) (\<lambda>updated.
            construct is_admission_state
              (s\<lparr>st_reservations := replace_reservation c updated (st_reservations s),
                 st_revision := st_revision s + 1\<rparr>)))))))"

end
