(* ===== verification/AdmissionSample.thy ===== *)
theory AdmissionSample
  imports Admission JournalSample
begin

text \<open>
  One admission end to end: an owner budget and a leaf budget, a request of the sample
  operation, its persisted reservation, the permit, the redemption and the authorization.
  The subject of the producer is a parameter, because one property is about it.
\<close>

definition sample_prepared_by :: "string \<Rightarrow> prepared_create" where
  "sample_prepared_by subject =
     sample_prepared\<lparr>pc_producer := sample_producer\<lparr>pp_subject := subject\<rparr>\<rparr>"

definition sample_scope :: admission_scope where
  "sample_scope =
     \<lparr>as_chain_id = ''akashnet-2'', as_owner = sample_owner, as_producer_issuer = ''issuer'',
      as_repository_owner_id = ''9'', as_repository_id = ''7'', as_repository = ''org/app'',
      as_workload_class = ''ci-runner'', as_version = 1\<rparr>"

definition sample_exposure :: "string \<Rightarrow> create_exposure_evidence" where
  "sample_exposure subject =
     \<lparr>xe_chain_id = ''akashnet-2'', xe_operation_id = ''op1'',
      xe_prepared_operation_digest =
        canonical_journal_digest (canon_prepared_create (sample_prepared_by subject)),
      xe_request_digest = hex64, xe_sdl_digest = hex64, xe_backend = sample_backend,
      xe_backend_policy_revision = hex40, xe_amount_uact = 5, xe_source = ''node'',
      xe_evidence_digest = hex64, xe_observed_at = 100, xe_valid_until = 500, xe_version = 1\<rparr>"

definition sample_request :: "string \<Rightarrow> admission_request" where
  "sample_request subject =
     \<lparr>ar_prepared = sample_prepared_by subject, ar_scope = sample_scope,
      ar_exposure = sample_exposure subject, ar_requested_at = 110, ar_version = 1\<rparr>"

definition sample_limits :: containment_limits where
  "sample_limits =
     \<lparr>cl_max_active_deployments = 3, cl_max_unresolved_create_outcomes = 2,
      cl_max_financial_exposure_uact = 20, cl_exposure_policy_revision = hex40,
      cl_admission_policy_revision = hex40, cl_policy_reference = ''node'',
      cl_valid_until = 400, cl_version = 1\<rparr>"

definition ids_digest :: "string list \<Rightarrow> string" where
  "ids_digest ids = sha256_hexdigest (dumps (JArr (map JStr ids)))"

definition sample_census :: "string list \<Rightarrow> containment_census" where
  "sample_census ids =
     \<lparr>cc_active_deployments = 1, cc_unresolved_create_outcomes = 0, cc_financial_exposure_uact = 5,
      cc_excluded_reservation_count = int (length ids),
      cc_excluded_reservation_population_digest = ids_digest ids,
      cc_journal_status = CENSUS_VERIFIED, cc_recovery_reader_status = CENSUS_VERIFIED,
      cc_chain_status = CENSUS_VERIFIED, cc_accounting_status = CENSUS_VERIFIED,
      cc_observed_at = 100, cc_valid_until = 300, cc_evidence_digest = hex64, cc_version = 1\<rparr>"

definition sample_budgets :: "string list \<Rightarrow> scope_budget list" where
  "sample_budgets ids = map (\<lambda>sc. \<lparr>sb_scope = sc, sb_limits = sample_limits,
       sb_census = sample_census ids, sb_version = 1\<rparr>)
     [OwnerScope (owner_scope_of sample_scope), LeafScope sample_scope]"

definition sample_state0 :: admission_state where
  "sample_state0 = \<lparr>st_budgets = sample_budgets [], st_reservations = [], st_revision = 0, st_version = 1\<rparr>"

definition sample_reservation :: "string \<Rightarrow> capacity_reservation" where
  "sample_reservation subject =
     \<lparr>cr_request = sample_request subject, cr_state = RES_RESERVED,
      cr_state_evidence_digest = ar_prepared_operation_digest (sample_request subject),
      cr_bound_deployment = None, cr_version = 1\<rparr>"

definition sample_state1 :: "string \<Rightarrow> admission_state" where
  "sample_state1 subject =
     \<lparr>st_budgets = sample_budgets [''op1''], st_reservations = [sample_reservation subject],
      st_revision = 1, st_version = 1\<rparr>"

definition sample_proposal :: "string \<Rightarrow> reservation_proposal" where
  "sample_proposal subject =
     \<lparr>rp_operation_id = ''op1'', rp_expected_revision = 0,
      rp_expected_state_digest = canonical_admission_state_digest sample_state0,
      rp_proposed_revision = 1,
      rp_proposed_state_digest = canonical_admission_state_digest (sample_state1 subject),
      rp_proposed_state = sample_state1 subject, rp_version = 1\<rparr>"

definition sample_broker :: authenticated_broker_evidence where
  "sample_broker =
     \<lparr>ab_broker_identity = ''node'', ab_issuer = ''node'', ab_audience = ''node'', ab_subject = ''node'',
      ab_verifier_policy_revision = hex40, ab_authentication_evidence_digest = hex64,
      ab_verified_at = 100, ab_valid_until = 350\<rparr>"

definition sample_confirmation :: "int \<Rightarrow> admission_state \<Rightarrow> int \<Rightarrow> persistence_confirmation" where
  "sample_confirmation revision s now =
     \<lparr>cf_operation_id = ''op1'', cf_persisted_revision = revision,
      cf_persisted_state_digest = canonical_admission_state_digest s,
      cf_authenticated_broker = sample_broker, cf_evidence_digest = hex64,
      cf_persisted_at = now, cf_version = 1\<rparr>"

section \<open>Well-formedness\<close>

lemma sample_ascii [simp]:
  "is_nonempty_ascii 256 ''akashnet-2''" "is_nonempty_ascii 256 ''issuer''"
  "is_nonempty_ascii 256 ''org/app''" "is_nonempty_ascii 256 ''node''" "is_nonempty_ascii 128 ''op1''"
  "is_nonempty_ascii 256 ''runner''" "is_nonempty_ascii 256 CREATE_PERMIT_AUDIENCE"
  "nonempty ''runner''" "nonempty [CHR 0xE9]"
  by code_simp+

lemma sample_not_ascii [simp]: "\<not> is_nonempty_ascii 256 [CHR 0xE9]"
  by code_simp

lemmas sample_versions = is_admission_version_def ADMISSION_SCHEMA_VERSION_def is_version_def
  JOURNAL_SCHEMA_VERSION_def is_time_def MAX_UTC_UNIX_SECONDS_def is_count_def

lemma sample_prepared_by_ok:
  assumes "nonempty subject"
  shows "is_prepared_create (sample_prepared_by subject)"
proof -
  have "is_producer_provenance (sample_producer\<lparr>pp_subject := subject\<rparr>)"
    using sample_producer_ok assms by (simp add: is_producer_provenance_def)
  then show ?thesis
    using sample_prepared_ok by (simp add: is_prepared_create_def sample_prepared_by_def)
      (simp add: sample_prepared_def)
qed

lemma sample_prepared_by_fields [simp]:
  "pc_operation_id (sample_prepared_by subject) = ''op1''"
  "pc_owner_candidate (sample_prepared_by subject) = sample_candidate"
  "pc_request_digest (sample_prepared_by subject) = hex64" "pc_sdl_digest (sample_prepared_by subject) = hex64"
  "pc_prepared_at (sample_prepared_by subject) = 100" "pc_groups (sample_prepared_by subject) = sample_groups"
  "pp_subject (pc_producer (sample_prepared_by subject)) = subject"
  "pp_issuer (pc_producer (sample_prepared_by subject)) = ''issuer''"
  "pp_repository_owner_id (pc_producer (sample_prepared_by subject)) = ''9''"
  "pp_repository_id (pc_producer (sample_prepared_by subject)) = ''7''"
  "pp_repository (pc_producer (sample_prepared_by subject)) = ''org/app''"
  "li_workload_class (pc_lifecycle (sample_prepared_by subject)) = ''ci-runner''"
  by (simp_all add: sample_prepared_by_def sample_prepared_def sample_producer_def sample_lifecycle_def)

lemma sample_scope_ok [simp]: "is_admission_scope sample_scope"
proof -
  have "is_positive_text ''9''" "is_positive_text ''7''" "''ci-runner'' \<in> set CLASSES"
    by code_simp+
  then show ?thesis
    by (simp add: is_admission_scope_def sample_scope_def sample_versions sample_owner_canonical)
qed

lemma sample_request_ok:
  assumes "nonempty subject"
  shows "is_admission_request (sample_request subject)"
proof -
  have "expected_scope (sample_request subject) = sample_scope"
    by (simp add: expected_scope_def sample_request_def sample_exposure_def sample_scope_def Let_def
        ADMISSION_SCHEMA_VERSION_def)
  moreover have "is_create_exposure_evidence (sample_exposure subject)"
    by (simp add: is_create_exposure_evidence_def sample_exposure_def sample_versions)
  moreover have "as_chain_id sample_scope = ''akashnet-2''" by (simp add: sample_scope_def)
  ultimately show ?thesis
    using sample_prepared_by_ok[OF assms]
    by (simp add: is_admission_request_def)
      (simp add: sample_request_def sample_exposure_def sample_versions ar_operation_id_def
        ar_prepared_operation_digest_def)
qed

lemma sample_population [simp]:
  "canonical_reservation_population_digest [] = Inr (ids_digest [])"
  "canonical_reservation_population_digest [''op1''] = Inr (ids_digest [''op1''])"
  by (simp_all add: canonical_reservation_population_digest_def ids_digest_def)

lemma sample_owner_scope_ok [simp]: "is_owner_budget_scope (owner_scope_of sample_scope)"
  using sample_scope_ok
  by (simp add: is_owner_budget_scope_def owner_scope_of_def is_admission_scope_def
      is_admission_version_def)

lemma sample_budget_ok: "b \<in> set (sample_budgets ids) \<Longrightarrow> is_scope_budget b"
proof -
  have "is_containment_limits sample_limits"
    by (simp add: is_containment_limits_def sample_limits_def sample_versions)
  moreover have "is_containment_census (sample_census ids)"
    by (simp add: is_containment_census_def sample_census_def sample_versions ids_digest_def)
  ultimately show "b \<in> set (sample_budgets ids) \<Longrightarrow> is_scope_budget b"
    by (auto simp: sample_budgets_def is_scope_budget_def sample_versions)
qed

lemma sample_state0_ok: "is_admission_state sample_state0"
  using sample_budget_ok[of _ "[]"]
  by (simp add: is_admission_state_def sample_state0_def sample_versions list_all_iff)
    (simp add: sample_budgets_def)

lemma sample_reservation_ok:
  "nonempty subject \<Longrightarrow> is_capacity_reservation (sample_reservation subject)"
  by (simp add: is_capacity_reservation_def sample_reservation_def sample_request_ok sample_versions
      ar_prepared_operation_digest_def)

lemma sample_state1_ok:
  "nonempty subject \<Longrightarrow> is_admission_state (sample_state1 subject)"
  using sample_budget_ok[of _ "[''op1'']"]
  by (simp add: is_admission_state_def sample_state1_def sample_versions list_all_iff sample_reservation_ok)
    (simp add: sample_budgets_def)

lemma sample_op [simp]: "ar_operation_id (sample_request subject) = ''op1''"
  "ar_scope (sample_request subject) = sample_scope"
  by (simp_all add: ar_operation_id_def sample_request_def)

lemma owner_scope_fields [simp]:
  "os_chain_id (owner_scope_of leaf) = as_chain_id leaf" "os_owner (owner_scope_of leaf) = as_owner leaf"
  by (simp_all add: owner_scope_of_def)

lemma sample_applicable [simp]:
  "applicable_budgets sample_state0 sample_scope = sample_budgets []"
  "applicable_budgets (sample_state1 subject) sample_scope = sample_budgets [''op1'']"
  by (simp_all add: applicable_budgets_def sample_state0_def sample_state1_def sample_budgets_def)

lemma sample_required [simp]: "required_budgets (sample_budgets ids) sample_scope"
  by (simp add: required_budgets_def sample_budgets_def)

lemma sample_relevant:
  "b \<in> set (sample_budgets ids) \<Longrightarrow> relevant sample_state0 (sb_scope b) = []"
  "b \<in> set (sample_budgets ids) \<Longrightarrow> relevant (sample_state1 subject) (sb_scope b) = [sample_reservation subject]"
  by (auto simp: relevant_def sample_state0_def sample_state1_def sample_budgets_def sample_reservation_def)

lemma sample_bound_census:
  assumes "b \<in> set (sample_budgets ids)"
  shows "ids = [] \<Longrightarrow> census_binding_matches sample_state0 b = Inr True"
    and "ids = [''op1''] \<Longrightarrow> census_binding_matches (sample_state1 subject) b = Inr True"
proof -
  have "sb_census b = sample_census ids" using assms by (auto simp: sample_budgets_def)
  then show "ids = [] \<Longrightarrow> census_binding_matches sample_state0 b = Inr True"
    "ids = [''op1''] \<Longrightarrow> census_binding_matches (sample_state1 subject) b = Inr True"
    using sample_relevant[OF assms]
    by (simp_all add: census_binding_matches_def reservation_operation_ids_def sample_reservation_def
        sample_census_def)
qed

lemma sample_usage:
  "b \<in> set (sample_budgets ids) \<Longrightarrow> usage sample_state0 b
   = \<lparr>cu_active_deployments = 1, cu_unresolved_create_outcomes = 0, cu_financial_exposure_uact = 5\<rparr>"
  by (auto simp: usage_def sample_relevant sample_budgets_def sample_census_def)

section \<open>The flow\<close>

lemma sample_reserve:
  assumes "nonempty subject" and "now \<in> {130, 140}"
  shows "\<exists>res. reserve_capacity sample_state0 (sample_request subject) 0 now = Inr res
     \<and> ad_proposal res = Some (sample_proposal subject)"
proof -
  let ?r = "sample_request subject"
  let ?bs = "sample_budgets []"
  have bc: "bind_check sample_state0 ?r ?bs = Inr None"
  proof -
    have "bind_check sample_state0 ?r bs = Inr None"
      if "list_all (\<lambda>b. census_binding_matches sample_state0 b = Inr True \<and> sb_limits b = sample_limits) bs" for bs
      using that
      by (induction bs) (simp_all add: sample_limits_def sample_request_def sample_exposure_def)
    moreover have "list_all (\<lambda>b. census_binding_matches sample_state0 b = Inr True \<and> sb_limits b = sample_limits) ?bs"
      using sample_bound_census(1)[OF _ refl] by (auto simp: list_all_iff sample_budgets_def)
    ultimately show ?thesis by blast
  qed
  define proj where "proj = map (\<lambda>b. \<lparr>bp_scope = sb_scope b, bp_usage_after = projected_usage sample_state0 ?r b\<rparr>) ?bs"
  have ad: "mapR (admit_budget sample_state0 ?r now) ?bs = Inr proj"
    unfolding proj_def
  proof (rule mapR_all_Inr)
    fix b assume b: "b \<in> set ?bs"
    then have f: "sb_limits b = sample_limits" "sb_census b = sample_census []" by (auto simp: sample_budgets_def)
    show "admit_budget sample_state0 ?r now b
        = Inr \<lparr>bp_scope = sb_scope b, bp_usage_after = projected_usage sample_state0 ?r b\<rparr>"
      using assms(2) sample_usage[OF b]
      by (auto simp: admit_budget_def f unhealthy_def sample_census_def sample_limits_def
          sample_request_def exceeded_def projected_usage_def sample_exposure_def Let_def)
  qed
  have reb: "mapR (\<lambda>b. if b \<in> set ?bs then rebind_census [sample_reservation subject] b else Inr b) ?bs
      = Inr (sample_budgets [''op1''])"
  proof -
    have ok: "is_scope_budget \<lparr>sb_scope = sc, sb_limits = sample_limits,
         sb_census = sample_census [''op1''], sb_version = 1\<rparr>"
      if "sc \<in> {OwnerScope (owner_scope_of sample_scope), LeafScope sample_scope}" for sc
      using that by (intro sample_budget_ok[of _ "[''op1'']"]) (auto simp: sample_budgets_def)
    then have "is_containment_census (sample_census [''op1''])"
      by (fastforce simp: is_scope_budget_def)
    moreover have "(sample_census [])\<lparr>cc_excluded_reservation_count := 1,
        cc_excluded_reservation_population_digest := ids_digest [''op1'']\<rparr> = sample_census [''op1'']"
      by (simp add: sample_census_def)
    ultimately show ?thesis
      using ok by (simp add: sample_budgets_def rebind_census_def sample_reservation_def construct_def)
  qed
  have c: "\<lparr>cr_request = ?r, cr_state = RES_RESERVED, cr_state_evidence_digest = ar_prepared_operation_digest ?r,
      cr_bound_deployment = None, cr_version = ADMISSION_SCHEMA_VERSION\<rparr> = sample_reservation subject"
    by (simp add: sample_reservation_def ADMISSION_SCHEMA_VERSION_def)
  have s1: "sample_state0\<lparr>st_budgets := sample_budgets [''op1''], st_reservations := [sample_reservation subject],
      st_revision := 1\<rparr> = sample_state1 subject"
    by (simp add: sample_state0_def sample_state1_def)
  have p: "is_reservation_proposal (sample_proposal subject)"
    by (simp add: is_reservation_proposal_def sample_proposal_def canonical_admission_state_digest_def
        sample_versions sample_state1_def)
  have fields: "st_budgets sample_state0 = ?bs" "st_reservations sample_state0 = []" "st_revision sample_state0 = 0"
    "st_revision (sample_state1 subject) = 1"
    by (simp_all add: sample_state0_def sample_state1_def)
  have pr: "\<lparr>rp_operation_id = ''op1'', rp_expected_revision = 0,
      rp_expected_state_digest = canonical_admission_state_digest sample_state0,
      rp_proposed_revision = st_revision (sample_state1 subject),
      rp_proposed_state_digest = canonical_admission_state_digest (sample_state1 subject),
      rp_proposed_state = sample_state1 subject, rp_version = ADMISSION_SCHEMA_VERSION\<rparr> = sample_proposal subject"
    by (simp add: sample_proposal_def fields ADMISSION_SCHEMA_VERSION_def)
  have prop1: "propose sample_state0 ?r ?bs proj
      = Inr \<lparr>ad_decision = \<lparr>dc_disposition = ADMISSION_PROPOSED, dc_reason = REASON_PROPOSED,
            dc_failed_scope = None, dc_projections = proj\<rparr>, ad_proposal = Some (sample_proposal subject)\<rparr>"
    unfolding propose_def c
    using reb sample_reservation_ok[OF assms(1)] sample_state1_ok[OF assms(1)] p
    by (simp add: construct_def fields(1-3) s1 pr Let_def)
  have "is_time now" "is_count 0" using assms(2) by (auto simp: sample_versions)
  moreover have "xe_observed_at (ar_exposure ?r) \<le> now" "now \<le> xe_valid_until (ar_exposure ?r)"
    using assms(2) by (auto simp: sample_request_def sample_exposure_def)
  ultimately show ?thesis
    using prop1 bc ad by (simp add: reserve_capacity_def Let_def reservation_of_def fields)
qed

definition sample_bindings :: "admission_policy_binding list" where
  "sample_bindings = map (\<lambda>sc. \<lparr>pb_scope = sc, pb_policy_revision = hex40\<rparr>)
     [OwnerScope (owner_scope_of sample_scope), LeafScope sample_scope]"

definition sample_permit :: create_permit where
  "sample_permit =
     \<lparr>pm_operation_id = ''op1'',
      pm_prepared_operation_digest = ar_prepared_operation_digest (sample_request ''runner''),
      pm_state_revision = 1,
      pm_state_digest = canonical_admission_state_digest (sample_state1 ''runner''),
      pm_broker_identity = ''node'', pm_presenter_identity = ''runner'',
      pm_audience = CREATE_PERMIT_AUDIENCE, pm_policy_bindings = sample_bindings,
      pm_valid_until = 300, pm_persistence_evidence_digest = hex64, pm_issued_at = 130, pm_version = 1\<rparr>"

definition sample_presentation :: permit_presentation where
  "sample_presentation =
     \<lparr>pr_permit_digest = canonical_journal_digest (canon_create_permit sample_permit),
      pr_presenter_identity = ''runner'', pr_audience = CREATE_PERMIT_AUDIENCE,
      pr_current_policy_bindings = sample_bindings, pr_revocation_status = PERMIT_ACTIVE,
      pr_revocation_evidence_digest = hex64, pr_presented_at = 150\<rparr>"

definition sample_submitting :: capacity_reservation where
  "sample_submitting = (sample_reservation ''runner'')\<lparr>cr_state := RES_SUBMITTING,
     cr_state_evidence_digest := canonical_journal_digest (canon_permit_presentation sample_presentation)\<rparr>"

definition sample_state2 :: admission_state where
  "sample_state2 = (sample_state1 ''runner'')\<lparr>st_reservations := [sample_submitting], st_revision := 2\<rparr>"

definition sample_redemption :: permit_redemption_proposal where
  "sample_redemption =
     \<lparr>rd_operation_id = ''op1'',
      rd_permit_digest = canonical_journal_digest (canon_create_permit sample_permit),
      rd_presentation_digest = canonical_journal_digest (canon_permit_presentation sample_presentation),
      rd_permit_issued_at = 130, rd_expected_revision = 1,
      rd_expected_state_digest = canonical_admission_state_digest (sample_state1 ''runner''),
      rd_proposed_revision = 2, rd_proposed_state_digest = canonical_admission_state_digest sample_state2,
      rd_proposed_state = sample_state2\<rparr>"

lemma sample_policy_bindings: "policy_bindings (sample_budgets ids) = Inr sample_bindings"
  by (simp add: policy_bindings_def sample_budgets_def sample_bindings_def construct_def
      is_admission_policy_binding_def sample_limits_def)

lemma sample_all_bound:
  "all_bound (sample_state1 subject) (sample_budgets [''op1'']) = Inr True"
  "all_bound sample_state2 (sample_budgets [''op1'']) = Inr True"
proof -
  have "relevant sample_state2 sc = map (\<lambda>_. sample_submitting) (relevant (sample_state1 ''runner'') sc)" for sc
    by (simp add: relevant_def sample_state2_def sample_submitting_def sample_state1_def)
  then have "reservation_operation_ids sample_state2 sc = reservation_operation_ids (sample_state1 ''runner'') sc" for sc
    by (auto simp: reservation_operation_ids_def relevant_def sample_submitting_def sample_state1_def)
  then have "census_binding_matches sample_state2 b = census_binding_matches (sample_state1 ''runner'') b" for b
    by (simp add: census_binding_matches_def)
  then show "all_bound (sample_state1 subject) (sample_budgets [''op1'']) = Inr True"
    "all_bound sample_state2 (sample_budgets [''op1'']) = Inr True"
    using sample_bound_census(2)[of _ "[''op1'']" subject] sample_bound_census(2)[of _ "[''op1'']" "''runner''"]
    by (simp_all add: all_bound_def sample_budgets_def)
qed

lemma sample_permit_ok: "is_create_permit sample_permit"
proof -
  have "list_all is_admission_policy_binding sample_bindings"
    by (simp add: sample_bindings_def is_admission_policy_binding_def)
  then show ?thesis
    by (simp add: is_create_permit_def sample_permit_def sample_versions ar_prepared_operation_digest_def
        canonical_admission_state_digest_def) (simp add: sample_bindings_def)
qed

lemma sample_confirm:
  "confirm_persisted_reservation (sample_proposal ''runner'') sample_state0 (sample_request ''runner'')
     (sample_state1 ''runner'') (sample_confirmation 1 (sample_state1 ''runner'') 130) = Inr sample_permit"
proof -
  obtain res where res: "reserve_capacity sample_state0 (sample_request ''runner'') 0 130 = Inr res"
    "ad_proposal res = Some (sample_proposal ''runner'')"
    using sample_reserve[of "''runner''" 130] by auto
  have find1: "reservation_of (sample_state1 ''runner'') ''op1'' = Some (sample_reservation ''runner'')"
    by (simp add: reservation_of_def sample_state1_def sample_reservation_def)
  have fields: "cr_request (sample_reservation ''runner'') = sample_request ''runner''"
    "cr_state (sample_reservation ''runner'') = RES_RESERVED"
    "rp_expected_revision (sample_proposal ''runner'') = 0" "rp_operation_id (sample_proposal ''runner'') = ''op1''"
    "rp_proposed_revision (sample_proposal ''runner'') = 1"
    "rp_proposed_state (sample_proposal ''runner'') = sample_state1 ''runner''"
    "rp_proposed_state_digest (sample_proposal ''runner'') = canonical_admission_state_digest (sample_state1 ''runner'')"
    "pp_subject (pc_producer (ar_prepared (sample_request ''runner''))) = ''runner''"
    "ar_requested_at (sample_request ''runner'') = 110" "xe_valid_until (ar_exposure (sample_request ''runner'')) = 500"
    by (simp_all add: sample_reservation_def sample_proposal_def sample_request_def sample_exposure_def)
  have cf: "cf_persisted_at (sample_confirmation n s t) = t" "cf_operation_id (sample_confirmation n s t) = ''op1''"
    "cf_persisted_revision (sample_confirmation n s t) = n"
    "cf_persisted_state_digest (sample_confirmation n s t) = canonical_admission_state_digest s"
    "cf_authenticated_broker (sample_confirmation n s t) = sample_broker"
    "cf_evidence_digest (sample_confirmation n s t) = hex64" for n s t
    by (simp_all add: sample_confirmation_def)
  have br: "ab_verified_at sample_broker = 100" "ab_valid_until sample_broker = 350"
    "ab_broker_identity sample_broker = ''node''" by (simp_all add: sample_broker_def)
  have valid: "min_list1 350 (500 # map (\<lambda>b. cl_valid_until (sb_limits b)) (sample_budgets [''op1''])
      @ map (\<lambda>b. cc_valid_until (sb_census b)) (sample_budgets [''op1''])) = 300"
    by (simp add: min_list1_def sample_budgets_def sample_limits_def sample_census_def)
  have pm: "\<lparr>pm_operation_id = ''op1'',
      pm_prepared_operation_digest = ar_prepared_operation_digest (sample_request ''runner''),
      pm_state_revision = 1, pm_state_digest = canonical_admission_state_digest (sample_state1 ''runner''),
      pm_broker_identity = ''node'', pm_presenter_identity = ''runner'',
      pm_audience = CREATE_PERMIT_AUDIENCE, pm_policy_bindings = sample_bindings,
      pm_valid_until = 300, pm_persistence_evidence_digest = hex64, pm_issued_at = 130,
      pm_version = ADMISSION_SCHEMA_VERSION\<rparr> = sample_permit"
    by (simp add: sample_permit_def ADMISSION_SCHEMA_VERSION_def)
  show ?thesis
    by (simp add: confirm_persisted_reservation_def fields cf res Let_def find1 sample_all_bound br
        sample_policy_bindings valid[simplified] pm construct_def sample_permit_ok)
qed

lemma sample_redeem:
  "redeem_create_permit (sample_state1 ''runner'') sample_permit sample_presentation 1 = Inr sample_redemption"
proof -
  have find1: "reservation_of (sample_state1 ''runner'') ''op1'' = Some (sample_reservation ''runner'')"
    by (simp add: reservation_of_def sample_state1_def sample_reservation_def)
  have fields: "cr_request (sample_reservation ''runner'') = sample_request ''runner''"
    "cr_state (sample_reservation ''runner'') = RES_RESERVED" "st_revision (sample_state1 ''runner'') = 1"
    "st_reservations (sample_state1 ''runner'') = [sample_reservation ''runner'']"
    by (simp_all add: sample_reservation_def sample_state1_def)
  have pm: "pm_operation_id sample_permit = ''op1''" "pm_state_revision sample_permit = 1"
    "pm_prepared_operation_digest sample_permit = ar_prepared_operation_digest (sample_request ''runner'')"
    "pm_presenter_identity sample_permit = ''runner''" "pm_audience sample_permit = CREATE_PERMIT_AUDIENCE"
    "pm_policy_bindings sample_permit = sample_bindings" "pm_issued_at sample_permit = 130"
    "pm_valid_until sample_permit = 300"
    by (simp_all add: sample_permit_def)
  have pr: "pr_permit_digest sample_presentation = canonical_journal_digest (canon_create_permit sample_permit)"
    "pr_presenter_identity sample_presentation = ''runner''" "pr_audience sample_presentation = CREATE_PERMIT_AUDIENCE"
    "pr_current_policy_bindings sample_presentation = sample_bindings"
    "pr_revocation_status sample_presentation = PERMIT_ACTIVE" "pr_presented_at sample_presentation = 150"
    by (simp_all add: sample_presentation_def)
  have sub: "is_capacity_reservation sample_submitting"
    using sample_reservation_ok[of "''runner''"]
    by (simp add: is_capacity_reservation_def sample_submitting_def) (simp add: sample_reservation_def)
  have s2: "is_admission_state sample_state2"
    using sample_state1_ok[of "''runner''"] sub
    by (simp add: is_admission_state_def sample_state2_def sample_versions)
  have new: "(sample_reservation ''runner'')\<lparr>cr_state := RES_SUBMITTING, cr_state_evidence_digest :=
      canonical_journal_digest (canon_permit_presentation sample_presentation)\<rparr> = sample_submitting"
    by (simp add: sample_submitting_def)
  have state: "(sample_state1 ''runner'')\<lparr>st_reservations := [sample_submitting], st_revision := 2\<rparr> = sample_state2"
    "st_revision sample_state2 = 2" by (simp_all add: sample_state2_def)
  have ok: "is_permit_redemption_proposal sample_redemption"
    by (simp add: is_permit_redemption_proposal_def sample_redemption_def sample_versions
        canonical_admission_state_digest_def state(2))
  show ?thesis
    unfolding redeem_create_permit_def pm pr Let_def
    using ok
    by (simp add: find1 fields pr pm sample_policy_bindings refuse_permit_def new construct_def sub
        replace_reservation_def state s2 sample_versions sample_redemption_def)
qed

definition sample_authorization :: create_submission_authorization where
  "sample_authorization =
     \<lparr>sa_operation_id = ''op1'',
      sa_permit_digest = canonical_journal_digest (canon_create_permit sample_permit),
      sa_state_revision = 2, sa_state_digest = canonical_admission_state_digest sample_state2,
      sa_broker_identity = ''node'', sa_presenter_identity = ''runner'',
      sa_audience = CREATE_PERMIT_AUDIENCE, sa_policy_bindings = sample_bindings,
      sa_valid_until = 300, sa_redemption_evidence_digest = hex64, sa_issued_at = 160\<rparr>"

lemma sample_authorize:
  "confirm_redeemed_permit sample_redemption sample_permit sample_presentation (sample_state1 ''runner'')
     sample_state2 (sample_confirmation 2 sample_state2 160) = Inr sample_authorization"
proof -
  have find2: "reservation_of sample_state2 ''op1'' = Some sample_submitting"
    by (simp add: reservation_of_def sample_state2_def sample_submitting_def sample_reservation_def)
  have sub: "cr_state sample_submitting = RES_SUBMITTING" "cr_request sample_submitting = sample_request ''runner''"
    "cr_state_evidence_digest sample_submitting
     = canonical_journal_digest (canon_permit_presentation sample_presentation)"
    by (simp_all add: sample_submitting_def sample_reservation_def)
  have budgets: "applicable_budgets sample_state2 sample_scope = sample_budgets [''op1'']"
    using sample_applicable(2)[of "''runner''"] by (simp add: applicable_budgets_def sample_state2_def)
  have rd: "rd_expected_revision sample_redemption = 1" "rd_operation_id sample_redemption = ''op1''"
    "rd_proposed_revision sample_redemption = 2" "rd_proposed_state sample_redemption = sample_state2"
    "rd_proposed_state_digest sample_redemption = canonical_admission_state_digest sample_state2"
    "rd_presentation_digest sample_redemption
     = canonical_journal_digest (canon_permit_presentation sample_presentation)"
    "rd_permit_digest sample_redemption = canonical_journal_digest (canon_create_permit sample_permit)"
    by (simp_all add: sample_redemption_def)
  have pm: "pm_broker_identity sample_permit = ''node''" "pm_valid_until sample_permit = 300"
    "pm_presenter_identity sample_permit = ''runner''" "pm_audience sample_permit = CREATE_PERMIT_AUDIENCE"
    "pm_policy_bindings sample_permit = sample_bindings" "pr_presented_at sample_presentation = 150"
    by (simp_all add: sample_permit_def sample_presentation_def)
  show ?thesis
    by (simp add: confirm_redeemed_permit_def rd sample_redeem Let_def find2 sub budgets
        sample_all_bound refuse_confirmation_def pm sample_authorization_def)
      (simp add: sample_confirmation_def sample_broker_def)
qed

end
