(* ===== verification/AdmissionProperties.thy ===== *)
theory AdmissionProperties
  imports AdmissionSample
begin

text \<open>
  The guarantees of admission: a proposal fits every applicable budget, the limits are an
  invariant of every sequence of operations, a permit is consumed once, and an
  authorization to submit rests on a current, unrevoked permit for exactly the reserved
  operation. The steps of the broker are the relation \<open>admission_step\<close>.
\<close>

section \<open>Reservations of a state\<close>

lemma construct_Inr [simp]: "construct ok x = Inr y \<longleftrightarrow> ok x \<and> y = x"
  by (auto simp: construct_def)

lemma construct_Inl: "construct ok x = Inl e \<longleftrightarrow> \<not> ok x \<and> e = ValueError"
  by (auto simp: construct_def)

lemma reservation_of_Some:
  "reservation_of s op = Some c \<Longrightarrow> c \<in> set (st_reservations s) \<and> ar_operation_id (cr_request c) = op"
  by (auto simp: reservation_of_def find_Some_iff)

lemma reservation_of_valid:
  "is_admission_state s \<Longrightarrow> reservation_of s op = Some c \<Longrightarrow> is_capacity_reservation c"
  by (auto simp: is_admission_state_def list_all_iff dest: reservation_of_Some)

lemma amount_nonneg: "is_capacity_reservation c \<Longrightarrow> 0 \<le> xe_amount_uact (ar_exposure (cr_request c))"
  by (simp add: is_capacity_reservation_def is_admission_request_def is_create_exposure_evidence_def
      is_count_def)

definition within_limits :: "containment_limits \<Rightarrow> capacity_usage_ \<Rightarrow> bool" where
  "within_limits l u \<longleftrightarrow>
     cu_active_deployments u \<le> cl_max_active_deployments l
     \<and> cu_unresolved_create_outcomes u \<le> cl_max_unresolved_create_outcomes l
     \<and> cu_financial_exposure_uact u \<le> cl_max_financial_exposure_uact l"

lemma exceeded_None: "exceeded l u = None \<longleftrightarrow> within_limits l u"
  by (auto simp: exceeded_def within_limits_def)

definition contained :: "admission_state \<Rightarrow> bool" where
  "contained s \<longleftrightarrow> (\<forall>b \<in> set (st_budgets s).
     within_limits (sb_limits b) (usage s b) \<and> census_binding_matches s b = Inr True)"

section \<open>Replacing one reservation\<close>

lemma replace_reservation_relevant:
  assumes "cr_request new = cr_request old"
    and "st_reservations s' = replace_reservation old new (st_reservations s)"
  shows "relevant s' scope = replace_reservation old new (relevant s scope)"
  using assms by (auto simp: relevant_def replace_reservation_def filter_map o_def intro!: arg_cong[of _ _ "map _"] filter_cong)

lemma replace_reservation_ids:
  assumes "cr_request new = cr_request old"
  shows "map (\<lambda>c. f (cr_request c)) (replace_reservation old new cs) = map (\<lambda>c. f (cr_request c)) cs"
  using assms by (auto simp: replace_reservation_def)

lemma replace_reservation_sum:
  assumes "f new \<le> (f old :: int)"
  shows "sum_list (map f (replace_reservation old new cs)) \<le> sum_list (map f cs)"
  using assms unfolding replace_reservation_def by (induction cs) auto

definition releases :: "capacity_reservation \<Rightarrow> capacity_reservation \<Rightarrow> bool" where
  "releases old new \<longleftrightarrow> cr_request new = cr_request old
     \<and> active_slots new \<le> active_slots old \<and> unresolved_slots new \<le> unresolved_slots old
     \<and> cr_financial_exposure new \<le> cr_financial_exposure old"

lemma releases_contained:
  assumes "releases old new" and "contained s"
    and "st_budgets s' = st_budgets s"
    and r: "st_reservations s' = replace_reservation old new (st_reservations s)"
  shows "contained s'"
proof -
  have req: "cr_request new = cr_request old" using assms(1) by (simp add: releases_def)
  note rel = replace_reservation_relevant[OF req r]
  have "within_limits (sb_limits b) (usage s' b)" if "within_limits (sb_limits b) (usage s b)" for b
    using that assms(1)
      replace_reservation_sum[of active_slots new old "relevant s (sb_scope b)"]
      replace_reservation_sum[of unresolved_slots new old "relevant s (sb_scope b)"]
      replace_reservation_sum[of cr_financial_exposure new old "relevant s (sb_scope b)"]
    by (simp add: within_limits_def usage_def rel releases_def)
  moreover have "census_binding_matches s' b = census_binding_matches s b" for b
    using replace_reservation_ids[OF req, of ar_operation_id]
    by (simp add: census_binding_matches_def reservation_operation_ids_def rel)
  ultimately show ?thesis using assms(2,3) by (simp add: contained_def)
qed

lemma replace_reservation_find:
  assumes "cr_request new = cr_request old"
    and "st_reservations s' = replace_reservation old new (st_reservations s)"
  shows "reservation_of s' op = map_option (\<lambda>c. if c = old then new else c) (reservation_of s op)"
proof -
  have "find P (replace_reservation old new cs) = map_option (\<lambda>c. if c = old then new else c) (find P cs)"
    if "\<And>c. P c = Q (cr_request c)" for P Q cs
    using that assms(1) by (induction cs) (auto simp: replace_reservation_def)
  then show ?thesis using assms(2) by (simp add: reservation_of_def)
qed

section \<open>What a redemption and a release change\<close>

lemma redeem_effect:
  assumes "redeem_create_permit s permit pr ver = Inr p"
  obtains c new where "reservation_of s (pm_operation_id permit) = Some c" "cr_state c = RES_RESERVED"
    "ar_prepared_operation_digest (cr_request c) = pm_prepared_operation_digest permit"
    "new = c\<lparr>cr_state := RES_SUBMITTING, cr_state_evidence_digest := rd_presentation_digest p\<rparr>"
    "rd_proposed_state p = s\<lparr>st_reservations := replace_reservation c new (st_reservations s),
       st_revision := st_revision s + 1\<rparr>"
    "is_admission_state (rd_proposed_state p)" "ver = st_revision s"
    "rd_operation_id p = pm_operation_id permit"
    "pr_presenter_identity pr = pm_presenter_identity permit" "pr_audience pr = pm_audience permit"
    "pr_revocation_status pr = PERMIT_ACTIVE"
    "pr_permit_digest pr = canonical_journal_digest (canon_create_permit permit)"
    "pm_issued_at permit \<le> pr_presented_at pr" "pr_presented_at pr \<le> pm_valid_until permit"
    "policy_bindings (applicable_budgets s (ar_scope (cr_request c))) = Inr (pm_policy_bindings permit)"
    "pr_current_policy_bindings pr = pm_policy_bindings permit"
proof (cases "reservation_of s (pm_operation_id permit)")
  case None
  then show ?thesis using assms by (simp add: redeem_create_permit_def Let_def)
next
  case (Some c)
  show ?thesis
    using assms by (intro that[OF Some _ _ refl]) (auto simp: redeem_create_permit_def Let_def Some refuse_permit_def)
qed

lemma outcome_target_not_reserved:
  "outcome_target c out = Inr (t, d) \<Longrightarrow> t \<noteq> RES_RESERVED"
  by (auto simp: outcome_target_def Let_def refuse_transition_def split: create_outcome_kind.splits option.splits)

lemma transition_effect:
  assumes "transition_reservation s ev ver = Inr s'"
  obtains (replay) "s' = s"
  | (advance) c t d new where "reservation_of s (evidence_operation_id ev) = Some c"
    "transition_target c ev = Inr (t, d)" "t \<in> set (allowed_transitions (cr_state c))"
    "new = c\<lparr>cr_state := t, cr_state_evidence_digest := canonical_journal_digest (canon_lifecycle_evidence ev),
       cr_bound_deployment := d\<rparr>" "is_capacity_reservation new"
    "s' = s\<lparr>st_reservations := replace_reservation c new (st_reservations s),
       st_revision := st_revision s + 1\<rparr>" "is_admission_state s'" "ver = st_revision s"
proof (cases "reservation_of s (evidence_operation_id ev)")
  case None
  then show ?thesis using assms by (simp add: transition_reservation_def)
next
  case (Some c)
  obtain t d where td: "transition_target c ev = Inr (t, d)"
    using assms by (auto simp: transition_reservation_def Some)
  show ?thesis
  proof (cases "cr_state c = t")
    case True
    then show ?thesis using assms td replay
      by (auto simp: transition_reservation_def Some Let_def split: if_splits)
  next
    case False
    then show ?thesis using assms td
      by (intro advance[OF Some td _ refl])
        (auto simp: transition_reservation_def Some Let_def refuse_transition_def)
  qed
qed

lemma transition_releases:
  assumes "is_capacity_reservation c" and "t \<in> set (allowed_transitions (cr_state c))"
  shows "releases c (c\<lparr>cr_state := t, cr_state_evidence_digest := x, cr_bound_deployment := d\<rparr>)"
  using assms(2) amount_nonneg[OF assms(1)]
  by (cases "cr_state c")
    (auto simp: releases_def active_slots_def unresolved_slots_def cr_financial_exposure_def)

lemma redeem_releases:
  "cr_state c = RES_RESERVED \<Longrightarrow>
   releases c (c\<lparr>cr_state := RES_SUBMITTING, cr_state_evidence_digest := x\<rparr>)"
  by (simp add: releases_def active_slots_def unresolved_slots_def cr_financial_exposure_def)

section \<open>What a proposal changes\<close>

definition new_reservation :: "admission_request \<Rightarrow> capacity_reservation" where
  "new_reservation r =
     \<lparr>cr_request = r, cr_state = RES_RESERVED, cr_state_evidence_digest = ar_prepared_operation_digest r,
      cr_bound_deployment = None, cr_version = ADMISSION_SCHEMA_VERSION\<rparr>"

definition rebound :: "scope_budget \<Rightarrow> scope_budget \<Rightarrow> bool" where
  "rebound b b' \<longleftrightarrow> sb_scope b' = sb_scope b \<and> sb_limits b' = sb_limits b
     \<and> cc_active_deployments (sb_census b') = cc_active_deployments (sb_census b)
     \<and> cc_unresolved_create_outcomes (sb_census b') = cc_unresolved_create_outcomes (sb_census b)
     \<and> cc_financial_exposure_uact (sb_census b') = cc_financial_exposure_uact (sb_census b)
     \<and> cc_valid_until (sb_census b') = cc_valid_until (sb_census b)"

lemma rebind_census_Inr:
  assumes "rebind_census cs b = Inr b'"
  shows "rebound b b' \<and> (st_reservations s' = cs \<longrightarrow> census_binding_matches s' b' = Inr True)"
proof -
  let ?ids = "sort (map (\<lambda>c. ar_operation_id (cr_request c))
      (filter (\<lambda>c. applies (sb_scope b) (ar_scope (cr_request c))) cs))"
  obtain d where d: "canonical_reservation_population_digest ?ids = Inr d"
    and b': "b' = b\<lparr>sb_census := (sb_census b)\<lparr>cc_excluded_reservation_count := int (length ?ids),
         cc_excluded_reservation_population_digest := d\<rparr>\<rparr>"
    using assms by (auto simp: rebind_census_def Let_def)
  have "census_binding_matches s' b' = Inr True" if "st_reservations s' = cs"
  proof -
    have "reservation_operation_ids s' (sb_scope b') = ?ids"
      using that b' by (simp add: reservation_operation_ids_def relevant_def)
    then show ?thesis using d b' by (simp add: census_binding_matches_def Let_def)
  qed
  then show ?thesis using b' by (simp add: rebound_def)
qed

lemma rebound_refl: "rebound b b"
  by (simp add: rebound_def)

lemma propose_effect:
  assumes "propose s r (applicable_budgets s (ar_scope r)) projections = Inr res"
  obtains p budgets where "ad_proposal res = Some p"
    "rp_proposed_state p = s\<lparr>st_budgets := budgets, st_reservations := st_reservations s @ [new_reservation r],
       st_revision := st_revision s + 1\<rparr>"
    "is_admission_state (rp_proposed_state p)" "is_capacity_reservation (new_reservation r)"
    "rp_expected_revision p = st_revision s" "rp_operation_id p = ar_operation_id r"
    "ad_decision res = \<lparr>dc_disposition = ADMISSION_PROPOSED, dc_reason = REASON_PROPOSED,
       dc_failed_scope = None, dc_projections = projections\<rparr>"
    "list_all2 (\<lambda>b b'. if applies (sb_scope b) (ar_scope r)
        then rebind_census (st_reservations s @ [new_reservation r]) b = Inr b' else b' = b)
      (st_budgets s) budgets"
proof -
  let ?f = "\<lambda>b. if b \<in> set (applicable_budgets s (ar_scope r))
      then rebind_census (st_reservations s @ [new_reservation r]) b else Inr b"
  obtain budgets where "mapR ?f (st_budgets s) = Inr budgets"
    and "ad_proposal res = Some \<lparr>rp_operation_id = ar_operation_id r, rp_expected_revision = st_revision s,
          rp_expected_state_digest = canonical_admission_state_digest s,
          rp_proposed_revision = st_revision s + 1,
          rp_proposed_state_digest = canonical_admission_state_digest
            (s\<lparr>st_budgets := budgets, st_reservations := st_reservations s @ [new_reservation r],
               st_revision := st_revision s + 1\<rparr>),
          rp_proposed_state = s\<lparr>st_budgets := budgets,
            st_reservations := st_reservations s @ [new_reservation r],
            st_revision := st_revision s + 1\<rparr>, rp_version = ADMISSION_SCHEMA_VERSION\<rparr>"
    and "is_admission_state (s\<lparr>st_budgets := budgets,
            st_reservations := st_reservations s @ [new_reservation r],
            st_revision := st_revision s + 1\<rparr>)"
    and "is_capacity_reservation (new_reservation r)"
    and "ad_decision res = \<lparr>dc_disposition = ADMISSION_PROPOSED, dc_reason = REASON_PROPOSED,
       dc_failed_scope = None, dc_projections = projections\<rparr>"
    using assms unfolding propose_def new_reservation_def[symmetric] by (auto simp: Let_def)
  moreover from this(1) have "list_all2 (\<lambda>b b'. if applies (sb_scope b) (ar_scope r)
        then rebind_census (st_reservations s @ [new_reservation r]) b = Inr b' else b' = b)
      (st_budgets s) budgets"
    unfolding mapR_Inr_all list_all2_conv_all_nth
    by (auto simp: applicable_budgets_def split: if_splits)
  ultimately show ?thesis using that by simp
qed

lemma reserve_effect:
  assumes "reserve_capacity s r ver now = Inr res" and "ad_proposal res = Some p"
  obtains projections where "ver = st_revision s"
    "required_budgets (applicable_budgets s (ar_scope r)) (ar_scope r)"
    "bind_check s r (applicable_budgets s (ar_scope r)) = Inr None"
    "reservation_of s (ar_operation_id r) = None"
    "xe_observed_at (ar_exposure r) \<le> now" "now \<le> xe_valid_until (ar_exposure r)"
    "mapR (admit_budget s r now) (applicable_budgets s (ar_scope r)) = Inr projections"
    "propose s r (applicable_budgets s (ar_scope r)) projections = Inr res"
proof -
  let ?bs = "applicable_budgets s (ar_scope r)"
  have none: "ad_proposal (hold reason sc) = None" for reason sc by (simp add: hold_def)
  have bind: "ad_proposal h = None" if "bind_check s r bs = Inr (Some h)" for bs h
    using that by (induction bs) (auto simp: none split: if_splits)
  have admit: "ad_proposal h = None" if "mapR (admit_budget s r now) bs = Inl h" for bs h
    using that by (induction bs) (auto simp: none bindR_eq_Inl admit_budget_def Let_def split: if_splits option.splits)
  obtain held where h: "bind_check s r ?bs = Inr held" and req: "required_budgets ?bs (ar_scope r)"
    using assms by (auto simp: reserve_capacity_def Let_def none split: if_splits)
  have held: "held = None"
  proof (rule ccontr)
    assume "held \<noteq> None"
    then obtain x where "held = Some x" by blast
    then show False using assms h req bind by (auto simp: reserve_capacity_def Let_def)
  qed
  have fresh: "reservation_of s (ar_operation_id r) = None"
    using assms h held req
    by (auto simp: reserve_capacity_def Let_def none split: if_splits option.splits)
  show ?thesis
    using assms h held req fresh that
    by (auto simp: reserve_capacity_def Let_def none split: if_splits sum.splits dest: admit)
qed

lemma reserve_state:
  assumes "reserve_capacity s r ver now = Inr res" and "ad_proposal res = Some p"
  obtains budgets where "rp_proposed_state p = s\<lparr>st_budgets := budgets,
       st_reservations := st_reservations s @ [new_reservation r], st_revision := st_revision s + 1\<rparr>"
    "is_admission_state (rp_proposed_state p)" "rp_operation_id p = ar_operation_id r"
    "reservation_of s (ar_operation_id r) = None"
proof -
  obtain proj where "reservation_of s (ar_operation_id r) = None" "propose s r (applicable_budgets s (ar_scope r)) proj = Inr res"
    using assms by (rule reserve_effect) (rule that; assumption)
  from this(2) show ?thesis
    by (rule propose_effect) (use assms(2) that \<open>reservation_of s _ = None\<close> in \<open>simp\<close>)
qed

lemma reservation_proposed:
  assumes "reserve_capacity s r ver now = Inr res" and "ad_proposal res = Some p"
  shows "reservation_of (rp_proposed_state p) (ar_operation_id r) = Some (new_reservation r)"
    and "rp_operation_id p = ar_operation_id r"
proof -
  obtain budgets where b: "rp_proposed_state p = s\<lparr>st_budgets := budgets,
       st_reservations := st_reservations s @ [new_reservation r], st_revision := st_revision s + 1\<rparr>"
    and op: "rp_operation_id p = ar_operation_id r" and none: "reservation_of s (ar_operation_id r) = None"
    using assms by (rule reserve_state) (rule that; assumption)
  have app: "find P (xs @ [x]) = Some x" if "find P xs = None" "P x" for P and xs :: "capacity_reservation list" and x
    using that by (induction xs) (auto split: if_splits)
  show "reservation_of (rp_proposed_state p) (ar_operation_id r) = Some (new_reservation r)"
    unfolding reservation_of_def b using none
    by simp (rule app, simp_all add: reservation_of_def new_reservation_def)
  show "rp_operation_id p = ar_operation_id r" by (rule op)
qed

lemma mapR_member: "mapR f xs = Inr ys \<Longrightarrow> x \<in> set xs \<Longrightarrow> \<exists>y. f x = Inr y"
  by (induction xs arbitrary: ys) auto

lemma bind_check_all:
  "bind_check s r bs = Inr None \<Longrightarrow> b \<in> set bs \<Longrightarrow> census_binding_matches s b = Inr True
   \<and> cl_exposure_policy_revision (sb_limits b) = xe_backend_policy_revision (ar_exposure r)"
  by (induction bs) (auto split: if_splits)

definition current_census :: "admission_request \<Rightarrow> int \<Rightarrow> scope_budget \<Rightarrow> bool" where
  "current_census r now b \<longleftrightarrow> unhealthy (sb_census b) = None \<and> ar_requested_at r \<le> now
     \<and> cc_observed_at (sb_census b) \<le> now \<and> now \<le> cc_valid_until (sb_census b)
     \<and> now \<le> cl_valid_until (sb_limits b)"

lemma admit_budget_Inr:
  "admit_budget s r now b = Inr y \<Longrightarrow> current_census r now b
     \<and> within_limits (sb_limits b) (projected_usage s r b) \<and> y = \<lparr>bp_scope = sb_scope b, bp_usage_after = projected_usage s r b\<rparr>"
  by (auto simp: admit_budget_def Let_def current_census_def exceeded_None split: if_splits option.splits)

lemma usage_after:
  assumes "rebound b b'" and "st_reservations s' = st_reservations s @ [new_reservation r]"
  shows "usage s' b' = (if applies (sb_scope b) (ar_scope r) then projected_usage s r b else usage s b)"
proof -
  have "relevant s' (sb_scope b') = relevant s (sb_scope b)
      @ (if applies (sb_scope b) (ar_scope r) then [new_reservation r] else [])"
    using assms by (simp add: relevant_def rebound_def new_reservation_def)
  then show ?thesis using assms(1)
    by (simp add: usage_def projected_usage_def rebound_def Let_def new_reservation_def
        active_slots_def unresolved_slots_def cr_financial_exposure_def)
qed

lemma binding_unaffected:
  assumes "\<not> applies (sb_scope b) (ar_scope r)"
    and "st_reservations s' = st_reservations s @ [new_reservation r]"
  shows "census_binding_matches s' b = census_binding_matches s b"
  using assms by (simp add: census_binding_matches_def reservation_operation_ids_def relevant_def new_reservation_def)

section \<open>The steps of the broker\<close>

inductive admission_step :: "admission_state \<Rightarrow> admission_state \<Rightarrow> bool" where
  reserve: "reserve_capacity s r ver now = Inr res \<Longrightarrow> ad_proposal res = Some p \<Longrightarrow>
    admission_step s (rp_proposed_state p)"
| redeem: "redeem_create_permit s permit pr ver = Inr p \<Longrightarrow> admission_step s (rd_proposed_state p)"
| release: "transition_reservation s ev ver = Inr s' \<Longrightarrow> admission_step s s'"

lemma reserve_admits:
  assumes "reserve_capacity s r ver now = Inr res" and "ad_proposal res = Some p"
  shows "\<forall>i < length (st_budgets s).
     let b = st_budgets s ! i; b' = st_budgets (rp_proposed_state p) ! i in
       rebound b b'
       \<and> usage (rp_proposed_state p) b'
          = (if applies (sb_scope b) (ar_scope r) then projected_usage s r b else usage s b)
       \<and> (if applies (sb_scope b) (ar_scope r)
          then current_census r now b \<and> within_limits (sb_limits b) (projected_usage s r b)
             \<and> census_binding_matches s b = Inr True
             \<and> census_binding_matches (rp_proposed_state p) b' = Inr True
          else b' = b \<and> census_binding_matches (rp_proposed_state p) b' = census_binding_matches s b)"
    and "length (st_budgets (rp_proposed_state p)) = length (st_budgets s)"
proof -
  let ?bs = "applicable_budgets s (ar_scope r)"
  obtain proj where admits: "mapR (admit_budget s r now) ?bs = Inr proj"
    and binds: "bind_check s r ?bs = Inr None" and proposed: "propose s r ?bs proj = Inr res"
    using assms by (rule reserve_effect) (rule that; assumption)
  obtain p' budgets where p': "ad_proposal res = Some p'"
    "rp_proposed_state p' = s\<lparr>st_budgets := budgets, st_reservations := st_reservations s @ [new_reservation r],
       st_revision := st_revision s + 1\<rparr>"
    and l: "list_all2 (\<lambda>b b'. if applies (sb_scope b) (ar_scope r)
        then rebind_census (st_reservations s @ [new_reservation r]) b = Inr b' else b' = b)
      (st_budgets s) budgets"
    using proposed by (rule propose_effect) (rule that; assumption)
  let ?s' = "rp_proposed_state p"
  have s': "st_budgets ?s' = budgets" "st_reservations ?s' = st_reservations s @ [new_reservation r]"
    using p' assms(2) by simp_all
  show "length (st_budgets ?s') = length (st_budgets s)"
    using l s'(1) by (simp add: list_all2_lengthD)
  show "\<forall>i < length (st_budgets s).
     let b = st_budgets s ! i; b' = st_budgets ?s' ! i in
       rebound b b'
       \<and> usage ?s' b' = (if applies (sb_scope b) (ar_scope r) then projected_usage s r b else usage s b)
       \<and> (if applies (sb_scope b) (ar_scope r)
          then current_census r now b \<and> within_limits (sb_limits b) (projected_usage s r b)
             \<and> census_binding_matches s b = Inr True \<and> census_binding_matches ?s' b' = Inr True
          else b' = b \<and> census_binding_matches ?s' b' = census_binding_matches s b)"
  proof (intro allI impI)
    fix i assume i: "i < length (st_budgets s)"
    let ?b = "st_budgets s ! i" and ?b' = "st_budgets ?s' ! i"
    have rel: "if applies (sb_scope ?b) (ar_scope r)
        then rebind_census (st_reservations s @ [new_reservation r]) ?b = Inr ?b' else ?b' = ?b"
      using l i s'(1) by (simp add: list_all2_conv_all_nth)
    show "let b = ?b; b' = ?b' in rebound b b'
       \<and> usage ?s' b' = (if applies (sb_scope b) (ar_scope r) then projected_usage s r b else usage s b)
       \<and> (if applies (sb_scope b) (ar_scope r)
          then current_census r now b \<and> within_limits (sb_limits b) (projected_usage s r b)
             \<and> census_binding_matches s b = Inr True \<and> census_binding_matches ?s' b' = Inr True
          else b' = b \<and> census_binding_matches ?s' b' = census_binding_matches s b)"
    proof (cases "applies (sb_scope ?b) (ar_scope r)")
      case True
      then have mem: "?b \<in> set ?bs" using i by (simp add: applicable_budgets_def)
      have reb: "rebound ?b ?b'" "census_binding_matches ?s' ?b' = Inr True"
        using rebind_census_Inr[of "st_reservations s @ [new_reservation r]" ?b ?b' ?s'] rel True s'(2)
        by simp_all
      obtain y where "admit_budget s r now ?b = Inr y" using mapR_member[OF admits mem] by blast
      then show ?thesis
        using True reb usage_after[OF reb(1) s'(2)] admit_budget_Inr bind_check_all[OF binds mem]
        unfolding Let_def by simp
    next
      case False
      then have "?b' = ?b" using rel by simp
      then show ?thesis
        using False usage_after[OF rebound_refl s'(2), of ?b] binding_unaffected[OF False s'(2)]
        unfolding Let_def by (simp add: rebound_refl)
    qed
  qed
qed

lemma admission_step_contained:
  assumes "admission_step s s'" and "is_admission_state s" and "contained s"
  shows "is_admission_state s' \<and> contained s'"
  using assms(1)
proof cases
  case (reserve r ver now res p)
  have "is_admission_state s'"
    using reserve_state[OF reserve(2,3)] reserve(1) by blast
  moreover have "contained s'"
    unfolding contained_def
  proof
    fix b' assume "b' \<in> set (st_budgets s')"
    then obtain i where i: "i < length (st_budgets s)" "b' = st_budgets s' ! i"
      using reserve_admits(2)[OF reserve(2,3)] reserve(1) by (metis in_set_conv_nth)
    have old: "within_limits (sb_limits (st_budgets s ! i)) (usage s (st_budgets s ! i))"
      "census_binding_matches s (st_budgets s ! i) = Inr True"
      using assms(3) i(1) by (simp_all add: contained_def)
    show "within_limits (sb_limits b') (usage s' b') \<and> census_binding_matches s' b' = Inr True"
      using reserve_admits(1)[OF reserve(2,3), rule_format, OF i(1)] old i(2) reserve(1)
      unfolding Let_def rebound_def by (auto split: if_splits)
  qed
  ultimately show ?thesis ..
next
  case (redeem permit pr ver p)
  obtain c new where c: "cr_state c = RES_RESERVED"
    "new = c\<lparr>cr_state := RES_SUBMITTING, cr_state_evidence_digest := rd_presentation_digest p\<rparr>"
    "rd_proposed_state p = s\<lparr>st_reservations := replace_reservation c new (st_reservations s),
       st_revision := st_revision s + 1\<rparr>" "is_admission_state (rd_proposed_state p)"
    using redeem_effect[OF redeem(2)] by metis
  have "contained s'"
    by (rule releases_contained[of c new s]) (simp_all add: c(2,3) redeem_releases[OF c(1)] assms(3) redeem(1))
  then show ?thesis using c(4) redeem(1) by simp
next
  case (release ev ver)
  then show ?thesis
  proof (cases rule: transition_effect)
    case replay
    then show ?thesis using assms by simp
  next
    case (advance c t d new)
    have "releases c new"
      unfolding advance(4) by (rule transition_releases[OF reservation_of_valid[OF assms(2) advance(1)] advance(3)])
    then have "contained s'"
      by (rule releases_contained[OF _ assms(3)]) (simp_all add: advance(6))
    then show ?thesis using advance(7) by simp
  qed
qed

text \<open>
  C7: containment. From a state in which every budget is within its limits and every census
  is bound to the reservations of its scope, no sequence of reservations, redemptions and
  lifecycle transitions, whatever their arguments and order, reaches a state in which the
  census plus the reservations of some scope exceed a limit of its budget (active
  deployments, unresolved creates or financial exposure), or a census is no longer bound.
\<close>

theorem containment_invariant:
  assumes "admission_step\<^sup>*\<^sup>* s t" and "is_admission_state s"
    and "\<forall>b \<in> set (st_budgets s). within_limits (sb_limits b) (usage s b)
          \<and> census_binding_matches s b = Inr True"
  shows "is_admission_state t \<and> (\<forall>b \<in> set (st_budgets t). within_limits (sb_limits b) (usage t b)
          \<and> census_binding_matches t b = Inr True)"
proof -
  have "is_admission_state t \<and> contained t"
    using assms(1)
  proof (induction rule: rtranclp_induct)
    case base
    then show ?case using assms(2,3) by (simp add: contained_def)
  next
    case (step t u)
    then show ?case using admission_step_contained by blast
  qed
  then show ?thesis by (simp add: contained_def)
qed

lemma sample_contained:
  "\<forall>b \<in> set (st_budgets sample_state0). within_limits (sb_limits b) (usage sample_state0 b)
     \<and> census_binding_matches sample_state0 b = Inr True"
proof
  fix b assume "b \<in> set (st_budgets sample_state0)"
  then have b: "b \<in> set (sample_budgets [])" by (simp add: sample_state0_def)
  then have "sb_limits b = sample_limits" by (auto simp: sample_budgets_def)
  then show "within_limits (sb_limits b) (usage sample_state0 b)
      \<and> census_binding_matches sample_state0 b = Inr True"
    using sample_usage[OF b] sample_bound_census(1)[OF b refl]
    by (simp add: within_limits_def sample_limits_def)
qed

lemma sample_step: "admission_step sample_state0 (sample_state1 ''runner'')"
  using sample_reserve[of "''runner''" 130] admission_step.reserve
  by (fastforce simp: sample_proposal_def)

theorem containment_invariant_witness:
  "admission_step sample_state0 (sample_state1 ''runner'')
   \<and> list_all (\<lambda>b. within_limits (sb_limits b) (usage (sample_state1 ''runner'') b))
        (st_budgets (sample_state1 ''runner''))"
  using containment_invariant[OF r_into_rtranclp[of admission_step, OF sample_step] sample_state0_ok
      sample_contained] sample_step by (simp add: list_all_iff)

text \<open>
  A proposal is a compare-and-swap that charges exactly one reservation. It is made only
  against the current revision and when the owner budget and the leaf budget both exist and
  are current and healthy; it advances the revision by one, adds one active slot, one
  unresolved slot and the exposure amount to exactly the budgets that apply, within their
  limits, and leaves every other budget and its usage unchanged.
\<close>

theorem reserve_capacity_admits:
  assumes "reserve_capacity s r ver now = Inr res" and "ad_proposal res = Some p"
  shows "ver = st_revision s \<and> st_revision (rp_proposed_state p) = ver + 1
    \<and> reservation_of s (ar_operation_id r) = None
    \<and> st_reservations (rp_proposed_state p) = st_reservations s @ [new_reservation r]
    \<and> set (map sb_scope (applicable_budgets s (ar_scope r)))
        = {OwnerScope (owner_scope_of (ar_scope r)), LeafScope (ar_scope r)}
    \<and> (\<forall>i < length (st_budgets s).
         let b = st_budgets s ! i; b' = st_budgets (rp_proposed_state p) ! i;
             u = usage s b; u' = usage (rp_proposed_state p) b' in
         sb_scope b' = sb_scope b \<and> sb_limits b' = sb_limits b
         \<and> (if applies (sb_scope b) (ar_scope r)
            then current_census r now b \<and> within_limits (sb_limits b) u'
               \<and> cu_active_deployments u' = cu_active_deployments u + 1
               \<and> cu_unresolved_create_outcomes u' = cu_unresolved_create_outcomes u + 1
               \<and> cu_financial_exposure_uact u'
                   = cu_financial_exposure_uact u + xe_amount_uact (ar_exposure r)
            else b' = b \<and> u' = u))"
proof -
  note e = reserve_effect[OF assms]
  have "st_revision (rp_proposed_state p) = st_revision s + 1"
    "st_reservations (rp_proposed_state p) = st_reservations s @ [new_reservation r]"
    using reserve_state[OF assms] by fastforce+
  moreover have "ver = st_revision s" "reservation_of s (ar_operation_id r) = None"
    "required_budgets (applicable_budgets s (ar_scope r)) (ar_scope r)"
    using e by metis+
  moreover note reserve_admits(1)[OF assms]
  ultimately show ?thesis
    unfolding Let_def required_budgets_def rebound_def
    by (auto simp: projected_usage_def Let_def)
qed

theorem reserve_capacity_admits_witness:
  "\<exists>res p. reserve_capacity sample_state0 (sample_request ''runner'') 0 130 = Inr res
     \<and> ad_proposal res = Some p \<and> st_revision (rp_proposed_state p) = 1
     \<and> st_reservations (rp_proposed_state p) = st_reservations sample_state0
          @ [new_reservation (sample_request ''runner'')]"
proof -
  obtain res where res: "reserve_capacity sample_state0 (sample_request ''runner'') 0 130 = Inr res"
    "ad_proposal res = Some (sample_proposal ''runner'')"
    using sample_reserve[of "''runner''" 130] by auto
  then show ?thesis using reserve_capacity_admits[OF res] by auto
qed

section \<open>Permits\<close>

lemma admission_step_keeps:
  assumes "admission_step s s'" and "reservation_of s op = Some c"
  shows "\<exists>c'. reservation_of s' op = Some c' \<and> cr_request c' = cr_request c
    \<and> (cr_state c \<noteq> RES_RESERVED \<longrightarrow> cr_state c' \<noteq> RES_RESERVED)"
  using assms(1)
proof cases
  case (reserve r ver now res p)
  have "st_reservations s' = st_reservations s @ [new_reservation r]"
    using reserve_state[OF reserve(2,3)] reserve(1) by fastforce
  moreover have "find P (xs @ ys) = Some c" if "find P xs = Some c" for P xs ys
    using that by (induction xs) (auto split: if_splits)
  ultimately have "reservation_of s' op = Some c"
    using assms(2) by (simp add: reservation_of_def)
  then show ?thesis by simp
next
  case (redeem permit pr ver p)
  obtain d new where d: "cr_state d = RES_RESERVED"
    "new = d\<lparr>cr_state := RES_SUBMITTING, cr_state_evidence_digest := rd_presentation_digest p\<rparr>"
    "rd_proposed_state p = s\<lparr>st_reservations := replace_reservation d new (st_reservations s),
       st_revision := st_revision s + 1\<rparr>"
    using redeem(2) by (rule redeem_effect) (rule that; assumption)
  have "reservation_of s' op = Some (if c = d then new else c)"
    using replace_reservation_find[of new d s' s op] d redeem(1) assms(2) by simp
  then show ?thesis using d(2) by auto
next
  case (release ev ver)
  then show ?thesis
  proof (cases rule: transition_effect)
    case replay
    then show ?thesis using assms by simp
  next
    case (advance d t dep new)
    have "reservation_of s' op = Some (if c = d then new else c)"
      using replace_reservation_find[of new d s' s op] advance(4,6) assms(2) by simp
    moreover have "t \<noteq> RES_RESERVED" using advance(3) by (cases "cr_state d") auto
    ultimately show ?thesis using advance(4) by auto
  qed
qed

lemma admission_steps_keep:
  assumes "admission_step\<^sup>*\<^sup>* s s'" and "reservation_of s op = Some c"
  shows "\<exists>c'. reservation_of s' op = Some c' \<and> cr_request c' = cr_request c
    \<and> (cr_state c \<noteq> RES_RESERVED \<longrightarrow> cr_state c' \<noteq> RES_RESERVED)"
  using assms
proof (induction rule: rtranclp_induct)
  case (step t u)
  then show ?case using admission_step_keeps by metis
qed simp

text \<open>
  C8: A permit is consumed once. After a redemption has been persisted, no later state admits
  another redemption for the same operation: with any permit for it, any presentation and
  any revision, the operation raises, and it raises only \<open>ValueError\<close> (negative revision) or
  \<open>PermitRedemptionError\<close>.
\<close>

theorem permit_redeemed_once:
  assumes "redeem_create_permit s permit pr ver = Inr p"
    and "admission_step\<^sup>*\<^sup>* (rd_proposed_state p) t"
    and "pm_operation_id permit' = pm_operation_id permit"
  shows "redeem_create_permit t permit' pr' ver' \<in> {Inl ValueError, Inl PermitRedemptionError}"
proof -
  obtain c new where c: "reservation_of s (pm_operation_id permit) = Some c"
    "new = c\<lparr>cr_state := RES_SUBMITTING, cr_state_evidence_digest := rd_presentation_digest p\<rparr>"
    "rd_proposed_state p = s\<lparr>st_reservations := replace_reservation c new (st_reservations s),
       st_revision := st_revision s + 1\<rparr>"
    using assms(1) by (rule redeem_effect) (rule that; assumption)
  then have "reservation_of (rd_proposed_state p) (pm_operation_id permit) = Some new"
    using replace_reservation_find[of new c "rd_proposed_state p" s "pm_operation_id permit"] by simp
  then obtain c' where "reservation_of t (pm_operation_id permit') = Some c'" "cr_state c' \<noteq> RES_RESERVED"
    using admission_steps_keep[OF assms(2)] c(2) assms(3) by fastforce
  then show ?thesis
    by (auto simp: redeem_create_permit_def refuse_permit_def raise_if_def)
qed

theorem permit_redeemed_once_witness:
  "redeem_create_permit (rd_proposed_state sample_redemption) sample_permit sample_presentation 2
   \<in> {Inl ValueError, Inl PermitRedemptionError}"
  by (rule permit_redeemed_once[OF sample_redeem rtranclp.rtrancl_refl refl])

lemma confirm_persisted_effect:
  assumes "confirm_persisted_reservation p s r t cf = Inr permit"
  obtains res c where "reserve_capacity s r (rp_expected_revision p) (cf_persisted_at cf) = Inr res"
    "ad_proposal res = Some p" "t = rp_proposed_state p"
    "reservation_of t (rp_operation_id p) = Some c" "cr_state c = RES_RESERVED"
    "pm_operation_id permit = rp_operation_id p"
    "pm_prepared_operation_digest permit = ar_prepared_operation_digest (cr_request c)"
    "pm_presenter_identity permit = pp_subject (pc_producer (ar_prepared (cr_request c)))"
    "pm_audience permit = CREATE_PERMIT_AUDIENCE"
    "policy_bindings (applicable_budgets t (ar_scope (cr_request c))) = Inr (pm_policy_bindings permit)"
    "pm_issued_at permit = cf_persisted_at cf"
    "pm_valid_until permit = min_list1 (ab_valid_until (cf_authenticated_broker cf))
       (xe_valid_until (ar_exposure (cr_request c))
        # map (\<lambda>b. cl_valid_until (sb_limits b)) (applicable_budgets t (ar_scope (cr_request c)))
        @ map (\<lambda>b. cc_valid_until (sb_census b)) (applicable_budgets t (ar_scope (cr_request c))))"
    "is_create_permit permit" "ab_broker_identity (cf_authenticated_broker cf) = pm_broker_identity permit"
proof (cases "reservation_of t (rp_operation_id p)")
  case None
  then show ?thesis using assms by (simp add: confirm_persisted_reservation_def Let_def)
next
  case (Some c)
  obtain res where res: "reserve_capacity s r (rp_expected_revision p) (cf_persisted_at cf) = Inr res"
    using assms by (auto simp: confirm_persisted_reservation_def)
  show ?thesis
    using assms by (intro that[OF res _ _ Some])
      (auto simp: confirm_persisted_reservation_def Let_def Some res split: if_splits)
qed

lemma min_list1_le: "x \<in> insert y (set ys) \<Longrightarrow> min_list1 y ys \<le> x"
proof -
  have "fold min ys y \<le> y \<and> (\<forall>x \<in> set ys. fold min ys y \<le> x)"
  proof (induction ys arbitrary: y)
    case (Cons z zs)
    show ?case using Cons.IH[of "min z y"] by auto
  qed simp
  then show "x \<in> insert y (set ys) \<Longrightarrow> min_list1 y ys \<le> x" by (auto simp: min_list1_def)
qed

lemma confirm_redeemed_effect:
  assumes "confirm_redeemed_permit p permit pr pre t cf = Inr auth"
  obtains c where "redeem_create_permit pre permit pr (rd_expected_revision p) = Inr p"
    "t = rd_proposed_state p" "reservation_of t (rd_operation_id p) = Some c" "cr_state c = RES_SUBMITTING"
    "pr_presented_at pr \<le> cf_persisted_at cf" "cf_persisted_at cf \<le> pm_valid_until permit"
    "ab_broker_identity (cf_authenticated_broker cf) = pm_broker_identity permit"
    "sa_operation_id auth = rd_operation_id p" "sa_presenter_identity auth = pm_presenter_identity permit"
    "sa_valid_until auth = pm_valid_until permit" "sa_issued_at auth = cf_persisted_at cf"
    "sa_audience auth = pm_audience permit" "sa_policy_bindings auth = pm_policy_bindings permit"
proof (cases "reservation_of t (rd_operation_id p)")
  case None
  then show ?thesis using assms by (simp add: confirm_redeemed_permit_def Let_def)
next
  case (Some c)
  have d: "redeem_create_permit pre permit pr (rd_expected_revision p) = Inr p"
    using assms by (auto simp: confirm_redeemed_permit_def refuse_confirmation_def)
  show ?thesis
    using assms by (intro that[OF d _ Some])
      (auto simp: confirm_redeemed_permit_def Let_def Some d refuse_confirmation_def split: if_splits)
qed

text \<open>
  C9: an authorization to submit is sound end to end. Suppose a permit was confirmed for a
  request, other operations followed, and a redemption of the permit was confirmed. Then the
  persisted state holds the reservation of exactly that request in the state SUBMITTING; the
  presenter is the authenticated producer of the request, the permit was presented active
  for the create-submission audience, under the admission policies in force at redemption;
  and issue, presentation and authorization are in order and before the expiry of the
  exposure evidence, of the broker's authentication and of every applicable budget and
  census.
\<close>

theorem authorization_sound:
  assumes "confirm_persisted_reservation rp s0 r s1 cf0 = Inr permit"
    and "admission_step\<^sup>*\<^sup>* s1 pre"
    and "confirm_redeemed_permit p permit pr pre t cf = Inr auth"
  shows "(\<exists>c. reservation_of t (ar_operation_id r) = Some c \<and> cr_request c = r \<and> cr_state c = RES_SUBMITTING)
    \<and> sa_operation_id auth = ar_operation_id r
    \<and> sa_presenter_identity auth = pp_subject (pc_producer (ar_prepared r))
    \<and> pr_presenter_identity pr = sa_presenter_identity auth
    \<and> pr_revocation_status pr = PERMIT_ACTIVE \<and> pr_audience pr = CREATE_PERMIT_AUDIENCE
    \<and> policy_bindings (applicable_budgets pre (ar_scope r)) = Inr (sa_policy_bindings auth)
    \<and> cf_persisted_at cf0 \<le> pr_presented_at pr \<and> pr_presented_at pr \<le> sa_issued_at auth
    \<and> sa_issued_at auth \<le> sa_valid_until auth
    \<and> sa_valid_until auth \<le> xe_valid_until (ar_exposure r)
    \<and> sa_valid_until auth \<le> ab_valid_until (cf_authenticated_broker cf0)
    \<and> (\<forall>b \<in> set (applicable_budgets s1 (ar_scope r)).
         sa_valid_until auth \<le> cl_valid_until (sb_limits b)
         \<and> sa_valid_until auth \<le> cc_valid_until (sb_census b))"
proof -
  obtain res c1 where e: "reserve_capacity s0 r (rp_expected_revision rp) (cf_persisted_at cf0) = Inr res"
    "ad_proposal res = Some rp" "s1 = rp_proposed_state rp"
    "reservation_of s1 (rp_operation_id rp) = Some c1" "cr_state c1 = RES_RESERVED"
    "pm_operation_id permit = rp_operation_id rp"
    "pm_presenter_identity permit = pp_subject (pc_producer (ar_prepared (cr_request c1)))"
    "pm_audience permit = CREATE_PERMIT_AUDIENCE" "pm_issued_at permit = cf_persisted_at cf0"
    "pm_valid_until permit = min_list1 (ab_valid_until (cf_authenticated_broker cf0))
       (xe_valid_until (ar_exposure (cr_request c1))
        # map (\<lambda>b. cl_valid_until (sb_limits b)) (applicable_budgets s1 (ar_scope (cr_request c1)))
        @ map (\<lambda>b. cc_valid_until (sb_census b)) (applicable_budgets s1 (ar_scope (cr_request c1))))"
    using assms(1) by (rule confirm_persisted_effect) (rule that; assumption)
  note b = reservation_proposed[OF e(1,2)]
  then have c1: "cr_request c1 = r" using e(3,4) by (auto simp: new_reservation_def)
  obtain c where a: "redeem_create_permit pre permit pr (rd_expected_revision p) = Inr p"
    "t = rd_proposed_state p" "reservation_of t (rd_operation_id p) = Some c" "cr_state c = RES_SUBMITTING"
    "pr_presented_at pr \<le> cf_persisted_at cf" "cf_persisted_at cf \<le> pm_valid_until permit"
    "sa_operation_id auth = rd_operation_id p" "sa_presenter_identity auth = pm_presenter_identity permit"
    "sa_valid_until auth = pm_valid_until permit" "sa_issued_at auth = cf_persisted_at cf"
    "sa_policy_bindings auth = pm_policy_bindings permit"
    using assms(3) by (rule confirm_redeemed_effect) (rule that; assumption)
  obtain cp where d: "reservation_of pre (pm_operation_id permit) = Some cp"
    "rd_operation_id p = pm_operation_id permit"
    "pr_presenter_identity pr = pm_presenter_identity permit" "pr_audience pr = pm_audience permit"
    "pr_revocation_status pr = PERMIT_ACTIVE" "pm_issued_at permit \<le> pr_presented_at pr"
    "policy_bindings (applicable_budgets pre (ar_scope (cr_request cp))) = Inr (pm_policy_bindings permit)"
    using a(1) by (rule redeem_effect) (rule that; assumption)
  have cp: "cr_request cp = r"
    using admission_steps_keep[OF assms(2) e(4)] d(1) e(6) c1 by auto
  have "admission_step pre t" unfolding a(2) using a(1) by (rule admission_step.redeem)
  then have "cr_request c = r"
    using admission_step_keeps[of pre t "pm_operation_id permit" cp] d(1,2) a(3) cp by auto
  moreover have "pm_valid_until permit \<le> x"
    if "x \<in> insert (ab_valid_until (cf_authenticated_broker cf0)) (insert (xe_valid_until (ar_exposure r))
        (cl_valid_until ` sb_limits ` set (applicable_budgets s1 (ar_scope r))
         \<union> cc_valid_until ` sb_census ` set (applicable_budgets s1 (ar_scope r))))" for x
    unfolding e(10) c1 by (rule min_list1_le) (use that in \<open>auto simp: image_image\<close>)
  ultimately show ?thesis
    using a b(2) c1 cp d e(6-9) by auto
qed

theorem authorization_sound_witness:
  "sa_operation_id sample_authorization = ''op1'' \<and> sa_presenter_identity sample_authorization = ''runner''
   \<and> sa_issued_at sample_authorization \<le> sa_valid_until sample_authorization"
  using authorization_sound[OF sample_confirm rtranclp.rtrancl_refl sample_authorize]
  by (simp add: sample_authorization_def)

text \<open>
  C38: a reservation whose permit cannot be issued is stranded. The constructors admit a
  producer whose subject is not canonical ASCII of at most 256 characters, and capacity is
  reserved for it; but the permit names the subject as presenter, so confirming the
  reservation always raises, and a reservation that was never redeemed has no lifecycle
  transition at all: its slots and its exposure are never released.
\<close>

theorem unpermitted_reservation_stranded:
  assumes "reserve_capacity s r ver now = Inr res" and "ad_proposal res = Some p"
    and "\<not> is_nonempty_ascii 256 (pp_subject (pc_producer (ar_prepared r)))"
  shows "(\<forall>t cf permit. confirm_persisted_reservation p s r t cf \<noteq> Inr permit)
    \<and> (\<forall>ev n s'. evidence_operation_id ev = ar_operation_id r \<longrightarrow>
         transition_reservation (rp_proposed_state p) ev n \<noteq> Inr s')"
proof (intro conjI allI impI notI)
  note f = reservation_proposed[OF assms(1,2)]
  fix t cf permit assume "confirm_persisted_reservation p s r t cf = Inr permit"
  then obtain c where "t = rp_proposed_state p" "reservation_of t (rp_operation_id p) = Some c"
    "pm_presenter_identity permit = pp_subject (pc_producer (ar_prepared (cr_request c)))"
    "is_create_permit permit"
    by (rule confirm_persisted_effect) (rule that; assumption)
  then show False using assms(3) f by (auto simp: is_create_permit_def new_reservation_def)
next
  note f = reservation_proposed[OF assms(1,2)]
  fix ev n s' assume "evidence_operation_id ev = ar_operation_id r"
    and "transition_reservation (rp_proposed_state p) ev n = Inr s'"
  moreover have "transition_target (new_reservation r) ev \<noteq> Inr (RES_RESERVED, d)" for d
    by (cases ev) (auto simp: new_reservation_def dest: outcome_target_not_reserved)
  ultimately show False using f
    by (auto simp: transition_reservation_def Let_def refuse_transition_def new_reservation_def split: if_splits)
qed

theorem unpermitted_reservation_stranded_witness:
  "is_admission_request (sample_request [CHR 0xE9])
   \<and> (\<exists>res p. reserve_capacity sample_state0 (sample_request [CHR 0xE9]) 0 130 = Inr res
        \<and> ad_proposal res = Some p
        \<and> (\<forall>t cf permit. confirm_persisted_reservation p sample_state0 (sample_request [CHR 0xE9]) t cf \<noteq> Inr permit))"
proof -
  obtain res where res: "reserve_capacity sample_state0 (sample_request [CHR 0xE9]) 0 130 = Inr res"
    "ad_proposal res = Some (sample_proposal [CHR 0xE9])"
    using sample_reserve[of "[CHR 0xE9]" 130] by auto
  have "\<not> is_nonempty_ascii 256 (pp_subject (pc_producer (ar_prepared (sample_request [CHR 0xE9]))))"
    by (simp add: sample_request_def)
  then show ?thesis
    using unpermitted_reservation_stranded[OF res] res sample_request_ok[of "[CHR 0xE9]"] by auto
qed

end
