(* ===== verification/Exposure.thy ===== *)
theory Exposure
  imports AdmissionData
begin

text \<open>
  \<^verbatim>\<open>operation_exposure.py\<close>: native liability vectors, the maximum liability of an operation,
  the intents and observations of its financial effects, the retained operation state, and
  the three proposals that advance it. Same conventions as \<open>JournalData\<close>.
\<close>

section \<open>Enumerations and validators\<close>

datatype financial_effect_purpose =
    PURPOSE_CREATE
  | PURPOSE_DEPOSIT
  | PURPOSE_FEE_REFILL
  | PURPOSE_TRANSACTION_FEE
  | PURPOSE_GRANT
  | PURPOSE_MINT
  | PURPOSE_AMENDMENT

fun financial_effect_purpose_value :: "financial_effect_purpose \<Rightarrow> string" where
  "financial_effect_purpose_value PURPOSE_CREATE = ''create''"
| "financial_effect_purpose_value PURPOSE_DEPOSIT = ''deposit''"
| "financial_effect_purpose_value PURPOSE_FEE_REFILL = ''fee_refill''"
| "financial_effect_purpose_value PURPOSE_TRANSACTION_FEE = ''transaction_fee''"
| "financial_effect_purpose_value PURPOSE_GRANT = ''grant''"
| "financial_effect_purpose_value PURPOSE_MINT = ''mint''"
| "financial_effect_purpose_value PURPOSE_AMENDMENT = ''amendment''"

datatype financial_effect_state =
    EFFECT_SIGN_RESERVED_UNKNOWN
  | EFFECT_SIGNED
  | EFFECT_BROADCAST_CLAIMED_UNKNOWN
  | EFFECT_CONFIRMED
  | EFFECT_FAILED
  | EFFECT_PROVEN_NOT_SIGNED

fun financial_effect_state_value :: "financial_effect_state \<Rightarrow> string" where
  "financial_effect_state_value EFFECT_SIGN_RESERVED_UNKNOWN = ''sign_reserved_unknown''"
| "financial_effect_state_value EFFECT_SIGNED = ''signed''"
| "financial_effect_state_value EFFECT_BROADCAST_CLAIMED_UNKNOWN = ''broadcast_claimed_unknown''"
| "financial_effect_state_value EFFECT_CONFIRMED = ''confirmed''"
| "financial_effect_state_value EFFECT_FAILED = ''failed''"
| "financial_effect_state_value EFFECT_PROVEN_NOT_SIGNED = ''proven_not_signed''"

definition FINANCIAL_SCHEMA_VERSION :: int where
  "FINANCIAL_SCHEMA_VERSION = 1"

definition is_financial_version :: "int \<Rightarrow> bool" where
  "is_financial_version v \<longleftrightarrow> v = FINANCIAL_SCHEMA_VERSION"

definition is_text :: "string \<Rightarrow> bool" where
  "is_text s \<longleftrightarrow> s \<noteq> [] \<and> isascii s \<and> length s \<le> 256
     \<and> \<not> list_ex (\<lambda>c. is_space c \<or> code c < 33 \<or> 126 < code c) s"

definition is_uint :: "int \<Rightarrow> bool" where
  "is_uint n \<longleftrightarrow> 0 \<le> n"

definition is_window :: "int \<Rightarrow> int \<Rightarrow> bool" where
  "is_window observed until \<longleftrightarrow> is_time observed \<and> is_time until \<and> observed \<le> until"

section \<open>Native liability vectors\<close>

definition utf8_length :: "string \<Rightarrow> nat" where
  "utf8_length s = sum_list (map (\<lambda>c. if code c < 128 then 1 else 2) s)"

record native_liability =
  nl_denomination :: string
  nl_amount :: int
  nl_version :: int

definition is_native_liability :: "native_liability \<Rightarrow> bool" where
  "is_native_liability q \<longleftrightarrow>
     is_financial_version (nl_version q) \<and> nl_denomination q \<noteq> []
     \<and> nl_denomination q = strip (nl_denomination q) \<and> utf8_length (nl_denomination q) \<le> 256
     \<and> \<not> list_ex (\<lambda>c. code c < 32 \<or> code c = 127) (nl_denomination q) \<and> is_uint (nl_amount q)"

definition canon_native_liability :: "native_liability \<Rightarrow> json" where
  "canon_native_liability x = canon_dataclass ''NativeLiability''
     [(''denomination'', JStr (nl_denomination x)),
      (''amount'', JInt (nl_amount x)),
      (''schema_version'', JInt (nl_version x))]"

record native_liability_vector =
  nv_quantities :: "native_liability list"
  nv_version :: int

definition is_native_liability_vector :: "native_liability_vector \<Rightarrow> bool" where
  "is_native_liability_vector v \<longleftrightarrow>
     is_financial_version (nv_version v) \<and> list_all is_native_liability (nv_quantities v)
     \<and> map nl_denomination (nv_quantities v) = sort (remdups (map nl_denomination (nv_quantities v)))"

definition canon_native_liability_vector :: "native_liability_vector \<Rightarrow> json" where
  "canon_native_liability_vector x = canon_dataclass ''NativeLiabilityVector''
     [(''quantities'', canon_tuple canon_native_liability (nv_quantities x)),
      (''schema_version'', JInt (nv_version x))]"

definition native_amount :: "native_liability_vector \<Rightarrow> string \<Rightarrow> int" where
  "native_amount v denomination =
     (case find (\<lambda>q. nl_denomination q = denomination) (nv_quantities v) of
        Some q \<Rightarrow> nl_amount q | None \<Rightarrow> 0)"

definition covers :: "native_liability_vector \<Rightarrow> native_liability_vector \<Rightarrow> bool" where
  "covers v other \<longleftrightarrow>
     (let names = map nl_denomination (nv_quantities v) in
      list_all (\<lambda>q. nl_denomination q \<in> set names \<and> nl_amount q \<le> native_amount v (nl_denomination q))
        (nv_quantities other))"

fun add_quantities :: "native_liability list \<Rightarrow> (string, int) dict \<Rightarrow> (string, int) dict" where
  "add_quantities [] amounts = amounts"
| "add_quantities (q # qs) amounts =
     add_quantities qs
       (dict_set (nl_denomination q)
          ((case dict_get amounts (nl_denomination q) of Some n \<Rightarrow> n | None \<Rightarrow> 0) + nl_amount q) amounts)"

fun add_vectors :: "native_liability_vector list \<Rightarrow> (string, int) dict \<Rightarrow> (string, int) dict" where
  "add_vectors [] amounts = amounts"
| "add_vectors (v # vs) amounts = add_vectors vs (add_quantities (nv_quantities v) amounts)"

definition mk_quantity :: "(string, int) dict \<Rightarrow> string \<Rightarrow> native_liability result" where
  "mk_quantity amounts k =
     (case dict_get amounts k of
        None \<Rightarrow> Inl KeyError
      | Some n \<Rightarrow> construct is_native_liability
          \<lparr>nl_denomination = k, nl_amount = n, nl_version = FINANCIAL_SCHEMA_VERSION\<rparr>)"

definition add_native_liabilities :: "native_liability_vector list \<Rightarrow> native_liability_vector result" where
  "add_native_liabilities vectors =
     (let amounts = add_vectors vectors [] in
      bindR (mapR (mk_quantity amounts) (sort (dict_keys amounts))) (\<lambda>quantities.
      construct is_native_liability_vector
        \<lparr>nv_quantities = quantities, nv_version = FINANCIAL_SCHEMA_VERSION\<rparr>))"

section \<open>Bases, principals and registrations\<close>

record qualified_uact_basis =
  qb_native_maximum :: native_liability_vector
  qb_amount_uact :: int
  qb_policy_revision :: string
  qb_attribution_digest :: string
  qb_evidence_digest :: string
  qb_source :: string
  qb_observed_at :: int
  qb_valid_until :: int
  qb_version :: int

definition is_qualified_uact_basis :: "qualified_uact_basis \<Rightarrow> bool" where
  "is_qualified_uact_basis b \<longleftrightarrow>
     is_financial_version (qb_version b) \<and> is_native_liability_vector (qb_native_maximum b)
     \<and> is_uint (qb_amount_uact b) \<and> qb_amount_uact b \<noteq> 0 \<and> is_revision (qb_policy_revision b)
     \<and> is_digest (qb_attribution_digest b) \<and> is_digest (qb_evidence_digest b)
     \<and> is_text (qb_source b) \<and> is_window (qb_observed_at b) (qb_valid_until b)"

definition canon_qualified_uact_basis :: "qualified_uact_basis \<Rightarrow> json" where
  "canon_qualified_uact_basis x = canon_dataclass ''QualifiedUactBasis''
     [(''native_maximum'', canon_native_liability_vector (qb_native_maximum x)),
      (''amount_uact'', JInt (qb_amount_uact x)),
      (''policy_revision'', JStr (qb_policy_revision x)),
      (''attribution_digest'', JStr (qb_attribution_digest x)),
      (''evidence_digest'', JStr (qb_evidence_digest x)),
      (''source'', JStr (qb_source x)),
      (''observed_at'', JInt (qb_observed_at x)),
      (''valid_until'', JInt (qb_valid_until x)),
      (''schema_version'', JInt (qb_version x))]"

record service_principal_binding =
  sp_issuer :: string
  sp_subject :: string
  sp_audience :: string
  sp_credential_fingerprint :: string
  sp_deployed_source_revision :: string
  sp_registration_digest :: string
  sp_version :: int

definition is_service_principal_binding :: "service_principal_binding \<Rightarrow> bool" where
  "is_service_principal_binding s \<longleftrightarrow>
     is_financial_version (sp_version s)
     \<and> is_text (sp_issuer s) \<and> is_text (sp_subject s) \<and> is_text (sp_audience s)
     \<and> is_digest (sp_credential_fingerprint s) \<and> is_revision (sp_deployed_source_revision s)
     \<and> is_digest (sp_registration_digest s)"

definition canon_service_principal_binding :: "service_principal_binding \<Rightarrow> json" where
  "canon_service_principal_binding x = canon_dataclass ''ServicePrincipalBinding''
     [(''issuer'', JStr (sp_issuer x)),
      (''subject'', JStr (sp_subject x)),
      (''audience'', JStr (sp_audience x)),
      (''credential_fingerprint'', JStr (sp_credential_fingerprint x)),
      (''deployed_source_revision'', JStr (sp_deployed_source_revision x)),
      (''registration_digest'', JStr (sp_registration_digest x)),
      (''schema_version'', JInt (sp_version x))]"

record funding_actor_registration =
  fr_actor_id :: string
  fr_chain_id :: string
  fr_owner :: string
  fr_backend :: backend_identity
  fr_principal :: service_principal_binding
  fr_cas_domain :: string
  fr_policy_revision :: string
  fr_writer_population_digest :: string
  fr_creator_leaf_digests :: "string list"
  fr_signing_wallets :: "string list"
  fr_purposes :: "financial_effect_purpose list"
  fr_evidence_digest :: string
  fr_observed_at :: int
  fr_valid_until :: int
  fr_version :: int

definition is_funding_actor_registration :: "funding_actor_registration \<Rightarrow> bool" where
  "is_funding_actor_registration r \<longleftrightarrow>
     is_financial_version (fr_version r)
     \<and> is_text (fr_actor_id r) \<and> is_text (fr_chain_id r) \<and> is_text (fr_cas_domain r)
     \<and> is_canonical_akash_owner (fr_owner r) \<and> is_backend_identity (fr_backend r)
     \<and> is_service_principal_binding (fr_principal r) \<and> is_revision (fr_policy_revision r)
     \<and> is_digest (fr_writer_population_digest r) \<and> is_digest (fr_evidence_digest r)
     \<and> is_window (fr_observed_at r) (fr_valid_until r)
     \<and> list_all (\<lambda>population. population \<noteq> [] \<and> population = sort (remdups population))
         [fr_creator_leaf_digests r, fr_signing_wallets r]
     \<and> list_all is_digest (fr_creator_leaf_digests r)
     \<and> list_all is_canonical_akash_owner (fr_signing_wallets r)
     \<and> fr_purposes r \<noteq> []
     \<and> fr_purposes r = sort_key financial_effect_purpose_value (remdups (fr_purposes r))"

definition canon_funding_actor_registration :: "funding_actor_registration \<Rightarrow> json" where
  "canon_funding_actor_registration x = canon_dataclass ''FundingActorRegistration''
     [(''actor_id'', JStr (fr_actor_id x)),
      (''chain_id'', JStr (fr_chain_id x)),
      (''owner'', JStr (fr_owner x)),
      (''backend'', canon_backend_identity (fr_backend x)),
      (''principal'', canon_service_principal_binding (fr_principal x)),
      (''cas_domain'', JStr (fr_cas_domain x)),
      (''policy_revision'', JStr (fr_policy_revision x)),
      (''writer_population_digest'', JStr (fr_writer_population_digest x)),
      (''creator_leaf_digests'', canon_tuple JStr (fr_creator_leaf_digests x)),
      (''signing_wallets'', canon_tuple JStr (fr_signing_wallets x)),
      (''purposes'', canon_tuple (canon_enum financial_effect_purpose_value) (fr_purposes x)),
      (''evidence_digest'', JStr (fr_evidence_digest x)),
      (''observed_at'', JInt (fr_observed_at x)),
      (''valid_until'', JInt (fr_valid_until x)),
      (''schema_version'', JInt (fr_version x))]"

record service_principal_observation =
  so_principal :: service_principal_binding
  so_revocation_epoch :: int
  so_status :: permit_revocation_status
  so_authentication_evidence_digest :: string
  so_observed_at :: int
  so_valid_until :: int
  so_version :: int

definition is_service_principal_observation :: "service_principal_observation \<Rightarrow> bool" where
  "is_service_principal_observation s \<longleftrightarrow>
     is_financial_version (so_version s) \<and> is_service_principal_binding (so_principal s)
     \<and> is_uint (so_revocation_epoch s) \<and> is_digest (so_authentication_evidence_digest s)
     \<and> is_window (so_observed_at s) (so_valid_until s)"

definition canon_service_principal_observation :: "service_principal_observation \<Rightarrow> json" where
  "canon_service_principal_observation x = canon_dataclass ''ServicePrincipalObservation''
     [(''principal'', canon_service_principal_binding (so_principal x)),
      (''revocation_epoch'', JInt (so_revocation_epoch x)),
      (''status'', canon_enum permit_revocation_status_value (so_status x)),
      (''authentication_evidence_digest'', JStr (so_authentication_evidence_digest x)),
      (''observed_at'', JInt (so_observed_at x)),
      (''valid_until'', JInt (so_valid_until x)),
      (''schema_version'', JInt (so_version x))]"

section \<open>Maxima, intents and observations\<close>

record operation_maximum_liability =
  om_quote_id :: string
  om_prepared :: prepared_create
  om_creator_leaf :: admission_scope
  om_cas_domain :: string
  om_policy_revision :: string
  om_writer_population_digest :: string
  om_native_maximum :: native_liability_vector
  om_uact_basis :: "qualified_uact_basis option"
  om_evidence_digest :: string
  om_observed_at :: int
  om_valid_until :: int
  om_version :: int

definition is_operation_maximum_liability :: "operation_maximum_liability \<Rightarrow> bool" where
  "is_operation_maximum_liability m \<longleftrightarrow>
     is_financial_version (om_version m) \<and> is_text (om_quote_id m) \<and> is_text (om_cas_domain m)
     \<and> is_revision (om_policy_revision m) \<and> is_digest (om_writer_population_digest m)
     \<and> is_digest (om_evidence_digest m) \<and> is_window (om_observed_at m) (om_valid_until m)
     \<and> is_prepared_create (om_prepared m) \<and> is_admission_scope (om_creator_leaf m)
     \<and> (let p = om_prepared m; leaf = om_creator_leaf m in
        as_owner leaf = oc_owner (pc_owner_candidate p)
        \<and> as_producer_issuer leaf = pp_issuer (pc_producer p)
        \<and> as_repository_owner_id leaf = pp_repository_owner_id (pc_producer p)
        \<and> as_repository_id leaf = pp_repository_id (pc_producer p)
        \<and> as_repository leaf = pp_repository (pc_producer p)
        \<and> as_workload_class leaf = li_workload_class (pc_lifecycle p))
     \<and> is_native_liability_vector (om_native_maximum m)
     \<and> list_ex (\<lambda>q. 0 < nl_amount q) (nv_quantities (om_native_maximum m))
     \<and> (case om_uact_basis m of None \<Rightarrow> True
        | Some b \<Rightarrow> is_qualified_uact_basis b \<and> qb_native_maximum b = om_native_maximum m
            \<and> qb_policy_revision b = om_policy_revision m)"

definition canon_operation_maximum_liability :: "operation_maximum_liability \<Rightarrow> json" where
  "canon_operation_maximum_liability x = canon_dataclass ''OperationMaximumLiability''
     [(''quote_id'', JStr (om_quote_id x)),
      (''prepared'', canon_prepared_create (om_prepared x)),
      (''creator_leaf'', canon_admission_scope (om_creator_leaf x)),
      (''cas_domain'', JStr (om_cas_domain x)),
      (''policy_revision'', JStr (om_policy_revision x)),
      (''writer_population_digest'', JStr (om_writer_population_digest x)),
      (''native_maximum'', canon_native_liability_vector (om_native_maximum x)),
      (''uact_basis'', canon_opt canon_qualified_uact_basis (om_uact_basis x)),
      (''evidence_digest'', JStr (om_evidence_digest x)),
      (''observed_at'', JInt (om_observed_at x)),
      (''valid_until'', JInt (om_valid_until x)),
      (''schema_version'', JInt (om_version x))]"

record financial_effect_intent =
  fi_operation_id :: string
  fi_effect_id :: string
  fi_attempt_id :: string
  fi_quote_digest :: string
  fi_actor_registration_digest :: string
  fi_principal :: service_principal_binding
  fi_revocation_epoch :: int
  fi_subject :: deployment_key
  fi_signing_wallet :: string
  fi_purpose :: financial_effect_purpose
  fi_message_digest :: string
  fi_sign_doc_digest :: string
  fi_fee_digest :: string
  fi_account_sequence :: int
  fi_maximum_debit :: native_liability_vector
  fi_fee_debit :: native_liability_vector
  fi_attribution_digest :: string
  fi_created_at :: int
  fi_version :: int

definition is_financial_effect_intent :: "financial_effect_intent \<Rightarrow> bool" where
  "is_financial_effect_intent i \<longleftrightarrow>
     is_financial_version (fi_version i)
     \<and> list_all (\<lambda>f. is_text (f i)) [fi_operation_id, fi_effect_id, fi_attempt_id]
     \<and> list_all (\<lambda>f. is_digest (f i)) [fi_quote_digest, fi_actor_registration_digest,
         fi_message_digest, fi_sign_doc_digest, fi_fee_digest, fi_attribution_digest]
     \<and> is_service_principal_binding (fi_principal i) \<and> is_deployment_key (fi_subject i)
     \<and> is_canonical_akash_owner (fi_signing_wallet i)
     \<and> is_uint (fi_revocation_epoch i) \<and> is_uint (fi_account_sequence i) \<and> is_time (fi_created_at i)
     \<and> is_native_liability_vector (fi_maximum_debit i) \<and> is_native_liability_vector (fi_fee_debit i)
     \<and> covers (fi_maximum_debit i) (fi_fee_debit i)
     \<and> (fi_purpose i = PURPOSE_TRANSACTION_FEE \<longrightarrow> fi_maximum_debit i = fi_fee_debit i)"

definition canon_financial_effect_intent :: "financial_effect_intent \<Rightarrow> json" where
  "canon_financial_effect_intent x = canon_dataclass ''FinancialEffectIntent''
     [(''operation_id'', JStr (fi_operation_id x)),
      (''effect_id'', JStr (fi_effect_id x)),
      (''attempt_id'', JStr (fi_attempt_id x)),
      (''quote_digest'', JStr (fi_quote_digest x)),
      (''actor_registration_digest'', JStr (fi_actor_registration_digest x)),
      (''principal'', canon_service_principal_binding (fi_principal x)),
      (''revocation_epoch'', JInt (fi_revocation_epoch x)),
      (''subject'', canon_deployment_key (fi_subject x)),
      (''signing_wallet'', JStr (fi_signing_wallet x)),
      (''purpose'', canon_enum financial_effect_purpose_value (fi_purpose x)),
      (''message_digest'', JStr (fi_message_digest x)),
      (''sign_doc_digest'', JStr (fi_sign_doc_digest x)),
      (''fee_digest'', JStr (fi_fee_digest x)),
      (''account_sequence'', JInt (fi_account_sequence x)),
      (''maximum_debit'', canon_native_liability_vector (fi_maximum_debit x)),
      (''fee_debit'', canon_native_liability_vector (fi_fee_debit x)),
      (''attribution_digest'', JStr (fi_attribution_digest x)),
      (''created_at'', JInt (fi_created_at x)),
      (''schema_version'', JInt (fi_version x))]"

record financial_effect_observation =
  fo_intent_digest :: string
  fo_state :: financial_effect_state
  fo_evidence_digest :: string
  fo_observed_at :: int
  fo_transaction_hash :: "string option"
  fo_actual_debit :: "native_liability_vector option"
  fo_transaction_code :: "int option"
  fo_principal_observation :: "service_principal_observation option"
  fo_version :: int

definition is_terminal :: "financial_effect_state \<Rightarrow> bool" where
  "is_terminal s \<longleftrightarrow> s = EFFECT_CONFIRMED \<or> s = EFFECT_FAILED"

definition is_financial_effect_observation :: "financial_effect_observation \<Rightarrow> bool" where
  "is_financial_effect_observation x \<longleftrightarrow>
     is_financial_version (fo_version x) \<and> is_digest (fo_intent_digest x)
     \<and> is_digest (fo_evidence_digest x) \<and> is_time (fo_observed_at x)
     \<and> fo_state x \<noteq> EFFECT_SIGN_RESERVED_UNKNOWN
     \<and> (if fo_state x = EFFECT_PROVEN_NOT_SIGNED
        then fo_transaction_hash x = None \<and> fo_transaction_code x = None \<and> fo_actual_debit x = None
        else (case fo_transaction_hash x of None \<Rightarrow> False | Some h \<Rightarrow> is_digest h))
     \<and> (if is_terminal (fo_state x)
        then (case (fo_actual_debit x, fo_transaction_code x) of
                (Some debit, Some tx_code) \<Rightarrow> is_native_liability_vector debit \<and> is_uint tx_code
                  \<and> tx_code \<le> 2 ^ 32 - 1 \<and> (tx_code = 0) = (fo_state x = EFFECT_CONFIRMED)
              | _ \<Rightarrow> False)
        else fo_actual_debit x = None \<and> fo_transaction_code x = None)
     \<and> (if fo_state x = EFFECT_BROADCAST_CLAIMED_UNKNOWN
        then (case fo_principal_observation x of None \<Rightarrow> False
              | Some s \<Rightarrow> is_service_principal_observation s)
        else fo_principal_observation x = None)"

definition canon_financial_effect_observation :: "financial_effect_observation \<Rightarrow> json" where
  "canon_financial_effect_observation x = canon_dataclass ''FinancialEffectObservation''
     [(''intent_digest'', JStr (fo_intent_digest x)),
      (''state'', canon_enum financial_effect_state_value (fo_state x)),
      (''evidence_digest'', JStr (fo_evidence_digest x)),
      (''observed_at'', JInt (fo_observed_at x)),
      (''transaction_hash'', canon_opt JStr (fo_transaction_hash x)),
      (''actual_debit'', canon_opt canon_native_liability_vector (fo_actual_debit x)),
      (''transaction_code'', canon_opt JInt (fo_transaction_code x)),
      (''principal_observation'', canon_opt canon_service_principal_observation (fo_principal_observation x)),
      (''schema_version'', JInt (fo_version x))]"

section \<open>Effect records\<close>

record financial_effect_record =
  fe_intent :: financial_effect_intent
  fe_observations :: "financial_effect_observation list"
  fe_version :: int

definition canon_financial_effect_record :: "financial_effect_record \<Rightarrow> json" where
  "canon_financial_effect_record x = canon_dataclass ''FinancialEffectRecord''
     [(''intent'', canon_financial_effect_intent (fe_intent x)),
      (''observations'', canon_tuple canon_financial_effect_observation (fe_observations x)),
      (''schema_version'', JInt (fe_version x))]"

fun next_effect_states :: "financial_effect_state \<Rightarrow> financial_effect_state list" where
  "next_effect_states EFFECT_SIGN_RESERVED_UNKNOWN = [EFFECT_SIGNED, EFFECT_PROVEN_NOT_SIGNED]"
| "next_effect_states EFFECT_SIGNED = [EFFECT_BROADCAST_CLAIMED_UNKNOWN]"
| "next_effect_states EFFECT_BROADCAST_CLAIMED_UNKNOWN = [EFFECT_CONFIRMED, EFFECT_FAILED]"
| "next_effect_states _ = []"

fun observations_follow ::
    "financial_effect_intent \<Rightarrow> financial_effect_state \<Rightarrow> int \<Rightarrow> string option
     \<Rightarrow> financial_effect_observation list \<Rightarrow> bool" where
  "observations_follow i prior previous_time transaction [] = True"
| "observations_follow i prior previous_time transaction (x # xs) \<longleftrightarrow>
     is_financial_effect_observation x
     \<and> fo_state x \<in> set (next_effect_states prior) \<and> previous_time \<le> fo_observed_at x
     \<and> fo_intent_digest x = canonical_journal_digest (canon_financial_effect_intent i)
     \<and> (transaction = None \<or> fo_transaction_hash x = transaction)
     \<and> (case fo_principal_observation x of None \<Rightarrow> True
        | Some s \<Rightarrow> so_principal s = fi_principal i \<and> so_revocation_epoch s = fi_revocation_epoch i
            \<and> so_status s = PERMIT_ACTIVE
            \<and> so_observed_at s \<le> fo_observed_at x \<and> fo_observed_at x \<le> so_valid_until s)
     \<and> (case fo_actual_debit x of None \<Rightarrow> True
        | Some debit \<Rightarrow> covers (fi_maximum_debit i) debit \<and> covers debit (fi_fee_debit i))
     \<and> observations_follow i (fo_state x) (fo_observed_at x)
         (case fo_transaction_hash x of None \<Rightarrow> transaction | Some h \<Rightarrow> Some h) xs"

definition is_financial_effect_record :: "financial_effect_record \<Rightarrow> bool" where
  "is_financial_effect_record e \<longleftrightarrow>
     is_financial_version (fe_version e) \<and> is_financial_effect_intent (fe_intent e)
     \<and> observations_follow (fe_intent e) EFFECT_SIGN_RESERVED_UNKNOWN (fi_created_at (fe_intent e))
         None (fe_observations e)"

definition effect_state :: "financial_effect_record \<Rightarrow> financial_effect_state" where
  "effect_state e = (if fe_observations e = [] then EFFECT_SIGN_RESERVED_UNKNOWN
     else fo_state (last (fe_observations e)))"

definition no_debit :: native_liability_vector where
  "no_debit = \<lparr>nv_quantities = [], nv_version = FINANCIAL_SCHEMA_VERSION\<rparr>"

definition charged_debit :: "financial_effect_record \<Rightarrow> native_liability_vector result" where
  "charged_debit e =
     (if effect_state e = EFFECT_PROVEN_NOT_SIGNED then Inr no_debit
      else if is_terminal (effect_state e)
      then (case fo_actual_debit (last (fe_observations e)) of
              None \<Rightarrow> Inl ValueError | Some debit \<Rightarrow> Inr debit)
      else Inr (fi_maximum_debit (fe_intent e)))"

section \<open>Operation states\<close>

record financial_operation_state =
  fs_maximum :: operation_maximum_liability
  fs_revision :: int
  fs_previous_digest :: "string option"
  fs_effects :: "financial_effect_record list"
  fs_version :: int

definition canon_financial_operation_state :: "financial_operation_state \<Rightarrow> json" where
  "canon_financial_operation_state x = canon_dataclass ''FinancialOperationState''
     [(''maximum'', canon_operation_maximum_liability (fs_maximum x)),
      (''revision'', JInt (fs_revision x)),
      (''previous_digest'', canon_opt JStr (fs_previous_digest x)),
      (''effects'', canon_tuple canon_financial_effect_record (fs_effects x)),
      (''schema_version'', JInt (fs_version x))]"

definition effects_usage :: "financial_effect_record list \<Rightarrow> native_liability_vector result" where
  "effects_usage es = bindR (mapR charged_debit es) add_native_liabilities"

definition financial_native_usage :: "financial_operation_state \<Rightarrow> native_liability_vector result" where
  "financial_native_usage s = effects_usage (fs_effects s)"

definition is_financial_operation_state :: "financial_operation_state \<Rightarrow> bool" where
  "is_financial_operation_state s \<longleftrightarrow>
     (let es = fs_effects s; q = fs_maximum s; intents = map fe_intent es in
      is_financial_version (fs_version s) \<and> is_operation_maximum_liability q \<and> is_uint (fs_revision s)
      \<and> (if fs_revision s = 0 then fs_previous_digest s = None \<and> es = []
         else (case fs_previous_digest s of None \<Rightarrow> False | Some d \<Rightarrow> is_digest d))
      \<and> list_all is_financial_effect_record es
      \<and> fs_revision s = sum_list (map (\<lambda>e. 1 + int (length (fe_observations e))) es)
      \<and> distinct (map fi_effect_id intents) \<and> distinct (map fi_attempt_id intents)
      \<and> distinct (map fi_sign_doc_digest intents)
      \<and> distinct (map (\<lambda>i. (fi_signing_wallet i, fi_account_sequence i)) intents)
      \<and> length (remdups (map fi_subject intents)) \<le> 1
      \<and> (case es of [] \<Rightarrow> True
         | initial # rest \<Rightarrow>
             fi_purpose (fe_intent initial) = PURPOSE_CREATE
             \<and> list_all (\<lambda>e. fi_purpose (fe_intent e) \<noteq> PURPOSE_CREATE
                 \<and> fi_purpose (fe_intent e) \<noteq> PURPOSE_AMENDMENT
                 \<and> effect_state initial = EFFECT_CONFIRMED
                 \<and> fo_observed_at (last (fe_observations initial)) \<le> fi_created_at (fe_intent e)) rest)
      \<and> list_all (\<lambda>i. fi_operation_id i = pc_operation_id (om_prepared q)
          \<and> fi_quote_digest i = canonical_journal_digest (canon_operation_maximum_liability q)
          \<and> dk_owner (fi_subject i) = as_owner (om_creator_leaf q)) intents
      \<and> (case financial_native_usage s of
           Inl _ \<Rightarrow> False | Inr used \<Rightarrow> covers (om_native_maximum q) used))"

definition financial_state_digest :: "financial_operation_state \<Rightarrow> string" where
  "financial_state_digest s = canonical_journal_digest (canon_financial_operation_state s)"

record financial_commit_binding =
  fc_cas_domain :: string
  fc_chain_id :: string
  fc_owner :: string
  fc_operation_id :: string
  fc_owner_revision :: int
  fc_owner_state_digest :: string
  fc_financial_revision :: int
  fc_financial_state_digest :: string
  fc_receipt_digest :: string
  fc_observed_at :: int
  fc_version :: int

definition is_financial_commit_binding :: "financial_commit_binding \<Rightarrow> bool" where
  "is_financial_commit_binding c \<longleftrightarrow>
     is_financial_version (fc_version c)
     \<and> is_text (fc_cas_domain c) \<and> is_text (fc_chain_id c) \<and> is_text (fc_operation_id c)
     \<and> is_canonical_akash_owner (fc_owner c) \<and> is_uint (fc_owner_revision c) \<and> fc_owner_revision c \<noteq> 0
     \<and> is_uint (fc_financial_revision c) \<and> is_digest (fc_owner_state_digest c)
     \<and> is_digest (fc_financial_state_digest c) \<and> is_digest (fc_receipt_digest c)
     \<and> is_time (fc_observed_at c)"

section \<open>Transitions\<close>

definition refuse_financial :: "bool \<Rightarrow> unit result" where
  "refuse_financial c = raise_if c FinancialTransitionError"

definition latest_evidence :: "financial_operation_state \<Rightarrow> int" where
  "latest_evidence s =
     (let observed = concat (map (\<lambda>e. map fo_observed_at (fe_observations e)) (fs_effects s));
          latest = (case observed of [] \<Rightarrow> om_observed_at (fs_maximum s) | t # ts \<Rightarrow> fold max ts t)
      in fold max (map (\<lambda>e. fi_created_at (fe_intent e)) (fs_effects s)) latest)"

definition validate_financial_commit_binding ::
    "financial_operation_state \<Rightarrow> financial_commit_binding \<Rightarrow> unit result" where
  "validate_financial_commit_binding s c =
     (let q = fs_maximum s in
      bindR (refuse_financial (fc_cas_domain c \<noteq> om_cas_domain q
          \<or> fc_chain_id c \<noteq> as_chain_id (om_creator_leaf q)
          \<or> fc_owner c \<noteq> as_owner (om_creator_leaf q)
          \<or> fc_operation_id c \<noteq> pc_operation_id (om_prepared q)
          \<or> fc_financial_revision c \<noteq> fs_revision s
          \<or> fc_financial_state_digest c \<noteq> financial_state_digest s)) (\<lambda>_.
      refuse_financial (fc_observed_at c < latest_evidence s)))"

definition propose_operation_maximum ::
    "operation_maximum_liability \<Rightarrow> int \<Rightarrow> financial_operation_state result" where
  "propose_operation_maximum m now =
     bindR (raise_if (\<not> is_time now) ValueError) (\<lambda>_.
     bindR (refuse_financial (\<not> (om_observed_at m \<le> now \<and> now \<le> om_valid_until m))) (\<lambda>_.
     bindR (refuse_financial (case om_uact_basis m of None \<Rightarrow> False
        | Some b \<Rightarrow> \<not> (qb_observed_at b \<le> now \<and> now \<le> qb_valid_until b))) (\<lambda>_.
     construct is_financial_operation_state
       \<lparr>fs_maximum = m, fs_revision = 0, fs_previous_digest = None, fs_effects = [],
        fs_version = FINANCIAL_SCHEMA_VERSION\<rparr>)))"

definition check_actor ::
    "financial_effect_intent \<Rightarrow> funding_actor_registration \<Rightarrow> service_principal_observation
     \<Rightarrow> int \<Rightarrow> unit result" where
  "check_actor i r obs now =
     refuse_financial (fi_principal i \<noteq> fr_principal r \<or> so_principal obs \<noteq> fr_principal r
       \<or> fi_actor_registration_digest i \<noteq> canonical_journal_digest (canon_funding_actor_registration r)
       \<or> fi_revocation_epoch i \<noteq> so_revocation_epoch obs \<or> so_status obs \<noteq> PERMIT_ACTIVE
       \<or> \<not> (so_observed_at obs \<le> now \<and> now \<le> so_valid_until obs)
       \<or> \<not> (fr_observed_at r \<le> now \<and> now \<le> fr_valid_until r)
       \<or> fi_created_at i \<noteq> now)"

definition check_registration ::
    "operation_maximum_liability \<Rightarrow> financial_effect_intent \<Rightarrow> funding_actor_registration \<Rightarrow> unit result" where
  "check_registration q i r =
     bindR (refuse_financial (fr_chain_id r \<noteq> as_chain_id (om_creator_leaf q)
         \<or> fr_owner r \<noteq> as_owner (om_creator_leaf q)
         \<or> fr_backend r \<noteq> oc_backend (pc_owner_candidate (om_prepared q))
         \<or> fr_cas_domain r \<noteq> om_cas_domain q \<or> fr_policy_revision r \<noteq> om_policy_revision q
         \<or> fr_writer_population_digest r \<noteq> om_writer_population_digest q)) (\<lambda>_.
     refuse_financial
       (canonical_journal_digest (canon_admission_scope (om_creator_leaf q)) \<notin> set (fr_creator_leaf_digests r)
        \<or> fi_signing_wallet i \<notin> set (fr_signing_wallets r) \<or> fi_purpose i \<notin> set (fr_purposes r)
        \<or> fi_purpose i = PURPOSE_AMENDMENT))"

definition check_sequence :: "financial_effect_record list \<Rightarrow> financial_effect_intent \<Rightarrow> unit result" where
  "check_sequence es i =
     bindR (refuse_financial (list_ex (\<lambda>e. fi_effect_id (fe_intent e) = fi_effect_id i
         \<or> fi_attempt_id (fe_intent e) = fi_attempt_id i) es)) (\<lambda>_.
     bindR (refuse_financial (es = [] \<and> fi_purpose i \<noteq> PURPOSE_CREATE)) (\<lambda>_.
     bindR (refuse_financial (es \<noteq> [] \<and> fi_purpose i = PURPOSE_CREATE)) (\<lambda>_.
     refuse_financial (es \<noteq> [] \<and> effect_state (hd es) \<noteq> EFFECT_CONFIRMED))))"

definition propose_financial_effect ::
    "financial_operation_state \<Rightarrow> financial_effect_intent \<Rightarrow> funding_actor_registration
     \<Rightarrow> service_principal_observation \<Rightarrow> financial_commit_binding \<Rightarrow> int
     \<Rightarrow> financial_operation_state result" where
  "propose_financial_effect s i r obs c now =
     bindR (raise_if (\<not> is_time now) ValueError) (\<lambda>_.
     bindR (validate_financial_commit_binding s c) (\<lambda>_.
     bindR (refuse_financial (now < fc_observed_at c)) (\<lambda>_.
     bindR (check_actor i r obs now) (\<lambda>_.
     bindR (check_registration (fs_maximum s) i r) (\<lambda>_.
     bindR (check_sequence (fs_effects s) i) (\<lambda>_.
     bindR (construct is_financial_effect_record
         \<lparr>fe_intent = i, fe_observations = [], fe_version = FINANCIAL_SCHEMA_VERSION\<rparr>) (\<lambda>e.
     construct is_financial_operation_state
       \<lparr>fs_maximum = fs_maximum s, fs_revision = fs_revision s + 1,
        fs_previous_digest = Some (financial_state_digest s), fs_effects = fs_effects s @ [e],
        fs_version = FINANCIAL_SCHEMA_VERSION\<rparr>)))))))"

definition propose_financial_observation ::
    "financial_operation_state \<Rightarrow> string \<Rightarrow> financial_effect_observation \<Rightarrow> financial_commit_binding
     \<Rightarrow> int \<Rightarrow> financial_operation_state result" where
  "propose_financial_observation s effect_id x c now =
     bindR (raise_if (\<not> is_time now) ValueError) (\<lambda>_.
     bindR (validate_financial_commit_binding s c) (\<lambda>_.
     bindR (refuse_financial (now < fc_observed_at c)) (\<lambda>_.
     bindR (refuse_financial (now < fo_observed_at x)) (\<lambda>_.
     bindR (refuse_financial (fo_state x = EFFECT_BROADCAST_CLAIMED_UNKNOWN
         \<and> (fo_observed_at x \<noteq> now
            \<or> (case fo_principal_observation x of None \<Rightarrow> True
               | Some p \<Rightarrow> so_status p \<noteq> PERMIT_ACTIVE
                   \<or> \<not> (so_observed_at p \<le> now \<and> now \<le> so_valid_until p))))) (\<lambda>_.
     bindR (raise_if (\<not> is_text effect_id) ValueError) (\<lambda>_.
     (case filter (\<lambda>e. fi_effect_id (fe_intent e) = effect_id) (fs_effects s) of
        [current] \<Rightarrow>
          bindR (if is_financial_effect_record (current\<lparr>fe_observations := fe_observations current @ [x]\<rparr>)
                 then Inr (current\<lparr>fe_observations := fe_observations current @ [x]\<rparr>)
                 else Inl FinancialTransitionError) (\<lambda>updated.
          construct is_financial_operation_state
            \<lparr>fs_maximum = fs_maximum s, fs_revision = fs_revision s + 1,
             fs_previous_digest = Some (financial_state_digest s),
             fs_effects = map (\<lambda>e. if e = current then updated else e) (fs_effects s),
             fs_version = FINANCIAL_SCHEMA_VERSION\<rparr>)
      | _ \<Rightarrow> Inl FinancialTransitionError)))))))"

end
