(* ===== verification/LiabilityVectors.thy ===== *)
theory LiabilityVectors
  imports Exposure
begin

text \<open>
  Liability vectors as finite maps from denominations to amounts: what covering means, and
  that the addition of vectors is exact.
\<close>

section \<open>Vectors as finite maps\<close>

definition names :: "native_liability_vector \<Rightarrow> string list" where
  "names v = map nl_denomination (nv_quantities v)"

definition amounts_of :: "native_liability_vector \<Rightarrow> (string, int) dict" where
  "amounts_of v = map (\<lambda>q. (nl_denomination q, nl_amount q)) (nv_quantities v)"

lemma names_amounts: "map fst (amounts_of v) = names v"
  by (simp add: names_def amounts_of_def o_def)

lemma native_amount_get:
  "native_amount v d = (case dict_get (amounts_of v) d of Some n \<Rightarrow> n | None \<Rightarrow> 0)"
proof -
  have "(case find (\<lambda>q. nl_denomination q = d) qs of Some q \<Rightarrow> nl_amount q | None \<Rightarrow> 0)
      = (case map_of (map (\<lambda>q. (nl_denomination q, nl_amount q)) qs) d of Some n \<Rightarrow> n | None \<Rightarrow> 0)" for qs
    by (induction qs) auto
  then show ?thesis by (simp add: native_amount_def amounts_of_def)
qed

lemma vector_names:
  assumes "is_native_liability_vector v"
  shows "distinct (names v)" "sorted (names v)"
proof -
  have "names v = sort (remdups (names v))"
    using assms by (simp add: is_native_liability_vector_def names_def)
  then show "distinct (names v)" "sorted (names v)"
    by (metis distinct_remdups distinct_sort, metis sorted_sort)
qed

lemma names_get: "dict_get (amounts_of v) d = None \<longleftrightarrow> d \<notin> set (names v)"
  by (simp add: map_of_eq_None_iff names_amounts[symmetric])

lemma quantity_get:
  assumes "is_native_liability_vector v"
  shows "q \<in> set (nv_quantities v) \<Longrightarrow> dict_get (amounts_of v) (nl_denomination q) = Some (nl_amount q)"
    and "dict_get (amounts_of v) d = Some n \<Longrightarrow>
      \<exists>q \<in> set (nv_quantities v). nl_denomination q = d \<and> nl_amount q = n"
proof -
  have d: "distinct (map fst (amounts_of v))" using vector_names[OF assms] names_amounts by simp
  show "q \<in> set (nv_quantities v) \<Longrightarrow> dict_get (amounts_of v) (nl_denomination q) = Some (nl_amount q)"
    using d by (intro map_of_is_SomeI) (auto simp: amounts_of_def)
  show "dict_get (amounts_of v) d = Some n \<Longrightarrow>
      \<exists>q \<in> set (nv_quantities v). nl_denomination q = d \<and> nl_amount q = n"
    by (auto simp: amounts_of_def dest!: map_of_SomeD)
qed

lemma covers_iff:
  assumes "is_native_liability_vector w"
  shows "covers v w \<longleftrightarrow> set (names w) \<subseteq> set (names v)
    \<and> (\<forall>d \<in> set (names w). native_amount w d \<le> native_amount v d)"
proof -
  have amt: "native_amount w (nl_denomination q) = nl_amount q" if "q \<in> set (nv_quantities w)" for q
    using quantity_get(1)[OF assms that] by (simp add: native_amount_get)
  show ?thesis
    using amt by (auto simp: covers_def Let_def list_all_iff names_def)
qed

lemma native_amount_nonneg:
  assumes "is_native_liability_vector v"
  shows "0 \<le> native_amount v d"
proof (cases "dict_get (amounts_of v) d")
  case (Some n)
  then obtain q where "q \<in> set (nv_quantities v)" "nl_amount q = n"
    using quantity_get(2)[OF assms] by blast
  then show ?thesis using assms Some
    by (auto simp: native_amount_get is_native_liability_vector_def list_all_iff is_native_liability_def is_uint_def)
qed (simp add: native_amount_get)

lemma native_amount_absent: "d \<notin> set (names v) \<Longrightarrow> native_amount v d = 0"
  by (metis names_get native_amount_get option.simps(4))

lemma covers_amount:
  assumes "is_native_liability_vector v" "is_native_liability_vector w" "covers v w"
  shows "native_amount w d \<le> native_amount v d"
  using assms covers_iff[OF assms(2)] native_amount_nonneg[OF assms(1)] native_amount_absent
  by (cases "d \<in> set (names w)") auto

section \<open>Addition\<close>

definition named_in :: "native_liability_vector list \<Rightarrow> string \<Rightarrow> bool" where
  "named_in vs d \<longleftrightarrow> (\<exists>v \<in> set vs. d \<in> set (names v))"

definition total_amount :: "native_liability_vector list \<Rightarrow> string \<Rightarrow> int" where
  "total_amount vs d = sum_list (map (\<lambda>v. native_amount v d) vs)"

lemma add_quantities_get:
  assumes "distinct (map nl_denomination qs)"
  shows "dict_get (add_quantities qs a) d =
    (case map_of (map (\<lambda>q. (nl_denomination q, nl_amount q)) qs) d of
       None \<Rightarrow> dict_get a d
     | Some n \<Rightarrow> Some ((case dict_get a d of Some m \<Rightarrow> m | None \<Rightarrow> 0) + n))"
  using assms
proof (induction qs arbitrary: a)
  case (Cons q qs)
  have "map_of (map (\<lambda>q. (nl_denomination q, nl_amount q)) qs) (nl_denomination q) = None"
    using Cons.prems by (simp add: map_of_eq_None_iff image_image)
  then show ?case using Cons by (auto split: option.splits)
qed simp

lemma total_amount_absent: "\<not> named_in vs d \<Longrightarrow> total_amount vs d = 0"
  by (induction vs) (auto simp: total_amount_def named_in_def native_amount_absent)

lemma add_vectors_get:
  assumes "list_all is_native_liability_vector vs"
  shows "dict_get (add_vectors vs a) d =
    (if named_in vs d then Some ((case dict_get a d of Some m \<Rightarrow> m | None \<Rightarrow> 0) + total_amount vs d)
     else dict_get a d)"
  using assms
proof (induction vs arbitrary: a)
  case (Cons v vs)
  have "distinct (map nl_denomination (nv_quantities v))"
    using vector_names(1)[of v] Cons.prems by (simp add: names_def)
  from add_quantities_get[OF this, of a d]
  have g: "dict_get (add_quantities (nv_quantities v) a) d =
    (if d \<in> set (names v) then Some ((case dict_get a d of Some m \<Rightarrow> m | None \<Rightarrow> 0) + native_amount v d)
     else dict_get a d)"
    using names_get[of v d] by (auto simp: native_amount_get amounts_of_def split: option.splits)
  show ?case using Cons native_amount_absent[of d v] total_amount_absent[of vs d]
    by (auto simp: g named_in_def total_amount_def split: if_splits)
qed (simp add: named_in_def total_amount_def)

lemma add_quantities_ok: "dict_ok a \<Longrightarrow> dict_ok (add_quantities qs a)"
  by (induction qs arbitrary: a) auto

lemma add_vectors_ok: "dict_ok a \<Longrightarrow> dict_ok (add_vectors vs a)"
  by (induction vs arbitrary: a) (auto simp: add_quantities_ok)

lemma total_amount_nonneg:
  "list_all is_native_liability_vector vs \<Longrightarrow> 0 \<le> total_amount vs d"
  by (induction vs) (simp_all add: total_amount_def native_amount_nonneg)

lemma add_liabilities:
  assumes "list_all is_native_liability_vector vs"
  shows "\<exists>v. add_native_liabilities vs = Inr v \<and> is_native_liability_vector v
    \<and> (\<forall>d. native_amount v d = sum_list (map (\<lambda>w. native_amount w d) vs))
    \<and> set (names v) = (\<Union>w \<in> set vs. set (names w))"
proof -
  let ?a = "add_vectors vs []"
  let ?ks = "sort (dict_keys ?a)"
  have get: "dict_get ?a d = (if named_in vs d then Some (total_amount vs d) else None)" for d
    using add_vectors_get[OF assms, of "[]" d] by simp
  have dist: "distinct ?ks" using add_vectors_ok[of "[]" vs] by (simp add: dict_keys_def dict_ok_def)
  have keys: "set ?ks = {d. named_in vs d}"
  proof -
    have "d \<in> set (dict_keys ?a) \<longleftrightarrow> dict_get ?a d \<noteq> None" for d
      by (simp add: dict_keys_def map_of_eq_None_iff)
    then show ?thesis using get by (auto split: if_splits)
  qed
  define qs where "qs = map (\<lambda>k. \<lparr>nl_denomination = k, nl_amount = total_amount vs k,
      nl_version = FINANCIAL_SCHEMA_VERSION\<rparr>) ?ks"
  define v where "v = \<lparr>nv_quantities = qs, nv_version = FINANCIAL_SCHEMA_VERSION\<rparr>"
  have good: "is_native_liability \<lparr>nl_denomination = k, nl_amount = total_amount vs k,
      nl_version = FINANCIAL_SCHEMA_VERSION\<rparr>" if nk: "named_in vs k" for k
  proof -
    obtain w q where "w \<in> set vs" "q \<in> set (nv_quantities w)" "nl_denomination q = k"
      using nk by (auto simp: named_in_def names_def)
    moreover from this have "is_native_liability q"
      using assms by (auto simp: list_all_iff is_native_liability_vector_def)
    ultimately show ?thesis using total_amount_nonneg[OF assms, of k]
      by (auto simp: is_native_liability_def is_uint_def is_financial_version_def)
  qed
  have "mapR (mk_quantity ?a) ?ks = Inr qs"
    unfolding qs_def using good keys get by (intro mapR_all_Inr) (auto simp: mk_quantity_def construct_def)
  moreover have nm: "names v = ?ks" by (simp add: names_def v_def qs_def o_def)
  moreover have "is_native_liability_vector v"
    using good keys dist nm
    by (simp add: is_native_liability_vector_def names_def[symmetric] is_financial_version_def
        list_all_iff distinct_remdups_id sort_key_id_if_sorted) (auto simp: v_def qs_def)
  moreover have "native_amount v d = total_amount vs d" for d
  proof (cases "named_in vs d")
    case True
    then have "dict_get (amounts_of v) d = Some (total_amount vs d)"
      using keys dist by (intro map_of_is_SomeI) (auto simp: amounts_of_def v_def qs_def o_def)
    then show ?thesis by (simp add: native_amount_get)
  next
    case False
    then show ?thesis using nm keys native_amount_absent[of d v] total_amount_absent[of vs d] by auto
  qed
  ultimately show ?thesis
    using keys by (auto simp: add_native_liabilities_def Let_def construct_def v_def named_in_def total_amount_def)
qed


definition sample_vector :: "int \<Rightarrow> native_liability_vector" where
  "sample_vector n =
     \<lparr>nv_quantities = [\<lparr>nl_denomination = ''uakt'', nl_amount = n, nl_version = 1\<rparr>], nv_version = 1\<rparr>"

lemma sample_quantity_ok [simp]:
  "0 \<le> n \<Longrightarrow> is_native_liability \<lparr>nl_denomination = ''uakt'', nl_amount = n, nl_version = 1\<rparr>"
proof -
  have "is_native_liability \<lparr>nl_denomination = ''uakt'', nl_amount = 0, nl_version = 1\<rparr>" by code_simp
  then show "0 \<le> n \<Longrightarrow> is_native_liability \<lparr>nl_denomination = ''uakt'', nl_amount = n, nl_version = 1\<rparr>"
    by (simp add: is_native_liability_def is_uint_def)
qed

lemma sample_vector_ok [simp]: "0 \<le> n \<Longrightarrow> is_native_liability_vector (sample_vector n)"
  by (simp add: is_native_liability_vector_def sample_vector_def is_financial_version_def FINANCIAL_SCHEMA_VERSION_def)

lemma sample_vector_amount [simp]: "native_amount (sample_vector n) ''uakt'' = n"
  by (simp add: native_amount_def sample_vector_def)

text \<open>
  addition of liabilities is exact and total. On every population of well-formed vectors
  the sum exists, is a well-formed vector (sorted, unique denominations), names exactly the
  denominations that some vector names, and its amount in every denomination is the
  unbounded integer sum of the amounts.
\<close>

theorem add_native_liabilities_exact:
  assumes "list_all is_native_liability_vector vs"
  shows "\<exists>v. add_native_liabilities vs = Inr v \<and> is_native_liability_vector v
    \<and> (\<forall>d. native_amount v d = sum_list (map (\<lambda>w. native_amount w d) vs))
    \<and> set (names v) = (\<Union>w \<in> set vs. set (names w))"
  by (rule add_liabilities[OF assms])

lemma add_native_liabilities_exact_witness:
  "\<exists>v. add_native_liabilities [sample_vector 4, sample_vector 3] = Inr v \<and> native_amount v ''uakt'' = 7"
  using add_native_liabilities_exact[of "[sample_vector 4, sample_vector 3]"]
  by auto

end
