(* ===== verification/ExposureProperties.thy ===== *)
theory ExposureProperties
  imports LiabilityVectors AdmissionSample
begin

text \<open>
  The guarantees of the financial records of one operation: its retained history only grows,
  its charged usage stays within the lifetime maximum, a new effect reserves its maximum
  debit, and the observation of an outcome is never refused on account of the maximum.
\<close>

section \<open>Charges\<close>

lemma covers_trans:
  assumes "is_native_liability_vector u" "is_native_liability_vector v" "is_native_liability_vector w"
    "covers u v" "covers v w"
  shows "covers u w"
proof -
  have "native_amount w d \<le> native_amount u d" for d
    using covers_amount[OF assms(1,2,4), of d] covers_amount[OF assms(2,3,5), of d] by simp
  then show ?thesis
    using assms(4,5) covers_iff[OF assms(2)] covers_iff[OF assms(3)] by blast
qed

lemma covers_refl: "is_native_liability_vector v \<Longrightarrow> covers v v"
  using covers_iff by blast

lemma no_debit_ok [simp]: "is_native_liability_vector no_debit" "covers v no_debit"
  by (simp_all add: is_native_liability_vector_def no_debit_def covers_def is_financial_version_def Let_def
      FINANCIAL_SCHEMA_VERSION_def)

lemma intent_maximum: "is_financial_effect_intent i \<Longrightarrow> is_native_liability_vector (fi_maximum_debit i)"
  by (simp add: is_financial_effect_intent_def)

lemma observations_debit:
  assumes "observations_follow i st t tx xs" "x \<in> set xs" "fo_actual_debit x = Some debit"
  shows "covers (fi_maximum_debit i) debit \<and> is_native_liability_vector debit"
  using assms
proof (induction xs arbitrary: st t tx)
  case (Cons y ys)
  show ?case
  proof (cases "x = y")
    case True
    then have "is_native_liability_vector debit" "covers (fi_maximum_debit i) debit"
      using Cons.prems by (auto simp: is_financial_effect_observation_def split: option.splits if_splits)
    then show ?thesis by simp
  qed (use Cons in auto)
qed simp

lemma observations_terminal:
  assumes "observations_follow i st t tx xs" "x \<in> set xs" "is_terminal (fo_state x)"
  shows "\<exists>debit. fo_actual_debit x = Some debit"
  using assms
proof (induction xs arbitrary: st t tx)
  case (Cons y ys)
  then show ?case
    by (cases "x = y") (auto simp: is_financial_effect_observation_def split: option.splits)
qed simp

lemma charged_debit_ok:
  assumes "is_financial_effect_record e"
  obtains debit where "charged_debit e = Inr debit" "is_native_liability_vector debit"
    "covers (fi_maximum_debit (fe_intent e)) debit"
proof -
  have m: "is_native_liability_vector (fi_maximum_debit (fe_intent e))"
    using assms by (simp add: is_financial_effect_record_def intent_maximum)
  consider "effect_state e = EFFECT_PROVEN_NOT_SIGNED"
    | "effect_state e \<noteq> EFFECT_PROVEN_NOT_SIGNED" "\<not> is_terminal (effect_state e)"
    | "effect_state e \<noteq> EFFECT_PROVEN_NOT_SIGNED" "is_terminal (effect_state e)" by blast
  then show thesis
  proof cases
    case 3
    then have ne: "fe_observations e \<noteq> []" and t: "is_terminal (fo_state (last (fe_observations e)))"
      by (auto simp: effect_state_def is_terminal_def split: if_splits)
    obtain debit where d: "fo_actual_debit (last (fe_observations e)) = Some debit"
      using observations_terminal[OF _ last_in_set[OF ne] t] assms unfolding is_financial_effect_record_def by blast
    moreover have "covers (fi_maximum_debit (fe_intent e)) debit \<and> is_native_liability_vector debit"
      using observations_debit[OF _ last_in_set[OF ne] d] assms unfolding is_financial_effect_record_def by blast
    ultimately show ?thesis using 3 that[of debit] by (simp add: charged_debit_def)
  qed (use that[of no_debit] that m covers_refl in \<open>auto simp: charged_debit_def\<close>)
qed

text \<open>Only an unresolved effect takes another observation, and it is charged its maximum.\<close>

lemma observations_follow_append:
  "observations_follow i st t tx (xs @ [x]) \<Longrightarrow> observations_follow i st t tx xs
    \<and> fo_state x \<in> set (next_effect_states (if xs = [] then st else fo_state (last xs)))"
  by (induction xs arbitrary: st t tx) auto

lemma observed_record:
  assumes "is_financial_effect_record (e\<lparr>fe_observations := fe_observations e @ [x]\<rparr>)"
  shows "is_financial_effect_record e" "charged_debit e = Inr (fi_maximum_debit (fe_intent e))"
    "effect_state e \<noteq> EFFECT_CONFIRMED"
proof -
  have f: "observations_follow (fe_intent e) EFFECT_SIGN_RESERVED_UNKNOWN (fi_created_at (fe_intent e))
      None (fe_observations e) \<and> fo_state x \<in> set (next_effect_states (effect_state e))"
    using assms observations_follow_append[of "fe_intent e" EFFECT_SIGN_RESERVED_UNKNOWN
        "fi_created_at (fe_intent e)" None "fe_observations e" x]
    by (simp add: is_financial_effect_record_def effect_state_def)
  then show "is_financial_effect_record e" using assms by (simp add: is_financial_effect_record_def)
  show "charged_debit e = Inr (fi_maximum_debit (fe_intent e))" "effect_state e \<noteq> EFFECT_CONFIRMED"
    using f by (cases "effect_state e"; simp add: charged_debit_def is_terminal_def)+
qed

section \<open>Usage\<close>

lemma bindR_Inr_id: "bindR r Inr = r"
  by (cases r) simp_all

lemma mapR_append: "mapR f (xs @ ys) = bindR (mapR f xs) (\<lambda>us. bindR (mapR f ys) (\<lambda>vs. Inr (us @ vs)))"
  by (induction xs) (auto simp: bindR_assoc bindR_Inr_id)

lemma charge_ok:
  "is_financial_effect_record e \<Longrightarrow> \<exists>d. charged_debit e = Inr d \<and> is_native_liability_vector d"
  using charged_debit_ok by blast

lemma charge_wf:
  "is_financial_effect_record e \<Longrightarrow> charged_debit e = Inr d \<Longrightarrow> is_native_liability_vector d"
  using charge_ok by fastforce

lemma charges_ok:
  "list_all is_financial_effect_record es
   \<Longrightarrow> \<exists>ds. mapR charged_debit es = Inr ds \<and> list_all is_native_liability_vector ds"
proof (induction es)
  case (Cons e es)
  then obtain ds where ds: "mapR charged_debit es = Inr ds" "list_all is_native_liability_vector ds"
    by auto
  obtain d where d: "charged_debit e = Inr d" "is_native_liability_vector d"
    using Cons.prems charge_ok[of e] by auto
  show ?case using ds d by simp
qed simp

lemma sum_liabilities:
  assumes "list_all is_native_liability_vector vs"
  obtains v where "add_native_liabilities vs = Inr v" "is_native_liability_vector v"
    "\<And>d. native_amount v d = sum_list (map (\<lambda>w. native_amount w d) vs)"
    "set (names v) = (\<Union>w \<in> set vs. set (names w))"
  using add_liabilities[OF assms] by blast

lemma liabilities_amount:
  assumes "list_all is_native_liability_vector vs" "add_native_liabilities vs = Inr v"
  shows "native_amount v d = sum_list (map (\<lambda>w. native_amount w d) vs)"
  using add_liabilities[OF assms(1)] assms(2) by auto

lemma effects_usage_ok:
  assumes "list_all is_financial_effect_record es"
  obtains u where "effects_usage es = Inr u" "is_native_liability_vector u"
proof -
  obtain ds where ds: "mapR charged_debit es = Inr ds" "list_all is_native_liability_vector ds"
    using charges_ok[OF assms] by blast
  obtain u where "add_native_liabilities ds = Inr u" "is_native_liability_vector u"
    by (rule sum_liabilities[OF ds(2)])
  then show thesis using that[of u] ds by (simp add: effects_usage_def)
qed

text \<open>Appending an effect adds its charge; replacing one effect by a cheaper one lowers the sum.\<close>

lemma effects_usage_snoc:
  assumes "list_all is_financial_effect_record es" "is_financial_effect_record e"
    "charged_debit e = Inr m" "effects_usage es = Inr u" "effects_usage (es @ [e]) = Inr v"
  shows "native_amount v d = native_amount u d + native_amount m d"
proof -
  obtain ds where ds: "mapR charged_debit es = Inr ds" "list_all is_native_liability_vector ds"
    using charges_ok[OF assms(1)] by blast
  have m: "is_native_liability_vector m" by (rule charge_wf[OF assms(2,3)])
  have "add_native_liabilities ds = Inr u" "add_native_liabilities (ds @ [m]) = Inr v"
    using assms(3-5) ds by (simp_all add: effects_usage_def mapR_append)
  then show ?thesis
    using liabilities_amount[of ds u d] liabilities_amount[of "ds @ [m]" v d] ds m by simp
qed

lemma effects_usage_replace:
  assumes "list_all is_financial_effect_record (xs @ e # ys)" "is_financial_effect_record f"
    "charged_debit e = Inr m" "charged_debit f = Inr n" "covers m n"
    "effects_usage (xs @ e # ys) = Inr u"
  obtains v where "effects_usage (xs @ f # ys) = Inr v" "is_native_liability_vector v" "covers u v"
    "\<forall>d. native_amount v d \<le> native_amount u d"
proof -
  obtain as where a: "mapR charged_debit xs = Inr as" "list_all is_native_liability_vector as"
    using charges_ok[of xs] assms(1) by auto
  obtain bs where b: "mapR charged_debit ys = Inr bs" "list_all is_native_liability_vector bs"
    using charges_ok[of ys] assms(1) by auto
  note ab = a b
  have mn: "is_native_liability_vector m" "is_native_liability_vector n"
    using charge_wf[of e m] charge_wf[OF assms(2,4)] assms(1,3) by simp_all
  obtain u' where u: "add_native_liabilities (as @ m # bs) = Inr u'" "is_native_liability_vector u'"
    "\<And>d. native_amount u' d = sum_list (map (\<lambda>w. native_amount w d) (as @ m # bs))"
    "set (names u') = (\<Union>w \<in> set (as @ m # bs). set (names w))"
    by (rule sum_liabilities[of "as @ m # bs"]) (use ab mn in simp_all)
  obtain v where v: "add_native_liabilities (as @ n # bs) = Inr v" "is_native_liability_vector v"
    "\<And>d. native_amount v d = sum_list (map (\<lambda>w. native_amount w d) (as @ n # bs))"
    "set (names v) = (\<Union>w \<in> set (as @ n # bs). set (names w))"
    by (rule sum_liabilities[of "as @ n # bs"]) (use ab mn in simp_all)
  have eq: "u' = u" using assms(3,6) ab u(1) by (simp add: effects_usage_def mapR_append)
  have le: "native_amount v d \<le> native_amount u d" for d
    using covers_amount[OF mn assms(5), of d] u(3)[of d] v(3)[of d] eq by simp
  moreover have "set (names v) \<subseteq> set (names u)"
    using u(4) v(4) eq covers_iff[OF mn(2), of m] assms(5) by auto
  ultimately have "covers u v" using covers_iff[OF v(2)] by blast
  then show thesis using that[of v] le v ab assms(4) by (simp add: effects_usage_def mapR_append)
qed

section \<open>The state of an operation\<close>

lemmas financial_guards = propose_financial_effect_def propose_financial_observation_def

lemma state_usage:
  assumes "is_financial_operation_state s"
  obtains u where "financial_native_usage s = Inr u" "covers (om_native_maximum (fs_maximum s)) u"
    "is_native_liability_vector u"
proof -
  have "list_all is_financial_effect_record (fs_effects s)"
    and c: "case financial_native_usage s of Inl _ \<Rightarrow> False
      | Inr used \<Rightarrow> covers (om_native_maximum (fs_maximum s)) used"
    using assms by (simp_all add: is_financial_operation_state_def Let_def)
  then obtain u where "effects_usage (fs_effects s) = Inr u" "is_native_liability_vector u"
    using effects_usage_ok by blast
  then show thesis using that[of u] c by (simp add: financial_native_usage_def)
qed

lemma state_maximum:
  "is_financial_operation_state s \<Longrightarrow> is_native_liability_vector (om_native_maximum (fs_maximum s))"
  unfolding is_financial_operation_state_def is_operation_maximum_liability_def Let_def by (elim conjE)

lemma effect_proposed:
  assumes "propose_financial_effect s i r obs c now = Inr t"
  obtains e where "e = \<lparr>fe_intent = i, fe_observations = [], fe_version = FINANCIAL_SCHEMA_VERSION\<rparr>"
    "is_financial_effect_record e" "is_financial_operation_state t"
    "t = \<lparr>fs_maximum = fs_maximum s, fs_revision = fs_revision s + 1,
        fs_previous_digest = Some (financial_state_digest s), fs_effects = fs_effects s @ [e],
        fs_version = FINANCIAL_SCHEMA_VERSION\<rparr>"
  using assms by (auto simp: propose_financial_effect_def construct_def split: if_splits)

lemma observation_proposed:
  assumes "propose_financial_observation s effect_id x c now = Inr t"
  obtains e f where "filter (\<lambda>e. fi_effect_id (fe_intent e) = effect_id) (fs_effects s) = [e]"
    "f = e\<lparr>fe_observations := fe_observations e @ [x]\<rparr>"
    "is_financial_effect_record f" "is_financial_operation_state t"
    "t = \<lparr>fs_maximum = fs_maximum s, fs_revision = fs_revision s + 1,
        fs_previous_digest = Some (financial_state_digest s),
        fs_effects = map (\<lambda>g. if g = e then f else g) (fs_effects s),
        fs_version = FINANCIAL_SCHEMA_VERSION\<rparr>"
  using assms
  by (auto simp: propose_financial_observation_def construct_def split: if_splits list.splits)

lemma filter_single:
  assumes "filter P xs = [e]"
  obtains as bs where "xs = as @ e # bs" "\<forall>x \<in> set as \<union> set bs. \<not> P x" "P e"
proof -
  from assms obtain as bs where "xs = as @ e # bs" "\<forall>u\<in>set as. \<not> P u" "P e" "[] = filter P bs"
    by (auto simp: filter_eq_Cons_iff)
  moreover from this have "\<forall>u\<in>set bs. \<not> P u" by (metis filter_empty_conv)
  ultimately show thesis using that[of as bs] by blast
qed

lemma replaced_effects:
  assumes "filter (\<lambda>e. fi_effect_id (fe_intent e) = effect_id) es = [e]"
  obtains as bs where "es = as @ e # bs"
    "map (\<lambda>g. if g = e then f else g) es = as @ f # bs"
proof -
  obtain as bs where split: "es = as @ e # bs"
    "\<forall>g \<in> set as \<union> set bs. \<not> fi_effect_id (fe_intent g) = effect_id" "fi_effect_id (fe_intent e) = effect_id"
    by (rule filter_single[OF assms])
  then have "map (\<lambda>g. if g = e then f else g) as = as" "map (\<lambda>g. if g = e then f else g) bs = bs"
    by (auto intro!: map_idI)
  then show thesis using that[of as bs] split by simp
qed

text \<open>
  \<open>retained es fs\<close>: every effect of \<open>es\<close> is in \<open>fs\<close> at the same place, under the same
  intent, with at least the observations it had.
\<close>

definition retained :: "financial_effect_record list \<Rightarrow> financial_effect_record list \<Rightarrow> bool" where
  "retained es fs \<longleftrightarrow> length es \<le> length fs
     \<and> list_all2 (\<lambda>e f. fe_intent f = fe_intent e
         \<and> take (length (fe_observations e)) (fe_observations f) = fe_observations e)
       es (take (length es) fs)"

lemma retained_nth: "retained es fs \<longleftrightarrow> length es \<le> length fs
  \<and> (\<forall>k < length es. fe_intent (fs ! k) = fe_intent (es ! k)
      \<and> take (length (fe_observations (es ! k))) (fe_observations (fs ! k)) = fe_observations (es ! k))"
  by (auto simp: retained_def list_all2_conv_all_nth)

lemma retained_refl: "retained es es"
  by (simp add: retained_nth)

lemma retained_trans:
  assumes "retained es fs" "retained fs gs"
  shows "retained es gs"
proof -
  have "take (length (fe_observations (es ! k))) (fe_observations (gs ! k)) = fe_observations (es ! k)"
    if k: "k < length es" for k
  proof -
    let ?a = "fe_observations (es ! k)" and ?b = "fe_observations (fs ! k)" and ?c = "fe_observations (gs ! k)"
    have "take (length ?a) ?b = ?a" "take (length ?b) ?c = ?b"
      using assms k by (auto simp: retained_nth)
    then show ?thesis by (metis length_take min.absorb_iff2 min.cobounded1 nat_le_linear take_all take_take)
  qed
  then show ?thesis using assms by (auto simp: retained_nth)
qed

text \<open>The two mutations of the financial state of one operation.\<close>

inductive financial_step :: "financial_operation_state \<Rightarrow> financial_operation_state \<Rightarrow> bool" where
  effect: "propose_financial_effect s i r obs c now = Inr t \<Longrightarrow> financial_step s t"
| observe: "propose_financial_observation s effect_id x c now = Inr t \<Longrightarrow> financial_step s t"

inductive_cases financial_stepE: "financial_step s t"

lemma financial_step_retains:
  assumes "financial_step s t"
  shows "is_financial_operation_state t \<and> fs_maximum t = fs_maximum s
    \<and> fs_previous_digest t = Some (financial_state_digest s) \<and> fs_revision t = fs_revision s + 1
    \<and> retained (fs_effects s) (fs_effects t)"
  using assms
proof cases
  case (effect i r obs c now)
  then obtain e where "is_financial_operation_state t"
    "t = \<lparr>fs_maximum = fs_maximum s, fs_revision = fs_revision s + 1,
        fs_previous_digest = Some (financial_state_digest s), fs_effects = fs_effects s @ [e],
        fs_version = FINANCIAL_SCHEMA_VERSION\<rparr>"
    by (rule effect_proposed)
  then show ?thesis by (simp add: retained_nth nth_append)
next
  case (observe effect_id x c now)
  then obtain e f where f: "f = e\<lparr>fe_observations := fe_observations e @ [x]\<rparr>"
    "is_financial_operation_state t"
    "t = \<lparr>fs_maximum = fs_maximum s, fs_revision = fs_revision s + 1,
        fs_previous_digest = Some (financial_state_digest s),
        fs_effects = map (\<lambda>g. if g = e then f else g) (fs_effects s),
        fs_version = FINANCIAL_SCHEMA_VERSION\<rparr>"
    by (rule observation_proposed)
  have "retained (fs_effects s) (fs_effects t)" using f(1,3) by (simp add: retained_nth)
  then show ?thesis using f(2,3) by simp
qed

text \<open>
  C12: the financial history of an operation is append-only and bounded. From a valid state,
  every sequence of proposed effects and observations leads to a valid state with the same
  declared maximum, in which every retained effect is still at its place with its intent and
  all its observations, and in which the charged usage (the actual debit of a terminal
  effect, nothing for one proven not signed, the maximum debit of every unresolved one) is
  within the lifetime maximum in every denomination.
\<close>

theorem financial_history_append_only:
  assumes "is_financial_operation_state s" "financial_step\<^sup>*\<^sup>* s t"
  shows "is_financial_operation_state t \<and> fs_maximum t = fs_maximum s
    \<and> retained (fs_effects s) (fs_effects t)
    \<and> (\<exists>used. financial_native_usage t = Inr used
        \<and> (\<forall>d. native_amount used d \<le> native_amount (om_native_maximum (fs_maximum s)) d))"
proof -
  have t: "is_financial_operation_state t \<and> fs_maximum t = fs_maximum s
      \<and> retained (fs_effects s) (fs_effects t)"
    using assms(2,1)
    by (induction rule: rtranclp_induct)
      (auto simp: retained_refl financial_step_retains intro: retained_trans)
  obtain u where u: "financial_native_usage t = Inr u" "covers (om_native_maximum (fs_maximum t)) u"
    "is_native_liability_vector u"
    using t by (blast elim: state_usage)
  have "is_native_liability_vector (om_native_maximum (fs_maximum t))" using t state_maximum by blast
  from covers_amount[OF this u(3,2)] show ?thesis using t u by auto
qed

text \<open>
  C33: an effect is retained only with room for its whole maximum debit. When a proposed
  effect is admitted, the maximum debit is added to the usage of the earlier effects, in
  every denomination, and the sum is within the lifetime maximum of the operation; the
  first effect is the CREATE and later ones follow its confirmation.
\<close>

theorem effect_reserves_maximum:
  assumes "is_financial_operation_state s" "propose_financial_effect s i r obs c now = Inr t"
    "financial_native_usage s = Inr used"
  shows "native_amount used d + native_amount (fi_maximum_debit i) d
      \<le> native_amount (om_native_maximum (fs_maximum s)) d
    \<and> (fi_purpose i = PURPOSE_CREATE \<longleftrightarrow> fs_effects s = [])
    \<and> (fs_effects s \<noteq> [] \<longrightarrow> effect_state (hd (fs_effects s)) = EFFECT_CONFIRMED)
    \<and> fi_effect_id i \<notin> set (map (\<lambda>e. fi_effect_id (fe_intent e)) (fs_effects s))
    \<and> fi_signing_wallet i \<in> set (fr_signing_wallets r) \<and> fi_created_at i = now"
proof -
  obtain e where e: "e = \<lparr>fe_intent = i, fe_observations = [], fe_version = FINANCIAL_SCHEMA_VERSION\<rparr>"
    "is_financial_effect_record e" "is_financial_operation_state t"
    "t = \<lparr>fs_maximum = fs_maximum s, fs_revision = fs_revision s + 1,
        fs_previous_digest = Some (financial_state_digest s), fs_effects = fs_effects s @ [e],
        fs_version = FINANCIAL_SCHEMA_VERSION\<rparr>"
    by (rule effect_proposed[OF assms(2)])
  obtain v where v: "financial_native_usage t = Inr v" "covers (om_native_maximum (fs_maximum t)) v"
    "is_native_liability_vector v"
    by (rule state_usage[OF e(3)])
  note m = state_maximum[OF e(3)]
  have "native_amount v d = native_amount used d + native_amount (fi_maximum_debit i) d"
  proof (rule effects_usage_snoc)
    show "list_all is_financial_effect_record (fs_effects s)"
      using assms(1) by (simp add: is_financial_operation_state_def Let_def)
    show "charged_debit e = Inr (fi_maximum_debit i)"
      by (simp add: charged_debit_def effect_state_def e(1) is_terminal_def)
    show "effects_usage (fs_effects s) = Inr used" using assms(3) by (simp add: financial_native_usage_def)
    show "effects_usage (fs_effects s @ [e]) = Inr v" using v(1) e(4) by (simp add: financial_native_usage_def)
  qed (rule e(2))
  then have "native_amount used d + native_amount (fi_maximum_debit i) d
      \<le> native_amount (om_native_maximum (fs_maximum s)) d"
    using covers_amount[OF m v(3,2), of d] e(4) by simp
  moreover have "check_actor i r obs now = Inr ()" "check_registration (fs_maximum s) i r = Inr ()"
    "check_sequence (fs_effects s) i = Inr ()"
    using assms(2) by (auto simp: propose_financial_effect_def)
  ultimately show ?thesis
    by (auto simp: check_actor_def check_registration_def check_sequence_def refuse_financial_def list_ex_iff)
qed

section \<open>Observations are never refused for the maximum\<close>

lemma observed_state_ok:
  assumes s: "is_financial_operation_state s" and es: "fs_effects s = as @ e # bs"
    and f: "is_financial_effect_record f" "f = e\<lparr>fe_observations := fe_observations e @ [x]\<rparr>"
    and t: "t = \<lparr>fs_maximum = fs_maximum s, fs_revision = fs_revision s + 1,
        fs_previous_digest = Some (financial_state_digest s), fs_effects = as @ f # bs,
        fs_version = FINANCIAL_SCHEMA_VERSION\<rparr>"
    and u: "financial_native_usage s = Inr u"
  shows "is_financial_operation_state t
    \<and> (\<exists>v. financial_native_usage t = Inr v \<and> (\<forall>d. native_amount v d \<le> native_amount u d))"
proof -
  have e: "charged_debit e = Inr (fi_maximum_debit (fe_intent e))" "effect_state e \<noteq> EFFECT_CONFIRMED"
    using observed_record f by blast+
  obtain n where n: "charged_debit f = Inr n" "covers (fi_maximum_debit (fe_intent f)) n"
    using charged_debit_ok[OF f(1)] by blast
  have all: "list_all is_financial_effect_record (as @ e # bs)"
    using s es by (simp add: is_financial_operation_state_def Let_def)
  have n2: "covers (fi_maximum_debit (fe_intent e)) n" using n(2) f(2) by simp
  have uu: "effects_usage (as @ e # bs) = Inr u" using u es by (simp add: financial_native_usage_def)
  obtain v where v: "effects_usage (as @ f # bs) = Inr v" "is_native_liability_vector v" "covers u v"
    "\<forall>d. native_amount v d \<le> native_amount u d"
    by (rule effects_usage_replace[OF all f(1) e(1) n(1) n2 uu])
  have usage: "financial_native_usage t = Inr v" using v(1) t by (simp add: financial_native_usage_def)
  obtain u' where u': "financial_native_usage s = Inr u'" "covers (om_native_maximum (fs_maximum s)) u'"
    "is_native_liability_vector u'"
    by (rule state_usage[OF s])
  have cov: "covers (om_native_maximum (fs_maximum s)) v"
    using covers_trans[OF state_maximum[OF s] u'(3) v(2) u'(2)] v(3) u u'(1) by simp
  have intents: "map fe_intent (as @ f # bs) = map fe_intent (as @ e # bs)" using f(2) by simp
  have first: "case as @ f # bs of [] \<Rightarrow> True
     | initial # rest \<Rightarrow>
         fi_purpose (fe_intent initial) = PURPOSE_CREATE
         \<and> list_all (\<lambda>e. fi_purpose (fe_intent e) \<noteq> PURPOSE_CREATE
             \<and> fi_purpose (fe_intent e) \<noteq> PURPOSE_AMENDMENT
             \<and> effect_state initial = EFFECT_CONFIRMED
             \<and> fo_observed_at (last (fe_observations initial)) \<le> fi_created_at (fe_intent e)) rest"
  proof (cases as)
    case Nil
    then have "bs = []" using s es e(2) by (cases bs) (auto simp: is_financial_operation_state_def Let_def)
    then show ?thesis using Nil s es f(2) by (simp add: is_financial_operation_state_def Let_def)
  next
    case (Cons a as')
    have old: "case as @ e # bs of [] \<Rightarrow> True
     | initial # rest \<Rightarrow>
         fi_purpose (fe_intent initial) = PURPOSE_CREATE
         \<and> list_all (\<lambda>e. fi_purpose (fe_intent e) \<noteq> PURPOSE_CREATE
             \<and> fi_purpose (fe_intent e) \<noteq> PURPOSE_AMENDMENT
             \<and> effect_state initial = EFFECT_CONFIRMED
             \<and> fo_observed_at (last (fe_observations initial)) \<le> fi_created_at (fe_intent e)) rest"
      using s es unfolding is_financial_operation_state_def Let_def by (elim conjE) simp
    have same: "fe_intent f = fe_intent e" using f(2) by simp
    show ?thesis using old unfolding Cons by (auto simp: list_all_iff same)
  qed
  have rev: "fs_revision s = sum_list (map (\<lambda>e. 1 + int (length (fe_observations e))) (as @ e # bs))"
    "0 \<le> fs_revision s"
    using s es by (simp_all add: is_financial_operation_state_def Let_def is_uint_def)
  have sum: "fs_revision s + 1 = sum_list (map (\<lambda>e. 1 + int (length (fe_observations e))) (as @ f # bs))"
    using rev f(2) by simp
  have fields: "fs_maximum t = fs_maximum s" "fs_revision t = fs_revision s + 1"
    "fs_previous_digest t = Some (financial_state_digest s)" "fs_effects t = as @ f # bs"
    "fs_version t = FINANCIAL_SCHEMA_VERSION"
    by (simp_all add: t)
  have all': "list_all is_financial_effect_record (as @ f # bs)" using all f(1) by simp
  have dig: "is_digest (financial_state_digest s)" by (simp add: financial_state_digest_def)
  note old = s[unfolded is_financial_operation_state_def Let_def es intents[symmetric]]
  have "is_financial_operation_state t"
    unfolding is_financial_operation_state_def Let_def fields usage
    using old sum first cov dig rev(2) all'
    by (simp del: map_append list.map map_map add: is_uint_def is_financial_version_def)
  then show ?thesis using usage v(4) by auto
qed

lemma commit_binding_error:
  "validate_financial_commit_binding s c = Inl e \<Longrightarrow> e = FinancialTransitionError"
  by (auto simp: validate_financial_commit_binding_def refuse_financial_def bindR_eq_Inl Let_def)

text \<open>
  C13: an observation is never refused on account of the lifetime maximum. On a valid state,
  with a valid time and effect id, an observation is either recorded or refused as a
  FinancialTransitionError (a stale commit binding, a time in the future, an unknown effect,
  or an observation its effect record does not admit); the construction of the next state
  never fails, and a recorded observation never raises the charged usage.
\<close>

theorem observation_never_over_maximum:
  assumes "is_financial_operation_state s" "is_time now" "is_text effect_id"
    "financial_native_usage s = Inr used"
  shows "case propose_financial_observation s effect_id x c now of
      Inl e \<Rightarrow> e = FinancialTransitionError
    | Inr t \<Rightarrow> \<exists>v. financial_native_usage t = Inr v \<and> (\<forall>d. native_amount v d \<le> native_amount used d)"
proof -
  have "construct is_financial_operation_state t = Inr t
      \<and> (\<exists>v. financial_native_usage t = Inr v \<and> (\<forall>d. native_amount v d \<le> native_amount used d))"
    if flt: "filter (\<lambda>e. fi_effect_id (fe_intent e) = effect_id) (fs_effects s) = [e]"
      and f: "is_financial_effect_record f" "f = e\<lparr>fe_observations := fe_observations e @ [x]\<rparr>"
      and t: "t = \<lparr>fs_maximum = fs_maximum s, fs_revision = fs_revision s + 1,
        fs_previous_digest = Some (financial_state_digest s),
        fs_effects = map (\<lambda>g. if g = e then f else g) (fs_effects s),
        fs_version = FINANCIAL_SCHEMA_VERSION\<rparr>" for e f t
  proof -
    obtain as bs where es: "fs_effects s = as @ e # bs"
      "map (\<lambda>g. if g = e then f else g) (fs_effects s) = as @ f # bs"
      using replaced_effects[OF flt] by metis
    show ?thesis using observed_state_ok[OF assms(1) es(1) f _ assms(4), of t] t es(2)
      by (simp add: construct_def)
  qed
  then show ?thesis
    using assms(2,3)
    by (cases "validate_financial_commit_binding s c")
      (auto simp: propose_financial_observation_def refuse_financial_def raise_if_def
        dest: commit_binding_error split: list.split)
qed

section \<open>A sample operation\<close>

definition sample_maximum :: operation_maximum_liability where
  "sample_maximum =
     \<lparr>om_quote_id = ''node'', om_prepared = sample_prepared_by ''runner'', om_creator_leaf = sample_scope,
      om_cas_domain = ''node'', om_policy_revision = hex40, om_writer_population_digest = hex64,
      om_native_maximum = sample_vector 10, om_uact_basis = None, om_evidence_digest = hex64,
      om_observed_at = 100, om_valid_until = 500, om_version = 1\<rparr>"

definition sample_principal :: service_principal_binding where
  "sample_principal =
     \<lparr>sp_issuer = ''issuer'', sp_subject = ''runner'', sp_audience = ''node'',
      sp_credential_fingerprint = hex64, sp_deployed_source_revision = hex40,
      sp_registration_digest = hex64, sp_version = 1\<rparr>"

definition sample_registration :: funding_actor_registration where
  "sample_registration =
     \<lparr>fr_actor_id = ''node'', fr_chain_id = ''akashnet-2'', fr_owner = sample_owner,
      fr_backend = sample_backend, fr_principal = sample_principal, fr_cas_domain = ''node'',
      fr_policy_revision = hex40, fr_writer_population_digest = hex64,
      fr_creator_leaf_digests = [canonical_journal_digest (canon_admission_scope sample_scope)],
      fr_signing_wallets = [sample_owner], fr_purposes = [PURPOSE_CREATE], fr_evidence_digest = hex64,
      fr_observed_at = 100, fr_valid_until = 500, fr_version = 1\<rparr>"

definition sample_principal_observation :: service_principal_observation where
  "sample_principal_observation =
     \<lparr>so_principal = sample_principal, so_revocation_epoch = 0, so_status = PERMIT_ACTIVE,
      so_authentication_evidence_digest = hex64, so_observed_at = 100, so_valid_until = 500,
      so_version = 1\<rparr>"

definition sample_intent :: financial_effect_intent where
  "sample_intent =
     \<lparr>fi_operation_id = ''op1'', fi_effect_id = ''effect1'', fi_attempt_id = ''attempt1'',
      fi_quote_digest = canonical_journal_digest (canon_operation_maximum_liability sample_maximum),
      fi_actor_registration_digest =
        canonical_journal_digest (canon_funding_actor_registration sample_registration),
      fi_principal = sample_principal, fi_revocation_epoch = 0, fi_subject = sample_key,
      fi_signing_wallet = sample_owner, fi_purpose = PURPOSE_CREATE, fi_message_digest = hex64,
      fi_sign_doc_digest = hex64, fi_fee_digest = hex64, fi_account_sequence = 0,
      fi_maximum_debit = sample_vector 4, fi_fee_debit = sample_vector 1,
      fi_attribution_digest = hex64, fi_created_at = 130, fi_version = 1\<rparr>"

definition sample_signed :: financial_effect_observation where
  "sample_signed =
     \<lparr>fo_intent_digest = canonical_journal_digest (canon_financial_effect_intent sample_intent),
      fo_state = EFFECT_SIGNED, fo_evidence_digest = hex64, fo_observed_at = 140,
      fo_transaction_hash = Some hex64, fo_actual_debit = None, fo_transaction_code = None,
      fo_principal_observation = None, fo_version = 1\<rparr>"

definition sample_effect :: "financial_effect_observation list \<Rightarrow> financial_effect_record" where
  "sample_effect xs = \<lparr>fe_intent = sample_intent, fe_observations = xs, fe_version = 1\<rparr>"

definition sample_financial0 :: financial_operation_state where
  "sample_financial0 = \<lparr>fs_maximum = sample_maximum, fs_revision = 0, fs_previous_digest = None,
      fs_effects = [], fs_version = 1\<rparr>"

definition sample_financial1 :: financial_operation_state where
  "sample_financial1 = \<lparr>fs_maximum = sample_maximum, fs_revision = 1,
      fs_previous_digest = Some (financial_state_digest sample_financial0),
      fs_effects = [sample_effect []], fs_version = 1\<rparr>"

definition sample_commit :: "financial_operation_state \<Rightarrow> int \<Rightarrow> financial_commit_binding" where
  "sample_commit s now =
     \<lparr>fc_cas_domain = ''node'', fc_chain_id = ''akashnet-2'', fc_owner = sample_owner,
      fc_operation_id = ''op1'', fc_owner_revision = 1, fc_owner_state_digest = hex64,
      fc_financial_revision = fs_revision s, fc_financial_state_digest = financial_state_digest s,
      fc_receipt_digest = hex64, fc_observed_at = now, fc_version = 1\<rparr>"

lemmas financial_versions = is_financial_version_def FINANCIAL_SCHEMA_VERSION_def is_uint_def
  is_window_def is_time_def MAX_UTC_UNIX_SECONDS_def

lemma sample_financial_texts [simp]: "is_text ''node''" "is_text ''issuer''" "is_text ''runner''"
  "is_text ''akashnet-2''" "is_text ''effect1''" "is_text ''attempt1''" "is_text ''op1''"
  by code_simp+

lemma sample_vector_covers [simp]: "n \<le> m \<Longrightarrow> covers (sample_vector m) (sample_vector n)"
  by (simp add: covers_def sample_vector_def native_amount_def)

lemma sample_scope_fields [simp]:
  "as_chain_id sample_scope = ''akashnet-2''" "as_owner sample_scope = sample_owner"
  by (simp_all add: sample_scope_def)

lemma sample_maximum_ok: "is_operation_maximum_liability sample_maximum"
  using sample_prepared_by_ok[of "''runner''"]
  by (simp add: is_operation_maximum_liability_def sample_maximum_def financial_versions Let_def)
    (simp add: sample_scope_def sample_vector_def)

lemma sample_maximum_fields [simp]:
  "om_prepared sample_maximum = sample_prepared_by ''runner''" "om_creator_leaf sample_maximum = sample_scope"
  "om_native_maximum sample_maximum = sample_vector 10" "om_cas_domain sample_maximum = ''node''"
  "om_policy_revision sample_maximum = hex40" "om_writer_population_digest sample_maximum = hex64"
  "om_observed_at sample_maximum = 100"
  by (simp_all add: sample_maximum_def)

lemma sample_intent_ok: "is_financial_effect_intent sample_intent"
  by (simp add: is_financial_effect_intent_def sample_intent_def financial_versions
      sample_owner_canonical is_service_principal_binding_def sample_principal_def)

lemma sample_intent_fields [simp]:
  "fi_operation_id sample_intent = ''op1''" "fi_effect_id sample_intent = ''effect1''"
  "fi_subject sample_intent = sample_key" "fi_purpose sample_intent = PURPOSE_CREATE"
  "fi_quote_digest sample_intent = canonical_journal_digest (canon_operation_maximum_liability sample_maximum)"
  "fi_maximum_debit sample_intent = sample_vector 4" "fi_created_at sample_intent = 130"
  "fi_signing_wallet sample_intent = sample_owner" "fi_principal sample_intent = sample_principal"
  "fi_revocation_epoch sample_intent = 0"
  "fi_actor_registration_digest sample_intent
   = canonical_journal_digest (canon_funding_actor_registration sample_registration)"
  by (simp_all add: sample_intent_def)

lemma sample_effect_ok: "is_financial_effect_record (sample_effect [])"
  "is_financial_effect_record (sample_effect [sample_signed])"
  by (simp_all add: is_financial_effect_record_def sample_effect_def sample_intent_ok financial_versions
      is_financial_effect_observation_def sample_signed_def is_terminal_def)

lemma sample_effects_usage: "effects_usage [] = Inr no_debit" "effects_usage [sample_effect []] = Inr (sample_vector 4)"
proof -
  have ok: "is_native_liability_vector \<lparr>nv_quantities = [], nv_version = 1\<rparr>"
    "is_native_liability_vector \<lparr>nv_quantities =
       [\<lparr>nl_denomination = ''uakt'', nl_amount = 4, nl_version = 1\<rparr>], nv_version = 1\<rparr>"
    using no_debit_ok(1) sample_vector_ok[of 4] by (simp_all add: no_debit_def sample_vector_def financial_versions(2))
  show "effects_usage [] = Inr no_debit"
    by (simp add: effects_usage_def add_native_liabilities_def construct_def dict_keys_def no_debit_def
        financial_versions(2) ok)
  have "charged_debit (sample_effect []) = Inr (sample_vector 4)"
    by (simp add: charged_debit_def effect_state_def is_terminal_def sample_effect_def)
  then show "effects_usage [sample_effect []] = Inr (sample_vector 4)"
    by (simp add: effects_usage_def add_native_liabilities_def construct_def dict_keys_def mk_quantity_def
        financial_versions(2) ok sample_vector_def)
qed

lemma sample_key_owner [simp]: "dk_owner sample_key = sample_owner"
  by (simp add: sample_key_def)

lemma sample_financial_ok:
  "is_financial_operation_state sample_financial0" "is_financial_operation_state sample_financial1"
  by (simp_all add: is_financial_operation_state_def Let_def sample_financial0_def sample_financial1_def
      financial_versions sample_maximum_ok sample_effect_ok financial_native_usage_def sample_effects_usage
      financial_state_digest_def) (simp add: sample_effect_def)

lemma sample_commit_ok:
  "s = sample_financial0 \<or> s = sample_financial1 \<Longrightarrow> latest_evidence s \<le> now
   \<Longrightarrow> validate_financial_commit_binding s (sample_commit s now) = Inr ()"
  by (auto simp: validate_financial_commit_binding_def sample_commit_def refuse_financial_def Let_def
      sample_financial0_def sample_financial1_def)

lemma sample_effect_proposed:
  "propose_financial_effect sample_financial0 sample_intent sample_registration
     sample_principal_observation (sample_commit sample_financial0 120) 130 = Inr sample_financial1"
proof -
  have "validate_financial_commit_binding sample_financial0 (sample_commit sample_financial0 120) = Inr ()"
    by (rule sample_commit_ok) (simp_all add: latest_evidence_def sample_financial0_def)
  moreover have "check_actor sample_intent sample_registration sample_principal_observation 130 = Inr ()"
    by (simp add: check_actor_def refuse_financial_def)
      (simp add: sample_registration_def sample_principal_observation_def)
  moreover have "check_registration sample_maximum sample_intent sample_registration = Inr ()"
    by (simp add: check_registration_def refuse_financial_def) (simp add: sample_registration_def)
  moreover have "check_sequence [] sample_intent = Inr ()"
    by (simp add: check_sequence_def refuse_financial_def)
  moreover have "\<lparr>fs_maximum = sample_maximum, fs_revision = 1,
      fs_previous_digest = Some (financial_state_digest sample_financial0),
      fs_effects = [sample_effect []], fs_version = FINANCIAL_SCHEMA_VERSION\<rparr> = sample_financial1"
    "\<lparr>fe_intent = sample_intent, fe_observations = [], fe_version = FINANCIAL_SCHEMA_VERSION\<rparr> = sample_effect []"
    "fs_maximum sample_financial0 = sample_maximum" "fs_effects sample_financial0 = []"
    "fs_revision sample_financial0 = 0"
    by (simp_all add: sample_financial1_def sample_effect_def financial_versions(2) sample_financial0_def)
  ultimately show ?thesis
    using sample_financial_ok(2) sample_effect_ok(1)
    by (simp add: propose_financial_effect_def construct_def financial_versions(4-) refuse_financial_def)
      (simp add: sample_commit_def)
qed

lemma sample_usages: "financial_native_usage sample_financial0 = Inr no_debit"
  "financial_native_usage sample_financial1 = Inr (sample_vector 4)"
  by (simp_all add: financial_native_usage_def sample_financial0_def sample_financial1_def sample_effects_usage)

lemma financial_history_append_only_witness:
  "retained (fs_effects sample_financial0) (fs_effects sample_financial1)
   \<and> is_financial_operation_state sample_financial1"
  using financial_history_append_only[OF sample_financial_ok(1), of sample_financial1]
    r_into_rtranclp[of financial_step, OF financial_step.effect[OF sample_effect_proposed]]
  by blast

lemma effect_reserves_maximum_witness:
  "native_amount no_debit ''uakt'' + native_amount (fi_maximum_debit sample_intent) ''uakt''
   \<le> native_amount (om_native_maximum (fs_maximum sample_financial0)) ''uakt''"
  using effect_reserves_maximum[OF sample_financial_ok(1) sample_effect_proposed sample_usages(1)]
  by blast

lemma sample_observed:
  "\<exists>t. propose_financial_observation sample_financial1 ''effect1'' sample_signed
      (sample_commit sample_financial1 135) 140 = Inr t"
proof -
  let ?t = "\<lparr>fs_maximum = fs_maximum sample_financial1, fs_revision = fs_revision sample_financial1 + 1,
      fs_previous_digest = Some (financial_state_digest sample_financial1),
      fs_effects = [sample_effect [sample_signed]], fs_version = FINANCIAL_SCHEMA_VERSION\<rparr>"
  have "is_financial_operation_state ?t"
    using observed_state_ok[OF sample_financial_ok(2), of "[]" "sample_effect []" "[]"
        "sample_effect [sample_signed]" sample_signed ?t] sample_effect_ok(2) sample_usages(2)
    by (simp add: sample_effect_def sample_financial1_def)
  moreover have "validate_financial_commit_binding sample_financial1 (sample_commit sample_financial1 135) = Inr ()"
    by (rule sample_commit_ok) (simp_all add: latest_evidence_def sample_financial1_def sample_effect_def)
  moreover have "fs_effects sample_financial1 = [sample_effect []]"
    "(sample_effect [])\<lparr>fe_observations := fe_observations (sample_effect []) @ [sample_signed]\<rparr>
     = sample_effect [sample_signed]" "fi_effect_id (fe_intent (sample_effect [])) = ''effect1''"
    "fo_state sample_signed = EFFECT_SIGNED" "fo_observed_at sample_signed = 140"
    "fc_observed_at (sample_commit sample_financial1 135) = 135"
    by (simp_all add: sample_financial1_def sample_effect_def sample_signed_def sample_commit_def)
  ultimately show ?thesis
    using sample_effect_ok(2)
    by (simp add: propose_financial_observation_def construct_def financial_versions(4-) refuse_financial_def)
qed

lemma observation_never_over_maximum_witness:
  "\<exists>t v. propose_financial_observation sample_financial1 ''effect1'' sample_signed
      (sample_commit sample_financial1 135) 140 = Inr t
    \<and> financial_native_usage t = Inr v \<and> native_amount v ''uakt'' \<le> 4"
proof -
  have "is_time 140" by code_simp
  note recorded = observation_never_over_maximum[OF sample_financial_ok(2) this sample_financial_texts(5)
      sample_usages(2), of sample_signed "sample_commit sample_financial1 135"]
  obtain t where t: "propose_financial_observation sample_financial1 ''effect1'' sample_signed
      (sample_commit sample_financial1 135) 140 = Inr t" using sample_observed by blast
  obtain v where "financial_native_usage t = Inr v" "native_amount v ''uakt'' \<le> native_amount (sample_vector 4) ''uakt''"
    using recorded unfolding t sum.case by blast
  then show ?thesis using t by simp
qed

end
