(* ===== verification/Orders.thy ===== *)
theory Orders
  imports PyValue DecimalText
begin

text \<open>
  \<^verbatim>\<open>orders.py\<close>: whether an order without a lease may be closed. Reason texts are not
  modelled; a frozen set of the policy is a set, its tuples are lists.
\<close>

section \<open>Observations, policy and decisions\<close>

definition BID_WINDOW_SECONDS :: rat where
  "BID_WINDOW_SECONDS = 450"

definition BID_WINDOW_SAFETY_FACTOR :: rat where
  "BID_WINDOW_SAFETY_FACTOR = 2"

definition DEFAULT_MIN_AGE_SECONDS :: rat where
  "DEFAULT_MIN_AGE_SECONDS = BID_WINDOW_SECONDS * BID_WINDOW_SAFETY_FACTOR"

definition DEFAULT_PROTECTED_DSEQS :: "string set" where
  "DEFAULT_PROTECTED_DSEQS = {''1784532174413''}"

definition KNOWN_GROUP_STATES :: "string list" where
  "KNOWN_GROUP_STATES = [''open'', ''active'', ''closed'', ''insufficient_funds'', ''paused'']"

datatype lease_evidence = EVIDENCE_CHAIN | EVIDENCE_DEPLOYMENT_DETAIL | EVIDENCE_CONSOLE_LIST

definition may_authorise_close :: "lease_evidence \<Rightarrow> bool" where
  "may_authorise_close e \<longleftrightarrow> e = EVIDENCE_CHAIN \<or> e = EVIDENCE_DEPLOYMENT_DETAIL"

datatype order_status =
    CLOSEABLE
  | HAS_LEASE
  | TOO_YOUNG
  | ORDER_PROTECTED
  | ORDER_EXCLUDED
  | NOT_ACTIVE
  | NOT_OPEN_ORDER
  | ORDER_UNDETERMINED

record order_observation =
  oo_dseq :: string
  oo_owner :: string
  oo_deployment_state :: "string option"
  oo_lease_count :: "int option"
  oo_lease_evidence :: lease_evidence
  oo_age_seconds :: "pyfloat option"
  oo_group_states :: "string list option"
  oo_name :: string

definition is_order_observation :: "order_observation \<Rightarrow> bool" where
  "is_order_observation x \<longleftrightarrow> oo_dseq x \<noteq> [] \<and> oo_owner x \<noteq> []
     \<and> (case oo_lease_count x of None \<Rightarrow> True | Some n \<Rightarrow> 0 \<le> n)
     \<and> (case oo_age_seconds x of None \<Rightarrow> True | Some a \<Rightarrow> isfinite a \<and> \<not> py_lt a (Fin 0))"

record order_policy =
  min_age_seconds :: pyfloat
  batch_limit :: int
  protected_dseqs :: "string set"
  required_name_prefixes :: "string list"
  excluded_name_prefixes :: "string list"
  excluded_owner_substrings :: "string list"
  order_policy_version :: string

definition is_order_policy :: "order_policy \<Rightarrow> bool" where
  "is_order_policy p \<longleftrightarrow> isfinite (min_age_seconds p) \<and> \<not> py_lt (min_age_seconds p) (Fin 0)
     \<and> 1 \<le> batch_limit p"

definition default_order_policy :: order_policy where
  "default_order_policy =
     \<lparr>min_age_seconds = Fin DEFAULT_MIN_AGE_SECONDS, batch_limit = 20,
      protected_dseqs = DEFAULT_PROTECTED_DSEQS, required_name_prefixes = [],
      excluded_name_prefixes = [''just-akash-''], excluded_owner_substrings = [''borduas''],
      order_policy_version = ''leaked-order-sweep/v1''\<rparr>"

record order_decision =
  od_dseq :: string
  od_status :: order_status

definition closeable :: "order_decision \<Rightarrow> bool" where
  "closeable d \<longleftrightarrow> od_status d = CLOSEABLE"

section \<open>The decision\<close>

definition startswith :: "string \<Rightarrow> string \<Rightarrow> bool" where
  "startswith s prefix \<longleftrightarrow> take (length prefix) s = prefix"

text \<open>\<^verbatim>\<open>sub in s\<close>.\<close>

fun contains_text :: "string \<Rightarrow> string \<Rightarrow> bool" where
  "contains_text sub [] \<longleftrightarrow> sub = []"
| "contains_text sub (c # s) \<longleftrightarrow> startswith (c # s) sub \<or> contains_text sub s"

definition order_excluded :: "order_observation \<Rightarrow> order_policy \<Rightarrow> bool" where
  "order_excluded x p \<longleftrightarrow>
     list_ex (startswith (oo_name x)) (excluded_name_prefixes p)
     \<or> list_ex (\<lambda>sub. contains_text sub (lower (oo_owner x)) \<or> contains_text sub (lower (oo_name x)))
         (excluded_owner_substrings p)"

text \<open>The group states: a status when they decide, None when they are absent or all open.\<close>

definition group_verdict :: "string list option \<Rightarrow> order_status option" where
  "group_verdict states =
     (case states of
        None \<Rightarrow> None
      | Some gs \<Rightarrow>
          if list_ex (\<lambda>g. g \<notin> set KNOWN_GROUP_STATES) gs then Some ORDER_UNDETERMINED
          else if list_ex (\<lambda>g. g = ''active'') gs then Some ORDER_UNDETERMINED
          else if gs = [] \<or> \<not> list_all (\<lambda>g. g = ''open'') gs then Some NOT_OPEN_ORDER
          else None)"

definition order_status_of :: "order_observation \<Rightarrow> order_policy \<Rightarrow> order_status" where
  "order_status_of x p =
     (if oo_dseq x \<in> protected_dseqs p then ORDER_PROTECTED
      else if order_excluded x p then ORDER_EXCLUDED
      else if required_name_prefixes p \<noteq> [] \<and> \<not> list_ex (startswith (oo_name x)) (required_name_prefixes p)
      then ORDER_EXCLUDED
      else if \<not> may_authorise_close (oo_lease_evidence x) then ORDER_UNDETERMINED
      else case oo_deployment_state x of None \<Rightarrow> ORDER_UNDETERMINED | Some state \<Rightarrow>
        if state \<noteq> ''active'' then NOT_ACTIVE
        else case oo_lease_count x of None \<Rightarrow> ORDER_UNDETERMINED | Some leases \<Rightarrow>
          if 0 < leases then HAS_LEASE
          else case group_verdict (oo_group_states x) of Some s \<Rightarrow> s | None \<Rightarrow>
            case oo_age_seconds x of None \<Rightarrow> ORDER_UNDETERMINED | Some age \<Rightarrow>
              if py_lt age (min_age_seconds p) then TOO_YOUNG else CLOSEABLE)"

definition evaluate_order :: "order_observation \<Rightarrow> order_policy \<Rightarrow> order_decision" where
  "evaluate_order x p = \<lparr>od_dseq = oo_dseq x, od_status = order_status_of x p\<rparr>"

fun select_from :: "int \<Rightarrow> order_decision list \<Rightarrow> order_decision list \<Rightarrow> order_decision list" where
  "select_from limit out [] = out"
| "select_from limit out (d # ds) =
     (if closeable d
      then if limit \<le> int (length (out @ [d])) then out @ [d] else select_from limit (out @ [d]) ds
      else select_from limit out ds)"

definition select_batch :: "order_decision list \<Rightarrow> order_policy \<Rightarrow> order_decision list" where
  "select_batch decisions p = select_from (batch_limit p) [] decisions"

definition confirm_close :: "order_observation \<Rightarrow> order_policy \<Rightarrow> order_decision" where
  "confirm_close fresh p = evaluate_order fresh p"

definition parse_escrow_open :: "pyval \<Rightarrow> bool option" where
  "parse_escrow_open escrow =
     (case escrow of
        PDict m \<Rightarrow>
          (let state = (case map_of m ''state'' of
               None \<Rightarrow> PNone
             | Some (PDict inner) \<Rightarrow> (case map_of inner ''state'' of None \<Rightarrow> PNone | Some v \<Rightarrow> v)
             | Some v \<Rightarrow> v)
           in case state of
                PStr s \<Rightarrow> if s = ''open'' then Some True else if s = ''closed'' then Some False else None
              | _ \<Rightarrow> None)
      | _ \<Rightarrow> None)"

definition page_is_last :: "'a list \<Rightarrow> int \<Rightarrow> bool result" where
  "page_is_last page limit =
     bindR (raise_if (limit < 1) ValueError) (\<lambda>_. Inr (int (length page) < limit))"

section \<open>Properties\<close>

lemma select_from_filter:
  "int (length out) < limit
   \<Longrightarrow> select_from limit out ds = out @ take (nat limit - length out) (filter closeable ds)"
proof (induction limit out ds rule: select_from.induct)
  case (2 limit out d ds)
  show ?case
  proof (cases "closeable d")
    case True
    have n: "nat limit - length out = Suc (nat limit - Suc (length out))" using "2.prems" by linarith
    show ?thesis
    proof (cases "limit \<le> int (length (out @ [d]))")
      case True
      then have "nat limit - Suc (length out) = 0" by simp
      then show ?thesis using True \<open>closeable d\<close> by (simp add: n)
    next
      case False
      then have "select_from limit (out @ [d]) ds
          = (out @ [d]) @ take (nat limit - length (out @ [d])) (filter closeable ds)"
        using "2.IH"(1) True by simp
      then show ?thesis using False True by (simp add: n)
    qed
  qed (use 2 in simp)
qed simp

text \<open>
  C29: what a sweep may close. A batch is the first batch-limit many closeable decisions in
  order, and a decision is closeable exactly when the order is neither protected nor excluded
  and is in the swept family, the chain or the deployment detail says that the deployment is
  active without a lease, its group states are unread or a nonempty list of open ones, and the age
  is read and not below the floor. No other instrument and no unread count or age leads to a close. Group states that were not
  read do not stop one, although the module states its predicate as all groups open
  (\<open>unread_groups_close\<close>).
\<close>

theorem sweep_closes_only_dead_orders:
  assumes "is_order_policy p"
  shows "select_batch (map (\<lambda>x. evaluate_order x p) xs) p
      = take (nat (batch_limit p)) (filter closeable (map (\<lambda>x. evaluate_order x p) xs))
    \<and> (closeable (confirm_close x p) \<longleftrightarrow>
        oo_dseq x \<notin> protected_dseqs p \<and> \<not> order_excluded x p
        \<and> (required_name_prefixes p = [] \<or> list_ex (startswith (oo_name x)) (required_name_prefixes p))
        \<and> oo_lease_evidence x \<in> {EVIDENCE_CHAIN, EVIDENCE_DEPLOYMENT_DETAIL}
        \<and> oo_deployment_state x = Some ''active''
        \<and> (case oo_lease_count x of None \<Rightarrow> False | Some n \<Rightarrow> n \<le> 0)
        \<and> (case oo_group_states x of None \<Rightarrow> True | Some gs \<Rightarrow> gs \<noteq> [] \<and> list_all (\<lambda>g. g = ''open'') gs)
        \<and> (case oo_age_seconds x of None \<Rightarrow> False | Some age \<Rightarrow> \<not> py_lt age (min_age_seconds p)))"
proof
  show "select_batch (map (\<lambda>x. evaluate_order x p) xs) p
      = take (nat (batch_limit p)) (filter closeable (map (\<lambda>x. evaluate_order x p) xs))"
    using assms select_from_filter[of "[]" "batch_limit p"] by (simp add: select_batch_def is_order_policy_def)
  have groups: "group_verdict gs = None \<longleftrightarrow>
      (case gs of None \<Rightarrow> True | Some gs \<Rightarrow> gs \<noteq> [] \<and> list_all (\<lambda>g. g = ''open'') gs)" for gs
    by (auto simp: group_verdict_def list_ex_iff list_all_iff KNOWN_GROUP_STATES_def split: option.splits)
  have stops: "group_verdict gs = Some s \<Longrightarrow> s \<noteq> CLOSEABLE" for gs s
    by (auto simp: group_verdict_def split: option.splits if_splits)
  show "closeable (confirm_close x p) \<longleftrightarrow>
        oo_dseq x \<notin> protected_dseqs p \<and> \<not> order_excluded x p
        \<and> (required_name_prefixes p = [] \<or> list_ex (startswith (oo_name x)) (required_name_prefixes p))
        \<and> oo_lease_evidence x \<in> {EVIDENCE_CHAIN, EVIDENCE_DEPLOYMENT_DETAIL}
        \<and> oo_deployment_state x = Some ''active''
        \<and> (case oo_lease_count x of None \<Rightarrow> False | Some n \<Rightarrow> n \<le> 0)
        \<and> (case oo_group_states x of None \<Rightarrow> True | Some gs \<Rightarrow> gs \<noteq> [] \<and> list_all (\<lambda>g. g = ''open'') gs)
        \<and> (case oo_age_seconds x of None \<Rightarrow> False | Some age \<Rightarrow> \<not> py_lt age (min_age_seconds p))"
    unfolding groups[symmetric]
    by (cases "group_verdict (oo_group_states x)")
      (auto simp: closeable_def confirm_close_def evaluate_order_def order_status_of_def
        may_authorise_close_def dest: stops split: option.splits)
qed

definition sample_order :: "int option \<Rightarrow> order_observation" where
  "sample_order leases =
     \<lparr>oo_dseq = ''77'', oo_owner = ''akash1owner'', oo_deployment_state = Some ''active'',
      oo_lease_count = leases, oo_lease_evidence = EVIDENCE_CHAIN, oo_age_seconds = Some (Fin 1000),
      oo_group_states = Some [''open''], oo_name = ''runner''\<rparr>"

lemma sweep_closes_only_dead_orders_witness:
  "closeable (confirm_close (sample_order (Some 0)) default_order_policy)
   \<and> \<not> closeable (confirm_close (sample_order None) default_order_policy)"
proof -
  have ok: "is_order_policy default_order_policy"
    by (simp add: is_order_policy_def default_order_policy_def DEFAULT_MIN_AGE_SECONDS_def
        BID_WINDOW_SECONDS_def BID_WINDOW_SAFETY_FACTOR_def)
  have excl: "\<not> order_excluded (sample_order leases) default_order_policy" for leases
  proof -
    have "\<not> list_ex (startswith ''runner'') [''just-akash-'']" "\<not> contains_text ''borduas'' (lower ''akash1owner'')"
      "\<not> contains_text ''borduas'' (lower ''runner'')" by code_simp+
    then show ?thesis by (simp add: order_excluded_def sample_order_def default_order_policy_def)
  qed
  note closes = sweep_closes_only_dead_orders[OF ok, THEN conjunct2]
  show ?thesis unfolding closes using excl
    by (simp add: sample_order_def default_order_policy_def DEFAULT_PROTECTED_DSEQS_def
        DEFAULT_MIN_AGE_SECONDS_def BID_WINDOW_SECONDS_def BID_WINDOW_SAFETY_FACTOR_def)
qed

lemma unread_groups_close:
  "closeable (evaluate_order ((sample_order (Some 0))\<lparr>oo_group_states := None\<rparr>)
     (default_order_policy\<lparr>excluded_name_prefixes := [], excluded_owner_substrings := []\<rparr>))"
  by (simp add: closeable_def evaluate_order_def order_status_of_def order_excluded_def group_verdict_def
      may_authorise_close_def sample_order_def default_order_policy_def DEFAULT_PROTECTED_DSEQS_def
      DEFAULT_MIN_AGE_SECONDS_def BID_WINDOW_SECONDS_def BID_WINDOW_SAFETY_FACTOR_def)

end
