(* ===== verification/Funding.thy ===== *)
theory Funding
  imports PyNum
begin

text \<open>
  \<^verbatim>\<open>funding.py\<close>: whether one slot holds enough whole deposits for a create. Samples carry
  an observation time, a Python float without validation, so the order of two samples of one
  slot is the float comparison, NaN included. Reason texts are not modelled.
\<close>

section \<open>Samples, policy and decision\<close>

definition DEPOSIT_UACT :: int where
  "DEPOSIT_UACT = 5000000"

datatype funding_status = ABOVE_FLOOR | BELOW_FLOOR | FUNDING_UNDETERMINED

datatype allowance_quantity = ONCHAIN_SPEND_LIMITS | CONSOLE_DEPLOY_CREDIT

record allowance_sample =
  as_slot :: string
  as_quantity :: allowance_quantity
  as_amount_uact :: "int option" \<comment> \<open>None: unreadable\<close>
  as_observed_at :: pyfloat

definition is_allowance_sample :: "allowance_sample \<Rightarrow> bool" where
  "is_allowance_sample s \<longleftrightarrow> as_slot s \<noteq> []
     \<and> (case as_amount_uact s of None \<Rightarrow> True | Some n \<Rightarrow> 0 \<le> n)"

record funding_policy =
  required_deposits :: int
  deposit_uact :: int
  funding_version :: string

definition is_funding_policy :: "funding_policy \<Rightarrow> bool" where
  "is_funding_policy p \<longleftrightarrow> 1 \<le> required_deposits p \<and> 0 < deposit_uact p"

definition default_funding_policy :: funding_policy where
  "default_funding_policy =
     \<lparr>required_deposits = 1, deposit_uact = DEPOSIT_UACT, funding_version = ''funding-gate/v1''\<rparr>"

record funding_decision =
  fd_status :: funding_status
  fd_slot :: "string option"
  fd_quantity :: "allowance_quantity option"
  headroom_deposits :: "int option"
  fd_version :: string

definition allows_create :: "funding_decision \<Rightarrow> bool" where
  "allows_create d \<longleftrightarrow> fd_status d = ABOVE_FLOOR"

section \<open>The decision\<close>

text \<open>The first loop: the newest sample of every slot, the later one on equal times.\<close>

fun newest_samples ::
    "allowance_sample list \<Rightarrow> (string, allowance_sample) dict \<Rightarrow> (string, allowance_sample) dict" where
  "newest_samples [] newest = newest"
| "newest_samples (s # ss) newest =
     newest_samples ss
       (case dict_get newest (as_slot s) of
          None \<Rightarrow> dict_set (as_slot s) s newest
        | Some before \<Rightarrow>
            if py_le (as_observed_at before) (as_observed_at s)
            then dict_set (as_slot s) s newest else newest)"

definition readable_amounts :: "(string, allowance_sample) dict \<Rightarrow> (string \<times> int) list" where
  "readable_amounts newest =
     List.map_filter (\<lambda>(slot, s). map_option (Pair slot) (as_amount_uact s)) newest"

text \<open>\<^verbatim>\<open>max\<close> over the items, the first one on equal amounts.\<close>

definition evaluate_funding :: "allowance_sample list \<Rightarrow> funding_policy \<Rightarrow> funding_decision" where
  "evaluate_funding samples p =
     (let undetermined = \<lparr>fd_status = FUNDING_UNDETERMINED, fd_slot = None, fd_quantity = None,
        headroom_deposits = None, fd_version = funding_version p\<rparr>;
        gating = filter (\<lambda>s. as_quantity s = ONCHAIN_SPEND_LIMITS) samples
      in if samples = [] then undetermined
         else if gating = [] then undetermined
         else case py_min (\<lambda>kv. - snd kv) (readable_amounts (newest_samples gating [])) of
           None \<Rightarrow> undetermined\<lparr>fd_quantity := Some ONCHAIN_SPEND_LIMITS\<rparr>
         | Some (slot, amount) \<Rightarrow>
             (let headroom = amount div deposit_uact p
              in \<lparr>fd_status = (if required_deposits p \<le> headroom then ABOVE_FLOOR else BELOW_FLOOR),
                  fd_slot = Some slot, fd_quantity = Some ONCHAIN_SPEND_LIMITS,
                  headroom_deposits = Some headroom, fd_version = funding_version p\<rparr>))"

definition step_deltas :: "allowance_sample list \<Rightarrow> funding_policy \<Rightarrow> int list" where
  "step_deltas samples p =
     (let readable = List.map_filter as_amount_uact samples
      in map (\<lambda>(a, b). (b - a) div deposit_uact p) (zip readable (tl readable)))"

section \<open>The newest samples\<close>

text \<open>
  \<open>is_newest ss s\<close>: \<open>s\<close> is in \<open>ss\<close>, no sample of its slot is later in time, and none with
  the same time is later in the list.
\<close>

definition is_newest :: "allowance_sample list \<Rightarrow> allowance_sample \<Rightarrow> bool" where
  "is_newest ss s \<longleftrightarrow> (\<exists>as bs. ss = as @ s # bs
     \<and> (\<forall>t \<in> set as. as_slot t = as_slot s \<longrightarrow> py_le (as_observed_at t) (as_observed_at s))
     \<and> (\<forall>t \<in> set bs. as_slot t = as_slot s \<longrightarrow> py_lt (as_observed_at t) (as_observed_at s)))"

definition finite_times :: "allowance_sample list \<Rightarrow> bool" where
  "finite_times ss \<longleftrightarrow> list_all (\<lambda>s. isfinite (as_observed_at s)) ss"

lemma newest_append: "newest_samples (xs @ ys) d = newest_samples ys (newest_samples xs d)"
  by (induction xs d rule: newest_samples.induct) auto

lemma newest_ok: "dict_ok d \<Longrightarrow> dict_ok (newest_samples ss d)"
  by (induction ss d rule: newest_samples.induct) (auto simp: dict_ok_set split: option.splits)

lemma is_newest_snoc_same:
  assumes "is_newest ss t" "as_slot s = as_slot t" "finite_times (ss @ [s])"
    "py_le (as_observed_at t) (as_observed_at s)"
  shows "is_newest (ss @ [s]) s"
proof -
  obtain as bs where ss: "ss = as @ t # bs"
    "\<forall>u \<in> set as. as_slot u = as_slot t \<longrightarrow> py_le (as_observed_at u) (as_observed_at t)"
    "\<forall>u \<in> set bs. as_slot u = as_slot t \<longrightarrow> py_lt (as_observed_at u) (as_observed_at t)"
    using assms(1) by (auto simp: is_newest_def)
  have fin: "\<exists>q. as_observed_at u = Fin q" if "u \<in> set (ss @ [s])" for u
    using assms(3) that by (auto simp: finite_times_def list_all_iff elim!: isfiniteE)
  obtain x y where xy: "as_observed_at t = Fin x" "as_observed_at s = Fin y"
    using fin[of t] fin[of s] ss(1) by auto
  have "py_le (as_observed_at u) (as_observed_at s)" if u: "u \<in> set ss" "as_slot u = as_slot s" for u
  proof -
    obtain z where z: "as_observed_at u = Fin z" using fin u by auto
    have "z \<le> x" using u ss xy z assms(2) by fastforce
    then show ?thesis using xy z assms(4) by simp
  qed
  then show ?thesis unfolding is_newest_def by (intro exI[of _ ss] exI[of _ "[]"]) simp
qed

lemma newest_samples_spec:
  assumes "finite_times ss"
  shows "dict_get (newest_samples ss []) k = None \<longleftrightarrow> k \<notin> as_slot ` set ss"
    and "dict_get (newest_samples ss []) k = Some s \<Longrightarrow> as_slot s = k \<and> is_newest ss s"
proof -
  have "(dict_get (newest_samples ss []) k = None \<longleftrightarrow> k \<notin> as_slot ` set ss)
    \<and> (dict_get (newest_samples ss []) k = Some s \<longrightarrow> as_slot s = k \<and> is_newest ss s)" for k s
    using assms
  proof (induction ss arbitrary: k s rule: rev_induct)
    case (snoc x xs)
    let ?d = "newest_samples xs []"
    have fin: "finite_times xs" using snoc.prems by (simp add: finite_times_def)
    have IH: "(dict_get ?d k = None \<longleftrightarrow> k \<notin> as_slot ` set xs)
      \<and> (dict_get ?d k = Some s \<longrightarrow> as_slot s = k \<and> is_newest xs s)" for k s
      using snoc.IH fin by blast
    have keep: "is_newest (xs @ [x]) s"
      if "is_newest xs s" "as_slot x = as_slot s \<Longrightarrow> py_lt (as_observed_at x) (as_observed_at s)" for s
    proof -
      obtain as bs where "xs = as @ s # bs"
        "\<forall>t \<in> set as. as_slot t = as_slot s \<longrightarrow> py_le (as_observed_at t) (as_observed_at s)"
        "\<forall>t \<in> set bs. as_slot t = as_slot s \<longrightarrow> py_lt (as_observed_at t) (as_observed_at s)"
        using \<open>is_newest xs s\<close> by (auto simp: is_newest_def)
      then show ?thesis using that(2) unfolding is_newest_def
        by (intro exI[of _ as] exI[of _ "bs @ [x]"]) auto
    qed
    show ?case
    proof (cases "dict_get ?d (as_slot x)")
      case None
      then have none: "as_slot x \<notin> as_slot ` set xs" using IH by blast
      then have none': "as_slot t \<noteq> as_slot x" if "t \<in> set xs" for t using that by (metis image_eqI)
      have new: "is_newest (xs @ [x]) x"
        unfolding is_newest_def by (rule exI[of _ xs], rule exI[of _ "[]"]) (use none' in auto)
      have "dict_get (newest_samples (xs @ [x]) []) = (dict_get ?d)(as_slot x \<mapsto> x)"
        using None by (simp add: newest_append)
      then show ?thesis using IH[of k s] new keep[of s] none by (auto split: if_splits)
    next
      case (Some t)
      then have t: "as_slot t = as_slot x" "is_newest xs t" using IH by blast+
      obtain p q where pq: "as_observed_at t = Fin p" "as_observed_at x = Fin q"
        using snoc.prems t(2) by (auto simp: finite_times_def list_all_iff is_newest_def elim!: isfiniteE)
      show ?thesis
      proof (cases "py_le (as_observed_at t) (as_observed_at x)")
        case True
        then have "is_newest (xs @ [x]) x" using is_newest_snoc_same[OF t(2) _ snoc.prems] t(1) by simp
        moreover have "dict_get (newest_samples (xs @ [x]) []) = (dict_get ?d)(as_slot x \<mapsto> x)"
          using Some True by (simp add: newest_append)
        moreover have "as_slot x \<in> as_slot ` set xs" using IH Some by (metis option.distinct(1))
        ultimately show ?thesis using IH[of k s] keep[of s] by (auto split: if_splits)
      next
        case False
        have "dict_get (newest_samples (xs @ [x]) []) = dict_get ?d"
          using Some False by (simp add: newest_append)
        moreover have "as_slot x \<in> as_slot ` set xs" using IH Some by (metis option.distinct(1))
        moreover have "py_lt (as_observed_at x) (as_observed_at s)" if "dict_get ?d k = Some s" "as_slot x = as_slot s"
        proof -
          have "s = t" using IH[of k s] that Some by simp
          then show ?thesis using False pq by simp
        qed
        ultimately show ?thesis using IH[of k s] keep[of s] by auto
      qed
    qed
  qed simp
  then show "dict_get (newest_samples ss []) k = None \<longleftrightarrow> k \<notin> as_slot ` set ss"
    "dict_get (newest_samples ss []) k = Some s \<Longrightarrow> as_slot s = k \<and> is_newest ss s" by blast+
qed

lemma readable_amounts_iff:
  assumes "finite_times ss"
  shows "(k, n) \<in> set (readable_amounts (newest_samples ss []))
    \<longleftrightarrow> (\<exists>s. is_newest ss s \<and> dict_get (newest_samples ss []) k = Some s \<and> as_slot s = k
          \<and> as_amount_uact s = Some n)"
proof -
  have ok: "dict_ok (newest_samples ss [])" by (simp add: newest_ok)
  have "(k, n) \<in> set (readable_amounts (newest_samples ss []))
    \<longleftrightarrow> (\<exists>s. dict_get (newest_samples ss []) k = Some s \<and> as_amount_uact s = Some n)"
    using dict_get_in[OF ok] by (force simp: readable_amounts_def map_filter_def)
  then show ?thesis using newest_samples_spec(2)[OF assms] by blast
qed

lemma is_newest_stored:
  assumes "finite_times ss" "is_newest ss s"
  shows "dict_get (newest_samples ss []) (as_slot s) = Some s"
proof -
  have "s \<in> set ss" using assms(2) by (auto simp: is_newest_def)
  then obtain t where t: "dict_get (newest_samples ss []) (as_slot s) = Some t"
    using newest_samples_spec(1)[OF assms(1), of "as_slot s"] by auto
  then have n: "as_slot t = as_slot s" "is_newest ss t" using newest_samples_spec(2)[OF assms(1)] by blast+
  obtain as bs where a: "ss = as @ s # bs"
    and s: "\<forall>u \<in> set as. as_slot u = as_slot s \<longrightarrow> py_le (as_observed_at u) (as_observed_at s)"
      "\<forall>u \<in> set bs. as_slot u = as_slot s \<longrightarrow> py_lt (as_observed_at u) (as_observed_at s)"
    using assms(2) unfolding is_newest_def by metis
  obtain cs ds where c: "ss = cs @ t # ds"
    and t': "\<forall>u \<in> set cs. as_slot u = as_slot t \<longrightarrow> py_le (as_observed_at u) (as_observed_at t)"
      "\<forall>u \<in> set ds. as_slot u = as_slot t \<longrightarrow> py_lt (as_observed_at u) (as_observed_at t)"
    using n(2) unfolding is_newest_def by metis
  note eq = a c
  obtain x y where xy: "as_observed_at s = Fin x" "as_observed_at t = Fin y"
    using assms(1) \<open>s \<in> set ss\<close> c by (force simp: finite_times_def list_all_iff elim: isfiniteE)
  have "s = t"
  proof (rule ccontr)
    assume "s \<noteq> t"
    then have "t \<in> set as \<and> s \<in> set ds \<or> t \<in> set bs \<and> s \<in> set cs"
      using eq by (auto simp: append_eq_append_conv2 append_eq_Cons_conv Cons_eq_append_conv)
    then show False
      using s(1)[rule_format, of t] s(2)[rule_format, of t] t'(1)[rule_format, of s] t'(2)[rule_format, of s]
        n(1) xy by auto
  qed
  then show ?thesis using t by simp
qed

lemma le_div_iff_int: "0 < (c::int) \<Longrightarrow> a \<le> b div c \<longleftrightarrow> a * c \<le> b"
proof -
  assume c: "0 < c"
  have "a * c \<le> b" if "a \<le> b div c"
  proof -
    have "a * c \<le> b div c * c" using that c by (simp add: mult_right_mono)
    also have "\<dots> \<le> b" using c by (metis div_mult_mod_eq le_add_same_cancel1 pos_mod_sign)
    finally show ?thesis .
  qed
  moreover have "a \<le> b div c" if "a * c \<le> b"
    using zdiv_mono1[OF that c] c by simp
  ultimately show ?thesis by blast
qed

definition onchain :: "allowance_sample list \<Rightarrow> allowance_sample list" where
  "onchain samples = filter (\<lambda>s. as_quantity s = ONCHAIN_SPEND_LIMITS) samples"

text \<open>
  C34: a create is allowed exactly on what one slot currently holds. With finite times, a
  slot is named exactly when some slot's newest on-chain sample is readable; the named slot
  has such a sample, no other slot's newest readable sample holds more, the headroom is its
  whole deposits, and the create is allowed exactly when the amount covers the required
  deposits. Otherwise the run is undetermined. Neither older samples, nor other quantities,
  nor sums over slots count.
\<close>

theorem funding_rests_on_newest:
  assumes "is_funding_policy p" "finite_times (onchain samples)"
  shows "case fd_slot (evaluate_funding samples p) of
      None \<Rightarrow> fd_status (evaluate_funding samples p) = FUNDING_UNDETERMINED
        \<and> (\<forall>s. is_newest (onchain samples) s \<longrightarrow> as_amount_uact s = None)
    | Some slot \<Rightarrow> \<exists>s n. is_newest (onchain samples) s \<and> as_slot s = slot \<and> as_amount_uact s = Some n
        \<and> (\<forall>t m. is_newest (onchain samples) t \<longrightarrow> as_amount_uact t = Some m \<longrightarrow> m \<le> n)
        \<and> headroom_deposits (evaluate_funding samples p) = Some (n div deposit_uact p)
        \<and> (allows_create (evaluate_funding samples p) \<longleftrightarrow> required_deposits p * deposit_uact p \<le> n)"
proof -
  let ?g = "onchain samples"
  let ?r = "readable_amounts (newest_samples ?g [])"
  have r: "(k, n) \<in> set ?r \<longleftrightarrow> (\<exists>s. is_newest ?g s \<and> as_slot s = k \<and> as_amount_uact s = Some n)" for k n
    using readable_amounts_iff[OF assms(2)] is_newest_stored[OF assms(2)] by blast
  have pos: "0 < deposit_uact p" using assms(1) by (simp add: is_funding_policy_def)
  show ?thesis
  proof (cases "py_min (\<lambda>kv. - snd kv) ?r")
    case None
    then have "?r = []" by simp
    then have "as_amount_uact s = None" if "is_newest ?g s" for s
      using r that by (metis empty_iff list.set(1) not_None_eq)
    moreover have "fd_slot (evaluate_funding samples p) = None \<and> fd_status (evaluate_funding samples p) = FUNDING_UNDETERMINED"
      using None unfolding evaluate_funding_def Let_def onchain_def[symmetric] by (simp del: py_min_None)
    ultimately show ?thesis by simp
  next
    case (Some kv)
    obtain slot n where kv: "kv = (slot, n)" by (cases kv)
    have mem: "(slot, n) \<in> set ?r" using py_min_in[OF Some] kv by simp
    then obtain s where s: "is_newest ?g s" "as_slot s = slot" "as_amount_uact s = Some n" using r by blast
    then have ne: "?g \<noteq> []" "samples \<noteq> []" by (auto simp: is_newest_def onchain_def)
    have best: "m \<le> n" if "is_newest ?g t" "as_amount_uact t = Some m" for t m
      using py_min_le[OF Some, of "(as_slot t, m)"] that r kv by auto
    have res: "fd_slot (evaluate_funding samples p) = Some slot"
      "headroom_deposits (evaluate_funding samples p) = Some (n div deposit_uact p)"
      "allows_create (evaluate_funding samples p) \<longleftrightarrow> required_deposits p \<le> n div deposit_uact p"
      using Some kv ne by (simp_all add: evaluate_funding_def Let_def onchain_def[symmetric] allows_create_def)
    have "required_deposits p \<le> n div deposit_uact p \<longleftrightarrow> required_deposits p * deposit_uact p \<le> n"
      using pos by (rule le_div_iff_int)
    then show ?thesis using s best res by auto
  qed
qed

text \<open>
  The guard against stale readings has a gap. The observation time is not validated, and
  a sample whose time is NaN is never replaced by a later sample of its slot, so a first
  reading without a proper time is answered for ever, even when every newer reading of the
  slot is lower or unreadable.
\<close>

theorem nan_time_pins_reading:
  assumes "as_quantity s = ONCHAIN_SPEND_LIMITS" "as_observed_at s = NaN" "as_amount_uact s = Some n"
    "list_all (\<lambda>t. as_slot t = as_slot s) later"
  shows "fd_slot (evaluate_funding (s # later) p) = Some (as_slot s)
    \<and> headroom_deposits (evaluate_funding (s # later) p) = Some (n div deposit_uact p)"
proof -
  have keep: "list_all (\<lambda>t. as_slot t = as_slot s) ts \<Longrightarrow> newest_samples ts [(as_slot s, s)] = [(as_slot s, s)]" for ts
    using assms(2) by (induction ts) auto
  have "list_all (\<lambda>t. as_slot t = as_slot s) (filter (\<lambda>s. as_quantity s = ONCHAIN_SPEND_LIMITS) later)"
    using assms(4) by (auto simp: list_all_iff)
  then show ?thesis
    using assms(1,3) by (simp add: evaluate_funding_def Let_def keep readable_amounts_def map_filter_def py_min_def)
qed

section \<open>A sample run\<close>

definition sample_reading :: "string \<Rightarrow> int option \<Rightarrow> pyfloat \<Rightarrow> allowance_sample" where
  "sample_reading slot amount t =
     \<lparr>as_slot = slot, as_quantity = ONCHAIN_SPEND_LIMITS, as_amount_uact = amount, as_observed_at = t\<rparr>"

definition sample_readings :: "allowance_sample list" where
  "sample_readings =
     [sample_reading ''a'' (Some 11290000) (Fin 1), sample_reading ''b'' (Some 6290000) (Fin 2),
      sample_reading ''a'' None (Fin 3)]"

text \<open>The older reading of slot a is not used: its newest one is unreadable.\<close>

lemma funding_rests_on_newest_witness:
  "fd_slot (evaluate_funding sample_readings default_funding_policy) = Some ''b''
   \<and> allows_create (evaluate_funding sample_readings default_funding_policy)
   \<and> (\<exists>s n. is_newest (onchain sample_readings) s \<and> as_slot s = ''b'' \<and> as_amount_uact s = Some n
       \<and> 5000000 \<le> n)"
proof -
  have ok: "is_funding_policy default_funding_policy" "finite_times (onchain sample_readings)"
    by (simp_all add: is_funding_policy_def default_funding_policy_def DEPOSIT_UACT_def finite_times_def
        onchain_def sample_readings_def sample_reading_def)
  have run: "fd_slot (evaluate_funding sample_readings default_funding_policy) = Some ''b''"
    "allows_create (evaluate_funding sample_readings default_funding_policy)"
    by code_simp+
  have par: "required_deposits default_funding_policy * deposit_uact default_funding_policy = 5000000"
    by (simp add: default_funding_policy_def DEPOSIT_UACT_def)
  show ?thesis using funding_rests_on_newest[OF ok] run unfolding par run(1) option.case by blast
qed

lemma nan_time_pins_reading_witness:
  "fd_slot (evaluate_funding
      [sample_reading ''a'' (Some 11290000) NaN, sample_reading ''a'' (Some 0) (Fin 5)]
      default_funding_policy) = Some ''a''"
  using nan_time_pins_reading[of "sample_reading ''a'' (Some 11290000) NaN" 11290000
      "[sample_reading ''a'' (Some 0) (Fin 5)]" default_funding_policy]
  by (simp add: sample_reading_def)

end
