(* ===== verification/Qualification.thy ===== *)
theory Qualification
  imports PyNum
begin

text \<open>
  \<^verbatim>\<open>qualification.py\<close>: whether a provider may carry a required check, from its outcomes in a
  window. Times and rates are Python floats: differences and quotients round, and a NaN makes
  a comparison false. Reason and detail texts are not modelled.
\<close>

section \<open>Observations, policy and verdicts\<close>

datatype outcome = SUCCESS | FAILURE | UNCLASSIFIED

datatype qualification_status = QUALIFIED | QUARANTINED | INSUFFICIENT_DATA

record provider_observation =
  po_provider :: string
  po_outcome :: outcome
  po_at :: pyfloat

record qualification_policy =
  window_seconds :: pyfloat
  min_observations :: int
  quarantine_below_rate :: pyfloat
  restore_at_or_above_rate :: pyfloat
  min_quarantine_seconds :: pyfloat
  qualification_version :: string

definition is_qualification_policy :: "qualification_policy \<Rightarrow> bool" where
  "is_qualification_policy p \<longleftrightarrow> 1 \<le> min_observations p
     \<and> \<not> py_le (window_seconds p) (Fin 0) \<and> \<not> py_lt (min_quarantine_seconds p) (Fin 0)
     \<and> list_all (\<lambda>v. py_le (Fin 0) v \<and> py_le v (Fin 1))
         [quarantine_below_rate p, restore_at_or_above_rate p]
     \<and> \<not> py_lt (restore_at_or_above_rate p) (quarantine_below_rate p)"

definition DEFAULT_POLICY :: qualification_policy where
  "DEFAULT_POLICY =
     \<lparr>window_seconds = Fin (7 * 24 * 3600), min_observations = 5,
      quarantine_below_rate = double_round (80 / 100),
      restore_at_or_above_rate = double_round (90 / 100),
      min_quarantine_seconds = Fin (6 * 3600),
      qualification_version = ''provider-qualification/v1''\<rparr>"

record qualification_verdict =
  qv_provider :: string
  qv_status :: qualification_status
  qv_considered :: int
  qv_successes :: int
  qv_failures :: int
  qv_unclassified :: int
  qv_success_rate :: "pyfloat option"
  quarantined_until :: "pyfloat option"

section \<open>The verdict\<close>

definition in_window :: "provider_observation \<Rightarrow> pyfloat \<Rightarrow> qualification_policy \<Rightarrow> bool" where
  "in_window x now p \<longleftrightarrow>
     py_le (Fin 0) (fsub now (po_at x)) \<and> py_le (fsub now (po_at x)) (window_seconds p)"

definition considered_observations ::
    "string \<Rightarrow> provider_observation list \<Rightarrow> pyfloat \<Rightarrow> qualification_policy
     \<Rightarrow> provider_observation list" where
  "considered_observations prov xs now p = filter (\<lambda>x. po_provider x = prov \<and> in_window x now p) xs"

definition count_outcome :: "outcome \<Rightarrow> provider_observation list \<Rightarrow> int" where
  "count_outcome k xs = int (length (filter (\<lambda>x. po_outcome x = k) xs))"

definition success_rate :: "provider_observation list \<Rightarrow> pyfloat" where
  "success_rate mine = double_round (of_int (count_outcome SUCCESS mine) / of_int (int (length mine)))"

definition evaluate_provider ::
    "string \<Rightarrow> provider_observation list \<Rightarrow> pyfloat \<Rightarrow> qualification_policy \<Rightarrow> pyfloat option
     \<Rightarrow> qualification_verdict" where
  "evaluate_provider prov xs now p since =
     (let mine = considered_observations prov xs now p;
          verdict = (\<lambda>status rate until.
            \<lparr>qv_provider = prov, qv_status = status, qv_considered = int (length mine),
             qv_successes = count_outcome SUCCESS mine, qv_failures = count_outcome FAILURE mine,
             qv_unclassified = count_outcome UNCLASSIFIED mine,
             qv_success_rate = rate, quarantined_until = until\<rparr>);
          serving = (case since of None \<Rightarrow> False
            | Some t \<Rightarrow> py_lt (fsub now t) (min_quarantine_seconds p))
      in if serving
         then verdict QUARANTINED (if mine = [] then None else Some (success_rate mine))
                (map_option (\<lambda>t. fadd t (min_quarantine_seconds p)) since)
         else if int (length mine) < min_observations p then verdict INSUFFICIENT_DATA None None
         else let rate = success_rate mine in
           (case since of
              Some _ \<Rightarrow>
                if py_lt rate (restore_at_or_above_rate p) then verdict QUARANTINED (Some rate) None
                else verdict QUALIFIED (Some rate) None
            | None \<Rightarrow>
                if py_lt rate (quarantine_below_rate p)
                then verdict QUARANTINED (Some rate) (Some (fadd now (min_quarantine_seconds p)))
                else verdict QUALIFIED (Some rate) None))"

fun evaluate_providers ::
    "string list \<Rightarrow> provider_observation list \<Rightarrow> pyfloat \<Rightarrow> qualification_policy
     \<Rightarrow> (string, pyfloat) dict \<Rightarrow> (string, qualification_verdict) dict
     \<Rightarrow> (string, qualification_verdict) dict" where
  "evaluate_providers [] xs now p since d = d"
| "evaluate_providers (prov # provs) xs now p since d =
     evaluate_providers provs xs now p since
       (dict_set prov (evaluate_provider prov xs now p (dict_get since prov)) d)"

definition qualified_set ::
    "string list \<Rightarrow> provider_observation list \<Rightarrow> pyfloat \<Rightarrow> qualification_policy
     \<Rightarrow> (string, pyfloat) dict \<Rightarrow> string list \<times> (string, qualification_verdict) dict" where
  "qualified_set provs xs now p since =
     (let verdicts = evaluate_providers provs xs now p since []
      in (filter (\<lambda>prov. case dict_get verdicts prov of
            None \<Rightarrow> False | Some v \<Rightarrow> qv_status v = QUALIFIED) provs, verdicts))"

section \<open>Properties\<close>

lemma evaluate_providers_get:
  "dict_get (evaluate_providers provs xs now p since d) prov =
   (if prov \<in> set provs then Some (evaluate_provider prov xs now p (dict_get since prov)) else dict_get d prov)"
  by (induction provs arbitrary: d) auto

lemma unit_rate: "0 \<le> count_outcome k xs" "count_outcome k xs \<le> int (length xs)"
  by (simp_all add: count_outcome_def)

text \<open>
  C35: the eligible set holds exactly the providers with enough evidence and a sufficient
  rate: at least the required observations of the window, the unclassified ones counted in
  the denominator only, a success rate that is not below the restoration bar after a
  quarantine whose minimum duration has been served, and not below the qualification floor
  otherwise. Every requested provider has its verdict, and the counts add up. The two bars may be
  equal, although the module says that restoration needs a strictly higher rate
  (\<open>equal_bars_restore\<close>).
\<close>

theorem qualified_exactly_on_evidence:
  assumes "is_qualification_policy p" "prov \<in> set provs"
    "considered_observations prov xs now p = mine" "dict_get since prov = entered"
  shows "(prov \<in> set (fst (qualified_set provs xs now p since)) \<longleftrightarrow>
      min_observations p \<le> int (length mine)
      \<and> (case entered of
           None \<Rightarrow> \<not> py_lt (success_rate mine) (quarantine_below_rate p)
         | Some t \<Rightarrow> \<not> py_lt (fsub now t) (min_quarantine_seconds p)
             \<and> \<not> py_lt (success_rate mine) (restore_at_or_above_rate p)))
    \<and> (\<exists>v. dict_get (snd (qualified_set provs xs now p since)) prov = Some v
        \<and> qv_considered v = qv_successes v + qv_failures v + qv_unclassified v
        \<and> qv_considered v = int (length mine) \<and> qv_successes v = count_outcome SUCCESS mine)"
proof
  let ?v = "evaluate_provider prov xs now p entered"
  have get: "dict_get (snd (qualified_set provs xs now p since)) prov = Some ?v"
    using assms(2,4) by (simp add: qualified_set_def Let_def evaluate_providers_get)
  have "prov \<in> set (fst (qualified_set provs xs now p since)) \<longleftrightarrow> qv_status ?v = QUALIFIED"
    using assms(2,4) by (simp add: qualified_set_def Let_def evaluate_providers_get)
  also have "\<dots> \<longleftrightarrow> min_observations p \<le> int (length mine)
      \<and> (case entered of
           None \<Rightarrow> \<not> py_lt (success_rate mine) (quarantine_below_rate p)
         | Some t \<Rightarrow> \<not> py_lt (fsub now t) (min_quarantine_seconds p)
             \<and> \<not> py_lt (success_rate mine) (restore_at_or_above_rate p))"
    using assms(3) by (auto simp: evaluate_provider_def Let_def split: option.splits)
  finally show "prov \<in> set (fst (qualified_set provs xs now p since)) \<longleftrightarrow>
      min_observations p \<le> int (length mine)
      \<and> (case entered of
           None \<Rightarrow> \<not> py_lt (success_rate mine) (quarantine_below_rate p)
         | Some t \<Rightarrow> \<not> py_lt (fsub now t) (min_quarantine_seconds p)
             \<and> \<not> py_lt (success_rate mine) (restore_at_or_above_rate p))" .
  have "count_outcome SUCCESS zs + count_outcome FAILURE zs + count_outcome UNCLASSIFIED zs = int (length zs)" for zs
  proof (induction zs)
    case (Cons z zs)
    then show ?case by (cases "po_outcome z") (simp_all add: count_outcome_def)
  qed (simp add: count_outcome_def)
  moreover have "qv_considered ?v = int (length mine)" "qv_successes ?v = count_outcome SUCCESS mine"
    "qv_failures ?v = count_outcome FAILURE mine" "qv_unclassified ?v = count_outcome UNCLASSIFIED mine"
    using assms(3) by (simp_all add: evaluate_provider_def Let_def split: option.splits)
  ultimately show "\<exists>v. dict_get (snd (qualified_set provs xs now p since)) prov = Some v
        \<and> qv_considered v = qv_successes v + qv_failures v + qv_unclassified v
        \<and> qv_considered v = int (length mine) \<and> qv_successes v = count_outcome SUCCESS mine"
    using get by simp
qed

text \<open>A policy with equal bars constructs, and restores at a rate that just stays qualified.\<close>

definition equal_bars :: qualification_policy where
  "equal_bars = DEFAULT_POLICY\<lparr>min_observations := 1, quarantine_below_rate := Fin 1,
     restore_at_or_above_rate := Fin 1\<rparr>"

lemma equal_bars_restore:
  assumes "mine = considered_observations prov xs now equal_bars" and "mine \<noteq> []"
    and "\<not> py_lt (fsub now t) (min_quarantine_seconds equal_bars)"
  shows "is_qualification_policy equal_bars
    \<and> qv_status (evaluate_provider prov xs now equal_bars (Some t))
      = qv_status (evaluate_provider prov xs now equal_bars None)"
  using assms by (auto simp: is_qualification_policy_def evaluate_provider_def Let_def equal_bars_def
      DEFAULT_POLICY_def Suc_le_eq)

definition sample_outcomes :: "provider_observation list" where
  "sample_outcomes = map (\<lambda>k. \<lparr>po_provider = ''lisbon'', po_outcome = k, po_at = Fin 10\<rparr>)
     [SUCCESS, SUCCESS, FAILURE, SUCCESS, SUCCESS]"

lemma sample_rates: "double_round (4 / 5) = Fin (7205759403792794 / 9007199254740992)"
  "double_round (9 / 10) = Fin (8106479329266893 / 9007199254740992)"
proof -
  have f: "\<lfloor>36028797018963968 / 5 :: rat\<rfloor> = 7205759403792793" "\<lfloor>40532396646334464 / 5 :: rat\<rfloor> = 8106479329266892"
    by (rule floor_unique; simp)+
  show "double_round (4 / 5) = Fin (7205759403792794 / 9007199254740992)"
    "double_round (9 / 10) = Fin (8106479329266893 / 9007199254740992)"
    by (simp_all add: double_round_binade[of "-1"] round_half_even_def Let_def f)
qed

lemma sample_times: "double_round 90 = Fin 90" "double_round 10 = Fin 10"
  by (simp_all add: double_round_binade[of 6] double_round_binade[of 3] round_half_even_def)

lemma default_policy_ok: "is_qualification_policy DEFAULT_POLICY"
  by (simp add: is_qualification_policy_def DEFAULT_POLICY_def sample_rates)

lemma sample_considered: "considered_observations ''lisbon'' sample_outcomes (Fin 100) DEFAULT_POLICY = sample_outcomes"
  by (simp add: considered_observations_def sample_outcomes_def in_window_def fsub_def DEFAULT_POLICY_def sample_times)

lemma qualified_exactly_on_evidence_witness:
  "''lisbon'' \<in> set (fst (qualified_set [''lisbon''] sample_outcomes (Fin 100) DEFAULT_POLICY []))
   \<and> ''lisbon'' \<notin> set (fst (qualified_set [''lisbon''] sample_outcomes (Fin 100) DEFAULT_POLICY
       [(''lisbon'', Fin 90)]))"
proof -
  have "success_rate sample_outcomes = double_round (4 / 5)"
    by (simp add: success_rate_def count_outcome_def sample_outcomes_def)
  then have "\<not> py_lt (success_rate sample_outcomes) (quarantine_below_rate DEFAULT_POLICY)"
    by (simp add: DEFAULT_POLICY_def sample_rates)
  moreover have "py_lt (fsub (Fin 100) (Fin 90)) (min_quarantine_seconds DEFAULT_POLICY)"
    "min_observations DEFAULT_POLICY \<le> int (length sample_outcomes)"
    by (simp_all add: fsub_def DEFAULT_POLICY_def sample_times sample_outcomes_def)
  ultimately show ?thesis
    using qualified_exactly_on_evidence[OF default_policy_ok _ sample_considered refl, of "[''lisbon'']" "[]"]
      qualified_exactly_on_evidence[OF default_policy_ok _ sample_considered refl, of "[''lisbon'']"
        "[(''lisbon'', Fin 90)]"]
    by simp
qed

end
