(* ===== verification/WorkloadIdentity.thy ===== *)
theory WorkloadIdentity
  imports JournalData PyValue
begin

text \<open>
  \<^verbatim>\<open>workload_identity.py\<close>: the canonical group names, their register of prefixes, the parser,
  the classification of a group population and the renaming of the placements of an SDL. The
  regular expressions are written out as predicates; a name and an observed group number are
  Python values, because the code checks their type.
\<close>

section \<open>Identities and the register\<close>

definition IDENTITY_SCHEMA_VERSION :: int where
  "IDENTITY_SCHEMA_VERSION = 1"

record workload_identity =
  wi_prefix :: string
  wi_owner :: string
  wi_class :: string
  wi_group :: int
  wi_run :: "int option"
  wi_attempt :: "int option"
  wi_release :: "string option"
  wi_expires :: "int option"
  wi_version :: int

type_synonym lifecycle_key =
  "int \<times> string \<times> string \<times> string \<times> int option \<times> int option \<times> string option \<times> int option"

definition lifecycle_of :: "workload_identity \<Rightarrow> lifecycle_key" where
  "lifecycle_of i = (wi_version i, wi_prefix i, wi_owner i, wi_class i, wi_run i, wi_attempt i,
     wi_release i, wi_expires i)"

definition is_lower_digit :: "char \<Rightarrow> bool" where
  "is_lower_digit c \<longleftrightarrow> is_digit c \<or> 97 \<le> code c \<and> code c \<le> 122"

definition is_alnum :: "char \<Rightarrow> bool" where
  "is_alnum c \<longleftrightarrow> is_lower_digit c \<or> 65 \<le> code c \<and> code c \<le> 90"

definition is_separator :: "char \<Rightarrow> bool" where
  "is_separator c \<longleftrightarrow> c = CHR ''.'' \<or> c = CHR ''-''"

text \<open>\<^verbatim>\<open>[a-z0-9]+(?:[.-][a-z0-9]+)*[.-]?\<close>: no two separators in a row, none in front.\<close>

fun prefix_rest :: "string \<Rightarrow> bool" where
  "prefix_rest [] \<longleftrightarrow> True"
| "prefix_rest [c] \<longleftrightarrow> is_lower_digit c \<or> is_separator c"
| "prefix_rest (c # d # s) \<longleftrightarrow>
     (if is_lower_digit c then prefix_rest (d # s) else is_separator c \<and> is_lower_digit d \<and> prefix_rest s)"

definition prefix_shape :: "string \<Rightarrow> bool" where
  "prefix_shape s \<longleftrightarrow> (case s of [] \<Rightarrow> False | c # cs \<Rightarrow> is_lower_digit c \<and> prefix_rest cs)"

definition repository_owner_shape :: "string \<Rightarrow> bool" where
  "repository_owner_shape s \<longleftrightarrow> s \<noteq> [] \<and> length s \<le> 39 \<and> is_alnum (hd s) \<and> is_alnum (last s)
     \<and> list_all (\<lambda>c. is_alnum c \<or> c = CHR ''-'') s"

definition repository_name_shape :: "string \<Rightarrow> bool" where
  "repository_name_shape s \<longleftrightarrow> s \<noteq> [] \<and> length s \<le> 100
     \<and> list_all (\<lambda>c. is_alnum c \<or> c = CHR ''_'' \<or> c = CHR ''.'' \<or> c = CHR ''-'') s"

definition registered_repository :: "string \<Rightarrow> bool" where
  "registered_repository owner \<longleftrightarrow>
     length (filter (\<lambda>c. c = CHR ''/'') owner) = 1
     \<and> (let repo_owner = takeWhile (\<lambda>c. c \<noteq> CHR ''/'') owner;
            repo_name = tl (dropWhile (\<lambda>c. c \<noteq> CHR ''/'') owner)
        in repository_owner_shape repo_owner \<and> repository_name_shape repo_name
           \<and> repo_name \<noteq> ''.'' \<and> repo_name \<noteq> ''..'' \<and> list_ex is_alnum repo_name)"

type_synonym ownership_register = "(string, string) dict"

definition stem_of :: "string \<Rightarrow> string" where
  "stem_of p = (if p \<noteq> [] \<and> is_separator (last p) then p else p @ ''-'')"

fun register_stems ::
    "(string \<times> string) list \<Rightarrow> string list \<Rightarrow> (string, string) dict \<Rightarrow> (string, string) dict result" where
  "register_stems [] repositories stems = Inr stems"
| "register_stems ((p, owner) # rest) repositories stems =
     bindR (raise_if (\<not> prefix_shape p) ValueError) (\<lambda>_.
     bindR (raise_if (\<not> registered_repository owner) ValueError) (\<lambda>_.
     bindR (raise_if (lower owner \<in> set repositories) ValueError) (\<lambda>_.
     bindR (raise_if (dict_get stems (stem_of p) \<noteq> None) ValueError) (\<lambda>_.
     register_stems rest (repositories @ [lower owner]) (dict_set (stem_of p) p stems)))))"

definition check_register :: "ownership_register \<Rightarrow> (string, string) dict result" where
  "check_register reg = bindR (raise_if (reg = []) ValueError) (\<lambda>_. register_stems reg [] [])"

section \<open>Formatting\<close>

definition number_shape :: "string \<Rightarrow> bool" where
  "number_shape s \<longleftrightarrow> (case s of [] \<Rightarrow> False
     | c # cs \<Rightarrow> is_digit c \<and> c \<noteq> CHR ''0'' \<and> list_all is_digit cs \<and> length cs \<le> 31)"

definition number_text :: "int option \<Rightarrow> string result" where
  "number_text n = (case n of None \<Rightarrow> Inl ValueError
     | Some v \<Rightarrow> if number_shape (int_str v) then Inr (int_str v) else Inl ValueError)"

definition expiry_text :: "int \<Rightarrow> string result" where
  "expiry_text n = bindR (number_text (Some n)) (\<lambda>s.
     bindR (raise_if (MAX_UTC_UNIX_SECONDS < n) ValueError) (\<lambda>_. Inr s))"

definition IDENTITY_MARK :: string where
  "IDENTITY_MARK = ''idv1-class-''"

definition format_identity :: "workload_identity \<Rightarrow> ownership_register \<Rightarrow> string result" where
  "format_identity i reg =
     bindR (check_register reg) (\<lambda>_.
     bindR (raise_if (wi_version i \<noteq> IDENTITY_SCHEMA_VERSION) ValueError) (\<lambda>_.
     bindR (raise_if (dict_get reg (wi_prefix i) \<noteq> Some (wi_owner i)) ValueError) (\<lambda>_.
     bindR (raise_if (wi_class i \<notin> set CLASSES) ValueError) (\<lambda>_.
     bindR (number_text (Some (wi_group i))) (\<lambda>g.
     let name = stem_of (wi_prefix i) @ IDENTITY_MARK @ wi_class i @ ''-g'' @ g in
     if starts_with ''ci-'' (wi_class i)
     then bindR (raise_if (wi_release i \<noteq> None \<or> wi_expires i \<noteq> None) ValueError) (\<lambda>_.
          bindR (number_text (wi_attempt i)) (\<lambda>a.
          bindR (number_text (wi_run i)) (\<lambda>r.
          Inr (name @ ''-attempt-'' @ a @ ''-run-'' @ r @ ''-end''))))
     else
     bindR (raise_if (wi_run i \<noteq> None \<or> wi_attempt i \<noteq> None) ValueError) (\<lambda>_.
     bindR (case wi_release i of None \<Rightarrow> Inl ValueError
            | Some rel \<Rightarrow> if is_release rel then Inr rel else Inl ValueError) (\<lambda>rel.
     case wi_expires i of
       None \<Rightarrow> Inr (name @ ''-release-'' @ rel)
     | Some e \<Rightarrow>
         bindR (raise_if (wi_class i \<noteq> ''staging-payload'') ValueError) (\<lambda>_.
         bindR (expiry_text e) (\<lambda>t.
         Inr (name @ ''-release-'' @ rel @ ''-expires-'' @ t))))))))))"

section \<open>Parsing\<close>

definition after :: "string \<Rightarrow> string \<Rightarrow> string option" where
  "after lit s = (if take (length lit) s = lit then Some (drop (length lit) s) else None)"

text \<open>
  The digits of a number in front of a text: the pattern is always followed by a hyphen or by
  the end, so it takes the whole run of digits.
\<close>

definition read_number :: "string \<Rightarrow> (int \<times> string) option" where
  "read_number s =
     (let ds = takeWhile is_digit s
      in if number_shape ds then Some (int (nat_of_digits ds), dropWhile is_digit s) else None)"

definition release_char :: "char \<Rightarrow> bool" where
  "release_char c \<longleftrightarrow> is_lower_digit c \<or> c = CHR ''.'' \<or> c = CHR ''_''"

record identity_fields =
  if_class :: string
  if_group :: int
  if_run :: "int option"
  if_attempt :: "int option"
  if_release :: "string option"
  if_expires :: "int option"

definition ci_fields :: "string \<Rightarrow> string \<Rightarrow> identity_fields option" where
  "ci_fields cls tail =
     Option.bind (after (cls @ ''-g'') tail) (\<lambda>s.
     Option.bind (read_number s) (\<lambda>(g, s).
     Option.bind (after ''-attempt-'' s) (\<lambda>s.
     Option.bind (read_number s) (\<lambda>(a, s).
     Option.bind (after ''-run-'' s) (\<lambda>s.
     Option.bind (read_number s) (\<lambda>(r, s).
     if s = ''-end''
     then Some \<lparr>if_class = cls, if_group = g, if_run = Some r, if_attempt = Some a,
                if_release = None, if_expires = None\<rparr>
     else None))))))"

definition payload_fields :: "string \<Rightarrow> string \<Rightarrow> identity_fields option" where
  "payload_fields cls tail =
     Option.bind (after (cls @ ''-g'') tail) (\<lambda>s.
     Option.bind (read_number s) (\<lambda>(g, s).
     Option.bind (after ''-release-'' s) (\<lambda>s.
     let rel = takeWhile release_char s; rest = dropWhile release_char s in
     if \<not> is_release rel then None
     else let found = (\<lambda>e. \<lparr>if_class = cls, if_group = g, if_run = None, if_attempt = None,
                       if_release = Some rel, if_expires = e\<rparr>) in
       if rest = [] then Some (found None)
       else Option.bind (after ''-expires-'' rest) (\<lambda>s.
            Option.bind (read_number s) (\<lambda>(e, s).
            if s = [] then Some (found (Some e)) else None)))))"

fun first_match :: "('a \<Rightarrow> 'b option) \<Rightarrow> 'a list \<Rightarrow> 'b option" where
  "first_match f [] = None"
| "first_match f (x # xs) = (case f x of None \<Rightarrow> first_match f xs | Some y \<Rightarrow> Some y)"

definition match_tail :: "string \<Rightarrow> identity_fields option" where
  "match_tail tail =
     (case first_match (\<lambda>cls. ci_fields cls tail) [''ci-runner'', ''ci-payload''] of
        Some f \<Rightarrow> Some f
      | None \<Rightarrow> first_match (\<lambda>cls. payload_fields cls tail) [''staging-payload'', ''prod-payload''])"

definition matching_prefixes :: "(string, string) dict \<Rightarrow> string \<Rightarrow> string list" where
  "matching_prefixes stems name =
     map snd (filter (\<lambda>(stem, p). starts_with (stem @ IDENTITY_MARK) name) stems)"

definition parse_identity :: "pyval \<Rightarrow> ownership_register \<Rightarrow> workload_identity option result" where
  "parse_identity name reg =
     bindR (check_register reg) (\<lambda>stems.
     (case name of
        PStr text \<Rightarrow>
          (case matching_prefixes stems text of
             [p] \<Rightarrow>
               (case match_tail (drop (length (stem_of p @ IDENTITY_MARK)) text) of
                  None \<Rightarrow> Inr None
                | Some f \<Rightarrow>
                    (case dict_get reg p of
                       None \<Rightarrow> Inl KeyError
                     | Some owner \<Rightarrow>
                         let i = \<lparr>wi_prefix = p, wi_owner = owner, wi_class = if_class f,
                                  wi_group = if_group f, wi_run = if_run f, wi_attempt = if_attempt f,
                                  wi_release = if_release f, wi_expires = if_expires f,
                                  wi_version = IDENTITY_SCHEMA_VERSION\<rparr>
                         in Inr (if format_identity i reg = Inr text then Some i else None)))
           | _ \<Rightarrow> Inr None)
      | _ \<Rightarrow> Inr None))"

section \<open>Classifying a group population\<close>

record group_observation =
  go_group :: pyval
  go_name :: pyval

datatype population_completeness = COMPLETE_POPULATION | INCOMPLETE_POPULATION

record population =
  pop_identities :: "workload_identity list"
  pop_held :: bool
  pop_reason :: string
  pop_observed_count :: int
  pop_parsed_count :: int
  pop_completeness :: population_completeness

definition unread_population :: "string \<Rightarrow> population" where
  "unread_population reason =
     \<lparr>pop_identities = [], pop_held = True, pop_reason = reason, pop_observed_count = 0,
      pop_parsed_count = 0, pop_completeness = INCOMPLETE_POPULATION\<rparr>"

definition observed_id :: "pyval \<Rightarrow> int option" where
  "observed_id v = (case v of PInt n \<Rightarrow> if number_shape (int_str n) then Some n else None | _ \<Rightarrow> None)"

text \<open>
  \<^verbatim>\<open>groups\<close> is None when it is not a list or tuple, and an element is None when it is not a
  \<^verbatim>\<open>GroupObservation\<close>.
\<close>

definition classify_groups ::
    "group_observation option list option \<Rightarrow> ownership_register \<Rightarrow> population_completeness
     \<Rightarrow> population result" where
  "classify_groups groups reg completeness =
     bindR (check_register reg) (\<lambda>_.
     (case groups of
        None \<Rightarrow> Inr (unread_population ''missing or unreadable groups'')
      | Some gs \<Rightarrow>
          if gs = [] then Inr (unread_population ''missing or unreadable groups'')
          else if None \<in> set gs
          then Inr ((unread_population ''missing or unreadable group observations'')
                 \<lparr>pop_observed_count := int (length gs), pop_completeness := completeness\<rparr>)
          else
            let observations = List.map_filter id gs in
            bindR (mapR (\<lambda>g. parse_identity (go_name g) reg) observations) (\<lambda>parsed.
            let identities = List.map_filter id parsed;
                held = (\<lambda>why. \<lparr>pop_identities = identities, pop_held = True, pop_reason = why,
                          pop_observed_count = int (length gs), pop_parsed_count = int (length identities),
                          pop_completeness = completeness\<rparr>);
                ids = map (\<lambda>g. observed_id (go_group g)) observations;
                observed = List.map_filter id ids
            in Inr (
              if completeness = INCOMPLETE_POPULATION
              then held ''group population is incomplete or unverified''
              else if None \<in> set parsed then held ''legacy, unknown or malformed identity''
              else if None \<in> set ids then held ''invalid observed group identity''
              else if length (remdups observed) \<noteq> length gs
              then held ''duplicate observed group identity''
              else if set observed \<noteq> {1..int (length gs)}
              then held ''incomplete canonical group identity population''
              else if length (remdups (map wi_group identities)) \<noteq> length identities
              then held ''duplicate encoded group identity''
              else if list_ex (\<lambda>(i, n). wi_group i \<noteq> n) (zip identities observed)
              then held ''encoded group disagrees with observed group identity''
              else if length (remdups (map lifecycle_of identities)) \<noteq> 1
              then held ''conflicting lifecycle identities''
              else (held ''classified; retirement requires separate authority'')\<lparr>pop_held := False\<rparr>))))"

section \<open>Renaming the placements of an SDL\<close>

definition sdl_parts :: "pyval \<Rightarrow> (pyval \<times> pyval) result" where
  "sdl_parts document =
     (case document of
        PDict m \<Rightarrow>
          (case map_of m ''profiles'' of
             Some (PDict profiles) \<Rightarrow>
               (case (map_of profiles ''placement'', map_of m ''deployment'') of
                  (Some placements, Some services) \<Rightarrow> Inr (placements, services)
                | _ \<Rightarrow> Inl ValueError)
           | _ \<Rightarrow> Inl ValueError)
      | _ \<Rightarrow> Inl ValueError)"

definition dict_items :: "pyval \<Rightarrow> (string \<times> pyval) list result" where
  "dict_items v = (case v of PDict m \<Rightarrow> if m = [] then Inl ValueError else Inr m | _ \<Rightarrow> Inl ValueError)"

text \<open>\<^verbatim>\<open>{names[key]: value for key, value in items}\<close>.\<close>

definition rename_keys :: "(string \<times> string) list \<Rightarrow> (string \<times> pyval) list \<Rightarrow> (string \<times> pyval) list" where
  "rename_keys names items =
     fold (\<lambda>(key, v) d. dict_set (case map_of names key of Some k \<Rightarrow> k | None \<Rightarrow> key) v d) items []"

definition rename_sdl ::
    "(string \<times> string) list \<Rightarrow> (string \<times> pyval) list \<Rightarrow> (string \<times> pyval) list \<Rightarrow> pyval \<Rightarrow> pyval" where
  "rename_sdl names placements services document =
     (case document of
        PDict m \<Rightarrow>
          (case map_of m ''profiles'' of
             Some (PDict profiles) \<Rightarrow>
               PDict (dict_set ''deployment''
                 (PDict (map (\<lambda>(service, groups). (service,
                    case groups of PDict gs \<Rightarrow> PDict (rename_keys names gs) | v \<Rightarrow> v)) services))
                 (dict_set ''profiles''
                   (PDict (dict_set ''placement'' (PDict (rename_keys names placements)) profiles)) m))
           | _ \<Rightarrow> document)
      | _ \<Rightarrow> document)"

definition transform_sdl ::
    "pyval \<Rightarrow> (string, workload_identity) dict \<Rightarrow> ownership_register \<Rightarrow> pyval result" where
  "transform_sdl document identities reg =
     bindR (check_register reg) (\<lambda>_.
     bindR (sdl_parts document) (\<lambda>(pl, sv).
     bindR (dict_items pl) (\<lambda>placements.
     bindR (raise_if (set (map fst placements) \<noteq> set (map fst identities)) ValueError) (\<lambda>_.
     bindR (dict_items sv) (\<lambda>services.
     let expected = zip (map fst placements) [1..int (length placements)] in
     bindR (raise_if (list_ex (\<lambda>(placement, i). map_of expected placement \<noteq> Some (wi_group i)) identities)
         ValueError) (\<lambda>_.
     bindR (mapR (\<lambda>(old, i). bindR (format_identity i reg) (\<lambda>name. Inr (old, name))) identities) (\<lambda>names.
     let observations = map (\<lambda>(placement, n). Some
           \<lparr>go_group = PInt n,
            go_name = (case map_of names placement of Some t \<Rightarrow> PStr t | None \<Rightarrow> PNone)\<rparr>) expected in
     bindR (classify_groups (Some observations) reg COMPLETE_POPULATION) (\<lambda>pop.
     bindR (raise_if (pop_held pop) ValueError) (\<lambda>_.
     bindR (mapR (\<lambda>(service, groups). bindR (dict_items groups) (\<lambda>gs.
         bindR (raise_if (\<not> set (map fst gs) \<subseteq> set (map fst placements)) ValueError) (\<lambda>_.
         Inr (map fst gs)))) services) (\<lambda>referenced.
     bindR (raise_if (set (concat referenced) \<noteq> set (map fst placements)) ValueError) (\<lambda>_.
     Inr (rename_sdl names placements services document))))))))))))"

end
