(* ===== verification/WorkloadIdentityProperties.thy ===== *)
theory WorkloadIdentityProperties
  imports WorkloadIdentity
begin

text \<open>
  The guarantees of the canonical group names: formatting and parsing are inverse on every
  unambiguous register, a population is classified only when it is complete and consistent,
  and a register with nested prefixes loses names.
\<close>

lemma distinct_filter_single: "distinct xs \<Longrightarrow> x \<in> set xs \<Longrightarrow> filter (\<lambda>y. y = x) xs = [x]"
  by (induction xs) (auto simp: filter_empty_conv)

section \<open>Registers\<close>

lemma register_stems_spec:
  assumes "register_stems reg repos stems = Inr out" "dict_ok stems"
  shows "out = stems @ map (\<lambda>(p, _). (stem_of p, p)) reg \<and> dict_ok out"
  using assms
proof (induction reg repos stems rule: register_stems.induct)
  case (2 p owner rest repos stems)
  then have fresh: "dict_get stems (stem_of p) = None" by simp
  then have "stem_of p \<notin> fst ` set stems" by (simp add: map_of_eq_None_iff)
  then have set: "dict_set (stem_of p) p stems = stems @ [(stem_of p, p)]" by (rule dict_set_fresh)
  have "out = dict_set (stem_of p) p stems @ map (\<lambda>(p, _). (stem_of p, p)) rest \<and> dict_ok out"
    using 2 by (auto intro: dict_ok_set)
  then show ?case using set by auto
qed simp

lemma check_register_spec:
  assumes "check_register reg = Inr stems"
  shows "stems = map (\<lambda>(p, _). (stem_of p, p)) reg" "distinct (map (\<lambda>(p, _). stem_of p) reg)"
    "distinct (map fst reg)"
proof -
  have "stems = map (\<lambda>(p, _). (stem_of p, p)) reg \<and> dict_ok stems"
    using assms register_stems_spec[of reg "[]" "[]" stems] by (auto simp: check_register_def)
  then show "stems = map (\<lambda>(p, _). (stem_of p, p)) reg" and d: "distinct (map (\<lambda>(p, _). stem_of p) reg)"
    by (auto simp: dict_ok_def o_def case_prod_beta')
  have "map (\<lambda>(p, _). stem_of p) reg = map stem_of (map fst reg)" by (simp add: case_prod_beta')
  then show "distinct (map fst reg)" using d by (metis distinct_map)
qed

text \<open>No registered stem, with the mark behind it, begins another registered stem.\<close>

definition unambiguous_register :: "ownership_register \<Rightarrow> bool" where
  "unambiguous_register reg \<longleftrightarrow>
     list_all (\<lambda>p. list_all (\<lambda>q. \<not> starts_with (stem_of p @ IDENTITY_MARK) (stem_of q)) (map fst reg)) (map fst reg)"

lemma starts_with_iff: "starts_with p s \<longleftrightarrow> (\<exists>z. s = p @ z)"
  unfolding starts_with_def by (metis append_eq_conv_conj append_take_drop_id)

lemma after_append [simp]: "after lit (lit @ s) = Some s"
  by (simp add: after_def)

lemma mark_border:
  assumes "u @ IDENTITY_MARK @ z = IDENTITY_MARK @ t" "u \<noteq> []" "length u < length IDENTITY_MARK"
  shows False
proof -
  have "(u @ IDENTITY_MARK @ z) ! length u = CHR ''i''"
    by (simp add: nth_append IDENTITY_MARK_def)
  moreover have "(IDENTITY_MARK @ t) ! length u = IDENTITY_MARK ! length u"
    using assms(3) by (simp add: nth_append)
  moreover have "k \<in> {1,2,3,4,5,6,7,8,9,10}" if "0 < k" "k < length IDENTITY_MARK" for k
    using that unfolding IDENTITY_MARK_def by simp presburger
  then have "length u \<in> {1,2,3,4,5,6,7,8,9,10}" using assms(2,3) by simp
  then have "IDENTITY_MARK ! length u \<noteq> CHR ''i''"
    by (auto simp: IDENTITY_MARK_def)
  ultimately show False using assms(1) by simp
qed

definition has_mark :: "string \<Rightarrow> bool" where
  "has_mark s \<longleftrightarrow> (\<exists>u z. s = u @ IDENTITY_MARK @ z)"

lemma stem_unique:
  assumes eq: "s @ IDENTITY_MARK @ z = t @ IDENTITY_MARK @ tail" and "\<not> has_mark tail"
    and "\<not> starts_with (s @ IDENTITY_MARK) t"
  shows "s = t"
proof -
  consider u where "s = t @ u" "u @ IDENTITY_MARK @ z = IDENTITY_MARK @ tail"
    | u where "t = s @ u" "IDENTITY_MARK @ z = u @ IDENTITY_MARK @ tail"
    using eq unfolding append_eq_append_conv2[of s] by metis
  then show ?thesis
  proof cases
    case (1 u)
    show ?thesis
    proof (cases "length u < length IDENTITY_MARK")
      case True
      then have "u = []" using mark_border[OF 1(2)] by blast
      then show ?thesis using 1 by simp
    next
      case False
      then have "u = IDENTITY_MARK @ drop (length IDENTITY_MARK) u" (is "_ = _ @ ?v")
        using 1(2) by (metis append_eq_append_conv_if append_take_drop_id not_less)
      then have "?v @ IDENTITY_MARK @ z = tail" using 1(2) by (metis append.assoc same_append_eq)
      then show ?thesis using assms(2) by (auto simp: has_mark_def)
    qed
  next
    case (2 u)
    show ?thesis
    proof (cases "length u < length IDENTITY_MARK")
      case True
      then have "u = []" using mark_border[OF 2(2)[symmetric]] by blast
      then show ?thesis using 2 by simp
    next
      case False
      then have "u = IDENTITY_MARK @ drop (length IDENTITY_MARK) u"
        using 2(2) by (metis append_eq_append_conv_if append_take_drop_id not_less)
      then show ?thesis using assms(3) 2(1) unfolding starts_with_iff by (metis append.assoc)
    qed
  qed
qed

section \<open>The mark does not occur behind the stem\<close>

fun hyphen_parts :: "string \<Rightarrow> string list" where
  "hyphen_parts [] = [[]]"
| "hyphen_parts (c # s) =
     (if c = CHR ''-'' then [] # hyphen_parts s
      else case hyphen_parts s of [] \<Rightarrow> [[c]] | p # ps \<Rightarrow> (c # p) # ps)"

lemma hyphen_parts_Nil [simp]: "hyphen_parts s \<noteq> []"
  by (cases s) (auto split: list.splits)

lemma hyphen_parts_append: "hyphen_parts (s @ CHR ''-'' # t) = hyphen_parts s @ hyphen_parts t"
proof (induction s)
  case (Cons c s)
  then show ?case by (cases "hyphen_parts s") (simp_all)
qed simp

lemma hyphen_parts_single: "CHR ''-'' \<notin> set s \<Longrightarrow> hyphen_parts s = [s]"
  by (induction s) auto

lemma hyphen_parts_last: "CHR ''-'' \<notin> set t \<Longrightarrow> \<exists>ps p. hyphen_parts (s @ t) = ps @ [p @ t]"
proof (induction s)
  case Nil
  then show ?case by (auto simp: hyphen_parts_single)
next
  case (Cons c s)
  then obtain ps p where "hyphen_parts (s @ t) = ps @ [p @ t]" by blast
  then show ?case
    by (cases ps) (auto intro: exI[of _ "[]"] exI[of _ "c # p"])
qed

lemma has_mark_parts:
  assumes "has_mark s"
  shows "\<exists>as p bs. hyphen_parts s = as @ (p @ ''idv1'') # ''class'' # bs"
proof -
  obtain u z where s: "s = u @ IDENTITY_MARK @ z" using assms by (auto simp: has_mark_def)
  have "s = (u @ ''idv1'') @ CHR ''-'' # (''class'' @ CHR ''-'' # z)" by (simp add: s IDENTITY_MARK_def)
  then have "hyphen_parts s = hyphen_parts (u @ ''idv1'') @ hyphen_parts ''class'' @ hyphen_parts z"
    by (simp only: hyphen_parts_append)
  moreover obtain ps p where "hyphen_parts (u @ ''idv1'') = ps @ [p @ ''idv1'']"
    using hyphen_parts_last[of "''idv1''" u] by auto
  ultimately show ?thesis by (auto simp: hyphen_parts_single)
qed

lemma number_shape_digits: "number_shape s \<Longrightarrow> list_all is_digit s \<and> s \<noteq> []"
  by (cases s) (auto simp: number_shape_def)

lemma digits_no_hyphen: "list_all is_digit s \<Longrightarrow> CHR ''-'' \<notin> set s"
  by (auto simp: list_all_iff is_digit_def code_def)

lemma release_no_hyphen: "list_all release_char s \<Longrightarrow> CHR ''-'' \<notin> set s"
  by (auto simp: list_all_iff release_char_def is_lower_digit_def is_digit_def code_def)

lemma is_release_chars: "is_release s \<Longrightarrow> list_all release_char s \<and> s \<noteq> []"
  by (cases s) (auto simp: is_release_def Let_def release_char_def is_lower_digit_def list_all_iff)

lemma digits_not_word: "number_shape s \<Longrightarrow> s \<noteq> ''class'' \<and> s \<noteq> ''idv1''"
  by (auto simp: number_shape_def is_digit_def code_def)

lemma read_number_text:
  assumes "number_shape (int_str n)" "s = [] \<or> \<not> is_digit (hd s)"
  shows "read_number (int_str n @ s) = Some (n, s)"
proof -
  have d: "list_all is_digit (int_str n)" using number_shape_digits[OF assms(1)] by simp
  have stop: "takeWhile is_digit s = []" "dropWhile is_digit s = s"
    using assms(2) by (cases s; auto)+
  have "0 \<le> n"
  proof (rule ccontr)
    assume "\<not> 0 \<le> n"
    then have "\<not> is_digit (hd (int_str n))" by (simp add: int_str_def is_digit_def code_def)
    then show False using number_shape_digits[OF assms(1)] by (cases "int_str n") auto
  qed
  then have "int_str n = nat_str (nat n)" by (simp add: int_str_def)
  then have "int (nat_of_digits (int_str n)) = n" using \<open>0 \<le> n\<close> by simp
  then show ?thesis
    using assms(1) d stop by (simp add: read_number_def takeWhile_digits dropWhile_digits)
qed

section \<open>Round trip\<close>

definition ci_tail :: "string \<Rightarrow> int \<Rightarrow> int \<Rightarrow> int \<Rightarrow> string" where
  "ci_tail cls g a r = cls @ ''-g'' @ int_str g @ ''-attempt-'' @ int_str a @ ''-run-'' @ int_str r @ ''-end''"

definition payload_tail :: "string \<Rightarrow> int \<Rightarrow> string \<Rightarrow> int option \<Rightarrow> string" where
  "payload_tail cls g rel e = cls @ ''-g'' @ int_str g @ ''-release-'' @ rel
     @ (case e of None \<Rightarrow> [] | Some t \<Rightarrow> ''-expires-'' @ int_str t)"

definition valid_number :: "int \<Rightarrow> bool" where
  "valid_number n \<longleftrightarrow> number_shape (int_str n)"

lemma valid_number_text [simp]: "number_text (Some n) = Inr s \<longleftrightarrow> valid_number n \<and> s = int_str n"
  by (auto simp: number_text_def valid_number_def)

lemma read_valid [simp]:
  "valid_number n \<Longrightarrow> s = [] \<or> \<not> is_digit (hd s) \<Longrightarrow> read_number (int_str n @ s) = Some (n, s)"
  "valid_number n \<Longrightarrow> read_number (int_str n) = Some (n, [])"
  using read_number_text[of n s] read_number_text[of n "[]"] by (simp_all add: valid_number_def)

lemma not_digit_hyphen [simp]: "\<not> is_digit (CHR ''-'')"
  by (simp add: is_digit_def code_def)

lemma ci_fields_tail:
  assumes "valid_number g" "valid_number a" "valid_number r"
  shows "ci_fields cls (ci_tail cls g a r) = Some \<lparr>if_class = cls, if_group = g, if_run = Some r,
    if_attempt = Some a, if_release = None, if_expires = None\<rparr>"
proof -
  have "ci_tail cls g a r = (cls @ ''-g'') @ int_str g @ ''-attempt-'' @ int_str a @ ''-run-'' @ int_str r @ ''-end''"
    by (simp add: ci_tail_def)
  then show ?thesis using assms by (simp only: ci_fields_def after_append bind.bind_lunit read_valid
        hd_append list.sel append_Cons append_Nil not_digit_hyphen simp_thms case_prod_conv refl if_True)
      (simp add: after_def)
qed

lemma release_split:
  assumes "is_release rel" "s = [] \<or> hd s = CHR ''-''"
  shows "takeWhile release_char (rel @ s) = rel" "dropWhile release_char (rel @ s) = s"
proof -
  have l: "\<forall>c \<in> set rel. release_char c" using is_release_chars[OF assms(1)] by (simp add: list_all_iff)
  have "\<not> release_char (CHR ''-'')" by (simp add: release_char_def is_lower_digit_def is_digit_def code_def)
  then have stop: "takeWhile release_char s = []" "dropWhile release_char s = s"
    using assms(2) by (cases s; auto)+
  show "takeWhile release_char (rel @ s) = rel" "dropWhile release_char (rel @ s) = s"
    using l stop by (simp_all add: takeWhile_append2 dropWhile_append2)
qed

lemma payload_fields_tail:
  assumes "valid_number g" "is_release rel" "case e of None \<Rightarrow> True | Some t \<Rightarrow> valid_number t"
  shows "payload_fields cls (payload_tail cls g rel e) = Some \<lparr>if_class = cls, if_group = g, if_run = None,
    if_attempt = None, if_release = Some rel, if_expires = e\<rparr>"
proof -
  let ?rest = "case e of None \<Rightarrow> [] | Some t \<Rightarrow> ''-expires-'' @ int_str t"
  have "payload_tail cls g rel e = (cls @ ''-g'') @ int_str g @ ''-release-'' @ rel @ ?rest"
    by (simp add: payload_tail_def)
  moreover have "after (cls @ ''-g'') ((cls @ ''-g'') @ s) = Some s" for s by (rule after_append)
  moreover have "read_number (int_str g @ ''-release-'' @ s) = Some (g, ''-release-'' @ s)" for s
    using assms(1) by simp
  moreover have "after ''-release-'' (''-release-'' @ s) = Some s" for s by (rule after_append)
  moreover have "takeWhile release_char (rel @ ?rest) = rel" "dropWhile release_char (rel @ ?rest) = ?rest"
    using release_split[OF assms(2), of ?rest] by (auto split: option.splits)
  moreover have "after ''-expires-'' (''-expires-'' @ s) = Some s" for s by (rule after_append)
  ultimately show ?thesis using assms(2,3)
    by (cases e) (simp_all only: payload_fields_def bind.bind_lunit case_prod_conv Let_def option.case
        simp_thms if_True if_False append_is_Nil_conv list.distinct read_valid(2))
qed

lemma match_ci_tail:
  assumes "cls = ''ci-runner'' \<or> cls = ''ci-payload''" "valid_number g" "valid_number a" "valid_number r"
  shows "match_tail (ci_tail cls g a r) = Some \<lparr>if_class = cls, if_group = g, if_run = Some r,
    if_attempt = Some a, if_release = None, if_expires = None\<rparr>"
proof -
  have "ci_fields ''ci-runner'' (ci_tail ''ci-payload'' g a r) = None"
    by (simp add: ci_fields_def ci_tail_def after_def)
  then show ?thesis using assms(1) ci_fields_tail[OF assms(2-4)] by (auto simp: match_tail_def)
qed

lemma match_payload_tail:
  assumes "cls = ''staging-payload'' \<or> cls = ''prod-payload''" "valid_number g" "is_release rel"
    "case e of None \<Rightarrow> True | Some t \<Rightarrow> valid_number t"
  shows "match_tail (payload_tail cls g rel e) = Some \<lparr>if_class = cls, if_group = g, if_run = None,
    if_attempt = None, if_release = Some rel, if_expires = e\<rparr>"
proof -
  have "ci_fields c (payload_tail cls g rel e) = None" if "c = ''ci-runner'' \<or> c = ''ci-payload''" for c
    using assms(1) that by (auto simp: ci_fields_def payload_tail_def after_def)
  moreover have "payload_fields ''staging-payload'' (payload_tail ''prod-payload'' g rel e) = None"
    by (simp add: payload_fields_def payload_tail_def after_def)
  ultimately show ?thesis using assms(1) payload_fields_tail[OF assms(2-4)] by (auto simp: match_tail_def)
qed

lemma number_part: "valid_number n \<Longrightarrow> hyphen_parts (int_str n) = [int_str n]"
  using digits_no_hyphen number_shape_digits hyphen_parts_single by (simp add: valid_number_def)

lemma number_not_word: "valid_number n \<Longrightarrow> int_str n \<noteq> ''class''"
  using digits_not_word by (simp add: valid_number_def)

lemma group_part: "valid_number n \<Longrightarrow> hyphen_parts (CHR ''g'' # int_str n) = [CHR ''g'' # int_str n]"
  by (simp add: number_part)

lemma ci_parts:
  assumes "valid_number g" "valid_number a" "valid_number r"
  shows "hyphen_parts (ci_tail (x @ ''-'' @ y) g a r) = hyphen_parts x @ hyphen_parts y
    @ [CHR ''g'' # int_str g, ''attempt'', int_str a, ''run'', int_str r, ''end'']"
proof -
  have "ci_tail (x @ ''-'' @ y) g a r = x @ CHR ''-'' # y @ CHR ''-'' # (CHR ''g'' # int_str g) @ CHR ''-'' #
      ''attempt'' @ CHR ''-'' # int_str a @ CHR ''-'' # ''run'' @ CHR ''-'' # int_str r @ CHR ''-'' # ''end''"
    by (simp add: ci_tail_def)
  then show ?thesis using assms
    by (simp only: hyphen_parts_append number_part group_part) (simp add: hyphen_parts_single)
qed

lemma payload_parts:
  assumes "valid_number g" "is_release rel" "case e of None \<Rightarrow> True | Some t \<Rightarrow> valid_number t"
  shows "hyphen_parts (payload_tail (x @ ''-'' @ y) g rel e) = hyphen_parts x @ hyphen_parts y
    @ [CHR ''g'' # int_str g, ''release'', rel] @ (case e of None \<Rightarrow> [] | Some t \<Rightarrow> [''expires'', int_str t])"
proof -
  have rel: "hyphen_parts rel = [rel]"
    using is_release_chars[OF assms(2)] release_no_hyphen hyphen_parts_single by blast
  show ?thesis
  proof (cases e)
    case None
    have "payload_tail (x @ ''-'' @ y) g rel e = x @ CHR ''-'' # y @ CHR ''-'' # (CHR ''g'' # int_str g) @ CHR ''-'' #
      ''release'' @ CHR ''-'' # rel"
      by (simp add: payload_tail_def None)
    then show ?thesis using assms None
      by (simp only: hyphen_parts_append number_part group_part rel) (simp add: hyphen_parts_single)
  next
    case (Some t)
    have "payload_tail (x @ ''-'' @ y) g rel e = x @ CHR ''-'' # y @ CHR ''-'' # (CHR ''g'' # int_str g) @ CHR ''-'' #
      ''release'' @ CHR ''-'' # rel @ CHR ''-'' # ''expires'' @ CHR ''-'' # int_str t"
      by (simp add: payload_tail_def Some)
    then show ?thesis using assms Some
      by (simp only: hyphen_parts_append number_part group_part rel option.case)
        (simp add: hyphen_parts_single)
  qed
qed

lemma ends_idv1: "p @ ''idv1'' = w \<Longrightarrow> 4 \<le> length w \<and> drop (length w - 4) w = ''idv1''"
  by auto

fun adjacent :: "'a \<Rightarrow> 'a \<Rightarrow> 'a list \<Rightarrow> bool" where
  "adjacent u w (x # y # zs) \<longleftrightarrow> x = u \<and> y = w \<or> adjacent u w (y # zs)"
| "adjacent u w _ \<longleftrightarrow> False"

lemma adjacent_middle: "adjacent u w (as @ u # w # bs)"
proof (induction as)
  case (Cons a as)
  then show ?case by (cases as) auto
qed simp

lemma ci_no_mark:
  assumes "cls = ''ci-runner'' \<or> cls = ''ci-payload''" "valid_number g" "valid_number a" "valid_number r"
  shows "\<not> has_mark (ci_tail cls g a r)"
proof
  assume "has_mark (ci_tail cls g a r)"
  then obtain as p bs where "hyphen_parts (ci_tail cls g a r) = as @ (p @ ''idv1'') # ''class'' # bs"
    using has_mark_parts by blast
  then have "''class'' \<in> set (hyphen_parts (ci_tail cls g a r))" by simp
  then show False
    using assms ci_parts[OF assms(2-4), of "''ci''" "''runner''"] ci_parts[OF assms(2-4), of "''ci''" "''payload''"]
      number_not_word[OF assms(2)] number_not_word[OF assms(3)] number_not_word[OF assms(4)]
    by (auto simp: hyphen_parts_single)
qed

lemma payload_no_mark:
  assumes "cls = ''staging-payload'' \<or> cls = ''prod-payload''" "valid_number g" "is_release rel"
    "case e of None \<Rightarrow> True | Some t \<Rightarrow> valid_number t"
  shows "\<not> has_mark (payload_tail cls g rel e)"
proof
  assume "has_mark (payload_tail cls g rel e)"
  then obtain as p bs where parts:
    "hyphen_parts (payload_tail cls g rel e) = as @ (p @ ''idv1'') # ''class'' # bs"
    using has_mark_parts by blast
  obtain x where x: "x = ''staging'' \<or> x = ''prod''" "cls = x @ ''-'' @ ''payload''"
    using assms(1) by (elim disjE) simp_all
  have "hyphen_parts (payload_tail cls g rel e) = [x, ''payload'', CHR ''g'' # int_str g, ''release'', rel]
      @ (case e of None \<Rightarrow> [] | Some t \<Rightarrow> [''expires'', int_str t])"
    using payload_parts[OF assms(2-4), of x "''payload''"] x by (auto simp: hyphen_parts_single)
  then have adj: "adjacent (p @ ''idv1'') ''class'' ([x, ''payload'', CHR ''g'' # int_str (g), ''release'', rel]
      @ (case e of None \<Rightarrow> [] | Some t \<Rightarrow> [''expires'', int_str t]))"
    using parts adjacent_middle by metis
  have no: "case e of None \<Rightarrow> True | Some t \<Rightarrow> int_str t \<noteq> ''class''"
    using assms(4) number_not_word by (auto split: option.splits)
  have "''release'' \<noteq> p @ ''idv1''" using ends_idv1[of p "''release''"] by auto
  then show False using x(1) adj no by (cases e) auto
qed

lemma format_cases:
  assumes "format_identity i reg = Inr name"
  obtains tail f where "check_register reg = Inr (map (\<lambda>(p, _). (stem_of p, p)) reg)"
    "dict_get reg (wi_prefix i) = Some (wi_owner i)" "wi_version i = IDENTITY_SCHEMA_VERSION"
    "name = stem_of (wi_prefix i) @ IDENTITY_MARK @ tail" "\<not> has_mark tail"
    "match_tail tail = Some \<lparr>if_class = wi_class i, if_group = wi_group i, if_run = wi_run i,
      if_attempt = wi_attempt i, if_release = wi_release i, if_expires = wi_expires i\<rparr>"
proof -
  obtain stems where reg: "check_register reg = Inr stems" using assms by (auto simp: format_identity_def)
  have stems: "stems = map (\<lambda>(p, _). (stem_of p, p)) reg" by (rule check_register_spec(1)[OF reg])
  note fmt = assms[unfolded format_identity_def reg bindR_simps]
  have head: "wi_version i = IDENTITY_SCHEMA_VERSION" "dict_get reg (wi_prefix i) = Some (wi_owner i)"
    "wi_class i \<in> set CLASSES" "valid_number (wi_group i)"
    using fmt by auto
  show thesis
  proof (cases "starts_with ''ci-'' (wi_class i)")
    case True
    then have cls: "wi_class i = ''ci-runner'' \<or> wi_class i = ''ci-payload''"
      using head(3) by (auto simp: CLASSES_def starts_with_def)
    obtain a r where ar: "wi_attempt i = Some a" "wi_run i = Some r" "wi_release i = None" "wi_expires i = None"
      "valid_number a" "valid_number r"
      "name = stem_of (wi_prefix i) @ IDENTITY_MARK @ ci_tail (wi_class i) (wi_group i) a r"
      using fmt True by (cases "wi_attempt i"; cases "wi_run i")
        (auto simp: Let_def ci_tail_def number_text_def[of None])
    show thesis
      using that[OF _ head(2,1) ar(7)] reg stems ci_no_mark[OF cls head(4) ar(5,6)]
        match_ci_tail[OF cls head(4) ar(5,6)] ar by simp
  next
    case False
    then have cls: "wi_class i = ''staging-payload'' \<or> wi_class i = ''prod-payload''"
      using head(3) by (auto simp: CLASSES_def starts_with_def)
    obtain rel where rel: "wi_release i = Some rel" "is_release rel" "wi_run i = None" "wi_attempt i = None"
      "case wi_expires i of None \<Rightarrow> True | Some t \<Rightarrow> valid_number t"
      "name = stem_of (wi_prefix i) @ IDENTITY_MARK @ payload_tail (wi_class i) (wi_group i) rel (wi_expires i)"
      using fmt False by (cases "wi_release i"; cases "wi_expires i")
        (auto simp: Let_def payload_tail_def expiry_text_def split: if_splits)
    show thesis
      using that[OF _ head(2,1) rel(6)] reg stems payload_no_mark[OF cls head(4) rel(2,5)]
        match_payload_tail[OF cls head(4) rel(2,5)] rel by simp
  qed
qed

lemma roundtrip:
  assumes "unambiguous_register reg"
  shows "parse_identity (PStr name) reg = Inr (Some i) \<longleftrightarrow> format_identity i reg = Inr name"
proof
  assume parse: "parse_identity (PStr name) reg = Inr (Some i)"
  then obtain stems where "check_register reg = Inr stems" by (auto simp: parse_identity_def)
  note parse = parse[unfolded parse_identity_def this bindR_simps pyval.case]
  obtain p where p: "matching_prefixes stems name = [p]" using parse by (auto split: list.split_asm)
  note parse = parse[unfolded p list.case]
  obtain f where f: "match_tail (drop (length (stem_of p @ IDENTITY_MARK)) name) = Some f"
    using parse by (auto split: option.split_asm)
  obtain owner where "dict_get reg p = Some owner" using parse f by (auto split: option.split_asm)
  then show "format_identity i reg = Inr name" using parse f by (auto simp: Let_def split: if_split_asm)
next
  assume fmt: "format_identity i reg = Inr name"
  then obtain tail where f: "check_register reg = Inr (map (\<lambda>(p, _). (stem_of p, p)) reg)"
    "dict_get reg (wi_prefix i) = Some (wi_owner i)" "wi_version i = IDENTITY_SCHEMA_VERSION"
    "name = stem_of (wi_prefix i) @ IDENTITY_MARK @ tail" "\<not> has_mark tail"
    "match_tail tail = Some \<lparr>if_class = wi_class i, if_group = wi_group i, if_run = wi_run i,
      if_attempt = wi_attempt i, if_release = wi_release i, if_expires = wi_expires i\<rparr>"
    by (rule format_cases)
  note reg = check_register_spec[OF f(1)]
  have mem: "wi_prefix i \<in> set (map fst reg)" using f(2) by (metis map_of_SomeD in_set_zipE list.set_map image_eqI fst_conv)
  have inj: "inj_on stem_of (set (map fst reg))"
    using reg(2) by (fastforce simp: case_prod_beta' distinct_map comp_def inj_on_def)
  have match: "starts_with (stem_of p @ IDENTITY_MARK) name \<longleftrightarrow> p = wi_prefix i" if "p \<in> set (map fst reg)" for p
  proof
    assume "starts_with (stem_of p @ IDENTITY_MARK) name"
    then obtain z where "stem_of p @ IDENTITY_MARK @ z = stem_of (wi_prefix i) @ IDENTITY_MARK @ tail"
      using f(4) by (auto simp: starts_with_iff)
    moreover have "\<not> starts_with (stem_of p @ IDENTITY_MARK) (stem_of (wi_prefix i))"
      using assms that mem unfolding unambiguous_register_def list_all_iff by blast
    ultimately have "stem_of p = stem_of (wi_prefix i)" by (rule stem_unique[OF _ f(5)])
    then show "p = wi_prefix i" using inj that mem by (auto dest: inj_onD)
  qed (auto simp: starts_with_iff f(4))
  have "matching_prefixes (map (\<lambda>(p, _). (stem_of p, p)) reg) name = filter (\<lambda>p. p = wi_prefix i) (map fst reg)"
  proof -
    have "matching_prefixes (map (\<lambda>(p, _). (stem_of p, p)) reg) name
        = filter (\<lambda>p. starts_with (stem_of p @ IDENTITY_MARK) name) (map fst reg)"
      by (simp add: matching_prefixes_def filter_map o_def case_prod_beta')
    also have "\<dots> = filter (\<lambda>p. p = wi_prefix i) (map fst reg)" using match by (rule filter_cong[OF refl])
    finally show ?thesis .
  qed
  also have "\<dots> = [wi_prefix i]"
    using reg(3) mem by (metis distinct_filter_single)
  finally have one: "matching_prefixes (map (\<lambda>(p, _). (stem_of p, p)) reg) name = [wi_prefix i]" .
  have "drop (length (stem_of (wi_prefix i) @ IDENTITY_MARK)) name = tail" using f(4) by simp
  moreover have "\<lparr>wi_prefix = wi_prefix i, wi_owner = wi_owner i, wi_class = wi_class i,
      wi_group = wi_group i, wi_run = wi_run i, wi_attempt = wi_attempt i,
      wi_release = wi_release i, wi_expires = wi_expires i, wi_version = IDENTITY_SCHEMA_VERSION\<rparr> = i"
    using f(3) by simp
  ultimately show "parse_identity (PStr name) reg = Inr (Some i)"
    using fmt by (simp add: parse_identity_def f(1,2,6) one del: length_append)
qed

text \<open>
  C27: a canonical group name and its identity determine each other. On every register in
  which no registered stem with the identity mark begins another stem, parsing a text gives
  an identity exactly when formatting that identity gives the text; so two identities never
  share a name and a name is never read as an identity it was not made for.
\<close>

theorem identity_name_roundtrip:
  assumes "unambiguous_register reg"
  shows "parse_identity (PStr name) reg = Inr (Some i) \<longleftrightarrow> format_identity i reg = Inr name"
  by (rule roundtrip[OF assms])

section \<open>Populations\<close>

lemma map_filter_id_all: "None \<notin> set xs \<Longrightarrow> map Some (List.map_filter id xs) = xs"
  by (induction xs) (auto simp: map_filter_simps split: option.splits, metis option.exhaust)

lemma mapR_images: "mapR f xs = Inr ys \<Longrightarrow> map f xs = map Inr ys"
  by (induction xs arbitrary: ys) auto

lemma remdups_length_distinct: "length (remdups xs) = length xs \<Longrightarrow> distinct xs"
  by (metis length_remdups_eq remdups_id_iff_distinct)

lemma classification_sound:
  assumes "classify_groups groups reg completeness = Inr pop" "\<not> pop_held pop"
  shows "completeness = COMPLETE_POPULATION
    \<and> (\<exists>observed ids. groups = Some (map Some observed) \<and> observed \<noteq> []
        \<and> ids = pop_identities pop
        \<and> map (\<lambda>g. parse_identity (go_name g) reg) observed = map (\<lambda>i. Inr (Some i)) ids
        \<and> map go_group observed = map (\<lambda>i. PInt (wi_group i)) ids
        \<and> distinct (map wi_group ids) \<and> set (map wi_group ids) = {1..int (length observed)}
        \<and> (\<exists>l. list_all (\<lambda>i. lifecycle_of i = l) ids))"
proof -
  obtain stems where "check_register reg = Inr stems" using assms(1) by (auto simp: classify_groups_def)
  note cls = assms(1)[unfolded classify_groups_def this bindR_simps]
  obtain gs where gs: "groups = Some gs" "gs \<noteq> []" "None \<notin> set gs"
    using cls assms(2) by (auto simp: unread_population_def split: option.split_asm if_split_asm)
  define observed where "observed = List.map_filter id gs"
  have some: "map Some observed = gs" unfolding observed_def by (rule map_filter_id_all[OF gs(3)])
  obtain parsed where parsed: "mapR (\<lambda>g. parse_identity (go_name g) reg) observed = Inr parsed"
    using cls gs by (auto simp: observed_def Let_def)
  define ids where "ids = List.map_filter id parsed"
  define nums where "nums = List.map_filter id (map (\<lambda>g. observed_id (go_group g)) observed)"
  note res = cls[unfolded gs(1) option.case Let_def observed_def[symmetric] parsed bindR_simps
      ids_def[symmetric] nums_def[symmetric]]
  have checks: "completeness = COMPLETE_POPULATION" "None \<notin> set parsed"
    "None \<notin> set (map (\<lambda>g. observed_id (go_group g)) observed)"
    "length (remdups nums) = length gs" "set nums = {1..int (length gs)}"
    "length (remdups (map wi_group ids)) = length ids" "\<not> list_ex (\<lambda>(i, n). wi_group i \<noteq> n) (zip ids nums)"
    "length (remdups (map lifecycle_of ids)) = 1" "pop_identities pop = ids"
    using res gs(2,3) assms(2) by (auto split: if_split_asm intro: population_completeness.exhaust)
  have len: "length gs = length observed" using some by (metis length_map)
  have p: "map Some ids = parsed" unfolding ids_def by (rule map_filter_id_all[OF checks(2)])
  have lp: "length parsed = length observed" using mapR_length[OF parsed] .
  have names: "map (\<lambda>g. parse_identity (go_name g) reg) observed = map (\<lambda>i. Inr (Some i)) ids"
    using mapR_images[OF parsed] p by (metis (no_types, lifting) comp_apply map_eq_conv map_map)
  have n: "map Some nums = map (\<lambda>g. observed_id (go_group g)) observed"
    unfolding nums_def by (rule map_filter_id_all[OF checks(3)])
  have ln: "length nums = length ids" using n p lp by (metis length_map)
  have eq: "map wi_group ids = nums"
    using checks(7) ln by (intro nth_equalityI) (auto simp: list_ex_iff set_zip)
  have groups: "map go_group observed = map PInt nums"
    using n by (induction observed arbitrary: nums)
      (auto simp: observed_id_def split: pyval.split_asm if_split_asm)
  have dist: "distinct nums"
    using checks(4) len ln p lp by (metis length_map remdups_length_distinct)
  obtain l where l: "remdups (map lifecycle_of ids) = [l]"
    using checks(8) by (auto simp: length_Suc_conv simp del: length_remdups_card_conv)
  have "set (map lifecycle_of ids) = {l}" using arg_cong[OF l, of set] by simp
  then have "list_all (\<lambda>i. lifecycle_of i = l) ids" by (auto simp: list_all_iff)
  moreover have "observed \<noteq> []" using gs(2) some by auto
  moreover have "distinct (map wi_group ids)" "set (map wi_group ids) = {1..int (length observed)}"
    using eq dist checks(5) len by simp_all
  moreover have "map go_group observed = map (\<lambda>i. PInt (wi_group i)) ids" using groups eq by auto
  ultimately show ?thesis using checks(1,9) gs(1) some names by blast
qed

text \<open>
  C28: a population is released from holding only when it is complete and consistent. When
  the classification does not hold it, the caller declared it complete, every group carries a
  parsed identity whose encoded number is the observed one, the observed numbers are exactly
  1 to n, each once, and all identities have one lifecycle.
\<close>

theorem classified_population_sound:
  assumes "classify_groups groups reg completeness = Inr pop" "\<not> pop_held pop"
  shows "completeness = COMPLETE_POPULATION
    \<and> (\<exists>observed ids. groups = Some (map Some observed) \<and> observed \<noteq> []
        \<and> ids = pop_identities pop
        \<and> map (\<lambda>g. parse_identity (go_name g) reg) observed = map (\<lambda>i. Inr (Some i)) ids
        \<and> map go_group observed = map (\<lambda>i. PInt (wi_group i)) ids
        \<and> distinct (map wi_group ids) \<and> set (map wi_group ids) = {1..int (length observed)}
        \<and> (\<exists>l. list_all (\<lambda>i. lifecycle_of i = l) ids))"
  using classification_sound[OF assms] .

section \<open>Sample names\<close>

definition sample_register :: ownership_register where
  "sample_register = [(''runner-'', ''org/app''), (''web'', ''org/web'')]"

definition sample_identity :: workload_identity where
  "sample_identity =
     \<lparr>wi_prefix = ''runner-'', wi_owner = ''org/app'', wi_class = ''ci-runner'', wi_group = 1,
      wi_run = Some 57, wi_attempt = Some 2, wi_release = None, wi_expires = None, wi_version = 1\<rparr>"

definition sample_name :: string where
  "sample_name = ''runner-idv1-class-ci-runner-g1-attempt-2-run-57-end''"

lemma sample_register_ok: "unambiguous_register sample_register"
  by code_simp

lemma sample_format: "format_identity sample_identity sample_register = Inr sample_name"
  by code_simp

lemma identity_name_roundtrip_witness:
  "parse_identity (PStr sample_name) sample_register = Inr (Some sample_identity)"
  using identity_name_roundtrip[OF sample_register_ok] sample_format by blast

lemma classified_population_sound_witness:
  "\<exists>pop. classify_groups (Some [Some \<lparr>go_group = PInt 1, go_name = PStr sample_name\<rparr>]) sample_register
      COMPLETE_POPULATION = Inr pop \<and> \<not> pop_held pop
    \<and> set (map wi_group (pop_identities pop)) = {1..1}"
proof -
  let ?gs = "Some [Some \<lparr>go_group = PInt 1, go_name = PStr sample_name\<rparr>]"
  have parse: "parse_identity (PStr sample_name) sample_register = Inr (Some sample_identity)"
    using iffD2[OF roundtrip[OF sample_register_ok] sample_format] .
  have "number_shape (int_str 1)" by code_simp
  then have "\<exists>pop. classify_groups ?gs sample_register COMPLETE_POPULATION = Inr pop \<and> \<not> pop_held pop"
    using sample_format parse
    by (auto simp: classify_groups_def format_identity_def map_filter_simps observed_id_def sample_identity_def)
  then obtain pop where pop: "classify_groups ?gs sample_register COMPLETE_POPULATION = Inr pop" "\<not> pop_held pop"
    by blast
  show ?thesis using classified_population_sound[OF pop] pop by auto
qed

text \<open>
  The hypothesis of the round trip is needed: the register check refuses only equal stems, and
  when one stem with the mark begins another, the names of the second prefix are formatted but
  not read back.
\<close>

lemma nested_register_loses_names:
  "format_identity (sample_identity\<lparr>wi_prefix := ''web-idv1-class-x'', wi_owner := ''org/x''\<rparr>)
     [(''web'', ''org/web''), (''web-idv1-class-x'', ''org/x'')]
   = Inr ''web-idv1-class-x-idv1-class-ci-runner-g1-attempt-2-run-57-end''"
  "parse_identity (PStr ''web-idv1-class-x-idv1-class-ci-runner-g1-attempt-2-run-57-end'')
     [(''web'', ''org/web''), (''web-idv1-class-x'', ''org/x'')] = Inr None"
  by code_simp+

end
