(* ===== verification/CloseData.thy ===== *)
theory CloseData
  imports WorkloadIdentity
begin

text \<open>
  \<^verbatim>\<open>close_policy.py\<close>, its data: the enumerations, the evidence and authority classes, the
  decision, and the digests over their dictionaries (\<open>as_...\<close> is \<^verbatim>\<open>asdict\<close>). These classes have
  no validation of their own, except the decision.
\<close>

section \<open>Enumerations\<close>

definition CLOSE_POLICY_VERSION :: int where
  "CLOSE_POLICY_VERSION = 2"

datatype close_intent =
    INTENT_CI_CLEANUP
  | INTENT_STAGING_RETIREMENT
  | INTENT_CREATOR_ROLLBACK
  | INTENT_PRODUCTION_RETIREMENT

fun close_intent_value :: "close_intent \<Rightarrow> string" where
  "close_intent_value INTENT_CI_CLEANUP = ''ci_cleanup''"
| "close_intent_value INTENT_STAGING_RETIREMENT = ''staging_retirement''"
| "close_intent_value INTENT_CREATOR_ROLLBACK = ''creator_rollback''"
| "close_intent_value INTENT_PRODUCTION_RETIREMENT = ''production_retirement''"

datatype close_disposition = ALLOW | HOLD | DENY

datatype close_reason_code =
    CLASSIFICATION_INCOMPLETE
  | CLASSIFICATION_HELD
  | CLASSIFICATION_COUNT_MISMATCH
  | CLASSIFICATION_LIFECYCLE_MIXED
  | CANDIDATE_INCOMPLETE_OR_NON_UNIQUE
  | CLASS_POLICY_FORBIDS_INTENT
  | PRODUCER_UNAUTHENTICATED
  | PRODUCER_SHARED_EVIDENCE_INVALID
  | PRODUCER_ISOLATED_EVIDENCE_INVALID
  | CHAIN_EVIDENCE_MISSING
  | CHAIN_EVIDENCE_WRONG_POPULATION
  | CHAIN_EVIDENCE_TRUST_PATHS_INCOMPLETE
  | CHAIN_EVIDENCE_DIGEST_OR_INTERVAL_INCOMPLETE
  | CHAIN_POPULATION_INCOMPLETE_OR_MISMATCHED
  | CHAIN_LEASE_POPULATION_INCOMPLETE
  | CHAIN_SOURCES_DISAGREE
  | AUTHORITY_MISSING
  | AUTHORITY_EVIDENCE_INCOMPLETE
  | AUTHORITY_REPLAYED
  | AUTHORITY_INVALID
  | AUTHORITY_WRONG_TYPE
  | AUTHORITY_IDENTITY_DISAGREEMENT
  | AUTHORIZATION_SUCCEEDED

fun reason_disposition :: "close_reason_code \<Rightarrow> close_disposition" where
  "reason_disposition CLASSIFICATION_INCOMPLETE = HOLD"
| "reason_disposition CLASSIFICATION_HELD = HOLD"
| "reason_disposition CLASSIFICATION_COUNT_MISMATCH = HOLD"
| "reason_disposition CLASSIFICATION_LIFECYCLE_MIXED = HOLD"
| "reason_disposition CANDIDATE_INCOMPLETE_OR_NON_UNIQUE = HOLD"
| "reason_disposition CLASS_POLICY_FORBIDS_INTENT = DENY"
| "reason_disposition PRODUCER_UNAUTHENTICATED = HOLD"
| "reason_disposition PRODUCER_SHARED_EVIDENCE_INVALID = HOLD"
| "reason_disposition PRODUCER_ISOLATED_EVIDENCE_INVALID = HOLD"
| "reason_disposition CHAIN_EVIDENCE_MISSING = HOLD"
| "reason_disposition CHAIN_EVIDENCE_WRONG_POPULATION = HOLD"
| "reason_disposition CHAIN_EVIDENCE_TRUST_PATHS_INCOMPLETE = HOLD"
| "reason_disposition CHAIN_EVIDENCE_DIGEST_OR_INTERVAL_INCOMPLETE = HOLD"
| "reason_disposition CHAIN_POPULATION_INCOMPLETE_OR_MISMATCHED = HOLD"
| "reason_disposition CHAIN_LEASE_POPULATION_INCOMPLETE = HOLD"
| "reason_disposition CHAIN_SOURCES_DISAGREE = HOLD"
| "reason_disposition AUTHORITY_MISSING = HOLD"
| "reason_disposition AUTHORITY_EVIDENCE_INCOMPLETE = HOLD"
| "reason_disposition AUTHORITY_REPLAYED = HOLD"
| "reason_disposition AUTHORITY_INVALID = DENY"
| "reason_disposition AUTHORITY_WRONG_TYPE = DENY"
| "reason_disposition AUTHORITY_IDENTITY_DISAGREEMENT = DENY"
| "reason_disposition AUTHORIZATION_SUCCEEDED = ALLOW"

datatype source_agreement = AGREEING | DISAGREEING | AGREEMENT_INCOMPLETE | AGREEMENT_UNKNOWN

datatype candidate_completeness = CANDIDATES_COMPLETE | CANDIDATES_INCOMPLETE

datatype run_state =
    RUN_TERMINAL
  | RUN_LIVE
  | RUN_UNKNOWN

fun run_state_value :: "run_state \<Rightarrow> string" where
  "run_state_value RUN_TERMINAL = ''terminal''"
| "run_state_value RUN_LIVE = ''live''"
| "run_state_value RUN_UNKNOWN = ''unknown''"

datatype consumer_state =
    CONSUMER_FINISHED
  | CONSUMER_ACTIVE
  | CONSUMER_UNKNOWN

fun consumer_state_value :: "consumer_state \<Rightarrow> string" where
  "consumer_state_value CONSUMER_FINISHED = ''finished''"
| "consumer_state_value CONSUMER_ACTIVE = ''active''"
| "consumer_state_value CONSUMER_UNKNOWN = ''unknown''"

datatype verification_status =
    VERIFICATION_VERIFIED
  | VERIFICATION_FAILED
  | VERIFICATION_UNKNOWN

fun verification_status_value :: "verification_status \<Rightarrow> string" where
  "verification_status_value VERIFICATION_VERIFIED = ''verified''"
| "verification_status_value VERIFICATION_FAILED = ''failed''"
| "verification_status_value VERIFICATION_UNKNOWN = ''unknown''"

datatype uniqueness_status =
    UNIQUENESS_UNIQUE
  | UNIQUENESS_REUSED
  | UNIQUENESS_UNKNOWN

fun uniqueness_status_value :: "uniqueness_status \<Rightarrow> string" where
  "uniqueness_status_value UNIQUENESS_UNIQUE = ''unique''"
| "uniqueness_status_value UNIQUENESS_REUSED = ''reused''"
| "uniqueness_status_value UNIQUENESS_UNKNOWN = ''unknown''"

datatype production_approval_mode =
    APPROVAL_GITHUB_ENVIRONMENT
  | APPROVAL_EXTERNAL

fun production_approval_mode_value :: "production_approval_mode \<Rightarrow> string" where
  "production_approval_mode_value APPROVAL_GITHUB_ENVIRONMENT = ''github_environment''"
| "production_approval_mode_value APPROVAL_EXTERNAL = ''external''"

datatype production_authorization_action =
    ACTION_PRODUCTION_RETIREMENT
  | ACTION_OTHER

fun production_authorization_action_value :: "production_authorization_action \<Rightarrow> string" where
  "production_authorization_action_value ACTION_PRODUCTION_RETIREMENT = ''production_retirement''"
| "production_authorization_action_value ACTION_OTHER = ''other''"

datatype environment_control_status =
    CONTROL_VERIFIED_ENABLED
  | CONTROL_VERIFIED_DISABLED
  | CONTROL_NOT_APPLICABLE
  | CONTROL_UNKNOWN

fun environment_control_status_value :: "environment_control_status \<Rightarrow> string" where
  "environment_control_status_value CONTROL_VERIFIED_ENABLED = ''verified_enabled''"
| "environment_control_status_value CONTROL_VERIFIED_DISABLED = ''verified_disabled''"
| "environment_control_status_value CONTROL_NOT_APPLICABLE = ''not_applicable''"
| "environment_control_status_value CONTROL_UNKNOWN = ''unknown''"

datatype principal_kind =
    KIND_HUMAN
  | KIND_MACHINE

fun principal_kind_value :: "principal_kind \<Rightarrow> string" where
  "principal_kind_value KIND_HUMAN = ''human''"
| "principal_kind_value KIND_MACHINE = ''machine''"

datatype membership_status =
    MEMBERSHIP_VERIFIED_MEMBER
  | MEMBERSHIP_VERIFIED_NON_MEMBER
  | MEMBERSHIP_UNKNOWN

fun membership_status_value :: "membership_status \<Rightarrow> string" where
  "membership_status_value MEMBERSHIP_VERIFIED_MEMBER = ''verified_member''"
| "membership_status_value MEMBERSHIP_VERIFIED_NON_MEMBER = ''verified_non_member''"
| "membership_status_value MEMBERSHIP_UNKNOWN = ''unknown''"

datatype bypass_use_status =
    BYPASS_UNUSED
  | BYPASS_USED
  | BYPASS_UNKNOWN

fun bypass_use_status_value :: "bypass_use_status \<Rightarrow> string" where
  "bypass_use_status_value BYPASS_UNUSED = ''unused''"
| "bypass_use_status_value BYPASS_USED = ''used''"
| "bypass_use_status_value BYPASS_UNKNOWN = ''unknown''"

datatype creation_binding_status =
    BINDING_CONFIRMED
  | BINDING_FAILED
  | BINDING_UNKNOWN

fun creation_binding_status_value :: "creation_binding_status \<Rightarrow> string" where
  "creation_binding_status_value BINDING_CONFIRMED = ''confirmed''"
| "creation_binding_status_value BINDING_FAILED = ''failed''"
| "creation_binding_status_value BINDING_UNKNOWN = ''unknown''"

datatype creation_binding_mode =
    BINDING_MODE_TRANSACTION_EVENT
  | BINDING_MODE_EXACT_CHAIN_READBACK
  | BINDING_MODE_UNKNOWN

fun creation_binding_mode_value :: "creation_binding_mode \<Rightarrow> string" where
  "creation_binding_mode_value BINDING_MODE_TRANSACTION_EVENT = ''transaction_event''"
| "creation_binding_mode_value BINDING_MODE_EXACT_CHAIN_READBACK = ''exact_chain_readback''"
| "creation_binding_mode_value BINDING_MODE_UNKNOWN = ''unknown''"

datatype handoff_state =
    HANDOFF_FAILED
  | HANDOFF_SUCCEEDED
  | HANDOFF_UNKNOWN

fun handoff_state_value :: "handoff_state \<Rightarrow> string" where
  "handoff_state_value HANDOFF_FAILED = ''failed''"
| "handoff_state_value HANDOFF_SUCCEEDED = ''succeeded''"
| "handoff_state_value HANDOFF_UNKNOWN = ''unknown''"

datatype chain_proof_mode = EXACT_FINALIZED_HEIGHT | LATEST_UNFINALIZED

datatype preclose_deployment_state = PRECLOSE_ACTIVE | PRECLOSE_CLOSED | PRECLOSE_UNKNOWN

datatype lease_population_completeness = LEASES_COMPLETE | EXACT_NEVER_LEASED | LEASES_INCOMPLETE

section \<open>Evidence and authorities\<close>

definition as_deployment_key :: "deployment_key \<Rightarrow> json" where
  "as_deployment_key x = JObj
     [(''owner'', JStr (dk_owner x)),
      (''dseq'', JStr (dk_dseq x))]"

definition as_workload_identity :: "workload_identity \<Rightarrow> json" where
  "as_workload_identity x = JObj
     [(''prefix'', JStr (wi_prefix x)),
      (''owner'', JStr (wi_owner x)),
      (''workload_class'', JStr (wi_class x)),
      (''group'', JInt (wi_group x)),
      (''run'', canon_opt JInt (wi_run x)),
      (''attempt'', canon_opt JInt (wi_attempt x)),
      (''release'', canon_opt JStr (wi_release x)),
      (''expires'', canon_opt JInt (wi_expires x)),
      (''version'', JInt (wi_version x))]"

record candidate_population =
  cpo_subject :: deployment_key
  cpo_group_identity_digest :: string
  cpo_operation_id :: string
  cpo_operation_ordinal :: int
  cpo_count :: int
  cpo_completeness :: candidate_completeness
  cpo_prepared_operation_key :: string
  cpo_uniqueness_status :: uniqueness_status
  cpo_evidence_digest :: string
  cpo_creation_authorization_reference :: "string option"

record chain_evidence =
  che_subject :: deployment_key
  che_group_identity_digest :: string
  che_evidence_digest :: string
  che_chain_id :: string
  che_source_a :: string
  che_source_b :: string
  che_trust_path_a :: string
  che_trust_path_b :: string
  che_source_a_height :: int
  che_source_b_height :: int
  che_common_finality_height :: int
  che_proof_mode :: chain_proof_mode
  che_deployment_count :: int
  che_deployment_population_digest :: string
  che_deployment_state :: preclose_deployment_state
  che_deployment_state_digest :: string
  che_group_count :: int
  che_group_population_digest :: string
  che_group_state_digest :: string
  che_lease_count :: int
  che_lease_population_digest :: string
  che_lease_state_digest :: string
  che_lease_completeness :: lease_population_completeness
  che_observed_at :: int
  che_valid_until :: int
  che_agreement :: source_agreement

record ci_authority =
  cia_subject :: deployment_key
  cia_repository :: string
  cia_run :: int
  cia_attempt :: int
  cia_run_state :: run_state
  cia_consumer_state :: consumer_state
  cia_source :: string
  cia_observation_digest :: string
  cia_observed_at :: int
  cia_valid_until :: int

definition as_ci_authority :: "ci_authority \<Rightarrow> json" where
  "as_ci_authority x = JObj
     [(''subject'', as_deployment_key (cia_subject x)),
      (''repository'', JStr (cia_repository x)),
      (''run'', JInt (cia_run x)),
      (''attempt'', JInt (cia_attempt x)),
      (''run_state'', canon_enum run_state_value (cia_run_state x)),
      (''consumer_state'', canon_enum consumer_state_value (cia_consumer_state x)),
      (''source'', JStr (cia_source x)),
      (''observation_digest'', JStr (cia_observation_digest x)),
      (''observed_at'', JInt (cia_observed_at x)),
      (''valid_until'', JInt (cia_valid_until x))]"

record staging_retirement_authority =
  sra_subject :: deployment_key
  sra_repository :: string
  sra_release :: string
  sra_authorization_reference :: string
  sra_source :: string
  sra_observation_digest :: string
  sra_observed_at :: int
  sra_valid_until :: int

definition as_staging_retirement_authority :: "staging_retirement_authority \<Rightarrow> json" where
  "as_staging_retirement_authority x = JObj
     [(''subject'', as_deployment_key (sra_subject x)),
      (''repository'', JStr (sra_repository x)),
      (''release'', JStr (sra_release x)),
      (''authorization_reference'', JStr (sra_authorization_reference x)),
      (''source'', JStr (sra_source x)),
      (''observation_digest'', JStr (sra_observation_digest x)),
      (''observed_at'', JInt (sra_observed_at x)),
      (''valid_until'', JInt (sra_valid_until x))]"

record production_principal =
  ppr_principal :: string
  ppr_kind :: principal_kind
  ppr_authentication_status :: verification_status
  ppr_admin_membership :: membership_status
  ppr_approval_role_membership :: membership_status
  ppr_evidence_source :: string
  ppr_evidence_digest :: string

definition as_production_principal :: "production_principal \<Rightarrow> json" where
  "as_production_principal x = JObj
     [(''principal'', JStr (ppr_principal x)),
      (''kind'', canon_enum principal_kind_value (ppr_kind x)),
      (''authentication_status'', canon_enum verification_status_value (ppr_authentication_status x)),
      (''admin_membership'', canon_enum membership_status_value (ppr_admin_membership x)),
      (''approval_role_membership'', canon_enum membership_status_value (ppr_approval_role_membership x)),
      (''evidence_source'', JStr (ppr_evidence_source x)),
      (''evidence_digest'', JStr (ppr_evidence_digest x))]"

record production_bypass_evidence =
  pby_configuration_status :: environment_control_status
  pby_use_status :: bypass_use_status
  pby_observation_verification_status :: verification_status
  pby_enabled_bypass_policy_status :: verification_status
  pby_observation_source :: string
  pby_observation_digest :: string
  pby_actor_principal :: "string option"

definition as_production_bypass_evidence :: "production_bypass_evidence \<Rightarrow> json" where
  "as_production_bypass_evidence x = JObj
     [(''configuration_status'', canon_enum environment_control_status_value (pby_configuration_status x)),
      (''use_status'', canon_enum bypass_use_status_value (pby_use_status x)),
      (''observation_verification_status'', canon_enum verification_status_value (pby_observation_verification_status x)),
      (''enabled_bypass_policy_status'', canon_enum verification_status_value (pby_enabled_bypass_policy_status x)),
      (''observation_source'', JStr (pby_observation_source x)),
      (''observation_digest'', JStr (pby_observation_digest x)),
      (''actor_principal'', canon_opt JStr (pby_actor_principal x))]"

record production_retirement_authority =
  pra_subject :: deployment_key
  pra_repository :: string
  pra_release :: string
  pra_environment :: string
  pra_authorization_id :: string
  pra_authorization_reference :: string
  pra_requester :: production_principal
  pra_approver :: production_principal
  pra_executor :: production_principal
  pra_action :: production_authorization_action
  pra_approval_mode :: production_approval_mode
  pra_approval_verification_status :: verification_status
  pra_single_use_verification :: verification_status
  pra_authorization_uniqueness_status :: uniqueness_status
  pra_prevent_self_review_status :: environment_control_status
  pra_bypass :: "production_bypass_evidence option"
  pra_policy_reference :: string
  pra_approval_verification_source :: string
  pra_approval_verification_digest :: string
  pra_verified_authorization_id :: string
  pra_verified_environment :: string
  pra_verified_release :: string
  pra_verified_subject :: deployment_key
  pra_verified_action :: production_authorization_action
  pra_single_use_authorization_id :: string
  pra_unique_authorization_id :: string
  pra_issued_at :: int
  pra_observed_at :: int
  pra_valid_until :: int
  pra_workflow_ref :: "string option"
  pra_workflow_sha :: "string option"
  pra_ref :: "string option"
  pra_verified_workflow_ref :: "string option"
  pra_verified_workflow_sha :: "string option"
  pra_verified_ref :: "string option"

definition as_production_retirement_authority :: "production_retirement_authority \<Rightarrow> json" where
  "as_production_retirement_authority x = JObj
     [(''subject'', as_deployment_key (pra_subject x)),
      (''repository'', JStr (pra_repository x)),
      (''release'', JStr (pra_release x)),
      (''environment'', JStr (pra_environment x)),
      (''authorization_id'', JStr (pra_authorization_id x)),
      (''authorization_reference'', JStr (pra_authorization_reference x)),
      (''requester'', as_production_principal (pra_requester x)),
      (''approver'', as_production_principal (pra_approver x)),
      (''executor'', as_production_principal (pra_executor x)),
      (''action'', canon_enum production_authorization_action_value (pra_action x)),
      (''approval_mode'', canon_enum production_approval_mode_value (pra_approval_mode x)),
      (''approval_verification_status'', canon_enum verification_status_value (pra_approval_verification_status x)),
      (''single_use_verification'', canon_enum verification_status_value (pra_single_use_verification x)),
      (''authorization_uniqueness_status'', canon_enum uniqueness_status_value (pra_authorization_uniqueness_status x)),
      (''prevent_self_review_status'', canon_enum environment_control_status_value (pra_prevent_self_review_status x)),
      (''bypass'', canon_opt as_production_bypass_evidence (pra_bypass x)),
      (''policy_reference'', JStr (pra_policy_reference x)),
      (''approval_verification_source'', JStr (pra_approval_verification_source x)),
      (''approval_verification_digest'', JStr (pra_approval_verification_digest x)),
      (''verified_authorization_id'', JStr (pra_verified_authorization_id x)),
      (''verified_environment'', JStr (pra_verified_environment x)),
      (''verified_release'', JStr (pra_verified_release x)),
      (''verified_subject'', as_deployment_key (pra_verified_subject x)),
      (''verified_action'', canon_enum production_authorization_action_value (pra_verified_action x)),
      (''single_use_authorization_id'', JStr (pra_single_use_authorization_id x)),
      (''unique_authorization_id'', JStr (pra_unique_authorization_id x)),
      (''issued_at'', JInt (pra_issued_at x)),
      (''observed_at'', JInt (pra_observed_at x)),
      (''valid_until'', JInt (pra_valid_until x)),
      (''workflow_ref'', canon_opt JStr (pra_workflow_ref x)),
      (''workflow_sha'', canon_opt JStr (pra_workflow_sha x)),
      (''ref'', canon_opt JStr (pra_ref x)),
      (''verified_workflow_ref'', canon_opt JStr (pra_verified_workflow_ref x)),
      (''verified_workflow_sha'', canon_opt JStr (pra_verified_workflow_sha x)),
      (''verified_ref'', canon_opt JStr (pra_verified_ref x))]"

record rollback_trigger_evidence =
  rte_handoff_state :: handoff_state
  rte_source :: string
  rte_evidence_digest :: string
  rte_observed_at :: int
  rte_valid_until :: int

definition as_rollback_trigger_evidence :: "rollback_trigger_evidence \<Rightarrow> json" where
  "as_rollback_trigger_evidence x = JObj
     [(''handoff_state'', canon_enum handoff_state_value (rte_handoff_state x)),
      (''source'', JStr (rte_source x)),
      (''evidence_digest'', JStr (rte_evidence_digest x)),
      (''observed_at'', JInt (rte_observed_at x)),
      (''valid_until'', JInt (rte_valid_until x))]"

record creator_rollback_authority =
  rba_subject :: deployment_key
  rba_operation_id :: string
  rba_repository :: string
  rba_workload_class :: string
  rba_run :: "int option"
  rba_run_attempt :: "int option"
  rba_release :: "string option"
  rba_expires :: "int option"
  rba_creation_authorization_reference :: "string option"
  rba_backend :: string
  rba_signer_owner :: string
  rba_group_identity_digest :: string
  rba_capability_reference :: string
  rba_binding_status :: creation_binding_status
  rba_binding_mode :: creation_binding_mode
  rba_binding_source :: string
  rba_binding_evidence_digest :: string
  rba_prepared_at :: int
  rba_valid_until :: int
  rba_rollback_trigger :: rollback_trigger_evidence

definition as_creator_rollback_authority :: "creator_rollback_authority \<Rightarrow> json" where
  "as_creator_rollback_authority x = JObj
     [(''subject'', as_deployment_key (rba_subject x)),
      (''operation_id'', JStr (rba_operation_id x)),
      (''repository'', JStr (rba_repository x)),
      (''workload_class'', JStr (rba_workload_class x)),
      (''run'', canon_opt JInt (rba_run x)),
      (''run_attempt'', canon_opt JInt (rba_run_attempt x)),
      (''release'', canon_opt JStr (rba_release x)),
      (''expires'', canon_opt JInt (rba_expires x)),
      (''creation_authorization_reference'', canon_opt JStr (rba_creation_authorization_reference x)),
      (''backend'', JStr (rba_backend x)),
      (''signer_owner'', JStr (rba_signer_owner x)),
      (''group_identity_digest'', JStr (rba_group_identity_digest x)),
      (''capability_reference'', JStr (rba_capability_reference x)),
      (''binding_status'', canon_enum creation_binding_status_value (rba_binding_status x)),
      (''binding_mode'', canon_enum creation_binding_mode_value (rba_binding_mode x)),
      (''binding_source'', JStr (rba_binding_source x)),
      (''binding_evidence_digest'', JStr (rba_binding_evidence_digest x)),
      (''prepared_at'', JInt (rba_prepared_at x)),
      (''valid_until'', JInt (rba_valid_until x)),
      (''rollback_trigger'', as_rollback_trigger_evidence (rba_rollback_trigger x))]"

datatype lifecycle_authority =
    CI ci_authority
  | StagingRetirement staging_retirement_authority
  | ProductionRetirement production_retirement_authority
  | CreatorRollback creator_rollback_authority

record isolated_signer_evidence =
  iso_signer_owner :: string
  iso_repository :: string
  iso_workload_class :: string
  iso_operation_id :: string
  iso_environment :: "string option"
  iso_trust_domain :: string
  iso_source :: string
  iso_evidence_digest :: string
  iso_observed_at :: int
  iso_valid_until :: int

record creation_attestation =
  cat_schema_version :: int
  cat_audience :: string
  cat_issuer :: string
  cat_operation_id :: string
  cat_subject :: deployment_key
  cat_group_identity_digest :: string
  cat_producer_repository :: string
  cat_workload_class :: string
  cat_repository_id :: string
  cat_repository_owner_id :: string
  cat_ref :: string
  cat_workflow_ref :: string
  cat_workflow_sha :: string
  cat_producer_oidc_issuer :: string
  cat_producer_oidc_audience :: string
  cat_producer_oidc_subject :: string
  cat_producer_oidc_jti :: string
  cat_issued_at :: int
  cat_job_workflow_ref :: "string option"
  cat_job_workflow_sha :: "string option"
  cat_run :: "int option"
  cat_run_attempt :: "int option"
  cat_release :: "string option"
  cat_authorization_reference :: "string option"
  cat_environment :: "string option"

definition as_creation_attestation :: "creation_attestation \<Rightarrow> json" where
  "as_creation_attestation x = JObj
     [(''schema_version'', JInt (cat_schema_version x)),
      (''audience'', JStr (cat_audience x)),
      (''issuer'', JStr (cat_issuer x)),
      (''operation_id'', JStr (cat_operation_id x)),
      (''subject'', as_deployment_key (cat_subject x)),
      (''group_identity_digest'', JStr (cat_group_identity_digest x)),
      (''producer_repository'', JStr (cat_producer_repository x)),
      (''workload_class'', JStr (cat_workload_class x)),
      (''repository_id'', JStr (cat_repository_id x)),
      (''repository_owner_id'', JStr (cat_repository_owner_id x)),
      (''ref'', JStr (cat_ref x)),
      (''workflow_ref'', JStr (cat_workflow_ref x)),
      (''workflow_sha'', JStr (cat_workflow_sha x)),
      (''producer_oidc_issuer'', JStr (cat_producer_oidc_issuer x)),
      (''producer_oidc_audience'', JStr (cat_producer_oidc_audience x)),
      (''producer_oidc_subject'', JStr (cat_producer_oidc_subject x)),
      (''producer_oidc_jti'', JStr (cat_producer_oidc_jti x)),
      (''issued_at'', JInt (cat_issued_at x)),
      (''job_workflow_ref'', canon_opt JStr (cat_job_workflow_ref x)),
      (''job_workflow_sha'', canon_opt JStr (cat_job_workflow_sha x)),
      (''run'', canon_opt JInt (cat_run x)),
      (''run_attempt'', canon_opt JInt (cat_run_attempt x)),
      (''release'', canon_opt JStr (cat_release x)),
      (''authorization_reference'', canon_opt JStr (cat_authorization_reference x)),
      (''environment'', canon_opt JStr (cat_environment x))]"

record attestation_verification =
  atv_attestation_digest :: string
  atv_trust_root :: string
  atv_verified_issuer :: string
  atv_verified_audience :: string
  atv_verified_producer_oidc_issuer :: string
  atv_verified_producer_oidc_audience :: string
  atv_verified_producer_oidc_subject :: string
  atv_verified_producer_oidc_jti :: string
  atv_signature_status :: verification_status
  atv_uniqueness_status :: uniqueness_status
  atv_producer_jti_uniqueness_status :: uniqueness_status
  atv_observed_at :: int
  atv_valid_until :: int

record shared_signer_evidence =
  shs_attestation :: creation_attestation
  shs_verification :: attestation_verification

datatype producer_authentication =
    IsolatedSigner isolated_signer_evidence
  | SharedSigner shared_signer_evidence

record close_decision =
  cld_disposition :: close_disposition
  cld_intent :: close_intent
  cld_subject :: deployment_key
  cld_reason_code :: close_reason_code
  cld_message :: string
  cld_workload_class :: "string option"
  cld_observed_groups :: int
  cld_matching_candidate_count :: int
  cld_group_identity_digest :: "string option"
  cld_authority_principal :: "string option"
  cld_authority_digest :: "string option"
  cld_preclose_evidence_digest :: "string option"
  cld_evidence_observed_at :: "int option"
  cld_evidence_valid_until :: "int option"
  cld_evaluated_at :: int
  cld_operation_id :: string
  cld_candidate_evidence_digest :: string
  cld_prepared_operation_key :: string
  cld_chain_id :: "string option"
  cld_proof_mode :: "chain_proof_mode option"
  cld_finalized_height :: "int option"
  cld_policy_version :: int

definition is_close_decision :: "close_decision \<Rightarrow> bool" where
  "is_close_decision d \<longleftrightarrow> nonempty (cld_message d) \<and> cld_policy_version d = CLOSE_POLICY_VERSION
     \<and> reason_disposition (cld_reason_code d) = cld_disposition d"

definition allowed :: "close_decision \<Rightarrow> bool" where
  "allowed d \<longleftrightarrow> cld_disposition d = ALLOW"

section \<open>Digests\<close>

definition dict_digest :: "json \<Rightarrow> string" where
  "dict_digest j = sha256_hexdigest (dumps j)"

definition EMPTY_POPULATION_DIGEST :: string where
  "EMPTY_POPULATION_DIGEST = sha256_hexdigest ''[]''"

definition canonical_attestation_digest :: "creation_attestation \<Rightarrow> string" where
  "canonical_attestation_digest x = dict_digest (as_creation_attestation x)"

definition canonical_deployment_population_digest :: "deployment_key \<Rightarrow> string" where
  "canonical_deployment_population_digest subject = dict_digest (JArr [as_deployment_key subject])"

text \<open>A reason: the code and the diagnostic.\<close>

type_synonym close_reason = "close_reason_code \<times> string"

text \<open>The first failed check of a sequence of early returns.\<close>

fun first_reason :: "(bool \<times> 'a) list \<Rightarrow> 'a option" where
  "first_reason [] = None"
| "first_reason ((failed, why) # checks) = (if failed then Some why else first_reason checks)"

text \<open>\<^verbatim>\<open>_classified\<close>: the first identity, or why the population is not classified.\<close>

definition classified :: "population \<Rightarrow> close_reason + workload_identity" where
  "classified p =
     (case first_reason
        [(pop_completeness p \<noteq> COMPLETE_POPULATION,
          (CLASSIFICATION_INCOMPLETE, ''group population is incomplete or unverified'')),
         (pop_held p, (CLASSIFICATION_HELD,
            if pop_reason p = [] then ''workload population is held'' else pop_reason p)),
         (pop_identities p = [] \<or> pop_parsed_count p \<noteq> pop_observed_count p
            \<or> int (length (pop_identities p)) \<noteq> pop_observed_count p,
          (CLASSIFICATION_COUNT_MISMATCH, ''classified population counts disagree'')),
         (list_ex (\<lambda>i. lifecycle_of i \<noteq> lifecycle_of (hd (pop_identities p))) (pop_identities p),
          (CLASSIFICATION_LIFECYCLE_MIXED, ''mixed workload lifecycle population''))] of
        Some why \<Rightarrow> Inl why
      | None \<Rightarrow> Inr (hd (pop_identities p)))"

definition canonical_group_identity_digest :: "population \<Rightarrow> string result" where
  "canonical_group_identity_digest p =
     (case classified p of
        Inl _ \<Rightarrow> Inl ValueError
      | Inr _ \<Rightarrow> Inr (dict_digest (JArr (map as_workload_identity (sort_key wi_group (pop_identities p))))))"

definition canonical_prepared_operation_key ::
    "string \<Rightarrow> string \<Rightarrow> string \<Rightarrow> string \<Rightarrow> int \<Rightarrow> string \<Rightarrow> int option \<Rightarrow> int option \<Rightarrow> string option
     \<Rightarrow> string result" where
  "canonical_prepared_operation_key signer repository cls operation ordinal digest run run_attempt release =
     bindR (raise_if (\<not> is_canonical_akash_owner signer
         \<or> \<not> list_all nonempty [repository, cls, operation, digest]) ValueError) (\<lambda>_.
     bindR (raise_if (ordinal \<le> 0) ValueError) (\<lambda>_.
     bindR (if starts_with ''ci-'' cls
            then raise_if (run = None \<or> run_attempt = None \<or> release \<noteq> None) ValueError
            else if cls = ''staging-payload'' \<or> cls = ''prod-payload''
            then raise_if (run \<noteq> None \<or> run_attempt \<noteq> None
                   \<or> (case release of None \<Rightarrow> True | Some r \<Rightarrow> \<not> nonempty r)) ValueError
            else Inl ValueError) (\<lambda>_.
     Inr (dict_digest (JObj
       [(''signer_owner'', JStr signer), (''producer_repository'', JStr repository),
        (''workload_class'', JStr cls), (''operation_id'', JStr operation),
        (''operation_ordinal'', JInt ordinal), (''prepared_group_identity_digest'', JStr digest),
        (''run'', canon_opt JInt run), (''run_attempt'', canon_opt JInt run_attempt),
        (''release'', canon_opt JStr release)])))))"


end
