(* ===== verification/Close.thy ===== *)
theory Close
  imports CloseData
begin

text \<open>
  \<^verbatim>\<open>close_policy.py\<close>, its logic: the checks of the producer evidence and of the lifecycle
  authorities, the class policy, and \<^verbatim>\<open>evaluate_close\<close> in the stages of the code.
\<close>

section \<open>Windows and contexts\<close>

definition window_holds :: "int \<Rightarrow> int \<Rightarrow> int \<Rightarrow> bool" where
  "window_holds start evaluated_at until \<longleftrightarrow> 0 < start \<and> start \<le> evaluated_at \<and> evaluated_at \<le> until"

definition opt_nonempty :: "string option \<Rightarrow> bool" where
  "opt_nonempty v \<longleftrightarrow> (case v of None \<Rightarrow> False | Some s \<Rightarrow> nonempty s)"

definition all_nonempty :: "string list \<Rightarrow> bool" where
  "all_nonempty vs \<longleftrightarrow> list_all nonempty vs"

definition is_payload_class :: "string \<Rightarrow> bool" where
  "is_payload_class cls \<longleftrightarrow> cls = ''staging-payload'' \<or> cls = ''prod-payload''"

definition authority_subject :: "lifecycle_authority \<Rightarrow> deployment_key" where
  "authority_subject a = (case a of CI x \<Rightarrow> cia_subject x | StagingRetirement x \<Rightarrow> sra_subject x
     | ProductionRetirement x \<Rightarrow> pra_subject x | CreatorRollback x \<Rightarrow> rba_subject x)"

definition authority_context :: "lifecycle_authority option \<Rightarrow> string option \<times> string option" where
  "authority_context authority =
     (case authority of
        None \<Rightarrow> (None, None)
      | Some (CI a) \<Rightarrow>
          (Some (''ci:'' @ cia_repository a @ '':'' @ int_str (cia_run a) @ '':'' @ int_str (cia_attempt a)),
           Some (dict_digest (as_ci_authority a)))
      | Some (StagingRetirement a) \<Rightarrow>
          (Some (sra_authorization_reference a), Some (dict_digest (as_staging_retirement_authority a)))
      | Some (ProductionRetirement a) \<Rightarrow>
          (Some (ppr_principal (pra_executor a)), Some (dict_digest (as_production_retirement_authority a)))
      | Some (CreatorRollback a) \<Rightarrow>
          (Some (''creator:'' @ rba_backend a @ '':'' @ rba_operation_id a),
           Some (dict_digest (as_creator_rollback_authority a))))"

definition make_decision ::
    "close_disposition \<Rightarrow> close_intent \<Rightarrow> deployment_key \<Rightarrow> population \<Rightarrow> candidate_population
     \<Rightarrow> close_reason \<Rightarrow> int \<Rightarrow> workload_identity option \<Rightarrow> lifecycle_authority option
     \<Rightarrow> chain_evidence option \<Rightarrow> close_decision result" where
  "make_decision disposition intent subject p candidates why evaluated_at identity authority chain =
     bindR (case identity of None \<Rightarrow> Inr None
            | Some _ \<Rightarrow> bindR (canonical_group_identity_digest p) (\<lambda>g. Inr (Some g))) (\<lambda>group_digest.
     construct is_close_decision
       \<lparr>cld_disposition = disposition, cld_intent = intent, cld_subject = subject,
        cld_reason_code = fst why, cld_message = snd why,
        cld_workload_class = map_option wi_class identity,
        cld_observed_groups = pop_observed_count p, cld_matching_candidate_count = cpo_count candidates,
        cld_group_identity_digest = group_digest,
        cld_authority_principal = fst (authority_context authority),
        cld_authority_digest = snd (authority_context authority),
        cld_preclose_evidence_digest = map_option che_evidence_digest chain,
        cld_evidence_observed_at = map_option che_observed_at chain,
        cld_evidence_valid_until = map_option che_valid_until chain,
        cld_evaluated_at = evaluated_at, cld_operation_id = cpo_operation_id candidates,
        cld_candidate_evidence_digest = cpo_evidence_digest candidates,
        cld_prepared_operation_key = cpo_prepared_operation_key candidates,
        cld_chain_id = map_option che_chain_id chain, cld_proof_mode = map_option che_proof_mode chain,
        cld_finalized_height = map_option che_common_finality_height chain,
        cld_policy_version = CLOSE_POLICY_VERSION\<rparr>)"

section \<open>Producer evidence\<close>

definition digits_positive :: "string \<Rightarrow> bool" where
  "digits_positive s \<longleftrightarrow> (case s of [] \<Rightarrow> False | c # cs \<Rightarrow> is_digit c \<and> c \<noteq> CHR ''0'' \<and> list_all is_digit cs)"

definition opt_revision :: "string option \<Rightarrow> bool" where
  "opt_revision v \<longleftrightarrow> (case v of None \<Rightarrow> False | Some s \<Rightarrow> is_revision s)"

definition shared_reason ::
    "shared_signer_evidence \<Rightarrow> deployment_key \<Rightarrow> population \<Rightarrow> workload_identity
     \<Rightarrow> candidate_population \<Rightarrow> int \<Rightarrow> close_reason option result" where
  "shared_reason evidence subject p identity candidates evaluated_at =
     bindR (canonical_group_identity_digest p) (\<lambda>group_digest.
     let claim = shs_attestation evidence; check = shs_verification evidence;
         differs = (\<lambda>field. ''creation attestation '' @ field @ '' does not match observed deployment'') in
     Inr (map_option (Pair PRODUCER_SHARED_EVIDENCE_INVALID) (first_reason
       [(cat_subject claim \<noteq> subject, differs ''subject''),
        (cat_group_identity_digest claim \<noteq> group_digest, differs ''group_identity_digest''),
        (cat_producer_repository claim \<noteq> wi_owner identity, differs ''producer_repository''),
        (cat_workload_class claim \<noteq> wi_class identity, differs ''workload_class''),
        (cat_run claim \<noteq> wi_run identity, differs ''run''),
        (cat_run_attempt claim \<noteq> wi_attempt identity, differs ''run_attempt''),
        (cat_release claim \<noteq> wi_release identity, differs ''release''),
        (cat_operation_id claim \<noteq> cpo_operation_id candidates, differs ''operation_id''),
        (cat_schema_version claim \<noteq> 1, ''unsupported creation attestation schema version''),
        (\<not> all_nonempty [cat_audience claim, cat_issuer claim, cat_operation_id claim,
            cat_repository_id claim, cat_repository_owner_id claim, cat_ref claim, cat_workflow_ref claim,
            cat_producer_oidc_issuer claim, cat_producer_oidc_audience claim,
            cat_producer_oidc_subject claim, cat_producer_oidc_jti claim],
         ''creation attestation is missing provenance claims''),
        (\<not> digits_positive (cat_repository_id claim) \<or> \<not> digits_positive (cat_repository_owner_id claim)
            \<or> \<not> is_revision (cat_workflow_sha claim),
         ''creation attestation provenance is not immutable''),
        ((cat_job_workflow_ref claim \<noteq> None \<or> cat_job_workflow_sha claim \<noteq> None)
            \<and> (\<not> opt_nonempty (cat_job_workflow_ref claim) \<or> \<not> opt_revision (cat_job_workflow_sha claim)),
         ''reusable workflow ref and sha must be present together''),
        (cat_issued_at claim \<le> 0, ''creation attestation has no canonical issued-at time''),
        (wi_run identity \<noteq> None \<and> (cat_run claim = None \<or> cat_run_attempt claim = None),
         ''creation attestation CI lifecycle numbers are not canonical integers''),
        (is_payload_class (wi_class identity)
            \<and> \<not> (opt_nonempty (cat_authorization_reference claim) \<and> opt_nonempty (cat_environment claim)),
         ''payload creation attestation lacks its authorization reference''),
        (atv_attestation_digest check \<noteq> canonical_attestation_digest claim,
         ''verification is bound to another attestation''),
        (\<not> all_nonempty [atv_trust_root check, atv_verified_issuer check, atv_verified_audience check,
            atv_verified_producer_oidc_issuer check, atv_verified_producer_oidc_audience check,
            atv_verified_producer_oidc_subject check, atv_verified_producer_oidc_jti check],
         ''attestation verification lacks its trust binding''),
        (atv_verified_issuer check \<noteq> cat_issuer claim \<or> atv_verified_audience check \<noteq> cat_audience claim,
         ''attestation verifier result disagrees with the claims''),
        (atv_verified_producer_oidc_issuer check \<noteq> cat_producer_oidc_issuer claim
            \<or> atv_verified_producer_oidc_audience check \<noteq> cat_producer_oidc_audience claim
            \<or> atv_verified_producer_oidc_subject check \<noteq> cat_producer_oidc_subject claim
            \<or> atv_verified_producer_oidc_jti check \<noteq> cat_producer_oidc_jti claim,
         ''producer OIDC verifier result disagrees with broker claims''),
        (atv_signature_status check \<noteq> VERIFICATION_VERIFIED, ''attestation signature is failed or unverified''),
        (atv_uniqueness_status check \<noteq> UNIQUENESS_UNIQUE, ''creation operation id is reused or unverified''),
        (atv_producer_jti_uniqueness_status check \<noteq> UNIQUENESS_UNIQUE,
         ''producer OIDC jti is reused or unverified''),
        (atv_observed_at check < cat_issued_at claim
            \<or> \<not> window_holds (atv_observed_at check) evaluated_at (atv_valid_until check),
         ''attestation verification is not valid at evaluation time'')])))"

definition isolated_reason ::
    "isolated_signer_evidence \<Rightarrow> deployment_key \<Rightarrow> workload_identity \<Rightarrow> candidate_population \<Rightarrow> int
     \<Rightarrow> close_reason option" where
  "isolated_reason evidence subject identity candidates evaluated_at =
     map_option (Pair PRODUCER_ISOLATED_EVIDENCE_INVALID) (first_reason
       [(iso_signer_owner evidence \<noteq> dk_owner subject \<or> iso_repository evidence \<noteq> wi_owner identity
            \<or> iso_workload_class evidence \<noteq> wi_class identity,
         ''isolated signer evidence does not match deployment identity''),
        (iso_operation_id evidence \<noteq> cpo_operation_id candidates,
         ''isolated signer evidence does not match creation operation''),
        (is_payload_class (wi_class identity) \<and> \<not> opt_nonempty (iso_environment evidence),
         ''payload signer evidence lacks environment binding''),
        (\<not> all_nonempty [iso_operation_id evidence, iso_trust_domain evidence, iso_source evidence,
            iso_evidence_digest evidence],
         ''isolated signer evidence lacks source-bound trust evidence''),
        (\<not> window_holds (iso_observed_at evidence) evaluated_at (iso_valid_until evidence),
         ''isolated signer evidence is not valid at evaluation time'')])"

section \<open>Lifecycle authorities\<close>

text \<open>The code, the diagnostic and whether the failure is a gap in the evidence.\<close>

type_synonym authority_validation = "close_reason_code \<times> string \<times> bool"

definition authority_hold :: "string \<Rightarrow> authority_validation" where
  "authority_hold message = (AUTHORITY_EVIDENCE_INCOMPLETE, message, True)"

definition authority_deny :: "string \<Rightarrow> authority_validation" where
  "authority_deny message = (AUTHORITY_INVALID, message, False)"

definition rollback_reason :: "creator_rollback_authority \<Rightarrow> int \<Rightarrow> authority_validation option" where
  "rollback_reason a evaluated_at =
     (let trigger = rba_rollback_trigger a in map_option authority_deny (first_reason
       [(\<not> all_nonempty [rba_operation_id a, rba_repository a, rba_workload_class a, rba_backend a,
            rba_capability_reference a],
         ''creator capability lacks operation or backend provenance''),
        (rba_binding_status a \<noteq> BINDING_CONFIRMED
            \<or> rba_binding_mode a \<notin> {BINDING_MODE_TRANSACTION_EVENT, BINDING_MODE_EXACT_CHAIN_READBACK}
            \<or> \<not> all_nonempty [rba_binding_source a, rba_binding_evidence_digest a],
         ''creator capability lacks positive same-operation creation binding''),
        (\<not> window_holds (rba_prepared_at a) evaluated_at (rba_valid_until a),
         ''creator capability is not valid at evaluation time''),
        (rte_handoff_state trigger \<noteq> HANDOFF_FAILED, ''creator rollback requires a failed handoff''),
        (\<not> all_nonempty [rte_source trigger, rte_evidence_digest trigger],
         ''creator rollback trigger lacks source-bound evidence''),
        (rte_observed_at trigger < rba_prepared_at a
            \<or> \<not> window_holds (rte_observed_at trigger) evaluated_at (rte_valid_until trigger),
         ''creator rollback trigger is not valid at evaluation time'')]))"

text \<open>The administrator bypass of a GitHub environment: what its configuration requires.\<close>

definition bypass_checks ::
    "production_retirement_authority \<Rightarrow> production_bypass_evidence \<Rightarrow> (bool \<times> authority_validation) list" where
  "bypass_checks a bypass =
     (case pby_configuration_status bypass of
        CONTROL_UNKNOWN \<Rightarrow> [(True, authority_hold ''GitHub environment admin bypass policy is unverified'')]
      | CONTROL_VERIFIED_DISABLED \<Rightarrow>
          [(pby_use_status bypass \<noteq> BYPASS_UNUSED,
            authority_deny ''disabled GitHub admin bypass has inconsistent use evidence'')]
      | CONTROL_VERIFIED_ENABLED \<Rightarrow>
          [(pby_enabled_bypass_policy_status bypass \<noteq> VERIFICATION_VERIFIED,
            authority_hold ''enabled GitHub admin bypass lacks explicit policy authorization''),
           (ppr_kind (pra_requester a) = KIND_MACHINE
              \<and> ppr_admin_membership (pra_requester a) = MEMBERSHIP_VERIFIED_MEMBER,
            authority_deny ''automated requester is an admin while bypass is enabled''),
           (ppr_kind (pra_requester a) = KIND_MACHINE
              \<and> ppr_admin_membership (pra_requester a) \<noteq> MEMBERSHIP_VERIFIED_NON_MEMBER,
            authority_hold ''automated requester admin status is unverified'')]
          @ (case pby_use_status bypass of
               BYPASS_USED \<Rightarrow>
                 [(\<not> opt_nonempty (pby_actor_principal bypass),
                   authority_hold ''GitHub admin bypass actor is unknown''),
                  (pby_actor_principal bypass \<noteq> Some (ppr_principal (pra_approver a)),
                   authority_deny ''GitHub admin bypass actor is not the authorized human'')]
             | BYPASS_UNUSED \<Rightarrow>
                 [(pby_actor_principal bypass \<noteq> None,
                   authority_deny ''unused GitHub admin bypass names an actor'')]
             | BYPASS_UNKNOWN \<Rightarrow> [(True, authority_hold ''GitHub admin bypass use is unknown'')])
      | CONTROL_NOT_APPLICABLE \<Rightarrow>
          [(True, authority_deny ''GitHub environment admin bypass policy is unsupported'')])"

definition github_reason :: "production_retirement_authority \<Rightarrow> authority_validation option" where
  "github_reason a =
     (case pra_bypass a of
        None \<Rightarrow> Some (authority_hold ''GitHub environment bypass evidence is missing or untyped'')
      | Some bypass \<Rightarrow> first_reason (
          [(pra_prevent_self_review_status a \<notin> {CONTROL_VERIFIED_ENABLED, CONTROL_VERIFIED_DISABLED},
            authority_hold ''GitHub environment self-review policy is unverified''),
           (pra_prevent_self_review_status a = CONTROL_VERIFIED_DISABLED
              \<and> ppr_kind (pra_requester a) \<noteq> KIND_HUMAN
              \<and> ppr_principal (pra_requester a) = ppr_principal (pra_approver a),
            authority_deny ''disabled self-review prevention permits automated self-approval''),
           (\<not> all_nonempty [pby_observation_source bypass, pby_observation_digest bypass],
            authority_hold ''GitHub environment bypass evidence is missing''),
           (pby_observation_verification_status bypass \<noteq> VERIFICATION_VERIFIED,
            authority_hold ''GitHub environment bypass observation is unverified'')]
          @ bypass_checks a bypass
          @ [(\<not> opt_nonempty (pra_workflow_ref a) \<or> \<not> opt_nonempty (pra_ref a)
                \<or> \<not> opt_revision (pra_workflow_sha a),
              authority_deny ''GitHub production approval lacks workflow and ref binding''),
             (pra_verified_workflow_ref a \<noteq> pra_workflow_ref a
                \<or> pra_verified_workflow_sha a \<noteq> pra_workflow_sha a \<or> pra_verified_ref a \<noteq> pra_ref a,
              authority_deny ''GitHub approval verification is bound to another workflow or ref'')]))"

definition external_reason :: "production_retirement_authority \<Rightarrow> authority_validation option" where
  "external_reason a = map_option authority_deny (first_reason
     [(pra_prevent_self_review_status a \<noteq> CONTROL_NOT_APPLICABLE \<or> pra_bypass a \<noteq> None,
       ''external production approval carries GitHub environment controls''),
      (list_ex (\<lambda>v. v \<noteq> None) [pra_workflow_ref a, pra_workflow_sha a, pra_ref a,
         pra_verified_workflow_ref a, pra_verified_workflow_sha a, pra_verified_ref a],
       ''external production approval carries GitHub-only bindings'')])"

text \<open>The principals of a production retirement: who may ask, approve and execute.\<close>

definition principal_checks :: "production_retirement_authority \<Rightarrow> (bool \<times> authority_validation) list" where
  "principal_checks a =
     (let requester = pra_requester a; approver = pra_approver a; executor = pra_executor a in
      [(list_ex (\<lambda>p. \<not> all_nonempty [ppr_principal p, ppr_evidence_source p, ppr_evidence_digest p]
           \<or> ppr_authentication_status p \<noteq> VERIFICATION_VERIFIED) [requester, approver, executor],
        authority_hold ''production principal authentication is missing or unverified''),
       (ppr_kind approver \<noteq> KIND_HUMAN,
        authority_deny ''production approver is not an authenticated human''),
       (ppr_approval_role_membership approver = MEMBERSHIP_UNKNOWN,
        authority_hold ''production approver role is unverified''),
       (ppr_approval_role_membership approver \<noteq> MEMBERSHIP_VERIFIED_MEMBER,
        authority_deny ''production human lacks the approval role''),
       (ppr_kind executor \<noteq> KIND_MACHINE,
        authority_deny ''production executor must be a machine principal''),
       (ppr_principal executor = ppr_principal approver,
        authority_deny ''production executor is the approving principal''),
       (ppr_admin_membership executor = MEMBERSHIP_VERIFIED_MEMBER
          \<or> ppr_approval_role_membership executor = MEMBERSHIP_VERIFIED_MEMBER,
        authority_deny ''production executor is an admin or approver''),
       (ppr_admin_membership executor \<noteq> MEMBERSHIP_VERIFIED_NON_MEMBER
          \<or> ppr_approval_role_membership executor \<noteq> MEMBERSHIP_VERIFIED_NON_MEMBER,
        authority_hold ''production executor non-admin role evidence is unverified''),
       (ppr_kind requester = KIND_MACHINE \<and> ppr_principal requester = ppr_principal approver,
        authority_deny ''automated production requester cannot be its approver'')])"

definition production_checks ::
    "production_retirement_authority \<Rightarrow> int \<Rightarrow> (bool \<times> authority_validation) list" where
  "production_checks a evaluated_at =
     [(\<not> all_nonempty [pra_repository a, pra_release a, pra_environment a, pra_authorization_id a,
          pra_authorization_reference a, pra_policy_reference a, pra_approval_verification_source a,
          pra_approval_verification_digest a, pra_verified_authorization_id a,
          pra_verified_environment a, pra_verified_release a, pra_single_use_authorization_id a,
          pra_unique_authorization_id a],
       authority_deny ''production authority lacks identity or verification evidence'')]
     @ principal_checks a
     @ [(pra_action a \<noteq> ACTION_PRODUCTION_RETIREMENT,
         authority_deny ''production authority action disagrees''),
        (pra_verified_authorization_id a \<noteq> pra_authorization_id a
           \<or> pra_verified_environment a \<noteq> pra_environment a
           \<or> pra_verified_release a \<noteq> pra_release a \<or> pra_verified_subject a \<noteq> pra_subject a
           \<or> pra_verified_action a \<noteq> pra_action a,
         authority_deny ''production approval verification is bound to another action''),
        (pra_approval_verification_status a = VERIFICATION_UNKNOWN,
         authority_hold ''production approval is unverified''),
        (pra_approval_verification_status a \<noteq> VERIFICATION_VERIFIED,
         authority_deny ''production approval verification failed''),
        (pra_single_use_verification a = VERIFICATION_UNKNOWN,
         authority_hold ''production single-use policy is unverified''),
        (pra_single_use_verification a \<noteq> VERIFICATION_VERIFIED,
         authority_deny ''production single-use verification failed''),
        (pra_single_use_authorization_id a \<noteq> pra_authorization_id a,
         authority_deny ''production single-use proof is bound to another authorization''),
        (pra_authorization_uniqueness_status a = UNIQUENESS_UNKNOWN,
         authority_hold ''production authorization uniqueness is unverified''),
        (pra_authorization_uniqueness_status a = UNIQUENESS_REUSED,
         (AUTHORITY_REPLAYED, ''production authorization was replayed'', True)),
        (pra_unique_authorization_id a \<noteq> pra_authorization_id a,
         authority_deny ''production uniqueness proof is bound to another authorization''),
        (pra_issued_at a \<le> 0, authority_deny ''production authorization issued-at is invalid''),
        (pra_observed_at a < pra_issued_at a
           \<or> \<not> window_holds (pra_observed_at a) evaluated_at (pra_valid_until a),
         authority_deny ''production authorization is not valid at evaluation time'')]"

definition production_reason ::
    "production_retirement_authority \<Rightarrow> int \<Rightarrow> authority_validation option" where
  "production_reason a evaluated_at =
     (case first_reason (production_checks a evaluated_at) of
        Some why \<Rightarrow> Some why
      | None \<Rightarrow> (case pra_approval_mode a of
            APPROVAL_GITHUB_ENVIRONMENT \<Rightarrow> github_reason a
          | APPROVAL_EXTERNAL \<Rightarrow> external_reason a))"

definition observed_reason :: "string \<Rightarrow> string \<Rightarrow> int \<Rightarrow> int \<Rightarrow> int \<Rightarrow> authority_validation option" where
  "observed_reason source digest observed_at evaluated_at valid_until =
     map_option authority_hold (first_reason
       [(\<not> all_nonempty [source, digest],
         ''lifecycle authority lacks source-bound observation evidence''),
        (\<not> window_holds observed_at evaluated_at valid_until,
         ''lifecycle authority is not valid at evaluation time'')])"

definition authority_reason ::
    "lifecycle_authority \<Rightarrow> deployment_key \<Rightarrow> int \<Rightarrow> authority_validation option" where
  "authority_reason authority subject evaluated_at =
     (if authority_subject authority \<noteq> subject
      then Some (authority_deny ''authority is bound to another deployment'')
      else case authority of
        CreatorRollback a \<Rightarrow> rollback_reason a evaluated_at
      | ProductionRetirement a \<Rightarrow> production_reason a evaluated_at
      | StagingRetirement a \<Rightarrow>
          observed_reason (sra_source a) (sra_observation_digest a) (sra_observed_at a) evaluated_at
            (sra_valid_until a)
      | CI a \<Rightarrow>
          observed_reason (cia_source a) (cia_observation_digest a) (cia_observed_at a) evaluated_at
            (cia_valid_until a))"

definition permitted_classes :: "close_intent \<Rightarrow> string list option" where
  "permitted_classes intent =
     (case intent of
        INTENT_CI_CLEANUP \<Rightarrow> Some [''ci-runner'', ''ci-payload'']
      | INTENT_STAGING_RETIREMENT \<Rightarrow> Some [''staging-payload'']
      | INTENT_PRODUCTION_RETIREMENT \<Rightarrow> Some [''prod-payload'']
      | INTENT_CREATOR_ROLLBACK \<Rightarrow> None)"

definition class_denial :: "close_intent \<Rightarrow> string \<Rightarrow> close_reason option" where
  "class_denial intent cls =
     (case permitted_classes intent of
        None \<Rightarrow> None
      | Some classes \<Rightarrow> if cls \<in> set classes then None
          else Some (CLASS_POLICY_FORBIDS_INTENT, close_intent_value intent @ '' cannot retire '' @ cls))"

section \<open>Authorization\<close>

text \<open>What each intent asks of its authority, when the authority itself is valid.\<close>

definition disagreement :: "string \<Rightarrow> close_reason" where
  "disagreement message = (AUTHORITY_IDENTITY_DISAGREEMENT, message)"

definition ci_intent_reason ::
    "workload_identity \<Rightarrow> lifecycle_authority \<Rightarrow> close_reason option" where
  "ci_intent_reason identity authority =
     (case authority of
        CI a \<Rightarrow> first_reason
          [(cia_repository a \<noteq> wi_owner identity \<or> Some (cia_run a) \<noteq> wi_run identity
              \<or> Some (cia_attempt a) \<noteq> wi_attempt identity,
            disagreement ''CI lifecycle authority disagrees''),
           (cia_run_state a \<noteq> RUN_TERMINAL, (AUTHORITY_INVALID, ''owning CI run is live or unknown'')),
           (cia_consumer_state a \<noteq> CONSUMER_FINISHED,
            (AUTHORITY_INVALID, ''CI consumers are active or unknown''))]
      | _ \<Rightarrow> Some (AUTHORITY_WRONG_TYPE, ''wrong authority type''))"

definition staging_intent_reason ::
    "workload_identity \<Rightarrow> candidate_population \<Rightarrow> creation_attestation option \<Rightarrow> lifecycle_authority
     \<Rightarrow> close_reason option" where
  "staging_intent_reason identity candidates attestation authority =
     (case authority of
        StagingRetirement a \<Rightarrow> first_reason
          [(sra_repository a \<noteq> wi_owner identity \<or> Some (sra_release a) \<noteq> wi_release identity,
            disagreement ''staging lifecycle authority disagrees''),
           (\<not> nonempty (sra_authorization_reference a),
            (AUTHORITY_INVALID, ''staging authority has no reference'')),
           ((case attestation of None \<Rightarrow> False
             | Some c \<Rightarrow> cat_authorization_reference c \<noteq> cpo_creation_authorization_reference candidates),
            disagreement ''staging authorities disagree'')]
      | _ \<Rightarrow> Some (disagreement ''staging lifecycle authority disagrees''))"

definition production_intent_reason ::
    "workload_identity \<Rightarrow> string option \<Rightarrow> lifecycle_authority \<Rightarrow> close_reason option" where
  "production_intent_reason identity producer_environment authority =
     (case authority of
        ProductionRetirement a \<Rightarrow> first_reason
          [(pra_repository a \<noteq> wi_owner identity \<or> Some (pra_release a) \<noteq> wi_release identity,
            disagreement ''production lifecycle authority disagrees''),
           (producer_environment \<noteq> Some (pra_environment a),
            disagreement ''production environment authority disagrees''),
           (\<not> nonempty (pra_authorization_reference a),
            (AUTHORITY_INVALID, ''production authority has no reference''))]
      | _ \<Rightarrow> Some (disagreement ''production lifecycle authority disagrees''))"

definition rollback_intent_reason ::
    "deployment_key \<Rightarrow> population \<Rightarrow> candidate_population \<Rightarrow> workload_identity
     \<Rightarrow> creation_attestation option \<Rightarrow> lifecycle_authority \<Rightarrow> close_reason option result" where
  "rollback_intent_reason subject p candidates identity attestation authority =
     (case authority of
        CreatorRollback a \<Rightarrow>
          (if rba_signer_owner a \<noteq> dk_owner subject
           then Inr (Some (disagreement ''creator signer owner disagrees''))
           else bindR (canonical_group_identity_digest p) (\<lambda>group_digest.
             let expected = cpo_creation_authorization_reference candidates in
             Inr (first_reason (
               [(rba_group_identity_digest a \<noteq> group_digest,
                 disagreement ''creator group population disagrees''),
                (rba_operation_id a \<noteq> cpo_operation_id candidates,
                 disagreement ''creator operation authority disagrees''),
                (rba_repository a \<noteq> wi_owner identity \<or> rba_workload_class a \<noteq> wi_class identity
                   \<or> rba_run a \<noteq> wi_run identity \<or> rba_run_attempt a \<noteq> wi_attempt identity
                   \<or> rba_release a \<noteq> wi_release identity \<or> rba_expires a \<noteq> wi_expires identity,
                 disagreement ''creator lifecycle authority disagrees'')]
               @ (if is_payload_class (wi_class identity)
                  then [(\<not> opt_nonempty (rba_creation_authorization_reference a) \<or> \<not> opt_nonempty expected,
                         (AUTHORITY_INVALID,
                          ''payload creator rollback lacks original creation authorization'')),
                        (rba_creation_authorization_reference a \<noteq> expected,
                         disagreement ''creator rollback creation authorization disagrees''),
                        ((case attestation of None \<Rightarrow> False
                          | Some c \<Rightarrow> cat_authorization_reference c \<noteq> expected),
                         disagreement ''creator rollback attestation authorization disagrees'')]
                  else [(rba_creation_authorization_reference a \<noteq> None \<or> expected \<noteq> None,
                         (AUTHORITY_INVALID,
                          ''CI creator rollback carries payload authorization''))])))))
      | _ \<Rightarrow> Inr (Some (AUTHORITY_WRONG_TYPE, ''wrong authority type'')))"

definition intent_reason ::
    "close_intent \<Rightarrow> deployment_key \<Rightarrow> population \<Rightarrow> candidate_population \<Rightarrow> workload_identity
     \<Rightarrow> creation_attestation option \<Rightarrow> string option \<Rightarrow> lifecycle_authority
     \<Rightarrow> close_reason option result" where
  "intent_reason intent subject p candidates identity attestation producer_environment authority =
     (case intent of
        INTENT_CI_CLEANUP \<Rightarrow> Inr (ci_intent_reason identity authority)
      | INTENT_STAGING_RETIREMENT \<Rightarrow>
          Inr (staging_intent_reason identity candidates attestation authority)
      | INTENT_PRODUCTION_RETIREMENT \<Rightarrow>
          Inr (production_intent_reason identity producer_environment authority)
      | INTENT_CREATOR_ROLLBACK \<Rightarrow>
          rollback_intent_reason subject p candidates identity attestation authority)"

definition authorize ::
    "deployment_key \<Rightarrow> population \<Rightarrow> candidate_population \<Rightarrow> workload_identity \<Rightarrow> close_intent
     \<Rightarrow> lifecycle_authority option \<Rightarrow> creation_attestation option \<Rightarrow> string option
     \<Rightarrow> chain_evidence option \<Rightarrow> int \<Rightarrow> close_decision result" where
  "authorize subject p candidates identity intent authority attestation producer_environment chain
       evaluated_at =
     (let result = (\<lambda>disposition why. make_decision disposition intent subject p candidates why
                      evaluated_at (Some identity) authority chain) in
      case authority of
        None \<Rightarrow> result HOLD (AUTHORITY_MISSING, ''lifecycle authority is missing'')
      | Some a \<Rightarrow>
          (case authority_reason a subject evaluated_at of
             Some (reason_code, message, evidence_gap) \<Rightarrow>
               result (if evidence_gap then HOLD else DENY) (reason_code, message)
           | None \<Rightarrow>
               bindR (intent_reason intent subject p candidates identity attestation
                        producer_environment a) (\<lambda>why.
               case why of
                 Some reason \<Rightarrow> result DENY reason
               | None \<Rightarrow> result ALLOW (AUTHORIZATION_SUCCEEDED, ''authorized''))))"

section \<open>The decision\<close>

text \<open>
  The attribution check. Its condition is a chain of \<^verbatim>\<open>or\<close>; the prepared operation key, which may
  raise, is computed only when every earlier test has passed.
\<close>

definition candidates_incomplete ::
    "deployment_key \<Rightarrow> candidate_population \<Rightarrow> workload_identity \<Rightarrow> string \<Rightarrow> bool result" where
  "candidates_incomplete subject candidates identity group_digest =
     (if cpo_completeness candidates \<noteq> CANDIDATES_COMPLETE \<or> cpo_count candidates \<noteq> 1
         \<or> cpo_uniqueness_status candidates \<noteq> UNIQUENESS_UNIQUE
         \<or> \<not> all_nonempty [cpo_operation_id candidates, cpo_prepared_operation_key candidates,
               cpo_evidence_digest candidates]
         \<or> cpo_operation_ordinal candidates \<le> 0 \<or> cpo_subject candidates \<noteq> subject
         \<or> cpo_group_identity_digest candidates \<noteq> group_digest
         \<or> (is_payload_class (wi_class identity)
              \<and> \<not> opt_nonempty (cpo_creation_authorization_reference candidates))
         \<or> (starts_with ''ci-'' (wi_class identity)
              \<and> cpo_creation_authorization_reference candidates \<noteq> None)
      then Inr True
      else bindR (canonical_prepared_operation_key (dk_owner subject) (wi_owner identity)
                    (wi_class identity) (cpo_operation_id candidates) (cpo_operation_ordinal candidates)
                    group_digest (wi_run identity) (wi_attempt identity) (wi_release identity))
             (\<lambda>key. Inr (cpo_prepared_operation_key candidates \<noteq> key)))"

definition leases_complete :: "chain_evidence \<Rightarrow> bool" where
  "leases_complete chain \<longleftrightarrow> che_lease_completeness chain = LEASES_COMPLETE \<and> 0 < che_lease_count chain
     \<and> che_lease_population_digest chain \<noteq> EMPTY_POPULATION_DIGEST"

definition never_leased :: "chain_evidence \<Rightarrow> bool" where
  "never_leased chain \<longleftrightarrow> che_lease_completeness chain = EXACT_NEVER_LEASED \<and> che_lease_count chain = 0
     \<and> che_lease_population_digest chain = EMPTY_POPULATION_DIGEST"

definition chain_reason ::
    "deployment_key \<Rightarrow> population \<Rightarrow> string \<Rightarrow> int \<Rightarrow> chain_evidence \<Rightarrow> close_reason option" where
  "chain_reason subject p group_digest evaluated_at chain = first_reason
     [(che_subject chain \<noteq> subject \<or> che_group_identity_digest chain \<noteq> group_digest,
       (CHAIN_EVIDENCE_WRONG_POPULATION, ''pre-close evidence is bound to another population'')),
      (\<not> all_nonempty [che_chain_id chain, che_source_a chain, che_source_b chain,
            che_trust_path_a chain, che_trust_path_b chain]
         \<or> che_source_a chain = che_source_b chain \<or> che_trust_path_a chain = che_trust_path_b chain
         \<or> che_proof_mode chain \<noteq> EXACT_FINALIZED_HEIGHT \<or> che_common_finality_height chain \<le> 0
         \<or> \<not> (che_source_a_height chain = che_source_b_height chain
               \<and> che_source_b_height chain = che_common_finality_height chain),
       (CHAIN_EVIDENCE_TRUST_PATHS_INCOMPLETE,
        ''pre-close evidence lacks two independent finalized trust paths'')),
      (\<not> all_nonempty [che_evidence_digest chain, che_deployment_population_digest chain,
            che_deployment_state_digest chain, che_group_population_digest chain,
            che_group_state_digest chain, che_lease_population_digest chain, che_lease_state_digest chain]
         \<or> \<not> window_holds (che_observed_at chain) evaluated_at (che_valid_until chain),
       (CHAIN_EVIDENCE_DIGEST_OR_INTERVAL_INCOMPLETE, ''pre-close evidence lacks digest or interval'')),
      (che_deployment_count chain \<noteq> 1
         \<or> che_deployment_population_digest chain \<noteq> canonical_deployment_population_digest subject
         \<or> che_deployment_state chain \<noteq> PRECLOSE_ACTIVE
         \<or> che_group_count chain \<le> 0 \<or> che_group_count chain \<noteq> pop_observed_count p
         \<or> che_group_population_digest chain \<noteq> group_digest,
       (CHAIN_POPULATION_INCOMPLETE_OR_MISMATCHED,
        ''deployment or group population is incomplete or mismatched'')),
      (\<not> leases_complete chain \<and> \<not> never_leased chain,
       (CHAIN_LEASE_POPULATION_INCOMPLETE, ''lease population is incomplete, empty, or vacuous'')),
      (che_agreement chain \<noteq> AGREEING,
       (CHAIN_SOURCES_DISAGREE, ''two complete chain sources do not agree''))]"

text \<open>
  The producer: why it is not authenticated, and otherwise its attestation and environment. A
  rollback may do without one, and ignores what an isolated signer claims.
\<close>

definition producer_check ::
    "close_intent \<Rightarrow> deployment_key \<Rightarrow> population \<Rightarrow> workload_identity \<Rightarrow> candidate_population \<Rightarrow> int
     \<Rightarrow> producer_authentication option
     \<Rightarrow> (close_reason + creation_attestation option \<times> string option) result" where
  "producer_check intent subject p identity candidates evaluated_at producer =
     (case producer of
        None \<Rightarrow> Inr (if intent = INTENT_CREATOR_ROLLBACK then Inr (None, None)
                    else Inl (PRODUCER_UNAUTHENTICATED, ''producer is unauthenticated''))
      | Some (SharedSigner evidence) \<Rightarrow>
          bindR (shared_reason evidence subject p identity candidates evaluated_at) (\<lambda>why.
          Inr (case why of
                 Some reason \<Rightarrow> Inl reason
               | None \<Rightarrow> Inr (Some (shs_attestation evidence),
                   if intent = INTENT_CREATOR_ROLLBACK then None
                   else cat_environment (shs_attestation evidence))))
      | Some (IsolatedSigner evidence) \<Rightarrow>
          Inr (if intent = INTENT_CREATOR_ROLLBACK then Inr (None, None)
               else case isolated_reason evidence subject identity candidates evaluated_at of
                 Some reason \<Rightarrow> Inl reason
               | None \<Rightarrow> Inr (None, iso_environment evidence)))"

definition evaluate_close ::
    "deployment_key \<Rightarrow> population \<Rightarrow> candidate_population \<Rightarrow> close_intent \<Rightarrow> lifecycle_authority option
     \<Rightarrow> chain_evidence option \<Rightarrow> producer_authentication option \<Rightarrow> int \<Rightarrow> close_decision result" where
  "evaluate_close subject p candidates intent authority chain producer evaluated_at =
     (let decide = (\<lambda>disposition why. make_decision disposition intent subject p candidates why
                      evaluated_at) in
     bindR (raise_if (evaluated_at \<le> 0) ValueError) (\<lambda>_.
     bindR (raise_if (cpo_count candidates < 0) ValueError) (\<lambda>_.
     (case classified p of
        Inl why \<Rightarrow> decide HOLD why None None None
      | Inr identity \<Rightarrow>
     (case class_denial intent (wi_class identity) of
        Some why \<Rightarrow> decide DENY why (Some identity) None None
      | None \<Rightarrow>
     bindR (canonical_group_identity_digest p) (\<lambda>group_digest.
     bindR (candidates_incomplete subject candidates identity group_digest) (\<lambda>incomplete.
     if incomplete
     then decide HOLD (CANDIDATE_INCOMPLETE_OR_NON_UNIQUE,
            ''deployment attribution population is incomplete or not unique'') (Some identity) None None
     else if intent \<noteq> INTENT_CREATOR_ROLLBACK \<and> chain = None
     then decide HOLD (CHAIN_EVIDENCE_MISSING, ''independent pre-close chain evidence is missing'')
            (Some identity) None None
     else
     (case Option.bind chain (chain_reason subject p group_digest evaluated_at) of
        Some why \<Rightarrow> decide HOLD why (Some identity) None chain
      | None \<Rightarrow>
     bindR (producer_check intent subject p identity candidates evaluated_at producer) (\<lambda>producer_result.
     (case producer_result of
        Inl why \<Rightarrow> decide HOLD why (Some identity) authority chain
      | Inr (attestation, environment) \<Rightarrow>
          authorize subject p candidates identity intent authority attestation environment chain
            evaluated_at))))))))))"

end
