(* ===== verification/CloseProperties.thy ===== *)
theory CloseProperties
  imports Close WorkloadIdentityProperties
begin

text \<open>
  What \<^verbatim>\<open>evaluate_close\<close> guarantees: what an ALLOW implies for each intent, that it decides on
  every canonical input, that the disposition of a decision is that of its code, and that the
  group digest does not depend on the order of the groups.
\<close>

section \<open>Inversion of the stages\<close>

lemma first_reason_None [simp]:
  "first_reason (c # checks) = None \<longleftrightarrow> \<not> fst c \<and> first_reason checks = None"
  by (cases c) simp

declare first_reason.simps(2) [simp del]

lemma first_reason_append_None [simp]:
  "first_reason (xs @ ys) = None \<longleftrightarrow> first_reason xs = None \<and> first_reason ys = None"
  by (induction xs) simp_all

lemma all_nonempty_simps [simp]:
  "all_nonempty []"
  "all_nonempty (v # vs) \<longleftrightarrow> nonempty v \<and> all_nonempty vs"
  by (simp_all add: all_nonempty_def)

lemma make_decision_disposition:
  "make_decision disposition intent subject p candidates why evaluated_at identity authority chain = Inr d
   \<Longrightarrow> cld_disposition d = disposition \<and> is_close_decision d \<and> cld_intent d = intent
     \<and> cld_subject d = subject \<and> cld_reason_code d = fst why \<and> cld_message d = snd why"
  by (auto simp: make_decision_def construct_def split: if_split_asm)

text \<open>The stages an ALLOW has passed.\<close>

definition stages_passed ::
    "deployment_key \<Rightarrow> population \<Rightarrow> candidate_population \<Rightarrow> close_intent \<Rightarrow> lifecycle_authority
     \<Rightarrow> chain_evidence option \<Rightarrow> producer_authentication option \<Rightarrow> int \<Rightarrow> workload_identity \<Rightarrow> string
     \<Rightarrow> creation_attestation option \<Rightarrow> string option \<Rightarrow> bool" where
  "stages_passed subject p candidates intent a chain producer evaluated_at identity group_digest
       attestation environment \<longleftrightarrow>
     0 < evaluated_at \<and> classified p = Inr identity \<and> class_denial intent (wi_class identity) = None
     \<and> canonical_group_identity_digest p = Inr group_digest
     \<and> candidates_incomplete subject candidates identity group_digest = Inr False
     \<and> (chain = None \<longrightarrow> intent = INTENT_CREATOR_ROLLBACK)
     \<and> Option.bind chain (chain_reason subject p group_digest evaluated_at) = None
     \<and> producer_check intent subject p identity candidates evaluated_at producer
         = Inr (Inr (attestation, environment))
     \<and> authority_reason a subject evaluated_at = None
     \<and> intent_reason intent subject p candidates identity attestation environment a = Inr None"

lemma make_decision_not_allow:
  assumes "allowed d"
  shows "make_decision HOLD intent subject p candidates why evaluated_at identity authority chain \<noteq> Inr d"
    and "make_decision DENY intent subject p candidates why evaluated_at identity authority chain \<noteq> Inr d"
  using assms make_decision_disposition by (fastforce simp: allowed_def)+

lemma authorize_allow:
  assumes "authorize subject p candidates identity intent authority attestation environment chain
      evaluated_at = Inr d" and "allowed d"
  shows "\<exists>a. authority = Some a \<and> authority_reason a subject evaluated_at = None
      \<and> intent_reason intent subject p candidates identity attestation environment a = Inr None"
proof -
  obtain a where a: "authority = Some a"
    using assms(1) by (auto simp: authorize_def Let_def make_decision_not_allow[OF assms(2)]
      split: option.split_asm)
  have r: "authority_reason a subject evaluated_at = None"
    using assms(1) by (cases "authority_reason a subject evaluated_at")
      (auto simp: authorize_def Let_def a make_decision_not_allow[OF assms(2)] split: if_split_asm)
  have "intent_reason intent subject p candidates identity attestation environment a = Inr None"
    using assms(1) by (auto simp: authorize_def Let_def a r make_decision_not_allow[OF assms(2)]
      simp flip: not_Some_eq split: option.split_asm)
  then show ?thesis using a r by simp
qed

lemma evaluate_close_allow:
  assumes "evaluate_close subject p candidates intent authority chain producer evaluated_at = Inr d"
    and "allowed d"
  shows "\<exists>a identity group_digest attestation environment. authority = Some a
      \<and> stages_passed subject p candidates intent a chain producer evaluated_at identity group_digest
          attestation environment"
proof -
  obtain identity where identity: "classified p = Inr identity"
    using assms(1) by (auto simp: evaluate_close_def Let_def make_decision_not_allow[OF assms(2)]
      split: sum.split_asm)
  have denial: "class_denial intent (wi_class identity) = None"
    using assms(1) by (auto simp: evaluate_close_def Let_def identity make_decision_not_allow[OF assms(2)]
      split: option.split_asm)
  obtain g where g: "canonical_group_identity_digest p = Inr g"
      "candidates_incomplete subject candidates identity g = Inr False"
      "chain = None \<longrightarrow> intent = INTENT_CREATOR_ROLLBACK"
      "Option.bind chain (chain_reason subject p g evaluated_at) = None"
    using assms(1) by (auto simp: evaluate_close_def Let_def identity denial
      make_decision_not_allow[OF assms(2)] split: if_split_asm option.split_asm)
  obtain r where r: "producer_check intent subject p identity candidates evaluated_at producer = Inr r"
    using assms(1) by (auto simp: evaluate_close_def Let_def identity denial g split: if_split_asm)
  obtain attestation environment where e: "r = Inr (attestation, environment)"
    using assms(1) by (cases r) (auto simp: evaluate_close_def Let_def identity denial g r
      make_decision_not_allow[OF assms(2)] split: if_split_asm)
  have "0 < evaluated_at" using assms(1) by (auto simp: evaluate_close_def Let_def)
  moreover have "authorize subject p candidates identity intent authority attestation environment chain
      evaluated_at = Inr d"
    using assms(1) by (auto simp: evaluate_close_def Let_def identity denial g r e split: if_split_asm)
  ultimately show ?thesis
    using authorize_allow[OF _ assms(2)] identity denial g r e unfolding stages_passed_def by blast
qed

section \<open>What an ALLOW implies\<close>

lemma stages_population:
  assumes "classified p = Inr identity"
  shows "pop_completeness p = COMPLETE_POPULATION \<and> \<not> pop_held p
    \<and> int (length (pop_identities p)) = pop_observed_count p \<and> identity \<in> set (pop_identities p)
    \<and> (\<forall>i \<in> set (pop_identities p). lifecycle_of i = lifecycle_of identity)"
  using assms by (auto simp: classified_def list_ex_iff split: option.split_asm if_split_asm)

lemma class_permitted:
  assumes "class_denial intent cls = None"
  shows "(intent = INTENT_CI_CLEANUP \<longrightarrow> cls \<in> {''ci-runner'', ''ci-payload''})
    \<and> (intent = INTENT_STAGING_RETIREMENT \<longrightarrow> cls = ''staging-payload'')
    \<and> (intent = INTENT_PRODUCTION_RETIREMENT \<longrightarrow> cls = ''prod-payload'')"
  using assms by (cases intent) (simp_all add: class_denial_def permitted_classes_def split: if_split_asm)

lemma candidates_complete:
  assumes "candidates_incomplete subject candidates identity g = Inr False"
  shows "cpo_completeness candidates = CANDIDATES_COMPLETE \<and> cpo_count candidates = 1
    \<and> cpo_uniqueness_status candidates = UNIQUENESS_UNIQUE \<and> cpo_subject candidates = subject
    \<and> cpo_group_identity_digest candidates = g
    \<and> canonical_prepared_operation_key (dk_owner subject) (wi_owner identity) (wi_class identity)
        (cpo_operation_id candidates) (cpo_operation_ordinal candidates) g (wi_run identity)
        (wi_attempt identity) (wi_release identity) = Inr (cpo_prepared_operation_key candidates)
    \<and> (is_payload_class (wi_class identity) \<longrightarrow> opt_nonempty (cpo_creation_authorization_reference candidates))"
  using assms by (auto simp: candidates_incomplete_def split: if_split_asm)

text \<open>
  C1: An ALLOW is sound for the population it closes. Whatever the intent, the authority and the
  other evidence, a population is closed only when it is complete and not held, all of its
  groups share one lifecycle, the class of that lifecycle is one the intent may retire,
  exactly one unique attribution candidate exists, bound to this deployment, to the digest of
  this population and to the operation key recomputed from its identity, and the authority is
  bound to this deployment.
\<close>
theorem close_allow_sound:
  assumes "evaluate_close subject p candidates intent authority chain producer evaluated_at = Inr d"
    and "allowed d"
  shows "\<exists>identity \<in> set (pop_identities p). pop_completeness p = COMPLETE_POPULATION \<and> \<not> pop_held p
      \<and> int (length (pop_identities p)) = pop_observed_count p
      \<and> (\<forall>i \<in> set (pop_identities p). lifecycle_of i = lifecycle_of identity)
      \<and> (intent = INTENT_CI_CLEANUP \<longrightarrow> wi_class identity \<in> {''ci-runner'', ''ci-payload''})
      \<and> (intent = INTENT_STAGING_RETIREMENT \<longrightarrow> wi_class identity = ''staging-payload'')
      \<and> (intent = INTENT_PRODUCTION_RETIREMENT \<longrightarrow> wi_class identity = ''prod-payload'')
      \<and> cpo_completeness candidates = CANDIDATES_COMPLETE \<and> cpo_count candidates = 1
      \<and> cpo_uniqueness_status candidates = UNIQUENESS_UNIQUE \<and> cpo_subject candidates = subject
      \<and> canonical_group_identity_digest p = Inr (cpo_group_identity_digest candidates)
      \<and> canonical_prepared_operation_key (dk_owner subject) (wi_owner identity) (wi_class identity)
          (cpo_operation_id candidates) (cpo_operation_ordinal candidates)
          (cpo_group_identity_digest candidates) (wi_run identity) (wi_attempt identity)
          (wi_release identity) = Inr (cpo_prepared_operation_key candidates)
      \<and> map_option authority_subject authority = Some subject"
proof -
  obtain a identity g attestation environment where st: "authority = Some a"
      "stages_passed subject p candidates intent a chain producer evaluated_at identity g attestation environment"
    using evaluate_close_allow[OF assms] by blast
  have a: "map_option authority_subject authority = Some subject"
    using st by (auto simp: stages_passed_def authority_reason_def split: if_split_asm)
  have stages: "class_denial intent (wi_class identity) = None" "classified p = Inr identity"
      "candidates_incomplete subject candidates identity g = Inr False"
      "canonical_group_identity_digest p = Inr g"
    using st(2) by (simp_all add: stages_passed_def)
  have g: "g = cpo_group_identity_digest candidates"
    using candidates_complete[OF stages(3)] by simp
  show ?thesis
    using candidates_complete[OF stages(3)] stages_population[OF stages(2)]
      class_permitted[OF stages(1)] a stages(4) unfolding g by blast
qed

text \<open>
  C21: No lease is retired on one view of the chain. Outside a creator rollback, an ALLOW needs
  chain evidence for this deployment and this group population that two different sources, over two
  different trust paths, proved at one and the same finalized height, still valid when evaluated,
  with the deployment active, every group present, and the leases either completely enumerated and
  not empty or proved never to have existed with an empty population; and the sources agree.
\<close>
theorem close_allow_two_sources:
  assumes "evaluate_close subject p candidates intent authority chain producer evaluated_at = Inr d"
    and "allowed d" and "intent \<noteq> INTENT_CREATOR_ROLLBACK"
  shows "\<exists>c. chain = Some c \<and> che_subject c = subject \<and> che_agreement c = AGREEING
      \<and> canonical_group_identity_digest p = Inr (che_group_population_digest c)
      \<and> che_source_a c \<noteq> che_source_b c \<and> che_trust_path_a c \<noteq> che_trust_path_b c
      \<and> che_proof_mode c = EXACT_FINALIZED_HEIGHT \<and> 0 < che_common_finality_height c
      \<and> che_source_a_height c = che_common_finality_height c
      \<and> che_source_b_height c = che_common_finality_height c
      \<and> che_observed_at c \<le> evaluated_at \<and> evaluated_at \<le> che_valid_until c
      \<and> che_deployment_count c = 1 \<and> che_deployment_state c = PRECLOSE_ACTIVE
      \<and> che_group_count c = int (length (pop_identities p))
      \<and> (che_lease_completeness c = LEASES_COMPLETE \<and> 0 < che_lease_count c
           \<and> che_lease_population_digest c \<noteq> EMPTY_POPULATION_DIGEST
         \<or> che_lease_completeness c = EXACT_NEVER_LEASED \<and> che_lease_count c = 0
           \<and> che_lease_population_digest c = EMPTY_POPULATION_DIGEST)
      \<and> producer \<noteq> None"
proof -
  obtain a identity g attestation environment where st: "authority = Some a"
      "stages_passed subject p candidates intent a chain producer evaluated_at identity g attestation environment"
    using evaluate_close_allow[OF assms(1,2)] by blast
  then obtain c where c: "chain = Some c" "chain_reason subject p g evaluated_at c = None"
      "classified p = Inr identity" "canonical_group_identity_digest p = Inr g"
    using assms(3) by (cases chain) (auto simp: stages_passed_def)
  have "producer \<noteq> None"
    using st(2) assms(3) by (cases producer) (simp_all add: stages_passed_def producer_check_def)
  with c stages_population[OF c(3)] show ?thesis
    by (auto simp: chain_reason_def window_holds_def leases_complete_def never_leased_def)
qed

lemma map_option_None_first [simp]:
  "map_option f v = None \<longleftrightarrow> v = None"
  by (cases v) simp_all

lemma production_passed:
  assumes "production_reason a evaluated_at = None"
  shows "first_reason (principal_checks a) = None"
    and "pra_action a = ACTION_PRODUCTION_RETIREMENT" "pra_verified_action a = pra_action a"
    and "pra_verified_authorization_id a = pra_authorization_id a"
      "pra_single_use_authorization_id a = pra_authorization_id a"
      "pra_unique_authorization_id a = pra_authorization_id a"
    and "pra_verified_environment a = pra_environment a" "pra_verified_release a = pra_release a"
      "pra_verified_subject a = pra_subject a"
    and "pra_approval_verification_status a = VERIFICATION_VERIFIED"
      "pra_single_use_verification a = VERIFICATION_VERIFIED"
      "pra_authorization_uniqueness_status a = UNIQUENESS_UNIQUE"
    and "pra_approval_mode a = APPROVAL_GITHUB_ENVIRONMENT \<Longrightarrow> github_reason a = None"
proof -
  have checks: "first_reason (production_checks a evaluated_at) = None"
    using assms by (simp add: production_reason_def split: option.split_asm)
  then show "first_reason (principal_checks a) = None"
    and "pra_action a = ACTION_PRODUCTION_RETIREMENT" "pra_verified_action a = pra_action a"
    and "pra_verified_authorization_id a = pra_authorization_id a"
      "pra_single_use_authorization_id a = pra_authorization_id a"
      "pra_unique_authorization_id a = pra_authorization_id a"
    and "pra_verified_environment a = pra_environment a" "pra_verified_release a = pra_release a"
      "pra_verified_subject a = pra_subject a"
    and "pra_approval_verification_status a = VERIFICATION_VERIFIED"
      "pra_single_use_verification a = VERIFICATION_VERIFIED"
    by (simp_all add: production_checks_def)
  show "pra_authorization_uniqueness_status a = UNIQUENESS_UNIQUE"
    using checks by (cases "pra_authorization_uniqueness_status a") (simp_all add: production_checks_def)
  show "pra_approval_mode a = APPROVAL_GITHUB_ENVIRONMENT \<Longrightarrow> github_reason a = None"
    using assms checks by (simp add: production_reason_def)
qed

lemma bypass_by_approver:
  assumes "github_reason a = None" and "pra_bypass a = Some b" and "pby_use_status b = BYPASS_USED"
  shows "pby_actor_principal b = Some (ppr_principal (pra_approver a))"
  using assms by (simp add: github_reason_def bypass_checks_def split: environment_control_status.split_asm)

text \<open>
  C3: Production is retired only under separation of duties. An ALLOW for a production
  retirement has an authority whose approver is an authenticated human with the approval role;
  whose executor is an authenticated machine, another principal, verified to be neither an
  administrator nor an approver; whose requester is not a machine that approved itself; whose
  authorization was verified for exactly this deployment, release and environment, is single-use
  and has not been used before; and when the approval is a GitHub environment whose administrator
  bypass was used, it was used by the approver.
\<close>
theorem close_production_separation:
  assumes "evaluate_close subject p candidates INTENT_PRODUCTION_RETIREMENT authority chain producer
      evaluated_at = Inr d" and "allowed d"
  shows "\<exists>a. authority = Some (ProductionRetirement a)
      \<and> ppr_kind (pra_approver a) = KIND_HUMAN
      \<and> ppr_approval_role_membership (pra_approver a) = MEMBERSHIP_VERIFIED_MEMBER
      \<and> ppr_kind (pra_executor a) = KIND_MACHINE
      \<and> ppr_principal (pra_executor a) \<noteq> ppr_principal (pra_approver a)
      \<and> ppr_admin_membership (pra_executor a) = MEMBERSHIP_VERIFIED_NON_MEMBER
      \<and> ppr_approval_role_membership (pra_executor a) = MEMBERSHIP_VERIFIED_NON_MEMBER
      \<and> (ppr_principal (pra_requester a) = ppr_principal (pra_approver a)
           \<longrightarrow> ppr_kind (pra_requester a) \<noteq> KIND_MACHINE)
      \<and> (\<forall>x \<in> {pra_requester a, pra_approver a, pra_executor a}.
           ppr_authentication_status x = VERIFICATION_VERIFIED)
      \<and> pra_verified_subject a = subject \<and> pra_verified_action a = ACTION_PRODUCTION_RETIREMENT
      \<and> pra_verified_environment a = pra_environment a
      \<and> Some (pra_verified_release a) = wi_release (hd (pop_identities p))
      \<and> pra_approval_verification_status a = VERIFICATION_VERIFIED
      \<and> pra_single_use_verification a = VERIFICATION_VERIFIED
      \<and> pra_authorization_uniqueness_status a = UNIQUENESS_UNIQUE
      \<and> (\<forall>i \<in> {pra_verified_authorization_id a, pra_single_use_authorization_id a,
             pra_unique_authorization_id a}. i = pra_authorization_id a)
      \<and> (\<forall>b. pra_approval_mode a = APPROVAL_GITHUB_ENVIRONMENT \<and> pra_bypass a = Some b
           \<and> pby_use_status b = BYPASS_USED
           \<longrightarrow> pby_actor_principal b = Some (ppr_principal (pra_approver a)))"
proof -
  obtain l identity g attestation environment where st: "authority = Some l"
      "stages_passed subject p candidates INTENT_PRODUCTION_RETIREMENT l chain producer evaluated_at
         identity g attestation environment"
    using evaluate_close_allow[OF assms] by blast
  have valid: "authority_reason l subject evaluated_at = None"
      "production_intent_reason identity environment l = None"
    using st(2) by (simp_all add: stages_passed_def intent_reason_def)
  then obtain a where a: "l = ProductionRetirement a"
    by (auto simp: production_intent_reason_def split: lifecycle_authority.split_asm)
  have ok: "production_reason a evaluated_at = None" "pra_subject a = subject"
    using valid(1) by (auto simp: a authority_reason_def authority_subject_def split: if_split_asm)
  have release: "wi_release identity = Some (pra_release a)"
    using valid(2) by (simp add: a production_intent_reason_def)
  have first: "identity = hd (pop_identities p)"
    using st(2) by (auto simp: stages_passed_def classified_def split: option.split_asm)
  note passed = production_passed[OF ok(1)]
  have principals: "ppr_kind (pra_approver a) = KIND_HUMAN"
      "ppr_approval_role_membership (pra_approver a) = MEMBERSHIP_VERIFIED_MEMBER"
      "ppr_kind (pra_executor a) = KIND_MACHINE"
      "ppr_principal (pra_executor a) \<noteq> ppr_principal (pra_approver a)"
      "ppr_admin_membership (pra_executor a) = MEMBERSHIP_VERIFIED_NON_MEMBER"
      "ppr_approval_role_membership (pra_executor a) = MEMBERSHIP_VERIFIED_NON_MEMBER"
      "ppr_principal (pra_requester a) = ppr_principal (pra_approver a)
           \<longrightarrow> ppr_kind (pra_requester a) \<noteq> KIND_MACHINE"
      "\<forall>x \<in> {pra_requester a, pra_approver a, pra_executor a}.
           ppr_authentication_status x = VERIFICATION_VERIFIED"
    using passed(1) by (auto simp: principal_checks_def Let_def)
  show ?thesis
    using st(1) principals passed(2-12) bypass_by_approver[OF passed(13)]
    by (intro exI[of _ a]) (auto simp: a ok(2) release simp flip: first)
qed

text \<open>
  C22: A creator rolls back only its own failed creation. An ALLOW for a rollback has a
  capability for this deployment whose creation binding was confirmed from the transaction or an
  exact read of the chain, held by the signer that owns the deployment, for the same operation, the
  same lifecycle and the same group population as the attribution candidate; the handoff failed,
  and that was observed after the preparation and is still valid when evaluated.
\<close>
theorem close_rollback_own_failure:
  assumes "evaluate_close subject p candidates INTENT_CREATOR_ROLLBACK authority chain producer
      evaluated_at = Inr d" and "allowed d"
  shows "\<exists>a. authority = Some (CreatorRollback a) \<and> rba_subject a = subject
      \<and> rba_signer_owner a = dk_owner subject \<and> rba_operation_id a = cpo_operation_id candidates
      \<and> rba_group_identity_digest a = cpo_group_identity_digest candidates
      \<and> rba_binding_status a = BINDING_CONFIRMED \<and> rba_binding_mode a \<noteq> BINDING_MODE_UNKNOWN
      \<and> rba_repository a = wi_owner (hd (pop_identities p))
      \<and> rba_run a = wi_run (hd (pop_identities p)) \<and> rba_release a = wi_release (hd (pop_identities p))
      \<and> rte_handoff_state (rba_rollback_trigger a) = HANDOFF_FAILED
      \<and> rba_prepared_at a \<le> rte_observed_at (rba_rollback_trigger a)
      \<and> rte_observed_at (rba_rollback_trigger a) \<le> evaluated_at
      \<and> evaluated_at \<le> rte_valid_until (rba_rollback_trigger a) \<and> evaluated_at \<le> rba_valid_until a"
proof -
  obtain l identity g attestation environment where st: "authority = Some l"
      "stages_passed subject p candidates INTENT_CREATOR_ROLLBACK l chain producer evaluated_at
         identity g attestation environment"
    using evaluate_close_allow[OF assms] by blast
  have valid: "authority_reason l subject evaluated_at = None"
      "rollback_intent_reason subject p candidates identity attestation l = Inr None"
      "canonical_group_identity_digest p = Inr g"
    using st(2) by (simp_all add: stages_passed_def intent_reason_def)
  then obtain a where a: "l = CreatorRollback a"
    by (auto simp: rollback_intent_reason_def split: lifecycle_authority.split_asm)
  have ok: "rollback_reason a evaluated_at = None" "rba_subject a = subject"
    using valid(1) by (auto simp: a authority_reason_def authority_subject_def split: if_split_asm)
  have intent: "rba_signer_owner a = dk_owner subject" "rba_group_identity_digest a = g"
      "rba_operation_id a = cpo_operation_id candidates" "rba_repository a = wi_owner identity"
      "rba_run a = wi_run identity" "rba_release a = wi_release identity"
    using valid(2,3) by (auto simp: a rollback_intent_reason_def Let_def split: if_split_asm)
  have first: "identity = hd (pop_identities p)"
    using st(2) by (auto simp: stages_passed_def classified_def split: option.split_asm)
  have g: "g = cpo_group_identity_digest candidates"
    using st(2) candidates_complete by (fastforce simp: stages_passed_def)
  show ?thesis
    using st(1) ok intent g unfolding a first
    by (intro exI[of _ a]) (auto simp: rollback_reason_def Let_def window_holds_def)
qed

section \<open>The digest of a population\<close>

interpretation by_group: keyed_ranking wi_group wi_group
  by unfold_locales

text \<open>
  The digest that binds evidence to a population does not depend on the order in which the
  groups were observed: two populations that differ only in the order of their identities, with
  distinct group numbers, have the same digest, and both are refused when one is.
\<close>
theorem group_digest_order_independent:
  assumes "mset (pop_identities q) = mset (pop_identities p)"
    and "distinct (map wi_group (pop_identities p))"
    and "q = p\<lparr>pop_identities := pop_identities q\<rparr>"
  shows "canonical_group_identity_digest q = canonical_group_identity_digest p"
proof -
  have eq: "pop_completeness q = pop_completeness p" "pop_held q = pop_held p" "pop_reason q = pop_reason p"
      "pop_observed_count q = pop_observed_count p" "pop_parsed_count q = pop_parsed_count p"
    by (subst assms(3), simp)+
  have set: "set (pop_identities q) = set (pop_identities p)" using assms(1) by (metis set_mset_mset)
  have len: "length (pop_identities q) = length (pop_identities p)" using assms(1) by (metis size_mset)
  have sort: "sort_key wi_group (pop_identities q) = sort_key wi_group (pop_identities p)"
    using assms(2) by (intro by_group.ranking_order_independent[OF assms(1)]) (simp add: set distinct_map)
  have mixed: "list_ex (\<lambda>i. lifecycle_of i \<noteq> lifecycle_of (hd (pop_identities q))) (pop_identities q)
      \<longleftrightarrow> list_ex (\<lambda>i. lifecycle_of i \<noteq> lifecycle_of (hd (pop_identities p))) (pop_identities p)"
    if "pop_identities p \<noteq> []"
    using that set len hd_in_set[of "pop_identities p"] hd_in_set[of "pop_identities q"]
    by (metis (mono_tags, lifting) length_0_conv list_ex_iff)
  have empty: "pop_identities q = [] \<longleftrightarrow> pop_identities p = []" using len by (metis length_0_conv)
  have "is_ok (classified q) \<longleftrightarrow> is_ok (classified p)"
    using mixed eq len empty
    by (auto simp: classified_def is_ok_def first_reason.simps split: option.split)
  then show ?thesis
    using sort by (cases "classified p"; cases "classified q") (simp_all add: canonical_group_identity_digest_def)
qed

section \<open>Totality\<close>

lemma make_decision_ok:
  assumes "nonempty (snd why)" and "reason_disposition (fst why) = disposition"
    and "identity \<noteq> None \<Longrightarrow> is_ok (classified p)"
  shows "is_ok (make_decision disposition intent subject p candidates why evaluated_at identity authority chain)"
proof -
  have "is_ok (canonical_group_identity_digest p)" if "identity \<noteq> None"
    using assms(3)[OF that] by (cases "classified p") (simp_all add: canonical_group_identity_digest_def)
  then show ?thesis
    using assms(1,2)
    by (cases identity; cases "canonical_group_identity_digest p")
      (simp_all add: make_decision_def construct_def is_close_decision_def)
qed

text \<open>A reason that can be decided with: a diagnostic, and the disposition of its code.\<close>

definition decides :: "close_disposition \<Rightarrow> close_reason \<Rightarrow> bool" where
  "decides disposition why \<longleftrightarrow> nonempty (snd why) \<and> reason_disposition (fst why) = disposition"

definition validates :: "authority_validation \<Rightarrow> bool" where
  "validates v \<longleftrightarrow> (case v of (reason_code, message, evidence_gap) \<Rightarrow>
     decides (if evidence_gap then HOLD else DENY) (reason_code, message))"

lemma nonempty_Cons: "\<not> is_space c \<Longrightarrow> nonempty (c # cs)"
proof -
  assume c: "\<not> is_space c"
  have "dropWhile is_space (rev cs @ [c]) \<noteq> []" using c by (metis append_is_Nil_conv dropWhile_eq_Nil_conv in_set_conv_decomp)
  then show ?thesis using c by (simp add: nonempty_def strip_def)
qed

lemma letter_nonempty [simp]:
  "is_lower_digit c \<or> is_alnum c \<Longrightarrow> nonempty (c # cs)"
  by (rule nonempty_Cons) (auto simp: is_lower_digit_def is_alnum_def is_space_def is_digit_def code_def)

lemma code_nonempty [simp]:
  "is_digit c \<Longrightarrow> nonempty (c # cs)" "97 \<le> code c \<Longrightarrow> code c \<le> 122 \<Longrightarrow> nonempty (c # cs)"
  by (rule letter_nonempty, simp add: is_lower_digit_def)+

lemma letters [simp]: "is_lower_digit c" if "c \<in> set ''abcdefghijklmnopqrstuvwxyz''"
  using that by (auto simp: is_lower_digit_def is_digit_def code_def)

lemma capitals [simp]: "is_alnum c" if "c \<in> set ''GPC''"
  using that by (auto simp: is_alnum_def is_lower_digit_def is_digit_def code_def)

lemma first_reason_all:
  "first_reason checks = Some why \<Longrightarrow> list_all (\<lambda>c. P (snd c)) checks \<Longrightarrow> P why"
  by (induction checks rule: first_reason.induct) (auto simp: first_reason.simps split: if_split_asm)

lemma validates_simps [simp]:
  "nonempty m \<Longrightarrow> validates (authority_hold m)"
  "nonempty m \<Longrightarrow> validates (authority_deny m)"
  "nonempty m \<Longrightarrow> validates (AUTHORITY_REPLAYED, m, True)"
  by (simp_all add: validates_def decides_def authority_hold_def authority_deny_def)

lemma decides_simps [simp]:
  "decides disposition (reason_code, m) \<longleftrightarrow> nonempty m \<and> reason_disposition reason_code = disposition"
  "nonempty m \<Longrightarrow> decides DENY (disagreement m)"
  by (simp_all add: decides_def disagreement_def)

lemma authority_reason_validates:
  assumes "authority_reason authority subject evaluated_at = Some v"
  shows "validates v"
proof -
  have messages: "validates v" if "first_reason checks = Some v" "list_all (\<lambda>c. validates (snd c)) checks"
    for checks using first_reason_all[OF that(1), of validates] that(2) by simp
  have deny: "validates v" if "map_option authority_deny (first_reason checks) = Some v"
    "list_all (\<lambda>c. nonempty (snd c)) checks" for checks
    using that first_reason_all[of checks _ nonempty] by auto
  have hold: "validates v" if "map_option authority_hold (first_reason checks) = Some v"
    "list_all (\<lambda>c. nonempty (snd c)) checks" for checks
    using that first_reason_all[of checks _ nonempty] by auto
  have production: "validates v" if "production_reason a evaluated_at = Some v" for a
  proof (cases "first_reason (production_checks a evaluated_at) = Some v")
    case True
    then show ?thesis
      by (rule messages) (simp add: production_checks_def principal_checks_def Let_def)
  next
    case False
    then have "github_reason a = Some v \<or> external_reason a = Some v"
      using that by (auto simp: production_reason_def split: option.split_asm production_approval_mode.split_asm)
    then show ?thesis
    proof
      assume g: "github_reason a = Some v"
      have b: "list_all (\<lambda>c. validates (snd c)) (bypass_checks a b)" for b
        by (simp add: bypass_checks_def split: environment_control_status.split bypass_use_status.split)
      show ?thesis
      proof (cases "pra_bypass a")
        case None
        then show ?thesis using g by (auto simp: github_reason_def)
      next
        case (Some b)
        show ?thesis
          using g by (intro messages) (auto simp: github_reason_def Some intro: b)
      qed
    next
      assume "external_reason a = Some v"
      then show ?thesis unfolding external_reason_def by (rule deny) simp
    qed
  qed
  have rollback: "validates v" if "rollback_reason a evaluated_at = Some v" for a
    using that unfolding rollback_reason_def Let_def by (rule deny) simp
  have observed: "validates v" if "observed_reason source digest t evaluated_at u = Some v" for source digest t u
    using that unfolding observed_reason_def by (rule hold) simp
  show ?thesis
    using assms production rollback observed
    by (auto simp: authority_reason_def split: if_split_asm lifecycle_authority.split_asm)
qed

lemma first_decides:
  "first_reason checks = Some why \<Longrightarrow> list_all (\<lambda>c. decides disposition (snd c)) checks
   \<Longrightarrow> decides disposition why"
  by (rule first_reason_all)

lemma first_with_code:
  assumes "map_option (Pair reason_code) (first_reason checks) = Some why"
    and "list_all (\<lambda>c. nonempty (snd c)) checks" and "reason_disposition reason_code = disposition"
  shows "decides disposition why"
  using assms first_reason_all[of checks _ nonempty] by auto

lemma intent_reason_decides:
  assumes "intent_reason intent subject p candidates identity attestation environment a = Inr (Some why)"
  shows "decides DENY why"
proof -
  have ci: "decides DENY why" if "ci_intent_reason identity a = Some why"
    using that by (auto simp: ci_intent_reason_def disagreement_def split: lifecycle_authority.split_asm elim!: first_decides)
  have staging: "decides DENY why" if "staging_intent_reason identity candidates attestation a = Some why"
    using that by (auto simp: staging_intent_reason_def split: lifecycle_authority.split_asm elim!: first_decides)
  have production: "decides DENY why" if "production_intent_reason identity environment a = Some why"
    using that by (auto simp: production_intent_reason_def split: lifecycle_authority.split_asm elim!: first_decides)
  have rollback: "decides DENY why"
    if "rollback_intent_reason subject p candidates identity attestation a = Inr (Some why)"
    using that by (auto simp: rollback_intent_reason_def Let_def split: lifecycle_authority.split_asm if_split_asm
      elim!: first_decides)
  show ?thesis
    using assms ci staging production rollback by (simp add: intent_reason_def split: close_intent.split_asm)
qed

lemma chain_reason_decides:
  "chain_reason subject p g evaluated_at c = Some why \<Longrightarrow> decides HOLD why"
  unfolding chain_reason_def by (erule first_decides) simp

lemma class_denial_decides: "class_denial intent cls = Some why \<Longrightarrow> decides DENY why"
  by (cases intent) (auto simp: class_denial_def permitted_classes_def split: if_split_asm)

lemma shared_reason_decides:
  assumes "shared_reason evidence subject p identity candidates evaluated_at = Inr (Some why)"
  shows "decides HOLD why"
proof -
  obtain g where g: "canonical_group_identity_digest p = Inr g"
    using assms by (cases "canonical_group_identity_digest p") (simp_all add: shared_reason_def)
  show ?thesis
    using assms unfolding shared_reason_def g Let_def bindR_simps sum.inject
    by (rule first_with_code) simp_all
qed

lemma isolated_reason_decides:
  "isolated_reason evidence subject identity candidates evaluated_at = Some why \<Longrightarrow> decides HOLD why"
  unfolding isolated_reason_def by (erule first_with_code) simp_all

lemma producer_check_total:
  assumes "is_ok (classified p)"
  shows "\<exists>r. producer_check intent subject p identity candidates evaluated_at producer = Inr r
    \<and> (\<forall>why. r = Inl why \<longrightarrow> decides HOLD why)"
proof (cases producer)
  case (Some evidence)
  show ?thesis
  proof (cases evidence)
    case (SharedSigner e)
    obtain r where r: "shared_reason e subject p identity candidates evaluated_at = Inr r"
      using assms by (cases "classified p") (simp_all add: shared_reason_def canonical_group_identity_digest_def Let_def)
    show ?thesis
      using r shared_reason_decides[of e subject p identity candidates evaluated_at]
      by (cases r) (simp_all add: producer_check_def Some SharedSigner del: split_paired_All)
  next
    case (IsolatedSigner e)
    show ?thesis
      using isolated_reason_decides[of e subject identity candidates evaluated_at]
      by (cases "isolated_reason e subject identity candidates evaluated_at")
        (simp_all add: producer_check_def Some IsolatedSigner del: split_paired_All)
  qed
qed (simp add: producer_check_def)

lemma authorize_total:
  assumes "is_ok (classified p)"
  shows "is_ok (authorize subject p candidates identity intent authority attestation environment chain evaluated_at)"
proof -
  have decide: "is_ok (make_decision disposition intent subject p candidates why evaluated_at (Some identity) authority chain)"
    if "decides disposition why" for disposition why authority
    using that assms by (intro make_decision_ok) (simp_all add: decides_def)
  obtain g where "canonical_group_identity_digest p = Inr g"
    using assms by (cases "classified p") (simp_all add: canonical_group_identity_digest_def)
  then have "is_ok (intent_reason intent subject p candidates identity attestation environment a)" for a
    by (cases intent) (simp_all add: intent_reason_def rollback_intent_reason_def Let_def
      split: lifecycle_authority.split)
  then have intent: "\<exists>r. intent_reason intent subject p candidates identity attestation environment a = Inr r" for a
    by (meson is_okE)
  show ?thesis
  proof (cases authority)
    case None
    then show ?thesis by (auto simp: authorize_def intro!: decide)
  next
    case (Some a)
    obtain r where r: "intent_reason intent subject p candidates identity attestation environment a = Inr r"
      using intent by blast
    show ?thesis
    proof (cases "authority_reason a subject evaluated_at")
      case None
      then show ?thesis
        using r intent_reason_decides[of intent subject p candidates identity attestation environment a]
        by (cases r) (auto simp: authorize_def Some intro!: decide)
    next
      case (Some v)
      then have "validates v" by (rule authority_reason_validates)
      then show ?thesis
        using \<open>authority = Some a\<close> Some by (auto simp: authorize_def validates_def split: prod.split_asm intro!: decide)
    qed
  qed
qed

lemma registered_nonempty: "registered_repository owner \<Longrightarrow> nonempty owner"
  by (cases owner) (auto simp: registered_repository_def repository_owner_shape_def Let_def split: if_split_asm)

lemma register_owners:
  assumes "register_stems reg repos stems = Inr out" and "(p, owner) \<in> set reg"
  shows "registered_repository owner"
  using assms by (induction reg repos stems rule: register_stems.induct) auto

lemma format_prepares:
  assumes "format_identity i reg = Inr name" and "is_canonical_akash_owner signer"
    and "nonempty operation" and "nonempty digest" and "0 < ordinal"
  shows "is_ok (canonical_prepared_operation_key signer (wi_owner i) (wi_class i) operation ordinal digest
    (wi_run i) (wi_attempt i) (wi_release i))"
proof -
  obtain stems where stems: "check_register reg = Inr stems" using assms(1) by (auto simp: format_identity_def)
  have "(wi_prefix i, wi_owner i) \<in> set reg" "wi_class i \<in> set CLASSES"
    using assms(1) by (auto simp: format_identity_def dest: map_of_SomeD)
  then have "nonempty (wi_owner i)"
    using stems by (auto simp: check_register_def dest: register_owners intro!: registered_nonempty)
  moreover have "nonempty (wi_class i)" using \<open>wi_class i \<in> set CLASSES\<close> by (auto simp: CLASSES_def)
  moreover have "wi_run i \<noteq> None \<and> wi_attempt i \<noteq> None \<and> wi_release i = None"
    if "starts_with ''ci-'' (wi_class i)"
    using assms(1) that by (cases "wi_attempt i"; cases "wi_run i")
      (auto simp: format_identity_def Let_def number_text_def[of None])
  moreover have "wi_run i = None \<and> wi_attempt i = None
      \<and> (\<exists>r. wi_release i = Some r \<and> nonempty r) \<and> is_payload_class (wi_class i)"
    if payload: "\<not> starts_with ''ci-'' (wi_class i)"
  proof -
    obtain r where "wi_release i = Some r" "is_release r" "wi_run i = None" "wi_attempt i = None"
      using assms(1) payload by (auto simp: format_identity_def Let_def split: option.split_asm if_split_asm)
    moreover have "nonempty r" using \<open>is_release r\<close> by (cases r) (auto simp: is_release_def)
    moreover have "is_payload_class (wi_class i)"
      using payload \<open>wi_class i \<in> set CLASSES\<close> by (auto simp: CLASSES_def is_payload_class_def starts_with_def)
    ultimately show ?thesis by auto
  qed
  ultimately show ?thesis
    using assms(2-5)
    by (cases "starts_with ''ci-'' (wi_class i)")
      (auto simp: canonical_prepared_operation_key_def is_payload_class_def)
qed

lemma classify_reason: "classify_groups groups reg completeness = Inr p \<Longrightarrow> nonempty (pop_reason p)"
  by (auto simp: classify_groups_def unread_population_def Let_def split: option.split_asm if_split_asm)

lemma is_ok_if: "(c \<Longrightarrow> is_ok r) \<Longrightarrow> (\<not> c \<Longrightarrow> is_ok s) \<Longrightarrow> is_ok (if c then r else s)"
  by simp

lemma is_ok_bindR_Inr: "is_ok (bindR r (\<lambda>x. Inr (f x))) \<longleftrightarrow> is_ok r"
  by (cases r) simp_all

lemma classified_decides:
  assumes "classified p = Inl why" and "nonempty (pop_reason p)"
  shows "decides HOLD why"
  using assms by (auto simp: classified_def first_reason.simps split: option.split_asm if_split_asm)

lemma parse_formats:
  assumes "parse_identity v reg = Inr (Some i)"
  shows "\<exists>name. format_identity i reg = Inr name"
proof -
  obtain stems t where v: "check_register reg = Inr stems" "v = PStr t"
    using assms by (cases v) (auto simp: parse_identity_def)
  note parse = assms[unfolded parse_identity_def v bindR_simps pyval.case]
  obtain q where q: "matching_prefixes stems t = [q]"
    using parse by (auto split: list.split_asm)
  obtain f where f: "match_tail (drop (length (stem_of q @ IDENTITY_MARK)) t) = Some f"
    using parse[unfolded q list.case]
    by (cases "match_tail (drop (length (stem_of q @ IDENTITY_MARK)) t)")
      (simp_all only: option.case sum.inject option.distinct)
  show ?thesis
    using parse unfolding q f list.case option.case Let_def
    by (cases "dict_get reg q") (auto split: if_split_asm)
qed

lemma classified_formats:
  assumes "classify_groups groups reg completeness = Inr p" and "classified p = Inr i"
  shows "\<exists>name. format_identity i reg = Inr name"
proof -
  have "\<not> pop_held p" "i \<in> set (pop_identities p)"
    using stages_population[OF assms(2)] by blast+
  obtain ids and observed :: "group_observation list" where ids: "ids = pop_identities p"
      and names: "map (\<lambda>g. parse_identity (go_name g) reg) observed = map (\<lambda>i. Inr (Some i)) ids"
    using classification_sound[OF assms(1) \<open>\<not> pop_held p\<close>] by blast
  have "Inr (Some i) \<in> set (map (\<lambda>g. parse_identity (go_name g) reg) observed)"
    unfolding names ids using \<open>i \<in> set (pop_identities p)\<close> by simp
  then obtain g :: group_observation where "parse_identity (go_name g) reg = Inr (Some i)"
    by (metis (no_types, lifting) imageE list.set_map)
  then show ?thesis by (rule parse_formats)
qed

lemma hexdigest_nonempty: "nonempty (sha256_hexdigest s)"
proof -
  have d: "is_digest (sha256_hexdigest s)" by simp
  then have "list_all is_hex (sha256_hexdigest s)" by (simp add: is_digest_def)
  then show ?thesis
    using is_digest_nonempty[OF d]
    by (cases "sha256_hexdigest s")
      (auto simp: is_hex_def intro!: nonempty_Cons simp: is_space_def is_digit_def code_def)
qed

lemma digest_nonempty [simp]: "nonempty (dict_digest j)" "nonempty EMPTY_POPULATION_DIGEST"
  by (simp_all add: dict_digest_def EMPTY_POPULATION_DIGEST_def hexdigest_nonempty)

text \<open>What a computation yields when it does not raise, by its structure.\<close>

definition yields :: "('a \<Rightarrow> bool) \<Rightarrow> 'a result \<Rightarrow> bool" where
  "yields P r \<longleftrightarrow> (\<forall>x. r = Inr x \<longrightarrow> P x)"

lemma yields_intro:
  "(\<And>x. r = Inr x \<Longrightarrow> yields P (f x)) \<Longrightarrow> yields P (bindR r f)"
  "(c \<Longrightarrow> yields P r1) \<Longrightarrow> (\<not> c \<Longrightarrow> yields P r2) \<Longrightarrow> yields P (if c then r1 else r2)"
  "yields P r1 \<Longrightarrow> (\<And>x. v = Some x \<Longrightarrow> yields P (k x)) \<Longrightarrow> yields P (case v of None \<Rightarrow> r1 | Some x \<Rightarrow> k x)"
  "(\<And>e. s = Inl e \<Longrightarrow> yields P (h e)) \<Longrightarrow> (\<And>x. s = Inr x \<Longrightarrow> yields P (m x))
   \<Longrightarrow> yields P (case s of Inl e \<Rightarrow> h e | Inr x \<Rightarrow> m x)"
  "(\<And>a b. q = (a, b) \<Longrightarrow> yields P (n a b)) \<Longrightarrow> yields P (case q of (a, b) \<Rightarrow> n a b)"
  unfolding yields_def by (auto split: option.split sum.split prod.split)

lemma make_decision_yields:
  "yields (\<lambda>d. is_close_decision d \<and> cld_subject d = subject \<and> cld_intent d = intent)
     (make_decision disposition intent subject p candidates why evaluated_at identity authority chain)"
  using make_decision_disposition by (simp add: yields_def)

lemma evaluate_close_typed:
  assumes "evaluate_close subject p candidates intent authority chain producer evaluated_at = Inr d"
  shows "is_close_decision d \<and> cld_subject d = subject \<and> cld_intent d = intent
    \<and> cld_disposition d = reason_disposition (cld_reason_code d)"
proof -
  have "yields (\<lambda>d. is_close_decision d \<and> cld_subject d = subject \<and> cld_intent d = intent)
      (evaluate_close subject p candidates intent authority chain producer evaluated_at)"
    unfolding evaluate_close_def authorize_def Let_def
    by (intro yields_intro make_decision_yields)
  then show ?thesis using assms by (auto simp: yields_def is_close_decision_def)
qed

lemma candidates_incomplete_total:
  assumes "classify_groups groups reg completeness = Inr p" and "classified p = Inr i"
    and "is_canonical_akash_owner (dk_owner subject)" and "canonical_group_identity_digest p = Inr g"
  shows "\<exists>b. candidates_incomplete subject candidates i g = Inr b"
proof -
  have g: "nonempty g" using assms(2,4) by (auto simp: canonical_group_identity_digest_def)
  obtain name where "format_identity i reg = Inr name" using classified_formats[OF assms(1,2)] by blast
  from format_prepares[OF this assms(3)] g have "is_ok (candidates_incomplete subject candidates i g)"
    by (auto simp: candidates_incomplete_def is_ok_bindR_Inr)
  then show ?thesis by (rule is_okE) blast
qed

lemma evaluate_close_total:
  assumes "classify_groups groups reg completeness = Inr p"
    and "is_canonical_akash_owner (dk_owner subject)" and "0 < evaluated_at" and "0 \<le> cpo_count candidates"
  shows "is_ok (evaluate_close subject p candidates intent authority chain producer evaluated_at)"
proof -
  have decide: "is_ok (make_decision disposition intent subject p candidates why evaluated_at identity a c)"
    if "decides disposition why" "identity \<noteq> None \<Longrightarrow> is_ok (classified p)" for disposition why identity a c
    using that by (intro make_decision_ok) (simp_all add: decides_def)
  show ?thesis
  proof (cases "classified p")
    case (Inl why)
    then have "decides HOLD why" using classified_decides classify_reason[OF assms(1)] by blast
    then show ?thesis using assms(3,4) Inl by (auto simp: evaluate_close_def Let_def intro!: decide)
  next
    case (Inr i)
    then obtain g where g: "canonical_group_identity_digest p = Inr g" "nonempty g"
      by (simp add: canonical_group_identity_digest_def)
    obtain b where b: "candidates_incomplete subject candidates i g = Inr b"
      using candidates_incomplete_total[OF assms(1) Inr assms(2) g(1)] by blast
    obtain r where r: "producer_check intent subject p i candidates evaluated_at producer = Inr r"
        "\<And>why. r = Inl why \<Longrightarrow> decides HOLD why"
      using producer_check_total[of p] Inr by (metis is_ok_simps(1))
    have cls: "is_ok (classified p)" by (simp add: Inr)
    show ?thesis
    proof (cases "class_denial intent (wi_class i)")
      case (Some why)
      then show ?thesis
        using assms(3,4) class_denial_decides[OF Some] cls
        by (auto simp: evaluate_close_def Let_def Inr intro!: decide)
    next
      case None
      have times: "raise_if (evaluated_at \<le> 0) ValueError = Inr ()"
          "raise_if (cpo_count candidates < 0) ValueError = Inr ()"
        using assms(3,4) by simp_all
      have stage: "is_ok (case Option.bind chain (chain_reason subject p g evaluated_at) of
          Some why \<Rightarrow> make_decision HOLD intent subject p candidates why evaluated_at (Some i) None chain
        | None \<Rightarrow> bindR (producer_check intent subject p i candidates evaluated_at producer) (\<lambda>producer_result. case producer_result of
            Inl why \<Rightarrow> make_decision HOLD intent subject p candidates why evaluated_at (Some i) authority chain
          | Inr (attestation, environment) \<Rightarrow>
              authorize subject p candidates i intent authority attestation environment chain evaluated_at))"
        using cls r(2) unfolding r(1)
        by (auto split: option.split sum.split bind_split intro!: decide authorize_total
            dest: chain_reason_decides)
      show ?thesis
        unfolding evaluate_close_def Let_def sum.case option.case bindR_simps times Inr None g(1) b
        by (intro is_ok_if stage decide) (simp_all add: cls)
    qed
  qed
qed

text \<open>
  C23: The decision is total and typed. For a population that the classifier produced, a deployment
  with a canonical owner, a positive time and a count that is not negative, \<^verbatim>\<open>evaluate_close\<close> raises
  nothing, whatever the authority, the chain evidence and the producer's evidence; its decision is
  a well-formed one of the current policy version about this deployment and this intent, and its
  disposition is the one that its reason code prescribes.
\<close>
theorem close_total:
  assumes "classify_groups groups reg completeness = Inr p"
    and "is_canonical_akash_owner (dk_owner subject)" and "0 < evaluated_at" and "0 \<le> cpo_count candidates"
  shows "\<exists>d. evaluate_close subject p candidates intent authority chain producer evaluated_at = Inr d
    \<and> is_close_decision d \<and> cld_subject d = subject \<and> cld_intent d = intent
    \<and> cld_disposition d = reason_disposition (cld_reason_code d)"
  using evaluate_close_total[OF assms] evaluate_close_typed by (fastforce elim!: is_okE)

section \<open>A retirement and a rollback\<close>

definition retired_identity :: workload_identity where
  "retired_identity =
     \<lparr>wi_prefix = ''web'', wi_owner = ''org/web'', wi_class = ''prod-payload'', wi_group = 1,
      wi_run = None, wi_attempt = None, wi_release = Some ''r1'', wi_expires = None, wi_version = 1\<rparr>"

definition retired_population :: population where
  "retired_population =
     \<lparr>pop_identities = [retired_identity], pop_held = False, pop_reason = ''classified'',
      pop_observed_count = 1, pop_parsed_count = 1, pop_completeness = COMPLETE_POPULATION\<rparr>"

definition retired_subject :: deployment_key where
  "retired_subject = \<lparr>dk_owner = sample_owner, dk_dseq = ''77''\<rparr>"

definition retired_digest :: string where
  "retired_digest = dict_digest (JArr [as_workload_identity retired_identity])"

definition retired_key :: string where
  "retired_key = dict_digest (JObj
     [(''signer_owner'', JStr sample_owner), (''producer_repository'', JStr ''org/web''),
      (''workload_class'', JStr ''prod-payload''), (''operation_id'', JStr ''op''),
      (''operation_ordinal'', JInt 1), (''prepared_group_identity_digest'', JStr retired_digest),
      (''run'', JNull), (''run_attempt'', JNull), (''release'', JStr ''r1'')])"

definition retired_candidates :: candidate_population where
  "retired_candidates =
     \<lparr>cpo_subject = retired_subject, cpo_group_identity_digest = retired_digest,
      cpo_operation_id = ''op'', cpo_operation_ordinal = 1, cpo_count = 1,
      cpo_completeness = CANDIDATES_COMPLETE, cpo_prepared_operation_key = retired_key,
      cpo_uniqueness_status = UNIQUENESS_UNIQUE, cpo_evidence_digest = ''e'',
      cpo_creation_authorization_reference = Some ''ref''\<rparr>"

definition retired_chain :: chain_evidence where
  "retired_chain =
     \<lparr>che_subject = retired_subject, che_group_identity_digest = retired_digest,
      che_evidence_digest = ''e'', che_chain_id = ''akashnet'', che_source_a = ''a'', che_source_b = ''b'',
      che_trust_path_a = ''a'', che_trust_path_b = ''b'', che_source_a_height = 9,
      che_source_b_height = 9, che_common_finality_height = 9, che_proof_mode = EXACT_FINALIZED_HEIGHT,
      che_deployment_count = 1,
      che_deployment_population_digest = canonical_deployment_population_digest retired_subject,
      che_deployment_state = PRECLOSE_ACTIVE, che_deployment_state_digest = ''s'', che_group_count = 1,
      che_group_population_digest = retired_digest, che_group_state_digest = ''s'', che_lease_count = 0,
      che_lease_population_digest = EMPTY_POPULATION_DIGEST, che_lease_state_digest = ''s'',
      che_lease_completeness = EXACT_NEVER_LEASED, che_observed_at = 5, che_valid_until = 20,
      che_agreement = AGREEING\<rparr>"

definition person :: "string \<Rightarrow> principal_kind \<Rightarrow> membership_status \<Rightarrow> production_principal" where
  "person name kind role =
     \<lparr>ppr_principal = name, ppr_kind = kind, ppr_authentication_status = VERIFICATION_VERIFIED,
      ppr_admin_membership = MEMBERSHIP_VERIFIED_NON_MEMBER, ppr_approval_role_membership = role,
      ppr_evidence_source = ''idp'', ppr_evidence_digest = ''e''\<rparr>"

definition retired_authority :: production_retirement_authority where
  "retired_authority =
     \<lparr>pra_subject = retired_subject, pra_repository = ''org/web'', pra_release = ''r1'',
      pra_environment = ''production'', pra_authorization_id = ''auth'',
      pra_authorization_reference = ''ref'',
      pra_requester = person ''alice'' KIND_HUMAN MEMBERSHIP_VERIFIED_NON_MEMBER,
      pra_approver = person ''bob'' KIND_HUMAN MEMBERSHIP_VERIFIED_MEMBER,
      pra_executor = person ''robot'' KIND_MACHINE MEMBERSHIP_VERIFIED_NON_MEMBER,
      pra_action = ACTION_PRODUCTION_RETIREMENT, pra_approval_mode = APPROVAL_EXTERNAL,
      pra_approval_verification_status = VERIFICATION_VERIFIED,
      pra_single_use_verification = VERIFICATION_VERIFIED,
      pra_authorization_uniqueness_status = UNIQUENESS_UNIQUE,
      pra_prevent_self_review_status = CONTROL_NOT_APPLICABLE, pra_bypass = None,
      pra_policy_reference = ''p'', pra_approval_verification_source = ''s'',
      pra_approval_verification_digest = ''e'', pra_verified_authorization_id = ''auth'',
      pra_verified_environment = ''production'', pra_verified_release = ''r1'',
      pra_verified_subject = retired_subject, pra_verified_action = ACTION_PRODUCTION_RETIREMENT,
      pra_single_use_authorization_id = ''auth'', pra_unique_authorization_id = ''auth'',
      pra_issued_at = 4, pra_observed_at = 5, pra_valid_until = 20, pra_workflow_ref = None,
      pra_workflow_sha = None, pra_ref = None, pra_verified_workflow_ref = None,
      pra_verified_workflow_sha = None, pra_verified_ref = None\<rparr>"

definition retired_signer :: isolated_signer_evidence where
  "retired_signer =
     \<lparr>iso_signer_owner = sample_owner, iso_repository = ''org/web'', iso_workload_class = ''prod-payload'',
      iso_operation_id = ''op'', iso_environment = Some ''production'', iso_trust_domain = ''t'',
      iso_source = ''s'', iso_evidence_digest = ''e'', iso_observed_at = 5, iso_valid_until = 20\<rparr>"

definition rolled_back :: creator_rollback_authority where
  "rolled_back =
     \<lparr>rba_subject = retired_subject, rba_operation_id = ''op'', rba_repository = ''org/web'',
      rba_workload_class = ''prod-payload'', rba_run = None, rba_run_attempt = None,
      rba_release = Some ''r1'', rba_expires = None, rba_creation_authorization_reference = Some ''ref'',
      rba_backend = ''console'', rba_signer_owner = sample_owner,
      rba_group_identity_digest = retired_digest, rba_capability_reference = ''c'',
      rba_binding_status = BINDING_CONFIRMED, rba_binding_mode = BINDING_MODE_TRANSACTION_EVENT,
      rba_binding_source = ''s'', rba_binding_evidence_digest = ''e'', rba_prepared_at = 5,
      rba_valid_until = 20,
      rba_rollback_trigger = \<lparr>rte_handoff_state = HANDOFF_FAILED, rte_source = ''s'',
        rte_evidence_digest = ''e'', rte_observed_at = 6, rte_valid_until = 20\<rparr>\<rparr>"

lemmas retired_defs = retired_identity_def retired_population_def retired_candidates_def
  retired_chain_def retired_authority_def retired_signer_def rolled_back_def person_def

lemma retired_stages:
  "classified retired_population = Inr retired_identity"
  "canonical_group_identity_digest retired_population = Inr retired_digest"
  "candidates_incomplete retired_subject retired_candidates retired_identity retired_digest = Inr False"
  "chain_reason retired_subject retired_population retired_digest 10 retired_chain = None"
proof -
  show c: "classified retired_population = Inr retired_identity"
    by (simp add: classified_def retired_population_def first_reason.simps)
  show "canonical_group_identity_digest retired_population = Inr retired_digest"
    using c by (simp add: canonical_group_identity_digest_def retired_digest_def)
      (simp add: retired_population_def)
  show "candidates_incomplete retired_subject retired_candidates retired_identity retired_digest = Inr False"
    using sample_owner_canonical
    by (simp add: candidates_incomplete_def canonical_prepared_operation_key_def retired_candidates_def
        retired_identity_def retired_subject_def retired_key_def retired_digest_def opt_nonempty_def
        starts_with_def is_payload_class_def canon_opt_def)
  show "chain_reason retired_subject retired_population retired_digest 10 retired_chain = None"
    by (simp add: chain_reason_def retired_chain_def window_holds_def never_leased_def
        retired_population_def retired_digest_def canonical_deployment_population_digest_def)
qed

lemma retired_decisions:
  assumes "class_denial intent ''prod-payload'' = None"
    and "authority_reason a retired_subject 10 = None"
    and "intent_reason intent retired_subject retired_population retired_candidates retired_identity
      None (if intent = INTENT_CREATOR_ROLLBACK then None else Some ''production'') a = Inr None"
  shows "\<exists>d. evaluate_close retired_subject retired_population retired_candidates intent (Some a)
      (Some retired_chain) (Some (IsolatedSigner retired_signer)) 10 = Inr d \<and> allowed d"
proof -
  have signer: "isolated_reason retired_signer retired_subject retired_identity retired_candidates 10 = None"
    by (simp add: isolated_reason_def retired_defs retired_subject_def opt_nonempty_def window_holds_def)
  have cls: "wi_class retired_identity = ''prod-payload''" by (simp add: retired_identity_def)
  have env: "iso_environment retired_signer = Some ''production''" by (simp add: retired_signer_def)
  have count: "\<not> cpo_count retired_candidates < 0" by (simp add: retired_candidates_def)
  show ?thesis
    using assms
    by (cases "intent = INTENT_CREATOR_ROLLBACK")
      (simp_all add: evaluate_close_def Let_def retired_stages cls count producer_check_def signer
        authorize_def make_decision_def construct_def is_close_decision_def allowed_def env)
qed

lemma retirement_allowed:
  "\<exists>d. evaluate_close retired_subject retired_population retired_candidates
      INTENT_PRODUCTION_RETIREMENT (Some (ProductionRetirement retired_authority))
      (Some retired_chain) (Some (IsolatedSigner retired_signer)) 10 = Inr d \<and> allowed d"
  by (rule retired_decisions)
    (simp_all add: class_denial_def permitted_classes_def authority_reason_def authority_subject_def
      production_reason_def production_checks_def principal_checks_def external_reason_def
      intent_reason_def production_intent_reason_def retired_defs window_holds_def first_reason.simps)

lemma rollback_allowed:
  "\<exists>d. evaluate_close retired_subject retired_population retired_candidates
      INTENT_CREATOR_ROLLBACK (Some (CreatorRollback rolled_back))
      (Some retired_chain) (Some (IsolatedSigner retired_signer)) 10 = Inr d \<and> allowed d"
proof (rule retired_decisions)
  show "intent_reason INTENT_CREATOR_ROLLBACK retired_subject retired_population retired_candidates
     retired_identity None (if INTENT_CREATOR_ROLLBACK = INTENT_CREATOR_ROLLBACK then None
       else Some ''production'') (CreatorRollback rolled_back) = Inr None"
    using retired_stages(2)
    by (simp add: intent_reason_def rollback_intent_reason_def Let_def)
      (simp add: retired_defs retired_subject_def is_payload_class_def opt_nonempty_def)
qed (simp_all add: class_denial_def permitted_classes_def authority_reason_def authority_subject_def
      rollback_reason_def rolled_back_def window_holds_def)

lemma close_allow_sound_witness:
  "pop_completeness retired_population = COMPLETE_POPULATION \<and> \<not> pop_held retired_population"
  using retirement_allowed close_allow_sound by blast

lemma close_allow_two_sources_witness:
  "che_source_a retired_chain \<noteq> che_source_b retired_chain"
proof -
  obtain d where "evaluate_close retired_subject retired_population retired_candidates
      INTENT_PRODUCTION_RETIREMENT (Some (ProductionRetirement retired_authority))
      (Some retired_chain) (Some (IsolatedSigner retired_signer)) 10 = Inr d" "allowed d"
    using retirement_allowed by blast
  from close_allow_two_sources[OF this] show ?thesis by auto
qed

lemma close_production_separation_witness:
  "ppr_principal (pra_executor retired_authority) \<noteq> ppr_principal (pra_approver retired_authority)"
proof -
  obtain d where "evaluate_close retired_subject retired_population retired_candidates
      INTENT_PRODUCTION_RETIREMENT (Some (ProductionRetirement retired_authority))
      (Some retired_chain) (Some (IsolatedSigner retired_signer)) 10 = Inr d" "allowed d"
    using retirement_allowed by blast
  from close_production_separation[OF this] show ?thesis by auto
qed

lemma close_rollback_own_failure_witness:
  "rte_handoff_state (rba_rollback_trigger rolled_back) = HANDOFF_FAILED"
proof -
  obtain d where "evaluate_close retired_subject retired_population retired_candidates
      INTENT_CREATOR_ROLLBACK (Some (CreatorRollback rolled_back))
      (Some retired_chain) (Some (IsolatedSigner retired_signer)) 10 = Inr d" "allowed d"
    using rollback_allowed by blast
  from close_rollback_own_failure[OF this] show ?thesis by auto
qed

lemma group_digest_order_independent_witness:
  "canonical_group_identity_digest (retired_population\<lparr>pop_identities :=
     [retired_identity\<lparr>wi_group := 2\<rparr>, retired_identity], pop_observed_count := 2, pop_parsed_count := 2\<rparr>)
   = canonical_group_identity_digest (retired_population\<lparr>pop_identities :=
     [retired_identity, retired_identity\<lparr>wi_group := 2\<rparr>], pop_observed_count := 2, pop_parsed_count := 2\<rparr>)"
  by (rule group_digest_order_independent) (simp_all add: retired_identity_def add_mset_commute)

lemma close_total_witness:
  "\<exists>p d. classify_groups None sample_register COMPLETE_POPULATION = Inr p
     \<and> evaluate_close retired_subject p retired_candidates INTENT_CI_CLEANUP None None None 10 = Inr d
     \<and> is_close_decision d"
proof -
  obtain p where p: "classify_groups None sample_register COMPLETE_POPULATION = Inr p"
    using sample_format by (auto simp: classify_groups_def format_identity_def)
  show ?thesis
    using close_total[OF p, of retired_subject 10 retired_candidates INTENT_CI_CLEANUP None None None] p
    by (auto simp: retired_subject_def sample_owner_canonical retired_candidates_def)
qed

end
