(* ===== verification/JsonText.thy ===== *)
theory JsonText
  imports Digest
begin

text \<open>
  What the codecs use of the standard library to read: UTF-8, UTF-16 and UTF-32 decoding, the
  JSON reader \<^verbatim>\<open>json.loads\<close> and strict base64. A text is a list of code points. The reader
  follows CPython: a document nested deeper than the interpreter's recursion limit, which is a
  parameter, raises \<open>RecursionError\<close> and not \<open>ValueError\<close>, and an integer of more than 4300 digits is
  refused. The value of a float is not kept: no caller uses it.
\<close>

section \<open>Unicode\<close>

definition is_surrogate :: "nat \<Rightarrow> bool" where
  "is_surrogate p \<longleftrightarrow> 55296 \<le> p \<and> p \<le> 57343"

definition continuation :: "nat \<Rightarrow> bool" where
  "continuation b \<longleftrightarrow> 128 \<le> b \<and> b \<le> 191"

text \<open>\<open>pass\<close> is the error handler \<^verbatim>\<open>surrogatepass\<close> instead of \<^verbatim>\<open>strict\<close>.\<close>

fun utf8_decode :: "bool \<Rightarrow> nat list \<Rightarrow> nat list option" where
  "utf8_decode pass [] = Some []"
| "utf8_decode pass (a # bs) =
     (if a < 128 then map_option (Cons a) (utf8_decode pass bs)
      else if 192 \<le> a \<and> a < 224 then
        (case bs of
           b # r \<Rightarrow>
             let p = (a - 192) * 64 + (b - 128) in
             if continuation b \<and> 128 \<le> p then map_option (Cons p) (utf8_decode pass r) else None
         | _ \<Rightarrow> None)
      else if 224 \<le> a \<and> a < 240 then
        (case bs of
           b # c # r \<Rightarrow>
             let p = (a - 224) * 4096 + (b - 128) * 64 + (c - 128) in
             if continuation b \<and> continuation c \<and> 2048 \<le> p \<and> (pass \<or> \<not> is_surrogate p)
             then map_option (Cons p) (utf8_decode pass r) else None
         | _ \<Rightarrow> None)
      else if 240 \<le> a \<and> a < 248 then
        (case bs of
           b # c # d # r \<Rightarrow>
             let p = (a - 240) * 262144 + (b - 128) * 4096 + (c - 128) * 64 + (d - 128) in
             if continuation b \<and> continuation c \<and> continuation d \<and> 65536 \<le> p \<and> p < 1114112
             then map_option (Cons p) (utf8_decode pass r) else None
         | _ \<Rightarrow> None)
      else None)"

definition is_high :: "nat \<Rightarrow> bool" where
  "is_high p \<longleftrightarrow> 55296 \<le> p \<and> p \<le> 56319"

definition is_low :: "nat \<Rightarrow> bool" where
  "is_low p \<longleftrightarrow> 56320 \<le> p \<and> p \<le> 57343"

definition surrogate_pair :: "nat \<Rightarrow> nat \<Rightarrow> nat" where
  "surrogate_pair h l = 65536 + (h - 55296) * 1024 + (l - 56320)"

text \<open>\<open>unit\<close> puts two bytes together, in the order of the encoding.\<close>

fun utf16_units :: "(nat \<Rightarrow> nat \<Rightarrow> nat) \<Rightarrow> nat list \<Rightarrow> nat list option" where
  "utf16_units unit [] = Some []"
| "utf16_units unit [a] = None"
| "utf16_units unit (a # b # bs) = map_option (Cons (unit a b)) (utf16_units unit bs)"

fun join_pairs :: "nat list \<Rightarrow> nat list" where
  "join_pairs (h # l # ps) =
     (if is_high h \<and> is_low l then surrogate_pair h l # join_pairs ps else h # join_pairs (l # ps))"
| "join_pairs ps = ps"

fun utf32_decode :: "(nat \<Rightarrow> nat \<Rightarrow> nat \<Rightarrow> nat \<Rightarrow> nat) \<Rightarrow> nat list \<Rightarrow> nat list option" where
  "utf32_decode unit [] = Some []"
| "utf32_decode unit (a # b # c # d # bs) =
     (if unit a b c d < 1114112 then map_option (Cons (unit a b c d)) (utf32_decode unit bs) else None)"
| "utf32_decode unit _ = None"

definition utf16_le :: "nat list \<Rightarrow> nat list option" where
  "utf16_le bs = map_option join_pairs (utf16_units (\<lambda>a b. a + 256 * b) bs)"

definition utf16_be :: "nat list \<Rightarrow> nat list option" where
  "utf16_be bs = map_option join_pairs (utf16_units (\<lambda>a b. 256 * a + b) bs)"

definition utf32_le :: "nat list \<Rightarrow> nat list option" where
  "utf32_le bs = utf32_decode (\<lambda>a b c d. a + 256 * b + 65536 * c + 16777216 * d) bs"

definition utf32_be :: "nat list \<Rightarrow> nat list option" where
  "utf32_be bs = utf32_decode (\<lambda>a b c d. 16777216 * a + 65536 * b + 256 * c + d) bs"

text \<open>\<^verbatim>\<open>b.decode(json.detect_encoding(b), "surrogatepass")\<close>: the byte order mark, then the zeros.\<close>

definition decode_document :: "nat list \<Rightarrow> nat list option" where
  "decode_document bs =
     (if take 4 bs = [0, 0, 254, 255] then utf32_be (drop 4 bs)
      else if take 4 bs = [255, 254, 0, 0] then utf32_le (drop 4 bs)
      else if take 2 bs = [254, 255] then utf16_be (drop 2 bs)
      else if take 2 bs = [255, 254] then utf16_le (drop 2 bs)
      else if take 3 bs = [239, 187, 191] then utf8_decode True (drop 3 bs)
      else (case bs of
          a # b # c # d # _ \<Rightarrow>
            if a = 0 then (if b \<noteq> 0 then utf16_be bs else utf32_be bs)
            else if b = 0 then (if c \<noteq> 0 \<or> d \<noteq> 0 then utf16_le bs else utf32_le bs)
            else utf8_decode True bs
        | [a, b] \<Rightarrow> if a = 0 then utf16_be bs else if b = 0 then utf16_le bs else utf8_decode True bs
        | _ \<Rightarrow> utf8_decode True bs))"

section \<open>Base64\<close>

definition base64_value :: "char \<Rightarrow> nat option" where
  "base64_value c =
     (if 65 \<le> code c \<and> code c \<le> 90 then Some (code c - 65)
      else if 97 \<le> code c \<and> code c \<le> 122 then Some (code c - 71)
      else if is_digit c then Some (code c + 4)
      else if c = CHR ''+'' then Some 62 else if c = CHR ''/'' then Some 63 else None)"

text \<open>
  \<^verbatim>\<open>base64.b64decode(s, validate=True)\<close>, as CPython 3.11 reads it: complete groups, at the end one
  group with one or two padding characters, and behind a complete group any padding.
\<close>

fun base64_groups :: "bool \<Rightarrow> string \<Rightarrow> nat list option" where
  "base64_groups started (a # b # c # d # s) =
     (if started \<and> list_all (\<lambda>x. x = CHR ''='') (a # b # c # d # s) then Some []
      else case (base64_value a, base64_value b, base64_value c, base64_value d) of
        (Some w, Some x, Some y, Some z) \<Rightarrow>
          map_option (\<lambda>r. [w * 4 + x div 16, x mod 16 * 16 + y div 4, y mod 4 * 64 + z] @ r)
            (base64_groups True s)
      | (Some w, Some x, Some y, None) \<Rightarrow>
          if d = CHR ''='' \<and> s = [] then Some [w * 4 + x div 16, x mod 16 * 16 + y div 4] else None
      | (Some w, Some x, None, None) \<Rightarrow>
          if c = CHR ''='' \<and> d = CHR ''='' \<and> s = [] then Some [w * 4 + x div 16] else None
      | _ \<Rightarrow> None)"
| "base64_groups started s =
     (if s = [] \<or> started \<and> list_all (\<lambda>x. x = CHR ''='') s then Some [] else None)"

definition base64_decode :: "string \<Rightarrow> nat list option" where
  "base64_decode s = base64_groups False s"

section \<open>The JSON reader\<close>

datatype document =
    DNull
  | DBool bool
  | DInt int
  | DFloat
  | DConstant \<comment> \<open>\<^verbatim>\<open>NaN\<close>, \<^verbatim>\<open>Infinity\<close> or \<^verbatim>\<open>-Infinity\<close>, given to \<^verbatim>\<open>parse_constant\<close>\<close>
  | DStr "nat list"
  | DArr "document list"
  | DObj "(nat list \<times> document) list" \<comment> \<open>the pairs in order, duplicates included\<close>

datatype json_error = JSONDecodeError | RecursionError

type_synonym 'a scan = "json_error + 'a \<times> nat list"

definition text_of :: "string \<Rightarrow> nat list" where
  "text_of s = map code s"

definition is_blank :: "nat \<Rightarrow> bool" where
  "is_blank p \<longleftrightarrow> p = 32 \<or> p = 9 \<or> p = 10 \<or> p = 13"

definition skip_blank :: "nat list \<Rightarrow> nat list" where
  "skip_blank s = dropWhile is_blank s"

lemma skip_blank_length: "length (skip_blank s) \<le> length s"
  by (simp add: skip_blank_def length_dropWhile_le)

lemma skip_blank_measure: "length r \<le> length s \<Longrightarrow> 2 * length (skip_blank r) < Suc (2 * length s)"
  using skip_blank_length[of r] by simp

definition digit_point :: "nat \<Rightarrow> bool" where
  "digit_point p \<longleftrightarrow> 48 \<le> p \<and> p \<le> 57"

definition hex_value :: "nat \<Rightarrow> nat option" where
  "hex_value p =
     (if digit_point p then Some (p - 48)
      else if 97 \<le> p \<and> p \<le> 102 then Some (p - 87)
      else if 65 \<le> p \<and> p \<le> 70 then Some (p - 55) else None)"

definition hex4 :: "nat \<Rightarrow> nat \<Rightarrow> nat \<Rightarrow> nat \<Rightarrow> nat option" where
  "hex4 a b c d =
     (case (hex_value a, hex_value b, hex_value c, hex_value d) of
        (Some w, Some x, Some y, Some z) \<Rightarrow> Some (4096 * w + 256 * x + 16 * y + z)
      | _ \<Rightarrow> None)"

definition simple_escape :: "nat \<Rightarrow> nat option" where
  "simple_escape p =
     (if p = 34 \<or> p = 92 \<or> p = 47 then Some p
      else if p = 98 then Some 8 else if p = 102 then Some 12 else if p = 110 then Some 10
      else if p = 114 then Some 13 else if p = 116 then Some 9 else None)"

definition low_escape :: "nat list \<Rightarrow> (nat \<times> nat list) option" where
  "low_escape s =
     (case s of
        p # u # a # b # c # d # r \<Rightarrow>
          (case (if p = 92 \<and> u = 117 then hex4 a b c d else None) of
             None \<Rightarrow> None
           | Some l \<Rightarrow> if is_low l then Some (l, r) else None)
      | _ \<Rightarrow> None)"

lemma low_escape_shorter: "low_escape s = Some (l, r) \<Longrightarrow> length r < length s"
  by (auto simp: low_escape_def split: list.split_asm option.split_asm if_split_asm)

text \<open>The rest of a string literal; an escaped high surrogate takes the escaped low one behind it.\<close>

function scan_string :: "nat list \<Rightarrow> nat list \<Rightarrow> (nat list) scan" where
  "scan_string acc s =
     (case s of
        [] \<Rightarrow> Inl JSONDecodeError
      | p # r \<Rightarrow>
          if p = 34 then Inr (rev acc, r)
          else if p < 32 then Inl JSONDecodeError
          else if p \<noteq> 92 then scan_string (p # acc) r
          else (case r of
              [] \<Rightarrow> Inl JSONDecodeError
            | e # r2 \<Rightarrow>
                if e \<noteq> 117 then
                  (case simple_escape e of None \<Rightarrow> Inl JSONDecodeError | Some q \<Rightarrow> scan_string (q # acc) r2)
                else (case r2 of
                    a # b # c # d # r3 \<Rightarrow>
                      (case hex4 a b c d of
                         None \<Rightarrow> Inl JSONDecodeError
                       | Some h \<Rightarrow>
                           (case low_escape r3 of
                              Some (l, r4) \<Rightarrow>
                                if is_high h then scan_string (surrogate_pair h l # acc) r4
                                else scan_string (h # acc) r3
                            | None \<Rightarrow> scan_string (h # acc) r3))
                  | _ \<Rightarrow> Inl JSONDecodeError)))"
  by pat_completeness auto
termination by (relation "measure (\<lambda>(acc, s). length s)") (auto dest: low_escape_shorter)

declare scan_string.simps [simp del]

lemma scan_string_shorter: "scan_string acc s = Inr (v, r) \<Longrightarrow> length r < length s"
proof (induction acc s arbitrary: v r rule: scan_string.induct)
  case (1 acc s)
  show ?case
    using "1.prems" "1.IH"
    by (subst (asm) scan_string.simps)
      (fastforce split: list.split_asm if_split_asm option.split_asm prod.split_asm dest: low_escape_shorter)
qed

definition point_value :: "nat \<Rightarrow> nat" where
  "point_value p = p - 48"

definition nat_of_points :: "nat list \<Rightarrow> nat" where
  "nat_of_points ds = fold (\<lambda>p n. 10 * n + point_value p) ds 0"

text \<open>
  \<^verbatim>\<open>(-?(?:0|[1-9][0-9]*))(\.[0-9]+)?([eE][-+]?[0-9]+)?\<close>: the sign, the digits, and what follows a
  fraction and an exponent.
\<close>

definition after_fraction :: "nat list \<Rightarrow> nat list" where
  "after_fraction s =
     (case s of p # d # r \<Rightarrow> if p = 46 \<and> digit_point d then dropWhile digit_point r else s | _ \<Rightarrow> s)"

definition after_exponent :: "nat list \<Rightarrow> nat list" where
  "after_exponent s =
     (case s of
        e # r \<Rightarrow>
          (let t = (case r of p # r2 \<Rightarrow> if p = 43 \<or> p = 45 then r2 else r | [] \<Rightarrow> r) in
           if (e = 101 \<or> e = 69) \<and> t \<noteq> [] \<and> digit_point (hd t) then dropWhile digit_point t else s)
      | [] \<Rightarrow> s)"

definition number_digits :: "nat list \<Rightarrow> nat list" where
  "number_digits t =
     (case t of [] \<Rightarrow> [] | d # _ \<Rightarrow> if d = 48 then [d] else takeWhile digit_point t)"

definition scan_digits :: "bool \<Rightarrow> nat list \<Rightarrow> document scan" where
  "scan_digits negative t =
     (let digits = number_digits t;
          rest = drop (length digits) t;
          rest2 = after_exponent (after_fraction rest);
          n = int (nat_of_points digits)
      in if digits = [] then Inl JSONDecodeError
         else if rest2 \<noteq> rest then Inr (DFloat, rest2)
         else if 4300 < length digits then Inl JSONDecodeError
         else Inr (DInt (if negative then - n else n), rest))"

definition scan_number :: "nat list \<Rightarrow> document scan" where
  "scan_number s =
     (case s of
        p # t \<Rightarrow> if p = 45 then scan_digits True t else scan_digits False s
      | [] \<Rightarrow> Inl JSONDecodeError)"

definition literal :: "string \<Rightarrow> nat list \<Rightarrow> nat list option" where
  "literal word s =
     (if take (length word) s = text_of word then Some (drop (length word) s) else None)"

definition scan_literal :: "nat list \<Rightarrow> document scan option" where
  "scan_literal s =
     (case literal ''null'' s of Some r \<Rightarrow> Some (Inr (DNull, r)) | None \<Rightarrow>
     (case literal ''true'' s of Some r \<Rightarrow> Some (Inr (DBool True, r)) | None \<Rightarrow>
     (case literal ''false'' s of Some r \<Rightarrow> Some (Inr (DBool False, r)) | None \<Rightarrow>
     (case literal ''NaN'' s of Some r \<Rightarrow> Some (Inr (DConstant, r)) | None \<Rightarrow>
     (case literal ''Infinity'' s of Some r \<Rightarrow> Some (Inr (DConstant, r)) | None \<Rightarrow>
     (case literal ''-Infinity'' s of Some r \<Rightarrow> Some (Inr (DConstant, r)) | None \<Rightarrow> None))))))"

definition scan_scalar :: "nat list \<Rightarrow> document scan" where
  "scan_scalar s = (case scan_literal s of Some r \<Rightarrow> r | None \<Rightarrow> scan_number s)"

text \<open>
  Values, the elements of an array behind \<^verbatim>\<open>[\<close> or a comma, and the members of an object behind
  \<^verbatim>\<open>{\<close> or a comma. \<open>depth\<close> is what is left of the recursion limit. A rest that is not shorter does
  not occur (\<open>scan_shorter\<close>); the test makes the recursion well-founded.
\<close>

function (sequential)
  scan_value :: "nat \<Rightarrow> nat list \<Rightarrow> document scan" and
  scan_elements :: "nat \<Rightarrow> document list \<Rightarrow> nat list \<Rightarrow> document scan" and
  scan_members :: "nat \<Rightarrow> (nat list \<times> document) list \<Rightarrow> nat list \<Rightarrow> document scan" where
  "scan_value depth s =
     (case s of
        [] \<Rightarrow> Inl JSONDecodeError
      | p # r \<Rightarrow>
          if p = 34 then bindR (scan_string [] r) (\<lambda>(v, r2). Inr (DStr v, r2))
          else if p = 91 then
            (case depth of 0 \<Rightarrow> Inl RecursionError
             | Suc d \<Rightarrow>
                 if skip_blank r \<noteq> [] \<and> hd (skip_blank r) = 93 then Inr (DArr [], tl (skip_blank r))
                 else scan_elements d [] r)
          else if p = 123 then
            (case depth of 0 \<Rightarrow> Inl RecursionError
             | Suc d \<Rightarrow>
                 if skip_blank r \<noteq> [] \<and> hd (skip_blank r) = 125 then Inr (DObj [], tl (skip_blank r))
                 else scan_members d [] r)
          else scan_scalar s)"
| "scan_elements d acc s =
     (case scan_value d (skip_blank s) of
        Inl e \<Rightarrow> Inl e
      | Inr (v, r) \<Rightarrow>
          (case skip_blank r of
             [] \<Rightarrow> Inl JSONDecodeError
           | p # r2 \<Rightarrow>
               if p = 93 then Inr (DArr (rev (v # acc)), r2)
               else if p = 44 \<and> length r2 < length s then scan_elements d (v # acc) r2
               else Inl JSONDecodeError))"
| "scan_members d acc s =
     (case skip_blank s of
        [] \<Rightarrow> Inl JSONDecodeError
      | q # r0 \<Rightarrow>
          if q \<noteq> 34 then Inl JSONDecodeError
          else (case scan_string [] r0 of
              Inl e \<Rightarrow> Inl e
            | Inr (k, r) \<Rightarrow>
                (case skip_blank r of
                   [] \<Rightarrow> Inl JSONDecodeError
                 | p # r1 \<Rightarrow>
                     if p \<noteq> 58 \<or> length s \<le> length r1 then Inl JSONDecodeError
                     else (case scan_value d (skip_blank r1) of
                         Inl e \<Rightarrow> Inl e
                       | Inr (v, r2) \<Rightarrow>
                           (case skip_blank r2 of
                              [] \<Rightarrow> Inl JSONDecodeError
                            | p # r3 \<Rightarrow>
                                if p = 125 then Inr (DObj (rev ((k, v) # acc)), r3)
                                else if p = 44 \<and> length r3 < length s then scan_members d ((k, v) # acc) r3
                                else Inl JSONDecodeError)))))"
  by pat_completeness auto

termination
  by (relation "measure (\<lambda>x. case x of Inl (d, s) \<Rightarrow> 2 * length s
      | Inr (Inl (d, acc, s)) \<Rightarrow> 2 * length s + 1 | Inr (Inr (d, acc, s)) \<Rightarrow> 2 * length s + 1)")
    (auto intro: skip_blank_measure)

declare scan_value.simps [simp del] scan_elements.simps [simp del] scan_members.simps [simp del]

definition loads_text :: "nat \<Rightarrow> nat list \<Rightarrow> json_error + document" where
  "loads_text limit s =
     (case scan_value limit (skip_blank s) of
        Inl e \<Rightarrow> Inl e
      | Inr (v, r) \<Rightarrow> if skip_blank r = [] then Inr v else Inl JSONDecodeError)"

text \<open>\<^verbatim>\<open>json.loads\<close> of bytes; a decoding error is a \<^verbatim>\<open>ValueError\<close> like a syntax error.\<close>

definition loads_bytes :: "nat \<Rightarrow> nat list \<Rightarrow> json_error + document" where
  "loads_bytes limit bs =
     (case decode_document bs of None \<Rightarrow> Inl JSONDecodeError | Some s \<Rightarrow> loads_text limit s)"

section \<open>Decoding what was encoded\<close>

lemma base64_value_alphabet:
  assumes "n < 64"
  shows "base64_value (base64_alphabet ! n) = Some n"
proof -
  have m: "map base64_value base64_alphabet = map Some [0..<64]" by code_simp
  have "length base64_alphabet = 64" by code_simp
  then show ?thesis using arg_cong[OF m, of "\<lambda>xs. xs ! n"] assms by simp
qed

lemma alphabet_not_pad: "n < 64 \<Longrightarrow> base64_alphabet ! n \<noteq> CHR ''=''"
proof
  assume "n < 64" "base64_alphabet ! n = CHR ''=''"
  then have "base64_value (CHR ''='') = Some n" using base64_value_alphabet by metis
  moreover have "base64_value (CHR ''='') = None" by code_simp
  ultimately show False by simp
qed

lemma base64_value_pad: "base64_value (CHR ''='') = None"
  by code_simp

lemma sextets:
  fixes a b c :: nat
  assumes "a < 256" "b < 256" "c < 256"
  shows "a div 4 < 64" "a mod 4 * 16 < 64" "a mod 4 * 16 + b div 16 < 64"
    "b mod 16 * 4 < 64" "b mod 16 * 4 + c div 64 < 64" "c mod 64 < 64" "b div 16 < 16" "c div 64 < 4"
proof -
  have combine: "x * 16 + y < 64" if "x < 4" "y < 16" for x y :: nat using that by simp
  have combine2: "x * 4 + y < 64" if "x < 16" "y < 4" for x y :: nat using that by simp
  show q: "a div 4 < 64" "b div 16 < 16" "c div 64 < 4"
    using assms by (simp_all add: less_mult_imp_div_less)
  show "a mod 4 * 16 + b div 16 < 64" using q by (intro combine) simp_all
  show "b mod 16 * 4 + c div 64 < 64" using q by (intro combine2) simp_all
  show "a mod 4 * 16 < 64" using combine[of "a mod 4" 0] by simp
  show "b mod 16 * 4 < 64" using combine2[of "b mod 16" 0] by simp
  show "c mod 64 < 64" by simp
qed

lemma base64_groups_roundtrip:
  "\<forall>b \<in> set bs. b < 256 \<Longrightarrow> base64_groups started (base64 bs) = Some bs"
proof (induction bs arbitrary: started rule: base64.induct)
  case (1 a b c bs)
  then have l: "a < 256" "b < 256" "c < 256" by simp_all
  note s = sextets[OF l]
  show ?case
    using 1 s alphabet_not_pad[OF s(1)] by (simp add: base64_value_alphabet)
next
  case (2 a b)
  then have l: "a < 256" "b < 256" by simp_all
  note s = sextets[OF l l(1)]
  show ?case
    using 2 s alphabet_not_pad[OF s(1)] by (simp add: base64_value_alphabet base64_value_pad)
next
  case (3 a)
  then have l: "a < 256" by simp
  note s = sextets[OF l l l]
  show ?case
    using 3 s alphabet_not_pad[OF s(1)] by (simp add: base64_value_alphabet base64_value_pad)
qed simp

lemma base64_decode_base64:
  "\<forall>b \<in> set bs. b < 256 \<Longrightarrow> base64_decode (base64 bs) = Some bs"
  by (simp add: base64_decode_def base64_groups_roundtrip)

end
