(* ===== verification/FrameCodec.thy ===== *)
theory FrameCodec
  imports JsonText JournalData
begin

text \<open>
  \<^verbatim>\<open>__init__.py\<close>: the frames of the lease shell and their exit codes, the URL of the direct path, the
  envelope of the Console proxy, the frame trace and the success verdict. A byte string is a list
  of numbers below 256. The clock of a trace is an argument: the reading the method takes, relative
  to the start and rounded. The text of \<^verbatim>\<open>FrameTrace.render\<close> is not modelled.
\<close>

section \<open>Frames\<close>

definition STDOUT :: nat where "STDOUT = 100"
definition STDERR :: nat where "STDERR = 101"
definition RESULT :: nat where "RESULT = 102"
definition FAILURE :: nat where "FAILURE = 103"

definition MAX_URL_CMD_BYTES :: nat where
  "MAX_URL_CMD_BYTES = 4096"

text \<open>The message is None when it is not a byte string.\<close>

definition decode_frame :: "nat list option \<Rightarrow> (nat \<times> nat list) option" where
  "decode_frame msg =
     (case msg of None \<Rightarrow> None | Some bs \<Rightarrow> (case bs of [] \<Rightarrow> None | c # payload \<Rightarrow> Some (c, payload)))"

text \<open>A malformed frame, and the \<^verbatim>\<open>RecursionError\<close> of \<^verbatim>\<open>json.loads\<close>, which no handler catches.\<close>

datatype frame_error = MalformedResultFrame | UncaughtRecursionError

text \<open>The item of a dictionary built from pairs: the last duplicate wins.\<close>

definition item_of :: "(nat list \<times> document) list \<Rightarrow> string \<Rightarrow> document option" where
  "item_of pairs key = map_of (rev pairs) (text_of key)"

definition le_int32 :: "nat list \<Rightarrow> int" where
  "le_int32 bs = sint (word_of_bytes (rev bs))"

definition parse_result_exit_code :: "nat \<Rightarrow> nat list \<Rightarrow> frame_error + int" where
  "parse_result_exit_code limit payload =
     (case loads_bytes limit payload of
        Inl RecursionError \<Rightarrow> Inl UncaughtRecursionError
      | Inr (DObj pairs) \<Rightarrow>
          (case item_of pairs ''exit_code'' of
             None \<Rightarrow> Inl MalformedResultFrame
           | Some (DInt n) \<Rightarrow> Inr n
           | Some _ \<Rightarrow> Inl MalformedResultFrame)
      | Inr _ \<Rightarrow> Inl MalformedResultFrame
      | Inl JSONDecodeError \<Rightarrow>
          if length payload = 4 then Inr (le_int32 payload) else Inl MalformedResultFrame)"

section \<open>The direct path\<close>

text \<open>A command: an argument vector, or a line for the shell.\<close>

datatype command = Argv "string list" | CommandLine string

definition is_unreserved :: "char \<Rightarrow> bool" where
  "is_unreserved c \<longleftrightarrow> is_digit c \<or> 97 \<le> code c \<and> code c \<le> 122 \<or> 65 \<le> code c \<and> code c \<le> 90
     \<or> c = CHR ''_'' \<or> c = CHR ''.'' \<or> c = CHR ''-'' \<or> c = CHR ''~''"

definition utf8_char :: "char \<Rightarrow> nat list" where
  "utf8_char c = (if code c < 128 then [code c] else [192 + code c div 64, 128 + code c mod 64])"

definition utf8_encode :: "string \<Rightarrow> nat list" where
  "utf8_encode s = concat (map utf8_char s)"

definition upper_hex :: "nat \<Rightarrow> char" where
  "upper_hex d = (if d < 10 then char_of (48 + d) else char_of (55 + d))"

definition percent :: "nat \<Rightarrow> string" where
  "percent b = [CHR ''%'', upper_hex (b div 16), upper_hex (b mod 16)]"

text \<open>\<^verbatim>\<open>urllib.parse.quote(s, safe="")\<close>.\<close>

definition quote :: "string \<Rightarrow> string" where
  "quote s = concat (map (\<lambda>c. if is_unreserved c then [c] else concat (map percent (utf8_char c))) s)"

definition argv_of :: "command \<Rightarrow> string list" where
  "argv_of c = (case c of Argv args \<Rightarrow> args | CommandLine line \<Rightarrow> [''/bin/sh'', ''-c'', line])"

definition argv_params :: "command \<Rightarrow> string list" where
  "argv_params c = map (\<lambda>(i, arg). ''cmd'' @ nat_str i @ ''='' @ quote arg) (enumerate 0 (argv_of c))"

definition cmd_payload_len :: "command \<Rightarrow> nat" where
  "cmd_payload_len c =
     (case c of Argv args \<Rightarrow> sum_list (map (\<lambda>a. length (quote a)) args) | CommandLine line \<Rightarrow> length (quote line))"

definition command_needs_stdin_delivery :: "command \<Rightarrow> bool" where
  "command_needs_stdin_delivery c \<longleftrightarrow> MAX_URL_CMD_BYTES < cmd_payload_len c"

fun amp_join :: "string list \<Rightarrow> string" where
  "amp_join [] = []"
| "amp_join [s] = s"
| "amp_join (s # ss) = s @ ''&'' @ amp_join ss"

definition build_direct_provider_ws_url ::
    "string \<Rightarrow> string \<Rightarrow> string \<Rightarrow> string \<Rightarrow> string \<Rightarrow> command \<Rightarrow> string" where
  "build_direct_provider_ws_url provider_host dseq gseq oseq service_name cmd =
     (let base = ''wss://'' @ provider_host @ ''/lease/'' @ dseq @ ''/'' @ gseq @ ''/'' @ oseq
                   @ ''/shell?stdin=1&tty=0&podIndex=0'' in
      if cmd_payload_len cmd \<le> MAX_URL_CMD_BYTES
      then base @ ''&'' @ amp_join (argv_params cmd) @ ''&service='' @ service_name
      else base @ ''&cmd0=%2Fbin%2Fsh&service='' @ service_name)"

section \<open>The frame trace\<close>

record frame_trace =
  ft_frames :: "(nat \<times> nat \<times> rat) list option"
  ft_t_result :: "rat option"
  ft_close_reason :: "string option"
  ft_close_at :: "rat option"

text \<open>\<open>env\<close> is the value of the environment variable, if it is set.\<close>

definition new_trace :: "bool option \<Rightarrow> string option \<Rightarrow> frame_trace" where
  "new_trace enabled env =
     \<lparr>ft_frames =
        (if (case enabled of Some b \<Rightarrow> b | None \<Rightarrow> env \<noteq> None \<and> env \<noteq> Some [] \<and> env \<noteq> Some ''0'')
         then Some [] else None),
      ft_t_result = None, ft_close_reason = None, ft_close_at = None\<rparr>"

definition trace_record_parts :: "rat \<Rightarrow> nat \<Rightarrow> nat \<Rightarrow> frame_trace \<Rightarrow> frame_trace" where
  "trace_record_parts rel frame_code payload_len t =
     (case ft_frames t of
        None \<Rightarrow> t
      | Some frames \<Rightarrow>
          t\<lparr>ft_frames := Some (frames @ [(frame_code, payload_len, rel)]),
            ft_t_result := (if frame_code = RESULT \<and> ft_t_result t = None then Some rel else ft_t_result t)\<rparr>)"

definition trace_record :: "rat \<Rightarrow> nat list \<Rightarrow> frame_trace \<Rightarrow> frame_trace" where
  "trace_record rel frame t =
     (case frame of [] \<Rightarrow> t | c # payload \<Rightarrow> trace_record_parts rel c (length payload) t)"

definition trace_close :: "rat \<Rightarrow> string \<Rightarrow> frame_trace \<Rightarrow> frame_trace" where
  "trace_close rel reason t =
     (if ft_frames t = None then t else t\<lparr>ft_close_reason := Some reason, ft_close_at := Some rel\<rparr>)"

definition trace_frames :: "frame_trace \<Rightarrow> (nat \<times> nat \<times> rat) list" where
  "trace_frames t = (case ft_frames t of None \<Rightarrow> [] | Some frames \<Rightarrow> frames)"

definition frame_name :: "nat \<Rightarrow> string" where
  "frame_name c =
     (if c = STDOUT then ''stdout'' else if c = STDERR then ''stderr'' else if c = RESULT then ''result''
      else if c = FAILURE then ''failure'' else nat_str c)"

definition trace_shape :: "frame_trace \<Rightarrow> string" where
  "trace_shape t = comma_join (map (\<lambda>(c, _). frame_name c) (trace_frames t))"

definition trace_stdout_bytes :: "frame_trace \<Rightarrow> nat" where
  "trace_stdout_bytes t = sum_list (map (\<lambda>(_, n, _). n) (filter (\<lambda>(c, _). c = STDOUT) (trace_frames t)))"

definition index_of :: "nat \<Rightarrow> nat list \<Rightarrow> nat" where
  "index_of c cs = length (takeWhile (\<lambda>x. x \<noteq> c) cs)"

definition trace_classify :: "frame_trace \<Rightarrow> string" where
  "trace_classify t =
     (case ft_frames t of
        None \<Rightarrow> ''not_traced''
      | Some [] \<Rightarrow> ''no_frames''
      | Some frames \<Rightarrow>
          let codes = map fst frames in
          if STDOUT \<in> set codes
          then (if RESULT \<in> set codes \<and> index_of RESULT codes < index_of STDOUT codes
                then ''reorder'' else ''stdout_present'')
          else if codes = [RESULT] \<and> fst (snd (hd frames)) \<le> 32 then ''lone_small_result''
          else if RESULT \<in> set codes then ''no_stdout_frame''
          else ''no_result_frame'')"

section \<open>The Console proxy\<close>

definition build_proxy_connect_message ::
    "string \<Rightarrow> string \<Rightarrow> string \<Rightarrow> string option \<Rightarrow> (string \<times> json) list" where
  "build_proxy_connect_message shell_path jwt provider_address stdin_data =
     [(''type'', JStr ''websocket''), (''url'', JStr shell_path), (''providerAddress'', JStr provider_address),
      (''auth'', JObj [(''type'', JStr ''jwt''), (''token'', JStr jwt)]), (''isBase64'', JBool True)]
     @ (case stdin_data of None \<Rightarrow> [] | Some s \<Rightarrow> [(''data'', JStr (base64 (utf8_encode s)))])"

definition decode_proxy_payload :: "string \<Rightarrow> bool \<Rightarrow> nat list option" where
  "decode_proxy_payload data text_fallback =
     (case base64_decode data of
        Some bs \<Rightarrow> Some bs
      | None \<Rightarrow> if text_fallback then Some (utf8_encode data) else None)"

section \<open>The success of a command\<close>

definition is_unverified_success :: "int \<Rightarrow> string \<Rightarrow> bool" where
  "is_unverified_success exit_code stdout \<longleftrightarrow> exit_code = 0 \<and> strip stdout = []"

fun occurs_in :: "string \<Rightarrow> string \<Rightarrow> bool" where
  "occurs_in m [] \<longleftrightarrow> m = []"
| "occurs_in m (c # cs) \<longleftrightarrow> starts_with m (c # cs) \<or> occurs_in m cs"

definition interpret_success :: "int \<Rightarrow> string \<Rightarrow> string option \<Rightarrow> bool \<Rightarrow> bool" where
  "interpret_success exit_code stdout marker require_stdout =
     (if exit_code \<noteq> 0 then False
      else case marker of
        Some m \<Rightarrow> occurs_in m stdout
      | None \<Rightarrow> if require_stdout then strip stdout \<noteq> [] else True)"

end
