(* ===== verification/FrameProperties.thy ===== *)
theory FrameProperties
  imports FrameCodec
begin

text \<open>
  What the frame codec guarantees: where an exit code comes from, that the parameters of the URL
  carry the argument vector, that payloads of the proxy survive base64, and what a trace shows.
\<close>

section \<open>Exit codes\<close>



text \<open>The legacy form of a small exit code: its byte and three zero bytes.\<close>

definition legacy_frame :: "nat \<Rightarrow> nat list" where
  "legacy_frame n = [n, 0, 0, 0]"

lemma legacy_text:
  assumes "n < 256"
  shows "decode_document (legacy_frame n) = Some [n]"
  using assms
  by (simp add: decode_document_def legacy_frame_def utf32_le_def utf32_be_def)

lemma literal_single: "2 \<le> length word \<Longrightarrow> literal word [n] = None"
  by (auto simp: literal_def text_of_def take_Cons' dest: arg_cong[of _ _ length])

lemma scan_literal_single: "scan_literal [n] = None"
  by (simp add: scan_literal_def literal_single)

lemma scan_string_Nil: "scan_string acc [] = Inl JSONDecodeError"
  by (simp add: scan_string.simps)

lemma scan_value_Nil: "scan_value d [] = Inl JSONDecodeError"
  by (simp add: scan_value.simps)

lemma loads_single:
  assumes "0 < limit"
  shows "loads_text limit [n] =
    (if 48 \<le> n \<and> n \<le> 57 then Inr (DInt (int (n - 48))) else Inl JSONDecodeError)"
proof (cases "is_blank n")
  case True
  then show ?thesis
    by (auto simp: loads_text_def skip_blank_def scan_value_Nil is_blank_def)
next
  case False
  obtain d where d: "limit = Suc d" using assms by (cases limit) auto
  have "scan_value limit [n] =
    (if 48 \<le> n \<and> n \<le> 57 then Inr (DInt (int (n - 48)), []) else Inl JSONDecodeError)"
    by (auto simp: scan_value.simps[of "Suc d" "[n]"] d skip_blank_def scan_string_Nil scan_elements.simps
        scan_members.simps scan_value_Nil scan_scalar_def scan_literal_single scan_number_def scan_digits_def number_digits_def digit_point_def
        after_fraction_def after_exponent_def nat_of_points_def point_value_def Let_def split: list.split)
  then show ?thesis using False by (simp add: loads_text_def skip_blank_def)
qed

lemma legacy_value: "n < 256 \<Longrightarrow> le_int32 (legacy_frame n) = int n"
proof -
  assume n: "n < 256"
  have "sint (word_of_nat n :: word32) = signed_take_bit 31 (int n)"
    using sint_sbintrunc'[where ?'a = 32, of "int n"] by simp
  also have "\<dots> = int n" using n by (simp add: signed_take_bit_int_eq_self)
  finally show ?thesis by (simp add: le_int32_def legacy_frame_def word_of_bytes_def)
qed

text \<open>
  C36: The legacy form of a small exit code. Four bytes whose first is the code and whose others are
  zero give that code, except for the codes 48 to 57: their bytes are what \<^verbatim>\<open>json.loads\<close> takes for
  the UTF-32 text of a digit, so the payload is valid JSON that is no object and the exit code is refused
  as malformed.
\<close>
theorem legacy_exit_codes:
  assumes "n < 256" and "0 < limit"
  shows "parse_result_exit_code limit (legacy_frame n)
    = (if 48 \<le> n \<and> n \<le> 57 then Inl MalformedResultFrame else Inr (int n))"
  using assms legacy_text[of n] loads_single[of limit n] legacy_value[of n]
  by (simp add: parse_result_exit_code_def loads_bytes_def) (simp add: legacy_frame_def)

section \<open>The proxy\<close>

text \<open>
  Payloads survive the relay. Strictly decoding the base64 text of a payload gives the payload
  back, byte for byte, in both modes of the decoder.
\<close>
lemma proxy_payload_roundtrip:
  assumes "\<forall>b \<in> set payload. b < 256"
  shows "decode_proxy_payload (base64 payload) text_fallback = Some payload"
  using assms by (simp add: decode_proxy_payload_def base64_decode_base64)

section \<open>The URL\<close>

text \<open>How a server reads the URL: the query behind the question mark, its parameters, their values.\<close>

fun split_on :: "char \<Rightarrow> string \<Rightarrow> string list" where
  "split_on x [] = [[]]"
| "split_on x (c # s) =
     (if c = x then [] # split_on x s
      else case split_on x s of [] \<Rightarrow> [[c]] | p # ps \<Rightarrow> (c # p) # ps)"

definition unhex :: "char \<Rightarrow> nat" where
  "unhex c = (if is_digit c then code c - 48 else if 97 \<le> code c then code c - 87 else code c - 55)"

fun unquote_bytes :: "string \<Rightarrow> nat list" where
  "unquote_bytes [] = []"
| "unquote_bytes (c # s) =
     (if c = CHR ''%''
      then (case s of h # l # r \<Rightarrow> (16 * unhex h + unhex l) # unquote_bytes r | _ \<Rightarrow> code c # unquote_bytes s)
      else code c # unquote_bytes s)"

definition read_parameter :: "string \<Rightarrow> string \<times> nat list" where
  "read_parameter p =
     (takeWhile (\<lambda>c. c \<noteq> CHR ''='') p, unquote_bytes (drop 1 (dropWhile (\<lambda>c. c \<noteq> CHR ''='') p)))"

definition read_query :: "string \<Rightarrow> (string \<times> nat list) list" where
  "read_query url =
     map read_parameter (split_on (CHR ''&'') (drop 1 (dropWhile (\<lambda>c. c \<noteq> CHR ''?'') url)))"

lemma split_on_plain: "x \<notin> set p \<Longrightarrow> split_on x p = [p]"
  by (induction p) auto

lemma split_on_step: "x \<notin> set p \<Longrightarrow> split_on x (p @ x # s) = p # split_on x s"
  by (induction p) auto

lemma split_amp_join:
  "ps \<noteq> [] \<Longrightarrow> \<forall>p \<in> set ps. CHR ''&'' \<notin> set p
   \<Longrightarrow> split_on (CHR ''&'') (amp_join ps @ CHR ''&'' # s) = ps @ split_on (CHR ''&'') s"
  by (induction ps rule: amp_join.induct) (auto simp: split_on_step)

lemma unhex_upper: "d < 16 \<Longrightarrow> unhex (upper_hex d) = d"
  by (simp add: unhex_def upper_hex_def is_digit_def code_def)

lemma unquote_percent: "b < 256 \<Longrightarrow> unquote_bytes (percent b @ s) = b # unquote_bytes s"
  by (simp add: percent_def unhex_upper less_mult_imp_div_less)

lemma unquote_percents:
  "\<forall>b \<in> set bs. b < 256 \<Longrightarrow> unquote_bytes (concat (map percent bs) @ s) = bs @ unquote_bytes s"
  by (induction bs) (simp_all add: unquote_percent)

lemma code_bound: "code c < 256"
proof -
  have "of_char c mod (256 :: nat) < 256" by (rule mod_less_divisor) simp
  then show ?thesis by (simp add: code_def)
qed

lemma utf8_char_bytes: "b \<in> set (utf8_char c) \<Longrightarrow> b < 256"
proof -
  have "code c div 64 < 4" using code_bound[of c] by (simp add: less_mult_imp_div_less)
  moreover have "code c mod 64 < 64" by simp
  ultimately show "b \<in> set (utf8_char c) \<Longrightarrow> b < 256"
    by (auto simp: utf8_char_def split: if_split_asm)
qed

lemma unreserved_plain: "is_unreserved c \<Longrightarrow> utf8_char c = [code c] \<and> c \<notin> set ''%&=?''"
  by (auto simp: is_unreserved_def utf8_char_def is_digit_def code_def)

lemma quote_Cons:
  "quote (c # s) = (if is_unreserved c then [c] else concat (map percent (utf8_char c))) @ quote s"
  by (simp add: quote_def)

lemma unquote_quote: "unquote_bytes (quote s) = utf8_encode s"
proof (induction s)
  case (Cons c s)
  show ?case
    using Cons unreserved_plain[of c] utf8_char_bytes[of _ c]
    by (auto simp: quote_Cons utf8_encode_def unquote_percents)
qed (simp add: quote_def utf8_encode_def)

lemma upper_hex_safe: "d < 16 \<Longrightarrow> upper_hex d \<notin> set ''&=?''"
proof -
  assume "d < 16"
  then have "is_unreserved (upper_hex d)"
    by (simp add: is_unreserved_def upper_hex_def is_digit_def code_def)
  then show ?thesis using unreserved_plain by auto
qed

lemma percent_safe: "b < 256 \<Longrightarrow> c \<in> set (percent b) \<Longrightarrow> c \<notin> set ''&=?''"
  using upper_hex_safe[of "b div 16"] upper_hex_safe[of "b mod 16"]
  by (auto simp: percent_def less_mult_imp_div_less)

lemma quote_safe: "c \<in> set (quote s) \<Longrightarrow> c \<notin> set ''&=?''"
proof (induction s)
  case (Cons d s)
  show ?case
  proof (cases "c \<in> set (quote s)")
    case False
    then consider "is_unreserved d" "c = d" | b where "b \<in> set (utf8_char d)" "c \<in> set (percent b)"
      using Cons.prems by (auto simp: quote_Cons split: if_split_asm)
    then show ?thesis
      using unreserved_plain[of d] utf8_char_bytes[of _ d] percent_safe by cases auto
  qed (use Cons.IH in blast)
qed (simp add: quote_def)

lemma nat_str_plain: "c \<in> set (nat_str n) \<Longrightarrow> c \<notin> set ''&=?''"
  using nat_str_digits[of c n] by (auto simp: is_digit_def code_def)

lemma read_cmd_parameter:
  "read_parameter (''cmd'' @ nat_str i @ ''='' @ quote arg) = (''cmd'' @ nat_str i, utf8_encode arg)"
proof -
  have k: "\<forall>c \<in> set (''cmd'' @ nat_str i). c \<noteq> CHR ''=''" using nat_str_plain by fastforce
  have "''cmd'' @ nat_str i @ ''='' @ quote arg = (''cmd'' @ nat_str i) @ CHR ''='' # quote arg" by simp
  then show ?thesis
    unfolding read_parameter_def using k
    by (simp only: takeWhile_append2 dropWhile_append2) (simp add: unquote_quote)
qed

lemma argv_params_plain: "p \<in> set (argv_params cmd) \<Longrightarrow> CHR ''&'' \<notin> set p"
  using nat_str_plain[of "CHR ''&''"] quote_safe[of "CHR ''&''"] by (auto simp: argv_params_def)

lemma unquote_plain: "\<forall>c \<in> set s. is_unreserved c \<Longrightarrow> unquote_bytes s = text_of s"
  by (induction s) (auto simp: text_of_def dest: unreserved_plain)

definition base_query :: "(string \<times> nat list) list" where
  "base_query = [(''stdin'', text_of ''1''), (''tty'', text_of ''0''), (''podIndex'', text_of ''0'')]"

text \<open>The parameters in front of the command, and the service behind it.\<close>

lemma read_around:
  assumes "CHR ''?'' \<notin> set (host @ dseq @ gseq @ oseq)" and "\<forall>c \<in> set service. is_unreserved c"
    and "ps \<noteq> []" and "\<forall>p \<in> set ps. CHR ''&'' \<notin> set p"
  shows "read_query ((''wss://'' @ host @ ''/lease/'' @ dseq @ ''/'' @ gseq @ ''/'' @ oseq
        @ ''/shell?stdin=1&tty=0&podIndex=0'') @ ''&'' @ amp_join ps @ ''&service='' @ service)
    = base_query @ map read_parameter ps @ [(''service'', text_of service)]"
proof -
  let ?path = "''wss://'' @ host @ ''/lease/'' @ dseq @ ''/'' @ gseq @ ''/'' @ oseq @ ''/shell''"
  let ?query = "''stdin=1&tty=0&podIndex=0&'' @ amp_join ps @ ''&service='' @ service"
  have q: "dropWhile (\<lambda>c. c \<noteq> CHR ''?'') (?path @ CHR ''?'' # ?query) = CHR ''?'' # ?query"
    using assms(1) by (subst dropWhile_append2) auto
  have service: "CHR ''&'' \<notin> set (''service='' @ service)"
    using assms(2) unreserved_plain by fastforce
  have "split_on (CHR ''&'') ?query
      = [''stdin=1'', ''tty=0'', ''podIndex=0''] @ ps @ [''service='' @ service]"
    using split_amp_join[OF assms(3,4), of "''service='' @ service"] split_on_plain[OF service] by simp
  moreover have "read_parameter (''service='' @ service) = (''service'', text_of service)"
    by (simp add: read_parameter_def unquote_plain[OF assms(2)])
  ultimately show ?thesis
    using q by (simp add: read_query_def base_query_def)
      (simp add: read_parameter_def text_of_def)
qed

text \<open>
  C17: The URL carries the command. Reading the query of the URL as a server does gives, behind the
  fixed parameters, one \<^verbatim>\<open>cmdN\<close> per element of the argument vector in its order with the UTF-8 bytes of
  that element, whatever characters it has, and then the service: elements are neither joined nor
  split, and a command line is the third argument of \<^verbatim>\<open>/bin/sh -c\<close>. A command that is too long to be
  carried is replaced by an interactive shell.
\<close>
theorem url_carries_argv:
  assumes "CHR ''?'' \<notin> set (host @ dseq @ gseq @ oseq)" and "\<forall>c \<in> set service. is_unreserved c"
    and "argv_of cmd \<noteq> []"
  shows "read_query (build_direct_provider_ws_url host dseq gseq oseq service cmd)
    = base_query
      @ (if command_needs_stdin_delivery cmd then [(''cmd0'', utf8_encode ''/bin/sh'')]
         else map (\<lambda>(i, arg). (''cmd'' @ nat_str i, utf8_encode arg)) (enumerate 0 (argv_of cmd)))
      @ [(''service'', text_of service)]"
proof (cases "command_needs_stdin_delivery cmd")
  case True
  have "read_parameter ''cmd0=%2Fbin%2Fsh'' = (''cmd0'', utf8_encode ''/bin/sh'')" by code_simp
  then show ?thesis
    using True read_around[OF assms(1,2), of "[''cmd0=%2Fbin%2Fsh'']"]
    by (simp add: build_direct_provider_ws_url_def command_needs_stdin_delivery_def Let_def)
next
  case False
  have "argv_params cmd \<noteq> []" using assms(3) by (auto simp: argv_params_def dest: arg_cong[of _ _ length])
  moreover have "map read_parameter (argv_params cmd)
      = map (\<lambda>(i, arg). (''cmd'' @ nat_str i, utf8_encode arg)) (enumerate 0 (argv_of cmd))"
    unfolding argv_params_def map_map
    by (intro map_cong) (auto simp: read_cmd_parameter[simplified] o_def)
  ultimately show ?thesis
    using False read_around[OF assms(1,2), of "argv_params cmd"] argv_params_plain[of _ cmd]
    by (simp add: build_direct_provider_ws_url_def command_needs_stdin_delivery_def Let_def)
qed

lemma url_carries_argv_witness:
  "read_query (build_direct_provider_ws_url ''p.example:8443'' ''7'' ''1'' ''1'' ''web'' (Argv [''sh'', ''-c'', ''echo a&b=c'']))
    = base_query @ [(''cmd0'', text_of ''sh''), (''cmd1'', text_of ''-c''), (''cmd2'', text_of ''echo a&b=c''),
        (''service'', text_of ''web'')]"
proof -
  have "\<not> command_needs_stdin_delivery (Argv [''sh'', ''-c'', ''echo a&b=c''])" by code_simp
  moreover have "\<forall>c \<in> set ''web''. is_unreserved c" by code_simp
  moreover have "map (\<lambda>(i, arg). (''cmd'' @ nat_str i, utf8_encode arg)) (enumerate 0 [''sh'', ''-c'', ''echo a&b=c''])
    = [(''cmd0'', text_of ''sh''), (''cmd1'', text_of ''-c''), (''cmd2'', text_of ''echo a&b=c'')]" by code_simp
  ultimately show ?thesis
    using url_carries_argv[of "''p.example:8443''" "''7''" "''1''" "''1''" "''web''" "Argv [''sh'', ''-c'', ''echo a&b=c'']"]
    by (simp add: argv_of_def)
qed


lemma legacy_exit_codes_witness:
  "parse_result_exit_code 5 [49, 0, 0, 0] = Inl MalformedResultFrame
   \<and> parse_result_exit_code 5 [7, 0, 0, 0] = Inr 7"
  using legacy_exit_codes[of 49 5] legacy_exit_codes[of 7 5] by (simp add: legacy_frame_def)

section \<open>The trace\<close>

text \<open>The receive loop: every message is recorded with its reading of the clock.\<close>

definition traced :: "(rat \<times> nat list) list \<Rightarrow> frame_trace \<Rightarrow> frame_trace" where
  "traced events t = fold (\<lambda>(rel, frame). trace_record rel frame) events t"

definition recorded :: "(rat \<times> nat list) list \<Rightarrow> (nat \<times> nat \<times> rat) list" where
  "recorded events =
     map (\<lambda>(rel, frame). (hd frame, length frame - 1, rel)) (filter (\<lambda>(_, frame). frame \<noteq> []) events)"

lemma recorded_simps [simp]:
  "recorded [] = []"
  "recorded ((rel, frame) # events) =
     (case frame of [] \<Rightarrow> recorded events | c # payload \<Rightarrow> (c, length payload, rel) # recorded events)"
  by (auto simp: recorded_def split: list.split)

lemma traced_simps [simp]:
  "traced [] t = t"
  "traced ((rel, frame) # events) t = traced events (trace_record rel frame t)"
  by (simp_all add: traced_def)

lemma traced_frames:
  assumes "ft_frames t = Some fs"
  shows "ft_frames (traced events t) = Some (fs @ recorded events)
    \<and> ft_t_result (traced events t)
      = (case ft_t_result t of Some r \<Rightarrow> Some r
         | None \<Rightarrow> map_option (\<lambda>(_, _, rel). rel) (find (\<lambda>(c, _). c = RESULT) (recorded events)))"
  using assms
proof (induction events arbitrary: t fs)
  case (Cons e events)
  obtain rel frame where e: "e = (rel, frame)" by (cases e)
  show ?case
  proof (cases frame)
    case Nil
    then show ?thesis using Cons by (simp add: trace_record_def e split: option.split)
  next
    case (Cons c payload)
    then show ?thesis
      using Cons.prems Cons.IH[of "trace_record rel frame t" "fs @ [(c, length payload, rel)]"]
      by (auto simp: trace_record_def trace_record_parts_def e split: option.split)
  qed
qed (simp split: option.split)

lemma traced_disabled: "ft_frames t = None \<Longrightarrow> traced events t = t"
  by (induction events)
    (auto simp: traced_def trace_record_def trace_record_parts_def split: list.split)

lemma index_before:
  assumes "b \<in> set cs"
  shows "a \<in> set cs \<and> index_of a cs < index_of b cs \<longleftrightarrow> (\<exists>us vs. cs = us @ a # vs \<and> b \<notin> set us \<and> b \<in> set vs \<and> a \<noteq> b)"
  using assms
proof (induction cs)
  case (Cons c cs)
  consider "c = b" | "c \<noteq> b" "c = a" | "c \<noteq> b" "c \<noteq> a" by blast
  then show ?case
  proof cases
    case 1
    then show ?thesis by (auto simp: index_of_def Cons_eq_append_conv)
  next
    case 2
    then show ?thesis using Cons.prems by (auto simp: index_of_def intro: exI[of _ "[]"])
  next
    case 3
    then have "index_of x (c # cs) = Suc (index_of x cs)" if "x \<in> {a, b}" for x
      using that by (auto simp: index_of_def)
    moreover have "(\<exists>us vs. c # cs = us @ a # vs \<and> b \<notin> set us \<and> b \<in> set vs \<and> a \<noteq> b)
        \<longleftrightarrow> (\<exists>us vs. cs = us @ a # vs \<and> b \<notin> set us \<and> b \<in> set vs \<and> a \<noteq> b)"
    proof
      assume "\<exists>us vs. c # cs = us @ a # vs \<and> b \<notin> set us \<and> b \<in> set vs \<and> a \<noteq> b"
      then obtain us vs where u: "c # cs = us @ a # vs" "b \<notin> set us" "b \<in> set vs" "a \<noteq> b" by blast
      then show "\<exists>us vs. cs = us @ a # vs \<and> b \<notin> set us \<and> b \<in> set vs \<and> a \<noteq> b"
        using 3 by (cases us) auto
    next
      assume "\<exists>us vs. cs = us @ a # vs \<and> b \<notin> set us \<and> b \<in> set vs \<and> a \<noteq> b"
      then obtain us vs where "cs = us @ a # vs" "b \<notin> set us" "b \<in> set vs" "a \<noteq> b" by blast
      then show "\<exists>us vs. c # cs = us @ a # vs \<and> b \<notin> set us \<and> b \<in> set vs \<and> a \<noteq> b"
        using 3 by (intro exI[of _ "c # us"] exI[of _ vs]) auto
    qed
    ultimately show ?thesis using Cons 3 by auto
  qed
qed simp

lemma trace_facts:
  fixes events env
  defines "t \<equiv> traced events (new_trace (Some True) env)"
  shows "trace_frames t = recorded events"
    and "ft_t_result t = map_option (\<lambda>(_, _, rel). rel) (find (\<lambda>(c, _). c = RESULT) (recorded events))"
    and "trace_classify t = ''reorder''
      \<longleftrightarrow> (\<exists>us vs. map fst (recorded events) = us @ RESULT # vs \<and> STDOUT \<notin> set us \<and> STDOUT \<in> set vs)"
    and "traced events (new_trace (Some False) env) = new_trace (Some False) env"
proof -
  have f: "ft_frames t = Some (recorded events)
      \<and> ft_t_result t = map_option (\<lambda>(_, _, rel). rel) (find (\<lambda>(c, _). c = RESULT) (recorded events))"
    unfolding t_def using traced_frames[of "new_trace (Some True) env" "[]" events] by (simp add: new_trace_def)
  then show "trace_frames t = recorded events"
    and "ft_t_result t = map_option (\<lambda>(_, _, rel). rel) (find (\<lambda>(c, _). c = RESULT) (recorded events))"
    by (simp_all add: trace_frames_def)
  have ne: "RESULT \<noteq> STDOUT" by (simp add: RESULT_def STDOUT_def)
  show "trace_classify t = ''reorder''
      \<longleftrightarrow> (\<exists>us vs. map fst (recorded events) = us @ RESULT # vs \<and> STDOUT \<notin> set us \<and> STDOUT \<in> set vs)"
  proof (cases "STDOUT \<in> set (map fst (recorded events))")
    case True
    then have "recorded events \<noteq> []" by auto
    then show ?thesis
      using f True ne index_before[OF True, of RESULT]
      by (cases "recorded events") (auto simp: trace_classify_def Let_def)
  next
    case False
    then have "trace_classify t \<noteq> ''reorder''"
      using f by (cases "recorded events") (auto simp: trace_classify_def Let_def)
    moreover have "\<not> (\<exists>us vs. map fst (recorded events) = us @ RESULT # vs \<and> STDOUT \<notin> set us \<and> STDOUT \<in> set vs)"
      using False by (metis in_set_conv_decomp append_Cons insert_iff list.simps(15) set_append Un_iff)
    ultimately show ?thesis by blast
  qed
  show "traced events (new_trace (Some False) env) = new_trace (Some False) env"
    by (rule traced_disabled) (simp add: new_trace_def)
qed

text \<open>
  What a trace shows. An enabled trace holds, for every message that is not empty, its code, the
  length of its payload and its time, in the order of arrival; its \<^verbatim>\<open>t_result\<close> is the time of the
  first result frame; and it is classified as a reorder exactly when output arrived, and a result frame
  came before the first of it. A disabled trace records nothing.
\<close>
theorem trace_shows_arrivals:
  "trace_frames (traced events (new_trace (Some True) env)) = recorded events
   \<and> ft_t_result (traced events (new_trace (Some True) env))
     = map_option (\<lambda>(_, _, rel). rel) (find (\<lambda>(c, _). c = RESULT) (recorded events))
   \<and> (trace_classify (traced events (new_trace (Some True) env)) = ''reorder''
      \<longleftrightarrow> (\<exists>us vs. map fst (recorded events) = us @ RESULT # vs \<and> STDOUT \<notin> set us \<and> STDOUT \<in> set vs))
   \<and> traced events (new_trace (Some False) env) = new_trace (Some False) env"
  using trace_facts by blast

end
