(* ===== verification/JsonRoundtrip.thy ===== *)
theory JsonRoundtrip
  imports JsonText Identity
begin

text \<open>
  The JSON reader reads back what the canonical writer wrote. \<open>sorted_keys\<close> sorts the members of every
  object, as \<^verbatim>\<open>sort_keys\<close> does, and \<open>doc_of\<close> is a value as the reader delivers it.
\<close>

fun sorted_keys :: "json \<Rightarrow> json" where
  "sorted_keys (JArr xs) = JArr (map sorted_keys xs)"
| "sorted_keys (JObj kvs) = JObj (sort_key fst (map (\<lambda>(k, v). (k, sorted_keys v)) kvs))"
| "sorted_keys j = j"

fun doc_of :: "json \<Rightarrow> document" where
  "doc_of JNull = DNull"
| "doc_of (JBool b) = DBool b"
| "doc_of (JInt i) = DInt i"
| "doc_of (JStr s) = DStr (text_of s)"
| "doc_of (JArr xs) = DArr (map doc_of xs)"
| "doc_of (JObj kvs) = DObj (map (\<lambda>(k, v). (text_of k, doc_of v)) kvs)"

text \<open>How many containers are nested, and whether every integer has a text the reader accepts.\<close>

fun json_depth :: "json \<Rightarrow> nat" where
  "json_depth (JArr xs) = Suc (foldr max (map json_depth xs) 0)"
| "json_depth (JObj kvs) = Suc (foldr max (map (\<lambda>(k, v). json_depth v) kvs) 0)"
| "json_depth j = 0"

fun ints_readable :: "json \<Rightarrow> bool" where
  "ints_readable (JInt i) \<longleftrightarrow> length (nat_str (nat \<bar>i\<bar>)) \<le> 4300"
| "ints_readable (JArr xs) \<longleftrightarrow> list_all ints_readable xs"
| "ints_readable (JObj kvs) \<longleftrightarrow> list_all (\<lambda>(k, v). ints_readable v) kvs"
| "ints_readable j \<longleftrightarrow> True"

text \<open>The writer without its sorting.\<close>

fun plain :: "json \<Rightarrow> string" where
  "plain JNull = ''null''"
| "plain (JBool b) = (if b then ''true'' else ''false'')"
| "plain (JInt i) = int_str i"
| "plain (JStr s) = json_quote s"
| "plain (JArr xs) = ''['' @ comma_join (map plain xs) @ '']''"
| "plain (JObj kvs) = ''{'' @ comma_join (map (\<lambda>(k, v). json_quote k @ '':'' @ plain v) kvs) @ ''}''"

lemma plain_norm: "dumps j = plain (sorted_keys j)"
proof (induction j)
  case (JObj kvs)
  have "map (\<lambda>(k, v). (k, dumps v)) kvs = map (\<lambda>(k, v). (k, plain v)) (map (\<lambda>(k, v). (k, sorted_keys v)) kvs)"
    using JObj by (auto simp: case_prod_beta' snds.simps)
  then have "sort_key fst (map (\<lambda>(k, v). (k, dumps v)) kvs)
      = map (\<lambda>(k, v). (k, plain v)) (sort_key fst (map (\<lambda>(k, v). (k, sorted_keys v)) kvs))"
    by (simp only: sort_key_map) (simp add: case_prod_beta')
  then show ?case by (simp add: case_prod_beta' o_def)
next
  case (JArr xs)
  then have m: "map dumps xs = map (\<lambda>x. plain (sorted_keys x)) xs" by simp
  show ?case by (simp only: dumps.simps sorted_keys.simps plain.simps map_map o_def m)
qed simp_all

section \<open>Strings and numbers\<close>

lemma text_of_append [simp]: "text_of (s @ t) = text_of s @ text_of t"
  by (simp add: text_of_def)

lemma text_of_Cons [simp]: "text_of (c # s) = code c # text_of s"
  by (simp add: text_of_def)

lemma text_of_Nil [simp]: "text_of [] = []"
  by (simp add: text_of_def)

lemma hex_value_char: "d < 16 \<Longrightarrow> hex_value (code (hex_char d)) = Some d"
  by (cases "d < 10") (simp_all add: hex_value_def hex_char_def code_def digit_point_def)

lemma code_less: "code c < 256"
proof -
  have "of_char c mod (256 :: nat) < 256" by (rule mod_less_divisor) simp
  then show ?thesis by (simp add: code_def)
qed

lemma hex_str_4: "hex_str 4 n = [hex_char (n div 16 div 16 div 16 mod 16), hex_char (n div 16 div 16 mod 16),
    hex_char (n div 16 mod 16), hex_char (n mod 16)]"
proof -
  have "(4 :: nat) = Suc (Suc (Suc (Suc 0)))" by simp
  show ?thesis
    by (subst \<open>(4 :: nat) = Suc (Suc (Suc (Suc 0)))\<close>) (simp only: hex_str.simps append.simps)
qed

lemma hex4_code: "n < 256 \<Longrightarrow> hex4 (code (hex_char (n div 16 div 16 div 16 mod 16)))
    (code (hex_char (n div 16 div 16 mod 16))) (code (hex_char (n div 16 mod 16))) (code (hex_char (n mod 16)))
  = Some n"
  by (simp add: hex4_def hex_value_char div_mult_mod_eq mult.commute[of 16])

lemma scan_plain_char:
  "32 \<le> p \<Longrightarrow> p \<noteq> 34 \<Longrightarrow> p \<noteq> 92 \<Longrightarrow> scan_string acc (p # rest) = scan_string (p # acc) rest"
  by (subst scan_string.simps) simp

lemma scan_simple_escape:
  "e \<noteq> 117 \<Longrightarrow> simple_escape e = Some q \<Longrightarrow> scan_string acc (92 # e # rest) = scan_string (q # acc) rest"
  by (subst scan_string.simps) simp

lemma scan_point_escape:
  assumes "p < 256"
  shows "scan_string acc (92 # 117 # text_of (hex_str 4 p) @ rest) = scan_string (p # acc) rest"
proof -
  have "\<not> is_high p" using assms by (simp add: is_high_def)
  then show ?thesis
    unfolding hex_str_4 by (subst scan_string.simps) (simp add: hex4_code[OF assms] split: option.split)
qed

lemma scan_escape:
  "scan_string acc (text_of (escape_char c) @ rest) = scan_string (code c # acc) rest"
proof -
  have codes: "code (CHR 0x5C) = 92" "code (CHR 0x22) = 34" "code (CHR ''u'') = 117" "code (CHR ''n'') = 110"
      "code (CHR ''r'') = 114" "code (CHR ''t'') = 116" "code (CHR ''b'') = 98" "code (CHR ''f'') = 102"
    by (simp_all add: code_def)
  consider "code c = 34" | "code c = 92" | "code c = 10" | "code c = 13" | "code c = 9" | "code c = 8"
    | "code c = 12" | "code c \<notin> {34, 92, 10, 13, 9, 8, 12}" "32 \<le> code c \<and> code c \<le> 126"
    | "code c \<notin> {34, 92, 10, 13, 9, 8, 12}" "\<not> (32 \<le> code c \<and> code c \<le> 126)"
    by blast
  then show ?thesis
  proof cases
    case 8
    then show ?thesis by (simp add: escape_char_def scan_plain_char)
  next
    case 9
    then show ?thesis
      using scan_point_escape[OF code_less[of c], of acc rest] by (auto simp: escape_char_def codes)
  qed (simp_all add: escape_char_def codes scan_simple_escape simple_escape_def)
qed

lemma scan_quoted:
  "scan_string acc (text_of (concat (map escape_char s)) @ 34 # rest) = Inr (rev acc @ text_of s, rest)"
proof (induction s arbitrary: acc)
  case Nil
  then show ?case by (simp add: scan_string.simps)
next
  case (Cons c s)
  then show ?case by (simp add: scan_escape)
qed

lemma scan_json_quote:
  "scan_value d (text_of (json_quote s) @ rest) = Inr (DStr (text_of s), rest)"
  using scan_quoted[of "[]" s rest]
  by (simp add: json_quote_def scan_value.simps code_def)

lemma digit_point_code [simp]: "digit_point (code c) \<longleftrightarrow> is_digit c"
  by (simp add: digit_point_def is_digit_def)

lemma nat_of_points_text: "list_all is_digit s \<Longrightarrow> nat_of_points (text_of s) = nat_of_digits s"
proof -
  have "fold (\<lambda>p n. 10 * n + point_value p) (map code s) k = fold (\<lambda>c n. 10 * n + digit_value c) s k" for k
    by (induction s arbitrary: k) (simp_all add: point_value_def digit_value_def)
  then show ?thesis by (simp add: nat_of_points_def nat_of_digits_def text_of_def)
qed

text \<open>What may follow a number: nothing that would belong to it.\<close>

definition ends_value :: "nat list \<Rightarrow> bool" where
  "ends_value rest \<longleftrightarrow> (case rest of [] \<Rightarrow> True | p # _ \<Rightarrow> \<not> digit_point p \<and> p \<noteq> 46 \<and> p \<noteq> 101 \<and> p \<noteq> 69)"

lemma ends_fraction: "ends_value rest \<Longrightarrow> after_exponent (after_fraction rest) = rest"
  by (auto simp: ends_value_def after_fraction_def after_exponent_def split: list.split_asm list.split)

lemma takeWhile_points:
  "list_all is_digit s \<Longrightarrow> ends_value rest \<Longrightarrow> takeWhile digit_point (text_of s @ rest) = text_of s"
  by (induction s) (auto simp: ends_value_def text_of_def split: list.split_asm)

lemma number_digits_nat_str:
  assumes "ends_value rest"
  shows "number_digits (text_of (nat_str n) @ rest) = text_of (nat_str n)"
proof -
  obtain c cs where n: "nat_str n = c # cs" "is_digit c" using nat_str_hd by blast
  have zero: "cs = []" if "code c = 48"
  proof (rule ccontr)
    assume "cs \<noteq> []"
    have "nat_str 0 = [digit_char 0]" by (subst nat_str.simps) simp
    then have "0 < n" using n(1) \<open>cs \<noteq> []\<close> by (cases n) auto
    then have "c \<noteq> CHR ''0''" using nat_str_hd_nonzero[of n] n(1) by simp
    moreover have "c = CHR ''0''" using that by (metis char_of_char code_def char_of_48)
    ultimately show False by simp
  qed
  have tw: "takeWhile digit_point (text_of (nat_str n) @ rest) = text_of (nat_str n)"
    using takeWhile_points[OF all_digits_nat_str assms] .
  show ?thesis using zero tw by (auto simp: n(1) number_digits_def)
qed

lemma literal_first: "word \<noteq> [] \<Longrightarrow> code (hd word) \<noteq> p \<Longrightarrow> literal word (p # s) = None"
  by (cases word) (auto simp: literal_def)

lemma literal_second:
  "2 \<le> length word \<Longrightarrow> code (word ! 1) \<noteq> q \<Longrightarrow> literal word (p # q # s) = None"
  by (cases word; cases "tl word") (auto simp: literal_def)

lemma scan_literal_number:
  assumes "is_digit c"
  shows "scan_literal (code c # s) = None" "scan_literal (45 # code c # s) = None"
proof -
  have c: "48 \<le> code c" "code c \<le> 57" using assms by (simp_all add: is_digit_def)
  have f: "literal w (code c # s) = None"
    if "w \<in> {''null'', ''true'', ''false'', ''NaN'', ''Infinity'', ''-Infinity''}" for w
    using that c by (auto intro!: literal_first simp: code_def)
  have g: "literal w (45 # code c # s) = None"
    if "w \<in> {''null'', ''true'', ''false'', ''NaN'', ''Infinity'', ''-Infinity''}" for w
    using that c by (auto intro!: literal_second simp: code_def)
  show "scan_literal (code c # s) = None" using f by (simp add: scan_literal_def)
  show "scan_literal (45 # code c # s) = None" using g by (simp add: scan_literal_def)
qed

lemma scan_digits_nat:
  assumes "ends_value rest" and "length (nat_str n) \<le> 4300"
  shows "scan_digits negative (text_of (nat_str n) @ rest) = Inr (DInt (if negative then - int n else int n), rest)"
  using assms(2) ends_fraction[OF assms(1)] number_digits_nat_str[OF assms(1), of n]
  by (simp add: scan_digits_def Let_def nat_of_points_text) (simp add: text_of_def)

lemma scan_int:
  assumes "ends_value rest" and "length (nat_str (nat \<bar>i\<bar>)) \<le> 4300"
  shows "scan_value d (text_of (int_str i) @ rest) = Inr (DInt i, rest)"
proof -
  obtain c cs where n: "nat_str (nat \<bar>i\<bar>) = c # cs" "is_digit c" using nat_str_hd by blast
  have c: "48 \<le> code c" "code c \<le> 57" using n(2) by (simp_all add: is_digit_def)
  have minus: "code (CHR ''-'') = 45" by (simp add: code_def)
  note lit = scan_literal_number[OF n(2)]
  note num = scan_digits_nat[OF assms]
  show ?thesis
  proof (cases "i < 0")
    case True
    then have "int_str i = CHR ''-'' # nat_str (nat \<bar>i\<bar>)" by (simp add: int_str_def)
    moreover have "scan_value d (45 # text_of (nat_str (nat \<bar>i\<bar>)) @ rest) = Inr (DInt i, rest)"
      using num[of True] lit(2) True unfolding n(1)
      by (simp add: scan_value.simps scan_scalar_def scan_number_def)
    ultimately show ?thesis by (simp add: minus)
  next
    case False
    then have "int_str i = nat_str (nat \<bar>i\<bar>)" by (simp add: int_str_def)
    moreover have "scan_value d (text_of (nat_str (nat \<bar>i\<bar>)) @ rest) = Inr (DInt i, rest)"
      using num[of False] lit(1) False c unfolding n(1)
      by (simp add: scan_value.simps scan_scalar_def scan_number_def)
    ultimately show ?thesis by simp
  qed
qed

section \<open>Values\<close>

lemma plain_start: "\<exists>p r. text_of (plain j) = p # r \<and> \<not> is_blank p \<and> p \<noteq> 93"
proof (cases j)
  case (JInt i)
  obtain c cs where n: "nat_str (nat \<bar>i\<bar>) = c # cs" "is_digit c" using nat_str_hd by blast
  show ?thesis
  proof (cases "i < 0")
    case True
    then show ?thesis by (simp add: JInt int_str_def is_blank_def code_def)
  next
    case False
    then have "plain j = c # cs" using n by (simp add: JInt int_str_def)
    then show ?thesis using n(2) by (auto simp: is_blank_def is_digit_def)
  qed
qed (auto simp: json_quote_def is_blank_def code_def)

lemma skip_blank_start: "\<not> is_blank p \<Longrightarrow> skip_blank (p # r) = p # r"
  by (simp add: skip_blank_def)

lemma skip_plain: "skip_blank (text_of (plain j) @ rest) = text_of (plain j) @ rest"
  using plain_start[of j] by (auto simp: skip_blank_start)

lemma ends_value_simps [simp]:
  "ends_value []" "ends_value (44 # r)" "ends_value (93 # r)" "ends_value (125 # r)"
  by (simp_all add: ends_value_def digit_point_def)

lemma codes: "code (CHR '','') = 44" "code (CHR '':'') = 58" "code (CHR ''['') = 91" "code (CHR '']'') = 93"
  "code (CHR ''{'') = 123" "code (CHR ''}'') = 125" "code (CHR 0x22) = 34"
  by (simp_all add: code_def)

lemma comma_join_Cons: "xs \<noteq> [] \<Longrightarrow> comma_join (x # xs) = x @ '','' @ comma_join xs"
  by (cases xs) simp_all

lemma skip_blank_points: "skip_blank (44 # r) = 44 # r" "skip_blank (93 # r) = 93 # r"
  "skip_blank (125 # r) = 125 # r" "skip_blank (58 # r) = 58 # r" "skip_blank (34 # r) = 34 # r"
  by (simp_all add: skip_blank_def is_blank_def)

lemma scan_elements_plain:
  assumes "\<And>x rest. x \<in> set xs \<Longrightarrow> ends_value rest
      \<Longrightarrow> scan_value d (text_of (plain x) @ rest) = Inr (doc_of x, rest)"
    and "xs \<noteq> []"
  shows "scan_elements d acc (text_of (comma_join (map plain xs)) @ 93 # rest)
    = Inr (DArr (rev acc @ map doc_of xs), rest)"
  using assms
proof (induction xs arbitrary: acc)
  case (Cons x xs)
  have x: "scan_value d (text_of (plain x) @ r) = Inr (doc_of x, r)" if "ends_value r" for r
    using Cons.prems(1)[of x r] that by simp
  show ?case
  proof (cases "xs = []")
    case True
    then show ?thesis
      by (simp add: scan_elements.simps[of d acc] skip_plain x skip_blank_points)
  next
    case False
    have IH: "scan_elements d acc (text_of (comma_join (map plain xs)) @ 93 # rest)
        = Inr (DArr (rev acc @ map doc_of xs), rest)" for acc
      using Cons.IH[OF _ False] Cons.prems(1) by simp
    show ?thesis
      using False IH
      by (simp add: comma_join_Cons codes scan_elements.simps[of d acc] skip_plain x skip_blank_points)
  qed
qed simp

definition plain_member :: "string \<times> json \<Rightarrow> string" where
  "plain_member m = json_quote (fst m) @ '':'' @ plain (snd m)"

lemma scan_member:
  assumes "\<And>rest. ends_value rest \<Longrightarrow> scan_value d (text_of (plain v) @ rest) = Inr (doc_of v, rest)"
  shows "scan_members d acc (text_of (plain_member (k, v)) @ 125 # rest)
      = Inr (DObj (rev ((text_of k, doc_of v) # acc)), rest)"
    and "scan_members d acc (text_of (plain_member (k, v)) @ 44 # rest)
      = scan_members d ((text_of k, doc_of v) # acc) rest"
  using assms scan_quoted[of "[]" k]
  by (simp_all add: plain_member_def json_quote_def codes scan_members.simps[of d acc "34 # _"]
      skip_blank_points skip_plain)

lemma scan_members_plain:
  assumes "\<And>k v rest. (k, v) \<in> set kvs \<Longrightarrow> ends_value rest
      \<Longrightarrow> scan_value d (text_of (plain v) @ rest) = Inr (doc_of v, rest)"
    and "kvs \<noteq> []"
  shows "scan_members d acc (text_of (comma_join (map plain_member kvs)) @ 125 # rest)
    = Inr (DObj (rev acc @ map (\<lambda>(k, v). (text_of k, doc_of v)) kvs), rest)"
  using assms
proof (induction kvs arbitrary: acc)
  case (Cons m kvs)
  obtain k v where m: "m = (k, v)" by (cases m)
  have v: "scan_value d (text_of (plain v) @ r) = Inr (doc_of v, r)" if "ends_value r" for r
    using Cons.prems(1)[of k v r] that by (simp add: m)
  show ?case
  proof (cases "kvs = []")
    case True
    then show ?thesis using scan_member(1)[OF v] by (simp add: m)
  next
    case False
    have IH: "scan_members d acc (text_of (comma_join (map plain_member kvs)) @ 125 # rest)
        = Inr (DObj (rev acc @ map (\<lambda>(k, v). (text_of k, doc_of v)) kvs), rest)" for acc
    proof (rule Cons.IH[OF _ False])
      show "scan_value d (text_of (plain v) @ r) = Inr (doc_of v, r)"
        if "(k, v) \<in> set kvs" "ends_value r" for k v r
        using Cons.prems(1)[of k v r] that by simp
    qed
    show ?thesis
      using False scan_member(2)[OF v] IH by (simp add: comma_join_Cons codes m)
  qed
qed simp

lemma foldr_max_bound: "x \<in> set xs \<Longrightarrow> x \<le> foldr max xs (0 :: nat)"
  by (induction xs) auto

lemma scan_plain:
  "json_depth j \<le> d \<Longrightarrow> ints_readable j \<Longrightarrow> ends_value rest
   \<Longrightarrow> scan_value d (text_of (plain j) @ rest) = Inr (doc_of j, rest)"
proof (induction j arbitrary: d rest)
  case (JInt i)
  then show ?case by (simp add: scan_int)
next
  case (JStr s)
  then show ?case by (simp add: scan_json_quote)
next
  case (JArr xs)
  then obtain d' where d: "d = Suc d'" by (cases d) auto
  show ?case
  proof (cases "xs = []")
    case True
    then show ?thesis by (simp add: d codes scan_value.simps skip_blank_points)
  next
    case False
    have "scan_value d' (text_of (plain x) @ r) = Inr (doc_of x, r)" if "x \<in> set xs" "ends_value r" for x r
    proof (rule JArr.IH[OF that(1) _ _ that(2)])
      have "json_depth x \<le> foldr max (map json_depth xs) 0" using that(1) by (intro foldr_max_bound) simp
      then show "json_depth x \<le> d'" using JArr.prems(1) by (simp add: d)
      show "ints_readable x" using JArr.prems(2) that(1) by (simp add: list_all_iff)
    qed
    note elements = scan_elements_plain[OF this False]
    obtain x xs' where xs: "xs = x # xs'" using False by (cases xs) auto
    obtain p r where "text_of (plain x) = p # r" "\<not> is_blank p" "p \<noteq> 93" using plain_start by blast
    then have start: "\<exists>p r. text_of (comma_join (map plain xs)) = p # r \<and> \<not> is_blank p \<and> p \<noteq> 93"
      by (cases "xs' = []") (simp_all add: xs comma_join_Cons)
    then show ?thesis
      using elements by (auto simp: d codes scan_value.simps skip_blank_start)
  qed
next
  case (JObj kvs)
  then obtain d' where d: "d = Suc d'" by (cases d) auto
  have "(\<lambda>(k, v). json_quote k @ '':'' @ plain v) = plain_member"
    by (rule ext) (simp add: plain_member_def case_prod_beta')
  then have p: "plain (JObj kvs) = ''{'' @ comma_join (map plain_member kvs) @ ''}''"
    by (simp only: plain.simps)
  show ?case
  proof (cases "kvs = []")
    case True
    then show ?thesis by (simp add: d codes scan_value.simps skip_blank_points)
  next
    case False
    have vals: "scan_value d' (text_of (plain v) @ r) = Inr (doc_of v, r)"
      if "(k, v) \<in> set kvs" "ends_value r" for k v r
    proof (rule JObj.IH[OF that(1) _ _ _ that(2)])
      show "v \<in> Basic_BNFs.snds (k, v)" by simp
      have "json_depth v \<le> foldr max (map (\<lambda>(k, v). json_depth v) kvs) 0"
        using that(1) by (intro foldr_max_bound) force
      then show "json_depth v \<le> d'" using JObj.prems(1) by (simp add: d)
      show "ints_readable v" using JObj.prems(2) that(1) by (auto simp: list_all_iff)
    qed
    have all: "scan_members d' acc (text_of (comma_join (map plain_member kvs)) @ 125 # r)
        = Inr (DObj (rev acc @ map (\<lambda>(k, v). (text_of k, doc_of v)) kvs), r)" for acc r
      by (rule scan_members_plain) (rule vals, assumption+, rule False)
    obtain m kvs' where kvs: "kvs = m # kvs'" using False by (cases kvs) auto
    have start: "\<exists>r. text_of (comma_join (map plain_member kvs)) = 34 # r"
      by (cases "kvs' = []") (simp_all add: kvs comma_join_Cons plain_member_def json_quote_def codes)
    then show ?thesis
      unfolding p using all by (auto simp: d codes scan_value.simps skip_blank_points)
  qed
qed (auto simp: scan_value.simps scan_scalar_def scan_literal_def literal_def codes code_def)

end
