(* ===== verification/JsonDecode.thy ===== *)
theory JsonDecode
  imports JsonRoundtrip JournalData
begin

text \<open>
  What \<^verbatim>\<open>recovery_codec.py\<close> and \<^verbatim>\<open>financial_codec.py\<close> share: the hooks of the reader, the bounds of
  a document and the branches of \<^verbatim>\<open>_typed\<close>, one combinator per kind of type hint. Every failure is
  the one decoding error of the module, so a decoder returns an option.
\<close>

section \<open>The document\<close>

definition string_of :: "nat list \<Rightarrow> string option" where
  "string_of ps = (if list_all (\<lambda>p. p < 256) ps then Some (map char_of ps) else None)"

definition both :: "'a option \<Rightarrow> 'b option \<Rightarrow> ('a \<times> 'b) option" where
  "both a b = (case (a, b) of (Some x, Some y) \<Rightarrow> Some (x, y) | _ \<Rightarrow> None)"

text \<open>
  The hooks: duplicate fields and non-finite numbers are refused. No type hint admits a float, so a
  float is refused here. A text with a code point beyond 255 is outside the model's strings.
\<close>

fun json_of :: "document \<Rightarrow> json option" where
  "json_of DNull = Some JNull"
| "json_of (DBool b) = Some (JBool b)"
| "json_of (DInt i) = Some (JInt i)"
| "json_of DFloat = None"
| "json_of DConstant = None"
| "json_of (DStr s) = map_option JStr (string_of s)"
| "json_of (DArr xs) = map_option JArr (those (map json_of xs))"
| "json_of (DObj kvs) =
     (if distinct (map fst kvs)
      then map_option JObj (those (map (\<lambda>(k, v). both (string_of k) (json_of v)) kvs))
      else None)"

text \<open>\<^verbatim>\<open>_check_shape\<close>: the depth of the deepest value and the number of values.\<close>

fun value_depth :: "json \<Rightarrow> nat" where
  "value_depth (JArr xs) = foldr max (map (\<lambda>x. Suc (value_depth x)) xs) 0"
| "value_depth (JObj kvs) = foldr max (map (\<lambda>(k, v). Suc (value_depth v)) kvs) 0"
| "value_depth j = 0"

fun value_count :: "json \<Rightarrow> nat" where
  "value_count (JArr xs) = Suc (sum_list (map value_count xs))"
| "value_count (JObj kvs) = Suc (sum_list (map (\<lambda>(k, v). value_count v) kvs))"
| "value_count j = 1"

definition shape_ok :: "nat \<Rightarrow> nat \<Rightarrow> json \<Rightarrow> bool" where
  "shape_ok max_depth max_nodes j \<longleftrightarrow> value_depth j \<le> max_depth \<and> value_count j \<le> max_nodes"

section \<open>Typed values\<close>

definition dec_str :: "json \<Rightarrow> string option" where
  "dec_str j = (case j of JStr s \<Rightarrow> Some s | _ \<Rightarrow> None)"

definition dec_int :: "json \<Rightarrow> int option" where
  "dec_int j = (case j of JInt i \<Rightarrow> Some i | _ \<Rightarrow> None)"

definition dec_bool :: "json \<Rightarrow> bool option" where
  "dec_bool j = (case j of JBool b \<Rightarrow> Some b | _ \<Rightarrow> None)"

definition dec_opt :: "(json \<Rightarrow> 'a option) \<Rightarrow> json \<Rightarrow> 'a option option" where
  "dec_opt f j = (case f j of Some x \<Rightarrow> Some (Some x) | None \<Rightarrow> if j = JNull then Some None else None)"

text \<open>The first candidate that accepts the value.\<close>

fun dec_union :: "(json \<Rightarrow> 'a option) list \<Rightarrow> json \<Rightarrow> 'a option" where
  "dec_union [] j = None"
| "dec_union (f # fs) j = (case f j of Some x \<Rightarrow> Some x | None \<Rightarrow> dec_union fs j)"

definition dec_tuple :: "(json \<Rightarrow> 'a option) \<Rightarrow> json \<Rightarrow> 'a list option" where
  "dec_tuple f j = (case j of JArr xs \<Rightarrow> those (map f xs) | _ \<Rightarrow> None)"

definition dec_enum :: "('a \<Rightarrow> string) \<Rightarrow> 'a list \<Rightarrow> json \<Rightarrow> 'a option" where
  "dec_enum member_value members j =
     (case j of JStr s \<Rightarrow> find (\<lambda>m. member_value m = s) members | _ \<Rightarrow> None)"

definition dec_bytes :: "json \<Rightarrow> string option" where
  "dec_bytes j =
     (case j of
        JObj [(k, JStr s)] \<Rightarrow>
          if k = ''$bytes'' then Option.bind (base64_decode s) string_of else None
      | _ \<Rightarrow> None)"

text \<open>A tagged object with exactly the fields of its class: the function that reads a field.\<close>

definition dec_object :: "string \<Rightarrow> string list \<Rightarrow> json \<Rightarrow> (string \<Rightarrow> json) option" where
  "dec_object name names j =
     (case j of
        JObj kvs \<Rightarrow>
          if map_of kvs ''$type'' \<noteq> Some (JStr name) then None
          else if set (map fst kvs) \<noteq> set (''$type'' # names) then None
          else Some (\<lambda>field. the (map_of kvs field))
      | _ \<Rightarrow> None)"

definition checked :: "('a \<Rightarrow> bool) \<Rightarrow> 'a \<Rightarrow> 'a option" where
  "checked ok x = (case construct ok x of Inl _ \<Rightarrow> None | Inr y \<Rightarrow> Some y)"

section \<open>One stored value\<close>

text \<open>
  \<^verbatim>\<open>_decode\<close>, with the recursion limit of the interpreter, the bounds, the decoder of the root type
  and its canonical form. A byte string is a string of its bytes.
\<close>

definition decode_root ::
    "nat \<Rightarrow> nat \<Rightarrow> nat \<Rightarrow> nat \<Rightarrow> (json \<Rightarrow> 'a option) \<Rightarrow> ('a \<Rightarrow> json) \<Rightarrow> string \<Rightarrow> 'a option" where
  "decode_root limit max_bytes max_depth max_nodes dec canon payload =
     (if payload = [] \<or> max_bytes < length payload then None
      else case utf8_decode False (text_of payload) of
        None \<Rightarrow> None
      | Some t \<Rightarrow>
          (case loads_text limit t of
             Inl _ \<Rightarrow> None
           | Inr document \<Rightarrow>
               Option.bind (json_of document) (\<lambda>j.
               if \<not> shape_ok max_depth max_nodes j then None
               else Option.bind (dec j) (\<lambda>x.
                 if canonical_journal_bytes (canon x) \<noteq> payload then None else Some x))))"

section \<open>What the writer wrote is read back\<close>

text \<open>The fields of every object have different names.\<close>

fun fields_distinct :: "json \<Rightarrow> bool" where
  "fields_distinct (JArr xs) \<longleftrightarrow> list_all fields_distinct xs"
| "fields_distinct (JObj kvs) \<longleftrightarrow> distinct (map fst kvs) \<and> list_all (\<lambda>(k, v). fields_distinct v) kvs"
| "fields_distinct j \<longleftrightarrow> True"

lemma char_of_text [simp]: "map char_of (text_of s) = s"
  by (induction s) (simp_all add: code_def)

lemma text_of_inject [simp]: "text_of s = text_of t \<longleftrightarrow> s = t"
proof
  show "text_of s = text_of t \<Longrightarrow> s = t" by (metis char_of_text)
qed simp

lemma string_of_text [simp]: "string_of (text_of s) = Some s"
  by (simp add: string_of_def) (simp add: text_of_def list_all_iff code_less)

lemma those_map: "(\<And>x. x \<in> set xs \<Longrightarrow> f x = Some (g x)) \<Longrightarrow> those (map f xs) = Some (map g xs)"
  by (induction xs) auto

lemma json_of_doc: "fields_distinct j \<Longrightarrow> json_of (doc_of j) = Some j"
proof (induction j)
  case (JArr xs)
  then have "those (map (\<lambda>x. json_of (doc_of x)) xs) = Some (map (\<lambda>x. x) xs)"
    by (intro those_map) (auto simp: list_all_iff)
  then show ?case by (simp add: o_def)
next
  case (JObj kvs)
  have "those (map (\<lambda>(k, v). both (string_of (text_of k)) (json_of (doc_of v))) kvs) = Some (map (\<lambda>x. x) kvs)"
    using JObj by (intro those_map) (force simp: list_all_iff both_def snds.simps)
  moreover have "distinct (map (\<lambda>(k, v). text_of k) kvs)"
    using JObj.prems by (simp add: distinct_map inj_on_def case_prod_beta')
  ultimately show ?case by (simp add: o_def case_prod_beta')
qed simp_all

lemma foldr_max_set: "set xs = set ys \<Longrightarrow> foldr max xs (0 :: nat) = foldr max ys 0"
proof -
  have "foldr max xs (0 :: nat) = Max (insert 0 (set xs))" for xs
    by (induction xs) (simp_all add: Max_insert insert_commute)
  then show "set xs = set ys \<Longrightarrow> foldr max xs (0 :: nat) = foldr max ys 0" by simp
qed

lemma sorted_members:
  "set (sort_key fst (map (\<lambda>(k, v). (k, sorted_keys v)) kvs)) = (\<lambda>(k, v). (k, sorted_keys v)) ` set kvs"
  by simp

lemma sorted_keys_depth [simp]: "json_depth (sorted_keys j) = json_depth j"
proof (induction j)
  case (JArr xs)
  then have "map (\<lambda>x. json_depth (sorted_keys x)) xs = map json_depth xs" by simp
  then show ?case by (simp only: sorted_keys.simps json_depth.simps map_map o_def)
next
  case (JObj kvs)
  have "set (map (\<lambda>(k, v). json_depth v) (sort_key fst (map (\<lambda>(k, v). (k, sorted_keys v)) kvs)))
      = set (map (\<lambda>(k, v). json_depth v) kvs)"
    using JObj by (force simp: snds.simps image_iff)
  from foldr_max_set[OF this] show ?case by simp
qed simp_all

lemma sorted_keys_value_depth [simp]: "value_depth (sorted_keys j) = value_depth j"
proof (induction j)
  case (JArr xs)
  then have "map (\<lambda>x. Suc (value_depth (sorted_keys x))) xs = map (\<lambda>x. Suc (value_depth x)) xs" by simp
  then show ?case by (simp only: sorted_keys.simps value_depth.simps map_map o_def)
next
  case (JObj kvs)
  have "set (map (\<lambda>(k, v). Suc (value_depth v)) (sort_key fst (map (\<lambda>(k, v). (k, sorted_keys v)) kvs)))
      = set (map (\<lambda>(k, v). Suc (value_depth v)) kvs)"
    using JObj by (force simp: snds.simps image_iff)
  from foldr_max_set[OF this] show ?case by simp
qed simp_all

lemma sum_list_sort: "sum_list (map f (sort_key g xs)) = sum_list (map f xs)" for f :: "'a \<Rightarrow> nat"
  by (metis mset_map mset_sort sum_mset_sum_list)

lemma sorted_keys_count [simp]: "value_count (sorted_keys j) = value_count j"
proof (induction j)
  case (JArr xs)
  then have "map (\<lambda>x. value_count (sorted_keys x)) xs = map value_count xs" by simp
  then show ?case by (simp only: sorted_keys.simps value_count.simps map_map o_def)
next
  case (JObj kvs)
  have "map (\<lambda>(k, v). value_count (sorted_keys v)) kvs = map (\<lambda>(k, v). value_count v) kvs"
    using JObj by (auto simp: snds.simps)
  then show ?case by (simp add: sum_list_sort o_def case_prod_beta' cong: map_cong)
qed simp_all

lemma sorted_keys_ints [simp]: "ints_readable (sorted_keys j) \<longleftrightarrow> ints_readable j"
proof (induction j)
  case (JObj kvs)
  then show ?case by (fastforce simp: list_all_iff snds.simps)
qed (auto simp: list_all_iff)

lemma sorted_keys_distinct [simp]: "fields_distinct (sorted_keys j) \<longleftrightarrow> fields_distinct j"
proof (induction j)
  case (JObj kvs)
  have "distinct (map fst (sort_key fst (map (\<lambda>(k, v). (k, sorted_keys v)) kvs))) \<longleftrightarrow> distinct (map fst kvs)"
    by (rule mset_eq_imp_distinct_iff) (simp add: case_prod_beta' multiset.map_comp o_def)
  then show ?case using JObj by (fastforce simp: list_all_iff snds.simps)
qed (auto simp: list_all_iff)

lemma foldr_max_mono:
  "(\<And>x. x \<in> set xs \<Longrightarrow> f x \<le> g x) \<Longrightarrow> foldr max (map f xs) 0 \<le> foldr max (map g xs) (0 :: nat)"
  by (induction xs) (simp_all add: max.mono del: max.bounded_iff)

lemma depth_bound: "json_depth j \<le> Suc (value_depth j)"
proof (induction j)
  case (JArr xs)
  then show ?case by (simp add: foldr_max_mono)
next
  case (JObj kvs)
  have "foldr max (map (\<lambda>(k, v). json_depth v) kvs) 0 \<le> foldr max (map (\<lambda>(k, v). Suc (value_depth v)) kvs) 0"
    using JObj by (intro foldr_max_mono) (auto simp: snds.simps)
  then show ?case by simp
qed simp_all

text \<open>The text of a value is ASCII, so decoding it as UTF-8 changes nothing.\<close>

lemma utf8_ascii: "\<forall>c \<in> set s. code c < 128 \<Longrightarrow> utf8_decode pass (text_of s) = Some (text_of s)"
  by (induction s) simp_all

lemma hex_char_ascii: "d < 16 \<Longrightarrow> code (hex_char d) < 128"
  by (cases "d < 10") (simp_all add: hex_char_def code_def)

lemma escape_ascii: "x \<in> set (escape_char c) \<Longrightarrow> code x < 128"
  by (auto simp: escape_char_def code_def hex_str_4 hex_char_ascii[unfolded code_def] split: if_split_asm)

lemma int_ascii: "x \<in> set (int_str i) \<Longrightarrow> code x < 128"
  using nat_str_digits[of x "nat i"] nat_str_digits[of x "nat (- i)"]
  by (auto simp: int_str_def is_digit_def code_def split: if_split_asm)

lemma comma_join_ascii:
  "(\<And>s x. s \<in> set ss \<Longrightarrow> x \<in> set s \<Longrightarrow> code x < 128) \<Longrightarrow> x \<in> set (comma_join ss) \<Longrightarrow> code x < 128"
proof (induction ss rule: comma_join.induct)
  case (3 s t ss)
  then show ?case by (auto simp: code_def)
qed auto

lemma quote_ascii: "x \<in> set (json_quote s) \<Longrightarrow> code x < 128"
  using escape_ascii by (auto simp: json_quote_def code_def)

lemma plain_ascii: "x \<in> set (plain j) \<Longrightarrow> code x < 128"
proof (induction j arbitrary: x)
  case (JInt i)
  then show ?case by (simp add: int_ascii)
next
  case (JStr s)
  then show ?case by (simp add: quote_ascii)
next
  case (JArr xs)
  then show ?case using comma_join_ascii[of "map plain xs" x] by (auto simp: code_def)
next
  case (JObj kvs)
  have "code x < 128" if "x \<in> set (comma_join (map (\<lambda>(k, v). json_quote k @ '':'' @ plain v) kvs))"
    by (rule comma_join_ascii[OF _ that])
      (use JObj.IH in \<open>force simp: codes snds.simps dest: quote_ascii\<close>)
  then show ?case using JObj.prems by (auto simp: code_def)
qed (auto simp: code_def split: if_split_asm)

text \<open>
  What the interpreter reads, whatever the codec: the nesting stays below its recursion limit and no
  integer has more digits than it converts. And the bounds of the codec: the text and the shape.
\<close>

definition readable :: "nat \<Rightarrow> json \<Rightarrow> bool" where
  "readable limit j \<longleftrightarrow> json_depth j \<le> limit \<and> ints_readable j"

definition storable :: "nat \<Rightarrow> nat \<Rightarrow> nat \<Rightarrow> json \<Rightarrow> bool" where
  "storable max_bytes max_depth max_nodes j \<longleftrightarrow>
     length (canonical_journal_bytes j) \<le> max_bytes \<and> shape_ok max_depth max_nodes j"

text \<open>A bound on the text that needs no writing, and the bounds it gives.\<close>

fun text_bound :: "json \<Rightarrow> nat" where
  "text_bound JNull = 4"
| "text_bound (JBool b) = 5"
| "text_bound (JInt i) = 2 + nat \<bar>i\<bar>"
| "text_bound (JStr s) = 6 * length s + 2"
| "text_bound (JArr xs) = 2 + sum_list (map (\<lambda>x. Suc (text_bound x)) xs)"
| "text_bound (JObj kvs) = 2 + sum_list (map (\<lambda>(k, v). 6 * length k + 4 + text_bound v) kvs)"

fun ints_small :: "json \<Rightarrow> bool" where
  "ints_small (JInt i) \<longleftrightarrow> \<bar>i\<bar> < 4300"
| "ints_small (JArr xs) \<longleftrightarrow> list_all ints_small xs"
| "ints_small (JObj kvs) \<longleftrightarrow> list_all (\<lambda>(k, v). ints_small v) kvs"
| "ints_small j \<longleftrightarrow> True"

lemma nat_str_bound: "length (nat_str n) \<le> Suc n"
proof (induction n rule: nat_str.induct)
  case (1 n)
  then show ?case by (subst nat_str.simps) (simp split: if_split, linarith?)
qed

lemma int_str_bound: "length (int_str i) \<le> 2 + nat \<bar>i\<bar>"
  using nat_str_bound[of "nat i"] nat_str_bound[of "nat (- i)"] by (auto simp: int_str_def)

lemma quote_bound: "length (json_quote s) \<le> 6 * length s + 2"
proof -
  have "length (escape_char c) \<le> 6" for c by (simp add: escape_char_def hex_str_4)
  from add_mono[OF this] have "length (concat (map escape_char s)) \<le> 6 * length s"
    by (induction s) simp_all
  then show ?thesis by (simp add: json_quote_def)
qed

lemma comma_join_length: "length (comma_join ss) \<le> sum_list (map (\<lambda>s. Suc (length s)) ss)"
  by (induction ss rule: comma_join.induct) auto

lemma plain_bound: "length (plain j) \<le> text_bound j"
proof (induction j)
  case (JInt i)
  then show ?case using int_str_bound by simp
next
  case (JStr s)
  then show ?case using quote_bound by simp
next
  case (JArr xs)
  have "sum_list (map (\<lambda>s. Suc (length s)) (map plain xs)) \<le> sum_list (map (\<lambda>x. Suc (text_bound x)) xs)"
    using JArr by (simp add: o_def) (intro sum_list_mono, simp)
  then show ?case using comma_join_length[of "map plain xs"] by simp
next
  case (JObj kvs)
  have "length (json_quote (fst kv) @ '':'' @ plain (snd kv)) \<le> 6 * length (fst kv) + 3 + text_bound (snd kv)"
    if "kv \<in> set kvs" for kv
    using JObj[OF that, of "snd kv"] quote_bound[of "fst kv"] by (simp add: snds.simps)
  then have "sum_list (map (\<lambda>s. Suc (length s)) (map (\<lambda>(k, v). json_quote k @ '':'' @ plain v) kvs))
      \<le> sum_list (map (\<lambda>(k, v). 6 * length k + 4 + text_bound v) kvs)"
    unfolding map_map by (intro sum_list_mono) (fastforce simp: case_prod_beta')
  then show ?case using comma_join_length[of "map (\<lambda>(k, v). json_quote k @ '':'' @ plain v) kvs"] by simp
qed simp_all

lemma sorted_keys_text_bound [simp]: "text_bound (sorted_keys j) = text_bound j"
proof (induction j)
  case (JArr xs)
  then have "map (\<lambda>x. Suc (text_bound (sorted_keys x))) xs = map (\<lambda>x. Suc (text_bound x)) xs" by simp
  then show ?case by (simp only: sorted_keys.simps text_bound.simps map_map o_def)
next
  case (JObj kvs)
  have "map (\<lambda>(k, v). 6 * length k + 4 + text_bound (sorted_keys v)) kvs
      = map (\<lambda>(k, v). 6 * length k + 4 + text_bound v) kvs"
    using JObj by (auto simp: snds.simps)
  then show ?case by (simp add: sum_list_sort o_def case_prod_beta' cong: map_cong)
qed simp_all

lemma ints_small_readable: "ints_small j \<Longrightarrow> ints_readable j"
proof (induction j)
  case (JInt i)
  then show ?case using nat_str_bound[of "nat \<bar>i\<bar>"] by simp
next
  case (JObj kvs)
  then show ?case by (fastforce simp: list_all_iff snds.simps)
qed (auto simp: list_all_iff)

lemma storableI:
  assumes "text_bound j \<le> max_bytes" "value_depth j \<le> max_depth" "value_count j \<le> max_nodes"
  shows "storable max_bytes max_depth max_nodes j"
  using assms plain_bound[of "sorted_keys j"]
  by (simp add: storable_def shape_ok_def canonical_journal_bytes_def plain_norm)

lemma readableI: "value_depth j < limit \<Longrightarrow> ints_small j \<Longrightarrow> readable limit j"
  using depth_bound[of j] ints_small_readable by (simp add: readable_def)

lemma loads_dumps:
  assumes "json_depth j \<le> limit" and "ints_readable j"
  shows "loads_text limit (text_of (dumps j)) = Inr (doc_of (sorted_keys j))"
proof -
  have "scan_value limit (text_of (plain (sorted_keys j)) @ []) = Inr (doc_of (sorted_keys j), [])"
    using assms by (intro scan_plain) simp_all
  then show ?thesis
    using skip_plain[of "sorted_keys j" "[]"] by (simp add: loads_text_def plain_norm skip_blank_def)
qed

section \<open>Reading a field\<close>

lemma map_of_sort_key:
  assumes "distinct (map fst kvs)"
  shows "map_of (sort_key f kvs) = map_of kvs"
proof -
  have "distinct (map fst (sort_key f kvs))"
    using assms mset_eq_imp_distinct_iff[of "map fst (sort_key f kvs)" "map fst kvs"] by simp
  then show ?thesis using assms by (intro map_of_inject_set[THEN iffD2]) simp_all
qed

lemma map_of_sorted: "map_of (map (\<lambda>(k, v). (k, f v)) kvs) = (\<lambda>k. map_option f (map_of kvs k))"
  by (induction kvs) auto

text \<open>The canonical form of a class is read field by field.\<close>

lemma sorted_object:
  assumes "distinct (''$type'' # map fst attributes)"
  obtains kvs where "sorted_keys (canon_dataclass name attributes) = JObj kvs"
    and "map_of kvs = map_of (map (\<lambda>(k, v). (k, sorted_keys v)) ((''$type'', JStr name) # attributes))"
    and "set (map fst kvs) = set (''$type'' # map fst attributes)"
proof -
  let ?kvs = "map (\<lambda>(k, v). (k, sorted_keys v)) ((''$type'', JStr name) # attributes)"
  have fst: "map fst ?kvs = ''$type'' # map fst attributes" by (simp add: case_prod_beta' o_def)
  then have "distinct (map fst ?kvs)" using assms by (simp only:)
  moreover have "set (map fst (sort_key fst ?kvs)) = set (''$type'' # map fst attributes)"
    using arg_cong[OF fst, of set] by (simp only: set_map set_sort)
  moreover have "sorted_keys (canon_dataclass name attributes) = JObj (sort_key fst ?kvs)"
    unfolding canon_dataclass_def by (rule sorted_keys.simps)
  ultimately show ?thesis by (intro that[of "sort_key fst ?kvs"]) (simp_all only: map_of_sort_key)
qed

lemma dec_object_canon:
  assumes "distinct (''$type'' # map fst attributes)" and "names = map fst attributes"
  shows "dec_object name names (sorted_keys (canon_dataclass name attributes))
    = Some (\<lambda>field. the (map_of (map (\<lambda>(k, v). (k, sorted_keys v)) ((''$type'', JStr name) # attributes)) field))"
proof -
  obtain kvs where k: "sorted_keys (canon_dataclass name attributes) = JObj kvs"
    "map_of kvs = map_of (map (\<lambda>(k, v). (k, sorted_keys v)) ((''$type'', JStr name) # attributes))"
    "set (map fst kvs) = set (''$type'' # map fst attributes)"
    using sorted_object[OF assms(1)] .
  then show ?thesis by (simp add: dec_object_def assms(2) del: set_map)
qed

lemma dec_object_other:
  assumes "distinct (''$type'' # map fst attributes)" and "name \<noteq> other"
  shows "dec_object name names (sorted_keys (canon_dataclass other attributes)) = None"
proof -
  obtain kvs where k: "sorted_keys (canon_dataclass other attributes) = JObj kvs"
    "map_of kvs = map_of (map (\<lambda>(k, v). (k, sorted_keys v)) ((''$type'', JStr other) # attributes))"
    using sorted_object[OF assms(1)] .
  then show ?thesis using assms(2) by (simp add: dec_object_def)
qed

lemma dec_object_null [simp]: "dec_object name names JNull = None"
  by (simp add: dec_object_def)

lemma sorted_keys_opt [simp]: "sorted_keys (canon_opt f v) = canon_opt (\<lambda>x. sorted_keys (f x)) v"
  by (simp add: canon_opt_def split: option.split)

lemma sorted_keys_tuple [simp]: "sorted_keys (canon_tuple f xs) = canon_tuple (\<lambda>x. sorted_keys (f x)) xs"
  by (simp add: canon_tuple_def o_def)

lemma sorted_keys_enum [simp]: "sorted_keys (canon_enum member_value x) = canon_enum member_value x"
  by (simp add: canon_enum_def)

lemma sorted_keys_bytes [simp]: "sorted_keys (canon_bytes b) = canon_bytes b"
  by (simp add: canon_bytes_def)

lemma dec_scalars [simp]:
  "dec_str (JStr s) = Some s" "dec_int (JInt i) = Some i" "dec_bool (JBool b) = Some b"
  "dec_str JNull = None" "dec_int JNull = None" "dec_bool JNull = None" "dec_bytes JNull = None"
  by (simp_all add: dec_str_def dec_int_def dec_bool_def dec_bytes_def)

lemma dec_opt_canon [simp]:
  assumes "f JNull = None" and "\<And>x. v = Some x \<Longrightarrow> f (g x) = Some x"
  shows "dec_opt f (canon_opt g v) = Some v"
  using assms by (cases v) (simp_all add: dec_opt_def canon_opt_def)

lemma dec_tuple_canon [simp]:
  assumes "\<And>x. x \<in> set xs \<Longrightarrow> f (g x) = Some x"
  shows "dec_tuple f (canon_tuple g xs) = Some xs"
  using those_map[of xs "\<lambda>x. f (g x)" "\<lambda>x. x"] assms by (simp add: dec_tuple_def canon_tuple_def o_def)

lemmas enum_read = dec_enum_def canon_enum_def

lemma dec_bytes_canon [simp]: "dec_bytes (canon_bytes b) = Some b"
proof -
  have "base64_decode (base64 (map code b)) = Some (map code b)"
    by (rule base64_decode_base64) (auto simp: code_less)
  moreover have "string_of (map code b) = Some b" using string_of_text[of b] by (simp add: text_of_def)
  ultimately show ?thesis by (simp add: dec_bytes_def canon_bytes_def)
qed

lemma fields_distinct_canon [simp]:
  "fields_distinct (canon_dataclass name attributes)
     \<longleftrightarrow> distinct (''$type'' # map fst attributes) \<and> list_all (\<lambda>(k, v). fields_distinct v) attributes"
  "fields_distinct (canon_enum member_value m)" "fields_distinct (canon_bytes b)"
  by (simp_all add: canon_dataclass_def canon_enum_def canon_bytes_def)

lemma fields_distinct_opt [simp]: "(\<And>x. fields_distinct (f x)) \<Longrightarrow> fields_distinct (canon_opt f v)"
  by (simp add: canon_opt_def split: option.split)

lemma fields_distinct_tuple [simp]: "(\<And>x. fields_distinct (f x)) \<Longrightarrow> fields_distinct (canon_tuple f xs)"
  by (simp add: canon_tuple_def list_all_iff)

lemma checked_eq_Some [simp]: "checked ok x = Some y \<longleftrightarrow> x = y \<and> ok y"
  by (auto simp: checked_def construct_def)

text \<open>Stored bytes are read back as the canonical form, whatever type is expected of it.\<close>

lemma decode_stored:
  assumes "readable limit j" and "fields_distinct j"
  shows "decode_root limit max_bytes max_depth max_nodes dec canon (canonical_journal_bytes j)
    = (if storable max_bytes max_depth max_nodes j
       then Option.bind (dec (sorted_keys j))
         (\<lambda>x. if canonical_journal_bytes (canon x) \<noteq> canonical_journal_bytes j then None else Some x)
       else None)"
proof -
  let ?payload = "canonical_journal_bytes j"
  have p: "?payload = plain (sorted_keys j)" by (simp add: canonical_journal_bytes_def plain_norm)
  have ne: "?payload \<noteq> []" using plain_start[of "sorted_keys j"] by (auto simp: p)
  have utf: "utf8_decode False (text_of ?payload) = Some (text_of ?payload)"
    using plain_ascii by (intro utf8_ascii) (auto simp: p)
  have loads: "loads_text limit (text_of ?payload) = Inr (doc_of (sorted_keys j))"
    using loads_dumps[of j limit] assms(1) by (simp add: canonical_journal_bytes_def readable_def)
  have json: "json_of (doc_of (sorted_keys j)) = Some (sorted_keys j)"
    using assms(2) by (intro json_of_doc) simp
  have "shape_ok max_depth max_nodes (sorted_keys j) \<longleftrightarrow> shape_ok max_depth max_nodes j"
    by (simp add: shape_ok_def)
  then show ?thesis using ne utf loads json by (simp add: decode_root_def storable_def)
qed

section \<open>Stored types\<close>

text \<open>
  What the decoder of a type owes to the document around it: it reads back the canonical form of
  every valid value, gives only valid values, and is not confused with an absent one.
\<close>

locale stored_type =
  fixes ok :: "'a \<Rightarrow> bool" and dec :: "json \<Rightarrow> 'a option" and canon :: "'a \<Rightarrow> json"
  assumes reads_back [simp]: "ok x \<Longrightarrow> dec (sorted_keys (canon x)) = Some x"
    and only_valid: "dec j = Some x \<Longrightarrow> ok x"
    and not_null [simp]: "dec JNull = None"
    and distinct_fields [simp]: "fields_distinct (canon x)"
begin

lemma decode_sound:
  assumes "decode_root limit max_bytes max_depth max_nodes dec canon payload = Some x"
  shows "ok x \<and> payload = canonical_journal_bytes (canon x)"
  using assms only_valid by (auto simp: decode_root_def bind_eq_Some_conv
    split: if_split_asm option.split_asm sum.split_asm)

text \<open>
  At the root decoding is the inverse of the canonical encoding, exactly on the valid values within the
  bounds of the codec.
\<close>

lemma decode_exact:
  assumes "readable limit (canon x)"
  shows "decode_root limit max_bytes max_depth max_nodes dec canon payload = Some x
    \<longleftrightarrow> ok x \<and> storable max_bytes max_depth max_nodes (canon x)
      \<and> payload = canonical_journal_bytes (canon x)"
  using decode_sound[of limit max_bytes max_depth max_nodes payload x]
    decode_stored[OF assms distinct_fields, of max_bytes max_depth max_nodes dec canon]
  by (auto split: if_split_asm)

end

end
