(* ===== verification/StoredJournal.thy ===== *)
theory StoredJournal
  imports JsonDecode Journal "HOL-Library.Monad_Syntax"
begin

text \<open>
  The stored form of the journal: for every class that \<^verbatim>\<open>recovery_codec.py\<close> admits, the branch of
  \<^verbatim>\<open>_typed\<close> for its type hints, and its law that the canonical form of a valid value is read back. The
  candidates of a union are tried in their order.
\<close>

section \<open>Members of the enumerations\<close>

definition backend_kind_members :: "backend_kind list" where
  "backend_kind_members = [SELF_MANAGED, MEDIATED]"

lemma backend_kind_read [simp]:
  "dec_enum backend_kind_value backend_kind_members (canon_enum backend_kind_value x) = Some x"
  by (cases x) (simp_all add: backend_kind_members_def enum_read)

definition owner_evidence_kind_members :: "owner_evidence_kind list" where
  "owner_evidence_kind_members = [VERIFIED_SIGNER, AUTHENTICATED_MEDIATOR]"

lemma owner_evidence_kind_read [simp]:
  "dec_enum owner_evidence_kind_value owner_evidence_kind_members (canon_enum owner_evidence_kind_value
      x) = Some x"
  by (cases x) (simp_all add: owner_evidence_kind_members_def enum_read)

definition create_outcome_kind_members :: "create_outcome_kind list" where
  "create_outcome_kind_members = [KIND_REJECTED_BEFORE_SEND, KIND_FALLBACK_SAFE, KIND_COMMITTED,
      KIND_UNKNOWN]"

lemma create_outcome_kind_read [simp]:
  "dec_enum create_outcome_kind_value create_outcome_kind_members (canon_enum create_outcome_kind_value
      x) = Some x"
  by (cases x) (simp_all add: create_outcome_kind_members_def enum_read)

definition outcome_reason_code_members :: "outcome_reason_code list" where
  "outcome_reason_code_members = [INTENT_REJECTED, SIGNING_REJECTED, MEDIATOR_REJECTED,
      SUBMISSION_PROVEN_ABSENT,
      DEPLOYMENT_PROVEN_ABSENT, TRANSACTION_EVENT_BOUND, EXACT_CHAIN_READ_BOUND,
      BROAD_EXCEPTION, STARTED_PROCESS_TIMEOUT, HTTP_READ_TIMEOUT, HTTP_WRITE_TIMEOUT,
      TRANSPORT_ERROR, RESPONSE_LOST, BACKEND_ROTATION, PROVIDER_ROTATION,
      RECONCILIATION_INCOMPLETE]"

lemma outcome_reason_code_read [simp]:
  "dec_enum outcome_reason_code_value outcome_reason_code_members (canon_enum outcome_reason_code_value
      x) = Some x"
  by (cases x) (simp_all add: outcome_reason_code_members_def enum_read)

definition execution_closure_proof_mode_members :: "execution_closure_proof_mode list" where
  "execution_closure_proof_mode_members = [EXACT_FINALIZED_HEIGHT]"

lemma execution_closure_proof_mode_read [simp]:
  "dec_enum execution_closure_proof_mode_value execution_closure_proof_mode_members (canon_enum
      execution_closure_proof_mode_value x) = Some x"
  by (cases x) (simp_all add: execution_closure_proof_mode_members_def enum_read)

definition settlement_state_members :: "settlement_state list" where
  "settlement_state_members = [UNMEASURED, UNSETTLED, SETTLED]"

lemma settlement_state_read [simp]:
  "dec_enum settlement_state_value settlement_state_members (canon_enum settlement_state_value x) = Some
      x"
  by (cases x) (simp_all add: settlement_state_members_def enum_read)

definition journal_state_members :: "journal_state list" where
  "journal_state_members = [PREPARED, SUBMITTED, REJECTED_BEFORE_SEND, FALLBACK_SAFE,
      CREATE_OUTCOME_UNKNOWN,
      CREATED, HANDOFF_FAILED, CREATOR_ROLLBACK_REQUESTED, EXECUTION_CLOSED, SETTLEMENT]"

lemma journal_state_read [simp]:
  "dec_enum journal_state_value journal_state_members (canon_enum journal_state_value x) = Some x"
  by (cases x) (simp_all add: journal_state_members_def enum_read)

section \<open>Identities and evidence\<close>

lemma group_population_valid:
  "canonical_group_population_digest groups = Inr d \<Longrightarrow> g \<in> set groups \<Longrightarrow> is_prepared_group g"
  by (auto simp: canonical_group_population_digest_def list_all_iff split: if_split_asm)

lemma dec_tagged:
  "distinct (''$type'' # map fst attributes) \<Longrightarrow> name \<noteq> other
   \<Longrightarrow> Option.bind (dec_object name names (sorted_keys (canon_dataclass other attributes))) f = None"
  by (simp add: dec_object_other)

definition dec_deployment_key :: "json \<Rightarrow> deployment_key option" where
  "dec_deployment_key j = do {
     get \<leftarrow> dec_object ''DeploymentKey'' [''owner'', ''dseq''] j;
     owner \<leftarrow> dec_str (get ''owner'');
     dseq \<leftarrow> dec_str (get ''dseq'');
     checked is_deployment_key
       \<lparr>dk_owner = owner, dk_dseq = dseq\<rparr>}"

interpretation stored_deployment_key:
  stored_type is_deployment_key dec_deployment_key canon_deployment_key
proof unfold_locales
  show "is_deployment_key x
    \<Longrightarrow> dec_deployment_key (sorted_keys (canon_deployment_key x)) = Some x" for x
    by (simp add: dec_deployment_key_def canon_deployment_key_def dec_object_canon)
qed (auto simp: dec_deployment_key_def canon_deployment_key_def bind_eq_Some_conv)

definition dec_backend_identity :: "json \<Rightarrow> backend_identity option" where
  "dec_backend_identity j = do {
     get \<leftarrow> dec_object ''BackendIdentity''
       [''kind'', ''identifier'', ''schema_version''] j;
     kind \<leftarrow> dec_enum backend_kind_value backend_kind_members (get ''kind'');
     identifier \<leftarrow> dec_str (get ''identifier'');
     schema_version \<leftarrow> dec_int (get ''schema_version'');
     checked is_backend_identity
       \<lparr>bi_kind = kind, bi_identifier = identifier, bi_version = schema_version\<rparr>}"

interpretation stored_backend_identity:
  stored_type is_backend_identity dec_backend_identity canon_backend_identity
proof unfold_locales
  show "is_backend_identity x
    \<Longrightarrow> dec_backend_identity (sorted_keys (canon_backend_identity x)) = Some x" for x
    by (simp add: dec_backend_identity_def canon_backend_identity_def dec_object_canon)
qed (auto simp: dec_backend_identity_def canon_backend_identity_def bind_eq_Some_conv)

definition dec_producer_provenance :: "json \<Rightarrow> producer_provenance option" where
  "dec_producer_provenance j = do {
     get \<leftarrow> dec_object ''ProducerProvenance''
       [''repository'', ''repository_id'', ''repository_owner_id'', ''issuer'',
         ''audience'', ''subject'', ''workflow_ref'', ''workflow_sha'', ''ref'', ''jti'',
         ''authentication_evidence_digest'', ''schema_version''] j;
     repository \<leftarrow> dec_str (get ''repository'');
     repository_id \<leftarrow> dec_str (get ''repository_id'');
     repository_owner_id \<leftarrow> dec_str (get ''repository_owner_id'');
     issuer \<leftarrow> dec_str (get ''issuer'');
     audience \<leftarrow> dec_str (get ''audience'');
     subject \<leftarrow> dec_str (get ''subject'');
     workflow_ref \<leftarrow> dec_str (get ''workflow_ref'');
     workflow_sha \<leftarrow> dec_str (get ''workflow_sha'');
     ref \<leftarrow> dec_str (get ''ref'');
     jti \<leftarrow> dec_str (get ''jti'');
     authentication_evidence_digest \<leftarrow> dec_str (get ''authentication_evidence_digest'');
     schema_version \<leftarrow> dec_int (get ''schema_version'');
     checked is_producer_provenance
       \<lparr>pp_repository = repository, pp_repository_id = repository_id,
         pp_repository_owner_id = repository_owner_id, pp_issuer = issuer,
         pp_audience = audience, pp_subject = subject, pp_workflow_ref = workflow_ref,
         pp_workflow_sha = workflow_sha, pp_ref = ref, pp_jti = jti,
         pp_authentication_evidence_digest = authentication_evidence_digest,
         pp_version = schema_version\<rparr>}"

interpretation stored_producer_provenance:
  stored_type is_producer_provenance dec_producer_provenance canon_producer_provenance
proof unfold_locales
  show "is_producer_provenance x
    \<Longrightarrow> dec_producer_provenance (sorted_keys (canon_producer_provenance x)) = Some x" for x
    by (simp add: dec_producer_provenance_def canon_producer_provenance_def dec_object_canon)
qed (auto simp: dec_producer_provenance_def canon_producer_provenance_def bind_eq_Some_conv)

definition dec_lifecycle_identity :: "json \<Rightarrow> lifecycle_identity option" where
  "dec_lifecycle_identity j = do {
     get \<leftarrow> dec_object ''LifecycleIdentity''
       [''repository'', ''workload_class'', ''run'', ''run_attempt'', ''release'',
         ''expires'', ''schema_version''] j;
     repository \<leftarrow> dec_str (get ''repository'');
     workload_class \<leftarrow> dec_str (get ''workload_class'');
     run \<leftarrow> dec_opt dec_int (get ''run'');
     run_attempt \<leftarrow> dec_opt dec_int (get ''run_attempt'');
     release \<leftarrow> dec_opt dec_str (get ''release'');
     expires \<leftarrow> dec_opt dec_int (get ''expires'');
     schema_version \<leftarrow> dec_int (get ''schema_version'');
     checked is_lifecycle_identity
       \<lparr>li_repository = repository, li_workload_class = workload_class, li_run = run,
         li_run_attempt = run_attempt, li_release = release, li_expires = expires,
         li_version = schema_version\<rparr>}"

interpretation stored_lifecycle_identity:
  stored_type is_lifecycle_identity dec_lifecycle_identity canon_lifecycle_identity
proof unfold_locales
  show "is_lifecycle_identity x
    \<Longrightarrow> dec_lifecycle_identity (sorted_keys (canon_lifecycle_identity x)) = Some x" for x
    by (simp add: dec_lifecycle_identity_def canon_lifecycle_identity_def dec_object_canon)
qed (auto simp: dec_lifecycle_identity_def canon_lifecycle_identity_def bind_eq_Some_conv)

definition dec_owner_candidate :: "json \<Rightarrow> owner_candidate option" where
  "dec_owner_candidate j = do {
     get \<leftarrow> dec_object ''OwnerCandidate''
       [''backend'', ''owner'', ''evidence_kind'', ''evidence_source'',
         ''evidence_digest'', ''schema_version''] j;
     backend \<leftarrow> dec_backend_identity (get ''backend'');
     owner \<leftarrow> dec_str (get ''owner'');
     evidence_kind \<leftarrow> dec_enum owner_evidence_kind_value owner_evidence_kind_members (get
         ''evidence_kind'');
     evidence_source \<leftarrow> dec_str (get ''evidence_source'');
     evidence_digest \<leftarrow> dec_str (get ''evidence_digest'');
     schema_version \<leftarrow> dec_int (get ''schema_version'');
     checked is_owner_candidate
       \<lparr>oc_backend = backend, oc_owner = owner, oc_evidence_kind = evidence_kind,
         oc_evidence_source = evidence_source, oc_evidence_digest = evidence_digest,
         oc_version = schema_version\<rparr>}"

lemma owner_candidate_parts:
  assumes "is_owner_candidate x"
  shows "is_backend_identity (oc_backend x)"
  using assms by (auto simp: is_owner_candidate_def)

interpretation stored_owner_candidate:
  stored_type is_owner_candidate dec_owner_candidate canon_owner_candidate
proof unfold_locales
  show "is_owner_candidate x
    \<Longrightarrow> dec_owner_candidate (sorted_keys (canon_owner_candidate x)) = Some x" for x
    by (simp add: dec_owner_candidate_def canon_owner_candidate_def dec_object_canon
        owner_candidate_parts)
qed (auto simp: dec_owner_candidate_def canon_owner_candidate_def bind_eq_Some_conv)

definition dec_prepared_group :: "json \<Rightarrow> prepared_group option" where
  "dec_prepared_group j = do {
     get \<leftarrow> dec_object ''PreparedGroup'' [''gseq'', ''group_name''] j;
     gseq \<leftarrow> dec_int (get ''gseq'');
     group_name \<leftarrow> dec_str (get ''group_name'');
     checked is_prepared_group
       \<lparr>pg_gseq = gseq, pg_group_name = group_name\<rparr>}"

interpretation stored_prepared_group:
  stored_type is_prepared_group dec_prepared_group canon_prepared_group
proof unfold_locales
  show "is_prepared_group x
    \<Longrightarrow> dec_prepared_group (sorted_keys (canon_prepared_group x)) = Some x" for x
    by (simp add: dec_prepared_group_def canon_prepared_group_def dec_object_canon)
qed (auto simp: dec_prepared_group_def canon_prepared_group_def bind_eq_Some_conv)

definition dec_prepared_create :: "json \<Rightarrow> prepared_create option" where
  "dec_prepared_create j = do {
     get \<leftarrow> dec_object ''PreparedCreate''
       [''operation_id'', ''operation_ordinal'', ''producer'', ''lifecycle'',
         ''owner_candidate'', ''request_digest'', ''sdl_digest'', ''groups'',
         ''group_population_digest'', ''source_revision'', ''prepared_at'',
         ''schema_version''] j;
     operation_id \<leftarrow> dec_str (get ''operation_id'');
     operation_ordinal \<leftarrow> dec_int (get ''operation_ordinal'');
     producer \<leftarrow> dec_producer_provenance (get ''producer'');
     lifecycle \<leftarrow> dec_lifecycle_identity (get ''lifecycle'');
     owner_candidate \<leftarrow> dec_owner_candidate (get ''owner_candidate'');
     request_digest \<leftarrow> dec_str (get ''request_digest'');
     sdl_digest \<leftarrow> dec_str (get ''sdl_digest'');
     groups \<leftarrow> dec_tuple dec_prepared_group (get ''groups'');
     group_population_digest \<leftarrow> dec_str (get ''group_population_digest'');
     source_revision \<leftarrow> dec_str (get ''source_revision'');
     prepared_at \<leftarrow> dec_int (get ''prepared_at'');
     schema_version \<leftarrow> dec_int (get ''schema_version'');
     checked is_prepared_create
       \<lparr>pc_operation_id = operation_id, pc_operation_ordinal = operation_ordinal,
         pc_producer = producer, pc_lifecycle = lifecycle,
         pc_owner_candidate = owner_candidate, pc_request_digest = request_digest,
         pc_sdl_digest = sdl_digest, pc_groups = groups,
         pc_group_population_digest = group_population_digest,
         pc_source_revision = source_revision, pc_prepared_at = prepared_at,
         pc_version = schema_version\<rparr>}"

lemma prepared_create_parts:
  assumes "is_prepared_create x"
  shows "is_producer_provenance (pc_producer x)"
    and "is_lifecycle_identity (pc_lifecycle x)"
    and "is_owner_candidate (pc_owner_candidate x)"
    and "z3 \<in> set (pc_groups x) \<Longrightarrow> is_prepared_group z3"
  using assms by (auto simp: is_prepared_create_def dest: group_population_valid)

interpretation stored_prepared_create:
  stored_type is_prepared_create dec_prepared_create canon_prepared_create
proof unfold_locales
  show "is_prepared_create x
    \<Longrightarrow> dec_prepared_create (sorted_keys (canon_prepared_create x)) = Some x" for x
    by (simp add: dec_prepared_create_def canon_prepared_create_def dec_object_canon
        prepared_create_parts)
qed (auto simp: dec_prepared_create_def canon_prepared_create_def bind_eq_Some_conv)

definition dec_submission_evidence :: "json \<Rightarrow> submission_evidence option" where
  "dec_submission_evidence j = do {
     get \<leftarrow> dec_object ''SubmissionEvidence''
       [''operation_id'', ''backend'', ''submitted_request_digest'', ''submitted_at'',
         ''evidence_source'', ''evidence_digest'', ''transaction_hash'',
         ''account_sequence'', ''signed_bytes'', ''submission_token'',
         ''schema_version''] j;
     operation_id \<leftarrow> dec_str (get ''operation_id'');
     backend \<leftarrow> dec_backend_identity (get ''backend'');
     submitted_request_digest \<leftarrow> dec_str (get ''submitted_request_digest'');
     submitted_at \<leftarrow> dec_int (get ''submitted_at'');
     evidence_source \<leftarrow> dec_str (get ''evidence_source'');
     evidence_digest \<leftarrow> dec_str (get ''evidence_digest'');
     transaction_hash \<leftarrow> dec_opt dec_str (get ''transaction_hash'');
     account_sequence \<leftarrow> dec_opt dec_int (get ''account_sequence'');
     signed_bytes \<leftarrow> dec_opt dec_bytes (get ''signed_bytes'');
     submission_token \<leftarrow> dec_opt dec_str (get ''submission_token'');
     schema_version \<leftarrow> dec_int (get ''schema_version'');
     checked is_submission_evidence
       \<lparr>se_operation_id = operation_id, se_backend = backend,
         se_submitted_request_digest = submitted_request_digest,
         se_submitted_at = submitted_at, se_evidence_source = evidence_source,
         se_evidence_digest = evidence_digest, se_transaction_hash = transaction_hash,
         se_account_sequence = account_sequence, se_signed_bytes = signed_bytes,
         se_submission_token = submission_token, se_version = schema_version\<rparr>}"

lemma submission_evidence_parts:
  assumes "is_submission_evidence x"
  shows "is_backend_identity (se_backend x)"
  using assms by (auto simp: is_submission_evidence_def)

interpretation stored_submission_evidence:
  stored_type is_submission_evidence dec_submission_evidence canon_submission_evidence
proof unfold_locales
  show "is_submission_evidence x
    \<Longrightarrow> dec_submission_evidence (sorted_keys (canon_submission_evidence x)) = Some x" for x
    by (simp add: dec_submission_evidence_def canon_submission_evidence_def dec_object_canon
        submission_evidence_parts)
qed (auto simp: dec_submission_evidence_def canon_submission_evidence_def bind_eq_Some_conv)

definition dec_rejection_evidence :: "json \<Rightarrow> rejection_evidence option" where
  "dec_rejection_evidence j = do {
     get \<leftarrow> dec_object ''RejectionEvidence''
       [''operation_id'', ''backend'', ''before_send'', ''source'', ''evidence_digest'',
         ''observed_at''] j;
     operation_id \<leftarrow> dec_str (get ''operation_id'');
     backend \<leftarrow> dec_backend_identity (get ''backend'');
     before_send \<leftarrow> dec_bool (get ''before_send'');
     source \<leftarrow> dec_str (get ''source'');
     evidence_digest \<leftarrow> dec_str (get ''evidence_digest'');
     observed_at \<leftarrow> dec_int (get ''observed_at'');
     checked is_rejection_evidence
       \<lparr>re_operation_id = operation_id, re_backend = backend,
         re_before_send = before_send, re_source = source,
         re_evidence_digest = evidence_digest, re_observed_at = observed_at\<rparr>}"

lemma rejection_evidence_parts:
  assumes "is_rejection_evidence x"
  shows "is_backend_identity (re_backend x)"
  using assms by (auto simp: is_rejection_evidence_def)

interpretation stored_rejection_evidence:
  stored_type is_rejection_evidence dec_rejection_evidence canon_rejection_evidence
proof unfold_locales
  show "is_rejection_evidence x
    \<Longrightarrow> dec_rejection_evidence (sorted_keys (canon_rejection_evidence x)) = Some x" for x
    by (simp add: dec_rejection_evidence_def canon_rejection_evidence_def dec_object_canon
        rejection_evidence_parts)
qed (auto simp: dec_rejection_evidence_def canon_rejection_evidence_def bind_eq_Some_conv)

definition dec_non_commit_evidence :: "json \<Rightarrow> non_commit_evidence option" where
  "dec_non_commit_evidence j = do {
     get \<leftarrow> dec_object ''NonCommitEvidence''
       [''operation_id'', ''backend'', ''submission_token'', ''transaction_hash'',
         ''exact_owner'', ''group_population_digest'', ''source_a'', ''source_b'',
         ''evidence_digest'', ''observed_at''] j;
     operation_id \<leftarrow> dec_str (get ''operation_id'');
     backend \<leftarrow> dec_backend_identity (get ''backend'');
     submission_token \<leftarrow> dec_opt dec_str (get ''submission_token'');
     transaction_hash \<leftarrow> dec_opt dec_str (get ''transaction_hash'');
     exact_owner \<leftarrow> dec_str (get ''exact_owner'');
     group_population_digest \<leftarrow> dec_str (get ''group_population_digest'');
     source_a \<leftarrow> dec_str (get ''source_a'');
     source_b \<leftarrow> dec_str (get ''source_b'');
     evidence_digest \<leftarrow> dec_str (get ''evidence_digest'');
     observed_at \<leftarrow> dec_int (get ''observed_at'');
     checked is_non_commit_evidence
       \<lparr>nc_operation_id = operation_id, nc_backend = backend,
         nc_submission_token = submission_token, nc_transaction_hash = transaction_hash,
         nc_exact_owner = exact_owner,
         nc_group_population_digest = group_population_digest, nc_source_a = source_a,
         nc_source_b = source_b, nc_evidence_digest = evidence_digest,
         nc_observed_at = observed_at\<rparr>}"

lemma non_commit_evidence_parts:
  assumes "is_non_commit_evidence x"
  shows "is_backend_identity (nc_backend x)"
  using assms by (auto simp: is_non_commit_evidence_def)

interpretation stored_non_commit_evidence:
  stored_type is_non_commit_evidence dec_non_commit_evidence canon_non_commit_evidence
proof unfold_locales
  show "is_non_commit_evidence x
    \<Longrightarrow> dec_non_commit_evidence (sorted_keys (canon_non_commit_evidence x)) = Some x" for x
    by (simp add: dec_non_commit_evidence_def canon_non_commit_evidence_def dec_object_canon
        non_commit_evidence_parts)
qed (auto simp: dec_non_commit_evidence_def canon_non_commit_evidence_def bind_eq_Some_conv)

definition dec_uncertainty_evidence :: "json \<Rightarrow> uncertainty_evidence option" where
  "dec_uncertainty_evidence j = do {
     get \<leftarrow> dec_object ''UncertaintyEvidence''
       [''operation_id'', ''source'', ''evidence_digest'', ''observed_at'',
         ''response_dseq''] j;
     operation_id \<leftarrow> dec_str (get ''operation_id'');
     source \<leftarrow> dec_str (get ''source'');
     evidence_digest \<leftarrow> dec_str (get ''evidence_digest'');
     observed_at \<leftarrow> dec_int (get ''observed_at'');
     response_dseq \<leftarrow> dec_opt dec_str (get ''response_dseq'');
     checked is_uncertainty_evidence
       \<lparr>ue_operation_id = operation_id, ue_source = source,
         ue_evidence_digest = evidence_digest, ue_observed_at = observed_at,
         ue_response_dseq = response_dseq\<rparr>}"

interpretation stored_uncertainty_evidence:
  stored_type is_uncertainty_evidence dec_uncertainty_evidence canon_uncertainty_evidence
proof unfold_locales
  show "is_uncertainty_evidence x
    \<Longrightarrow> dec_uncertainty_evidence (sorted_keys (canon_uncertainty_evidence x)) = Some x" for x
    by (simp add: dec_uncertainty_evidence_def canon_uncertainty_evidence_def dec_object_canon)
qed (auto simp: dec_uncertainty_evidence_def canon_uncertainty_evidence_def bind_eq_Some_conv)

definition dec_transaction_event_evidence :: "json \<Rightarrow> transaction_event_evidence option" where
  "dec_transaction_event_evidence j = do {
     get \<leftarrow> dec_object ''TransactionEventEvidence''
       [''operation_id'', ''subject'', ''transaction_hash'', ''event_index'',
         ''block_height'', ''chain_id'', ''group_population_digest'', ''source'',
         ''evidence_digest''] j;
     operation_id \<leftarrow> dec_str (get ''operation_id'');
     subject \<leftarrow> dec_deployment_key (get ''subject'');
     transaction_hash \<leftarrow> dec_str (get ''transaction_hash'');
     event_index \<leftarrow> dec_int (get ''event_index'');
     block_height \<leftarrow> dec_int (get ''block_height'');
     chain_id \<leftarrow> dec_str (get ''chain_id'');
     group_population_digest \<leftarrow> dec_str (get ''group_population_digest'');
     source \<leftarrow> dec_str (get ''source'');
     evidence_digest \<leftarrow> dec_str (get ''evidence_digest'');
     checked is_transaction_event_evidence
       \<lparr>te_operation_id = operation_id, te_subject = subject,
         te_transaction_hash = transaction_hash, te_event_index = event_index,
         te_block_height = block_height, te_chain_id = chain_id,
         te_group_population_digest = group_population_digest, te_source = source,
         te_evidence_digest = evidence_digest\<rparr>}"

lemma transaction_event_evidence_parts:
  assumes "is_transaction_event_evidence x"
  shows "is_deployment_key (te_subject x)"
  using assms by (auto simp: is_transaction_event_evidence_def)

interpretation stored_transaction_event_evidence:
  stored_type is_transaction_event_evidence dec_transaction_event_evidence
      canon_transaction_event_evidence
proof unfold_locales
  show "is_transaction_event_evidence x
    \<Longrightarrow> dec_transaction_event_evidence (sorted_keys (canon_transaction_event_evidence x)) = Some x" for x
    by (simp add: dec_transaction_event_evidence_def canon_transaction_event_evidence_def
        dec_object_canon transaction_event_evidence_parts)
qed (auto simp: dec_transaction_event_evidence_def canon_transaction_event_evidence_def
    bind_eq_Some_conv)

definition dec_exact_chain_read_evidence :: "json \<Rightarrow> exact_chain_read_evidence option" where
  "dec_exact_chain_read_evidence j = do {
     get \<leftarrow> dec_object ''ExactChainReadEvidence''
       [''operation_id'', ''subject'', ''chain_id'', ''block_height'', ''groups'',
         ''group_population_digest'', ''source'', ''evidence_digest'', ''observed_at''] j;
     operation_id \<leftarrow> dec_str (get ''operation_id'');
     subject \<leftarrow> dec_deployment_key (get ''subject'');
     chain_id \<leftarrow> dec_str (get ''chain_id'');
     block_height \<leftarrow> dec_int (get ''block_height'');
     groups \<leftarrow> dec_tuple dec_prepared_group (get ''groups'');
     group_population_digest \<leftarrow> dec_str (get ''group_population_digest'');
     source \<leftarrow> dec_str (get ''source'');
     evidence_digest \<leftarrow> dec_str (get ''evidence_digest'');
     observed_at \<leftarrow> dec_int (get ''observed_at'');
     checked is_exact_chain_read_evidence
       \<lparr>er_operation_id = operation_id, er_subject = subject, er_chain_id = chain_id,
         er_block_height = block_height, er_groups = groups,
         er_group_population_digest = group_population_digest, er_source = source,
         er_evidence_digest = evidence_digest, er_observed_at = observed_at\<rparr>}"

lemma exact_chain_read_evidence_parts:
  assumes "is_exact_chain_read_evidence x"
  shows "is_deployment_key (er_subject x)"
    and "z1 \<in> set (er_groups x) \<Longrightarrow> is_prepared_group z1"
  using assms by (auto simp: is_exact_chain_read_evidence_def dest: group_population_valid)

interpretation stored_exact_chain_read_evidence:
  stored_type is_exact_chain_read_evidence dec_exact_chain_read_evidence canon_exact_chain_read_evidence
proof unfold_locales
  show "is_exact_chain_read_evidence x
    \<Longrightarrow> dec_exact_chain_read_evidence (sorted_keys (canon_exact_chain_read_evidence x)) = Some x" for x
    by (simp add: dec_exact_chain_read_evidence_def canon_exact_chain_read_evidence_def dec_object_canon
        exact_chain_read_evidence_parts)
qed (auto simp: dec_exact_chain_read_evidence_def canon_exact_chain_read_evidence_def bind_eq_Some_conv)

definition dec_binding_evidence :: "json \<Rightarrow> binding_evidence option" where
  "dec_binding_evidence = dec_union
       [\<lambda>j. map_option TransactionEvent (dec_transaction_event_evidence j),
        \<lambda>j. map_option ExactChainRead (dec_exact_chain_read_evidence j)]"

lemma binding_evidence_tags:
  "dec_transaction_event_evidence (sorted_keys (canon_exact_chain_read_evidence v_0)) = None"
  by (simp_all add: dec_transaction_event_evidence_def canon_transaction_event_evidence_def
      dec_exact_chain_read_evidence_def canon_exact_chain_read_evidence_def dec_tagged)

interpretation stored_binding_evidence:
  stored_type is_binding_evidence dec_binding_evidence canon_binding_evidence
proof unfold_locales
  show "is_binding_evidence x
    \<Longrightarrow> dec_binding_evidence (sorted_keys (canon_binding_evidence x)) = Some x" for x
    by (cases x) (simp_all add: dec_binding_evidence_def binding_evidence_tags)
  show "dec_binding_evidence j = Some x \<Longrightarrow> is_binding_evidence x" for j x
    by (auto simp: dec_binding_evidence_def dest: stored_transaction_event_evidence.only_valid
        stored_exact_chain_read_evidence.only_valid split: option.split_asm)
  show "fields_distinct (canon_binding_evidence x)" for x by (cases x) simp_all
qed (simp add: dec_binding_evidence_def)

section \<open>Outcomes\<close>

definition dec_bound_deployment :: "json \<Rightarrow> bound_deployment option" where
  "dec_bound_deployment j = do {
     get \<leftarrow> dec_object ''BoundDeployment''
       [''operation_id'', ''subject'', ''groups'', ''group_population_digest'',
         ''binding_evidence'', ''schema_version''] j;
     operation_id \<leftarrow> dec_str (get ''operation_id'');
     subject \<leftarrow> dec_deployment_key (get ''subject'');
     groups \<leftarrow> dec_tuple dec_prepared_group (get ''groups'');
     group_population_digest \<leftarrow> dec_str (get ''group_population_digest'');
     binding_evidence \<leftarrow> dec_binding_evidence (get ''binding_evidence'');
     schema_version \<leftarrow> dec_int (get ''schema_version'');
     checked is_bound_deployment
       \<lparr>bd_operation_id = operation_id, bd_subject = subject, bd_groups = groups,
         bd_group_population_digest = group_population_digest,
         bd_binding_evidence = binding_evidence, bd_version = schema_version\<rparr>}"

lemma bound_deployment_parts:
  assumes "is_bound_deployment x"
  shows "is_deployment_key (bd_subject x)"
    and "z1 \<in> set (bd_groups x) \<Longrightarrow> is_prepared_group z1"
    and "is_binding_evidence (bd_binding_evidence x)"
  using assms by (auto simp: is_bound_deployment_def dest: group_population_valid)

interpretation stored_bound_deployment:
  stored_type is_bound_deployment dec_bound_deployment canon_bound_deployment
proof unfold_locales
  show "is_bound_deployment x
    \<Longrightarrow> dec_bound_deployment (sorted_keys (canon_bound_deployment x)) = Some x" for x
    by (simp add: dec_bound_deployment_def canon_bound_deployment_def dec_object_canon
        bound_deployment_parts)
qed (auto simp: dec_bound_deployment_def canon_bound_deployment_def bind_eq_Some_conv)

definition dec_create_outcome :: "json \<Rightarrow> create_outcome option" where
  "dec_create_outcome j = do {
     get \<leftarrow> dec_object ''CreateOutcome''
       [''operation_id'', ''kind'', ''reason_code'', ''rejection'', ''non_commit'',
         ''uncertainty'', ''deployment'', ''schema_version''] j;
     operation_id \<leftarrow> dec_str (get ''operation_id'');
     kind \<leftarrow> dec_enum create_outcome_kind_value create_outcome_kind_members (get ''kind'');
     reason_code \<leftarrow> dec_enum outcome_reason_code_value outcome_reason_code_members (get ''reason_code'');
     rejection \<leftarrow> dec_opt dec_rejection_evidence (get ''rejection'');
     non_commit \<leftarrow> dec_opt dec_non_commit_evidence (get ''non_commit'');
     uncertainty \<leftarrow> dec_opt dec_uncertainty_evidence (get ''uncertainty'');
     deployment \<leftarrow> dec_opt dec_bound_deployment (get ''deployment'');
     schema_version \<leftarrow> dec_int (get ''schema_version'');
     checked is_create_outcome
       \<lparr>co_operation_id = operation_id, co_kind = kind, co_reason_code = reason_code,
         co_rejection = rejection, co_non_commit = non_commit,
         co_uncertainty = uncertainty, co_deployment = deployment,
         co_version = schema_version\<rparr>}"

lemma create_outcome_parts:
  assumes "is_create_outcome x"
  shows "co_rejection x = Some y0 \<Longrightarrow> is_rejection_evidence y0"
    and "co_non_commit x = Some y1 \<Longrightarrow> is_non_commit_evidence y1"
    and "co_uncertainty x = Some y2 \<Longrightarrow> is_uncertainty_evidence y2"
    and "co_deployment x = Some y3 \<Longrightarrow> is_bound_deployment y3"
  using assms by (auto simp: is_create_outcome_def)

interpretation stored_create_outcome:
  stored_type is_create_outcome dec_create_outcome canon_create_outcome
proof unfold_locales
  show "is_create_outcome x
    \<Longrightarrow> dec_create_outcome (sorted_keys (canon_create_outcome x)) = Some x" for x
    by (simp add: dec_create_outcome_def canon_create_outcome_def dec_object_canon create_outcome_parts)
qed (auto simp: dec_create_outcome_def canon_create_outcome_def bind_eq_Some_conv)

definition dec_handoff_failure :: "json \<Rightarrow> handoff_failure option" where
  "dec_handoff_failure j = do {
     get \<leftarrow> dec_object ''HandoffFailure''
       [''operation_id'', ''subject'', ''source'', ''evidence_digest'', ''observed_at''] j;
     operation_id \<leftarrow> dec_str (get ''operation_id'');
     subject \<leftarrow> dec_deployment_key (get ''subject'');
     source \<leftarrow> dec_str (get ''source'');
     evidence_digest \<leftarrow> dec_str (get ''evidence_digest'');
     observed_at \<leftarrow> dec_int (get ''observed_at'');
     checked is_handoff_failure
       \<lparr>hf_operation_id = operation_id, hf_subject = subject, hf_source = source,
         hf_evidence_digest = evidence_digest, hf_observed_at = observed_at\<rparr>}"

lemma handoff_failure_parts:
  assumes "is_handoff_failure x"
  shows "is_deployment_key (hf_subject x)"
  using assms by (auto simp: is_handoff_failure_def)

interpretation stored_handoff_failure:
  stored_type is_handoff_failure dec_handoff_failure canon_handoff_failure
proof unfold_locales
  show "is_handoff_failure x
    \<Longrightarrow> dec_handoff_failure (sorted_keys (canon_handoff_failure x)) = Some x" for x
    by (simp add: dec_handoff_failure_def canon_handoff_failure_def dec_object_canon
        handoff_failure_parts)
qed (auto simp: dec_handoff_failure_def canon_handoff_failure_def bind_eq_Some_conv)

definition dec_creator_rollback_request :: "json \<Rightarrow> creator_rollback_request option" where
  "dec_creator_rollback_request j = do {
     get \<leftarrow> dec_object ''CreatorRollbackRequest''
       [''operation_id'', ''subject'', ''request_id'', ''source'', ''evidence_digest'',
         ''requested_at''] j;
     operation_id \<leftarrow> dec_str (get ''operation_id'');
     subject \<leftarrow> dec_deployment_key (get ''subject'');
     request_id \<leftarrow> dec_str (get ''request_id'');
     source \<leftarrow> dec_str (get ''source'');
     evidence_digest \<leftarrow> dec_str (get ''evidence_digest'');
     requested_at \<leftarrow> dec_int (get ''requested_at'');
     checked is_creator_rollback_request
       \<lparr>rr_operation_id = operation_id, rr_subject = subject,
         rr_request_id = request_id, rr_source = source,
         rr_evidence_digest = evidence_digest, rr_requested_at = requested_at\<rparr>}"

lemma creator_rollback_request_parts:
  assumes "is_creator_rollback_request x"
  shows "is_deployment_key (rr_subject x)"
  using assms by (auto simp: is_creator_rollback_request_def)

interpretation stored_creator_rollback_request:
  stored_type is_creator_rollback_request dec_creator_rollback_request canon_creator_rollback_request
proof unfold_locales
  show "is_creator_rollback_request x
    \<Longrightarrow> dec_creator_rollback_request (sorted_keys (canon_creator_rollback_request x)) = Some x" for x
    by (simp add: dec_creator_rollback_request_def canon_creator_rollback_request_def dec_object_canon
        creator_rollback_request_parts)
qed (auto simp: dec_creator_rollback_request_def canon_creator_rollback_request_def bind_eq_Some_conv)

definition dec_execution_closure :: "json \<Rightarrow> execution_closure option" where
  "dec_execution_closure j = do {
     get \<leftarrow> dec_object ''ExecutionClosure''
       [''operation_id'', ''subject'', ''chain_id'', ''proof_mode'', ''source_a'',
         ''source_b'', ''operator_identity_a'', ''operator_identity_b'',
         ''trust_path_a'', ''trust_path_b'', ''operator_independence_verified'',
         ''source_a_height'', ''source_b_height'', ''common_finality_height'',
         ''close_transaction_height'', ''group_population_digest'',
         ''lease_population_digest'', ''evidence_digest'', ''observed_at''] j;
     operation_id \<leftarrow> dec_str (get ''operation_id'');
     subject \<leftarrow> dec_deployment_key (get ''subject'');
     chain_id \<leftarrow> dec_str (get ''chain_id'');
     proof_mode \<leftarrow> dec_enum execution_closure_proof_mode_value execution_closure_proof_mode_members (get
         ''proof_mode'');
     source_a \<leftarrow> dec_str (get ''source_a'');
     source_b \<leftarrow> dec_str (get ''source_b'');
     operator_identity_a \<leftarrow> dec_str (get ''operator_identity_a'');
     operator_identity_b \<leftarrow> dec_str (get ''operator_identity_b'');
     trust_path_a \<leftarrow> dec_str (get ''trust_path_a'');
     trust_path_b \<leftarrow> dec_str (get ''trust_path_b'');
     operator_independence_verified \<leftarrow> dec_bool (get ''operator_independence_verified'');
     source_a_height \<leftarrow> dec_int (get ''source_a_height'');
     source_b_height \<leftarrow> dec_int (get ''source_b_height'');
     common_finality_height \<leftarrow> dec_int (get ''common_finality_height'');
     close_transaction_height \<leftarrow> dec_int (get ''close_transaction_height'');
     group_population_digest \<leftarrow> dec_str (get ''group_population_digest'');
     lease_population_digest \<leftarrow> dec_str (get ''lease_population_digest'');
     evidence_digest \<leftarrow> dec_str (get ''evidence_digest'');
     observed_at \<leftarrow> dec_int (get ''observed_at'');
     checked is_execution_closure
       \<lparr>ec_operation_id = operation_id, ec_subject = subject, ec_chain_id = chain_id,
         ec_proof_mode = proof_mode, ec_source_a = source_a, ec_source_b = source_b,
         ec_operator_identity_a = operator_identity_a,
         ec_operator_identity_b = operator_identity_b, ec_trust_path_a = trust_path_a,
         ec_trust_path_b = trust_path_b,
         ec_operator_independence_verified = operator_independence_verified,
         ec_source_a_height = source_a_height, ec_source_b_height = source_b_height,
         ec_common_finality_height = common_finality_height,
         ec_close_transaction_height = close_transaction_height,
         ec_group_population_digest = group_population_digest,
         ec_lease_population_digest = lease_population_digest,
         ec_evidence_digest = evidence_digest, ec_observed_at = observed_at\<rparr>}"

lemma execution_closure_parts:
  assumes "is_execution_closure x"
  shows "is_deployment_key (ec_subject x)"
  using assms by (auto simp: is_execution_closure_def)

interpretation stored_execution_closure:
  stored_type is_execution_closure dec_execution_closure canon_execution_closure
proof unfold_locales
  show "is_execution_closure x
    \<Longrightarrow> dec_execution_closure (sorted_keys (canon_execution_closure x)) = Some x" for x
    by (simp add: dec_execution_closure_def canon_execution_closure_def dec_object_canon
        execution_closure_parts)
qed (auto simp: dec_execution_closure_def canon_execution_closure_def bind_eq_Some_conv)

definition dec_settlement_evidence :: "json \<Rightarrow> settlement_evidence option" where
  "dec_settlement_evidence j = do {
     get \<leftarrow> dec_object ''SettlementEvidence''
       [''operation_id'', ''subject'', ''state'', ''source_a'', ''source_b'',
         ''evidence_digest'', ''observed_at''] j;
     operation_id \<leftarrow> dec_str (get ''operation_id'');
     subject \<leftarrow> dec_deployment_key (get ''subject'');
     state \<leftarrow> dec_enum settlement_state_value settlement_state_members (get ''state'');
     source_a \<leftarrow> dec_str (get ''source_a'');
     source_b \<leftarrow> dec_str (get ''source_b'');
     evidence_digest \<leftarrow> dec_str (get ''evidence_digest'');
     observed_at \<leftarrow> dec_int (get ''observed_at'');
     checked is_settlement_evidence
       \<lparr>sv_operation_id = operation_id, sv_subject = subject, sv_state = state,
         sv_source_a = source_a, sv_source_b = source_b,
         sv_evidence_digest = evidence_digest, sv_observed_at = observed_at\<rparr>}"

lemma settlement_evidence_parts:
  assumes "is_settlement_evidence x"
  shows "is_deployment_key (sv_subject x)"
  using assms by (auto simp: is_settlement_evidence_def)

interpretation stored_settlement_evidence:
  stored_type is_settlement_evidence dec_settlement_evidence canon_settlement_evidence
proof unfold_locales
  show "is_settlement_evidence x
    \<Longrightarrow> dec_settlement_evidence (sorted_keys (canon_settlement_evidence x)) = Some x" for x
    by (simp add: dec_settlement_evidence_def canon_settlement_evidence_def dec_object_canon
        settlement_evidence_parts)
qed (auto simp: dec_settlement_evidence_def canon_settlement_evidence_def bind_eq_Some_conv)

section \<open>Entries and the journal\<close>

definition dec_transition_payload :: "json \<Rightarrow> transition_payload option" where
  "dec_transition_payload = dec_union
       [\<lambda>j. map_option PayPrepared (dec_prepared_create j),
        \<lambda>j. map_option PaySubmission (dec_submission_evidence j),
        \<lambda>j. map_option PayOutcome (dec_create_outcome j),
        \<lambda>j. map_option PayHandoff (dec_handoff_failure j),
        \<lambda>j. map_option PayRollback (dec_creator_rollback_request j),
        \<lambda>j. map_option PayClosure (dec_execution_closure j),
        \<lambda>j. map_option PaySettlement (dec_settlement_evidence j)]"

lemma transition_payload_tags:
  "dec_prepared_create (sorted_keys (canon_submission_evidence v_0)) = None"
  "dec_prepared_create (sorted_keys (canon_create_outcome v_1)) = None"
  "dec_prepared_create (sorted_keys (canon_handoff_failure v_2)) = None"
  "dec_prepared_create (sorted_keys (canon_creator_rollback_request v_3)) = None"
  "dec_prepared_create (sorted_keys (canon_execution_closure v_4)) = None"
  "dec_prepared_create (sorted_keys (canon_settlement_evidence v_5)) = None"
  "dec_submission_evidence (sorted_keys (canon_create_outcome v_6)) = None"
  "dec_submission_evidence (sorted_keys (canon_handoff_failure v_7)) = None"
  "dec_submission_evidence (sorted_keys (canon_creator_rollback_request v_8)) = None"
  "dec_submission_evidence (sorted_keys (canon_execution_closure v_9)) = None"
  "dec_submission_evidence (sorted_keys (canon_settlement_evidence v_10)) = None"
  "dec_create_outcome (sorted_keys (canon_handoff_failure v_11)) = None"
  "dec_create_outcome (sorted_keys (canon_creator_rollback_request v_12)) = None"
  "dec_create_outcome (sorted_keys (canon_execution_closure v_13)) = None"
  "dec_create_outcome (sorted_keys (canon_settlement_evidence v_14)) = None"
  "dec_handoff_failure (sorted_keys (canon_creator_rollback_request v_15)) = None"
  "dec_handoff_failure (sorted_keys (canon_execution_closure v_16)) = None"
  "dec_handoff_failure (sorted_keys (canon_settlement_evidence v_17)) = None"
  "dec_creator_rollback_request (sorted_keys (canon_execution_closure v_18)) = None"
  "dec_creator_rollback_request (sorted_keys (canon_settlement_evidence v_19)) = None"
  "dec_execution_closure (sorted_keys (canon_settlement_evidence v_20)) = None"
  by (simp_all add: dec_prepared_create_def canon_prepared_create_def dec_submission_evidence_def
      canon_submission_evidence_def dec_create_outcome_def canon_create_outcome_def
      dec_handoff_failure_def canon_handoff_failure_def dec_creator_rollback_request_def
      canon_creator_rollback_request_def dec_execution_closure_def canon_execution_closure_def
      dec_settlement_evidence_def canon_settlement_evidence_def dec_tagged)

interpretation stored_transition_payload:
  stored_type is_transition_payload dec_transition_payload canon_transition_payload
proof unfold_locales
  show "is_transition_payload x
    \<Longrightarrow> dec_transition_payload (sorted_keys (canon_transition_payload x)) = Some x" for x
    by (cases x) (simp_all add: dec_transition_payload_def transition_payload_tags)
  show "dec_transition_payload j = Some x \<Longrightarrow> is_transition_payload x" for j x
    by (auto simp: dec_transition_payload_def dest: stored_prepared_create.only_valid
        stored_submission_evidence.only_valid stored_create_outcome.only_valid
        stored_handoff_failure.only_valid stored_creator_rollback_request.only_valid
        stored_execution_closure.only_valid stored_settlement_evidence.only_valid split:
        option.split_asm)
  show "fields_distinct (canon_transition_payload x)" for x by (cases x) simp_all
qed (simp add: dec_transition_payload_def)

definition accepted :: "'a result \<Rightarrow> 'a option" where
  "accepted r = (case r of Inl _ \<Rightarrow> None | Inr x \<Rightarrow> Some x)"

definition dec_journal_entry :: "json \<Rightarrow> journal_entry option" where
  "dec_journal_entry j = do {
     get \<leftarrow> dec_object ''JournalEntry''
       [''revision'', ''operation_id'', ''state'', ''payload'', ''recorded_at'',
         ''previous_entry_digest'', ''entry_digest'', ''schema_version''] j;
     revision \<leftarrow> dec_int (get ''revision'');
     operation_id \<leftarrow> dec_str (get ''operation_id'');
     state \<leftarrow> dec_enum journal_state_value journal_state_members (get ''state'');
     payload \<leftarrow> dec_transition_payload (get ''payload'');
     recorded_at \<leftarrow> dec_int (get ''recorded_at'');
     previous_entry_digest \<leftarrow> dec_opt dec_str (get ''previous_entry_digest'');
     entry_digest \<leftarrow> dec_str (get ''entry_digest'');
     schema_version \<leftarrow> dec_int (get ''schema_version'');
     accepted (mk_journal_entry
       \<lparr>je_revision = revision, je_operation_id = operation_id, je_state = state,
         je_payload = payload, je_recorded_at = recorded_at,
         je_previous_entry_digest = previous_entry_digest,
         je_entry_digest = entry_digest, je_version = schema_version\<rparr>)}"

lemma entry_digest_nonempty: "entry_digest_of e \<noteq> []"
  unfolding entry_digest_of_def by (rule is_digest_nonempty) simp

lemma mk_journal_entry_valid: "is_journal_entry e \<Longrightarrow> mk_journal_entry e = Inr e"
  using entry_digest_nonempty[of e] by (simp add: mk_journal_entry_def is_journal_entry_def Let_def)

lemma entry_digest_ignored [simp]: "entry_digest_of (e\<lparr>je_entry_digest := d\<rparr>) = entry_digest_of e"
  by (simp add: entry_digest_of_def)

lemma mk_journal_entry_sound: "mk_journal_entry e = Inr x \<Longrightarrow> is_journal_entry x"
  by (auto simp: mk_journal_entry_def is_journal_entry_def entry_fields_ok_def Let_def split:
      if_split_asm)

lemma accepted_eq_Some [simp]: "accepted r = Some x \<longleftrightarrow> r = Inr x"
  by (simp add: accepted_def split: sum.split)

lemma journal_entry_part: "is_journal_entry e \<Longrightarrow> is_transition_payload (je_payload e)"
  by (simp add: is_journal_entry_def entry_fields_ok_def)

interpretation stored_journal_entry:
  stored_type is_journal_entry dec_journal_entry canon_journal_entry
proof unfold_locales
  show "is_journal_entry x
    \<Longrightarrow> dec_journal_entry (sorted_keys (canon_journal_entry x)) = Some x" for x
    using journal_entry_part[of x]
    by (cases x) (simp add: dec_journal_entry_def canon_journal_entry_def dec_object_canon
        mk_journal_entry_valid)
  show "dec_journal_entry j = Some x \<Longrightarrow> is_journal_entry x" for j x
    by (auto simp: dec_journal_entry_def bind_eq_Some_conv intro: mk_journal_entry_sound)
qed (simp_all add: dec_journal_entry_def canon_journal_entry_def)

text \<open>\<^verbatim>\<open>CreateJournal.__post_init__\<close> replays the history.\<close>

definition canon_create_journal :: "create_journal \<Rightarrow> json" where
  "canon_create_journal x = canon_dataclass ''CreateJournal''
     [(''entries'', canon_tuple canon_journal_entry (cj_entries x)),
      (''schema_version'', JInt (cj_version x))]"

definition dec_create_journal :: "json \<Rightarrow> create_journal option" where
  "dec_create_journal j = do {
     get \<leftarrow> dec_object ''CreateJournal'' [''entries'', ''schema_version''] j;
     entries \<leftarrow> dec_tuple dec_journal_entry (get ''entries'');
     schema_version \<leftarrow> dec_int (get ''schema_version'');
     accepted (mk_create_journal entries schema_version)}"

lemma mk_create_journal_sound: "mk_create_journal es v = Inr j \<Longrightarrow> is_create_journal j"
  by (auto simp: is_create_journal_def mk_create_journal_def split: if_split_asm sum.split_asm)

lemma journal_entries_valid: "is_create_journal j \<Longrightarrow> e \<in> set (cj_entries j) \<Longrightarrow> is_journal_entry e"
  by (auto simp: is_create_journal_def mk_create_journal_def list_all_iff split: if_split_asm)

interpretation stored_create_journal:
  stored_type is_create_journal dec_create_journal canon_create_journal
proof unfold_locales
  show "is_create_journal x
    \<Longrightarrow> dec_create_journal (sorted_keys (canon_create_journal x)) = Some x" for x
    using journal_entries_valid[of x]
    by (simp add: dec_create_journal_def canon_create_journal_def dec_object_canon
        is_create_journal_def)
  show "dec_create_journal j = Some x \<Longrightarrow> is_create_journal x" for j x
    by (auto simp: dec_create_journal_def bind_eq_Some_conv intro: mk_create_journal_sound)
qed (simp_all add: dec_create_journal_def canon_create_journal_def)

end
