(* ===== verification/StoredAdmission.thy ===== *)
theory StoredAdmission
  imports StoredJournal AdmissionData
begin

text \<open>
  The stored form of admission data, for \<^verbatim>\<open>recovery_codec.py\<close>: budgets, censuses, requests,
  reservations and states. Permits and proposals have no decoder, as in the code.
\<close>

definition census_status_members :: "census_status list" where
  "census_status_members = [CENSUS_VERIFIED, CENSUS_INCOMPLETE, CENSUS_UNAVAILABLE]"

lemma census_status_read [simp]:
  "dec_enum census_status_value census_status_members (canon_enum census_status_value x) = Some x"
  by (cases x) (simp_all add: census_status_members_def enum_read)

definition reservation_state_members :: "reservation_state list" where
  "reservation_state_members = [RES_RESERVED, RES_SUBMITTING, RES_CREATE_OUTCOME_UNKNOWN,
      RES_NON_COMMIT_PROVEN,
      RES_COMMITTED, RES_EXECUTION_CLOSED, RES_SETTLED]"

lemma reservation_state_read [simp]:
  "dec_enum reservation_state_value reservation_state_members (canon_enum reservation_state_value x) =
      Some x"
  by (cases x) (simp_all add: reservation_state_members_def enum_read)

definition dec_admission_scope :: "json \<Rightarrow> admission_scope option" where
  "dec_admission_scope j = do {
     get \<leftarrow> dec_object ''AdmissionScope''
       [''chain_id'', ''owner'', ''producer_issuer'', ''repository_owner_id'',
         ''repository_id'', ''repository'', ''workload_class'', ''schema_version''] j;
     chain_id \<leftarrow> dec_str (get ''chain_id'');
     owner \<leftarrow> dec_str (get ''owner'');
     producer_issuer \<leftarrow> dec_str (get ''producer_issuer'');
     repository_owner_id \<leftarrow> dec_str (get ''repository_owner_id'');
     repository_id \<leftarrow> dec_str (get ''repository_id'');
     repository \<leftarrow> dec_str (get ''repository'');
     workload_class \<leftarrow> dec_str (get ''workload_class'');
     schema_version \<leftarrow> dec_int (get ''schema_version'');
     checked is_admission_scope
       \<lparr>as_chain_id = chain_id, as_owner = owner, as_producer_issuer = producer_issuer,
         as_repository_owner_id = repository_owner_id, as_repository_id = repository_id,
         as_repository = repository, as_workload_class = workload_class,
         as_version = schema_version\<rparr>}"

interpretation stored_admission_scope:
  stored_type is_admission_scope dec_admission_scope canon_admission_scope
proof unfold_locales
  show "is_admission_scope x
    \<Longrightarrow> dec_admission_scope (sorted_keys (canon_admission_scope x)) = Some x" for x
    by (simp add: dec_admission_scope_def canon_admission_scope_def dec_object_canon)
qed (auto simp: dec_admission_scope_def canon_admission_scope_def bind_eq_Some_conv)

definition dec_owner_budget_scope :: "json \<Rightarrow> owner_budget_scope option" where
  "dec_owner_budget_scope j = do {
     get \<leftarrow> dec_object ''OwnerBudgetScope''
       [''chain_id'', ''owner'', ''schema_version''] j;
     chain_id \<leftarrow> dec_str (get ''chain_id'');
     owner \<leftarrow> dec_str (get ''owner'');
     schema_version \<leftarrow> dec_int (get ''schema_version'');
     checked is_owner_budget_scope
       \<lparr>os_chain_id = chain_id, os_owner = owner, os_version = schema_version\<rparr>}"

interpretation stored_owner_budget_scope:
  stored_type is_owner_budget_scope dec_owner_budget_scope canon_owner_budget_scope
proof unfold_locales
  show "is_owner_budget_scope x
    \<Longrightarrow> dec_owner_budget_scope (sorted_keys (canon_owner_budget_scope x)) = Some x" for x
    by (simp add: dec_owner_budget_scope_def canon_owner_budget_scope_def dec_object_canon)
qed (auto simp: dec_owner_budget_scope_def canon_owner_budget_scope_def bind_eq_Some_conv)

definition dec_containment_limits :: "json \<Rightarrow> containment_limits option" where
  "dec_containment_limits j = do {
     get \<leftarrow> dec_object ''ContainmentLimits''
       [''max_active_deployments'', ''max_unresolved_create_outcomes'',
         ''max_financial_exposure_uact'', ''exposure_policy_revision'',
         ''admission_policy_revision'', ''policy_reference'', ''valid_until'',
         ''schema_version''] j;
     max_active_deployments \<leftarrow> dec_int (get ''max_active_deployments'');
     max_unresolved_create_outcomes \<leftarrow> dec_int (get ''max_unresolved_create_outcomes'');
     max_financial_exposure_uact \<leftarrow> dec_int (get ''max_financial_exposure_uact'');
     exposure_policy_revision \<leftarrow> dec_str (get ''exposure_policy_revision'');
     admission_policy_revision \<leftarrow> dec_str (get ''admission_policy_revision'');
     policy_reference \<leftarrow> dec_str (get ''policy_reference'');
     valid_until \<leftarrow> dec_int (get ''valid_until'');
     schema_version \<leftarrow> dec_int (get ''schema_version'');
     checked is_containment_limits
       \<lparr>cl_max_active_deployments = max_active_deployments,
         cl_max_unresolved_create_outcomes = max_unresolved_create_outcomes,
         cl_max_financial_exposure_uact = max_financial_exposure_uact,
         cl_exposure_policy_revision = exposure_policy_revision,
         cl_admission_policy_revision = admission_policy_revision,
         cl_policy_reference = policy_reference, cl_valid_until = valid_until,
         cl_version = schema_version\<rparr>}"

interpretation stored_containment_limits:
  stored_type is_containment_limits dec_containment_limits canon_containment_limits
proof unfold_locales
  show "is_containment_limits x
    \<Longrightarrow> dec_containment_limits (sorted_keys (canon_containment_limits x)) = Some x" for x
    by (simp add: dec_containment_limits_def canon_containment_limits_def dec_object_canon)
qed (auto simp: dec_containment_limits_def canon_containment_limits_def bind_eq_Some_conv)

definition dec_containment_census :: "json \<Rightarrow> containment_census option" where
  "dec_containment_census j = do {
     get \<leftarrow> dec_object ''ContainmentCensus''
       [''active_deployments'', ''unresolved_create_outcomes'',
         ''financial_exposure_uact'', ''excluded_reservation_count'',
         ''excluded_reservation_population_digest'', ''journal_status'',
         ''recovery_reader_status'', ''chain_status'', ''accounting_status'',
         ''observed_at'', ''valid_until'', ''evidence_digest'', ''schema_version''] j;
     active_deployments \<leftarrow> dec_int (get ''active_deployments'');
     unresolved_create_outcomes \<leftarrow> dec_int (get ''unresolved_create_outcomes'');
     financial_exposure_uact \<leftarrow> dec_int (get ''financial_exposure_uact'');
     excluded_reservation_count \<leftarrow> dec_int (get ''excluded_reservation_count'');
     excluded_reservation_population_digest \<leftarrow> dec_str (get ''excluded_reservation_population_digest'');
     journal_status \<leftarrow> dec_enum census_status_value census_status_members (get ''journal_status'');
     recovery_reader_status \<leftarrow> dec_enum census_status_value census_status_members (get
         ''recovery_reader_status'');
     chain_status \<leftarrow> dec_enum census_status_value census_status_members (get ''chain_status'');
     accounting_status \<leftarrow> dec_enum census_status_value census_status_members (get ''accounting_status'');
     observed_at \<leftarrow> dec_int (get ''observed_at'');
     valid_until \<leftarrow> dec_int (get ''valid_until'');
     evidence_digest \<leftarrow> dec_str (get ''evidence_digest'');
     schema_version \<leftarrow> dec_int (get ''schema_version'');
     checked is_containment_census
       \<lparr>cc_active_deployments = active_deployments,
         cc_unresolved_create_outcomes = unresolved_create_outcomes,
         cc_financial_exposure_uact = financial_exposure_uact,
         cc_excluded_reservation_count = excluded_reservation_count,
         cc_excluded_reservation_population_digest = excluded_reservation_population_digest,
         cc_journal_status = journal_status,
         cc_recovery_reader_status = recovery_reader_status,
         cc_chain_status = chain_status, cc_accounting_status = accounting_status,
         cc_observed_at = observed_at, cc_valid_until = valid_until,
         cc_evidence_digest = evidence_digest, cc_version = schema_version\<rparr>}"

interpretation stored_containment_census:
  stored_type is_containment_census dec_containment_census canon_containment_census
proof unfold_locales
  show "is_containment_census x
    \<Longrightarrow> dec_containment_census (sorted_keys (canon_containment_census x)) = Some x" for x
    by (simp add: dec_containment_census_def canon_containment_census_def dec_object_canon)
qed (auto simp: dec_containment_census_def canon_containment_census_def bind_eq_Some_conv)

definition dec_budget_scope :: "json \<Rightarrow> budget_scope option" where
  "dec_budget_scope = dec_union
       [\<lambda>j. map_option OwnerScope (dec_owner_budget_scope j),
        \<lambda>j. map_option LeafScope (dec_admission_scope j)]"

lemma budget_scope_tags:
  "dec_owner_budget_scope (sorted_keys (canon_admission_scope v_0)) = None"
  by (simp_all add: dec_owner_budget_scope_def canon_owner_budget_scope_def dec_admission_scope_def
      canon_admission_scope_def dec_tagged)

interpretation stored_budget_scope:
  stored_type is_budget_scope dec_budget_scope canon_budget_scope
proof unfold_locales
  show "is_budget_scope x
    \<Longrightarrow> dec_budget_scope (sorted_keys (canon_budget_scope x)) = Some x" for x
    by (cases x) (simp_all add: dec_budget_scope_def budget_scope_tags)
  show "dec_budget_scope j = Some x \<Longrightarrow> is_budget_scope x" for j x
    by (auto simp: dec_budget_scope_def dest: stored_owner_budget_scope.only_valid
        stored_admission_scope.only_valid split: option.split_asm)
  show "fields_distinct (canon_budget_scope x)" for x by (cases x) simp_all
qed (simp add: dec_budget_scope_def)

definition dec_scope_budget :: "json \<Rightarrow> scope_budget option" where
  "dec_scope_budget j = do {
     get \<leftarrow> dec_object ''ScopeBudget''
       [''scope'', ''limits'', ''census'', ''schema_version''] j;
     scope \<leftarrow> dec_budget_scope (get ''scope'');
     limits \<leftarrow> dec_containment_limits (get ''limits'');
     census \<leftarrow> dec_containment_census (get ''census'');
     schema_version \<leftarrow> dec_int (get ''schema_version'');
     checked is_scope_budget
       \<lparr>sb_scope = scope, sb_limits = limits, sb_census = census,
         sb_version = schema_version\<rparr>}"

lemma scope_budget_parts:
  assumes "is_scope_budget x"
  shows "is_budget_scope (sb_scope x)"
    and "is_containment_limits (sb_limits x)"
    and "is_containment_census (sb_census x)"
  using assms by (auto simp: is_scope_budget_def)

interpretation stored_scope_budget:
  stored_type is_scope_budget dec_scope_budget canon_scope_budget
proof unfold_locales
  show "is_scope_budget x
    \<Longrightarrow> dec_scope_budget (sorted_keys (canon_scope_budget x)) = Some x" for x
    by (simp add: dec_scope_budget_def canon_scope_budget_def dec_object_canon scope_budget_parts)
qed (auto simp: dec_scope_budget_def canon_scope_budget_def bind_eq_Some_conv)

definition dec_create_exposure_evidence :: "json \<Rightarrow> create_exposure_evidence option" where
  "dec_create_exposure_evidence j = do {
     get \<leftarrow> dec_object ''CreateExposureEvidence''
       [''chain_id'', ''operation_id'', ''prepared_operation_digest'',
         ''request_digest'', ''sdl_digest'', ''backend'', ''backend_policy_revision'',
         ''amount_uact'', ''source'', ''evidence_digest'', ''observed_at'',
         ''valid_until'', ''schema_version''] j;
     chain_id \<leftarrow> dec_str (get ''chain_id'');
     operation_id \<leftarrow> dec_str (get ''operation_id'');
     prepared_operation_digest \<leftarrow> dec_str (get ''prepared_operation_digest'');
     request_digest \<leftarrow> dec_str (get ''request_digest'');
     sdl_digest \<leftarrow> dec_str (get ''sdl_digest'');
     backend \<leftarrow> dec_backend_identity (get ''backend'');
     backend_policy_revision \<leftarrow> dec_str (get ''backend_policy_revision'');
     amount_uact \<leftarrow> dec_int (get ''amount_uact'');
     source \<leftarrow> dec_str (get ''source'');
     evidence_digest \<leftarrow> dec_str (get ''evidence_digest'');
     observed_at \<leftarrow> dec_int (get ''observed_at'');
     valid_until \<leftarrow> dec_int (get ''valid_until'');
     schema_version \<leftarrow> dec_int (get ''schema_version'');
     checked is_create_exposure_evidence
       \<lparr>xe_chain_id = chain_id, xe_operation_id = operation_id,
         xe_prepared_operation_digest = prepared_operation_digest,
         xe_request_digest = request_digest, xe_sdl_digest = sdl_digest,
         xe_backend = backend, xe_backend_policy_revision = backend_policy_revision,
         xe_amount_uact = amount_uact, xe_source = source,
         xe_evidence_digest = evidence_digest, xe_observed_at = observed_at,
         xe_valid_until = valid_until, xe_version = schema_version\<rparr>}"

lemma create_exposure_evidence_parts:
  assumes "is_create_exposure_evidence x"
  shows "is_backend_identity (xe_backend x)"
  using assms by (auto simp: is_create_exposure_evidence_def)

interpretation stored_create_exposure_evidence:
  stored_type is_create_exposure_evidence dec_create_exposure_evidence canon_create_exposure_evidence
proof unfold_locales
  show "is_create_exposure_evidence x
    \<Longrightarrow> dec_create_exposure_evidence (sorted_keys (canon_create_exposure_evidence x)) = Some x" for x
    by (simp add: dec_create_exposure_evidence_def canon_create_exposure_evidence_def dec_object_canon
        create_exposure_evidence_parts)
qed (auto simp: dec_create_exposure_evidence_def canon_create_exposure_evidence_def bind_eq_Some_conv)

definition dec_admission_request :: "json \<Rightarrow> admission_request option" where
  "dec_admission_request j = do {
     get \<leftarrow> dec_object ''AdmissionRequest''
       [''prepared'', ''scope'', ''exposure'', ''requested_at'', ''schema_version''] j;
     prepared \<leftarrow> dec_prepared_create (get ''prepared'');
     scope \<leftarrow> dec_admission_scope (get ''scope'');
     exposure \<leftarrow> dec_create_exposure_evidence (get ''exposure'');
     requested_at \<leftarrow> dec_int (get ''requested_at'');
     schema_version \<leftarrow> dec_int (get ''schema_version'');
     checked is_admission_request
       \<lparr>ar_prepared = prepared, ar_scope = scope, ar_exposure = exposure,
         ar_requested_at = requested_at, ar_version = schema_version\<rparr>}"

lemma admission_request_parts:
  assumes "is_admission_request x"
  shows "is_prepared_create (ar_prepared x)"
    and "is_admission_scope (ar_scope x)"
    and "is_create_exposure_evidence (ar_exposure x)"
  using assms by (auto simp: is_admission_request_def)

interpretation stored_admission_request:
  stored_type is_admission_request dec_admission_request canon_admission_request
proof unfold_locales
  show "is_admission_request x
    \<Longrightarrow> dec_admission_request (sorted_keys (canon_admission_request x)) = Some x" for x
    by (simp add: dec_admission_request_def canon_admission_request_def dec_object_canon
        admission_request_parts)
qed (auto simp: dec_admission_request_def canon_admission_request_def bind_eq_Some_conv)

definition dec_capacity_reservation :: "json \<Rightarrow> capacity_reservation option" where
  "dec_capacity_reservation j = do {
     get \<leftarrow> dec_object ''CapacityReservation''
       [''request'', ''state'', ''state_evidence_digest'', ''bound_deployment'',
         ''schema_version''] j;
     request \<leftarrow> dec_admission_request (get ''request'');
     state \<leftarrow> dec_enum reservation_state_value reservation_state_members (get ''state'');
     state_evidence_digest \<leftarrow> dec_str (get ''state_evidence_digest'');
     bound_deployment \<leftarrow> dec_opt dec_bound_deployment (get ''bound_deployment'');
     schema_version \<leftarrow> dec_int (get ''schema_version'');
     checked is_capacity_reservation
       \<lparr>cr_request = request, cr_state = state,
         cr_state_evidence_digest = state_evidence_digest,
         cr_bound_deployment = bound_deployment, cr_version = schema_version\<rparr>}"

lemma capacity_reservation_parts:
  assumes "is_capacity_reservation x"
  shows "is_admission_request (cr_request x)"
    and "cr_bound_deployment x = Some y1 \<Longrightarrow> is_bound_deployment y1"
  using assms by (auto simp: is_capacity_reservation_def)

interpretation stored_capacity_reservation:
  stored_type is_capacity_reservation dec_capacity_reservation canon_capacity_reservation
proof unfold_locales
  show "is_capacity_reservation x
    \<Longrightarrow> dec_capacity_reservation (sorted_keys (canon_capacity_reservation x)) = Some x" for x
    by (simp add: dec_capacity_reservation_def canon_capacity_reservation_def dec_object_canon
        capacity_reservation_parts)
qed (auto simp: dec_capacity_reservation_def canon_capacity_reservation_def bind_eq_Some_conv)

definition dec_admission_state :: "json \<Rightarrow> admission_state option" where
  "dec_admission_state j = do {
     get \<leftarrow> dec_object ''AdmissionState''
       [''budgets'', ''reservations'', ''revision'', ''schema_version''] j;
     budgets \<leftarrow> dec_tuple dec_scope_budget (get ''budgets'');
     reservations \<leftarrow> dec_tuple dec_capacity_reservation (get ''reservations'');
     revision \<leftarrow> dec_int (get ''revision'');
     schema_version \<leftarrow> dec_int (get ''schema_version'');
     checked is_admission_state
       \<lparr>st_budgets = budgets, st_reservations = reservations, st_revision = revision,
         st_version = schema_version\<rparr>}"

lemma admission_state_parts:
  assumes "is_admission_state x"
  shows "z0 \<in> set (st_budgets x) \<Longrightarrow> is_scope_budget z0"
    and "z1 \<in> set (st_reservations x) \<Longrightarrow> is_capacity_reservation z1"
  using assms by (auto simp: is_admission_state_def simp: list_all_iff)

interpretation stored_admission_state:
  stored_type is_admission_state dec_admission_state canon_admission_state
proof unfold_locales
  show "is_admission_state x
    \<Longrightarrow> dec_admission_state (sorted_keys (canon_admission_state x)) = Some x" for x
    by (simp add: dec_admission_state_def canon_admission_state_def dec_object_canon
        admission_state_parts)
qed (auto simp: dec_admission_state_def canon_admission_state_def bind_eq_Some_conv)

end
