(* ===== verification/RecoveryCodec.thy ===== *)
theory RecoveryCodec
  imports StoredAdmission JournalProperties AdmissionSample
begin

text \<open>
  \<^verbatim>\<open>recovery_codec.py\<close>: the bounds and the four roots. Decoding refines the abstract store that holds a
  valid value or nothing: exactly the canonical bytes of a valid value within the bounds are accepted.
  \<open>limit\<close> is the nesting of containers that the reader accepts before the interpreter's recursion
  limit; the statements ask only that the value at hand is \<open>readable\<close> under it.
\<close>

section \<open>The roots\<close>

definition MAX_RECOVERY_BYTES :: nat where "MAX_RECOVERY_BYTES = 8 * 1024 * 1024"
definition MAX_RECOVERY_DEPTH :: nat where "MAX_RECOVERY_DEPTH = 64"
definition MAX_RECOVERY_NODES :: nat where "MAX_RECOVERY_NODES = 100000"

definition decode_recovery :: "nat \<Rightarrow> (json \<Rightarrow> 'a option) \<Rightarrow> ('a \<Rightarrow> json) \<Rightarrow> string \<Rightarrow> 'a option" where
  "decode_recovery limit = decode_root limit MAX_RECOVERY_BYTES MAX_RECOVERY_DEPTH MAX_RECOVERY_NODES"

definition decode_create_journal :: "nat \<Rightarrow> string \<Rightarrow> create_journal option" where
  "decode_create_journal limit = decode_recovery limit dec_create_journal canon_create_journal"

definition decode_admission_state :: "nat \<Rightarrow> string \<Rightarrow> admission_state option" where
  "decode_admission_state limit = decode_recovery limit dec_admission_state canon_admission_state"

definition decode_prepared_create :: "nat \<Rightarrow> string \<Rightarrow> prepared_create option" where
  "decode_prepared_create limit = decode_recovery limit dec_prepared_create canon_prepared_create"

definition decode_admission_request :: "nat \<Rightarrow> string \<Rightarrow> admission_request option" where
  "decode_admission_request limit = decode_recovery limit dec_admission_request canon_admission_request"

text \<open>The bounds of the codec.\<close>

definition recoverable :: "json \<Rightarrow> bool" where
  "recoverable = storable MAX_RECOVERY_BYTES MAX_RECOVERY_DEPTH MAX_RECOVERY_NODES"

lemmas recovery_exact = stored_create_journal.decode_exact stored_admission_state.decode_exact

lemmas recovery_sound = stored_create_journal.decode_sound stored_admission_state.decode_sound
  stored_prepared_create.decode_sound stored_admission_request.decode_sound

lemmas decode_defs = decode_recovery_def decode_create_journal_def decode_admission_state_def
  decode_prepared_create_def decode_admission_request_def

section \<open>Recovery of a journal\<close>

text \<open>
  C18: Recovering a journal after a restart is the inverse of storing it. The decoder gives a journal if
  and only if the journal is valid, that is, its whole history replays, it keeps to the bounds of the
  codec, and the stored bytes are its canonical bytes. So no edited, reordered, truncated or merely
  reformatted bytes are taken for it, every valid journal within the bounds is recovered with every
  entry, digest and signed byte string as it was, and one that grew beyond them is not recovered at all.
\<close>
theorem journal_recovery_exact:
  assumes "readable limit (canon_create_journal j)"
  shows "decode_create_journal limit payload = Some j
    \<longleftrightarrow> is_create_journal j \<and> recoverable (canon_create_journal j)
      \<and> payload = canonical_journal_bytes (canon_create_journal j)"
  using assms by (simp add: decode_defs recoverable_def recovery_exact)

section \<open>Restarts between appends\<close>

type_synonym step = "journal_state \<times> transition_payload \<times> int"

text \<open>One step of a runner: recover the stored journal, append, store what was appended.\<close>

definition stored_append :: "nat \<Rightarrow> step \<Rightarrow> string \<Rightarrow> string" where
  "stored_append limit s payload =
     (case s of (st, pl, t) \<Rightarrow>
      case decode_create_journal limit payload of
        None \<Rightarrow> payload
      | Some j \<Rightarrow>
          (case append_transition j st pl t of
             Inl _ \<Rightarrow> payload
           | Inr j' \<Rightarrow> canonical_journal_bytes (canon_create_journal j')))"

definition abstract_append :: "step \<Rightarrow> create_journal \<Rightarrow> create_journal" where
  "abstract_append s j =
     (case s of (st, pl, t) \<Rightarrow> case append_transition j st pl t of Inl _ \<Rightarrow> j | Inr j' \<Rightarrow> j')"

lemma append_valid: "append_transition j st pl t = Inr j' \<Longrightarrow> is_create_journal j'"
  by (auto simp: append_transition_def bindR_eq_Inr split: if_split_asm dest: mk_create_journal_sound)

text \<open>A journal that the interpreter reads and the codec admits.\<close>

definition fits :: "nat \<Rightarrow> create_journal \<Rightarrow> bool" where
  "fits limit j \<longleftrightarrow> readable limit (canon_create_journal j) \<and> recoverable (canon_create_journal j)"

lemma journal_stored:
  "is_create_journal j \<Longrightarrow> fits limit j
   \<Longrightarrow> decode_create_journal limit (canonical_journal_bytes (canon_create_journal j)) = Some j"
  by (simp add: decode_defs recoverable_def recovery_exact fits_def)

lemma stored_append_step:
  assumes "decode_create_journal limit payload = Some j"
    and "fits limit (abstract_append s j)"
  shows "decode_create_journal limit (stored_append limit s payload) = Some (abstract_append s j)"
proof -
  obtain st pl t where s: "s = (st, pl, t)" by (cases s)
  show ?thesis
  proof (cases "append_transition j st pl t")
    case (Inr j')
    then show ?thesis
      using assms journal_stored[OF append_valid[OF Inr]] by (simp add: s stored_append_def
          abstract_append_def)
  qed (simp add: s stored_append_def abstract_append_def assms(1))
qed

text \<open>
  C19: Restarts do not show. A runner that recovers the journal from its store before every append and
  stores the canonical bytes afterwards simulates appending to one journal in memory: after every
  sequence of steps, refused ones included, the store holds the bytes of the journal in memory, as
  long as the journals fit the bounds of the codec.
\<close>
theorem restarts_refine_appends:
  assumes "decode_create_journal limit payload = Some j"
    and "\<forall>n \<le> length steps. fits limit (fold abstract_append (take n steps) j)"
  shows "decode_create_journal limit (fold (stored_append limit) steps payload)
    = Some (fold abstract_append steps j)"
  using assms
proof (induction steps arbitrary: payload j)
  case (Cons s steps)
  have "fits limit (abstract_append s j)"
    using Cons.prems(2)[rule_format, of 1] by simp
  then have "decode_create_journal limit (stored_append limit s payload) = Some (abstract_append s j)"
    using Cons.prems by (intro stored_append_step)
  moreover have "\<forall>n \<le> length steps. fits limit (fold abstract_append (take n steps) (abstract_append s j))"
    using Cons.prems(2)[rule_format, of "Suc n" for n] by simp
  ultimately show ?case using Cons.IH by simp
qed simp

section \<open>Recovery of an admission state\<close>

text \<open>
  Recovering an admission state is the inverse of storing it. The decoder gives a state within the
  bounds exactly if its budgets, censuses, requests and reservations are valid and the stored bytes
  are its canonical bytes.
\<close>
lemma admission_recovery_exact:
  assumes "readable limit (canon_admission_state s)"
  shows "decode_admission_state limit payload = Some s
    \<longleftrightarrow> is_admission_state s \<and> recoverable (canon_admission_state s)
      \<and> payload = canonical_journal_bytes (canon_admission_state s)"
  using assms by (simp add: decode_defs recoverable_def recovery_exact)

text \<open>The other roots, and the direction that needs no bounds.\<close>

lemma recovered_valid:
  "decode_create_journal limit payload = Some j \<Longrightarrow> is_create_journal j"
  "decode_admission_state limit payload = Some s \<Longrightarrow> is_admission_state s"
  "decode_prepared_create limit payload = Some p \<Longrightarrow> is_prepared_create p"
  "decode_admission_request limit payload = Some r \<Longrightarrow> is_admission_request r"
  unfolding decode_defs by (simp_all add: recovery_sound[THEN conjunct1])

section \<open>The sample\<close>

lemmas sample_json = canon_create_journal_def canon_journal_entry_def canon_prepared_create_def
  canon_producer_provenance_def canon_lifecycle_identity_def canon_owner_candidate_def
  canon_backend_identity_def canon_prepared_group_def canon_submission_evidence_def
  canon_create_outcome_def canon_bound_deployment_def canon_exact_chain_read_evidence_def
  canon_deployment_key_def canon_dataclass_def canon_opt_def canon_tuple_def canon_enum_def

lemmas sample_values = sample_prepared_def sample_groups_def sample_candidate_def sample_producer_def
  sample_lifecycle_def sample_backend_def sample_submission_def sample_committed_def
  sample_deployment_def sample_read_def sample_key_def

lemma entry_digest_length [simp]: "length (entry_digest_of e) = 64"
  by (simp add: entry_digest_of_def canonical_journal_digest_def)

lemmas recovery_bounds = recoverable_def MAX_RECOVERY_BYTES_def MAX_RECOVERY_DEPTH_def MAX_RECOVERY_NODES_def

lemmas sample_journal_json = sample_json sample_values sample_e1_def last_digest_def

lemma sample_prefix_fits: "fits 100 \<lparr>cj_entries = [sample_e1], cj_version = 1\<rparr>"
  unfolding fits_def recovery_bounds
  by (intro conjI storableI readableI) (simp_all add: sample_journal_json)

lemma sample_journal_fits: "fits 100 sample_journal"
  unfolding fits_def recovery_bounds
  by (intro conjI storableI readableI)
    (simp_all add: sample_journal_json sample_journal_def sample_e2_def sample_e3_def)

lemma empty_journal_fits: "fits 100 empty_journal"
  unfolding fits_def recovery_bounds
  by (intro conjI storableI readableI)
    (simp_all add: sample_json empty_journal_def JOURNAL_SCHEMA_VERSION_def)

lemma journal_recovery_exact_witness:
  "decode_create_journal 100 (canonical_journal_bytes (canon_create_journal sample_journal)) = Some sample_journal"
  using journal_recovery_exact[of 100 sample_journal] sample_journal_fits sample_journal_ok
  by (simp add: fits_def)

lemma sample_append: "abstract_append (PREPARED, PayPrepared sample_prepared, 105) empty_journal
    = \<lparr>cj_entries = [sample_e1], cj_version = 1\<rparr>"
proof -
  have e: "next_entry empty_journal PREPARED (PayPrepared sample_prepared) 105
      = sample_e1\<lparr>je_entry_digest := []\<rparr>"
    by (simp add: sample_e1_def sample_entry_simps empty_journal_def)
  have "entry_fields_ok sample_e1" "je_entry_digest sample_e1 = entry_digest_of sample_e1"
    using sample_entries_ok(1) by (simp_all add: is_journal_entry_def)
  then have m: "mk_journal_entry (next_entry empty_journal PREPARED (PayPrepared sample_prepared) 105) =
      Inr sample_e1"
    unfolding e by (simp add: mk_journal_entry_def entry_fields_ok_def)
  have "validate_entry [] sample_e1 = Inr ()"
    by (simp add: validate_entry_def check_chain_def check_first_def operation_entries_def sample_e1_def
        last_digest_def)
  then show ?thesis
    using sample_entries_ok(1) m
    by (simp add: abstract_append_def append_transition_def mk_create_journal_def empty_journal_def
        is_version_def JOURNAL_SCHEMA_VERSION_def)
qed

lemma empty_journal_stored:
  "decode_create_journal 100 (canonical_journal_bytes (canon_create_journal empty_journal)) = Some empty_journal"
  by (rule journal_stored[OF _ empty_journal_fits])
    (simp add: is_create_journal_def mk_create_journal_def empty_journal_def is_version_def)

lemma restarts_refine_appends_witness:
  "decode_create_journal 100
     (stored_append 100 (PREPARED, PayPrepared sample_prepared, 105)
        (canonical_journal_bytes (canon_create_journal empty_journal)))
    = Some \<lparr>cj_entries = [sample_e1], cj_version = 1\<rparr>"
proof -
  have "\<forall>n \<le> length [(PREPARED, PayPrepared sample_prepared, 105)].
      fits 100 (fold abstract_append (take n [(PREPARED, PayPrepared sample_prepared, 105)]) empty_journal)"
    using empty_journal_fits sample_prefix_fits by (auto simp: le_Suc_eq sample_append)
  from restarts_refine_appends[OF empty_journal_stored this] show ?thesis
    by (simp add: sample_append)
qed

lemmas sample_admission_json = canon_admission_state_def canon_scope_budget_def
    canon_owner_budget_scope_def
  canon_admission_scope_def canon_containment_limits_def canon_containment_census_def
  canon_capacity_reservation_def canon_admission_request_def canon_create_exposure_evidence_def

lemma admission_recovery_exact_witness:
  "decode_admission_state 100 (canonical_journal_bytes (canon_admission_state (sample_state1 ''runner'')))
    = Some (sample_state1 ''runner'')"
proof -
  have "nonempty ''runner''" by code_simp
  moreover have "readable 100 (canon_admission_state (sample_state1 ''runner''))"
    "recoverable (canon_admission_state (sample_state1 ''runner''))"
    unfolding recovery_bounds
    by (intro storableI readableI; simp add: sample_json sample_admission_json sample_values sample_state1_def
        sample_budgets_def sample_reservation_def sample_request_def sample_exposure_def sample_scope_def
        sample_limits_def sample_census_def ids_digest_def sample_prepared_by_def owner_scope_of_def
        ar_prepared_operation_digest_def canonical_journal_digest_def ADMISSION_SCHEMA_VERSION_def)+
  ultimately show ?thesis
    using admission_recovery_exact[of 100 "sample_state1 ''runner''"] sample_state1_ok by simp
qed

end
