(* ===== verification/StoredFinancial.thy ===== *)
theory StoredFinancial
  imports StoredAdmission Exposure
begin

text \<open>
  The stored form of financial data, for \<^verbatim>\<open>financial_codec.py\<close>: the seven root types and the types
  they are made of. The module repeats the branches of \<^verbatim>\<open>_typed\<close> with an error class of its own.
\<close>

definition canon_financial_commit_binding :: "financial_commit_binding \<Rightarrow> json" where
  "canon_financial_commit_binding x = canon_dataclass ''FinancialCommitBinding''
     [(''cas_domain'', JStr (fc_cas_domain x)),
      (''chain_id'', JStr (fc_chain_id x)),
      (''owner'', JStr (fc_owner x)),
      (''operation_id'', JStr (fc_operation_id x)),
      (''owner_revision'', JInt (fc_owner_revision x)),
      (''owner_state_digest'', JStr (fc_owner_state_digest x)),
      (''financial_revision'', JInt (fc_financial_revision x)),
      (''financial_state_digest'', JStr (fc_financial_state_digest x)),
      (''receipt_digest'', JStr (fc_receipt_digest x)),
      (''observed_at'', JInt (fc_observed_at x)),
      (''schema_version'', JInt (fc_version x))]"

definition financial_effect_purpose_members :: "financial_effect_purpose list" where
  "financial_effect_purpose_members = [PURPOSE_CREATE, PURPOSE_DEPOSIT, PURPOSE_FEE_REFILL,
      PURPOSE_TRANSACTION_FEE,
      PURPOSE_GRANT, PURPOSE_MINT, PURPOSE_AMENDMENT]"

lemma financial_effect_purpose_read [simp]:
  "dec_enum financial_effect_purpose_value financial_effect_purpose_members (canon_enum
      financial_effect_purpose_value x) = Some x"
  by (cases x) (simp_all add: financial_effect_purpose_members_def enum_read)

definition permit_revocation_status_members :: "permit_revocation_status list" where
  "permit_revocation_status_members = [PERMIT_ACTIVE, PERMIT_REVOKED]"

lemma permit_revocation_status_read [simp]:
  "dec_enum permit_revocation_status_value permit_revocation_status_members (canon_enum
      permit_revocation_status_value x) = Some x"
  by (cases x) (simp_all add: permit_revocation_status_members_def enum_read)

definition financial_effect_state_members :: "financial_effect_state list" where
  "financial_effect_state_members = [EFFECT_SIGN_RESERVED_UNKNOWN, EFFECT_SIGNED,
      EFFECT_BROADCAST_CLAIMED_UNKNOWN,
      EFFECT_CONFIRMED, EFFECT_FAILED, EFFECT_PROVEN_NOT_SIGNED]"

lemma financial_effect_state_read [simp]:
  "dec_enum financial_effect_state_value financial_effect_state_members (canon_enum
      financial_effect_state_value x) = Some x"
  by (cases x) (simp_all add: financial_effect_state_members_def enum_read)

definition dec_native_liability :: "json \<Rightarrow> native_liability option" where
  "dec_native_liability j = do {
     get \<leftarrow> dec_object ''NativeLiability''
       [''denomination'', ''amount'', ''schema_version''] j;
     denomination \<leftarrow> dec_str (get ''denomination'');
     amount \<leftarrow> dec_int (get ''amount'');
     schema_version \<leftarrow> dec_int (get ''schema_version'');
     checked is_native_liability
       \<lparr>nl_denomination = denomination, nl_amount = amount, nl_version = schema_version\<rparr>}"

interpretation stored_native_liability:
  stored_type is_native_liability dec_native_liability canon_native_liability
proof unfold_locales
  show "is_native_liability x
    \<Longrightarrow> dec_native_liability (sorted_keys (canon_native_liability x)) = Some x" for x
    by (simp add: dec_native_liability_def canon_native_liability_def dec_object_canon)
qed (auto simp: dec_native_liability_def canon_native_liability_def bind_eq_Some_conv)

definition dec_native_liability_vector :: "json \<Rightarrow> native_liability_vector option" where
  "dec_native_liability_vector j = do {
     get \<leftarrow> dec_object ''NativeLiabilityVector''
       [''quantities'', ''schema_version''] j;
     quantities \<leftarrow> dec_tuple dec_native_liability (get ''quantities'');
     schema_version \<leftarrow> dec_int (get ''schema_version'');
     checked is_native_liability_vector
       \<lparr>nv_quantities = quantities, nv_version = schema_version\<rparr>}"

lemma native_liability_vector_parts:
  assumes "is_native_liability_vector x"
  shows "z0 \<in> set (nv_quantities x) \<Longrightarrow> is_native_liability z0"
  using assms by (auto simp: is_native_liability_vector_def simp: list_all_iff Let_def)

interpretation stored_native_liability_vector:
  stored_type is_native_liability_vector dec_native_liability_vector canon_native_liability_vector
proof unfold_locales
  show "is_native_liability_vector x
    \<Longrightarrow> dec_native_liability_vector (sorted_keys (canon_native_liability_vector x)) = Some x" for x
    by (simp add: dec_native_liability_vector_def canon_native_liability_vector_def dec_object_canon
        native_liability_vector_parts)
qed (auto simp: dec_native_liability_vector_def canon_native_liability_vector_def bind_eq_Some_conv)

definition dec_qualified_uact_basis :: "json \<Rightarrow> qualified_uact_basis option" where
  "dec_qualified_uact_basis j = do {
     get \<leftarrow> dec_object ''QualifiedUactBasis''
       [''native_maximum'', ''amount_uact'', ''policy_revision'',
         ''attribution_digest'', ''evidence_digest'', ''source'', ''observed_at'',
         ''valid_until'', ''schema_version''] j;
     native_maximum \<leftarrow> dec_native_liability_vector (get ''native_maximum'');
     amount_uact \<leftarrow> dec_int (get ''amount_uact'');
     policy_revision \<leftarrow> dec_str (get ''policy_revision'');
     attribution_digest \<leftarrow> dec_str (get ''attribution_digest'');
     evidence_digest \<leftarrow> dec_str (get ''evidence_digest'');
     source \<leftarrow> dec_str (get ''source'');
     observed_at \<leftarrow> dec_int (get ''observed_at'');
     valid_until \<leftarrow> dec_int (get ''valid_until'');
     schema_version \<leftarrow> dec_int (get ''schema_version'');
     checked is_qualified_uact_basis
       \<lparr>qb_native_maximum = native_maximum, qb_amount_uact = amount_uact,
         qb_policy_revision = policy_revision,
         qb_attribution_digest = attribution_digest,
         qb_evidence_digest = evidence_digest, qb_source = source,
         qb_observed_at = observed_at, qb_valid_until = valid_until,
         qb_version = schema_version\<rparr>}"

lemma qualified_uact_basis_parts:
  assumes "is_qualified_uact_basis x"
  shows "is_native_liability_vector (qb_native_maximum x)"
  using assms by (auto simp: is_qualified_uact_basis_def)

interpretation stored_qualified_uact_basis:
  stored_type is_qualified_uact_basis dec_qualified_uact_basis canon_qualified_uact_basis
proof unfold_locales
  show "is_qualified_uact_basis x
    \<Longrightarrow> dec_qualified_uact_basis (sorted_keys (canon_qualified_uact_basis x)) = Some x" for x
    by (simp add: dec_qualified_uact_basis_def canon_qualified_uact_basis_def dec_object_canon
        qualified_uact_basis_parts)
qed (auto simp: dec_qualified_uact_basis_def canon_qualified_uact_basis_def bind_eq_Some_conv)

definition dec_service_principal_binding :: "json \<Rightarrow> service_principal_binding option" where
  "dec_service_principal_binding j = do {
     get \<leftarrow> dec_object ''ServicePrincipalBinding''
       [''issuer'', ''subject'', ''audience'', ''credential_fingerprint'',
         ''deployed_source_revision'', ''registration_digest'', ''schema_version''] j;
     issuer \<leftarrow> dec_str (get ''issuer'');
     subject \<leftarrow> dec_str (get ''subject'');
     audience \<leftarrow> dec_str (get ''audience'');
     credential_fingerprint \<leftarrow> dec_str (get ''credential_fingerprint'');
     deployed_source_revision \<leftarrow> dec_str (get ''deployed_source_revision'');
     registration_digest \<leftarrow> dec_str (get ''registration_digest'');
     schema_version \<leftarrow> dec_int (get ''schema_version'');
     checked is_service_principal_binding
       \<lparr>sp_issuer = issuer, sp_subject = subject, sp_audience = audience,
         sp_credential_fingerprint = credential_fingerprint,
         sp_deployed_source_revision = deployed_source_revision,
         sp_registration_digest = registration_digest, sp_version = schema_version\<rparr>}"

interpretation stored_service_principal_binding:
  stored_type is_service_principal_binding dec_service_principal_binding canon_service_principal_binding
proof unfold_locales
  show "is_service_principal_binding x
    \<Longrightarrow> dec_service_principal_binding (sorted_keys (canon_service_principal_binding x)) = Some x" for x
    by (simp add: dec_service_principal_binding_def canon_service_principal_binding_def
        dec_object_canon)
qed (auto simp: dec_service_principal_binding_def canon_service_principal_binding_def bind_eq_Some_conv)

definition dec_funding_actor_registration :: "json \<Rightarrow> funding_actor_registration option" where
  "dec_funding_actor_registration j = do {
     get \<leftarrow> dec_object ''FundingActorRegistration''
       [''actor_id'', ''chain_id'', ''owner'', ''backend'', ''principal'',
         ''cas_domain'', ''policy_revision'', ''writer_population_digest'',
         ''creator_leaf_digests'', ''signing_wallets'', ''purposes'',
         ''evidence_digest'', ''observed_at'', ''valid_until'', ''schema_version''] j;
     actor_id \<leftarrow> dec_str (get ''actor_id'');
     chain_id \<leftarrow> dec_str (get ''chain_id'');
     owner \<leftarrow> dec_str (get ''owner'');
     backend \<leftarrow> dec_backend_identity (get ''backend'');
     principal \<leftarrow> dec_service_principal_binding (get ''principal'');
     cas_domain \<leftarrow> dec_str (get ''cas_domain'');
     policy_revision \<leftarrow> dec_str (get ''policy_revision'');
     writer_population_digest \<leftarrow> dec_str (get ''writer_population_digest'');
     creator_leaf_digests \<leftarrow> dec_tuple dec_str (get ''creator_leaf_digests'');
     signing_wallets \<leftarrow> dec_tuple dec_str (get ''signing_wallets'');
     purposes \<leftarrow> dec_tuple (dec_enum financial_effect_purpose_value financial_effect_purpose_members)
         (get ''purposes'');
     evidence_digest \<leftarrow> dec_str (get ''evidence_digest'');
     observed_at \<leftarrow> dec_int (get ''observed_at'');
     valid_until \<leftarrow> dec_int (get ''valid_until'');
     schema_version \<leftarrow> dec_int (get ''schema_version'');
     checked is_funding_actor_registration
       \<lparr>fr_actor_id = actor_id, fr_chain_id = chain_id, fr_owner = owner,
         fr_backend = backend, fr_principal = principal, fr_cas_domain = cas_domain,
         fr_policy_revision = policy_revision,
         fr_writer_population_digest = writer_population_digest,
         fr_creator_leaf_digests = creator_leaf_digests,
         fr_signing_wallets = signing_wallets, fr_purposes = purposes,
         fr_evidence_digest = evidence_digest, fr_observed_at = observed_at,
         fr_valid_until = valid_until, fr_version = schema_version\<rparr>}"

lemma funding_actor_registration_parts:
  assumes "is_funding_actor_registration x"
  shows "is_backend_identity (fr_backend x)"
    and "is_service_principal_binding (fr_principal x)"
  using assms by (auto simp: is_funding_actor_registration_def)

interpretation stored_funding_actor_registration:
  stored_type is_funding_actor_registration dec_funding_actor_registration
      canon_funding_actor_registration
proof unfold_locales
  show "is_funding_actor_registration x
    \<Longrightarrow> dec_funding_actor_registration (sorted_keys (canon_funding_actor_registration x)) = Some x" for x
    by (simp add: dec_funding_actor_registration_def canon_funding_actor_registration_def
        dec_object_canon funding_actor_registration_parts)
qed (auto simp: dec_funding_actor_registration_def canon_funding_actor_registration_def
    bind_eq_Some_conv)

definition dec_service_principal_observation :: "json \<Rightarrow> service_principal_observation option" where
  "dec_service_principal_observation j = do {
     get \<leftarrow> dec_object ''ServicePrincipalObservation''
       [''principal'', ''revocation_epoch'', ''status'',
         ''authentication_evidence_digest'', ''observed_at'', ''valid_until'',
         ''schema_version''] j;
     principal \<leftarrow> dec_service_principal_binding (get ''principal'');
     revocation_epoch \<leftarrow> dec_int (get ''revocation_epoch'');
     status \<leftarrow> dec_enum permit_revocation_status_value permit_revocation_status_members (get ''status'');
     authentication_evidence_digest \<leftarrow> dec_str (get ''authentication_evidence_digest'');
     observed_at \<leftarrow> dec_int (get ''observed_at'');
     valid_until \<leftarrow> dec_int (get ''valid_until'');
     schema_version \<leftarrow> dec_int (get ''schema_version'');
     checked is_service_principal_observation
       \<lparr>so_principal = principal, so_revocation_epoch = revocation_epoch,
         so_status = status,
         so_authentication_evidence_digest = authentication_evidence_digest,
         so_observed_at = observed_at, so_valid_until = valid_until,
         so_version = schema_version\<rparr>}"

lemma service_principal_observation_parts:
  assumes "is_service_principal_observation x"
  shows "is_service_principal_binding (so_principal x)"
  using assms by (auto simp: is_service_principal_observation_def)

interpretation stored_service_principal_observation:
  stored_type is_service_principal_observation dec_service_principal_observation
      canon_service_principal_observation
proof unfold_locales
  show "is_service_principal_observation x
    \<Longrightarrow> dec_service_principal_observation (sorted_keys (canon_service_principal_observation x)) = Some x"
        for x
    by (simp add: dec_service_principal_observation_def canon_service_principal_observation_def
        dec_object_canon service_principal_observation_parts)
qed (auto simp: dec_service_principal_observation_def canon_service_principal_observation_def
    bind_eq_Some_conv)

definition dec_operation_maximum_liability :: "json \<Rightarrow> operation_maximum_liability option" where
  "dec_operation_maximum_liability j = do {
     get \<leftarrow> dec_object ''OperationMaximumLiability''
       [''quote_id'', ''prepared'', ''creator_leaf'', ''cas_domain'',
         ''policy_revision'', ''writer_population_digest'', ''native_maximum'',
         ''uact_basis'', ''evidence_digest'', ''observed_at'', ''valid_until'',
         ''schema_version''] j;
     quote_id \<leftarrow> dec_str (get ''quote_id'');
     prepared \<leftarrow> dec_prepared_create (get ''prepared'');
     creator_leaf \<leftarrow> dec_admission_scope (get ''creator_leaf'');
     cas_domain \<leftarrow> dec_str (get ''cas_domain'');
     policy_revision \<leftarrow> dec_str (get ''policy_revision'');
     writer_population_digest \<leftarrow> dec_str (get ''writer_population_digest'');
     native_maximum \<leftarrow> dec_native_liability_vector (get ''native_maximum'');
     uact_basis \<leftarrow> dec_opt dec_qualified_uact_basis (get ''uact_basis'');
     evidence_digest \<leftarrow> dec_str (get ''evidence_digest'');
     observed_at \<leftarrow> dec_int (get ''observed_at'');
     valid_until \<leftarrow> dec_int (get ''valid_until'');
     schema_version \<leftarrow> dec_int (get ''schema_version'');
     checked is_operation_maximum_liability
       \<lparr>om_quote_id = quote_id, om_prepared = prepared, om_creator_leaf = creator_leaf,
         om_cas_domain = cas_domain, om_policy_revision = policy_revision,
         om_writer_population_digest = writer_population_digest,
         om_native_maximum = native_maximum, om_uact_basis = uact_basis,
         om_evidence_digest = evidence_digest, om_observed_at = observed_at,
         om_valid_until = valid_until, om_version = schema_version\<rparr>}"

lemma operation_maximum_liability_parts:
  assumes "is_operation_maximum_liability x"
  shows "is_prepared_create (om_prepared x)"
    and "is_admission_scope (om_creator_leaf x)"
    and "is_native_liability_vector (om_native_maximum x)"
    and "om_uact_basis x = Some y3 \<Longrightarrow> is_qualified_uact_basis y3"
  using assms by (auto simp: is_operation_maximum_liability_def simp: list_all_iff Let_def)

interpretation stored_operation_maximum_liability:
  stored_type is_operation_maximum_liability dec_operation_maximum_liability
      canon_operation_maximum_liability
proof unfold_locales
  show "is_operation_maximum_liability x
    \<Longrightarrow> dec_operation_maximum_liability (sorted_keys (canon_operation_maximum_liability x)) = Some x" for
        x
    by (simp add: dec_operation_maximum_liability_def canon_operation_maximum_liability_def
        dec_object_canon operation_maximum_liability_parts)
qed (auto simp: dec_operation_maximum_liability_def canon_operation_maximum_liability_def
    bind_eq_Some_conv)

definition dec_financial_effect_intent :: "json \<Rightarrow> financial_effect_intent option" where
  "dec_financial_effect_intent j = do {
     get \<leftarrow> dec_object ''FinancialEffectIntent''
       [''operation_id'', ''effect_id'', ''attempt_id'', ''quote_digest'',
         ''actor_registration_digest'', ''principal'', ''revocation_epoch'', ''subject'',
         ''signing_wallet'', ''purpose'', ''message_digest'', ''sign_doc_digest'',
         ''fee_digest'', ''account_sequence'', ''maximum_debit'', ''fee_debit'',
         ''attribution_digest'', ''created_at'', ''schema_version''] j;
     operation_id \<leftarrow> dec_str (get ''operation_id'');
     effect_id \<leftarrow> dec_str (get ''effect_id'');
     attempt_id \<leftarrow> dec_str (get ''attempt_id'');
     quote_digest \<leftarrow> dec_str (get ''quote_digest'');
     actor_registration_digest \<leftarrow> dec_str (get ''actor_registration_digest'');
     principal \<leftarrow> dec_service_principal_binding (get ''principal'');
     revocation_epoch \<leftarrow> dec_int (get ''revocation_epoch'');
     subject \<leftarrow> dec_deployment_key (get ''subject'');
     signing_wallet \<leftarrow> dec_str (get ''signing_wallet'');
     purpose \<leftarrow> dec_enum financial_effect_purpose_value financial_effect_purpose_members (get
         ''purpose'');
     message_digest \<leftarrow> dec_str (get ''message_digest'');
     sign_doc_digest \<leftarrow> dec_str (get ''sign_doc_digest'');
     fee_digest \<leftarrow> dec_str (get ''fee_digest'');
     account_sequence \<leftarrow> dec_int (get ''account_sequence'');
     maximum_debit \<leftarrow> dec_native_liability_vector (get ''maximum_debit'');
     fee_debit \<leftarrow> dec_native_liability_vector (get ''fee_debit'');
     attribution_digest \<leftarrow> dec_str (get ''attribution_digest'');
     created_at \<leftarrow> dec_int (get ''created_at'');
     schema_version \<leftarrow> dec_int (get ''schema_version'');
     checked is_financial_effect_intent
       \<lparr>fi_operation_id = operation_id, fi_effect_id = effect_id,
         fi_attempt_id = attempt_id, fi_quote_digest = quote_digest,
         fi_actor_registration_digest = actor_registration_digest,
         fi_principal = principal, fi_revocation_epoch = revocation_epoch,
         fi_subject = subject, fi_signing_wallet = signing_wallet, fi_purpose = purpose,
         fi_message_digest = message_digest, fi_sign_doc_digest = sign_doc_digest,
         fi_fee_digest = fee_digest, fi_account_sequence = account_sequence,
         fi_maximum_debit = maximum_debit, fi_fee_debit = fee_debit,
         fi_attribution_digest = attribution_digest, fi_created_at = created_at,
         fi_version = schema_version\<rparr>}"

lemma financial_effect_intent_parts:
  assumes "is_financial_effect_intent x"
  shows "is_service_principal_binding (fi_principal x)"
    and "is_deployment_key (fi_subject x)"
    and "is_native_liability_vector (fi_maximum_debit x)"
    and "is_native_liability_vector (fi_fee_debit x)"
  using assms by (auto simp: is_financial_effect_intent_def)

interpretation stored_financial_effect_intent:
  stored_type is_financial_effect_intent dec_financial_effect_intent canon_financial_effect_intent
proof unfold_locales
  show "is_financial_effect_intent x
    \<Longrightarrow> dec_financial_effect_intent (sorted_keys (canon_financial_effect_intent x)) = Some x" for x
    by (simp add: dec_financial_effect_intent_def canon_financial_effect_intent_def dec_object_canon
        financial_effect_intent_parts)
qed (auto simp: dec_financial_effect_intent_def canon_financial_effect_intent_def bind_eq_Some_conv)

definition dec_financial_effect_observation :: "json \<Rightarrow> financial_effect_observation option" where
  "dec_financial_effect_observation j = do {
     get \<leftarrow> dec_object ''FinancialEffectObservation''
       [''intent_digest'', ''state'', ''evidence_digest'', ''observed_at'',
         ''transaction_hash'', ''actual_debit'', ''transaction_code'',
         ''principal_observation'', ''schema_version''] j;
     intent_digest \<leftarrow> dec_str (get ''intent_digest'');
     state \<leftarrow> dec_enum financial_effect_state_value financial_effect_state_members (get ''state'');
     evidence_digest \<leftarrow> dec_str (get ''evidence_digest'');
     observed_at \<leftarrow> dec_int (get ''observed_at'');
     transaction_hash \<leftarrow> dec_opt dec_str (get ''transaction_hash'');
     actual_debit \<leftarrow> dec_opt dec_native_liability_vector (get ''actual_debit'');
     transaction_code \<leftarrow> dec_opt dec_int (get ''transaction_code'');
     principal_observation \<leftarrow> dec_opt dec_service_principal_observation (get ''principal_observation'');
     schema_version \<leftarrow> dec_int (get ''schema_version'');
     checked is_financial_effect_observation
       \<lparr>fo_intent_digest = intent_digest, fo_state = state,
         fo_evidence_digest = evidence_digest, fo_observed_at = observed_at,
         fo_transaction_hash = transaction_hash, fo_actual_debit = actual_debit,
         fo_transaction_code = transaction_code,
         fo_principal_observation = principal_observation, fo_version = schema_version\<rparr>}"

lemma financial_effect_observation_parts:
  assumes "is_financial_effect_observation x"
  shows "fo_actual_debit x = Some y0 \<Longrightarrow> is_native_liability_vector y0"
    and "fo_principal_observation x = Some y1 \<Longrightarrow> is_service_principal_observation y1"
  using assms by (auto simp: is_financial_effect_observation_def split: if_split_asm option.split_asm)

interpretation stored_financial_effect_observation:
  stored_type is_financial_effect_observation dec_financial_effect_observation
      canon_financial_effect_observation
proof unfold_locales
  show "is_financial_effect_observation x
    \<Longrightarrow> dec_financial_effect_observation (sorted_keys (canon_financial_effect_observation x)) = Some x"
        for x
    by (simp add: dec_financial_effect_observation_def canon_financial_effect_observation_def
        dec_object_canon financial_effect_observation_parts)
qed (auto simp: dec_financial_effect_observation_def canon_financial_effect_observation_def
    bind_eq_Some_conv)

lemma observations_valid:
  "observations_follow i prior t tx xs \<Longrightarrow> x \<in> set xs \<Longrightarrow> is_financial_effect_observation x"
  by (induction i prior t tx xs rule: observations_follow.induct) auto

definition dec_financial_effect_record :: "json \<Rightarrow> financial_effect_record option" where
  "dec_financial_effect_record j = do {
     get \<leftarrow> dec_object ''FinancialEffectRecord''
       [''intent'', ''observations'', ''schema_version''] j;
     intent \<leftarrow> dec_financial_effect_intent (get ''intent'');
     observations \<leftarrow> dec_tuple dec_financial_effect_observation (get ''observations'');
     schema_version \<leftarrow> dec_int (get ''schema_version'');
     checked is_financial_effect_record
       \<lparr>fe_intent = intent, fe_observations = observations, fe_version = schema_version\<rparr>}"

lemma financial_effect_record_parts:
  assumes "is_financial_effect_record x"
  shows "is_financial_effect_intent (fe_intent x)"
    and "z1 \<in> set (fe_observations x) \<Longrightarrow> is_financial_effect_observation z1"
  using assms by (auto simp: is_financial_effect_record_def dest: observations_valid)

interpretation stored_financial_effect_record:
  stored_type is_financial_effect_record dec_financial_effect_record canon_financial_effect_record
proof unfold_locales
  show "is_financial_effect_record x
    \<Longrightarrow> dec_financial_effect_record (sorted_keys (canon_financial_effect_record x)) = Some x" for x
    by (simp add: dec_financial_effect_record_def canon_financial_effect_record_def dec_object_canon
        financial_effect_record_parts)
qed (auto simp: dec_financial_effect_record_def canon_financial_effect_record_def bind_eq_Some_conv)

definition dec_financial_operation_state :: "json \<Rightarrow> financial_operation_state option" where
  "dec_financial_operation_state j = do {
     get \<leftarrow> dec_object ''FinancialOperationState''
       [''maximum'', ''revision'', ''previous_digest'', ''effects'', ''schema_version''] j;
     maximum \<leftarrow> dec_operation_maximum_liability (get ''maximum'');
     revision \<leftarrow> dec_int (get ''revision'');
     previous_digest \<leftarrow> dec_opt dec_str (get ''previous_digest'');
     effects \<leftarrow> dec_tuple dec_financial_effect_record (get ''effects'');
     schema_version \<leftarrow> dec_int (get ''schema_version'');
     checked is_financial_operation_state
       \<lparr>fs_maximum = maximum, fs_revision = revision,
         fs_previous_digest = previous_digest, fs_effects = effects,
         fs_version = schema_version\<rparr>}"

lemma financial_operation_state_parts:
  assumes "is_financial_operation_state x"
  shows "is_operation_maximum_liability (fs_maximum x)"
    and "z1 \<in> set (fs_effects x) \<Longrightarrow> is_financial_effect_record z1"
  using assms by (auto simp: is_financial_operation_state_def simp: list_all_iff Let_def)

interpretation stored_financial_operation_state:
  stored_type is_financial_operation_state dec_financial_operation_state canon_financial_operation_state
proof unfold_locales
  show "is_financial_operation_state x
    \<Longrightarrow> dec_financial_operation_state (sorted_keys (canon_financial_operation_state x)) = Some x" for x
    by (simp add: dec_financial_operation_state_def canon_financial_operation_state_def dec_object_canon
        financial_operation_state_parts)
qed (auto simp: dec_financial_operation_state_def canon_financial_operation_state_def bind_eq_Some_conv)

definition dec_financial_commit_binding :: "json \<Rightarrow> financial_commit_binding option" where
  "dec_financial_commit_binding j = do {
     get \<leftarrow> dec_object ''FinancialCommitBinding''
       [''cas_domain'', ''chain_id'', ''owner'', ''operation_id'', ''owner_revision'',
         ''owner_state_digest'', ''financial_revision'', ''financial_state_digest'',
         ''receipt_digest'', ''observed_at'', ''schema_version''] j;
     cas_domain \<leftarrow> dec_str (get ''cas_domain'');
     chain_id \<leftarrow> dec_str (get ''chain_id'');
     owner \<leftarrow> dec_str (get ''owner'');
     operation_id \<leftarrow> dec_str (get ''operation_id'');
     owner_revision \<leftarrow> dec_int (get ''owner_revision'');
     owner_state_digest \<leftarrow> dec_str (get ''owner_state_digest'');
     financial_revision \<leftarrow> dec_int (get ''financial_revision'');
     financial_state_digest \<leftarrow> dec_str (get ''financial_state_digest'');
     receipt_digest \<leftarrow> dec_str (get ''receipt_digest'');
     observed_at \<leftarrow> dec_int (get ''observed_at'');
     schema_version \<leftarrow> dec_int (get ''schema_version'');
     checked is_financial_commit_binding
       \<lparr>fc_cas_domain = cas_domain, fc_chain_id = chain_id, fc_owner = owner,
         fc_operation_id = operation_id, fc_owner_revision = owner_revision,
         fc_owner_state_digest = owner_state_digest,
         fc_financial_revision = financial_revision,
         fc_financial_state_digest = financial_state_digest,
         fc_receipt_digest = receipt_digest, fc_observed_at = observed_at,
         fc_version = schema_version\<rparr>}"

interpretation stored_financial_commit_binding:
  stored_type is_financial_commit_binding dec_financial_commit_binding canon_financial_commit_binding
proof unfold_locales
  show "is_financial_commit_binding x
    \<Longrightarrow> dec_financial_commit_binding (sorted_keys (canon_financial_commit_binding x)) = Some x" for x
    by (simp add: dec_financial_commit_binding_def canon_financial_commit_binding_def dec_object_canon)
qed (auto simp: dec_financial_commit_binding_def canon_financial_commit_binding_def bind_eq_Some_conv)

end
