(* ===== verification/FinancialCodec.thy ===== *)
theory FinancialCodec
  imports StoredFinancial ExposureProperties
begin

text \<open>
  \<^verbatim>\<open>financial_codec.py\<close>: encoding and decoding of the seven financial roots. A root is a tagged value,
  the type that the caller expects an enumeration; a type that is no root holds by typing. \<open>limit\<close> is
  the nesting of containers that the reader accepts before the recursion limit.
\<close>

section \<open>Roots\<close>

definition MAX_FINANCIAL_RECOVERY_BYTES :: nat where "MAX_FINANCIAL_RECOVERY_BYTES = 8 * 1024 * 1024"
definition MAX_FINANCIAL_RECOVERY_DEPTH :: nat where "MAX_FINANCIAL_RECOVERY_DEPTH = 64"
definition MAX_FINANCIAL_RECOVERY_NODES :: nat where "MAX_FINANCIAL_RECOVERY_NODES = 100000"

datatype financial_root =
    RootVector native_liability_vector
  | RootPrincipal service_principal_binding
  | RootRegistration funding_actor_registration
  | RootMaximum operation_maximum_liability
  | RootIntent financial_effect_intent
  | RootState financial_operation_state
  | RootCommit financial_commit_binding

datatype financial_type =
    TYPE_VECTOR
  | TYPE_PRINCIPAL
  | TYPE_REGISTRATION
  | TYPE_MAXIMUM
  | TYPE_INTENT
  | TYPE_STATE
  | TYPE_COMMIT

fun type_of_root :: "financial_root \<Rightarrow> financial_type" where
  "type_of_root (RootVector x) = TYPE_VECTOR"
| "type_of_root (RootPrincipal x) = TYPE_PRINCIPAL"
| "type_of_root (RootRegistration x) = TYPE_REGISTRATION"
| "type_of_root (RootMaximum x) = TYPE_MAXIMUM"
| "type_of_root (RootIntent x) = TYPE_INTENT"
| "type_of_root (RootState x) = TYPE_STATE"
| "type_of_root (RootCommit x) = TYPE_COMMIT"

fun is_financial_root :: "financial_root \<Rightarrow> bool" where
  "is_financial_root (RootVector x) = is_native_liability_vector x"
| "is_financial_root (RootPrincipal x) = is_service_principal_binding x"
| "is_financial_root (RootRegistration x) = is_funding_actor_registration x"
| "is_financial_root (RootMaximum x) = is_operation_maximum_liability x"
| "is_financial_root (RootIntent x) = is_financial_effect_intent x"
| "is_financial_root (RootState x) = is_financial_operation_state x"
| "is_financial_root (RootCommit x) = is_financial_commit_binding x"

fun canon_financial_root :: "financial_root \<Rightarrow> json" where
  "canon_financial_root (RootVector x) = canon_native_liability_vector x"
| "canon_financial_root (RootPrincipal x) = canon_service_principal_binding x"
| "canon_financial_root (RootRegistration x) = canon_funding_actor_registration x"
| "canon_financial_root (RootMaximum x) = canon_operation_maximum_liability x"
| "canon_financial_root (RootIntent x) = canon_financial_effect_intent x"
| "canon_financial_root (RootState x) = canon_financial_operation_state x"
| "canon_financial_root (RootCommit x) = canon_financial_commit_binding x"

section \<open>Decoding and encoding\<close>

definition decode_financial :: "nat \<Rightarrow> (json \<Rightarrow> 'a option) \<Rightarrow> ('a \<Rightarrow> json) \<Rightarrow> string \<Rightarrow> 'a option" where
  "decode_financial limit = decode_root limit MAX_FINANCIAL_RECOVERY_BYTES MAX_FINANCIAL_RECOVERY_DEPTH
     MAX_FINANCIAL_RECOVERY_NODES"

definition decode_financial_data :: "nat \<Rightarrow> string \<Rightarrow> financial_type \<Rightarrow> financial_root option" where
  "decode_financial_data limit payload expected =
     (case expected of
        TYPE_VECTOR \<Rightarrow> map_option RootVector
          (decode_financial limit dec_native_liability_vector canon_native_liability_vector payload)
      | TYPE_PRINCIPAL \<Rightarrow> map_option RootPrincipal
          (decode_financial limit dec_service_principal_binding canon_service_principal_binding payload)
      | TYPE_REGISTRATION \<Rightarrow> map_option RootRegistration
          (decode_financial limit dec_funding_actor_registration canon_funding_actor_registration
              payload)
      | TYPE_MAXIMUM \<Rightarrow> map_option RootMaximum
          (decode_financial limit dec_operation_maximum_liability canon_operation_maximum_liability
              payload)
      | TYPE_INTENT \<Rightarrow> map_option RootIntent
          (decode_financial limit dec_financial_effect_intent canon_financial_effect_intent payload)
      | TYPE_STATE \<Rightarrow> map_option RootState
          (decode_financial limit dec_financial_operation_state canon_financial_operation_state payload)
      | TYPE_COMMIT \<Rightarrow> map_option RootCommit
          (decode_financial limit dec_financial_commit_binding canon_financial_commit_binding payload))"

definition encode_financial_data :: "nat \<Rightarrow> financial_root \<Rightarrow> string option" where
  "encode_financial_data limit value =
     (let raw = canonical_journal_bytes (canon_financial_root value) in
      if MAX_FINANCIAL_RECOVERY_BYTES < length raw then None
      else case decode_financial_data limit raw (type_of_root value) of
        None \<Rightarrow> None
      | Some _ \<Rightarrow> Some raw)"

section \<open>Round trips\<close>

definition financially_storable :: "json \<Rightarrow> bool" where
  "financially_storable = storable MAX_FINANCIAL_RECOVERY_BYTES MAX_FINANCIAL_RECOVERY_DEPTH
     MAX_FINANCIAL_RECOVERY_NODES"

lemmas financial_exact =
  stored_native_liability_vector.decode_exact stored_service_principal_binding.decode_exact
  stored_funding_actor_registration.decode_exact stored_operation_maximum_liability.decode_exact
  stored_financial_effect_intent.decode_exact stored_financial_operation_state.decode_exact
  stored_financial_commit_binding.decode_exact

lemmas financial_sound =
  stored_native_liability_vector.decode_sound stored_service_principal_binding.decode_sound
  stored_funding_actor_registration.decode_sound stored_operation_maximum_liability.decode_sound
  stored_financial_effect_intent.decode_sound stored_financial_operation_state.decode_sound
  stored_financial_commit_binding.decode_sound

lemma decode_exact_root:
  assumes "readable limit (canon_financial_root v)"
  shows "decode_financial_data limit payload expected = Some v
    \<longleftrightarrow> type_of_root v = expected \<and> is_financial_root v \<and> financially_storable (canon_financial_root v)
      \<and> payload = canonical_journal_bytes (canon_financial_root v)"
  using assms
  by (cases v; cases expected)
    (simp_all add: decode_financial_data_def decode_financial_def financially_storable_def
        financial_exact)

text \<open>The tag of a root is read by no other type.\<close>

lemma root_tags:
  assumes "type_of_root v \<noteq> expected"
  shows "(case expected of
      TYPE_VECTOR \<Rightarrow> dec_native_liability_vector (sorted_keys (canon_financial_root v)) = None
    | TYPE_PRINCIPAL \<Rightarrow> dec_service_principal_binding (sorted_keys (canon_financial_root v)) = None
    | TYPE_REGISTRATION \<Rightarrow> dec_funding_actor_registration (sorted_keys (canon_financial_root v)) = None
    | TYPE_MAXIMUM \<Rightarrow> dec_operation_maximum_liability (sorted_keys (canon_financial_root v)) = None
    | TYPE_INTENT \<Rightarrow> dec_financial_effect_intent (sorted_keys (canon_financial_root v)) = None
    | TYPE_STATE \<Rightarrow> dec_financial_operation_state (sorted_keys (canon_financial_root v)) = None
    | TYPE_COMMIT \<Rightarrow> dec_financial_commit_binding (sorted_keys (canon_financial_root v)) = None)"
  using assms
  by (cases expected; cases v)
    (simp_all add: dec_native_liability_vector_def canon_native_liability_vector_def
        dec_service_principal_binding_def canon_service_principal_binding_def
        dec_funding_actor_registration_def canon_funding_actor_registration_def
        dec_operation_maximum_liability_def canon_operation_maximum_liability_def
        dec_financial_effect_intent_def canon_financial_effect_intent_def
        dec_financial_operation_state_def canon_financial_operation_state_def
        dec_financial_commit_binding_def canon_financial_commit_binding_def dec_tagged)

lemma canon_root_distinct [simp]: "fields_distinct (canon_financial_root v)"
  by (cases v) simp_all

lemma decode_other_type:
  assumes "readable limit (canon_financial_root v)"
    and "type_of_root v \<noteq> expected"
  shows "decode_financial_data limit (canonical_journal_bytes (canon_financial_root v)) expected = None"
  using root_tags[OF assms(2)]
  by (cases expected) (simp_all add: decode_financial_data_def decode_financial_def
      decode_stored[OF assms(1) canon_root_distinct])

lemma decode_beyond_bounds:
  assumes "readable limit (canon_financial_root v)"
    and "\<not> financially_storable (canon_financial_root v)"
  shows "decode_financial_data limit (canonical_journal_bytes (canon_financial_root v)) expected = None"
  using assms(2)
  by (cases expected) (simp_all add: decode_financial_data_def decode_financial_def
      financially_storable_def decode_stored[OF assms(1) canon_root_distinct])

text \<open>
  C20: Financial data survives storage, exactly. Decoding under an expected type gives a value if and only
  if the value has that type, is valid with all its checks, keeps to the bounds, and the stored bytes are
  its canonical bytes. A valid value is encoded exactly when it keeps to the bounds, to those bytes, and
  no other type reads them.
\<close>
theorem financial_data_roundtrip:
  assumes "readable limit (canon_financial_root v)"
  shows "(decode_financial_data limit payload expected = Some v
      \<longleftrightarrow> type_of_root v = expected \<and> is_financial_root v \<and> financially_storable (canon_financial_root v)
        \<and> payload = canonical_journal_bytes (canon_financial_root v))
    \<and> (is_financial_root v \<longrightarrow> encode_financial_data limit v
        = (if financially_storable (canon_financial_root v)
           then Some (canonical_journal_bytes (canon_financial_root v)) else None))
    \<and> (expected \<noteq> type_of_root v \<longrightarrow>
        decode_financial_data limit (canonical_journal_bytes (canon_financial_root v)) expected = None)"
proof -
  let ?raw = "canonical_journal_bytes (canon_financial_root v)"
  have "encode_financial_data limit v
      = (if financially_storable (canon_financial_root v) then Some ?raw else None)"
    if valid: "is_financial_root v"
  proof (cases "financially_storable (canon_financial_root v)")
    case True
    then have "length ?raw \<le> MAX_FINANCIAL_RECOVERY_BYTES"
      by (simp add: financially_storable_def storable_def)
    moreover have "decode_financial_data limit ?raw (type_of_root v) = Some v"
      using True valid decode_exact_root[OF assms] by blast
    ultimately show ?thesis using True by (simp add: encode_financial_data_def Let_def)
  next
    case False
    then have "decode_financial_data limit ?raw (type_of_root v) = None"
      by (rule decode_beyond_bounds[OF assms])
    then show ?thesis using False by (simp add: encode_financial_data_def Let_def)
  qed
  then show ?thesis
    using decode_exact_root[OF assms, of payload expected] decode_other_type[OF assms, of expected] by blast
qed

section \<open>The sample\<close>

lemmas sample_financial_json = canon_operation_maximum_liability_def canon_native_liability_vector_def
  canon_native_liability_def canon_prepared_create_def canon_producer_provenance_def
  canon_lifecycle_identity_def canon_owner_candidate_def canon_backend_identity_def
  canon_prepared_group_def canon_admission_scope_def canon_dataclass_def canon_opt_def canon_tuple_def
  canon_enum_def

lemmas sample_financial_values = sample_maximum_def sample_prepared_by_def sample_prepared_def
  sample_groups_def sample_candidate_def sample_producer_def sample_lifecycle_def sample_backend_def
  sample_scope_def sample_vector_def

lemma sample_financial_fits:
  "financially_storable (canon_financial_root (RootMaximum sample_maximum))"
  "readable 100 (canon_financial_root (RootMaximum sample_maximum))"
  unfolding financially_storable_def MAX_FINANCIAL_RECOVERY_BYTES_def MAX_FINANCIAL_RECOVERY_DEPTH_def
    MAX_FINANCIAL_RECOVERY_NODES_def
  by (intro storableI readableI; simp add: sample_financial_json sample_financial_values)+

lemma financial_data_roundtrip_witness:
  "encode_financial_data 100 (RootMaximum sample_maximum)
      = Some (canonical_journal_bytes (canon_financial_root (RootMaximum sample_maximum)))
    \<and> decode_financial_data 100 (canonical_journal_bytes (canon_financial_root (RootMaximum sample_maximum)))
        TYPE_MAXIMUM = Some (RootMaximum sample_maximum)
    \<and> decode_financial_data 100 (canonical_journal_bytes (canon_financial_root (RootMaximum sample_maximum)))
        TYPE_STATE = None"
  using financial_data_roundtrip[OF sample_financial_fits(2), of _ TYPE_MAXIMUM]
    financial_data_roundtrip[OF sample_financial_fits(2), of _ TYPE_STATE]
    sample_financial_fits(1) sample_maximum_ok
  by simp

end
