(* ===== verification/AdmissionTotal.thy ===== *)
theory AdmissionTotal
  imports AdmissionProperties
begin

text \<open>
  What admission grants. \<open>AdmissionProperties\<close> shows that nothing is admitted wrongly; here, that on
  valid inputs \<^verbatim>\<open>reserve_capacity\<close> never raises and proposes exactly when its conditions hold, and that a
  persisted proposal is confirmed into a permit.
\<close>

section \<open>Populations\<close>

lemma request_operation_ascii: "is_admission_request r \<Longrightarrow> is_nonempty_ascii 128 (ar_operation_id r)"
  by (auto simp: is_admission_request_def is_create_exposure_evidence_def)

lemma reservation_operation_ascii:
  "is_capacity_reservation c \<Longrightarrow> is_nonempty_ascii 128 (ar_operation_id (cr_request c))"
  by (simp add: is_capacity_reservation_def request_operation_ascii)

lemma population_digest_total:
  assumes "list_all is_capacity_reservation cs" and "distinct (map (\<lambda>c. ar_operation_id (cr_request c)) cs)"
  shows "\<exists>d. canonical_reservation_population_digest
      (sort (map (\<lambda>c. ar_operation_id (cr_request c)) (filter P cs))) = Inr d \<and> is_digest d"
proof -
  let ?ids = "sort (map (\<lambda>c. ar_operation_id (cr_request c)) (filter P cs))"
  have "list_all (is_nonempty_ascii 128) ?ids"
    using assms(1) reservation_operation_ascii by (auto simp: list_all_iff)
  moreover have "distinct ?ids" using assms(2) by (simp add: distinct_map_filter)
  then have "sort (remdups ?ids) = ?ids" by (simp add: distinct_remdups_id sort_key_id_if_sorted)
  ultimately show ?thesis by (simp add: canonical_reservation_population_digest_def)
qed

lemma census_binding_total:
  assumes "is_admission_state s"
  shows "\<exists>ok. census_binding_matches s b = Inr ok"
proof -
  obtain d where "canonical_reservation_population_digest (reservation_operation_ids s (sb_scope b)) = Inr d"
    using population_digest_total assms
    unfolding is_admission_state_def reservation_operation_ids_def relevant_def by blast
  then show ?thesis by (auto simp: census_binding_matches_def Let_def)
qed

lemma rebind_census_total:
  assumes "list_all is_capacity_reservation cs" and "distinct (map (\<lambda>c. ar_operation_id (cr_request c)) cs)"
    and "is_scope_budget b"
  shows "\<exists>b'. rebind_census cs b = Inr b' \<and> is_scope_budget b' \<and> sb_scope b' = sb_scope b"
proof -
  obtain d where "canonical_reservation_population_digest (sort (map (\<lambda>c. ar_operation_id (cr_request c))
      (filter (\<lambda>c. applies (sb_scope b) (ar_scope (cr_request c))) cs))) = Inr d \<and> is_digest d"
    using population_digest_total[OF assms(1,2)] by blast
  then show ?thesis
    using assms(3)
    by (simp add: rebind_census_def Let_def construct_def is_scope_budget_def is_containment_census_def
        is_count_def)
qed

section \<open>Reserving\<close>

lemma bind_check_total:
  assumes "is_admission_state s"
  shows "\<exists>held. bind_check s r bs = Inr held \<and> (\<forall>h. held = Some h \<longrightarrow> ad_proposal h = None)
    \<and> (held = None \<longleftrightarrow> (\<forall>b \<in> set bs. census_binding_matches s b = Inr True
        \<and> cl_exposure_policy_revision (sb_limits b) = xe_backend_policy_revision (ar_exposure r)))"
proof (induction bs)
  case (Cons b bs)
  obtain ok where "census_binding_matches s b = Inr ok" using census_binding_total[OF assms] by blast
  then show ?case using Cons by (auto simp: hold_def)
qed simp

lemma admit_budget_iff:
  "(\<exists>y. admit_budget s r now b = Inr y)
    \<longleftrightarrow> current_census r now b \<and> within_limits (sb_limits b) (projected_usage s r b)"
  by (auto simp: admit_budget_def Let_def current_census_def exceeded_None[symmetric] split: option.split)

lemma admit_budget_hold: "admit_budget s r now b = Inl h \<Longrightarrow> ad_proposal h = None"
  by (auto simp: admit_budget_def hold_def Let_def split: if_split_asm option.split_asm)

lemma mapR_cases:
  "(\<exists>ys. mapR f xs = Inr ys \<and> (\<forall>x \<in> set xs. \<exists>y. f x = Inr y)) \<or> (\<exists>x \<in> set xs. \<exists>e. f x = Inl e \<and> mapR f xs = Inl e)"
proof (induction xs)
  case (Cons x xs)
  then show ?case by (cases "f x") auto
qed simp

lemma new_reservation_valid: "is_admission_request r \<Longrightarrow> is_capacity_reservation (new_reservation r)"
  by (simp add: new_reservation_def is_capacity_reservation_def is_admission_version_def
      ar_prepared_operation_digest_def)

lemma propose_total:
  assumes "is_admission_state s" "is_admission_request r" "reservation_of s (ar_operation_id r) = None"
  shows "\<exists>res. propose s r budgets projections = Inr res \<and> ad_proposal res \<noteq> None"
proof -
  let ?cs = "st_reservations s @ [new_reservation r]"
  let ?f = "\<lambda>b. if b \<in> set budgets then rebind_census ?cs b else Inr b"
  have valid: "list_all is_capacity_reservation ?cs"
    using assms(1,2) new_reservation_valid by (simp add: is_admission_state_def)
  have fresh: "distinct (map (\<lambda>c. ar_operation_id (cr_request c)) ?cs)"
    using assms(1,3) by (auto simp: is_admission_state_def reservation_of_def find_None_iff new_reservation_def)
  have "\<forall>b \<in> set (st_budgets s). \<exists>b'. ?f b = Inr b' \<and> is_scope_budget b' \<and> sb_scope b' = sb_scope b"
    using rebind_census_total[OF valid fresh] assms(1) by (auto simp: is_admission_state_def list_all_iff)
  then obtain g where g: "\<forall>b \<in> set (st_budgets s). ?f b = Inr (g b) \<and> is_scope_budget (g b) \<and> sb_scope (g b) = sb_scope b"
    by metis
  then have m: "mapR ?f (st_budgets s) = Inr (map g (st_budgets s))"
    by (intro mapR_all_Inr) auto
  have scopes: "map sb_scope (map g (st_budgets s)) = map sb_scope (st_budgets s)" using g by simp
  let ?s' = "s\<lparr>st_budgets := map g (st_budgets s), st_reservations := ?cs, st_revision := st_revision s + 1\<rparr>"
  have s': "is_admission_state ?s'"
    using assms(1) g valid fresh
    by (simp add: is_admission_state_def list_all_iff is_count_def scopes del: map_map)
  moreover have "is_reservation_proposal
      \<lparr>rp_operation_id = ar_operation_id r, rp_expected_revision = st_revision s,
       rp_expected_state_digest = canonical_admission_state_digest s,
       rp_proposed_revision = st_revision ?s',
       rp_proposed_state_digest = canonical_admission_state_digest ?s',
       rp_proposed_state = ?s', rp_version = ADMISSION_SCHEMA_VERSION\<rparr>"
    using assms(1) request_operation_ascii[OF assms(2)]
    by (simp add: is_reservation_proposal_def is_admission_state_def is_count_def canonical_admission_state_digest_def)
  ultimately show ?thesis
    using m new_reservation_valid[OF assms(2)]
    unfolding propose_def new_reservation_def[symmetric] by (simp add: construct_def Let_def)
qed

text \<open>The conditions under which a request is admitted.\<close>

definition admissible :: "admission_state \<Rightarrow> admission_request \<Rightarrow> int \<Rightarrow> int \<Rightarrow> bool" where
  "admissible s r ver now \<longleftrightarrow>
     required_budgets (applicable_budgets s (ar_scope r)) (ar_scope r)
     \<and> reservation_of s (ar_operation_id r) = None \<and> ver = st_revision s
     \<and> xe_observed_at (ar_exposure r) \<le> now \<and> now \<le> xe_valid_until (ar_exposure r)
     \<and> (\<forall>b \<in> set (applicable_budgets s (ar_scope r)).
          census_binding_matches s b = Inr True
          \<and> cl_exposure_policy_revision (sb_limits b) = xe_backend_policy_revision (ar_exposure r)
          \<and> current_census r now b \<and> within_limits (sb_limits b) (projected_usage s r b))"

lemma reserve_decides:
  assumes "is_admission_state s" and "is_admission_request r" and "is_count ver" and "is_time now"
  shows "\<exists>res. reserve_capacity s r ver now = Inr res
    \<and> (ad_proposal res \<noteq> None \<longleftrightarrow> admissible s r ver now)"
proof -
  let ?bs = "applicable_budgets s (ar_scope r)"
  obtain held where held: "bind_check s r ?bs = Inr held" "\<forall>h. held = Some h \<longrightarrow> ad_proposal h = None"
    "held = None \<longleftrightarrow> (\<forall>b \<in> set ?bs. census_binding_matches s b = Inr True
      \<and> cl_exposure_policy_revision (sb_limits b) = xe_backend_policy_revision (ar_exposure r))"
    using bind_check_total[OF assms(1)] by blast
  note guards = assms(3,4) held(1)
  show ?thesis
  proof (cases "required_budgets ?bs (ar_scope r) \<and> held = None \<and> reservation_of s (ar_operation_id r) = None
      \<and> ver = st_revision s \<and> xe_observed_at (ar_exposure r) \<le> now \<and> now \<le> xe_valid_until (ar_exposure r)")
    case False
    then have "\<not> admissible s r ver now" using held(3) by (auto simp: admissible_def)
    moreover have "\<exists>res. reserve_capacity s r ver now = Inr res \<and> ad_proposal res = None"
      using False guards held(2)
      by (auto simp: reserve_capacity_def hold_def Let_def split: option.split)
    ultimately show ?thesis by blast
  next
    case True
    then have reserve: "reserve_capacity s r ver now =
        (case mapR (admit_budget s r now) ?bs of Inl h \<Rightarrow> Inr h | Inr projections \<Rightarrow> propose s r ?bs projections)"
      using guards by (simp add: reserve_capacity_def Let_def)
    have adm: "admissible s r ver now \<longleftrightarrow> (\<forall>b \<in> set ?bs. \<exists>y. admit_budget s r now b = Inr y)"
      using True held(3) by (auto simp: admissible_def admit_budget_iff)
    from mapR_cases[of "admit_budget s r now" ?bs] show ?thesis
    proof
      assume "\<exists>ys. mapR (admit_budget s r now) ?bs = Inr ys \<and> (\<forall>x\<in>set ?bs. \<exists>y. admit_budget s r now x = Inr y)"
      then show ?thesis using reserve adm propose_total[OF assms(1,2)] True by fastforce
    next
      assume "\<exists>x\<in>set ?bs. \<exists>e. admit_budget s r now x = Inl e \<and> mapR (admit_budget s r now) ?bs = Inl e"
      then show ?thesis using reserve adm admit_budget_hold by fastforce
    qed
  qed
qed

lemma bind_check_hold: "bind_check s r bs = Inr (Some h) \<Longrightarrow> \<exists>reason scope. h = hold reason scope"
  by (induction bs) (auto split: if_splits)

lemma mapR_hold: "mapR (admit_budget s r now) bs = Inl h \<Longrightarrow> \<exists>reason scope. h = hold reason scope"
  by (induction bs) (auto simp: bindR_eq_Inl admit_budget_def Let_def split: if_splits option.splits)

lemma reserve_disposition:
  assumes "reserve_capacity s r ver now = Inr res"
  shows "dc_disposition (ad_decision res) = ADMISSION_PROPOSED \<longleftrightarrow> ad_proposal res \<noteq> None"
proof (cases "ad_proposal res")
  case None
  then have "dc_disposition (ad_decision res) \<noteq> ADMISSION_PROPOSED"
    using assms bind_check_hold mapR_hold
    by (fastforce simp: reserve_capacity_def Let_def hold_def propose_def split: if_splits option.splits sum.splits)
  then show ?thesis using None by simp
next
  case (Some p)
  obtain proj where "propose s r (applicable_budgets s (ar_scope r)) proj = Inr res"
    using assms Some by (rule reserve_effect) (rule that; assumption)
  then have "dc_disposition (ad_decision res) = ADMISSION_PROPOSED" by (rule propose_effect) simp
  then show ?thesis using Some by simp
qed

text \<open>
  C10: Admission is exact. On a valid state and request \<^verbatim>\<open>reserve_capacity\<close> never raises, and it makes a
  proposal if and only if the request is admissible: the owner budget and the leaf budget exist, are
  bound to the reservations of the state, follow the exposure policy of the request, are healthy,
  current and have room for it, the operation has no reservation yet, the caller knows the current
  revision and the exposure evidence is current. In every other case the answer is a decision other than \<^verbatim>\<open>PROPOSED\<close>, without
  a proposal.
\<close>
theorem reserve_capacity_exact:
  assumes "is_admission_state s" and "is_admission_request r" and "is_count ver" and "is_time now"
  shows "\<exists>res. reserve_capacity s r ver now = Inr res
    \<and> (ad_proposal res \<noteq> None \<longleftrightarrow> admissible s r ver now)
    \<and> (dc_disposition (ad_decision res) = ADMISSION_PROPOSED \<longleftrightarrow> admissible s r ver now)"
  using reserve_decides[OF assms] reserve_disposition by blast

theorem reserve_capacity_exact_witness:
  "\<exists>res. reserve_capacity sample_state0 (sample_request ''runner'') 0 130 = Inr res
    \<and> (ad_proposal res \<noteq> None \<longleftrightarrow> admissible sample_state0 (sample_request ''runner'') 0 130)
    \<and> (dc_disposition (ad_decision res) = ADMISSION_PROPOSED
        \<longleftrightarrow> admissible sample_state0 (sample_request ''runner'') 0 130)"
  by (rule reserve_capacity_exact[OF sample_state0_ok sample_request_ok])
     (simp_all add: is_count_def sample_versions)

section \<open>Confirming\<close>

lemma min_list1_ge: "x \<le> y \<Longrightarrow> \<forall>z \<in> set ys. x \<le> z \<Longrightarrow> x \<le> min_list1 y ys"
proof -
  have "x \<le> y \<Longrightarrow> \<forall>z \<in> set ys. x \<le> z \<Longrightarrow> x \<le> fold min ys y"
    by (induction ys arbitrary: y) auto
  then show "x \<le> y \<Longrightarrow> \<forall>z \<in> set ys. x \<le> z \<Longrightarrow> x \<le> min_list1 y ys" by (simp add: min_list1_def)
qed

lemma all_bound_True: "\<forall>b \<in> set bs. census_binding_matches s b = Inr True \<Longrightarrow> all_bound s bs = Inr True"
  by (induction bs) (simp_all add: all_bound_def)

lemma reserve_proposal_valid:
  assumes "reserve_capacity s r ver now = Inr res" and "ad_proposal res = Some p"
  shows "is_reservation_proposal p" and "is_admission_state (rp_proposed_state p)"
proof -
  obtain proj where "propose s r (applicable_budgets s (ar_scope r)) proj = Inr res"
    using assms by (rule reserve_effect) (rule that; assumption)
  then show "is_reservation_proposal p"
    using assms(2) by (auto simp: propose_def Let_def)
  show "is_admission_state (rp_proposed_state p)" using assms by (rule reserve_state)
qed

text \<open>The budgets of a proposed state that apply to its request are bound to it and still current.\<close>

lemma reserve_budgets_after:
  assumes "reserve_capacity s r ver now = Inr res" and "ad_proposal res = Some p"
  defines "bs \<equiv> applicable_budgets (rp_proposed_state p) (ar_scope r)"
  shows "required_budgets bs (ar_scope r)" and "all_bound (rp_proposed_state p) bs = Inr True"
    and "\<forall>b \<in> set bs. now \<le> cl_valid_until (sb_limits b) \<and> now \<le> cc_valid_until (sb_census b)"
    and "ar_requested_at r \<le> now" and "now \<le> xe_valid_until (ar_exposure r)"
    and "\<forall>b \<in> set bs. census_binding_matches (rp_proposed_state p) b = Inr True
      \<and> cl_exposure_policy_revision (sb_limits b) = xe_backend_policy_revision (ar_exposure r)"
proof -
  note adm = reserve_admits[OF assms(1,2)]
  obtain "bind_check s r (applicable_budgets s (ar_scope r)) = Inr None"
    using assms(1,2) by (rule reserve_effect) (rule that; assumption)
  note policy = bind_check_all[OF this]
  have req: "required_budgets (applicable_budgets s (ar_scope r)) (ar_scope r)"
    and exp: "now \<le> xe_valid_until (ar_exposure r)"
    using reserve_effect[OF assms(1,2)] by metis+
  show "now \<le> xe_valid_until (ar_exposure r)" by (rule exp)
  have after: "\<exists>b \<in> set (applicable_budgets s (ar_scope r)). rebound b b' \<and> current_census r now b
      \<and> census_binding_matches (rp_proposed_state p) b' = Inr True"
    if "b' \<in> set bs" for b'
  proof -
    have "b' \<in> set (st_budgets (rp_proposed_state p))" using that by (simp add: bs_def applicable_budgets_def)
    then obtain i where i: "i < length (st_budgets s)" "b' = st_budgets (rp_proposed_state p) ! i"
      using adm(2) by (auto simp: in_set_conv_nth)
    moreover have "applies (sb_scope b') (ar_scope r)" using that by (simp add: bs_def applicable_budgets_def)
    moreover have "rebound (st_budgets s ! i) b'" using adm(1) i by (simp add: Let_def)
    ultimately show ?thesis using adm(1)
      by (intro bexI[of _ "st_budgets s ! i"]) (auto simp: Let_def rebound_def applicable_budgets_def)
  qed
  have before: "\<exists>b' \<in> set bs. sb_scope b' = sb_scope b" if "b \<in> set (applicable_budgets s (ar_scope r))" for b
  proof -
    have "b \<in> set (st_budgets s)" and app: "applies (sb_scope b) (ar_scope r)"
      using that by (simp_all add: applicable_budgets_def)
    from this(1) obtain i where "i < length (st_budgets s)" "b = st_budgets s ! i"
      by (auto simp: in_set_conv_nth)
    then show ?thesis using adm app
      by (intro bexI[of _ "st_budgets (rp_proposed_state p) ! i"])
        (auto simp: Let_def rebound_def bs_def applicable_budgets_def)
  qed
  have "sb_scope b' \<in> sb_scope ` set (applicable_budgets s (ar_scope r))" if "b' \<in> set bs" for b'
    using after[OF that] by (auto simp: rebound_def)
  moreover have "sb_scope b \<in> sb_scope ` set bs" if "b \<in> set (applicable_budgets s (ar_scope r))" for b
    using before[OF that] by (metis imageI)
  ultimately have "sb_scope ` set bs = sb_scope ` set (applicable_budgets s (ar_scope r))" by blast
  then show "required_budgets bs (ar_scope r)" using req by (simp add: required_budgets_def)
  show "all_bound (rp_proposed_state p) bs = Inr True" using after by (intro all_bound_True) blast
  show "\<forall>b \<in> set bs. census_binding_matches (rp_proposed_state p) b = Inr True
      \<and> cl_exposure_policy_revision (sb_limits b) = xe_backend_policy_revision (ar_exposure r)"
    using after policy by (fastforce simp: rebound_def)
  show "\<forall>b \<in> set bs. now \<le> cl_valid_until (sb_limits b) \<and> now \<le> cc_valid_until (sb_census b)"
    using after by (fastforce simp: rebound_def current_census_def)
  obtain b where "b \<in> set (applicable_budgets s (ar_scope r))" using req by (force simp: required_budgets_def)
  then show "ar_requested_at r \<le> now" using before after by (force simp: current_census_def)
qed

text \<open>
  A request whose proposal was persisted reconciles, at any revision and any time: admission is idempotent.
\<close>

lemma reserve_replay:
  assumes res: "reserve_capacity s r ver now = Inr res" "ad_proposal res = Some p"
    and "is_count ver'" and "is_time now'"
  shows "\<exists>again. reserve_capacity (rp_proposed_state p) r ver' now' = Inr again \<and> ad_proposal again = None
    \<and> dc_disposition (ad_decision again) = ADMISSION_RECONCILE
    \<and> dc_reason (ad_decision again) = REASON_RECONCILE_EXISTING"
proof -
  let ?bs = "applicable_budgets (rp_proposed_state p) (ar_scope r)"
  note bud = reserve_budgets_after[OF res]
  have "bind_check (rp_proposed_state p) r bs = Inr None"
    if "\<forall>b \<in> set bs. census_binding_matches (rp_proposed_state p) b = Inr True
      \<and> cl_exposure_policy_revision (sb_limits b) = xe_backend_policy_revision (ar_exposure r)" for bs
    using that by (induction bs) simp_all
  then have "bind_check (rp_proposed_state p) r ?bs = Inr None" using bud(6) by blast
  then show ?thesis
    using assms(3,4) bud(1) reservation_proposed[OF res]
    by (simp add: reserve_capacity_def Let_def) (simp add: new_reservation_def)
qed

lemma policy_bindings_total:
  assumes "list_all is_scope_budget bs"
  shows "\<exists>ys. policy_bindings bs = Inr ys \<and> length ys = length bs \<and> list_all is_admission_policy_binding ys"
proof -
  let ?g = "\<lambda>b. \<lparr>pb_scope = sb_scope b, pb_policy_revision = cl_admission_policy_revision (sb_limits b)\<rparr>"
  have ok: "is_admission_policy_binding (?g b)" if "b \<in> set bs" for b
    using that assms
    by (auto simp: list_all_iff is_scope_budget_def is_containment_limits_def is_admission_policy_binding_def)
  then have "policy_bindings bs = Inr (map ?g bs)"
    unfolding policy_bindings_def by (intro mapR_all_Inr) (simp add: construct_def)
  then show ?thesis using ok by (simp add: list_all_iff)
qed

text \<open>What a confirmation says of a proposal.\<close>

definition confirms :: "persistence_confirmation \<Rightarrow> reservation_proposal \<Rightarrow> bool" where
  "confirms cf p \<longleftrightarrow> cf_operation_id cf = rp_operation_id p \<and> cf_persisted_revision cf = rp_proposed_revision p
     \<and> cf_persisted_state_digest cf = rp_proposed_state_digest p"

definition broker_current :: "persistence_confirmation \<Rightarrow> bool" where
  "broker_current cf \<longleftrightarrow> ab_verified_at (cf_authenticated_broker cf) \<le> cf_persisted_at cf
     \<and> cf_persisted_at cf \<le> ab_valid_until (cf_authenticated_broker cf)"

lemma confirm_mismatch:
  assumes "reserve_capacity s r (rp_expected_revision p) (cf_persisted_at cf) = Inr res"
    and "ad_proposal res \<noteq> Some p \<or> \<not> confirms cf p \<or> persisted \<noteq> rp_proposed_state p"
  shows "confirm_persisted_reservation p s r persisted cf = Inl PersistenceConfirmationError"
  using assms by (cases "ad_proposal res = Some p") (auto simp: confirm_persisted_reservation_def confirms_def)

lemma confirm_matching:
  assumes res: "reserve_capacity s r (rp_expected_revision p) (cf_persisted_at cf) = Inr res"
    "ad_proposal res = Some p" and "confirms cf p"
    and broker: "is_authenticated_broker_evidence (cf_authenticated_broker cf)" "is_time (cf_persisted_at cf)"
  shows "\<exists>permit. confirm_persisted_reservation p s r (rp_proposed_state p) cf
    = (if \<not> broker_current cf then Inl PersistenceConfirmationError
       else if is_digest (cf_evidence_digest cf) \<and> is_nonempty_ascii 256 (pp_subject (pc_producer (ar_prepared r)))
       then Inr permit else Inl ValueError)"
proof -
  let ?t = "rp_proposed_state p"
  let ?bs = "applicable_budgets ?t (ar_scope r)"
  note found = reservation_proposed[OF res]
  note bud = reserve_budgets_after[OF res]
  note valid = reserve_proposal_valid[OF res]
  have budgets: "list_all is_scope_budget ?bs"
    using valid(2) by (auto simp: is_admission_state_def applicable_budgets_def list_all_iff)
  obtain bindings where bindings: "policy_bindings ?bs = Inr bindings" "length bindings = length ?bs"
    "list_all is_admission_policy_binding bindings"
    using policy_bindings_total[OF budgets] by blast
  have nonempty: "bindings \<noteq> []" using bud(1) bindings(2) by (auto simp: required_budgets_def)
  define expiry where "expiry = min_list1 (ab_valid_until (cf_authenticated_broker cf))
     (xe_valid_until (ar_exposure r) # map (\<lambda>b. cl_valid_until (sb_limits b)) ?bs
      @ map (\<lambda>b. cc_valid_until (sb_census b)) ?bs)"
  have "expiry \<le> ab_valid_until (cf_authenticated_broker cf)"
    unfolding expiry_def by (intro min_list1_le) simp
  moreover have "cf_persisted_at cf \<le> expiry" if "broker_current cf"
    unfolding expiry_def using bud(3,5) that by (intro min_list1_ge) (auto simp: broker_current_def)
  ultimately have exp: "cf_persisted_at cf \<le> expiry \<and> is_time expiry" if "broker_current cf"
    using broker that by (force simp: is_authenticated_broker_evidence_def is_time_def)
  let ?permit = "\<lparr>pm_operation_id = rp_operation_id p,
      pm_prepared_operation_digest = ar_prepared_operation_digest r,
      pm_state_revision = rp_proposed_revision p, pm_state_digest = rp_proposed_state_digest p,
      pm_broker_identity = ab_broker_identity (cf_authenticated_broker cf),
      pm_presenter_identity = pp_subject (pc_producer (ar_prepared r)),
      pm_audience = CREATE_PERMIT_AUDIENCE, pm_policy_bindings = bindings, pm_valid_until = expiry,
      pm_persistence_evidence_digest = cf_evidence_digest cf, pm_issued_at = cf_persisted_at cf,
      pm_version = ADMISSION_SCHEMA_VERSION\<rparr>"
  have permit: "is_create_permit ?permit \<longleftrightarrow> is_digest (cf_evidence_digest cf)
      \<and> is_nonempty_ascii 256 (pp_subject (pc_producer (ar_prepared r)))" if "broker_current cf"
    using exp[OF that] bindings(3) nonempty valid(1) broker
    by (auto simp: is_create_permit_def is_reservation_proposal_def is_authenticated_broker_evidence_def
        ar_prepared_operation_digest_def)
  have fields: "cr_request (new_reservation r) = r" "cr_state (new_reservation r) = RES_RESERVED"
    by (simp_all add: new_reservation_def)
  have digest: "canonical_admission_state_digest ?t = rp_proposed_state_digest p"
    using valid(1) by (simp add: is_reservation_proposal_def)
  have "confirm_persisted_reservation p s r ?t cf
      = bindR (raise_if (\<not> broker_current cf) PersistenceConfirmationError) (\<lambda>_. construct is_create_permit ?permit)"
    using assms(3) res found bud(1,2,4) bindings(1)
    by (simp add: confirm_persisted_reservation_def Let_def fields digest expiry_def confirms_def broker_current_def)
  then show ?thesis using permit by (intro exI[of _ ?permit]) (simp add: construct_def)
qed

lemma reserve_errors:
  assumes "is_admission_state s" and "is_admission_request r" and "reserve_capacity s r ver now = Inl e"
  shows "e = ValueError"
proof (cases "is_count ver \<and> is_time now")
  case True
  then show ?thesis using reserve_decides[OF assms(1,2), of ver now] assms(3) by auto
next
  case False
  then show ?thesis using assms(3) by (cases "is_count ver") (auto simp: reserve_capacity_def)
qed

text \<open>
  C11: Confirmation is exact, so a persisted reservation is not lost. On valid arguments
  \<^verbatim>\<open>confirm_persisted_reservation\<close> issues a permit if and only if the proposal is the one that
  \<^verbatim>\<open>reserve_capacity\<close> derives again from the original state at the time of persistence, the confirmation
  names its operation, revision and digest, the state read back is the proposed one, the broker's
  authentication covers the time of persistence and the subject of the producer can be a presenter
  identity. Nothing else can refuse: the reservation, the two budgets, their census bindings and the
  expiry of the permit follow from the proposal. And a refusal is a \<^verbatim>\<open>PersistenceConfirmationError\<close> or, for a
  malformed revision or subject, a \<^verbatim>\<open>ValueError\<close>.
\<close>
theorem confirm_persisted_reservation_exact:
  assumes "is_admission_state s" and "is_admission_request r" and "is_persistence_confirmation cf"
  shows "if (\<exists>res. reserve_capacity s r (rp_expected_revision p) (cf_persisted_at cf) = Inr res
          \<and> ad_proposal res = Some p)
        \<and> confirms cf p \<and> persisted = rp_proposed_state p \<and> broker_current cf
        \<and> is_nonempty_ascii 256 (pp_subject (pc_producer (ar_prepared r)))
      then \<exists>permit. confirm_persisted_reservation p s r persisted cf = Inr permit
      else confirm_persisted_reservation p s r persisted cf \<in> {Inl PersistenceConfirmationError, Inl ValueError}"
proof (cases "reserve_capacity s r (rp_expected_revision p) (cf_persisted_at cf)")
  case (Inl e)
  then have "confirm_persisted_reservation p s r persisted cf = Inl ValueError"
    using reserve_errors[OF assms(1,2)] by (simp add: confirm_persisted_reservation_def)
  then show ?thesis using Inl by simp
next
  case (Inr res)
  show ?thesis
  proof (cases "ad_proposal res = Some p \<and> confirms cf p \<and> persisted = rp_proposed_state p")
    case False
    then show ?thesis using confirm_mismatch[of s r p cf res persisted] Inr by auto
  next
    case True
    then show ?thesis
      using confirm_matching[of s r p cf res] Inr assms(3)
      by (auto simp: is_persistence_confirmation_def split: if_splits)
  qed
qed

lemma sample_confirmation_ok:
  "is_persistence_confirmation (sample_confirmation 1 (sample_state1 ''runner'') 130)"
  by (simp add: is_persistence_confirmation_def sample_confirmation_def sample_broker_def sample_versions
      is_authenticated_broker_evidence_def is_count_def canonical_admission_state_digest_def)

theorem confirm_persisted_reservation_exact_witness:
  "\<exists>permit. confirm_persisted_reservation (sample_proposal ''runner'') sample_state0 (sample_request ''runner'')
     (sample_state1 ''runner'') (sample_confirmation 1 (sample_state1 ''runner'') 130) = Inr permit"
proof -
  have r: "is_admission_request (sample_request ''runner'')" by (rule sample_request_ok) simp
  have "\<exists>res. reserve_capacity sample_state0 (sample_request ''runner'') 0 130 = Inr res
     \<and> ad_proposal res = Some (sample_proposal ''runner'')"
    by (rule sample_reserve) simp_all
  then show ?thesis
    using confirm_persisted_reservation_exact[OF sample_state0_ok r sample_confirmation_ok,
        of "sample_proposal ''runner''" "sample_state1 ''runner''"]
    by (simp add: sample_proposal_def sample_confirmation_def sample_broker_def sample_request_def
        sample_prepared_by_def confirms_def broker_current_def)
qed

end
