(* ===== verification/BundleJson.thy ===== *)
theory BundleJson
  imports JsonDecode
begin

text \<open>
  The JSON of the interoperability bundle, \<^verbatim>\<open>tools/build_interoperability_bundle.py\<close>. Its values are not
  restricted to the 8-bit strings of the records, because one of its vectors is about code points
  beyond the Basic Multilingual Plane: a text is a list of code points. The tool serializes with its
  own call of \<^verbatim>\<open>json.dumps\<close> what it read from the bytes of the package; shown here is that this gives
  back the bytes, so that the hashes in the bundle are hashes of the package's canonical form.
\<close>

datatype wide =
    WNull
  | WBool bool
  | WInt int
  | WText "nat list"
  | WList "wide list"
  | WDict "(nat list, wide) dict"

abbreviation wide_text :: "string \<Rightarrow> wide" where
  "wide_text s \<equiv> WText (text_of s)"

abbreviation wide_dict :: "(string \<times> wide) list \<Rightarrow> wide" where
  "wide_dict kvs \<equiv> WDict (map (\<lambda>(k, v). (text_of k, v)) kvs)"

section \<open>Writing\<close>

definition escape_point :: "nat \<Rightarrow> string" where
  "escape_point p =
     (if p < 256 then escape_char (char_of p)
      else if p < 65536 then CHR 0x5C # CHR ''u'' # hex_str 4 p
      else CHR 0x5C # CHR ''u'' # hex_str 4 (55296 + (p - 65536) div 1024)
           @ CHR 0x5C # CHR ''u'' # hex_str 4 (56320 + (p - 65536) mod 1024))"

definition quote_points :: "nat list \<Rightarrow> string" where
  "quote_points t = CHR 0x22 # concat (map escape_point t) @ [CHR 0x22]"

fun canonical_bytes :: "wide \<Rightarrow> string" where
  "canonical_bytes WNull = ''null''"
| "canonical_bytes (WBool b) = (if b then ''true'' else ''false'')"
| "canonical_bytes (WInt i) = int_str i"
| "canonical_bytes (WText t) = quote_points t"
| "canonical_bytes (WList vs) = ''['' @ comma_join (map canonical_bytes vs) @ '']''"
| "canonical_bytes (WDict kvs) =
     ''{'' @ comma_join (map (\<lambda>(k, t). quote_points k @ '':'' @ t)
                (sort_key fst (map (\<lambda>(k, v). (k, canonical_bytes v)) kvs))) @ ''}''"

definition bundle_digest :: "wide \<Rightarrow> string" where
  "bundle_digest v = ''sha256:'' @ sha256_hexdigest (canonical_bytes v)"

section \<open>Reading\<close>

text \<open>
  What \<^verbatim>\<open>json.loads\<close> makes of a document: of duplicate keys the last value at the place of the first.
  A number with a fraction or an exponent has no value here, and no writer of the package makes one.
\<close>

fun wide_of :: "document \<Rightarrow> wide option" where
  "wide_of DNull = Some WNull"
| "wide_of (DBool b) = Some (WBool b)"
| "wide_of (DInt i) = Some (WInt i)"
| "wide_of DFloat = None"
| "wide_of DConstant = None"
| "wide_of (DStr t) = Some (WText t)"
| "wide_of (DArr ds) = map_option WList (those (map wide_of ds))"
| "wide_of (DObj kds) =
     map_option (\<lambda>kvs. WDict (fold (\<lambda>(k, v). dict_set k v) kvs []))
       (those (map (\<lambda>(k, d). map_option (Pair k) (wide_of d)) kds))"

text \<open>\<^verbatim>\<open>typed\<close> of a record, given by its canonical form, under the recursion limit of the interpreter.\<close>

definition typed :: "nat \<Rightarrow> json \<Rightarrow> wide option" where
  "typed limit canonical =
     (case loads_bytes limit (text_of (canonical_journal_bytes canonical)) of
        Inl _ \<Rightarrow> None
      | Inr document \<Rightarrow> wide_of document)"

section \<open>Canonical values are written alike\<close>

fun widen :: "json \<Rightarrow> wide" where
  "widen JNull = WNull"
| "widen (JBool b) = WBool b"
| "widen (JInt i) = WInt i"
| "widen (JStr s) = wide_text s"
| "widen (JArr xs) = WList (map widen xs)"
| "widen (JObj kvs) = WDict (map (\<lambda>(k, v). (text_of k, widen v)) kvs)"

lemma quote_points_text: "quote_points (text_of s) = json_quote s"
proof -
  have "map escape_point (text_of s) = map escape_char s"
    by (simp add: text_of_def escape_point_def code_less) (simp add: code_def)
  then show ?thesis by (simp add: quote_points_def json_quote_def)
qed

lemma text_of_less: "text_of s < text_of t \<longleftrightarrow> s < t"
proof (induction s arbitrary: t)
  case Nil
  then show ?case by (cases t) simp_all
next
  case (Cons c s)
  then show ?case by (cases t) (auto simp: less_char_def code_def)
qed

lemma text_of_less_eq: "text_of s \<le> text_of t \<longleftrightarrow> s \<le> t"
  by (auto simp: order_le_less text_of_less)

lemma sort_key_iso:
  assumes "\<And>x y. f (g x) \<le> f (g y) \<longleftrightarrow> h x \<le> h y"
  shows "sort_key f (map g xs) = map g (sort_key h xs)"
proof -
  have "insort_key f (g x) (map g ys) = map g (insort_key h x ys)" for x ys
    using assms by (induction ys) simp_all
  then show ?thesis by (induction xs) simp_all
qed

theorem canonical_bytes_widen: "canonical_bytes (widen j) = dumps j"
proof (induction j)
  case (JArr xs)
  then have "map canonical_bytes (map widen xs) = map dumps xs" by simp
  then show ?case by (simp del: map_map)
next
  case (JObj kvs)
  let ?g = "\<lambda>(k, t). (text_of k, t)"
  have "map (\<lambda>(k, v). (k, canonical_bytes v)) (map (\<lambda>(k, v). (text_of k, widen v)) kvs)
      = map ?g (map (\<lambda>(k, v). (k, dumps v)) kvs)"
    using JObj by (force simp: snds.simps)
  moreover have "sort_key fst (map ?g kts) = map ?g (sort_key fst kts)" for kts :: "(string \<times> string) list"
    by (rule sort_key_iso) (auto simp: text_of_less_eq)
  moreover have "map (\<lambda>(k, t). quote_points k @ '':'' @ t) (map ?g kts)
      = map (\<lambda>(k, t). json_quote k @ '':'' @ t) kts" for kts
    by (simp add: quote_points_text case_prod_beta')
  ultimately show ?case by (simp only: widen.simps canonical_bytes.simps dumps.simps)
qed (simp_all add: quote_points_text)

section \<open>The bytes of the package survive reading and writing\<close>

lemma those_Some_map: "(\<And>x. x \<in> set xs \<Longrightarrow> f x = Some (g x)) \<Longrightarrow> those (map f xs) = Some (map g xs)"
  by (induction xs) simp_all

lemma fold_dict_set:
  assumes "distinct (map fst (acc @ kvs))"
  shows "fold (\<lambda>(k, v). dict_set k v) kvs acc = acc @ kvs"
  using assms
proof (induction kvs arbitrary: acc)
  case (Cons kv kvs)
  obtain k v where kv: "kv = (k, v)" by fastforce
  then have "dict_set k v acc = acc @ [(k, v)]"
    using Cons.prems by (intro dict_set_fresh) (auto simp: image_iff)
  then show ?case using Cons.IH[of "acc @ [(k, v)]"] Cons.prems kv by simp
qed simp

lemma wide_of_doc: "fields_distinct j \<Longrightarrow> wide_of (doc_of j) = Some (widen j)"
proof (induction j)
  case (JArr xs)
  then have "those (map (\<lambda>x. wide_of (doc_of x)) xs) = Some (map widen xs)"
    by (intro those_Some_map) (auto simp: list_all_iff)
  then show ?case by (simp add: o_def)
next
  case (JObj kvs)
  have "those (map (\<lambda>(k, v). map_option (Pair (text_of k)) (wide_of (doc_of v))) kvs)
      = Some (map (\<lambda>(k, v). (text_of k, widen v)) kvs)"
    using JObj by (intro those_Some_map) (force simp: list_all_iff snds.simps)
  moreover have "distinct (map fst (map (\<lambda>(k, v). (text_of k, widen v)) kvs))"
    using JObj.prems by (simp add: distinct_map inj_on_def case_prod_beta' o_def)
  ultimately show ?case
    using fold_dict_set[of "[]" "map (\<lambda>(k, v). (text_of k, widen v)) kvs"]
    by (simp add: o_def case_prod_beta')
qed simp_all

lemma hex_char_printable: "d < 16 \<Longrightarrow> 0 < code (hex_char d)"
  by (cases "d < 10") (simp_all add: hex_char_def code_def)

lemma escape_printable: "x \<in> set (escape_char c) \<Longrightarrow> 0 < code x"
  by (auto simp: escape_char_def code_def hex_str_4 hex_char_printable[unfolded code_def] split: if_split_asm)

lemma quote_printable: "x \<in> set (json_quote s) \<Longrightarrow> 0 < code x"
  using escape_printable by (auto simp: json_quote_def code_def)

lemma comma_join_printable:
  "(\<And>s x. s \<in> set ss \<Longrightarrow> x \<in> set s \<Longrightarrow> 0 < code x) \<Longrightarrow> x \<in> set (comma_join ss) \<Longrightarrow> 0 < code x"
proof (induction ss rule: comma_join.induct)
  case (3 s t ss)
  then show ?case by (auto simp: code_def)
qed auto

lemma plain_printable: "x \<in> set (plain j) \<Longrightarrow> 0 < code x"
proof (induction j arbitrary: x)
  case (JInt i)
  then show ?case using nat_str_digits[of x "nat i"] nat_str_digits[of x "nat (- i)"]
    by (auto simp: int_str_def is_digit_def code_def split: if_split_asm)
next
  case (JStr s)
  then show ?case by (simp add: quote_printable)
next
  case (JArr xs)
  then show ?case using comma_join_printable[of "map plain xs" x] by (auto simp: code_def)
next
  case (JObj kvs)
  have "0 < code x" if "x \<in> set (comma_join (map (\<lambda>(k, v). json_quote k @ '':'' @ plain v) kvs))"
    by (rule comma_join_printable[OF _ that])
      (use JObj.IH in \<open>force simp: codes snds.simps dest: quote_printable\<close>)
  then show ?case using JObj.prems by (auto simp: code_def)
qed (auto simp: code_def split: if_split_asm)

lemma decode_ascii:
  assumes "\<forall>c \<in> set s. 0 < code c \<and> code c < 128"
  shows "decode_document (text_of s) = Some (text_of s)"
proof -
  have utf: "utf8_decode True (text_of s) = Some (text_of s)" using assms by (intro utf8_ascii) simp
  have small: "list_all (\<lambda>n. 0 < n \<and> n < 128) (text_of s)" using assms by (auto simp: text_of_def list_all_iff)
  consider "text_of s = []" | a where "text_of s = [a]" | a b where "text_of s = [a, b]"
    | a b c where "text_of s = [a, b, c]" | a b c d r where "text_of s = a # b # c # d # r"
    by (metis list.exhaust)
  then show ?thesis
  proof cases
    case (5 a b c d r)
    then have "0 < a \<and> a < 128" "b \<noteq> 0" using small by simp_all
    then show ?thesis using utf 5 by (simp add: decode_document_def)
  qed (use utf small in \<open>simp_all add: decode_document_def\<close>)
qed

lemma typed_widen:
  assumes "readable limit j" and "fields_distinct j"
  shows "typed limit j = Some (widen (sorted_keys j))"
proof -
  let ?s = "canonical_journal_bytes j"
  have p: "?s = plain (sorted_keys j)" by (simp add: canonical_journal_bytes_def plain_norm)
  have "decode_document (text_of ?s) = Some (text_of ?s)"
    unfolding p using plain_ascii plain_printable by (intro decode_ascii) blast
  moreover have "loads_text limit (text_of ?s) = Inr (doc_of (sorted_keys j))"
    using loads_dumps[of j limit] assms(1) by (simp add: canonical_journal_bytes_def readable_def)
  moreover have "wide_of (doc_of (sorted_keys j)) = Some (widen (sorted_keys j))"
    using assms(2) by (intro wide_of_doc) simp
  ultimately show ?thesis by (simp add: typed_def loads_bytes_def)
qed

lemma sorted_keys_twice: "sorted_keys (sorted_keys j) = sorted_keys j"
proof (induction j)
  case (JObj kvs)
  let ?g = "\<lambda>(k, v). (k, sorted_keys v)"
  have g: "sort_key fst (map ?g kvs) = map ?g (sort_key fst kvs)" for kvs :: "(string \<times> json) list"
    by (rule sort_key_iso) auto
  have "map ?g (map ?g (sort_key fst kvs)) = map ?g (sort_key fst kvs)"
    using JObj by (force simp: snds.simps)
  then show ?case by (simp add: g sort_key_id_if_sorted del: map_map)
qed simp_all

text \<open>
  What the bundle hashes is what the package hashes. A record is read from its canonical bytes
  and serialized by the tool; the result is the same bytes, so the digest of the tool is the canonical
  journal digest of the record behind a prefix. It holds for every record the reader reads: with
  nesting below the recursion limit, integers it converts and no field twice.
\<close>
theorem typed_canonical:
  assumes "readable limit j" and "fields_distinct j"
  shows "\<exists>v. typed limit j = Some v \<and> canonical_bytes v = canonical_journal_bytes j
    \<and> bundle_digest v = ''sha256:'' @ canonical_journal_digest j"
  using typed_widen[OF assms]
  by (simp add: canonical_bytes_widen bundle_digest_def plain_norm sorted_keys_twice
      canonical_journal_digest_def canonical_journal_bytes_def)

theorem typed_canonical_witness:
  "\<exists>v. typed 1 (canon_dataclass ''PreparedGroup'' [(''gseq'', JInt 1), (''group_name'', JStr ''g1'')]) = Some v
    \<and> canonical_bytes v
      = canonical_journal_bytes (canon_dataclass ''PreparedGroup'' [(''gseq'', JInt 1), (''group_name'', JStr ''g1'')])"
  using typed_canonical[of 1 "canon_dataclass ''PreparedGroup'' [(''gseq'', JInt 1), (''group_name'', JStr ''g1'')]"]
  by (fastforce simp: readable_def canon_dataclass_def nat_str.simps)

end
