(* ===== verification/BundleFixtures.thy ===== *)
theory BundleFixtures
  imports BundleJson AdmissionTotal
begin

text \<open>
  The reference records of the bundle (\<^verbatim>\<open>tools/build_interoperability_bundle.py\<close>): one request, the state
  it is admitted to and the confirmation of its persistence, built through the constructors of the
  package, and the canonical form of the classes that only cross the wire.
\<close>

section \<open>Canonical forms on the wire\<close>

definition canon_capacity_usage :: "capacity_usage_ \<Rightarrow> json" where
  "canon_capacity_usage x = canon_dataclass ''CapacityUsage''
     [(''active_deployments'', JInt (cu_active_deployments x)),
      (''unresolved_create_outcomes'', JInt (cu_unresolved_create_outcomes x)),
      (''financial_exposure_uact'', JInt (cu_financial_exposure_uact x))]"

definition canon_budget_projection :: "budget_projection \<Rightarrow> json" where
  "canon_budget_projection x = canon_dataclass ''BudgetProjection''
     [(''scope'', canon_budget_scope (bp_scope x)),
      (''usage_after'', canon_capacity_usage (bp_usage_after x))]"

definition canon_admission_decision :: "admission_decision \<Rightarrow> json" where
  "canon_admission_decision x = canon_dataclass ''AdmissionDecision''
     [(''disposition'', canon_enum admission_disposition_value (dc_disposition x)),
      (''reason'', canon_enum admission_reason_value (dc_reason x)),
      (''failed_scope'', canon_opt canon_budget_scope (dc_failed_scope x)),
      (''projections'', canon_tuple canon_budget_projection (dc_projections x))]"

definition canon_reservation_proposal :: "reservation_proposal \<Rightarrow> json" where
  "canon_reservation_proposal x = canon_dataclass ''ReservationProposal''
     [(''operation_id'', JStr (rp_operation_id x)),
      (''expected_revision'', JInt (rp_expected_revision x)),
      (''expected_state_digest'', JStr (rp_expected_state_digest x)),
      (''proposed_revision'', JInt (rp_proposed_revision x)),
      (''proposed_state_digest'', JStr (rp_proposed_state_digest x)),
      (''proposed_state'', canon_admission_state (rp_proposed_state x)),
      (''schema_version'', JInt (rp_version x))]"

definition canon_admission_result :: "admission_result \<Rightarrow> json" where
  "canon_admission_result x = canon_dataclass ''AdmissionResult''
     [(''decision'', canon_admission_decision (ad_decision x)),
      (''proposal'', canon_opt canon_reservation_proposal (ad_proposal x))]"

definition canon_authenticated_broker_evidence :: "authenticated_broker_evidence \<Rightarrow> json" where
  "canon_authenticated_broker_evidence x = canon_dataclass ''AuthenticatedBrokerEvidence''
     [(''broker_identity'', JStr (ab_broker_identity x)),
      (''issuer'', JStr (ab_issuer x)),
      (''audience'', JStr (ab_audience x)),
      (''subject'', JStr (ab_subject x)),
      (''verifier_policy_revision'', JStr (ab_verifier_policy_revision x)),
      (''authentication_evidence_digest'', JStr (ab_authentication_evidence_digest x)),
      (''verified_at'', JInt (ab_verified_at x)),
      (''valid_until'', JInt (ab_valid_until x))]"

definition canon_persistence_confirmation :: "persistence_confirmation \<Rightarrow> json" where
  "canon_persistence_confirmation x = canon_dataclass ''PersistenceConfirmation''
     [(''operation_id'', JStr (cf_operation_id x)),
      (''persisted_revision'', JInt (cf_persisted_revision x)),
      (''persisted_state_digest'', JStr (cf_persisted_state_digest x)),
      (''authenticated_broker'', canon_authenticated_broker_evidence (cf_authenticated_broker x)),
      (''evidence_digest'', JStr (cf_evidence_digest x)),
      (''persisted_at'', JInt (cf_persisted_at x)),
      (''schema_version'', JInt (cf_version x))]"

definition canon_permit_redemption_proposal :: "permit_redemption_proposal \<Rightarrow> json" where
  "canon_permit_redemption_proposal x = canon_dataclass ''PermitRedemptionProposal''
     [(''operation_id'', JStr (rd_operation_id x)),
      (''permit_digest'', JStr (rd_permit_digest x)),
      (''presentation_digest'', JStr (rd_presentation_digest x)),
      (''permit_issued_at'', JInt (rd_permit_issued_at x)),
      (''expected_revision'', JInt (rd_expected_revision x)),
      (''expected_state_digest'', JStr (rd_expected_state_digest x)),
      (''proposed_revision'', JInt (rd_proposed_revision x)),
      (''proposed_state_digest'', JStr (rd_proposed_state_digest x)),
      (''proposed_state'', canon_admission_state (rd_proposed_state x))]"

definition canon_create_submission_authorization :: "create_submission_authorization \<Rightarrow> json" where
  "canon_create_submission_authorization x = canon_dataclass ''CreateSubmissionAuthorization''
     [(''operation_id'', JStr (sa_operation_id x)),
      (''permit_digest'', JStr (sa_permit_digest x)),
      (''state_revision'', JInt (sa_state_revision x)),
      (''state_digest'', JStr (sa_state_digest x)),
      (''broker_identity'', JStr (sa_broker_identity x)),
      (''presenter_identity'', JStr (sa_presenter_identity x)),
      (''audience'', JStr (sa_audience x)),
      (''policy_bindings'', canon_tuple canon_admission_policy_binding (sa_policy_bindings x)),
      (''valid_until'', JInt (sa_valid_until x)),
      (''redemption_evidence_digest'', JStr (sa_redemption_evidence_digest x)),
      (''issued_at'', JInt (sa_issued_at x))]"

section \<open>The reference records\<close>

definition NOW :: int where
  "NOW = 1800000000"

definition OWNER :: string where
  "OWNER = ''akash1n4uut3vxmkdp8wsrya3q0qyddgqey0rh9as4ee''"

definition POLICY_REVISION :: string where
  "POLICY_REVISION = replicate 40 (CHR ''9'')"

definition SCHEMA_VERSION :: string where
  "SCHEMA_VERSION = ''akash-lifecycle-interoperability/v1''"

text \<open>\<^verbatim>\<open>EMPTY_RESERVATION_POPULATION_DIGEST\<close> is the digest of no operations; it is computed when the module is loaded.\<close>

definition EMPTY_RESERVATION_POPULATION_DIGEST :: "string result" where
  "EMPTY_RESERVATION_POPULATION_DIGEST = canonical_reservation_population_digest []"

definition bundle_scope :: "admission_scope result" where
  "bundle_scope = construct is_admission_scope
     \<lparr>as_chain_id = ''akashnet-2'', as_owner = OWNER,
      as_producer_issuer = ''https://token.actions.githubusercontent.com'',
      as_repository_owner_id = ''456'', as_repository_id = ''123'', as_repository = ''example/repo'',
      as_workload_class = ''ci-runner'', as_version = ADMISSION_SCHEMA_VERSION\<rparr>"

definition bundle_prepared :: "string \<Rightarrow> prepared_create result" where
  "bundle_prepared operation_id =
     bindR bundle_scope (\<lambda>current_scope.
     bindR (construct is_prepared_group
       \<lparr>pg_gseq = 1, pg_group_name = ''example-idv1-class-ci-runner-g1-attempt-1-run-42-end''\<rparr>) (\<lambda>group.
     bindR (construct is_producer_provenance
       \<lparr>pp_repository = as_repository current_scope, pp_repository_id = as_repository_id current_scope,
        pp_repository_owner_id = as_repository_owner_id current_scope,
        pp_issuer = as_producer_issuer current_scope, pp_audience = ''akash-create'',
        pp_subject = ''repo:example/repo:ref:refs/heads/main'',
        pp_workflow_ref = ''example/repo/.github/workflows/deploy.yml@refs/heads/main'',
        pp_workflow_sha = replicate 40 (CHR ''1''), pp_ref = ''refs/heads/main'', pp_jti = ''oidc-jti-1'',
        pp_authentication_evidence_digest = replicate 64 (CHR ''2''),
        pp_version = JOURNAL_SCHEMA_VERSION\<rparr>) (\<lambda>producer.
     bindR (construct is_lifecycle_identity
       \<lparr>li_repository = as_repository current_scope, li_workload_class = as_workload_class current_scope,
        li_run = Some 42, li_run_attempt = Some 1, li_release = None, li_expires = None,
        li_version = JOURNAL_SCHEMA_VERSION\<rparr>) (\<lambda>lifecycle.
     bindR (construct is_backend_identity
       \<lparr>bi_kind = MEDIATED, bi_identifier = ''console:production'',
        bi_version = JOURNAL_SCHEMA_VERSION\<rparr>) (\<lambda>backend.
     bindR (construct is_owner_candidate
       \<lparr>oc_backend = backend, oc_owner = as_owner current_scope,
        oc_evidence_kind = AUTHENTICATED_MEDIATOR,
        oc_evidence_source = ''console authenticated account endpoint'',
        oc_evidence_digest = replicate 64 (CHR ''3''), oc_version = JOURNAL_SCHEMA_VERSION\<rparr>) (\<lambda>candidate.
     bindR (canonical_group_population_digest [group]) (\<lambda>population.
     construct is_prepared_create
       \<lparr>pc_operation_id = operation_id, pc_operation_ordinal = 1, pc_producer = producer,
        pc_lifecycle = lifecycle, pc_owner_candidate = candidate,
        pc_request_digest = replicate 64 (CHR ''4''), pc_sdl_digest = replicate 64 (CHR ''5''),
        pc_groups = [group], pc_group_population_digest = population,
        pc_source_revision = replicate 40 (CHR ''6''), pc_prepared_at = NOW - 2,
        pc_version = JOURNAL_SCHEMA_VERSION\<rparr>)))))))"

definition bundle_request :: "string \<Rightarrow> admission_request result" where
  "bundle_request operation_id =
     bindR bundle_scope (\<lambda>current_scope.
     bindR (bundle_prepared operation_id) (\<lambda>operation.
     bindR (construct is_create_exposure_evidence
       \<lparr>xe_chain_id = as_chain_id current_scope, xe_operation_id = pc_operation_id operation,
        xe_prepared_operation_digest = canonical_journal_digest (canon_prepared_create operation),
        xe_request_digest = pc_request_digest operation, xe_sdl_digest = pc_sdl_digest operation,
        xe_backend = oc_backend (pc_owner_candidate operation),
        xe_backend_policy_revision = POLICY_REVISION, xe_amount_uact = 100,
        xe_source = ''signed backend exposure policy'', xe_evidence_digest = replicate 64 (CHR ''7''),
        xe_observed_at = NOW - 1, xe_valid_until = NOW + 20,
        xe_version = ADMISSION_SCHEMA_VERSION\<rparr>) (\<lambda>exposure.
     construct is_admission_request
       \<lparr>ar_prepared = operation, ar_scope = current_scope, ar_exposure = exposure,
        ar_requested_at = NOW, ar_version = ADMISSION_SCHEMA_VERSION\<rparr>)))"

definition bundle_limits :: "int \<Rightarrow> containment_limits result" where
  "bundle_limits max_active = construct is_containment_limits
     \<lparr>cl_max_active_deployments = max_active, cl_max_unresolved_create_outcomes = 2,
      cl_max_financial_exposure_uact = 500, cl_exposure_policy_revision = POLICY_REVISION,
      cl_admission_policy_revision = POLICY_REVISION, cl_policy_reference = ''policy:2026-09-12'',
      cl_valid_until = NOW + 100, cl_version = ADMISSION_SCHEMA_VERSION\<rparr>"

definition bundle_census :: "int \<Rightarrow> containment_census result" where
  "bundle_census active =
     bindR EMPTY_RESERVATION_POPULATION_DIGEST (\<lambda>empty.
     construct is_containment_census
       \<lparr>cc_active_deployments = active, cc_unresolved_create_outcomes = 0, cc_financial_exposure_uact = 0,
        cc_excluded_reservation_count = 0, cc_excluded_reservation_population_digest = empty,
        cc_journal_status = CENSUS_VERIFIED, cc_recovery_reader_status = CENSUS_VERIFIED,
        cc_chain_status = CENSUS_VERIFIED, cc_accounting_status = CENSUS_VERIFIED,
        cc_observed_at = NOW - 10, cc_valid_until = NOW + 10,
        cc_evidence_digest = replicate 64 (CHR ''a''), cc_version = ADMISSION_SCHEMA_VERSION\<rparr>)"

definition bundle_state :: "int \<Rightarrow> int \<Rightarrow> admission_state result" where
  "bundle_state active max_active =
     bindR bundle_scope (\<lambda>current_scope.
     bindR (construct is_owner_budget_scope
       \<lparr>os_chain_id = as_chain_id current_scope, os_owner = as_owner current_scope,
        os_version = ADMISSION_SCHEMA_VERSION\<rparr>) (\<lambda>owner.
     bindR (mapR (\<lambda>item.
         bindR (bundle_limits max_active) (\<lambda>l.
         bindR (bundle_census active) (\<lambda>c.
         construct is_scope_budget
           \<lparr>sb_scope = item, sb_limits = l, sb_census = c, sb_version = ADMISSION_SCHEMA_VERSION\<rparr>)))
       [OwnerScope owner, LeafScope current_scope]) (\<lambda>budgets.
     construct is_admission_state
       \<lparr>st_budgets = budgets, st_reservations = [], st_revision = 0,
        st_version = ADMISSION_SCHEMA_VERSION\<rparr>)))"

definition bundle_confirmation ::
    "reservation_proposal \<Rightarrow> int option \<Rightarrow> string option \<Rightarrow> persistence_confirmation result" where
  "bundle_confirmation p persisted_revision persisted_digest =
     bindR (construct is_authenticated_broker_evidence
       \<lparr>ab_broker_identity = ''firestore-broker:multi-region'',
        ab_issuer = ''https://token.actions.githubusercontent.com'', ab_audience = ''akash-create-broker'',
        ab_subject = ''repo:example/broker:environment:production'',
        ab_verifier_policy_revision = replicate 40 (CHR ''8''),
        ab_authentication_evidence_digest = replicate 64 (CHR ''c''),
        ab_verified_at = NOW, ab_valid_until = NOW + 10\<rparr>) (\<lambda>broker.
     construct is_persistence_confirmation
       \<lparr>cf_operation_id = rp_operation_id p,
        cf_persisted_revision = (case persisted_revision of None \<Rightarrow> rp_proposed_revision p | Some n \<Rightarrow> n),
        cf_persisted_state_digest =
          (case persisted_digest of None \<Rightarrow> rp_proposed_state_digest p | Some d \<Rightarrow> d),
        cf_authenticated_broker = broker, cf_evidence_digest = replicate 64 (CHR ''b''),
        cf_persisted_at = NOW + 1, cf_version = ADMISSION_SCHEMA_VERSION\<rparr>)"

section \<open>Every reference record is valid\<close>

text \<open>The values, and that no constructor of the builders raises.\<close>

definition ref_scope :: admission_scope where
  "ref_scope =
     \<lparr>as_chain_id = ''akashnet-2'', as_owner = OWNER,
      as_producer_issuer = ''https://token.actions.githubusercontent.com'',
      as_repository_owner_id = ''456'', as_repository_id = ''123'', as_repository = ''example/repo'',
      as_workload_class = ''ci-runner'', as_version = ADMISSION_SCHEMA_VERSION\<rparr>"

definition ref_group :: prepared_group where
  "ref_group = \<lparr>pg_gseq = 1, pg_group_name = ''example-idv1-class-ci-runner-g1-attempt-1-run-42-end''\<rparr>"

definition ref_population :: string where
  "ref_population = sha256_hexdigest (dumps (JArr [JArr [JInt (pg_gseq ref_group), JStr (pg_group_name ref_group)]]))"

definition ref_producer :: producer_provenance where
  "ref_producer =
     \<lparr>pp_repository = ''example/repo'', pp_repository_id = ''123'', pp_repository_owner_id = ''456'',
      pp_issuer = ''https://token.actions.githubusercontent.com'', pp_audience = ''akash-create'',
      pp_subject = ''repo:example/repo:ref:refs/heads/main'',
      pp_workflow_ref = ''example/repo/.github/workflows/deploy.yml@refs/heads/main'',
      pp_workflow_sha = replicate 40 (CHR ''1''), pp_ref = ''refs/heads/main'', pp_jti = ''oidc-jti-1'',
      pp_authentication_evidence_digest = replicate 64 (CHR ''2''), pp_version = JOURNAL_SCHEMA_VERSION\<rparr>"

definition ref_lifecycle :: lifecycle_identity where
  "ref_lifecycle =
     \<lparr>li_repository = ''example/repo'', li_workload_class = ''ci-runner'', li_run = Some 42,
      li_run_attempt = Some 1, li_release = None, li_expires = None, li_version = JOURNAL_SCHEMA_VERSION\<rparr>"

definition ref_backend :: backend_identity where
  "ref_backend = \<lparr>bi_kind = MEDIATED, bi_identifier = ''console:production'', bi_version = JOURNAL_SCHEMA_VERSION\<rparr>"

definition ref_candidate :: owner_candidate where
  "ref_candidate =
     \<lparr>oc_backend = ref_backend, oc_owner = OWNER, oc_evidence_kind = AUTHENTICATED_MEDIATOR,
      oc_evidence_source = ''console authenticated account endpoint'',
      oc_evidence_digest = replicate 64 (CHR ''3''), oc_version = JOURNAL_SCHEMA_VERSION\<rparr>"

definition ref_prepared :: "string \<Rightarrow> prepared_create" where
  "ref_prepared operation_id =
     \<lparr>pc_operation_id = operation_id, pc_operation_ordinal = 1, pc_producer = ref_producer,
      pc_lifecycle = ref_lifecycle, pc_owner_candidate = ref_candidate,
      pc_request_digest = replicate 64 (CHR ''4''), pc_sdl_digest = replicate 64 (CHR ''5''),
      pc_groups = [ref_group], pc_group_population_digest = ref_population,
      pc_source_revision = replicate 40 (CHR ''6''), pc_prepared_at = NOW - 2,
      pc_version = JOURNAL_SCHEMA_VERSION\<rparr>"

definition ref_exposure :: "string \<Rightarrow> create_exposure_evidence" where
  "ref_exposure operation_id =
     \<lparr>xe_chain_id = ''akashnet-2'', xe_operation_id = operation_id,
      xe_prepared_operation_digest = canonical_journal_digest (canon_prepared_create (ref_prepared operation_id)),
      xe_request_digest = replicate 64 (CHR ''4''), xe_sdl_digest = replicate 64 (CHR ''5''),
      xe_backend = ref_backend, xe_backend_policy_revision = POLICY_REVISION, xe_amount_uact = 100,
      xe_source = ''signed backend exposure policy'', xe_evidence_digest = replicate 64 (CHR ''7''),
      xe_observed_at = NOW - 1, xe_valid_until = NOW + 20, xe_version = ADMISSION_SCHEMA_VERSION\<rparr>"

definition ref_request :: "string \<Rightarrow> admission_request" where
  "ref_request operation_id =
     \<lparr>ar_prepared = ref_prepared operation_id, ar_scope = ref_scope, ar_exposure = ref_exposure operation_id,
      ar_requested_at = NOW, ar_version = ADMISSION_SCHEMA_VERSION\<rparr>"

definition ref_limits :: "int \<Rightarrow> containment_limits" where
  "ref_limits max_active =
     \<lparr>cl_max_active_deployments = max_active, cl_max_unresolved_create_outcomes = 2,
      cl_max_financial_exposure_uact = 500, cl_exposure_policy_revision = POLICY_REVISION,
      cl_admission_policy_revision = POLICY_REVISION, cl_policy_reference = ''policy:2026-09-12'',
      cl_valid_until = NOW + 100, cl_version = ADMISSION_SCHEMA_VERSION\<rparr>"

definition ref_census :: "int \<Rightarrow> containment_census" where
  "ref_census active =
     \<lparr>cc_active_deployments = active, cc_unresolved_create_outcomes = 0, cc_financial_exposure_uact = 0,
      cc_excluded_reservation_count = 0, cc_excluded_reservation_population_digest = ids_digest [],
      cc_journal_status = CENSUS_VERIFIED, cc_recovery_reader_status = CENSUS_VERIFIED,
      cc_chain_status = CENSUS_VERIFIED, cc_accounting_status = CENSUS_VERIFIED,
      cc_observed_at = NOW - 10, cc_valid_until = NOW + 10,
      cc_evidence_digest = replicate 64 (CHR ''a''), cc_version = ADMISSION_SCHEMA_VERSION\<rparr>"

definition ref_budget :: "int \<Rightarrow> int \<Rightarrow> budget_scope \<Rightarrow> scope_budget" where
  "ref_budget active max_active item =
     \<lparr>sb_scope = item, sb_limits = ref_limits max_active, sb_census = ref_census active,
      sb_version = ADMISSION_SCHEMA_VERSION\<rparr>"

definition ref_state :: "int \<Rightarrow> int \<Rightarrow> admission_state" where
  "ref_state active max_active =
     \<lparr>st_budgets = map (ref_budget active max_active)
        [OwnerScope (owner_scope_of ref_scope), LeafScope ref_scope],
      st_reservations = [], st_revision = 0, st_version = ADMISSION_SCHEMA_VERSION\<rparr>"

lemma ref_digits [simp]:
  "is_digest (replicate 64 (CHR ''2''))" "is_digest (replicate 64 (CHR ''3''))" "is_digest (replicate 64 (CHR ''4''))"
  "is_digest (replicate 64 (CHR ''5''))" "is_digest (replicate 64 (CHR ''7''))" "is_digest (replicate 64 (CHR ''a''))"
  "is_digest (replicate 64 (CHR ''b''))" "is_digest (replicate 64 (CHR ''c''))" "is_digest (replicate 64 (CHR ''d''))"
  "is_revision (replicate 40 (CHR ''1''))" "is_revision (replicate 40 (CHR ''6''))"
  "is_revision (replicate 40 (CHR ''8''))" "is_revision POLICY_REVISION"
  by (simp_all add: is_digest_def is_revision_def list_all_iff is_hex_def is_digit_def code_def POLICY_REVISION_def)

lemma ref_times [simp]: "is_time (NOW - 2)" "is_time (NOW - 1)" "is_time NOW" "is_time (NOW + 1)" "is_time (NOW + 10)"
  "is_time (NOW - 10)" "is_time (NOW + 20)" "is_time (NOW + 100)"
  by (simp_all add: is_time_def NOW_def MAX_UTC_UNIX_SECONDS_def)

lemma ref_owner [simp]: "is_canonical_akash_owner OWNER"
  by code_simp

lemma ref_versions [simp]: "is_version JOURNAL_SCHEMA_VERSION" "is_admission_version ADMISSION_SCHEMA_VERSION"
  by code_simp+

lemmas text_defs = is_nonempty_ascii_def is_operation_def nonempty_def strip_def is_space_def isascii_def code_def
  is_positive_text_def is_digit_def CLASSES_def

lemma ref_texts [simp]:
  "is_nonempty_ascii 256 ''https://token.actions.githubusercontent.com''"
  "is_nonempty_ascii 256 ''example/repo''" "is_nonempty_ascii 256 ''signed backend exposure policy''"
  "is_nonempty_ascii 256 ''policy:2026-09-12''" "is_nonempty_ascii 256 ''firestore-broker:multi-region''"
  "is_nonempty_ascii 256 ''akash-create-broker''"
  "is_nonempty_ascii 256 ''repo:example/broker:environment:production''"
  "is_positive_text ''456''" "is_positive_text ''123''" "''ci-runner'' \<in> set CLASSES"
  "nonempty ''console authenticated account endpoint''"
  by (simp_all add: text_defs)

lemma ref_valid [simp]:
  "is_admission_scope ref_scope" "is_prepared_group ref_group" "is_producer_provenance ref_producer"
  "is_lifecycle_identity ref_lifecycle" "is_backend_identity ref_backend" "is_owner_candidate ref_candidate"
proof -
  show "is_admission_scope ref_scope" by (simp add: is_admission_scope_def ref_scope_def)
  show "is_prepared_group ref_group" by (simp add: is_prepared_group_def ref_group_def text_defs)
  show "is_producer_provenance ref_producer"
    by (simp add: is_producer_provenance_def ref_producer_def text_defs)
  show "is_lifecycle_identity ref_lifecycle"
    by (simp add: is_lifecycle_identity_def ref_lifecycle_def starts_with_def text_defs)
  show backend: "is_backend_identity ref_backend" by (simp add: is_backend_identity_def ref_backend_def text_defs)
  show "is_owner_candidate ref_candidate"
    using backend by (simp add: is_owner_candidate_def ref_candidate_def expected_evidence_kind_def) (simp add: ref_backend_def)
qed

text \<open>Two operations of one producer run.\<close>

definition ref_operations :: "string set" where
  "ref_operations = {''create:example/repo:42:1'', ''create:example/repo:42:2''}"

lemma ref_operation [simp]:
  "op \<in> ref_operations \<Longrightarrow> is_operation op" "op \<in> ref_operations \<Longrightarrow> is_nonempty_ascii 128 op"
proof -
  have "is_operation ''create:example/repo:42:1''" "is_operation ''create:example/repo:42:2''"
    "is_nonempty_ascii 128 ''create:example/repo:42:1''" "is_nonempty_ascii 128 ''create:example/repo:42:2''"
    by (simp_all add: text_defs)
  then show "op \<in> ref_operations \<Longrightarrow> is_operation op" "op \<in> ref_operations \<Longrightarrow> is_nonempty_ascii 128 op"
    by (auto simp: ref_operations_def)
qed

lemma ref_groups_digest: "canonical_group_population_digest [ref_group] = Inr ref_population"
  by (simp add: canonical_group_population_digest_def ref_population_def) (simp add: ref_group_def)

lemma ref_prepared_valid: "op \<in> ref_operations \<Longrightarrow> is_prepared_create (ref_prepared op)"
  by (simp add: is_prepared_create_def ref_prepared_def ref_groups_digest)
    (simp add: ref_lifecycle_def ref_producer_def)

lemma ref_exposure_valid: "op \<in> ref_operations \<Longrightarrow> is_create_exposure_evidence (ref_exposure op)"
  by (simp add: is_create_exposure_evidence_def ref_exposure_def is_count_def)

lemma ref_expected_scope: "expected_scope (ref_request op) = ref_scope"
  by (simp add: expected_scope_def ref_request_def ref_prepared_def ref_exposure_def ref_scope_def
      ref_producer_def ref_lifecycle_def ref_candidate_def Let_def)

lemma ref_request_fields [simp]:
  "ar_scope (ref_request op) = ref_scope" "ar_exposure (ref_request op) = ref_exposure op"
  "ar_prepared (ref_request op) = ref_prepared op" "ar_operation_id (ref_request op) = op"
  "ar_requested_at (ref_request op) = NOW"
  by (simp_all add: ref_request_def ar_operation_id_def ref_prepared_def)

lemma ref_request_valid: "op \<in> ref_operations \<Longrightarrow> is_admission_request (ref_request op)"
  using ref_prepared_valid ref_exposure_valid
  by (simp add: is_admission_request_def ref_expected_scope ar_prepared_operation_digest_def)
    (simp add: ref_request_def ref_exposure_def ref_prepared_def ref_scope_def ref_candidate_def)

lemma ref_limits_valid: "0 \<le> m \<Longrightarrow> is_containment_limits (ref_limits m)"
  by (simp add: is_containment_limits_def ref_limits_def is_count_def)

lemma ref_census_valid: "0 \<le> a \<Longrightarrow> is_containment_census (ref_census a)"
  by (simp add: is_containment_census_def ref_census_def is_count_def ids_digest_def)

lemma ref_owner_scope: "\<lparr>os_chain_id = ''akashnet-2'', os_owner = OWNER,
    os_version = ADMISSION_SCHEMA_VERSION\<rparr> = owner_scope_of ref_scope"
  by (simp add: owner_scope_of_def ref_scope_def)

lemma ref_owner_valid: "is_owner_budget_scope (owner_scope_of ref_scope)"
  using ref_valid(1) by (simp add: is_owner_budget_scope_def is_admission_scope_def owner_scope_of_def)

lemma ref_budget_valid:
  "0 \<le> a \<Longrightarrow> 0 \<le> m \<Longrightarrow> item \<in> {OwnerScope (owner_scope_of ref_scope), LeafScope ref_scope} \<Longrightarrow>
    is_scope_budget (ref_budget a m item)"
  using ref_owner_valid by (auto simp: is_scope_budget_def ref_budget_def ref_limits_valid ref_census_valid)

lemma ref_state_valid: "0 \<le> a \<Longrightarrow> 0 \<le> m \<Longrightarrow> is_admission_state (ref_state a m)"
  by (simp add: is_admission_state_def ref_state_def ref_budget_valid is_count_def) (simp add: ref_budget_def)

section \<open>What the builders return\<close>

lemma bundle_scope_value: "bundle_scope = Inr ref_scope"
  using ref_valid(1) by (simp add: bundle_scope_def construct_def ref_scope_def)

lemma ref_scope_fields [simp]:
  "as_chain_id ref_scope = ''akashnet-2''" "as_owner ref_scope = OWNER"
  "as_producer_issuer ref_scope = ''https://token.actions.githubusercontent.com''"
  "as_repository_owner_id ref_scope = ''456''" "as_repository_id ref_scope = ''123''"
  "as_repository ref_scope = ''example/repo''" "as_workload_class ref_scope = ''ci-runner''"
  by (simp_all add: ref_scope_def)

lemma bundle_prepared_value:
  assumes "op \<in> ref_operations"
  shows "bundle_prepared op = Inr (ref_prepared op)"
  using ref_valid ref_prepared_valid[OF assms]
  by (simp add: bundle_prepared_def bundle_scope_value construct_def ref_group_def[symmetric]
      ref_producer_def[symmetric] ref_lifecycle_def[symmetric] ref_backend_def[symmetric]
      ref_candidate_def[symmetric] ref_groups_digest ref_prepared_def[symmetric])

lemma ref_prepared_fields [simp]:
  "pc_operation_id (ref_prepared op) = op" "pc_request_digest (ref_prepared op) = replicate 64 (CHR ''4'')"
  "pc_sdl_digest (ref_prepared op) = replicate 64 (CHR ''5'')"
  "oc_backend (pc_owner_candidate (ref_prepared op)) = ref_backend"
  by (simp_all add: ref_prepared_def ref_candidate_def)

lemma bundle_request_value:
  assumes "op \<in> ref_operations"
  shows "bundle_request op = Inr (ref_request op)"
  using ref_exposure_valid[OF assms] ref_request_valid[OF assms]
  by (simp add: bundle_request_def bundle_scope_value bundle_prepared_value[OF assms] construct_def
      ref_exposure_def[symmetric] ref_request_def[symmetric])

lemma bundle_state_value:
  assumes "0 \<le> a" "0 \<le> m"
  shows "bundle_state a m = Inr (ref_state a m)"
proof -
  have l: "bundle_limits m = Inr (ref_limits m)"
    using ref_limits_valid[OF assms(2)] by (simp add: bundle_limits_def construct_def ref_limits_def)
  have c: "bundle_census a = Inr (ref_census a)"
    using ref_census_valid[OF assms(1)]
    by (simp add: bundle_census_def construct_def ref_census_def EMPTY_RESERVATION_POPULATION_DIGEST_def)
  show ?thesis
    using ref_owner_valid ref_state_valid[OF assms] ref_budget_valid[OF assms]
    by (simp add: bundle_state_def bundle_scope_value ref_owner_scope l c construct_def
        ref_budget_def[symmetric] ref_state_def)
qed

end
