(* ===== verification/BundleVectors.thy ===== *)
theory BundleVectors
  imports BundleFixtures "HOL-Library.Monad_Syntax"
begin

text \<open>
  The golden vectors of the bundle, \<^verbatim>\<open>build_vectors\<close>: what the package answers on the reference records,
  the canonical text of one dictionary and the integers a consumer has to accept. \<open>None\<close> is an exception
  that ends the tool.
\<close>

record vector =
  vc_id :: string
  vc_operation :: string
  vc_input :: wide
  vc_expected :: wide

definition returned :: "'a result \<Rightarrow> 'a option" where
  "returned r = (case r of Inl _ \<Rightarrow> None | Inr x \<Rightarrow> Some x)"

lemma returned_simps [simp]: "returned (Inr x) = Some x" "returned (Inl e) = None"
  by (simp_all add: returned_def)

section \<open>Answers\<close>

definition wide_opt :: "('a \<Rightarrow> wide) \<Rightarrow> 'a option \<Rightarrow> wide" where
  "wide_opt f v = (case v of None \<Rightarrow> WNull | Some x \<Rightarrow> f x)"

definition result_wire :: "string \<Rightarrow> string \<Rightarrow> int option \<Rightarrow> wide" where
  "result_wire disposition reason proposal_revision = wide_dict
     [(''disposition'', wide_text disposition), (''reason'', wide_text reason),
      (''proposal_revision'', wide_opt WInt proposal_revision)]"

definition decision_wire :: "admission_result \<Rightarrow> int option \<Rightarrow> wide" where
  "decision_wire res revision = result_wire
     (admission_disposition_value (dc_disposition (ad_decision res)))
     (admission_reason_value (dc_reason (ad_decision res))) revision"

definition permit_wire :: "string option \<Rightarrow> wide" where
  "permit_wire exception = wide_dict
     [(''accepted'', WBool (exception = None)), (''core_exception'', wide_opt wide_text exception),
      (''permit_issued'', WBool (exception = None))]"

text \<open>Only a refusal of the confirmation and a \<^verbatim>\<open>ValueError\<close> are answers; the classes that derive from them do not arise.\<close>

definition confirmation_result ::
    "reservation_proposal \<Rightarrow> admission_state \<Rightarrow> admission_request \<Rightarrow> admission_state
     \<Rightarrow> persistence_confirmation \<Rightarrow> wide option" where
  "confirmation_result p pre_state r observed_state receipt =
     (case confirm_persisted_reservation p pre_state r observed_state receipt of
        Inr _ \<Rightarrow> Some (permit_wire None)
      | Inl PersistenceConfirmationError \<Rightarrow> Some (permit_wire (Some ''PersistenceConfirmationError''))
      | Inl ValueError \<Rightarrow> Some (permit_wire (Some ''ValueError''))
      | Inl _ \<Rightarrow> None)"

section \<open>Reservations\<close>

definition reservation_vector ::
    "nat \<Rightarrow> string \<Rightarrow> admission_state \<Rightarrow> admission_request \<Rightarrow> int \<Rightarrow> wide \<Rightarrow> vector option" where
  "reservation_vector limit name s r revision expected = do {
     state \<leftarrow> typed limit (canon_admission_state s);
     request \<leftarrow> typed limit (canon_admission_request r);
     Some \<lparr>vc_id = name, vc_operation = ''reserve_capacity'',
       vc_input = wide_dict [(''state'', state), (''request'', request),
         (''expected_revision'', WInt revision), (''now'', WInt NOW)],
       vc_expected = expected\<rparr>
   }"

definition largest_exact_js_integer :: int where
  "largest_exact_js_integer = 2 ^ 53 - 1"

definition reservation_vectors ::
    "nat \<Rightarrow> admission_state \<Rightarrow> admission_request \<Rightarrow> admission_result \<Rightarrow> reservation_proposal \<Rightarrow> vector list option" where
  "reservation_vectors limit initial r admitted p = do {
     rejected_state \<leftarrow> returned (bundle_state largest_exact_js_integer largest_exact_js_integer);
     rejected \<leftarrow> returned (reserve_capacity rejected_state r 0 NOW);
     replay \<leftarrow> returned (reserve_capacity (rp_proposed_state p) r (rp_proposed_revision p) NOW);
     v1 \<leftarrow> reservation_vector limit ''reservation-success'' initial r 0
       (decision_wire admitted (Some (rp_proposed_revision p)));
     v2 \<leftarrow> reservation_vector limit ''reservation-rejected-at-active-limit'' rejected_state r 0
       (decision_wire rejected None);
     v3 \<leftarrow> reservation_vector limit ''reservation-replay-reconciles'' (rp_proposed_state p) r
       (rp_proposed_revision p) (decision_wire replay None);
     Some [v1, v2, v3]
   }"

section \<open>Confirmations\<close>

text \<open>\<^verbatim>\<open>dataclasses.replace\<close> validates the copy again; \<^verbatim>\<open>_forge\<close> does not.\<close>

definition confirmation_cases ::
    "admission_state \<Rightarrow> admission_request \<Rightarrow> reservation_proposal
     \<Rightarrow> (string \<times> admission_state \<times> admission_request \<times> admission_state \<times> persistence_confirmation) list option" where
  "confirmation_cases initial r p = do {
     mismatched \<leftarrow> returned (bundle_confirmation p (Some (st_revision initial))
       (Some (canonical_admission_state_digest initial)));
     valid \<leftarrow> returned (bundle_confirmation p None None);
     foreign \<leftarrow> returned (bundle_request ''create:example/repo:42:2'');
     expired_broker \<leftarrow> returned (construct is_authenticated_broker_evidence
       ((cf_authenticated_broker valid)\<lparr>ab_valid_until := cf_persisted_at valid - 1\<rparr>));
     expired \<leftarrow> returned (construct is_persistence_confirmation
       (valid\<lparr>cf_authenticated_broker := expired_broker\<rparr>));
     wrong_digest \<leftarrow> returned (construct is_persistence_confirmation
       (valid\<lparr>cf_persisted_state_digest := replicate 64 (CHR ''d'')\<rparr>));
     other_operation \<leftarrow> returned (construct is_persistence_confirmation
       (valid\<lparr>cf_operation_id := ''other-operation''\<rparr>));
     other_state \<leftarrow> returned (bundle_state 1 3);
     let observed = rp_proposed_state p in
     Some
       [(''confirmation-success-issues-permit'', initial, r, observed, valid),
        (''partial-store-refuses-permit'', initial, r, initial, mismatched),
        (''foreign-request-refuses-permit'', initial, foreign, observed, valid),
        (''expired-broker-evidence-refuses-permit'', initial, r, observed, expired),
        (''wrong-persisted-digest-refuses-permit'', initial, r, observed, wrong_digest),
        (''foreign-operation-confirmation-refuses-permit'', initial, r, observed, other_operation),
        (''foreign-pre-state-refuses-permit'', other_state, r, observed, valid),
        (''malformed-persistence-evidence-digest-refuses-permit'', initial, r, observed,
           valid\<lparr>cf_evidence_digest := ''not-a-digest''\<rparr>)]
   }"

definition confirmation_vector ::
    "nat \<Rightarrow> reservation_proposal
     \<Rightarrow> string \<times> admission_state \<times> admission_request \<times> admission_state \<times> persistence_confirmation
     \<Rightarrow> vector option" where
  "confirmation_vector limit p = (\<lambda>(case_id, pre_state, r, observed_state, receipt). do {
     proposal \<leftarrow> typed limit (canon_reservation_proposal p);
     before \<leftarrow> typed limit (canon_admission_state pre_state);
     request \<leftarrow> typed limit (canon_admission_request r);
     observed \<leftarrow> typed limit (canon_admission_state observed_state);
     confirmation \<leftarrow> typed limit (canon_persistence_confirmation receipt);
     expected \<leftarrow> confirmation_result p pre_state r observed_state receipt;
     Some \<lparr>vc_id = case_id, vc_operation = ''confirm_persisted_reservation'',
       vc_input = wide_dict [(''proposal'', proposal), (''pre_state'', before), (''request'', request),
         (''observed_state'', observed), (''confirmation'', confirmation)],
       vc_expected = expected\<rparr>
   })"

section \<open>Canonical texts and integers\<close>

definition canonical_entries :: "(nat list \<times> nat list) list" where
  "canonical_entries =
     [([65536], text_of ''astral-key''), ([57344], text_of ''bmp-private-use-key''),
      (text_of ''z'', [0, 8, 12, 10, 13, 9]), (text_of ''a'', text_of ''rocket: '' @ [128640])]"

definition canonical_vector :: vector where
  "canonical_vector =
     \<lparr>vc_id = ''canonical-json-control-astral-and-key-order'', vc_operation = ''canonical_json_entries'',
      vc_input = wide_dict
        [(''entries'', WList (map (\<lambda>(k, v). WList [WText k, WText v]) canonical_entries))],
      vc_expected = wide_dict
        [(''canonical_json'', wide_text (canonical_bytes (WDict (map (\<lambda>(k, v). (k, WText v)) canonical_entries))))]\<rparr>"

definition accepted_integer :: "string \<Rightarrow> vector" where
  "accepted_integer decimal_text =
     \<lparr>vc_id = ''canonical-nonnegative-integer-'' @ decimal_text,
      vc_operation = ''canonical_nonnegative_integer'',
      vc_input = wide_dict [(''decimal_text'', wide_text decimal_text),
        (''value'', WInt (int (nat_of_digits decimal_text)))],
      vc_expected = wide_dict [(''accepted'', WBool True), (''canonical_json'', wide_text decimal_text)]\<rparr>"

definition rejected_integer :: "string \<Rightarrow> vector" where
  "rejected_integer decimal_text =
     \<lparr>vc_id = ''reject-noncanonical-integer-''
        @ concat (map (\<lambda>c. if c = CHR ''-'' then ''minus'' else [c]) decimal_text),
      vc_operation = ''canonical_nonnegative_integer'',
      vc_input = wide_dict [(''decimal_text'', wide_text decimal_text)],
      vc_expected = wide_dict [(''accepted'', WBool False), (''canonical_json'', WNull)]\<rparr>"

definition integer_vectors :: "vector list" where
  "integer_vectors =
     map (\<lambda>n. accepted_integer (int_str n)) [2 ^ 53 - 1, 2 ^ 53, 2 ^ 64 - 1, 10 ^ 40 + 123]
     @ map rejected_integer [''01'', ''-1'']"

section \<open>The document\<close>

text \<open>The loop that adds to every vector the digest and the bytes of its input and expected answer.\<close>

definition sealed_vector :: "vector \<Rightarrow> wide" where
  "sealed_vector v =
     (let payload = wide_dict [(''input'', vc_input v), (''expected'', vc_expected v)] in
      wide_dict
        [(''id'', wide_text (vc_id v)), (''operation'', wide_text (vc_operation v)),
         (''input'', vc_input v), (''expected'', vc_expected v),
         (''canonical_payload_sha256'', wide_text (bundle_digest payload)),
         (''canonical_payload_utf8_hex'',
            wide_text (concat (map (\<lambda>c. hex_str 2 (code c)) (canonical_bytes payload))))])"

definition golden_vectors :: "nat \<Rightarrow> vector list option" where
  "golden_vectors limit = do {
     initial \<leftarrow> returned (bundle_state 0 3);
     r \<leftarrow> returned (bundle_request ''create:example/repo:42:1'');
     admitted \<leftarrow> returned (reserve_capacity initial r 0 NOW);
     p \<leftarrow> ad_proposal admitted;
     reservations \<leftarrow> reservation_vectors limit initial r admitted p;
     cases \<leftarrow> confirmation_cases initial r p;
     confirmations \<leftarrow> those (map (confirmation_vector limit p) cases);
     Some (reservations @ confirmations @ [canonical_vector] @ integer_vectors)
   }"

definition build_vectors :: "nat \<Rightarrow> wide option" where
  "build_vectors limit = map_option (\<lambda>vs. wide_dict
     [(''contract'', wide_text SCHEMA_VERSION), (''vectors'', WList (map sealed_vector vs))])
     (golden_vectors limit)"

end
