(* ===== verification/BundleSchema.thy ===== *)
theory BundleSchema
  imports BundleVectors
begin

text \<open>
  The machine schema of the bundle, \<^verbatim>\<open>build_model\<close>, and what it is good for: every value the package
  encodes for the wire or for storage conforms to it. A type hint is a value of \<open>hint\<close>, and the fields of a
  class are its dataclass fields with their resolved hints, in order.
\<close>

datatype hint =
    HStr
  | HInt
  | HBool
  | HNone
  | HEllipsis
  | HTuple "hint list"
  | HUnion "hint list"
  | HEnum string
  | HRecord string

section \<open>Classes and enumerations\<close>

definition hints_deployment_key :: "(string \<times> hint) list" where
  "hints_deployment_key =
     [(''owner'', HStr), (''dseq'', HStr)]"

definition hints_backend_identity :: "(string \<times> hint) list" where
  "hints_backend_identity =
     [(''kind'', HEnum ''BackendKind''), (''identifier'', HStr), (''schema_version'', HInt)]"

definition hints_producer_provenance :: "(string \<times> hint) list" where
  "hints_producer_provenance =
     [(''repository'', HStr), (''repository_id'', HStr), (''repository_owner_id'', HStr),
      (''issuer'', HStr), (''audience'', HStr), (''subject'', HStr), (''workflow_ref'', HStr),
      (''workflow_sha'', HStr), (''ref'', HStr), (''jti'', HStr),
      (''authentication_evidence_digest'', HStr), (''schema_version'', HInt)]"

definition hints_lifecycle_identity :: "(string \<times> hint) list" where
  "hints_lifecycle_identity =
     [(''repository'', HStr), (''workload_class'', HStr), (''run'', HUnion [HInt, HNone]),
      (''run_attempt'', HUnion [HInt, HNone]), (''release'', HUnion [HStr, HNone]),
      (''expires'', HUnion [HInt, HNone]), (''schema_version'', HInt)]"

definition hints_owner_candidate :: "(string \<times> hint) list" where
  "hints_owner_candidate =
     [(''backend'', HRecord ''BackendIdentity''), (''owner'', HStr),
      (''evidence_kind'', HEnum ''OwnerEvidenceKind''), (''evidence_source'', HStr),
      (''evidence_digest'', HStr), (''schema_version'', HInt)]"

definition hints_prepared_group :: "(string \<times> hint) list" where
  "hints_prepared_group =
     [(''gseq'', HInt), (''group_name'', HStr)]"

definition hints_prepared_create :: "(string \<times> hint) list" where
  "hints_prepared_create =
     [(''operation_id'', HStr), (''operation_ordinal'', HInt),
      (''producer'', HRecord ''ProducerProvenance''), (''lifecycle'', HRecord ''LifecycleIdentity''),
      (''owner_candidate'', HRecord ''OwnerCandidate''), (''request_digest'', HStr),
      (''sdl_digest'', HStr), (''groups'', HTuple [HRecord ''PreparedGroup'', HEllipsis]),
      (''group_population_digest'', HStr), (''source_revision'', HStr), (''prepared_at'', HInt),
      (''schema_version'', HInt)]"

definition hints_transaction_event_evidence :: "(string \<times> hint) list" where
  "hints_transaction_event_evidence =
     [(''operation_id'', HStr), (''subject'', HRecord ''DeploymentKey''), (''transaction_hash'', HStr),
      (''event_index'', HInt), (''block_height'', HInt), (''chain_id'', HStr),
      (''group_population_digest'', HStr), (''source'', HStr), (''evidence_digest'', HStr)]"

definition hints_exact_chain_read_evidence :: "(string \<times> hint) list" where
  "hints_exact_chain_read_evidence =
     [(''operation_id'', HStr), (''subject'', HRecord ''DeploymentKey''), (''chain_id'', HStr),
      (''block_height'', HInt), (''groups'', HTuple [HRecord ''PreparedGroup'', HEllipsis]),
      (''group_population_digest'', HStr), (''source'', HStr), (''evidence_digest'', HStr),
      (''observed_at'', HInt)]"

definition hints_bound_deployment :: "(string \<times> hint) list" where
  "hints_bound_deployment =
     [(''operation_id'', HStr), (''subject'', HRecord ''DeploymentKey''),
      (''groups'', HTuple [HRecord ''PreparedGroup'', HEllipsis]), (''group_population_digest'', HStr),
      (''binding_evidence'', HUnion [HRecord ''TransactionEventEvidence'', HRecord ''ExactChainReadEvidence'']),
      (''schema_version'', HInt)]"

definition hints_admission_scope :: "(string \<times> hint) list" where
  "hints_admission_scope =
     [(''chain_id'', HStr), (''owner'', HStr), (''producer_issuer'', HStr),
      (''repository_owner_id'', HStr), (''repository_id'', HStr), (''repository'', HStr),
      (''workload_class'', HStr), (''schema_version'', HInt)]"

definition hints_owner_budget_scope :: "(string \<times> hint) list" where
  "hints_owner_budget_scope =
     [(''chain_id'', HStr), (''owner'', HStr), (''schema_version'', HInt)]"

definition hints_containment_limits :: "(string \<times> hint) list" where
  "hints_containment_limits =
     [(''max_active_deployments'', HInt), (''max_unresolved_create_outcomes'', HInt),
      (''max_financial_exposure_uact'', HInt), (''exposure_policy_revision'', HStr),
      (''admission_policy_revision'', HStr), (''policy_reference'', HStr), (''valid_until'', HInt),
      (''schema_version'', HInt)]"

definition hints_containment_census :: "(string \<times> hint) list" where
  "hints_containment_census =
     [(''active_deployments'', HInt), (''unresolved_create_outcomes'', HInt),
      (''financial_exposure_uact'', HInt), (''excluded_reservation_count'', HInt),
      (''excluded_reservation_population_digest'', HStr), (''journal_status'', HEnum ''CensusStatus''),
      (''recovery_reader_status'', HEnum ''CensusStatus''), (''chain_status'', HEnum ''CensusStatus''),
      (''accounting_status'', HEnum ''CensusStatus''), (''observed_at'', HInt), (''valid_until'', HInt),
      (''evidence_digest'', HStr), (''schema_version'', HInt)]"

definition hints_scope_budget :: "(string \<times> hint) list" where
  "hints_scope_budget =
     [(''scope'', HUnion [HRecord ''OwnerBudgetScope'', HRecord ''AdmissionScope'']),
      (''limits'', HRecord ''ContainmentLimits''), (''census'', HRecord ''ContainmentCensus''),
      (''schema_version'', HInt)]"

definition hints_create_exposure_evidence :: "(string \<times> hint) list" where
  "hints_create_exposure_evidence =
     [(''chain_id'', HStr), (''operation_id'', HStr), (''prepared_operation_digest'', HStr),
      (''request_digest'', HStr), (''sdl_digest'', HStr), (''backend'', HRecord ''BackendIdentity''),
      (''backend_policy_revision'', HStr), (''amount_uact'', HInt), (''source'', HStr),
      (''evidence_digest'', HStr), (''observed_at'', HInt), (''valid_until'', HInt),
      (''schema_version'', HInt)]"

definition hints_admission_request :: "(string \<times> hint) list" where
  "hints_admission_request =
     [(''prepared'', HRecord ''PreparedCreate''), (''scope'', HRecord ''AdmissionScope''),
      (''exposure'', HRecord ''CreateExposureEvidence''), (''requested_at'', HInt),
      (''schema_version'', HInt)]"

definition hints_capacity_reservation :: "(string \<times> hint) list" where
  "hints_capacity_reservation =
     [(''request'', HRecord ''AdmissionRequest''), (''state'', HEnum ''ReservationState''),
      (''state_evidence_digest'', HStr),
      (''bound_deployment'', HUnion [HRecord ''BoundDeployment'', HNone]), (''schema_version'', HInt)]"

definition hints_admission_state :: "(string \<times> hint) list" where
  "hints_admission_state =
     [(''budgets'', HTuple [HRecord ''ScopeBudget'', HEllipsis]),
      (''reservations'', HTuple [HRecord ''CapacityReservation'', HEllipsis]), (''revision'', HInt),
      (''schema_version'', HInt)]"

definition hints_capacity_usage :: "(string \<times> hint) list" where
  "hints_capacity_usage =
     [(''active_deployments'', HInt), (''unresolved_create_outcomes'', HInt),
      (''financial_exposure_uact'', HInt)]"

definition hints_budget_projection :: "(string \<times> hint) list" where
  "hints_budget_projection =
     [(''scope'', HUnion [HRecord ''OwnerBudgetScope'', HRecord ''AdmissionScope'']),
      (''usage_after'', HRecord ''CapacityUsage'')]"

definition hints_admission_decision :: "(string \<times> hint) list" where
  "hints_admission_decision =
     [(''disposition'', HEnum ''AdmissionDisposition''), (''reason'', HEnum ''AdmissionReason''),
      (''failed_scope'', HUnion [HRecord ''OwnerBudgetScope'', HRecord ''AdmissionScope'', HNone]),
      (''projections'', HTuple [HRecord ''BudgetProjection'', HEllipsis])]"

definition hints_reservation_proposal :: "(string \<times> hint) list" where
  "hints_reservation_proposal =
     [(''operation_id'', HStr), (''expected_revision'', HInt), (''expected_state_digest'', HStr),
      (''proposed_revision'', HInt), (''proposed_state_digest'', HStr),
      (''proposed_state'', HRecord ''AdmissionState''), (''schema_version'', HInt)]"

definition hints_admission_result :: "(string \<times> hint) list" where
  "hints_admission_result =
     [(''decision'', HRecord ''AdmissionDecision''),
      (''proposal'', HUnion [HRecord ''ReservationProposal'', HNone])]"

definition hints_authenticated_broker_evidence :: "(string \<times> hint) list" where
  "hints_authenticated_broker_evidence =
     [(''broker_identity'', HStr), (''issuer'', HStr), (''audience'', HStr), (''subject'', HStr),
      (''verifier_policy_revision'', HStr), (''authentication_evidence_digest'', HStr),
      (''verified_at'', HInt), (''valid_until'', HInt)]"

definition hints_persistence_confirmation :: "(string \<times> hint) list" where
  "hints_persistence_confirmation =
     [(''operation_id'', HStr), (''persisted_revision'', HInt), (''persisted_state_digest'', HStr),
      (''authenticated_broker'', HRecord ''AuthenticatedBrokerEvidence''), (''evidence_digest'', HStr),
      (''persisted_at'', HInt), (''schema_version'', HInt)]"

definition hints_admission_policy_binding :: "(string \<times> hint) list" where
  "hints_admission_policy_binding =
     [(''scope'', HUnion [HRecord ''OwnerBudgetScope'', HRecord ''AdmissionScope'']),
      (''policy_revision'', HStr)]"

definition hints_permit_presentation :: "(string \<times> hint) list" where
  "hints_permit_presentation =
     [(''permit_digest'', HStr), (''presenter_identity'', HStr), (''audience'', HStr),
      (''current_policy_bindings'', HTuple [HRecord ''AdmissionPolicyBinding'', HEllipsis]),
      (''revocation_status'', HEnum ''PermitRevocationStatus''), (''revocation_evidence_digest'', HStr),
      (''presented_at'', HInt)]"

definition hints_create_permit :: "(string \<times> hint) list" where
  "hints_create_permit =
     [(''operation_id'', HStr), (''prepared_operation_digest'', HStr), (''state_revision'', HInt),
      (''state_digest'', HStr), (''broker_identity'', HStr), (''presenter_identity'', HStr),
      (''audience'', HStr),
      (''policy_bindings'', HTuple [HRecord ''AdmissionPolicyBinding'', HEllipsis]),
      (''valid_until'', HInt), (''persistence_evidence_digest'', HStr), (''issued_at'', HInt),
      (''schema_version'', HInt)]"

definition hints_permit_redemption_proposal :: "(string \<times> hint) list" where
  "hints_permit_redemption_proposal =
     [(''operation_id'', HStr), (''permit_digest'', HStr), (''presentation_digest'', HStr),
      (''permit_issued_at'', HInt), (''expected_revision'', HInt), (''expected_state_digest'', HStr),
      (''proposed_revision'', HInt), (''proposed_state_digest'', HStr),
      (''proposed_state'', HRecord ''AdmissionState'')]"

definition hints_create_submission_authorization :: "(string \<times> hint) list" where
  "hints_create_submission_authorization =
     [(''operation_id'', HStr), (''permit_digest'', HStr), (''state_revision'', HInt),
      (''state_digest'', HStr), (''broker_identity'', HStr), (''presenter_identity'', HStr),
      (''audience'', HStr),
      (''policy_bindings'', HTuple [HRecord ''AdmissionPolicyBinding'', HEllipsis]),
      (''valid_until'', HInt), (''redemption_evidence_digest'', HStr), (''issued_at'', HInt)]"

definition MODEL_TYPES :: "(string \<times> (string \<times> hint) list) list" where
  "MODEL_TYPES =
     [(''DeploymentKey'', hints_deployment_key),
      (''BackendIdentity'', hints_backend_identity),
      (''ProducerProvenance'', hints_producer_provenance),
      (''LifecycleIdentity'', hints_lifecycle_identity),
      (''OwnerCandidate'', hints_owner_candidate),
      (''PreparedGroup'', hints_prepared_group),
      (''PreparedCreate'', hints_prepared_create),
      (''TransactionEventEvidence'', hints_transaction_event_evidence),
      (''ExactChainReadEvidence'', hints_exact_chain_read_evidence),
      (''BoundDeployment'', hints_bound_deployment),
      (''AdmissionScope'', hints_admission_scope),
      (''OwnerBudgetScope'', hints_owner_budget_scope),
      (''ContainmentLimits'', hints_containment_limits),
      (''ContainmentCensus'', hints_containment_census),
      (''ScopeBudget'', hints_scope_budget),
      (''CreateExposureEvidence'', hints_create_exposure_evidence),
      (''AdmissionRequest'', hints_admission_request),
      (''CapacityReservation'', hints_capacity_reservation),
      (''AdmissionState'', hints_admission_state),
      (''CapacityUsage'', hints_capacity_usage),
      (''BudgetProjection'', hints_budget_projection),
      (''AdmissionDecision'', hints_admission_decision),
      (''ReservationProposal'', hints_reservation_proposal),
      (''AdmissionResult'', hints_admission_result),
      (''AuthenticatedBrokerEvidence'', hints_authenticated_broker_evidence),
      (''PersistenceConfirmation'', hints_persistence_confirmation),
      (''AdmissionPolicyBinding'', hints_admission_policy_binding),
      (''PermitPresentation'', hints_permit_presentation),
      (''CreatePermit'', hints_create_permit),
      (''PermitRedemptionProposal'', hints_permit_redemption_proposal),
      (''CreateSubmissionAuthorization'', hints_create_submission_authorization)]"

definition MODEL_ENUMS :: "(string \<times> string list) list" where
  "MODEL_ENUMS =
     [(''BackendKind'', map backend_kind_value [SELF_MANAGED, MEDIATED]),
      (''OwnerEvidenceKind'', map owner_evidence_kind_value [VERIFIED_SIGNER, AUTHENTICATED_MEDIATOR]),
      (''CensusStatus'', map census_status_value [CENSUS_VERIFIED, CENSUS_INCOMPLETE, CENSUS_UNAVAILABLE]),
      (''ReservationState'', map reservation_state_value
         [RES_RESERVED, RES_SUBMITTING, RES_CREATE_OUTCOME_UNKNOWN, RES_NON_COMMIT_PROVEN, RES_COMMITTED,
          RES_EXECUTION_CLOSED, RES_SETTLED]),
      (''AdmissionDisposition'', map admission_disposition_value
         [ADMISSION_PROPOSED, ADMISSION_RECONCILE, ADMISSION_HOLD]),
      (''AdmissionReason'', map admission_reason_value
         [REASON_PROPOSED, REASON_RECONCILE_EXISTING, REASON_MISSING_REQUIRED_BUDGET, REASON_STALE_REVISION,
          REASON_OPERATION_CONFLICT, REASON_JOURNAL_UNHEALTHY, REASON_RECOVERY_READER_UNHEALTHY,
          REASON_CHAIN_CENSUS_UNHEALTHY, REASON_ACCOUNTING_CENSUS_UNHEALTHY, REASON_CENSUS_NOT_CURRENT,
          REASON_EXPOSURE_EVIDENCE_NOT_CURRENT, REASON_ACTIVE_DEPLOYMENT_LIMIT,
          REASON_UNRESOLVED_OUTCOME_LIMIT, REASON_FINANCIAL_EXPOSURE_LIMIT, REASON_EXPOSURE_POLICY_MISMATCH,
          REASON_RESERVATION_CENSUS_MISMATCH]),
      (''PermitRevocationStatus'', map permit_revocation_status_value [PERMIT_ACTIVE, PERMIT_REVOKED])]"

section \<open>The schema\<close>

fun type_expression :: "hint \<Rightarrow> wide result" and type_expressions :: "hint list \<Rightarrow> wide list result" where
  "type_expression HStr = Inr (wide_text ''str'')"
| "type_expression HInt = Inr (wide_text ''int'')"
| "type_expression HBool = Inr (wide_text ''bool'')"
| "type_expression HNone = Inr (wide_text ''null'')"
| "type_expression (HTuple [item, HEllipsis]) =
     bindR (type_expression item) (\<lambda>t. Inr (wide_dict [(''sequence'', t)]))"
| "type_expression (HTuple _) = Inl TypeError"
| "type_expression (HUnion members) =
     bindR (type_expressions members) (\<lambda>ts. Inr (wide_dict [(''one_of'', WList ts)]))"
| "type_expression (HEnum name) = Inr (wide_dict [(''enum'', wide_text name)])"
| "type_expression (HRecord name) = Inr (wide_dict [(''record'', wide_text name)])"
| "type_expression HEllipsis = Inl TypeError"
| "type_expressions [] = Inr []"
| "type_expressions (h # hs) =
     bindR (type_expression h) (\<lambda>t. bindR (type_expressions hs) (\<lambda>ts. Inr (t # ts)))"

definition field_wire :: "string \<times> hint \<Rightarrow> wide result" where
  "field_wire = (\<lambda>(name, h). bindR (type_expression h) (\<lambda>t.
     Inr (wide_dict [(''name'', wide_text name), (''type'', t), (''required'', WBool True)])))"

definition record_wire :: "string \<times> (string \<times> hint) list \<Rightarrow> (nat list \<times> wide) result" where
  "record_wire = (\<lambda>(name, attrs). bindR (mapR field_wire attrs) (\<lambda>fs.
     Inr (text_of name, wide_dict
       [(''fields'', WList fs), (''canonical_tag'', wide_text name), (''closed'', WBool True)])))"

text \<open>\<^verbatim>\<open>collect_references\<close>: every value under the key \<^verbatim>\<open>record\<close>, at any depth.\<close>

fun collect_references :: "wide \<Rightarrow> wide list" where
  "collect_references (WDict kvs) =
     (case dict_get kvs (text_of ''record'') of None \<Rightarrow> [] | Some v \<Rightarrow> [v])
     @ concat (map (\<lambda>(k, v). collect_references v) kvs)"
| "collect_references (WList vs) = concat (map collect_references vs)"
| "collect_references v = []"

definition WIRE_ROOTS :: "string list" where
  "WIRE_ROOTS =
     [''AdmissionRequest'', ''AdmissionResult'', ''PersistenceConfirmation'', ''CreatePermit'',
      ''PermitPresentation'', ''PermitRedemptionProposal'', ''CreateSubmissionAuthorization'']"

definition STORAGE_ROOTS :: "string list" where
  "STORAGE_ROOTS = [''AdmissionState'', ''ReservationProposal'', ''PermitRedemptionProposal'']"

definition build_model :: "wide result" where
  "build_model =
     bindR (mapR record_wire MODEL_TYPES) (\<lambda>entries.
     let records = fold (\<lambda>(k, v). dict_set k v) entries [];
         model = wide_dict
           [(''contract'', wide_text SCHEMA_VERSION),
            (''wire_roots'', WList (map wide_text WIRE_ROOTS)),
            (''storage_roots'', WList (map wide_text STORAGE_ROOTS)),
            (''enums'', WDict (map (\<lambda>(name, members). (text_of name, WList (map wide_text members))) MODEL_ENUMS)),
            (''records'', WDict records)];
         missing = filter (\<lambda>v. v \<notin> set (map WText (dict_keys records))) (collect_references (WDict records)) in
     if missing \<noteq> [] then Inl AssertionError else Inr model)"

section \<open>Conformance\<close>

text \<open>
  How a consumer reads the schema: a type expression describes a value. The order of the members of an
  object does not matter; a record has exactly its fields and its tag.
\<close>

definition member :: "wide \<Rightarrow> string \<Rightarrow> wide option" where
  "member v key = (case v of WDict kvs \<Rightarrow> dict_get kvs (text_of key) | _ \<Rightarrow> None)"

definition record_fields :: "wide \<Rightarrow> nat list \<Rightarrow> (nat list \<times> wide) list option" where
  "record_fields model name =
     (case member model ''records'' of
        Some (WDict records) \<Rightarrow>
          (case dict_get records name of
             Some r \<Rightarrow>
               (case member r ''fields'' of
                  Some (WList fs) \<Rightarrow> those (map (\<lambda>f. case (member f ''name'', member f ''type'') of
                      (Some (WText n), Some t) \<Rightarrow> Some (n, t) | _ \<Rightarrow> None) fs)
                | _ \<Rightarrow> None)
           | None \<Rightarrow> None)
      | _ \<Rightarrow> None)"

definition enum_values :: "wide \<Rightarrow> nat list \<Rightarrow> wide list option" where
  "enum_values model name =
     (case member model ''enums'' of
        Some (WDict enums) \<Rightarrow> (case dict_get enums name of Some (WList vs) \<Rightarrow> Some vs | _ \<Rightarrow> None)
      | _ \<Rightarrow> None)"

inductive conforms :: "wide \<Rightarrow> wide \<Rightarrow> wide \<Rightarrow> bool" for model where
  conforms_str: "conforms model (wide_text ''str'') (WText t)"
| conforms_int: "conforms model (wide_text ''int'') (WInt i)"
| conforms_bool: "conforms model (wide_text ''bool'') (WBool b)"
| conforms_null: "conforms model (wide_text ''null'') WNull"
| conforms_sequence: "\<forall>v \<in> set vs. conforms model t v \<Longrightarrow> conforms model (wide_dict [(''sequence'', t)]) (WList vs)"
| conforms_one_of: "t \<in> set ts \<Longrightarrow> conforms model t v \<Longrightarrow> conforms model (wide_dict [(''one_of'', WList ts)]) v"
| conforms_enum: "enum_values model name = Some vs \<Longrightarrow> WText t \<in> set vs \<Longrightarrow>
    conforms model (wide_dict [(''enum'', WText name)]) (WText t)"
| conforms_record: "record_fields model name = Some attrs \<Longrightarrow> distinct (map fst kvs) \<Longrightarrow>
    set (map fst kvs) = insert (text_of ''$type'') (fst ` set attrs) \<Longrightarrow>
    dict_get kvs (text_of ''$type'') = Some (WText name) \<Longrightarrow>
    \<forall>(k, t) \<in> set attrs. \<exists>v. dict_get kvs k = Some v \<and> conforms model t v \<Longrightarrow>
    conforms model (wide_dict [(''record'', WText name)]) (WDict kvs)"

section \<open>The schema is built\<close>

declare text_of_Cons [simp del] text_of_Nil [simp del]

text \<open>The type expression of a hint that has one.\<close>

definition wire :: "hint \<Rightarrow> wide" where
  "wire h = (case type_expression h of Inl _ \<Rightarrow> WNull | Inr t \<Rightarrow> t)"

fun hint_ok :: "hint \<Rightarrow> bool" where
  "hint_ok (HTuple [item, HEllipsis]) \<longleftrightarrow> hint_ok item"
| "hint_ok (HTuple _) \<longleftrightarrow> False"
| "hint_ok (HUnion members) \<longleftrightarrow> list_all hint_ok members"
| "hint_ok HEllipsis \<longleftrightarrow> False"
| "hint_ok _ \<longleftrightarrow> True"

fun hint_references :: "hint \<Rightarrow> string list" where
  "hint_references (HTuple hs) = concat (map hint_references hs)"
| "hint_references (HUnion hs) = concat (map hint_references hs)"
| "hint_references (HRecord name) = [name]"
| "hint_references _ = []"

lemma type_expression_total:
  "hint_ok h \<Longrightarrow> \<exists>t. type_expression h = Inr t"
  "list_all hint_ok hs \<Longrightarrow> \<exists>ts. type_expressions hs = Inr ts"
  by (induction h and hs rule: type_expression_type_expressions.induct) auto

lemma type_expression_ok: "hint_ok h \<Longrightarrow> type_expression h = Inr (wire h)"
  using type_expression_total(1) by (force simp: wire_def)

lemma type_expressions_ok: "list_all hint_ok hs \<Longrightarrow> type_expressions hs = Inr (map wire hs)"
  by (induction hs) (simp_all add: type_expression_ok)

lemma wire_simps [simp]:
  "wire HStr = wide_text ''str''" "wire HInt = wide_text ''int''" "wire HBool = wide_text ''bool''"
  "wire HNone = wide_text ''null''" "wire (HEnum name) = wide_dict [(''enum'', wide_text name)]"
  "wire (HRecord name) = wide_dict [(''record'', wide_text name)]"
  by (simp_all add: wire_def)

lemma wire_nested [simp]:
  "hint_ok h \<Longrightarrow> wire (HTuple [h, HEllipsis]) = wide_dict [(''sequence'', wire h)]"
  "list_all hint_ok hs \<Longrightarrow> wire (HUnion hs) = wide_dict [(''one_of'', WList (map wire hs))]"
  by (subst wire_def, simp add: type_expression_ok) (subst wire_def, simp add: type_expressions_ok)

lemma wire_references: "hint_ok h \<Longrightarrow> collect_references (wire h) = map wide_text (hint_references h)"
proof (induction h rule: hint_ok.induct)
  case (3 members)
  then have "map (\<lambda>h. collect_references (wire h)) members = map (\<lambda>h. map wide_text (hint_references h)) members"
    by (auto simp: list_all_iff)
  from arg_cong[OF this, of concat] show ?case using 3 by (simp add: map_concat o_def)
qed simp_all

definition field_value :: "string \<times> hint \<Rightarrow> wide" where
  "field_value = (\<lambda>(name, h). wide_dict [(''name'', wide_text name), (''type'', wire h), (''required'', WBool True)])"

definition record_value :: "string \<times> (string \<times> hint) list \<Rightarrow> nat list \<times> wide" where
  "record_value = (\<lambda>(name, attrs). (text_of name, wide_dict
     [(''fields'', WList (map field_value attrs)), (''canonical_tag'', wide_text name), (''closed'', WBool True)]))"

lemma record_wire_value:
  assumes "list_all (\<lambda>(n, h). hint_ok h) attrs"
  shows "record_wire (name, attrs) = Inr (record_value (name, attrs))"
proof -
  have "mapR field_wire attrs = Inr (map field_value attrs)"
    using assms by (intro mapR_all_Inr) (auto simp: field_wire_def field_value_def list_all_iff type_expression_ok)
  then show ?thesis by (simp add: record_wire_def record_value_def)
qed

lemma types_ok: "list_all (\<lambda>(name, attrs). list_all (\<lambda>(n, h). hint_ok h) attrs) MODEL_TYPES"
  by code_simp

lemma types_distinct: "distinct (map fst MODEL_TYPES)"
  by code_simp

lemma types_closed: "list_all (\<lambda>(name, attrs). list_all (\<lambda>(n, h).
    list_all (\<lambda>r. r \<in> set (map fst MODEL_TYPES)) (hint_references h)) attrs) MODEL_TYPES"
  by code_simp

lemma types_no_record: "''record'' \<notin> set (map fst MODEL_TYPES)"
  by code_simp

definition interop_model :: wide where
  "interop_model = wide_dict
     [(''contract'', wide_text SCHEMA_VERSION),
      (''wire_roots'', WList (map wide_text WIRE_ROOTS)),
      (''storage_roots'', WList (map wide_text STORAGE_ROOTS)),
      (''enums'', WDict (map (\<lambda>(name, members). (text_of name, WList (map wide_text members))) MODEL_ENUMS)),
      (''records'', WDict (map record_value MODEL_TYPES))]"

lemma field_references:
  "hint_ok h \<Longrightarrow> collect_references (field_value (n, h)) = map wide_text (hint_references h)"
  by (simp add: field_value_def wire_references)

lemma record_references:
  assumes "list_all (\<lambda>(n, h). hint_ok h) fs"
  shows "collect_references (snd (record_value (name, fs)))
    = concat (map (\<lambda>(n, h). map wide_text (hint_references h)) fs)"
proof -
  have "map (\<lambda>f. collect_references (field_value f)) fs = map (\<lambda>(n, h). map wide_text (hint_references h)) fs"
    using assms by (auto simp: list_all_iff field_references)
  from arg_cong[OF this, of concat] show ?thesis by (simp add: record_value_def o_def)
qed

lemma map_of_text: "map_of (map (\<lambda>(k, v). (text_of k, f k v)) kvs) (text_of key) = map_option (f key) (map_of kvs key)"
  by (induction kvs) auto

lemma record_value_key: "fst (record_value r) = text_of (fst r)"
  by (simp add: record_value_def case_prod_beta')

lemma build_model_value: "build_model = Inr interop_model"
proof -
  let ?records = "map record_value MODEL_TYPES"
  have wires: "mapR record_wire MODEL_TYPES = Inr ?records"
    using types_ok by (intro mapR_all_Inr) (force simp: list_all_iff intro!: record_wire_value)
  have keys: "map fst ?records = map text_of (map fst MODEL_TYPES)" by (simp add: record_value_key)
  then have "distinct (map fst ?records)" using types_distinct by (simp add: distinct_map inj_on_def del: map_map)
  then have records: "fold (\<lambda>(k, v). dict_set k v) ?records [] = ?records" using fold_dict_set[of "[]" ?records] by simp
  have "text_of ''record'' \<notin> set (map fst ?records)" using types_no_record unfolding keys by (auto simp: image_iff)
  then have none: "map_of ?records (text_of ''record'') = None" by (simp only: map_of_eq_None_iff set_map not_False_eq_True)
  have closed: "v \<in> set (map WText (map fst ?records))" if "v \<in> set (collect_references (WDict ?records))" for v
  proof -
    have "v \<in> set (concat (map (\<lambda>(k, v). collect_references v) ?records))" using that none by simp
    then obtain name fs where m: "(name, fs) \<in> set MODEL_TYPES" "v \<in> set (collect_references (snd (record_value (name, fs))))"
      by (auto simp: case_prod_beta')
    moreover have "list_all (\<lambda>(n, h). hint_ok h) fs" using types_ok m(1) by (auto simp: list_all_iff)
    ultimately obtain n h r where "(n, h) \<in> set fs" "r \<in> set (hint_references h)" "v = wide_text r"
      by (auto simp: record_references)
    then show ?thesis using types_closed m(1) unfolding keys by (fastforce simp: list_all_iff)
  qed
  have "filter (\<lambda>v. v \<notin> set (map WText (map fst ?records))) (collect_references (WDict ?records)) = []"
    using closed unfolding filter_empty_conv by blast
  then show ?thesis
    unfolding build_model_def wires bindR_def by (simp add: records Let_def interop_model_def dict_keys_def del: map_map)
qed

section \<open>Canonical values conform\<close>

lemma interop_record_fields:
  assumes "map_of MODEL_TYPES name = Some fs"
  shows "record_fields interop_model (text_of name) = Some (map (\<lambda>(n, h). (text_of n, wire h)) fs)"
proof -
  have records: "member interop_model ''records'' = Some (WDict (map record_value MODEL_TYPES))"
    by (simp add: member_def interop_model_def)
  have entry: "map_of (map record_value MODEL_TYPES) (text_of name) = Some (snd (record_value (name, fs)))"
    using assms map_of_text[of "\<lambda>k v. snd (record_value (k, v))" MODEL_TYPES name]
    by (simp add: record_value_def case_prod_beta')
  have "member (snd (record_value (name, fs))) ''fields'' = Some (WList (map field_value fs))"
    by (simp add: member_def record_value_def)
  moreover have "those (map (\<lambda>f. case (member f ''name'', member f ''type'') of
      (Some (WText n), Some t) \<Rightarrow> Some (n, t) | _ \<Rightarrow> None) (map field_value fs))
      = Some (map (\<lambda>(n, h). (text_of n, wire h)) fs)"
    unfolding map_map by (rule those_Some_map) (auto simp: member_def field_value_def)
  ultimately show ?thesis unfolding record_fields_def records by (simp add: entry)
qed

lemma interop_enum_values:
  "enum_values interop_model (text_of name) = map_option (map wide_text) (map_of MODEL_ENUMS name)"
  using map_of_text[of "\<lambda>k v. WList (map wide_text v)" MODEL_ENUMS name]
  by (simp add: enum_values_def interop_model_def member_def split: option.split)

definition valid :: "hint \<Rightarrow> json \<Rightarrow> bool" where
  "valid h j \<longleftrightarrow> conforms interop_model (wire h) (widen j)"

lemma valid_scalars [simp]: "valid HStr (JStr s)" "valid HInt (JInt i)" "valid HBool (JBool b)" "valid HNone JNull"
  by (simp_all add: valid_def conforms.intros)

lemma valid_enum:
  assumes "map_of MODEL_ENUMS name = Some ms" and "f x \<in> set ms"
  shows "valid (HEnum name) (canon_enum f x)"
  using assms conforms_enum[of interop_model "text_of name" "map wide_text ms" "text_of (f x)"]
  by (simp add: valid_def canon_enum_def interop_enum_values)

lemma valid_tuple [simp]:
  "hint_ok h \<Longrightarrow> (\<And>x. x \<in> set xs \<Longrightarrow> valid h (f x)) \<Longrightarrow> valid (HTuple [h, HEllipsis]) (canon_tuple f xs)"
  using conforms_sequence[of "map (\<lambda>x. widen (f x)) xs" interop_model "wire h"]
  by (simp add: valid_def canon_tuple_def o_def)

lemma valid_union: "list_all hint_ok hs \<Longrightarrow> h \<in> set hs \<Longrightarrow> valid h j \<Longrightarrow> valid (HUnion hs) j"
  using conforms_one_of[of "wire h" "map wire hs" interop_model "widen j"] by (simp add: valid_def)

lemma valid_opt [simp]:
  "hint_ok h \<Longrightarrow> (\<And>x. valid h (f x)) \<Longrightarrow> valid (HUnion [h, HNone]) (canon_opt f v)"
  by (cases v) (auto simp: canon_opt_def intro: valid_union[of _ h] valid_union[of _ HNone])

lemma valid_fields:
  assumes "map_of MODEL_TYPES name = Some fs" and "distinct (''$type'' # map fst fs)"
    and "list_all2 (\<lambda>(n, h) (k, v). k = n \<and> valid h v) fs attrs"
  shows "valid (HRecord name) (canon_dataclass name attrs)"
proof -
  let ?kvs = "map (\<lambda>(k, v). (text_of k, widen v)) ((''$type'', JStr name) # attrs)"
  let ?fs = "map (\<lambda>(n, h). (text_of n, wire h)) fs"
  have keys: "map fst attrs = map fst fs"
    using assms(3) by (induction rule: list_all2_induct) auto
  have all: "map fst ?kvs = map text_of (''$type'' # map fst fs)"
    by (simp add: keys[symmetric] case_prod_beta')
  have d: "distinct (map fst ?kvs)" unfolding all distinct_map using assms(2) by (auto simp: inj_on_def)
  have s: "set (map fst ?kvs) = insert (text_of ''$type'') (fst ` set ?fs)"
    unfolding all by (force simp: image_iff)
  have c: "\<exists>v. dict_get ?kvs k = Some v \<and> conforms interop_model t v" if kt: "(k, t) \<in> set ?fs" for k t
  proof -
    obtain n h where nh: "(n, h) \<in> set fs" "k = text_of n" "t = wire h" using kt by auto
    then obtain i where i: "i < length fs" "fs ! i = (n, h)" by (auto simp: in_set_conv_nth)
    then obtain v where v: "attrs ! i = (n, v)" "valid h v"
      using list_all2_nthD[OF assms(3) i(1)] by (cases "attrs ! i") auto
    have "i < length attrs" using i(1) list_all2_lengthD[OF assms(3)] by simp
    then have "(n, v) \<in> set attrs" using v(1) by (metis nth_mem)
    moreover have "distinct (map fst attrs)" using assms(2) keys by simp
    ultimately have "map_of attrs n = Some v" by (intro map_of_is_SomeI)
    moreover have "n \<noteq> ''$type''" using assms(2) nh(1) by force
    ultimately have "dict_get ?kvs (text_of n) = Some (widen v)"
      using map_of_text[of "\<lambda>_. widen" "(''$type'', JStr name) # attrs" n] by simp
    then show ?thesis using v(2) nh by (simp add: valid_def)
  qed
  have t: "dict_get ?kvs (text_of ''$type'') = Some (WText (text_of name))" by simp
  have "conforms interop_model (wide_dict [(''record'', WText (text_of name))]) (WDict ?kvs)"
    by (rule conforms_record[OF interop_record_fields[OF assms(1)] d s t]) (clarify, rule c)
  then show ?thesis by (simp add: valid_def canon_dataclass_def)
qed

lemma valid_record:
  assumes "map_of MODEL_TYPES name \<noteq> None"
    and "distinct (''$type'' # map fst (the (map_of MODEL_TYPES name)))"
    and "list_all2 (\<lambda>(n, h) (k, v). k = n \<and> valid h v) (the (map_of MODEL_TYPES name)) attrs"
  shows "valid (HRecord name) (canon_dataclass name attrs)"
  using assms valid_fields by force

lemmas hint_tables = hints_deployment_key_def hints_backend_identity_def hints_producer_provenance_def
  hints_lifecycle_identity_def hints_owner_candidate_def hints_prepared_group_def
  hints_prepared_create_def hints_transaction_event_evidence_def hints_exact_chain_read_evidence_def
  hints_bound_deployment_def hints_admission_scope_def hints_owner_budget_scope_def
  hints_containment_limits_def hints_containment_census_def hints_scope_budget_def
  hints_create_exposure_evidence_def hints_admission_request_def hints_capacity_reservation_def
  hints_admission_state_def hints_capacity_usage_def hints_budget_projection_def
  hints_admission_decision_def hints_reservation_proposal_def hints_admission_result_def
  hints_authenticated_broker_evidence_def hints_persistence_confirmation_def hints_admission_policy_binding_def
  hints_permit_presentation_def hints_create_permit_def hints_permit_redemption_proposal_def
  hints_create_submission_authorization_def

lemma lookups [simp]:
  "map_of MODEL_TYPES ''DeploymentKey'' = Some hints_deployment_key"
  "map_of MODEL_TYPES ''BackendIdentity'' = Some hints_backend_identity"
  "map_of MODEL_TYPES ''ProducerProvenance'' = Some hints_producer_provenance"
  "map_of MODEL_TYPES ''LifecycleIdentity'' = Some hints_lifecycle_identity"
  "map_of MODEL_TYPES ''OwnerCandidate'' = Some hints_owner_candidate"
  "map_of MODEL_TYPES ''PreparedGroup'' = Some hints_prepared_group"
  "map_of MODEL_TYPES ''PreparedCreate'' = Some hints_prepared_create"
  "map_of MODEL_TYPES ''TransactionEventEvidence'' = Some hints_transaction_event_evidence"
  "map_of MODEL_TYPES ''ExactChainReadEvidence'' = Some hints_exact_chain_read_evidence"
  "map_of MODEL_TYPES ''BoundDeployment'' = Some hints_bound_deployment"
  "map_of MODEL_TYPES ''AdmissionScope'' = Some hints_admission_scope"
  "map_of MODEL_TYPES ''OwnerBudgetScope'' = Some hints_owner_budget_scope"
  "map_of MODEL_TYPES ''ContainmentLimits'' = Some hints_containment_limits"
  "map_of MODEL_TYPES ''ContainmentCensus'' = Some hints_containment_census"
  "map_of MODEL_TYPES ''ScopeBudget'' = Some hints_scope_budget"
  "map_of MODEL_TYPES ''CreateExposureEvidence'' = Some hints_create_exposure_evidence"
  "map_of MODEL_TYPES ''AdmissionRequest'' = Some hints_admission_request"
  "map_of MODEL_TYPES ''CapacityReservation'' = Some hints_capacity_reservation"
  "map_of MODEL_TYPES ''AdmissionState'' = Some hints_admission_state"
  "map_of MODEL_TYPES ''CapacityUsage'' = Some hints_capacity_usage"
  "map_of MODEL_TYPES ''BudgetProjection'' = Some hints_budget_projection"
  "map_of MODEL_TYPES ''AdmissionDecision'' = Some hints_admission_decision"
  "map_of MODEL_TYPES ''ReservationProposal'' = Some hints_reservation_proposal"
  "map_of MODEL_TYPES ''AdmissionResult'' = Some hints_admission_result"
  "map_of MODEL_TYPES ''AuthenticatedBrokerEvidence'' = Some hints_authenticated_broker_evidence"
  "map_of MODEL_TYPES ''PersistenceConfirmation'' = Some hints_persistence_confirmation"
  "map_of MODEL_TYPES ''AdmissionPolicyBinding'' = Some hints_admission_policy_binding"
  "map_of MODEL_TYPES ''PermitPresentation'' = Some hints_permit_presentation"
  "map_of MODEL_TYPES ''CreatePermit'' = Some hints_create_permit"
  "map_of MODEL_TYPES ''PermitRedemptionProposal'' = Some hints_permit_redemption_proposal"
  "map_of MODEL_TYPES ''CreateSubmissionAuthorization'' = Some hints_create_submission_authorization"
  by (simp_all add: MODEL_TYPES_def)

lemma valid_enums [simp]:
  "valid (HEnum ''BackendKind'') (canon_enum backend_kind_value k1)"
  "valid (HEnum ''OwnerEvidenceKind'') (canon_enum owner_evidence_kind_value k2)"
  "valid (HEnum ''CensusStatus'') (canon_enum census_status_value k3)"
  "valid (HEnum ''ReservationState'') (canon_enum reservation_state_value k4)"
  "valid (HEnum ''AdmissionDisposition'') (canon_enum admission_disposition_value k5)"
  "valid (HEnum ''AdmissionReason'') (canon_enum admission_reason_value k6)"
  "valid (HEnum ''PermitRevocationStatus'') (canon_enum permit_revocation_status_value k7)"
  by (rule valid_enum, simp add: MODEL_ENUMS_def, cases k1, simp_all,
      rule valid_enum, simp add: MODEL_ENUMS_def, cases k2, simp_all,
      rule valid_enum, simp add: MODEL_ENUMS_def, cases k3, simp_all,
      rule valid_enum, simp add: MODEL_ENUMS_def, cases k4, simp_all,
      rule valid_enum, simp add: MODEL_ENUMS_def, cases k5, simp_all,
      rule valid_enum, simp add: MODEL_ENUMS_def, cases k6, simp_all,
      rule valid_enum, simp add: MODEL_ENUMS_def, cases k7, simp_all)

lemma valid_deployment_key [simp]: "valid (HRecord ''DeploymentKey'') (canon_deployment_key x)"
  unfolding canon_deployment_key_def by (rule valid_record; simp add: hints_deployment_key_def)

lemma valid_backend_identity [simp]: "valid (HRecord ''BackendIdentity'') (canon_backend_identity x)"
  unfolding canon_backend_identity_def by (rule valid_record; simp add: hints_backend_identity_def)

lemma valid_producer_provenance [simp]: "valid (HRecord ''ProducerProvenance'') (canon_producer_provenance x)"
  unfolding canon_producer_provenance_def by (rule valid_record; simp add: hints_producer_provenance_def)

lemma valid_lifecycle_identity [simp]: "valid (HRecord ''LifecycleIdentity'') (canon_lifecycle_identity x)"
  unfolding canon_lifecycle_identity_def by (rule valid_record; simp add: hints_lifecycle_identity_def)

lemma valid_owner_candidate [simp]: "valid (HRecord ''OwnerCandidate'') (canon_owner_candidate x)"
  unfolding canon_owner_candidate_def by (rule valid_record; simp add: hints_owner_candidate_def)

lemma valid_prepared_group [simp]: "valid (HRecord ''PreparedGroup'') (canon_prepared_group x)"
  unfolding canon_prepared_group_def by (rule valid_record; simp add: hints_prepared_group_def)

lemma valid_prepared_create [simp]: "valid (HRecord ''PreparedCreate'') (canon_prepared_create x)"
  unfolding canon_prepared_create_def by (rule valid_record; simp add: hints_prepared_create_def)

lemma valid_transaction_event_evidence [simp]: "valid (HRecord ''TransactionEventEvidence'') (canon_transaction_event_evidence x)"
  unfolding canon_transaction_event_evidence_def by (rule valid_record; simp add: hints_transaction_event_evidence_def)

lemma valid_exact_chain_read_evidence [simp]: "valid (HRecord ''ExactChainReadEvidence'') (canon_exact_chain_read_evidence x)"
  unfolding canon_exact_chain_read_evidence_def by (rule valid_record; simp add: hints_exact_chain_read_evidence_def)

lemma valid_binding_evidence [simp]:
  "valid (HUnion [HRecord ''TransactionEventEvidence'', HRecord ''ExactChainReadEvidence'']) (canon_binding_evidence x)"
  by (cases x) (auto intro: valid_union[of _ "HRecord ''TransactionEventEvidence''"] valid_union[of _ "HRecord ''ExactChainReadEvidence''"])

lemma valid_bound_deployment [simp]: "valid (HRecord ''BoundDeployment'') (canon_bound_deployment x)"
  unfolding canon_bound_deployment_def by (rule valid_record; simp add: hints_bound_deployment_def)

lemma valid_admission_scope [simp]: "valid (HRecord ''AdmissionScope'') (canon_admission_scope x)"
  unfolding canon_admission_scope_def by (rule valid_record; simp add: hints_admission_scope_def)

lemma valid_owner_budget_scope [simp]: "valid (HRecord ''OwnerBudgetScope'') (canon_owner_budget_scope x)"
  unfolding canon_owner_budget_scope_def by (rule valid_record; simp add: hints_owner_budget_scope_def)

lemma valid_budget_scope [simp]:
  "valid (HUnion [HRecord ''OwnerBudgetScope'', HRecord ''AdmissionScope'']) (canon_budget_scope x)"
  "valid (HUnion [HRecord ''OwnerBudgetScope'', HRecord ''AdmissionScope'', HNone]) (canon_opt canon_budget_scope v)"
proof -
  have u: "valid (HUnion hs) (canon_budget_scope x)"
    if "hs \<in> {[HRecord ''OwnerBudgetScope'', HRecord ''AdmissionScope''],
      [HRecord ''OwnerBudgetScope'', HRecord ''AdmissionScope'', HNone]}" for hs x
    using that by (cases x)
      (auto intro: valid_union[of _ "HRecord ''OwnerBudgetScope''"] valid_union[of _ "HRecord ''AdmissionScope''"])
  then show "valid (HUnion [HRecord ''OwnerBudgetScope'', HRecord ''AdmissionScope'']) (canon_budget_scope x)" by simp
  show "valid (HUnion [HRecord ''OwnerBudgetScope'', HRecord ''AdmissionScope'', HNone]) (canon_opt canon_budget_scope v)"
    using u by (cases v) (auto simp: canon_opt_def intro: valid_union[of _ HNone])
qed

lemma valid_containment_limits [simp]: "valid (HRecord ''ContainmentLimits'') (canon_containment_limits x)"
  unfolding canon_containment_limits_def by (rule valid_record; simp add: hints_containment_limits_def)

lemma valid_containment_census [simp]: "valid (HRecord ''ContainmentCensus'') (canon_containment_census x)"
  unfolding canon_containment_census_def by (rule valid_record; simp add: hints_containment_census_def)

lemma valid_scope_budget [simp]: "valid (HRecord ''ScopeBudget'') (canon_scope_budget x)"
  unfolding canon_scope_budget_def by (rule valid_record; simp add: hints_scope_budget_def)

lemma valid_create_exposure_evidence [simp]: "valid (HRecord ''CreateExposureEvidence'') (canon_create_exposure_evidence x)"
  unfolding canon_create_exposure_evidence_def by (rule valid_record; simp add: hints_create_exposure_evidence_def)

lemma valid_admission_request [simp]: "valid (HRecord ''AdmissionRequest'') (canon_admission_request x)"
  unfolding canon_admission_request_def by (rule valid_record; simp add: hints_admission_request_def)

lemma valid_capacity_reservation [simp]: "valid (HRecord ''CapacityReservation'') (canon_capacity_reservation x)"
  unfolding canon_capacity_reservation_def by (rule valid_record; simp add: hints_capacity_reservation_def)

lemma valid_admission_state [simp]: "valid (HRecord ''AdmissionState'') (canon_admission_state x)"
  unfolding canon_admission_state_def by (rule valid_record; simp add: hints_admission_state_def)

lemma valid_capacity_usage [simp]: "valid (HRecord ''CapacityUsage'') (canon_capacity_usage x)"
  unfolding canon_capacity_usage_def by (rule valid_record; simp add: hints_capacity_usage_def)

lemma valid_budget_projection [simp]: "valid (HRecord ''BudgetProjection'') (canon_budget_projection x)"
  unfolding canon_budget_projection_def by (rule valid_record; simp add: hints_budget_projection_def)

lemma valid_admission_decision [simp]: "valid (HRecord ''AdmissionDecision'') (canon_admission_decision x)"
  unfolding canon_admission_decision_def by (rule valid_record; simp add: hints_admission_decision_def)

lemma valid_reservation_proposal [simp]: "valid (HRecord ''ReservationProposal'') (canon_reservation_proposal x)"
  unfolding canon_reservation_proposal_def by (rule valid_record; simp add: hints_reservation_proposal_def)

lemma valid_admission_result [simp]: "valid (HRecord ''AdmissionResult'') (canon_admission_result x)"
  unfolding canon_admission_result_def by (rule valid_record; simp add: hints_admission_result_def)

lemma valid_authenticated_broker_evidence [simp]: "valid (HRecord ''AuthenticatedBrokerEvidence'') (canon_authenticated_broker_evidence x)"
  unfolding canon_authenticated_broker_evidence_def by (rule valid_record; simp add: hints_authenticated_broker_evidence_def)

lemma valid_persistence_confirmation [simp]: "valid (HRecord ''PersistenceConfirmation'') (canon_persistence_confirmation x)"
  unfolding canon_persistence_confirmation_def by (rule valid_record; simp add: hints_persistence_confirmation_def)

lemma valid_admission_policy_binding [simp]: "valid (HRecord ''AdmissionPolicyBinding'') (canon_admission_policy_binding x)"
  unfolding canon_admission_policy_binding_def by (rule valid_record; simp add: hints_admission_policy_binding_def)

lemma valid_permit_presentation [simp]: "valid (HRecord ''PermitPresentation'') (canon_permit_presentation x)"
  unfolding canon_permit_presentation_def by (rule valid_record; simp add: hints_permit_presentation_def)

lemma valid_create_permit [simp]: "valid (HRecord ''CreatePermit'') (canon_create_permit x)"
  unfolding canon_create_permit_def by (rule valid_record; simp add: hints_create_permit_def)

lemma valid_permit_redemption_proposal [simp]: "valid (HRecord ''PermitRedemptionProposal'') (canon_permit_redemption_proposal x)"
  unfolding canon_permit_redemption_proposal_def by (rule valid_record; simp add: hints_permit_redemption_proposal_def)

lemma valid_create_submission_authorization [simp]: "valid (HRecord ''CreateSubmissionAuthorization'') (canon_create_submission_authorization x)"
  unfolding canon_create_submission_authorization_def by (rule valid_record; simp add: hints_create_submission_authorization_def)

section \<open>The roots\<close>

definition conforms_to :: "wide \<Rightarrow> string \<Rightarrow> json \<Rightarrow> bool" where
  "conforms_to model name j \<longleftrightarrow> conforms model (wide_dict [(''record'', wide_text name)]) (widen j)"

text \<open>The schema is closed: a record has its tag and its fields and no other member.\<close>

inductive_cases conforms_recordE: "conforms model (wide_dict [(''record'', WText name)]) v"

lemma conforms_closed:
  assumes "conforms model (wide_dict [(''record'', WText name)]) v"
  shows "\<exists>fs kvs. record_fields model name = Some fs \<and> v = WDict kvs
    \<and> set (map fst kvs) = insert (text_of ''$type'') (fst ` set fs)"
  using assms by (rule conforms_recordE) auto

text \<open>
  C25: The machine schema describes what the package writes. \<^verbatim>\<open>build_model\<close> raises neither for an
  unsupported hint nor for a dangling reference, and the canonical form of every value of a wire root
  or a storage root conforms to the record the schema gives for it: the same fields under the same
  names and no others, with the type of each, the tag, the members of the enumerations and the
  alternatives of the unions, at every depth.
\<close>
theorem canonical_values_conform:
  "\<exists>model. build_model = Inr model
    \<and> (\<forall>x. conforms_to model ''AdmissionRequest'' (canon_admission_request x))
    \<and> (\<forall>x. conforms_to model ''AdmissionResult'' (canon_admission_result x))
    \<and> (\<forall>x. conforms_to model ''PersistenceConfirmation'' (canon_persistence_confirmation x))
    \<and> (\<forall>x. conforms_to model ''CreatePermit'' (canon_create_permit x))
    \<and> (\<forall>x. conforms_to model ''PermitPresentation'' (canon_permit_presentation x))
    \<and> (\<forall>x. conforms_to model ''PermitRedemptionProposal'' (canon_permit_redemption_proposal x))
    \<and> (\<forall>x. conforms_to model ''CreateSubmissionAuthorization'' (canon_create_submission_authorization x))
    \<and> (\<forall>x. conforms_to model ''AdmissionState'' (canon_admission_state x))
    \<and> (\<forall>x. conforms_to model ''ReservationProposal'' (canon_reservation_proposal x))"
proof -
  have "conforms_to interop_model name j" if "valid (HRecord name) j" for name j
    using that by (simp add: conforms_to_def valid_def)
  then show ?thesis using build_model_value by auto
qed

end
