(* ===== verification/BundleOutcomes.thy ===== *)
theory BundleOutcomes
  imports BundleVectors StoredAdmission
begin

text \<open>
  What the golden vectors of the bundle expect. The answers are derived from the model of admission, and
  are the ones published in \<^verbatim>\<open>interoperability/akash-lifecycle-interoperability-v1/vectors.json\<close>.
\<close>

section \<open>Admitting the reference request\<close>

definition ref_budgets :: "int \<Rightarrow> int \<Rightarrow> scope_budget list" where
  "ref_budgets a m = map (ref_budget a m) [OwnerScope (owner_scope_of ref_scope), LeafScope ref_scope]"

definition ref_budgets1 :: "int \<Rightarrow> int \<Rightarrow> string \<Rightarrow> scope_budget list" where
  "ref_budgets1 a m op = map (\<lambda>b. b\<lparr>sb_census := (sb_census b)\<lparr>cc_excluded_reservation_count := 1,
     cc_excluded_reservation_population_digest := ids_digest [op]\<rparr>\<rparr>) (ref_budgets a m)"

definition ref_state1 :: "int \<Rightarrow> int \<Rightarrow> string \<Rightarrow> admission_state" where
  "ref_state1 a m op = \<lparr>st_budgets = ref_budgets1 a m op, st_reservations = [new_reservation (ref_request op)],
     st_revision = 1, st_version = ADMISSION_SCHEMA_VERSION\<rparr>"

definition ref_proposal :: "int \<Rightarrow> int \<Rightarrow> string \<Rightarrow> reservation_proposal" where
  "ref_proposal a m op =
     \<lparr>rp_operation_id = op, rp_expected_revision = 0,
      rp_expected_state_digest = canonical_admission_state_digest (ref_state a m), rp_proposed_revision = 1,
      rp_proposed_state_digest = canonical_admission_state_digest (ref_state1 a m op),
      rp_proposed_state = ref_state1 a m op, rp_version = ADMISSION_SCHEMA_VERSION\<rparr>"

lemma ref_state_fields [simp]:
  "st_budgets (ref_state a m) = ref_budgets a m" "st_reservations (ref_state a m) = []"
  "st_revision (ref_state a m) = 0" "st_version (ref_state a m) = ADMISSION_SCHEMA_VERSION"
  by (simp_all add: ref_state_def ref_budgets_def)

lemma ref_applicable: "applicable_budgets (ref_state a m) ref_scope = ref_budgets a m"
  by (simp add: applicable_budgets_def ref_budgets_def ref_budget_def)

lemma ref_required: "required_budgets (ref_budgets a m) ref_scope"
  by (simp add: required_budgets_def ref_budgets_def ref_budget_def)

lemma ref_bound: "b \<in> set (ref_budgets a m) \<Longrightarrow> census_binding_matches (ref_state a m) b = Inr True"
  by (auto simp: census_binding_matches_def reservation_operation_ids_def relevant_def ref_budgets_def
      ref_budget_def ref_census_def)

lemma ref_policy: "b \<in> set (ref_budgets a m) \<Longrightarrow>
    cl_exposure_policy_revision (sb_limits b) = xe_backend_policy_revision (ref_exposure op)"
  by (auto simp: ref_budgets_def ref_budget_def ref_limits_def ref_exposure_def)

lemma ref_projected: "b \<in> set (ref_budgets a m) \<Longrightarrow> projected_usage (ref_state a m) (ref_request op) b
    = \<lparr>cu_active_deployments = a + 1, cu_unresolved_create_outcomes = 1, cu_financial_exposure_uact = 100\<rparr>"
  by (auto simp: projected_usage_def usage_def relevant_def ref_budgets_def ref_budget_def ref_census_def
      ref_exposure_def)

lemma ref_admissible:
  assumes "now \<in> {NOW, NOW + 1}"
  shows "admissible (ref_state a m) (ref_request op) 0 now \<longleftrightarrow> a + 1 \<le> m"
proof -
  have "(\<forall>b \<in> set (ref_budgets a m). current_census (ref_request op) now b
      \<and> within_limits (sb_limits b) (projected_usage (ref_state a m) (ref_request op) b)) \<longleftrightarrow> a + 1 \<le> m"
    using assms ref_projected
    by (auto simp: ref_budgets_def ref_budget_def current_census_def unhealthy_def ref_census_def ref_limits_def
        within_limits_def)
  then show ?thesis
    using assms ref_bound ref_policy
    by (auto simp: admissible_def ref_applicable ref_required reservation_of_def ref_exposure_def)
qed

lemma propose_value:
  assumes "propose s r bs projections = Inr res"
    and "mapR (\<lambda>b. if b \<in> set bs then rebind_census (st_reservations s @ [new_reservation r]) b else Inr b)
      (st_budgets s) = Inr budgets"
  defines "s' \<equiv> s\<lparr>st_budgets := budgets, st_reservations := st_reservations s @ [new_reservation r],
      st_revision := st_revision s + 1\<rparr>"
  shows "ad_proposal res = Some \<lparr>rp_operation_id = ar_operation_id r, rp_expected_revision = st_revision s,
      rp_expected_state_digest = canonical_admission_state_digest s, rp_proposed_revision = st_revision s + 1,
      rp_proposed_state_digest = canonical_admission_state_digest s', rp_proposed_state = s',
      rp_version = ADMISSION_SCHEMA_VERSION\<rparr>"
    and "dc_disposition (ad_decision res) = ADMISSION_PROPOSED"
    and "dc_reason (ad_decision res) = REASON_PROPOSED"
  using assms(1,2) unfolding propose_def new_reservation_def[symmetric] s'_def by (auto simp: Let_def)

lemma ref_rebind:
  assumes "op \<in> ref_operations" "0 \<le> a" "0 \<le> m" "b \<in> set (ref_budgets a m)"
  shows "rebind_census [new_reservation (ref_request op)] b
    = Inr (b\<lparr>sb_census := (sb_census b)\<lparr>cc_excluded_reservation_count := 1,
        cc_excluded_reservation_population_digest := ids_digest [op]\<rparr>\<rparr>)"
proof -
  have pop: "canonical_reservation_population_digest [op] = Inr (ids_digest [op])"
    using assms(1) by (simp add: canonical_reservation_population_digest_def ids_digest_def)
  have budget: "is_scope_budget b" using assms(2-4) ref_budget_valid by (auto simp: ref_budgets_def)
  then have census: "is_containment_census ((sb_census b)\<lparr>cc_excluded_reservation_count := 1,
        cc_excluded_reservation_population_digest := ids_digest [op]\<rparr>)"
    by (simp add: is_scope_budget_def is_containment_census_def is_count_def ids_digest_def)
  have "applies (sb_scope b) ref_scope" using assms(4) by (auto simp: ref_budgets_def ref_budget_def)
  then show ?thesis
    using pop census budget
    by (simp add: rebind_census_def new_reservation_def construct_def is_scope_budget_def)
qed

lemma ref_reserve:
  assumes "op \<in> ref_operations" and "0 \<le> a" and "a + 1 \<le> m" and "now \<in> {NOW, NOW + 1}"
  shows "\<exists>res. reserve_capacity (ref_state a m) (ref_request op) 0 now = Inr res
    \<and> ad_proposal res = Some (ref_proposal a m op)
    \<and> dc_disposition (ad_decision res) = ADMISSION_PROPOSED \<and> dc_reason (ad_decision res) = REASON_PROPOSED"
proof -
  let ?s = "ref_state a m" and ?r = "ref_request op"
  have now: "is_time now" "is_count 0" using assms(4) by (auto simp: is_count_def)
  have m: "0 \<le> m" using assms by simp
  obtain res where res: "reserve_capacity ?s ?r 0 now = Inr res" "ad_proposal res \<noteq> None"
    using reserve_decides[OF ref_state_valid ref_request_valid now(2,1)] assms m ref_admissible by blast
  then obtain p where p: "ad_proposal res = Some p" by blast
  obtain proj where "propose ?s ?r (applicable_budgets ?s (ar_scope ?r)) proj = Inr res"
    using res(1) p by (rule reserve_effect) (rule that; assumption)
  then have propose: "propose ?s ?r (ref_budgets a m) proj = Inr res" by (simp add: ref_applicable)
  have reb: "mapR (\<lambda>b. if b \<in> set (ref_budgets a m)
        then rebind_census (st_reservations ?s @ [new_reservation ?r]) b else Inr b) (st_budgets ?s)
      = Inr (ref_budgets1 a m op)"
    unfolding ref_budgets1_def ref_state_fields
    by (rule mapR_all_Inr) (simp add: ref_rebind[OF assms(1,2) m])
  have "?s\<lparr>st_budgets := ref_budgets1 a m op, st_reservations := [new_reservation ?r], st_revision := 1\<rparr>
      = ref_state1 a m op"
    by (simp add: ref_state_def ref_state1_def)
  then show ?thesis
    using res(1) propose_value[OF propose reb] by (simp add: ref_proposal_def)
qed

lemma ref_rejected:
  assumes "0 \<le> a" and "op \<in> ref_operations"
  shows "reserve_capacity (ref_state a a) (ref_request op) 0 NOW
    = Inr (hold REASON_ACTIVE_DEPLOYMENT_LIMIT (Some (OwnerScope (owner_scope_of ref_scope))))"
proof -
  let ?b = "ref_budget a a (OwnerScope (owner_scope_of ref_scope))"
  have "bind_check (ref_state a a) (ref_request op) bs = Inr None" if "set bs \<subseteq> set (ref_budgets a a)" for bs
    using that by (induction bs) (simp_all add: ref_bound ref_policy[of _ a a op])
  then have bind: "bind_check (ref_state a a) (ref_request op) (ref_budgets a a) = Inr None" by blast
  have mem: "?b \<in> set (ref_budgets a a)" by (simp add: ref_budgets_def)
  have "admit_budget (ref_state a a) (ref_request op) NOW ?b
      = Inl (hold REASON_ACTIVE_DEPLOYMENT_LIMIT (Some (OwnerScope (owner_scope_of ref_scope))))"
    using ref_projected[OF mem, of op]
    by (simp add: admit_budget_def ref_budget_def unhealthy_def ref_census_def ref_limits_def exceeded_def Let_def)
  then have "mapR (admit_budget (ref_state a a) (ref_request op) NOW) (ref_budgets a a)
      = Inl (hold REASON_ACTIVE_DEPLOYMENT_LIMIT (Some (OwnerScope (owner_scope_of ref_scope))))"
    by (simp add: ref_budgets_def)
  then show ?thesis
    using bind by (simp add: reserve_capacity_def Let_def is_count_def ref_applicable ref_required
        reservation_of_def ref_exposure_def)
qed

section \<open>Confirming its persistence\<close>

definition ref_broker :: authenticated_broker_evidence where
  "ref_broker =
     \<lparr>ab_broker_identity = ''firestore-broker:multi-region'',
      ab_issuer = ''https://token.actions.githubusercontent.com'', ab_audience = ''akash-create-broker'',
      ab_subject = ''repo:example/broker:environment:production'',
      ab_verifier_policy_revision = replicate 40 (CHR ''8''),
      ab_authentication_evidence_digest = replicate 64 (CHR ''c''),
      ab_verified_at = NOW, ab_valid_until = NOW + 10\<rparr>"

definition ref_confirmation :: "string \<Rightarrow> int \<Rightarrow> string \<Rightarrow> persistence_confirmation" where
  "ref_confirmation op revision state_digest =
     \<lparr>cf_operation_id = op, cf_persisted_revision = revision, cf_persisted_state_digest = state_digest,
      cf_authenticated_broker = ref_broker, cf_evidence_digest = replicate 64 (CHR ''b''),
      cf_persisted_at = NOW + 1, cf_version = ADMISSION_SCHEMA_VERSION\<rparr>"

lemma ref_broker_valid [simp]: "is_authenticated_broker_evidence ref_broker"
  by (simp add: is_authenticated_broker_evidence_def ref_broker_def)

lemma ref_confirmation_valid [simp]:
  "is_nonempty_ascii 128 op \<Longrightarrow> 0 \<le> revision \<Longrightarrow> is_digest state_digest \<Longrightarrow>
    is_persistence_confirmation (ref_confirmation op revision state_digest)"
  by (simp add: is_persistence_confirmation_def ref_confirmation_def is_count_def)

lemma ref_confirmation_fields [simp]:
  "cf_operation_id (ref_confirmation op n d) = op" "cf_persisted_revision (ref_confirmation op n d) = n"
  "cf_persisted_state_digest (ref_confirmation op n d) = d"
  "cf_authenticated_broker (ref_confirmation op n d) = ref_broker"
  "cf_evidence_digest (ref_confirmation op n d) = replicate 64 (CHR ''b'')"
  "cf_persisted_at (ref_confirmation op n d) = NOW + 1"
  by (simp_all add: ref_confirmation_def)

lemma bundle_confirmation_value:
  assumes "is_persistence_confirmation (ref_confirmation (rp_operation_id p)
      (case revision of None \<Rightarrow> rp_proposed_revision p | Some n \<Rightarrow> n)
      (case dig of None \<Rightarrow> rp_proposed_state_digest p | Some d \<Rightarrow> d))"
  shows "bundle_confirmation p revision dig = Inr (ref_confirmation (rp_operation_id p)
      (case revision of None \<Rightarrow> rp_proposed_revision p | Some n \<Rightarrow> n)
      (case dig of None \<Rightarrow> rp_proposed_state_digest p | Some d \<Rightarrow> d))"
  using ref_broker_valid assms
  by (simp add: bundle_confirmation_def construct_def ref_broker_def[symmetric] ref_confirmation_def[symmetric])

lemma ref_proposal_fields [simp]:
  "rp_operation_id (ref_proposal a m op) = op" "rp_expected_revision (ref_proposal a m op) = 0"
  "rp_proposed_revision (ref_proposal a m op) = 1"
  "rp_proposed_state (ref_proposal a m op) = ref_state1 a m op"
  "rp_proposed_state_digest (ref_proposal a m op) = canonical_admission_state_digest (ref_state1 a m op)"
  by (simp_all add: ref_proposal_def)

lemma ref_subject [simp]: "is_nonempty_ascii 256 (pp_subject (pc_producer (ref_prepared op)))"
proof -
  have "is_nonempty_ascii 256 ''repo:example/repo:ref:refs/heads/main''" by code_simp
  then show ?thesis by (simp add: ref_prepared_def ref_producer_def)
qed

text \<open>A confirmation at the time of the reference, of the proposal made in the state of \<open>a\<close> active deployments.\<close>

lemma ref_refused:
  assumes "op' \<in> ref_operations" "0 \<le> a" "a + 1 \<le> m" "cf_persisted_at cf = NOW + 1"
    and "ref_proposal a m op' \<noteq> ref_proposal 0 3 op \<or> \<not> confirms cf (ref_proposal 0 3 op)
      \<or> observed \<noteq> ref_state1 0 3 op"
  shows "confirmation_result (ref_proposal 0 3 op) (ref_state a m) (ref_request op') observed cf
    = Some (permit_wire (Some ''PersistenceConfirmationError''))"
proof -
  obtain res where "reserve_capacity (ref_state a m) (ref_request op') 0 (NOW + 1) = Inr res"
    "ad_proposal res = Some (ref_proposal a m op')"
    using ref_reserve[OF assms(1-3), of "NOW + 1"] by blast
  then have "confirm_persisted_reservation (ref_proposal 0 3 op) (ref_state a m) (ref_request op') observed cf
      = Inl PersistenceConfirmationError"
    using assms(4,5) by (intro confirm_mismatch[where res = res]) auto
  then show ?thesis by (simp add: confirmation_result_def)
qed

lemma ref_answered:
  assumes "op \<in> ref_operations" "cf_persisted_at cf = NOW + 1" "confirms cf (ref_proposal 0 3 op)"
    and "is_authenticated_broker_evidence (cf_authenticated_broker cf)"
  shows "confirmation_result (ref_proposal 0 3 op) (ref_state 0 3) (ref_request op) (ref_state1 0 3 op) cf
    = Some (permit_wire (if \<not> broker_current cf then Some ''PersistenceConfirmationError''
        else if is_digest (cf_evidence_digest cf) then None else Some ''ValueError''))"
proof -
  obtain res where res: "reserve_capacity (ref_state 0 3) (ref_request op) (rp_expected_revision (ref_proposal 0 3 op))
      (cf_persisted_at cf) = Inr res" "ad_proposal res = Some (ref_proposal 0 3 op)"
    using ref_reserve[OF assms(1), of 0 3 "NOW + 1"] assms(2) by auto
  have "is_time (cf_persisted_at cf)" using assms(2) by simp
  have subject: "is_nonempty_ascii 256 (pp_subject (pc_producer (ar_prepared (ref_request op)))) \<longleftrightarrow> True" by simp
  obtain permit where
    "confirm_persisted_reservation (ref_proposal 0 3 op) (ref_state 0 3) (ref_request op) (ref_state1 0 3 op) cf
      = (if \<not> broker_current cf then Inl PersistenceConfirmationError
         else if is_digest (cf_evidence_digest cf) then Inr permit else Inl ValueError)"
    using confirm_matching[OF res assms(3,4) \<open>is_time (cf_persisted_at cf)\<close>]
    unfolding subject simp_thms ref_proposal_fields by blast
  then show ?thesis by (simp add: confirmation_result_def)
qed

section \<open>The records are read back\<close>

lemma ints_readable_int: "\<bar>i\<bar> < 10 ^ 20 \<Longrightarrow> ints_readable (JInt i)"
  using nat_str_length_le[of "nat \<bar>i\<bar>" 19] by (simp add: nat_less_iff)

lemmas ref_defs = ref_scope_def ref_group_def ref_producer_def ref_lifecycle_def ref_backend_def ref_candidate_def
  ref_prepared_def ref_exposure_def ref_request_def ref_limits_def ref_census_def ref_budget_def ref_budgets_def
  ref_state_def ref_budgets1_def ref_state1_def ref_proposal_def new_reservation_def ref_confirmation_def
  ref_broker_def owner_scope_of_def NOW_def ADMISSION_SCHEMA_VERSION_def JOURNAL_SCHEMA_VERSION_def

lemmas canon_defs = canon_admission_scope_def canon_prepared_group_def
  canon_producer_provenance_def canon_lifecycle_identity_def canon_backend_identity_def canon_owner_candidate_def
  canon_prepared_create_def canon_create_exposure_evidence_def canon_admission_request_def
  canon_containment_limits_def canon_containment_census_def canon_scope_budget_def canon_owner_budget_scope_def
  canon_capacity_reservation_def canon_admission_state_def canon_reservation_proposal_def
  canon_persistence_confirmation_def canon_authenticated_broker_evidence_def
  canon_dataclass_def canon_enum_def canon_opt_def canon_tuple_def

lemmas read_defs = readable_def ref_defs canon_defs ints_readable_int

lemma ref_request_readable: "8 \<le> limit \<Longrightarrow> readable limit (canon_admission_request (ref_request op))"
  by (simp add: read_defs del: ints_readable.simps(1))

lemma ref_state_readable:
  assumes "8 \<le> limit" "0 \<le> a" "a < 2 ^ 60" "0 \<le> m" "m < 2 ^ 60"
  shows "readable limit (canon_admission_state (ref_state a m))"
  using assms by (simp add: read_defs del: ints_readable.simps(1))

lemma ref_state1_readable: "8 \<le> limit \<Longrightarrow> readable limit (canon_admission_state (ref_state1 0 3 op))"
  by (simp add: read_defs del: ints_readable.simps(1))

lemma ref_proposal_readable: "8 \<le> limit \<Longrightarrow> readable limit (canon_reservation_proposal (ref_proposal 0 3 op))"
  using ref_state1_readable[of "limit - 1" op]
  by (simp add: read_defs del: ints_readable.simps(1))

lemma confirmation_readable:
  assumes "8 \<le> limit" "cf_persisted_revision cf \<in> {0, 1}" "cf_persisted_at cf = NOW + 1"
    "ab_verified_at (cf_authenticated_broker cf) = NOW"
    "ab_valid_until (cf_authenticated_broker cf) \<in> {NOW, NOW + 10}" "cf_version cf = 1"
  shows "readable limit (canon_persistence_confirmation cf)"
  using assms by (auto simp: read_defs simp del: ints_readable.simps(1))

lemma typed_some: "readable limit j \<Longrightarrow> fields_distinct j \<Longrightarrow> \<exists>v. typed limit j = Some v"
  using typed_widen by blast

lemma typed_refs:
  assumes "8 \<le> limit"
  shows "\<exists>v. typed limit (canon_admission_request (ref_request op)) = Some v"
    and "0 \<le> a \<Longrightarrow> a < 2 ^ 60 \<Longrightarrow> 0 \<le> m \<Longrightarrow> m < 2 ^ 60 \<Longrightarrow>
      \<exists>v. typed limit (canon_admission_state (ref_state a m)) = Some v"
    and "\<exists>v. typed limit (canon_admission_state (ref_state1 0 3 op)) = Some v"
    and "\<exists>v. typed limit (canon_reservation_proposal (ref_proposal 0 3 op)) = Some v"
proof -
  show "\<exists>v. typed limit (canon_admission_request (ref_request op)) = Some v"
    by (intro typed_some ref_request_readable assms) simp
  show "0 \<le> a \<Longrightarrow> a < 2 ^ 60 \<Longrightarrow> 0 \<le> m \<Longrightarrow> m < 2 ^ 60 \<Longrightarrow>
      \<exists>v. typed limit (canon_admission_state (ref_state a m)) = Some v"
    by (intro typed_some ref_state_readable assms) simp_all
  show "\<exists>v. typed limit (canon_admission_state (ref_state1 0 3 op)) = Some v"
    by (intro typed_some ref_state1_readable assms) simp
  show "\<exists>v. typed limit (canon_reservation_proposal (ref_proposal 0 3 op)) = Some v"
    by (intro typed_some ref_proposal_readable assms) (simp add: canon_reservation_proposal_def)
qed

lemma typed_confirmation:
  "readable limit (canon_persistence_confirmation cf) \<Longrightarrow> \<exists>v. typed limit (canon_persistence_confirmation cf) = Some v"
  by (intro typed_some) (simp_all add: canon_persistence_confirmation_def canon_authenticated_broker_evidence_def)

section \<open>The published answers\<close>

text \<open>A text with \<^verbatim>\<open>^\<close> for the double quote and \<^verbatim>\<open>~\<close> for the backslash.\<close>

definition marked :: "string \<Rightarrow> string" where
  "marked s = map (\<lambda>c. if c = CHR ''^'' then CHR 0x22 else if c = CHR ''~'' then CHR 0x5C else c) s"

definition refusal :: wide where
  "refusal = permit_wire (Some ''PersistenceConfirmationError'')"

definition published_reservations :: "(string \<times> wide) list" where
  "published_reservations =
     [(''reservation-success'', result_wire ''proposed'' ''proposed'' (Some 1)),
      (''reservation-rejected-at-active-limit'', result_wire ''hold'' ''active_deployment_limit'' None),
      (''reservation-replay-reconciles'', result_wire ''reconcile'' ''reconcile_existing'' None)]"

definition published_confirmations :: "bool \<Rightarrow> (string \<times> wide) list" where
  "published_confirmations hit =
     [(''confirmation-success-issues-permit'', permit_wire None),
      (''partial-store-refuses-permit'', refusal),
      (''foreign-request-refuses-permit'', refusal),
      (''expired-broker-evidence-refuses-permit'', refusal),
      (''wrong-persisted-digest-refuses-permit'', if hit then permit_wire None else refusal),
      (''foreign-operation-confirmation-refuses-permit'', refusal),
      (''foreign-pre-state-refuses-permit'', refusal),
      (''malformed-persistence-evidence-digest-refuses-permit'', permit_wire (Some ''ValueError''))]"

definition integer_answer :: "string option \<Rightarrow> wide" where
  "integer_answer text = wide_dict [(''accepted'', WBool (text \<noteq> None)), (''canonical_json'', wide_opt wide_text text)]"

definition published_texts :: "(string \<times> wide) list" where
  "published_texts =
     [(''canonical-json-control-astral-and-key-order'', wide_dict [(''canonical_json'', wide_text (marked
         ''{^a^:^rocket: ~ud83d~ude80^,^z^:^~u0000~b~f~n~r~t^,^~ue000^:^bmp-private-use-key^,^~ud800~udc00^:^astral-key^}''))])]
     @ map (\<lambda>t. (''canonical-nonnegative-integer-'' @ t, integer_answer (Some t)))
         [''9007199254740991'', ''9007199254740992'', ''18446744073709551615'',
          ''10000000000000000000000000000000000000123'']
     @ [(''reject-noncanonical-integer-01'', integer_answer None),
        (''reject-noncanonical-integer-minus1'', integer_answer None)]"

definition answers :: "vector list \<Rightarrow> (string \<times> wide) list" where
  "answers vs = map (\<lambda>v. (vc_id v, vc_expected v)) vs"

lemma digit_chars: "digit_char 0 = CHR ''0''" "digit_char 1 = CHR ''1''" "digit_char (Suc 0) = CHR ''1''" "digit_char 2 = CHR ''2''"
  "digit_char 3 = CHR ''3''" "digit_char 4 = CHR ''4''" "digit_char 5 = CHR ''5''" "digit_char 6 = CHR ''6''"
  "digit_char 7 = CHR ''7''" "digit_char 8 = CHR ''8''" "digit_char 9 = CHR ''9''"
  by (simp_all add: digit_char_def char_of_def bit_numeral_rec bit_Suc_0_iff)

lemma hex_chars: "hex_char 0 = CHR ''0''" "hex_char (Suc 0) = CHR ''1''" "hex_char 3 = CHR ''3''" "hex_char 8 = CHR ''8''"
  "hex_char 12 = CHR ''c''" "hex_char 13 = CHR ''d''" "hex_char 14 = CHR ''e''"
  by (simp_all add: hex_char_def char_of_def bit_numeral_rec bit_Suc_0_iff)
lemma entry_chars: "char_of (97 :: nat) = CHR ''a''" "char_of (122 :: nat) = CHR ''z''"
  by (simp_all add: char_of_def bit_numeral_rec bit_Suc_0_iff)

lemma canonical_answer: "canonical_bytes (WDict (map (\<lambda>(k, v). (k, WText v)) canonical_entries)) = marked
    ''{^a^:^rocket: ~ud83d~ude80^,^z^:^~u0000~b~f~n~r~t^,^~ue000^:^bmp-private-use-key^,^~ud800~udc00^:^astral-key^}''"
proof -
  have q: "map escape_point (text_of s) = map escape_char s" for s
    by (simp add: text_of_def escape_point_def code_less) (simp add: code_def)
  have k: "text_of ''z'' = [122]" "text_of ''a'' = [97]" by (simp_all add: text_of_def code_def)
  let ?t = "\<lambda>k v. (k, quote_points v)"
  have "canonical_bytes (WDict (map (\<lambda>(k, v). (k, WText v)) canonical_entries))
    = ''{'' @ comma_join (map (\<lambda>(k, t). quote_points k @ '':'' @ t)
       [?t [97] (text_of ''rocket: '' @ [128640]), ?t [122] [0, 8, 12, 10, 13, 9],
        ?t [57344] (text_of ''bmp-private-use-key''), ?t [65536] (text_of ''astral-key'')]) @ ''}''"
    by (simp add: canonical_entries_def k del: text_of_Cons)
  then show ?thesis
    by (simp only: quote_points_def map_append q)
      (simp add: escape_point_def entry_chars, simp add: escape_char_def code_def hex_str_4 hex_chars marked_def)
qed
text \<open>
  A lone surrogate is written like any other code point, although \<^verbatim>\<open>canonicalization.json\<close> states that such
  code points are rejected.
\<close>

lemma lone_surrogate_written: "canonical_bytes (WText [55296]) = marked ''^~ud800^''"
  by (simp add: quote_points_def escape_point_def hex_str_4 hex_chars marked_def)

lemma integer_texts:
  "int_str (2 ^ 53 - 1) = ''9007199254740991''" "int_str (2 ^ 53) = ''9007199254740992''"
  "int_str (2 ^ 64 - 1) = ''18446744073709551615''"
  "int_str (10 ^ 40 + 123) = ''10000000000000000000000000000000000000123''"
  by (simp_all add: int_str_def nat_str.simps digit_chars)

lemma text_answers: "answers (canonical_vector # integer_vectors) = published_texts"
  unfolding answers_def integer_vectors_def published_texts_def list.map append.simps integer_texts
  by (simp only: canonical_vector_def canonical_answer accepted_integer_def rejected_integer_def vector.simps)
    (simp add: integer_answer_def wide_opt_def)

lemma reservation_answer:
  assumes "\<exists>v. typed limit (canon_admission_state s) = Some v" "\<exists>v. typed limit (canon_admission_request r) = Some v"
  shows "\<exists>v. reservation_vector limit name s r n e = Some v \<and> vc_id v = name \<and> vc_expected v = e"
  using assms by (auto simp: reservation_vector_def)

lemma reservation_answers:
  assumes "8 \<le> limit" "op \<in> ref_operations"
    and "dc_disposition (ad_decision admitted) = ADMISSION_PROPOSED" "dc_reason (ad_decision admitted) = REASON_PROPOSED"
  shows "\<exists>vs. reservation_vectors limit (ref_state 0 3) (ref_request op) admitted (ref_proposal 0 3 op) = Some vs
    \<and> answers vs = published_reservations"
proof -
  let ?n = "largest_exact_js_integer"
  have n: "0 \<le> ?n" "?n < 2 ^ 60" by (simp_all add: largest_exact_js_integer_def)
  obtain res where "reserve_capacity (ref_state 0 3) (ref_request op) 0 NOW = Inr res"
    "ad_proposal res = Some (ref_proposal 0 3 op)"
    using ref_reserve[OF assms(2), of 0 3 NOW] by auto
  from reserve_replay[OF this, of 1 NOW] obtain again where
    again: "reserve_capacity (ref_state1 0 3 op) (ref_request op) 1 NOW = Inr again"
    "dc_disposition (ad_decision again) = ADMISSION_RECONCILE" "dc_reason (ad_decision again) = REASON_RECONCILE_EXISTING"
    by (auto simp: is_count_def)
  note t = typed_refs[OF assms(1)]
  obtain v1 where v1: "reservation_vector limit ''reservation-success'' (ref_state 0 3) (ref_request op) 0
      (decision_wire admitted (Some 1)) = Some v1" "vc_id v1 = ''reservation-success''"
      "vc_expected v1 = decision_wire admitted (Some 1)"
    using reservation_answer[OF t(2)[of 0 3] t(1)] by fastforce
  obtain v2 where v2: "reservation_vector limit ''reservation-rejected-at-active-limit'' (ref_state ?n ?n) (ref_request op) 0
      (decision_wire (hold REASON_ACTIVE_DEPLOYMENT_LIMIT (Some (OwnerScope (owner_scope_of ref_scope)))) None) = Some v2"
      "vc_id v2 = ''reservation-rejected-at-active-limit''"
      "vc_expected v2 = result_wire ''hold'' ''active_deployment_limit'' None"
    using reservation_answer[OF t(2)[OF n n] t(1)] by (fastforce simp: decision_wire_def hold_def)
  obtain v3 where v3: "reservation_vector limit ''reservation-replay-reconciles'' (ref_state1 0 3 op) (ref_request op) 1
      (decision_wire again None) = Some v3" "vc_id v3 = ''reservation-replay-reconciles''"
      "vc_expected v3 = decision_wire again None"
    using reservation_answer[OF t(3) t(1)] by blast
  have "reservation_vectors limit (ref_state 0 3) (ref_request op) admitted (ref_proposal 0 3 op) = Some [v1, v2, v3]"
    using v1(1) v2(1) v3(1) again(1) ref_rejected[OF n(1) assms(2)]
    by (simp add: reservation_vectors_def bundle_state_value n)
  then show ?thesis
    using v1 v2 v3 again assms(3,4) by (simp add: answers_def published_reservations_def decision_wire_def)
qed

lemma confirmation_answer:
  assumes "\<exists>v. typed limit (canon_reservation_proposal p) = Some v" "\<exists>v. typed limit (canon_admission_state s) = Some v"
    "\<exists>v. typed limit (canon_admission_request r) = Some v" "\<exists>v. typed limit (canon_admission_state t) = Some v"
    "\<exists>v. typed limit (canon_persistence_confirmation cf) = Some v" and "confirmation_result p s r t cf = Some e"
  shows "\<exists>v. confirmation_vector limit p (name, s, r, t, cf) = Some v \<and> (vc_id v, vc_expected v) = (name, e)"
  using assms by (auto simp: confirmation_vector_def)

lemma answers_those:
  assumes "list_all2 (\<lambda>x a. \<exists>v. f x = Some v \<and> (vc_id v, vc_expected v) = a) xs as"
  shows "\<exists>vs. those (map f xs) = Some vs \<and> answers vs = as"
  using assms by (induction rule: list_all2_induct) (auto simp: answers_def)

lemma state_digest_ok [simp]: "is_digest (canonical_admission_state_digest s)"
  by (simp add: canonical_admission_state_digest_def)

lemma confirmation_case_list:
  assumes "op \<in> ref_operations"
  shows "confirmation_cases (ref_state 0 3) (ref_request op) (ref_proposal 0 3 op) = Some
    (let t = ref_state1 0 3 op; s = ref_state 0 3; r = ref_request op;
         valid = ref_confirmation op 1 (canonical_admission_state_digest t) in
     [(''confirmation-success-issues-permit'', s, r, t, valid),
      (''partial-store-refuses-permit'', s, r, s, ref_confirmation op 0 (canonical_admission_state_digest s)),
      (''foreign-request-refuses-permit'', s, ref_request ''create:example/repo:42:2'', t, valid),
      (''expired-broker-evidence-refuses-permit'', s, r, t,
         valid\<lparr>cf_authenticated_broker := ref_broker\<lparr>ab_valid_until := NOW\<rparr>\<rparr>),
      (''wrong-persisted-digest-refuses-permit'', s, r, t, ref_confirmation op 1 (replicate 64 (CHR ''d''))),
      (''foreign-operation-confirmation-refuses-permit'', s, r, t,
         ref_confirmation ''other-operation'' 1 (canonical_admission_state_digest t)),
      (''foreign-pre-state-refuses-permit'', ref_state 1 3, r, t, valid),
      (''malformed-persistence-evidence-digest-refuses-permit'', s, r, t,
         valid\<lparr>cf_evidence_digest := ''not-a-digest''\<rparr>)])"
proof -
  let ?valid = "ref_confirmation op 1 (canonical_admission_state_digest (ref_state1 0 3 op))"
  have op: "is_nonempty_ascii 128 op" "is_nonempty_ascii 128 ''other-operation''"
    using assms by simp (code_simp)
  have broker: "is_authenticated_broker_evidence (ref_broker\<lparr>ab_valid_until := NOW\<rparr>)"
    using ref_broker_valid by (simp add: is_authenticated_broker_evidence_def) (simp add: ref_broker_def)
  have valid: "is_persistence_confirmation ?valid" using op by simp
  then have replaced: "is_persistence_confirmation (?valid\<lparr>cf_authenticated_broker := ref_broker\<lparr>ab_valid_until := NOW\<rparr>\<rparr>)"
    using broker by (simp add: is_persistence_confirmation_def)
  have updates: "?valid\<lparr>cf_persisted_state_digest := d\<rparr> = ref_confirmation op 1 d"
    "?valid\<lparr>cf_operation_id := other\<rparr> = ref_confirmation other 1 (canonical_admission_state_digest (ref_state1 0 3 op))" for d other
    by (simp_all add: ref_confirmation_def)
  have vals: "bundle_confirmation (ref_proposal 0 3 op) None None = Inr ?valid"
    "bundle_confirmation (ref_proposal 0 3 op) (Some 0) (Some (canonical_admission_state_digest (ref_state 0 3)))
      = Inr (ref_confirmation op 0 (canonical_admission_state_digest (ref_state 0 3)))"
    using valid op bundle_confirmation_value[of "ref_proposal 0 3 op" None None]
      bundle_confirmation_value[of "ref_proposal 0 3 op" "Some 0" "Some (canonical_admission_state_digest (ref_state 0 3))"]
    by simp_all
  show ?thesis
    using broker replaced op
    by (simp add: confirmation_cases_def vals updates construct_def bundle_state_value bundle_request_value
        ref_operations_def Let_def)
qed

lemma ref_state1_differs: "ref_state a m \<noteq> ref_state1 b n op"
  by (simp add: ref_state_def ref_state1_def)

lemma ref_proposal_differs:
  "op \<noteq> op' \<Longrightarrow> ref_proposal a m op \<noteq> ref_proposal b n op'" "ref_proposal 1 3 op \<noteq> ref_proposal 0 3 op"
  by (auto simp: ref_proposal_def ref_state1_def ref_budgets1_def ref_budgets_def ref_budget_def ref_census_def)

text \<open>The answer to every confirmation of the list, one by one.\<close>

definition ref_expired :: "string \<Rightarrow> persistence_confirmation" where
  "ref_expired op = (ref_confirmation op 1 (canonical_admission_state_digest (ref_state1 0 3 op)))
     \<lparr>cf_authenticated_broker := ref_broker\<lparr>ab_valid_until := NOW\<rparr>\<rparr>"

definition ref_forged :: "string \<Rightarrow> persistence_confirmation" where
  "ref_forged op = (ref_confirmation op 1 (canonical_admission_state_digest (ref_state1 0 3 op)))
     \<lparr>cf_evidence_digest := ''not-a-digest''\<rparr>"

lemma ref_confirms:
  "confirms (ref_confirmation op' n d) (ref_proposal 0 3 op)
     \<longleftrightarrow> op' = op \<and> n = 1 \<and> d = canonical_admission_state_digest (ref_state1 0 3 op)"
  "confirms (ref_expired op) (ref_proposal 0 3 op)" "confirms (ref_forged op) (ref_proposal 0 3 op)"
  by (auto simp: confirms_def ref_expired_def ref_forged_def)

lemma ref_broker_current:
  "broker_current (ref_confirmation op n d)" "\<not> broker_current (ref_expired op)" "broker_current (ref_forged op)"
  by (simp_all add: broker_current_def ref_confirmation_def ref_broker_def ref_expired_def ref_forged_def)

lemma ref_answers:
  assumes op: "op = ''create:example/repo:42:1''"
  defines "p \<equiv> ref_proposal 0 3 op" and "digest \<equiv> canonical_admission_state_digest (ref_state1 0 3 op)"
  shows "confirmation_result p (ref_state 0 3) (ref_request op) (ref_state1 0 3 op) (ref_confirmation op 1 d)
      = Some (if d = digest then permit_wire None else refusal)"
    and "cf_persisted_at cf = NOW + 1 \<Longrightarrow>
      confirmation_result p (ref_state 0 3) (ref_request op) (ref_state 0 3) cf = Some refusal"
    and "confirmation_result p (ref_state 0 3) (ref_request ''create:example/repo:42:2'') (ref_state1 0 3 op)
      (ref_confirmation op 1 digest) = Some refusal"
    and "confirmation_result p (ref_state 0 3) (ref_request op) (ref_state1 0 3 op) (ref_expired op) = Some refusal"
    and "confirmation_result p (ref_state 0 3) (ref_request op) (ref_state1 0 3 op)
      (ref_confirmation ''other-operation'' 1 digest) = Some refusal"
    and "confirmation_result p (ref_state 1 3) (ref_request op) (ref_state1 0 3 op) (ref_confirmation op 1 digest)
      = Some refusal"
    and "confirmation_result p (ref_state 0 3) (ref_request op) (ref_state1 0 3 op) (ref_forged op)
      = Some (permit_wire (Some ''ValueError''))"
proof -
  have ops: "op \<in> ref_operations" "''create:example/repo:42:2'' \<in> ref_operations" by (simp_all add: ref_operations_def op)
  have broker: "is_authenticated_broker_evidence (ref_broker\<lparr>ab_valid_until := NOW\<rparr>)"
    using ref_broker_valid by (simp add: is_authenticated_broker_evidence_def) (simp add: ref_broker_def)
  have bad: "\<not> is_digest ''not-a-digest''" by code_simp
  note answered = ref_answered[OF ops(1), folded p_def]
    and refused = ref_refused[where op = op, folded p_def refusal_def]
    and confirmed = ref_confirms[where op = op, folded p_def digest_def]
  show "confirmation_result p (ref_state 0 3) (ref_request op) (ref_state1 0 3 op) (ref_confirmation op 1 d)
      = Some (if d = digest then permit_wire None else refusal)"
  proof (cases "d = digest")
    case True
    then show ?thesis using answered[of "ref_confirmation op 1 d"] confirmed ref_broker_current by simp
  next
    case False
    then show ?thesis by (simp only: if_False) (intro refused ops, simp_all add: confirmed)
  qed
  show "cf_persisted_at cf = NOW + 1 \<Longrightarrow>
      confirmation_result p (ref_state 0 3) (ref_request op) (ref_state 0 3) cf = Some refusal"
    using ref_state1_differs by (intro refused ops) simp_all
  show "confirmation_result p (ref_state 0 3) (ref_request ''create:example/repo:42:2'') (ref_state1 0 3 op)
      (ref_confirmation op 1 digest) = Some refusal"
    using ref_proposal_differs(1)[of "''create:example/repo:42:2''" op 0 3 0 3]
    by (intro refused ops) (simp_all add: p_def op)
  show "confirmation_result p (ref_state 0 3) (ref_request op) (ref_state1 0 3 op) (ref_expired op) = Some refusal"
    using answered[of "ref_expired op"] confirmed ref_broker_current broker
    by (simp add: refusal_def) (simp add: ref_expired_def)
  show "confirmation_result p (ref_state 0 3) (ref_request op) (ref_state1 0 3 op)
      (ref_confirmation ''other-operation'' 1 digest) = Some refusal"
    by (intro refused ops) (simp_all add: confirmed op)
  show "confirmation_result p (ref_state 1 3) (ref_request op) (ref_state1 0 3 op) (ref_confirmation op 1 digest)
      = Some refusal"
    using ref_proposal_differs(2) by (intro refused ops) (simp_all add: p_def)
  show "confirmation_result p (ref_state 0 3) (ref_request op) (ref_state1 0 3 op) (ref_forged op)
      = Some (permit_wire (Some ''ValueError''))"
    using answered[of "ref_forged op"] confirmed ref_broker_current bad by (simp add: ref_forged_def)
qed

lemma confirmation_answers:
  assumes "8 \<le> limit" and op: "op = ''create:example/repo:42:1''"
  defines "p \<equiv> ref_proposal 0 3 op" and "hit \<equiv> canonical_admission_state_digest (ref_state1 0 3 op) = replicate 64 (CHR ''d'')"
  shows "\<exists>cases vs. confirmation_cases (ref_state 0 3) (ref_request op) p = Some cases
    \<and> those (map (confirmation_vector limit p) cases) = Some vs \<and> answers vs = published_confirmations hit"
proof -
  have ops: "op \<in> ref_operations" by (simp add: ref_operations_def op)
  note t = typed_refs[OF assms(1)]
  have r: "\<exists>v. typed limit (canon_persistence_confirmation (ref_expired op)) = Some v"
    "\<exists>v. typed limit (canon_persistence_confirmation (ref_forged op)) = Some v"
    "n \<in> {0, 1} \<Longrightarrow> \<exists>v. typed limit (canon_persistence_confirmation (ref_confirmation o1 n d1)) = Some v" for n o1 d1
    using assms(1)
    by (auto intro!: typed_confirmation confirmation_readable
        simp: ref_expired_def ref_forged_def ref_confirmation_def ref_broker_def ADMISSION_SCHEMA_VERSION_def)
  have st: "\<exists>v. typed limit (canon_admission_state (ref_state a 3)) = Some v" if "a \<in> {0, 1}" for a
    using that t(2)[of a 3] by auto
  note a = ref_answers[OF op, folded p_def]
  note answer = confirmation_answer[OF t(4)[of op, folded p_def] _ t(1)]
  note cases = confirmation_case_list[OF ops, folded p_def, unfolded Let_def, folded ref_expired_def ref_forged_def]
  have "list_all2 (\<lambda>x a. \<exists>v. confirmation_vector limit p x = Some v \<and> (vc_id v, vc_expected v) = a)
      (the (confirmation_cases (ref_state 0 3) (ref_request op) p)) (published_confirmations hit)"
    unfolding cases option.sel published_confirmations_def list_all2_Cons list.rel_inject
    using a(1)[of "canonical_admission_state_digest (ref_state1 0 3 op)"] a(1)[of "replicate 64 (CHR ''d'')"]
    by (intro conjI TrueI answer t(3) st r a(2-7)) (simp_all add: hit_def eq_commute)
  from answers_those[OF this] cases show ?thesis by auto
qed

lemma golden_vectors_answers:
  assumes "8 \<le> limit"
  shows "\<exists>vs. golden_vectors limit = Some vs
    \<and> answers vs = published_reservations
      @ published_confirmations (canonical_admission_state_digest (ref_state1 0 3 ''create:example/repo:42:1'')
          = replicate 64 (CHR ''d''))
      @ published_texts"
proof -
  define op where "op = ''create:example/repo:42:1''"
  have ops: "op \<in> ref_operations" by (simp add: op_def ref_operations_def)
  obtain res where res: "reserve_capacity (ref_state 0 3) (ref_request op) 0 NOW = Inr res"
    "ad_proposal res = Some (ref_proposal 0 3 op)"
    "dc_disposition (ad_decision res) = ADMISSION_PROPOSED" "dc_reason (ad_decision res) = REASON_PROPOSED"
    using ref_reserve[OF ops, of 0 3 NOW] by auto
  obtain rs where rs: "reservation_vectors limit (ref_state 0 3) (ref_request op) res (ref_proposal 0 3 op) = Some rs"
    "answers rs = published_reservations"
    using reservation_answers[OF assms ops res(3,4)] by blast
  obtain cases vs where cs: "confirmation_cases (ref_state 0 3) (ref_request op) (ref_proposal 0 3 op) = Some cases"
    "those (map (confirmation_vector limit (ref_proposal 0 3 op)) cases) = Some vs"
    "answers vs = published_confirmations (canonical_admission_state_digest (ref_state1 0 3 op) = replicate 64 (CHR ''d''))"
    using confirmation_answers[OF assms op_def] by blast
  have "golden_vectors limit = Some (rs @ vs @ canonical_vector # integer_vectors)"
    using res(1,2) rs(1) cs(1,2)
    by (simp add: golden_vectors_def bundle_state_value bundle_request_value[OF ops] op_def[symmetric])
  then show ?thesis
    using rs(2) cs(3) text_answers unfolding op_def by (simp add: answers_def)
qed

text \<open>
  The golden vectors are the published ones. The tool derives from the package, on its reference
  records, exactly the answers of \<^verbatim>\<open>vectors.json\<close>: the first request is proposed at revision 1, the request at
  the active limit is held for it, a replay reconciles; of the confirmations one issues a permit, and a
  partial store, a foreign request, expired broker evidence, another operation and a foreign state are
  refused as \<^verbatim>\<open>PersistenceConfirmationError\<close>, a malformed evidence digest as \<^verbatim>\<open>ValueError\<close>; then the text of
  the dictionary with control and astral characters, and the integers. The wrong digest is refused unless
  it happens to be the SHA-256 of the proposed state, which the kernel does not evaluate. The tool never
  raises, if the interpreter can nest eight containers.
\<close>
theorem golden_vectors_published:
  assumes "8 \<le> limit"
  shows "\<exists>vs. build_vectors limit = Some (wide_dict
        [(''contract'', wide_text SCHEMA_VERSION), (''vectors'', WList (map sealed_vector vs))])
    \<and> answers vs = published_reservations
      @ published_confirmations (canonical_admission_state_digest (ref_state1 0 3 ''create:example/repo:42:1'')
          = replicate 64 (CHR ''d''))
      @ published_texts"
  using golden_vectors_answers[OF assms] by (auto simp: build_vectors_def)

theorem golden_vectors_published_witness:
  "\<exists>vs. build_vectors 1000 = Some (wide_dict
        [(''contract'', wide_text SCHEMA_VERSION), (''vectors'', WList (map sealed_vector vs))])
    \<and> take 4 (answers vs) = published_reservations @ [(''confirmation-success-issues-permit'', permit_wire None)]"
  using golden_vectors_published[of 1000] by (force simp: published_reservations_def published_confirmations_def)

end
