(* ===== verification/Bundle.thy ===== *)
theory Bundle
  imports BundleSchema BundleOutcomes
begin

text \<open>
  The artifacts of the bundle, its manifest, and writing or checking them
  (\<^verbatim>\<open>tools/build_interoperability_bundle.py\<close>). The directory of the bundle is a map from file names to
  contents. The command line, the creation of the directory and the printed messages are left out: the
  result is the directory, the stale files the tool reports and its exit status.
\<close>

section \<open>Static artifacts\<close>

definition canonicalization :: wide where
  "canonicalization = wide_dict
    [(''contract'', wide_text SCHEMA_VERSION),
     (''encoding'', wide_text ''UTF-8''),
     (''json_profile'', wide_dict
       [(''object_key_order'', wide_text ''ascending Unicode code point''),
        (''object_keys'', wide_text ''Unicode scalar strings; typed record field names are ASCII''),
        (''strings'', wide_text ''Unicode scalar strings only; lone surrogate code points rejected''),
        (''whitespace'', wide_text ''none outside strings''),
        (''string_escaping'', wide_text ''JSON with every non-ASCII code point escaped''),
        (''numbers'', wide_text ''base-10 integers only; no leading zero; arbitrary precision''),
        (''duplicate_object_keys'', wide_text ''reject''),
        (''non_finite_numbers'', wide_text ''reject''),
        (''terminal_newline'', WBool False)]),
     (''typed_values'', wide_dict
       [(''record_tag'', wide_text ''$type''),
        (''bytes'', wide_dict
          [(''shape'', wide_dict
             [(''$bytes'', wide_text ''RFC 4648 canonical base64 with padding'')])]),
        (''tuple'', wide_text ''JSON array preserving source tuple order''),
        (''enum'', wide_text ''JSON string equal to the declared enum value'')])]"

definition coverage_roles :: "(string \<times> wide) list" where
  "coverage_roles =
    [(''broker.admission_request'', wide_dict
       [(''status'', wide_text ''supported''),
        (''shape'', wide_text ''AdmissionRequest'')]),
     (''broker.admission_result'', wide_dict
       [(''status'', wide_text ''supported''),
        (''shape'', wide_text ''AdmissionResult'')]),
     (''broker.typed_error'', wide_dict
       [(''status'', wide_text ''unavailable_fail_closed''),
        (''reason'', wide_text ''v0.12 raises typed exceptions but defines no broker error envelope'')]),
     (''broker.idempotency'', wide_dict
       [(''status'', wide_text ''unavailable_fail_closed''),
        (''reason'', wide_text ''replay semantics exist, but v0.12 defines no broker idempotency wire'')]),
     (''storage.prepared_create'', wide_dict
       [(''status'', wide_text ''supported''),
        (''shape'', wide_text ''PreparedCreate nested in AdmissionRequest'')]),
     (''storage.create_journal'', wide_dict
       [(''status'', wide_text ''unavailable_fail_closed''),
        (''reason'', wide_text ''v0.12 has a journal model but this bundle does not catalog its store wire'')]),
     (''storage.allocation'', wide_dict
       [(''status'', wide_text ''unavailable_fail_closed''),
        (''reason'', wide_text ''v0.12 defines no durable broker allocation record'')]),
     (''storage.capacity_reservation'', wide_dict
       [(''status'', wide_text ''supported''),
        (''shape'', wide_text ''AdmissionState and ReservationProposal'')]),
     (''storage.permit_issuance'', wide_dict
       [(''status'', wide_text ''supported''),
        (''shape'', wide_text ''PersistenceConfirmation and CreatePermit'')]),
     (''storage.permit_redemption'', wide_dict
       [(''status'', wide_text ''supported''),
        (''shape'', wide_text ''PermitRedemptionProposal and CreateSubmissionAuthorization'')]),
     (''storage.record_outcome'', wide_dict
       [(''status'', wide_text ''unavailable_fail_closed''),
        (''reason'', wide_text ''v0.12 has a transition function but this bundle defines no outcome store wire'')]),
     (''storage.reconciliation'', wide_dict
       [(''status'', wide_text ''unavailable_fail_closed''),
        (''reason'', wide_text ''replay returns reconcile, but v0.12 defines no reconciliation store wire'')]),
     (''storage.execution_close'', wide_dict
       [(''status'', wide_text ''unavailable_fail_closed''),
        (''reason'', wide_text ''v0.12 has typed evidence but no broker close wire'')]),
     (''storage.financial_settlement'', wide_dict
       [(''status'', wide_text ''unavailable_fail_closed''),
        (''reason'', wide_text ''v0.12 has typed evidence but no broker settlement wire'')]),
     (''transaction.atomic_membership'', wide_dict
       [(''status'', wide_text ''unavailable_fail_closed''),
        (''reason'', wide_text ''v0.12 does not define the broker atomic journal/allocation/reservation/permit set'')]),
     (''chain.finality_observation'', wide_dict
       [(''status'', wide_text ''unavailable_fail_closed''),
        (''reason'', wide_text ''v0.12 has typed evidence but no broker finality observation wire'')]),
     (''runtime.io_adapter'', wide_dict
       [(''status'', wide_text ''unavailable_fail_closed''),
        (''reason'', wide_text ''artifact bundle only; no I/O or persistence adapter is supplied'')])]"


definition coverage :: wide where
  "coverage = wide_dict
     [(''contract'', wide_text SCHEMA_VERSION),
      (''normative_role_count'', WInt (int (length coverage_roles))),
      (''normative_role_population'', WList (map wide_text (sort (map fst coverage_roles)))),
      (''roles'', wide_dict coverage_roles),
      (''measured_outcomes'', WList (map wide_text
         [''proposed'', ''active_deployment_limit'', ''reconcile_existing'', ''PersistenceConfirmationError'']))]"

section \<open>The bundle\<close>

definition artifacts :: "nat \<Rightarrow> (string, wide) dict option" where
  "artifacts limit = do {
     model \<leftarrow> returned build_model;
     vectors \<leftarrow> build_vectors limit;
     Some [(''canonicalization.json'', canonicalization), (''model.json'', model),
           (''vectors.json'', vectors), (''coverage.json'', coverage)]
   }"

definition kinds :: "(string, string) dict" where
  "kinds =
     [(''canonicalization.json'', ''canonicalization-rules''), (''model.json'', ''machine-schema''),
      (''vectors.json'', ''golden-vectors''), (''coverage.json'', ''coverage-declaration'')]"

text \<open>\<^verbatim>\<open>name.removesuffix(".json")\<close>.\<close>

definition remove_suffix :: "string \<Rightarrow> string \<Rightarrow> string" where
  "remove_suffix suffix name =
     (if drop (length name - length suffix) name = suffix then take (length name - length suffix) name else name)"

definition manifest_entry :: "string \<times> wide \<Rightarrow> wide option" where
  "manifest_entry = (\<lambda>(name, payload). do {
     kind \<leftarrow> dict_get kinds name;
     Some (wide_dict
       [(''kind'', wide_text kind),
        (''id'', wide_text (SCHEMA_VERSION @ ''/'' @ remove_suffix ''.json'' name)),
        (''media_type'', wide_text ''application/json''), (''path'', wide_text name),
        (''digest'', wide_text (bundle_digest payload))])
   })"

definition manifest :: "(string, wide) dict \<Rightarrow> wide option" where
  "manifest payloads = do {
     entries \<leftarrow> those (map manifest_entry (sort_key fst payloads));
     Some (wide_dict
       [(''contract'', wide_text SCHEMA_VERSION), (''bundle_format'', WInt 1),
        (''core_model'', wide_dict
           [(''package'', wide_text ''akash-lease-core''), (''version'', wide_text ''0.12.0'')]),
        (''artifacts'', WList entries)])
   }"

record bundle_outcome =
  bo_directory :: "string \<Rightarrow> string option"
  bo_stale :: "string list"
  bo_status :: int

definition write_or_check :: "nat \<Rightarrow> bool \<Rightarrow> (string \<Rightarrow> string option) \<Rightarrow> bundle_outcome option" where
  "write_or_check limit check directory = do {
     made \<leftarrow> artifacts limit;
     index \<leftarrow> manifest made;
     let payloads = dict_set ''bundle.json'' index made;
         stale = (if check then map fst (filter (\<lambda>(name, payload).
             directory name \<noteq> Some (canonical_bytes payload)) payloads) else []);
         written = (if check then directory
           else fold (\<lambda>(name, payload) d. d(name \<mapsto> canonical_bytes payload)) payloads directory) in
     Some \<lparr>bo_directory = written, bo_stale = stale, bo_status = (if stale \<noteq> [] then 1 else 0)\<rparr>
   }"

section \<open>Writing and checking\<close>

declare text_of_Cons [simp del] text_of_Nil [simp del]

definition made_by :: "wide \<Rightarrow> (string, wide) dict" where
  "made_by vectors = [(''canonicalization.json'', canonicalization), (''model.json'', interop_model),
     (''vectors.json'', vectors), (''coverage.json'', coverage)]"

lemma artifacts_value: "build_vectors limit = Some vectors \<Longrightarrow> artifacts limit = Some (made_by vectors)"
  by (simp add: artifacts_def build_model_value made_by_def)

lemma those_all: "(\<And>x. x \<in> set xs \<Longrightarrow> \<exists>y. f x = Some y) \<Longrightarrow> \<exists>ys. those (map f xs) = Some ys
    \<and> (\<forall>x \<in> set xs. the (f x) \<in> set ys)"
proof (induction xs)
  case (Cons x xs)
  then obtain y ys where "f x = Some y" "those (map f xs) = Some ys" "\<forall>x \<in> set xs. the (f x) \<in> set ys"
    by (metis list.set_intros(1,2))
  then show ?case by simp
qed simp

text \<open>The manifest has, for every artifact, an entry with its name and the digest of its bytes.\<close>

definition lists :: "wide \<Rightarrow> string \<Rightarrow> string \<Rightarrow> bool" where
  "lists manifest_value name content \<longleftrightarrow> (\<exists>entries entry. member manifest_value ''artifacts'' = Some (WList entries)
     \<and> entry \<in> set entries \<and> member entry ''path'' = Some (wide_text name)
     \<and> member entry ''digest'' = Some (wide_text (''sha256:'' @ sha256_hexdigest content)))"

lemma manifest_total:
  assumes "\<forall>(name, payload) \<in> set made. dict_get kinds name \<noteq> None"
  shows "\<exists>m. manifest made = Some m \<and> (\<forall>(name, payload) \<in> set made. lists m name (canonical_bytes payload))"
proof -
  obtain entries where e: "those (map manifest_entry (sort_key fst made)) = Some entries"
    "\<forall>x \<in> set made. the (manifest_entry x) \<in> set entries"
    using those_all[of "sort_key fst made" manifest_entry] assms by (force simp: manifest_entry_def)
  let ?m = "wide_dict
       [(''contract'', wide_text SCHEMA_VERSION), (''bundle_format'', WInt 1),
        (''core_model'', wide_dict
           [(''package'', wide_text ''akash-lease-core''), (''version'', wide_text ''0.12.0'')]),
        (''artifacts'', WList entries)]"
  have m: "manifest made = Some ?m" using e(1) by (simp add: manifest_def)
  have "lists ?m name (canonical_bytes payload)" if mem: "(name, payload) \<in> set made" for name payload
  proof -
    obtain kind where "dict_get kinds name = Some kind" using assms mem by auto
    then have "member (the (manifest_entry (name, payload))) ''path'' = Some (wide_text name)"
      "member (the (manifest_entry (name, payload))) ''digest'' = Some (wide_text (bundle_digest payload))"
      by (simp_all add: manifest_entry_def member_def)
    then show ?thesis using e(2) mem unfolding lists_def bundle_digest_def by (force simp: member_def)
  qed
  then show ?thesis using m by blast
qed

lemma fold_write:
  "distinct (map fst ps) \<Longrightarrow> fold (\<lambda>(name, p) d. d(name \<mapsto> f p)) ps d
    = (\<lambda>name. case map_of ps name of None \<Rightarrow> d name | Some p \<Rightarrow> Some (f p))"
proof (induction ps arbitrary: d)
  case (Cons q ps)
  have "map_of ps (fst q) = None" using Cons.prems by (simp add: map_of_eq_None_iff)
  then show ?case using Cons by (auto simp: fun_eq_iff split: option.split prod.split)
qed simp

text \<open>
  Writing the bundle and checking it agree. The tool makes the five artifacts without raising. After
  writing into any directory, every artifact has exactly its canonical bytes there, all other files are
  untouched, the manifest lists each of the other four with the SHA-256 of those bytes, and a check
  passes. A check never changes a file, reports exactly the artifacts whose file is missing or differs by
  any byte, and exits with 0 if and only if there is none.
\<close>
theorem write_then_check:
  assumes "8 \<le> limit"
  shows "\<exists>made index. artifacts limit = Some made \<and> manifest made = Some index
    \<and> (let files = dict_set ''bundle.json'' index made in
       (\<forall>d. \<exists>w. write_or_check limit False d = Some \<lparr>bo_directory = w, bo_stale = [], bo_status = 0\<rparr>
          \<and> (\<forall>name. w name = (case dict_get files name of
               None \<Rightarrow> d name | Some payload \<Rightarrow> Some (canonical_bytes payload)))
          \<and> list_all (\<lambda>(name, payload). lists index name (the (w name))) made
          \<and> write_or_check limit True w = Some \<lparr>bo_directory = w, bo_stale = [], bo_status = 0\<rparr>)
       \<and> (\<forall>d. \<exists>stale. write_or_check limit True d
              = Some \<lparr>bo_directory = d, bo_stale = stale, bo_status = (if stale = [] then 0 else 1)\<rparr>
          \<and> set stale = {name. \<exists>payload. dict_get files name = Some payload
              \<and> d name \<noteq> Some (canonical_bytes payload)}))"
proof -
  obtain vs where "golden_vectors limit = Some vs" using golden_vectors_answers[OF assms] by blast
  then obtain vectors where "build_vectors limit = Some vectors" by (simp add: build_vectors_def)
  then have made: "artifacts limit = Some (made_by vectors)" by (rule artifacts_value)
  obtain index where index: "manifest (made_by vectors) = Some index"
    "\<forall>(name, payload) \<in> set (made_by vectors). lists index name (canonical_bytes payload)"
    using manifest_total[of "made_by vectors"] by (auto simp: made_by_def kinds_def)
  let ?files = "dict_set ''bundle.json'' index (made_by vectors)"
  let ?w = "\<lambda>d name. case dict_get ?files name of None \<Rightarrow> d name | Some payload \<Rightarrow> Some (canonical_bytes payload)"
  have distinct: "distinct (map fst ?files)" by (simp add: made_by_def)
  have written: "fold (\<lambda>(name, p) d. d(name \<mapsto> canonical_bytes p)) ?files d = ?w d" for d
    by (rule fold_write[OF distinct])
  have files: "dict_get ?files name = Some payload \<longleftrightarrow> (name, payload) \<in> set ?files" for name payload
    by (rule map_of_eq_Some_iff[OF distinct])
  have step: "write_or_check limit check d = Some (let stale = (if check then map fst (filter (\<lambda>(name, payload).
        d name \<noteq> Some (canonical_bytes payload)) ?files) else []) in
      \<lparr>bo_directory = (if check then d else ?w d), bo_stale = stale, bo_status = (if stale \<noteq> [] then 1 else 0)\<rparr>)" for check d
    using written[of d] by (simp only: write_or_check_def made index(1) bind.bind_lunit Let_def)
  define stale where "stale d = map fst (filter (\<lambda>(name, payload). d name \<noteq> Some (canonical_bytes payload)) ?files)" for d
  have stale: "set (stale d) = {name. \<exists>payload. dict_get ?files name = Some payload
      \<and> d name \<noteq> Some (canonical_bytes payload)}" for d
    unfolding files by (force simp: stale_def)
  have "set (stale (?w d)) = {}" for d unfolding stale by auto
  then have fresh: "stale (?w d) = []" for d by simp
  have mode_write: "write_or_check limit False d = Some \<lparr>bo_directory = ?w d, bo_stale = [], bo_status = 0\<rparr>" for d
    using step[of False d] by simp
  have mode_check: "write_or_check limit True d
      = Some \<lparr>bo_directory = d, bo_stale = stale d, bo_status = (if stale d = [] then 0 else 1)\<rparr>" for d
    using step[of True d] by (simp add: stale_def Let_def)
  have keep: "dict_get ?files name = Some payload" if "(name, payload) \<in> set (made_by vectors)" for name payload
    unfolding files using that by (auto simp: made_by_def)
  have "list_all (\<lambda>(name, payload). lists index name (the (?w d name))) (made_by vectors)" for d
    using index(2) keep by (auto simp: list_all_iff)
  then show ?thesis
    using made index(1) mode_write mode_check fresh stale unfolding Let_def by (intro exI conjI allI) (auto; fail)+
qed

theorem write_then_check_witness:
  "\<exists>w. write_or_check 1000 False Map.empty = Some \<lparr>bo_directory = w, bo_stale = [], bo_status = 0\<rparr>
    \<and> write_or_check 1000 True w = Some \<lparr>bo_directory = w, bo_stale = [], bo_status = 0\<rparr>"
  using write_then_check[of 1000] by (auto simp: Let_def)


end
