(* ===== verification/Spec2Isabelle.thy ===== *)
theory Spec2Isabelle
  imports ProviderStatus AuctionResume LeaseRecovery Wallets JournalProperties AdmissionProperties
    ExposureProperties Orders Funding Qualification WorkloadIdentityProperties CloseProperties
    FrameProperties RecoveryCodec FinancialCodec AdmissionTotal Bundle
begin

text \<open>
  Verification development of \<^verbatim>\<open>akash-lease-core\<close>, the Python package under
  \<^verbatim>\<open>src/src/akash_lease_core\<close>. The package is sans-I/O: every function decides from the values it
  is given, so the model is a set of pure functions, one per source function, composed the way
  the code composes them. A caller (a runner, a broker) feeds observations in, persists the
  states the package proposes, and acts on its decisions.

  Parts and how they interact. A workload names its deployment groups
  (\<^verbatim>\<open>workload_identity.py\<close>), a wallet is chosen (\<^verbatim>\<open>wallets.py\<close>) and its allowance checked
  (\<^verbatim>\<open>funding.py\<close>); the create is prepared, admitted against containment budgets
  (\<^verbatim>\<open>creation_admission.py\<close>), recorded in an append-only journal (\<^verbatim>\<open>create_journal.py\<close>) and its
  native spending bounded (\<^verbatim>\<open>operation_exposure.py\<close>). Bids are collected and one is selected
  (\<^verbatim>\<open>auction.py\<close>) on the capacity each provider reported (\<^verbatim>\<open>capacity.py\<close>), among providers that
  qualified (\<^verbatim>\<open>qualification.py\<close>). Lease failures are recovered (\<^verbatim>\<open>lease_recovery.py\<close>) and dead
  orders swept (\<^verbatim>\<open>orders.py\<close>); a deployment is closed only on complete evidence
  (\<^verbatim>\<open>close_policy.py\<close>). Commands run in a lease over its shell, whose frames, URL and proxy envelope
  \<^verbatim>\<open>__init__.py\<close> codes. What is persisted is read back strictly (\<^verbatim>\<open>recovery_codec.py\<close>,
  \<^verbatim>\<open>financial_codec.py\<close>). Owners and sequence numbers are canonical throughout
  (\<^verbatim>\<open>chain_identity.py\<close>).

  Shared ground. \<open>Prelude\<close>: exceptions as values (\<open>py_error\<close>, \<open>result\<close>, \<open>bindR\<close>),
  insertion-ordered dictionaries, stable sorting, minima, and the locale \<open>keyed_ranking\<close> of
  rankings that do not depend on delivery order (interpreted by the auction and the wallets).
  \<open>PyNum\<close>: binary64 floats and decimals as exact rationals with explicit rounding, NaN and
  infinities. \<open>DecimalContext\<close>: addition of decimals with the precision, the exponent range and the
  signals of a context. \<open>PyValue\<close>: dynamically typed values. \<open>DecimalText\<close>: integer and decimal text.
  \<open>Digest\<close>: SHA-256 on 32-bit words, base64 and canonical JSON, all executable.

  Capacity (\<^verbatim>\<open>capacity.py\<close>). \<open>Capacity\<close> holds the records and their validation, \<open>Placement\<close> the
  bin-packing search \<^verbatim>\<open>_replicas_fit_nodes\<close>, \<open>ProviderFit\<close> the verdict \<^verbatim>\<open>fit\<close> and the ranking
  score, \<open>ProviderStatus\<close> the adapter from the provider's payload. The lemmas show that the
  search is exact with respect to the existence of a placement, that both definite verdicts are
  proofs, what the adapter returns, and when it can raise: on a payload with a signaling NaN, with a
  decimal too fine for any precision, or with a free value that exceeds the total only as decimal text.
  The exact sum doubles its precision until no rounding is signalled and ends at the largest precision a
  context can have; its termination is proved, so no fuel is needed. The search carries the source's limit of visited states
  as a parameter of \<open>expand\<close>; reaching it is the verdict PLACEMENT_SEARCH_UNSUPPORTED, and the
  recursion over replicas is structural, so no fuel is needed.

  Auction (\<^verbatim>\<open>auction.py\<close>). \<open>Auction\<close>: bids, policy, the functions of \<^verbatim>\<open>observe\<close> and
  \<^verbatim>\<open>evaluate\<close>; \<open>AuctionObserve\<close>, \<open>AuctionDecision\<close>: their lemmas; \<open>AuctionProperties\<close>: what
  observing preserves and what a decision guarantees; \<open>AuctionSnapshot\<close>: \<^verbatim>\<open>snapshot\<close> and
  \<^verbatim>\<open>restore\<close> with their encoders; \<open>AuctionResume\<close>: that a restored auction continues as the
  original would.

  Journal (\<^verbatim>\<open>create_journal.py\<close>). \<open>JournalData\<close>: every evidence class, its \<^verbatim>\<open>__post_init__\<close> as a
  predicate \<open>is_...\<close> and its canonical encoding as \<open>canon_...\<close>; \<open>Journal\<close>: entries, the
  transition table, the validation of an entry and append; \<open>JournalSample\<close>: one concrete
  operation; \<open>JournalProperties\<close>: lifecycle, uniqueness of bindings, and the hash chain.

  Admission (\<^verbatim>\<open>creation_admission.py\<close>). \<open>AdmissionData\<close>: budgets, censuses, requests,
  reservations, permits; \<open>Admission\<close>: reserve, confirm, redeem, authorize and the release
  transitions; \<open>AdmissionSample\<close>, \<open>AdmissionProperties\<close>: the containment invariant over every
  sequence of steps, single redemption, and what an authorization rests on; \<open>AdmissionTotal\<close>: that
  reserving and confirming never raise on valid inputs, and exactly when they propose and issue a permit.

  Exposure (\<^verbatim>\<open>operation_exposure.py\<close>). \<open>Exposure\<close>: vectors, records and the three proposals;
  \<open>LiabilityVectors\<close>: vectors as finite maps and their exact sum; \<open>ExposureProperties\<close>: the
  append-only history, the lifetime maximum, and that observations are never refused for it.

  Close policy (\<^verbatim>\<open>close_policy.py\<close>). \<open>CloseData\<close>: the evidence classes, reason codes and digests;
  \<open>Close\<close>: the checks as ordered lists of early returns and \<^verbatim>\<open>evaluate_close\<close> in its stages;
  \<open>CloseProperties\<close>: what an ALLOW rests on for each intent, and that every decision is well formed.

  Lease shell (\<^verbatim>\<open>__init__.py\<close>). \<open>JsonText\<close>: the reader of \<^verbatim>\<open>json.loads\<close> (with the detection of the
  encoding of bytes, and the recursion limit as a depth) and strict base64; \<open>FrameCodec\<close>: frames, exit
  codes, the URL, the trace and the success verdict; \<open>FrameProperties\<close>: where an exit code comes from,
  that the URL carries the argument vector, and what a trace shows. The reader recurses on the rest of
  the text and its termination is proved, so no fuel is needed.

  Recovery (\<^verbatim>\<open>recovery_codec.py\<close>, \<^verbatim>\<open>financial_codec.py\<close>). \<open>JsonRoundtrip\<close>: the reader reads back what the
  writer wrote. \<open>JsonDecode\<close>: the hooks and bounds, one combinator per branch of \<^verbatim>\<open>_typed\<close>, \<open>decode_root\<close>
  for \<^verbatim>\<open>_decode\<close>, and the locale \<open>stored_type\<close>: what a decoder owes to the document around it, and that
  decoding at the root is then exactly the inverse of the canonical encoding. \<open>StoredJournal\<close>,
  \<open>StoredAdmission\<close>, \<open>StoredFinancial\<close>: the decoder of every admitted class, read off its type hints, and
  the interpretation of the locale for it. \<open>RecoveryCodec\<close>, \<open>FinancialCodec\<close>: the roots; that a stored
  journal is recovered exactly, that restarts between appends do not show, and that financial data
  survives storage under its own type only. The depth bound of 64 stays below the recursion limit of the
  interpreter, which the statements take as a parameter.

  Interoperability bundle (\<^verbatim>\<open>tools/build_interoperability_bundle.py\<close>). \<open>BundleJson\<close>: JSON over code points,
  and that the tool writes back the bytes of the package; \<open>BundleFixtures\<close>: the reference records, built
  through the constructors; \<open>BundleVectors\<close> and \<open>BundleOutcomes\<close>: the golden vectors, and that their answers
  are the published ones; \<open>BundleSchema\<close>: the machine schema from the type hints, and that every value the
  package encodes conforms to it; \<open>Bundle\<close>: artifacts, manifest, and that writing and checking agree. The
  answers need a recursion limit of eight containers. One of them, the confirmation of a wrong digest, is
  stated up to the equality of that digest with the SHA-256 of the proposed state: the definition of
  SHA-256 is executable, but the kernel does not evaluate it on texts of that size.

  Smaller parts. \<open>Identity\<close>: Bech32 owners, sequence numbers. \<open>WorkloadIdentity\<close> with
  \<open>WorkloadIdentityProperties\<close>: names, register, populations, SDL renaming. \<open>LeaseRecovery\<close>,
  \<open>Wallets\<close>, \<open>Orders\<close>, \<open>Funding\<close>, \<open>Qualification\<close>: one decision function each, with the
  statement of what it decides.

  Conventions. A class is a record, an enumeration a datatype, a constructor's validation a
  predicate or a function into \<open>result\<close>; an exception is a value of \<open>py_error\<close> and its text is
  not modelled. A string is a list of 8-bit characters, read as the code points below 256. A check
  that only tests the type of an argument holds by typing, except where the code accepts any
  object: there the argument is a \<open>pyval\<close>. Python integers are \<open>int\<close>, except in SHA-256.

  Not modelled: reason and message texts; the memory that long decimals take and the exponent limits of
  decimal text and of the negation in the wallet ranking (10 to the power of 1000000 and beyond); object identity beyond equality; the private
  construction tokens that keep callers from forging proposals (the model has only the values);
  the text of \<^verbatim>\<open>FrameTrace.render\<close>; the command line, the messages and the creation of the directory
  in \<^verbatim>\<open>tools/build_interoperability_bundle.py\<close>.
\<close>

end
